(* ===== verification/PyValue.thy ===== *)
theory PyValue
  imports Main "HOL-Library.AList" "HOL-Library.Product_Lexorder" "HOL-Library.List_Lexorder"
    "HOL-Library.Char_ord" "HOL-Library.Option_ord"
begin

text \<open>
  The Python values the runtime passes around, and the operations of the language and its
  standard library the modelled files apply to them.

  Event payloads, interrupt payloads and timeline items are JSON values: \<open>pyval\<close>. A dictionary is an
  association list in insertion order (\<open>dict\<close>), so that iteration order and \<open>d[k] = v\<close> on a present
  key (which keeps its place) are those of Python. A float is kept as the text \<open>repr\<close> gives for it:
  no modelled code computes with one. A string is a list of characters with code points below 256.

  An operation that may raise returns an option: \<open>None\<close> stands for the exception (a \<open>TypeError\<close> or a
  \<open>ValueError\<close> of the built-in). The exceptions that the runtime itself raises or tells apart are the
  constructors of \<open>pyerr\<close>.
\<close>

section \<open>Collections of facts\<close>

named_theorems py_defs \<open>definitions of the Python primitives\<close>
named_theorems store_defs \<open>definitions of the event store's operations\<close>
named_theorems frame \<open>what an operation leaves unchanged\<close>

section \<open>Values\<close>

datatype pyval =
    PNone
  | PBool bool
  | PInt int
  | PFloat string
  | PStr string
  | PList "pyval list"
  | PDict "(string \<times> pyval) list"

type_synonym dict = "(string \<times> pyval) list"

datatype pyerr =
    TypeError
  | ValueError string
  | KeyError string
  | IntegrityError
  | InvalidRunStatusError string
  | InvalidRunTransitionError string string
  | ThreadNotActiveError string string
  | ActiveRunExistsError string string
  | RunConcurrencyLimitError int
  | IdempotencyConflictError string string

text \<open>\<open>bool(x)\<close>, and \<open>x or y\<close>.\<close>

fun truthy :: "pyval \<Rightarrow> bool" where
  "truthy PNone = False"
| "truthy (PBool b) = b"
| "truthy (PInt i) = (i \<noteq> 0)"
| "truthy (PFloat t) = (t \<noteq> ''0.0'' \<and> t \<noteq> ''-0.0'')"
| "truthy (PStr s) = (s \<noteq> [])"
| "truthy (PList xs) = (xs \<noteq> [])"
| "truthy (PDict d) = (d \<noteq> [])"

definition py_or :: "pyval \<Rightarrow> pyval \<Rightarrow> pyval" where
  "py_or a b = (if truthy a then a else b)"

fun is_dict :: "pyval \<Rightarrow> bool" where
  "is_dict (PDict d) = True"
| "is_dict v = False"

fun is_list :: "pyval \<Rightarrow> bool" where
  "is_list (PList xs) = True"
| "is_list v = False"

text \<open>\<open>v if isinstance(v, dict) else {}\<close> and \<open>v if isinstance(v, list) else []\<close>.\<close>

fun as_dict :: "pyval \<Rightarrow> dict" where
  "as_dict (PDict d) = d"
| "as_dict v = []"

fun as_list :: "pyval \<Rightarrow> pyval list" where
  "as_list (PList xs) = xs"
| "as_list v = []"

section \<open>Dictionaries\<close>

definition dget_or :: "dict \<Rightarrow> string \<Rightarrow> pyval \<Rightarrow> pyval" where
  "dget_or d k v = (case map_of d k of None \<Rightarrow> v | Some w \<Rightarrow> w)"

definition dget :: "dict \<Rightarrow> string \<Rightarrow> pyval" where
  "dget d k = dget_or d k PNone"

definition dhas :: "dict \<Rightarrow> string \<Rightarrow> bool" where
  "dhas d k = (map_of d k \<noteq> None)"

definition dset :: "string \<Rightarrow> pyval \<Rightarrow> dict \<Rightarrow> dict" where
  "dset k v d = AList.update k v d"

definition dsetdefault :: "string \<Rightarrow> pyval \<Rightarrow> dict \<Rightarrow> dict" where
  "dsetdefault k v d = (if dhas d k then d else dset k v d)"

definition dupdate :: "dict \<Rightarrow> dict \<Rightarrow> dict" where
  "dupdate d e = fold (\<lambda>(k, v). dset k v) e d"

definition ddel :: "string \<Rightarrow> dict \<Rightarrow> dict" where
  "ddel k d = AList.delete k d"

definition opt_str :: "string option \<Rightarrow> pyval" where
  "opt_str x = (case x of None \<Rightarrow> PNone | Some s \<Rightarrow> PStr s)"

definition opt_int :: "int option \<Rightarrow> pyval" where
  "opt_int x = (case x of None \<Rightarrow> PNone | Some i \<Rightarrow> PInt i)"

lemma dget_or_dset [simp]: "dget_or (dset k v d) k' w = (if k' = k then v else dget_or d k' w)"
  by (simp add: dget_or_def dset_def update_conv)

lemma dget_dset [simp]: "dget (dset k v d) k' = (if k' = k then v else dget d k')"
  by (simp add: dget_def)

lemma dhas_dset [simp]: "dhas (dset k v d) k' = (k' = k \<or> dhas d k')"
  by (simp add: dhas_def dset_def update_conv)

lemma dset_neq_Nil [simp]: "dset k v d \<noteq> []"
  by (simp add: dset_def update_nonempty)

lemma dget_Nil [simp]: "dget [] k = PNone"
  by (simp add: dget_def dget_or_def)

lemma dget_Cons [simp]: "dget ((k, v) # d) k' = (if k = k' then v else dget d k')"
  by (simp add: dget_def dget_or_def)

lemma dget_or_Nil [simp]: "dget_or [] k w = w"
  by (simp add: dget_or_def)

lemma dget_or_Cons [simp]: "dget_or ((k, v) # d) k' w = (if k = k' then v else dget_or d k' w)"
  by (simp add: dget_or_def)

lemma dhas_Nil [simp]: "\<not> dhas [] k"
  by (simp add: dhas_def)

lemma dhas_Cons [simp]: "dhas ((k, v) # d) k' = (k = k' \<or> dhas d k')"
  by (simp add: dhas_def)

lemma dhas_iff_keys: "dhas d k \<longleftrightarrow> k \<in> fst ` set d"
  by (auto simp: dhas_def map_of_eq_None_iff)

lemma dget_eq_None_if_absent: "\<not> dhas d k \<Longrightarrow> dget d k = PNone"
  by (simp add: dhas_def dget_def dget_or_def)

lemma distinct_keys_dset: "distinct (map fst d) \<Longrightarrow> distinct (map fst (dset k v d))"
  by (simp add: dset_def distinct_update)

lemma dget_ddel [simp]: "dget (ddel k d) k' = (if k' = k then PNone else dget d k')"
  by (simp add: dget_def dget_or_def ddel_def delete_conv)

section \<open>Strings\<close>

text \<open>\<open>str.isspace\<close> for the code points below 256.\<close>

definition is_space :: "char \<Rightarrow> bool" where
  "is_space c = (let n = (of_char c :: nat) in
     (9 \<le> n \<and> n \<le> 13) \<or> (28 \<le> n \<and> n \<le> 32) \<or> n = 133 \<or> n = 160)"

definition lstrip :: "string \<Rightarrow> string" where
  "lstrip s = dropWhile is_space s"

definition rstrip :: "string \<Rightarrow> string" where
  "rstrip s = rev (dropWhile is_space (rev s))"

definition strip :: "string \<Rightarrow> string" where
  "strip s = rstrip (lstrip s)"

lemma lstrip_rstrip_lstrip: "lstrip (rstrip (lstrip s)) = rstrip (lstrip s)"
proof (cases "lstrip s")
  case Nil
  show ?thesis unfolding Nil by (simp add: lstrip_def rstrip_def)
next
  case (Cons x t)
  then have "\<not> is_space x" unfolding lstrip_def by (metis hd_dropWhile list.distinct(1) list.sel(1))
  moreover from this have "rstrip (x # t) = x # rstrip t"
    by (simp add: rstrip_def dropWhile_append dropWhile_eq_Nil_conv)
  ultimately show ?thesis unfolding Cons by (auto simp: lstrip_def)
qed

lemma strip_strip [simp]: "strip (strip s) = strip s"
  unfolding strip_def lstrip_rstrip_lstrip by (simp add: rstrip_def)

definition lower_char :: "char \<Rightarrow> char" where
  "lower_char c = (let n = (of_char c :: nat) in
     if (65 \<le> n \<and> n \<le> 90) \<or> (192 \<le> n \<and> n \<le> 222 \<and> n \<noteq> 215) then char_of (n + 32) else c)"

definition lower :: "string \<Rightarrow> string" where
  "lower s = map lower_char s"

definition upper_char :: "char \<Rightarrow> char" where
  "upper_char c = (let n = (of_char c :: nat) in
     if (97 \<le> n \<and> n \<le> 122) \<or> (224 \<le> n \<and> n \<le> 254 \<and> n \<noteq> 247) then char_of (n - 32) else c)"

text \<open>\<open>str.upper\<close>, on text without the three code points whose upper case is not one code point below
  256 (223, 181 and 255).\<close>

definition upper :: "string \<Rightarrow> string" where
  "upper s = map upper_char s"

fun join :: "string \<Rightarrow> string list \<Rightarrow> string" where
  "join sep [] = []"
| "join sep [x] = x"
| "join sep (x # y # xs) = x @ sep @ join sep (y # xs)"

fun starts_with :: "string \<Rightarrow> string \<Rightarrow> bool" where
  "starts_with s [] = True"
| "starts_with [] (p # ps) = False"
| "starts_with (c # s) (p # ps) = (c = p \<and> starts_with s ps)"

text \<open>\<open>needle in s\<close>.\<close>

fun contains :: "string \<Rightarrow> string \<Rightarrow> bool" where
  "contains [] needle = (needle = [])"
| "contains (c # s) needle = (starts_with (c # s) needle \<or> contains s needle)"

text \<open>\<open>s.split()\<close>: the maximal runs of characters that are not white space.\<close>

fun words_acc :: "string \<Rightarrow> string \<Rightarrow> string list" where
  "words_acc cur [] = (if cur = [] then [] else [rev cur])"
| "words_acc cur (c # s) =
     (if is_space c then (if cur = [] then words_acc [] s else rev cur # words_acc [] s)
      else words_acc (c # cur) s)"

definition words :: "string \<Rightarrow> string list" where
  "words s = words_acc [] s"

section \<open>Integers as text\<close>

fun nat_str :: "nat \<Rightarrow> string" where
  "nat_str n = (if n < 10 then [char_of (48 + n)] else nat_str (n div 10) @ [char_of (48 + n mod 10)])"

declare nat_str.simps [simp del]

definition int_str :: "int \<Rightarrow> string" where
  "int_str i = (if i < 0 then CHR ''-'' # nat_str (nat (- i)) else nat_str (nat i))"

definition is_digit :: "char \<Rightarrow> bool" where
  "is_digit c = (let n = (of_char c :: nat) in 48 \<le> n \<and> n \<le> 57)"

definition digit_val :: "char \<Rightarrow> int" where
  "digit_val c = int (of_char c) - 48"

text \<open>The digits of \<open>int(text)\<close>: single underscores are allowed between digits.\<close>

fun parse_digits :: "int \<Rightarrow> string \<Rightarrow> int option" where
  "parse_digits acc [] = Some acc"
| "parse_digits acc (c # s) =
     (if is_digit c then parse_digits (10 * acc + digit_val c) s
      else if c = CHR ''_'' then
        (case s of [] \<Rightarrow> None
         | d # s' \<Rightarrow> if is_digit d then parse_digits (10 * acc + digit_val d) s' else None)
      else None)"

definition parse_nat :: "string \<Rightarrow> int option" where
  "parse_nat s = (case s of [] \<Rightarrow> None | c # s' \<Rightarrow>
     if is_digit c then parse_digits (digit_val c) s' else None)"

definition parse_int :: "string \<Rightarrow> int option" where
  "parse_int s = (case strip s of [] \<Rightarrow> None
     | c # t \<Rightarrow> if c = CHR ''-'' then map_option uminus (parse_nat t)
                else if c = CHR ''+'' then parse_nat t
                else parse_nat (c # t))"

text \<open>
  \<open>int(f)\<close> for a float given by its \<open>repr\<close>: the digits before the point, when the text is in fixed
  notation (absolute value below 10 to the 16) and 0 for a negative exponent. The larger floats, the
  infinities and \<open>nan\<close> are outside this model of \<open>int\<close> and count as raising.
\<close>

definition float_trunc :: "string \<Rightarrow> int option" where
  "float_trunc t =
     (if contains t ''e-'' then Some 0
      else if contains t ''e'' then None
      else parse_int (takeWhile (\<lambda>c. c \<noteq> CHR ''.'') t))"

fun py_int :: "pyval \<Rightarrow> int option" where
  "py_int PNone = None"
| "py_int (PBool b) = Some (if b then 1 else 0)"
| "py_int (PInt i) = Some i"
| "py_int (PFloat t) = float_trunc t"
| "py_int (PStr s) = parse_int s"
| "py_int (PList xs) = None"
| "py_int (PDict d) = None"

fun py_len :: "pyval \<Rightarrow> int option" where
  "py_len (PStr s) = Some (int (length s))"
| "py_len (PList xs) = Some (int (length xs))"
| "py_len (PDict d) = Some (int (length d))"
| "py_len v = None"

text \<open>The items a \<open>for\<close> loop over the value visits.\<close>

fun py_iter :: "pyval \<Rightarrow> pyval list option" where
  "py_iter (PStr s) = Some (map (\<lambda>c. PStr [c]) s)"
| "py_iter (PList xs) = Some xs"
| "py_iter (PDict d) = Some (map (\<lambda>(k, v). PStr k) d)"
| "py_iter v = None"

section \<open>Text of a value: \<open>repr\<close>, \<open>str\<close> and \<open>json.dumps\<close>\<close>

definition hex_digit :: "nat \<Rightarrow> char" where
  "hex_digit n = (if n < 10 then char_of (48 + n) else char_of (87 + n))"

definition hex2 :: "nat \<Rightarrow> string" where
  "hex2 n = [hex_digit (n div 16 mod 16), hex_digit (n mod 16)]"

definition repr_char :: "char \<Rightarrow> char \<Rightarrow> string" where
  "repr_char q c = (let n = (of_char c :: nat) in
     if n = 92 then [c, c]
     else if c = q then [char_of (92 :: nat), c]
     else if n = 10 then [char_of (92 :: nat), CHR ''n'']
     else if n = 13 then [char_of (92 :: nat), CHR ''r'']
     else if n = 9 then [char_of (92 :: nat), CHR ''t'']
     else if n < 32 \<or> (127 \<le> n \<and> n \<le> 160) \<or> n = 173 then char_of (92 :: nat) # CHR ''x'' # hex2 n
     else [c])"

definition str_repr :: "string \<Rightarrow> string" where
  "str_repr s =
     (let sq = char_of (39 :: nat); dq = char_of (34 :: nat);
          q = (if sq \<in> set s \<and> dq \<notin> set s then dq else sq)
      in q # concat (map (repr_char q) s) @ [q])"

fun py_repr :: "pyval \<Rightarrow> string" where
  "py_repr PNone = ''None''"
| "py_repr (PBool b) = (if b then ''True'' else ''False'')"
| "py_repr (PInt i) = int_str i"
| "py_repr (PFloat t) = t"
| "py_repr (PStr s) = str_repr s"
| "py_repr (PList xs) = ''['' @ join '', '' (map py_repr xs) @ '']''"
| "py_repr (PDict d) =
     ''{'' @ join '', '' (map (\<lambda>kv. str_repr (fst kv) @ '': '' @ py_repr (snd kv)) d) @ ''}''"

fun py_str :: "pyval \<Rightarrow> string" where
  "py_str (PStr s) = s"
| "py_str v = py_repr v"

text \<open>\<open>str(x or "")\<close>, the normal form most of the code reads a field in.\<close>

definition str_or :: "pyval \<Rightarrow> string" where
  "str_or v = py_str (py_or v (PStr []))"

definition json_char :: "char \<Rightarrow> string" where
  "json_char c = (let n = (of_char c :: nat) in
     if n = 34 \<or> n = 92 then [char_of (92 :: nat), c]
     else if n = 10 then [char_of (92 :: nat), CHR ''n'']
     else if n = 13 then [char_of (92 :: nat), CHR ''r'']
     else if n = 9 then [char_of (92 :: nat), CHR ''t'']
     else if n = 12 then [char_of (92 :: nat), CHR ''f'']
     else if n = 8 then [char_of (92 :: nat), CHR ''b'']
     else if n < 32 then char_of (92 :: nat) # ''u00'' @ hex2 n
     else [c])"

definition json_str :: "string \<Rightarrow> string" where
  "json_str s = char_of (34 :: nat) # concat (map json_char s) @ [char_of (34 :: nat)]"

text \<open>\<open>json.dumps(v, ensure_ascii=False)\<close>.\<close>

fun json_dumps :: "pyval \<Rightarrow> string" where
  "json_dumps PNone = ''null''"
| "json_dumps (PBool b) = (if b then ''true'' else ''false'')"
| "json_dumps (PInt i) = int_str i"
| "json_dumps (PFloat t) = t"
| "json_dumps (PStr s) = json_str s"
| "json_dumps (PList xs) = ''['' @ join '', '' (map json_dumps xs) @ '']''"
| "json_dumps (PDict d) =
     ''{'' @ join '', '' (map (\<lambda>kv. json_str (fst kv) @ '': '' @ json_dumps (snd kv)) d) @ ''}''"

text \<open>\<open>sort_keys=True\<close>: every dictionary in the order of its keys.\<close>

fun sort_keys :: "pyval \<Rightarrow> pyval" where
  "sort_keys (PList xs) = PList (map sort_keys xs)"
| "sort_keys (PDict d) = PDict (sort_key fst (map (\<lambda>kv. (fst kv, sort_keys (snd kv))) d))"
| "sort_keys v = v"

lemmas [py_defs] = py_or_def dget_def dget_or_def dhas_def str_or_def opt_str_def opt_int_def

lemma str_or_PNone [simp]: "str_or PNone = []"
  by (simp add: str_or_def py_or_def)

lemma str_or_PStr [simp]: "str_or (PStr s) = s"
  by (simp add: str_or_def py_or_def)

lemma str_or_not_truthy: "\<not> truthy v \<Longrightarrow> str_or v = []"
  by (simp add: str_or_def py_or_def)

section \<open>Lists\<close>

text \<open>\<open>next((x for x in reversed(xs) if p(x)), None)\<close>.\<close>

definition find_last :: "('a \<Rightarrow> bool) \<Rightarrow> 'a list \<Rightarrow> 'a option" where
  "find_last p xs = find p (rev xs)"

lemma find_NoneD: "find p xs = None \<Longrightarrow> x \<in> set xs \<Longrightarrow> \<not> p x"
  by (auto simp: find_None_iff)

lemma find_SomeD: "find p xs = Some x \<Longrightarrow> x \<in> set xs \<and> p x"
  by (auto simp: find_Some_iff)

lemma filter_sort_key_id: "sorted (map f xs) \<Longrightarrow> sort_key f xs = xs"
  by (simp add: sort_key_id_if_sorted)

lemma map_filter_cong_id: "(\<And>x. x \<in> set xs \<Longrightarrow> p x \<Longrightarrow> f x = x) \<Longrightarrow> filter p xs = map f (filter p xs)"
  by (induction xs) auto

lemma set_map_if: "y \<in> set (map (\<lambda>x. if p x then f x else x) xs) \<longleftrightarrow>
    (\<exists>x \<in> set xs. y = (if p x then f x else x))"
  by auto

section \<open>Tables\<close>

text \<open>
  A database table is the list of its rows in insertion order. \<open>UPDATE ... WHERE p\<close> rewrites the rows that
  satisfy \<open>p\<close>; \<open>ORDER BY\<close> is the stable \<open>sort_key\<close>.
\<close>

definition update_where :: "('a \<Rightarrow> bool) \<Rightarrow> ('a \<Rightarrow> 'a) \<Rightarrow> 'a list \<Rightarrow> 'a list" where
  "update_where p f xs = map (\<lambda>x. if p x then f x else x) xs"

definition sql_limit :: "int option \<Rightarrow> 'a list \<Rightarrow> 'a list" where
  "sql_limit l xs = (case l of None \<Rightarrow> xs | Some n \<Rightarrow> if n < 0 then xs else take (nat n) xs)"

definition coalesce :: "'a option \<Rightarrow> 'a option \<Rightarrow> 'a option" where
  "coalesce a b = (case a of None \<Rightarrow> b | Some x \<Rightarrow> Some x)"

lemma length_update_where [simp]: "length (update_where p f xs) = length xs"
  by (simp add: update_where_def)

lemma map_update_where: "(\<And>x. p x \<Longrightarrow> g (f x) = g x) \<Longrightarrow> map g (update_where p f xs) = map g xs"
  by (simp add: update_where_def)

lemma set_update_where: "y \<in> set (update_where p f xs) \<longleftrightarrow> (\<exists>x \<in> set xs. y = (if p x then f x else x))"
  by (auto simp: update_where_def)

lemma update_where_append [simp]: "update_where p f (xs @ ys) = update_where p f xs @ update_where p f ys"
  by (simp add: update_where_def)

lemma update_where_Nil [simp]: "update_where p f [] = []"
  by (simp add: update_where_def)

lemma find_update_where:
  "(\<And>x. p x \<Longrightarrow> q (f x) = q x) \<Longrightarrow>
   find q (update_where p f xs) = map_option (\<lambda>x. if p x then f x else x) (find q xs)"
  by (induction xs) (auto simp: update_where_def)

lemma filter_update_where_length:
  "(\<And>x. x \<in> set xs \<Longrightarrow> p x \<Longrightarrow> q' (f x) \<Longrightarrow> q x) \<Longrightarrow>
    (\<And>x. x \<in> set xs \<Longrightarrow> \<not> p x \<Longrightarrow> q' x \<Longrightarrow> q x) \<Longrightarrow>
   length (filter q' (update_where p f xs)) \<le> length (filter q xs)"
proof (induction xs)
  case (Cons x xs)
  then have "length (filter q' (update_where p f xs)) \<le> length (filter q xs)" by simp
  then show ?case using Cons.prems [of x] by (auto simp: update_where_def)
qed simp

lemma find_key_distinct:
  "distinct (map k xs) \<Longrightarrow> x \<in> set xs \<Longrightarrow> find (\<lambda>y. k y = k x) xs = Some x"
  by (induction xs) (auto simp: image_iff)

lemma find_append: "find p (xs @ ys) = (case find p xs of None \<Rightarrow> find p ys | Some x \<Rightarrow> Some x)"
  by (induction xs) auto

lemma set_sql_limit: "x \<in> set (sql_limit l xs) \<Longrightarrow> x \<in> set xs"
  by (auto simp: sql_limit_def split: option.splits if_splits dest: in_set_takeD)

end
