(* ===== verification/RunState.thy ===== *)
theory RunState
  imports PyValue
begin

text \<open>
  The run state machine of \<^verbatim>\<open>copilot_agent/runtime/run_state.py\<close>: the seven run statuses, the table of
  allowed transitions and the two validators. Statuses are the strings of the source, because the store
  keeps strings and the validators exist to refuse a string that is not a status.

  A validator returns \<open>Inr ()\<close> when it returns and \<open>Inl e\<close> when it raises \<open>e\<close>.
\<close>

section \<open>Statuses\<close>

definition RUN_STATUS_QUEUED :: string where
  [simp]: "RUN_STATUS_QUEUED = ''queued''"

definition RUN_STATUS_RUNNING :: string where
  [simp]: "RUN_STATUS_RUNNING = ''running''"

definition RUN_STATUS_WAITING_APPROVAL :: string where
  [simp]: "RUN_STATUS_WAITING_APPROVAL = ''waiting_approval''"

definition RUN_STATUS_CANCELLING :: string where
  [simp]: "RUN_STATUS_CANCELLING = ''cancelling''"

definition RUN_STATUS_CANCELLED :: string where
  [simp]: "RUN_STATUS_CANCELLED = ''cancelled''"

definition RUN_STATUS_COMPLETED :: string where
  [simp]: "RUN_STATUS_COMPLETED = ''completed''"

definition RUN_STATUS_FAILED :: string where
  [simp]: "RUN_STATUS_FAILED = ''failed''"

definition TERMINAL_RUN_STATUSES :: "string set" where
  "TERMINAL_RUN_STATUSES = {RUN_STATUS_CANCELLED, RUN_STATUS_COMPLETED, RUN_STATUS_FAILED}"

definition NON_TERMINAL_RUN_STATUSES :: "string set" where
  "NON_TERMINAL_RUN_STATUSES =
     {RUN_STATUS_QUEUED, RUN_STATUS_RUNNING, RUN_STATUS_WAITING_APPROVAL, RUN_STATUS_CANCELLING}"

definition RUN_STATUSES :: "string set" where
  "RUN_STATUSES = TERMINAL_RUN_STATUSES \<union> NON_TERMINAL_RUN_STATUSES"

text \<open>The table of allowed transitions; a status that is not a key has no row (\<open>None\<close>).\<close>

definition ALLOWED_RUN_TRANSITIONS :: "string \<rightharpoonup> string set" where
  "ALLOWED_RUN_TRANSITIONS = map_of
     [(RUN_STATUS_QUEUED, {RUN_STATUS_RUNNING, RUN_STATUS_CANCELLING, RUN_STATUS_FAILED}),
      (RUN_STATUS_RUNNING,
        {RUN_STATUS_WAITING_APPROVAL, RUN_STATUS_CANCELLING, RUN_STATUS_COMPLETED, RUN_STATUS_FAILED}),
      (RUN_STATUS_WAITING_APPROVAL, {RUN_STATUS_RUNNING, RUN_STATUS_CANCELLING, RUN_STATUS_COMPLETED}),
      (RUN_STATUS_CANCELLING, {RUN_STATUS_CANCELLED, RUN_STATUS_FAILED}),
      (RUN_STATUS_CANCELLED, {}),
      (RUN_STATUS_COMPLETED, {}),
      (RUN_STATUS_FAILED, {})]"

section \<open>Validators\<close>

definition validate_run_status :: "string \<Rightarrow> pyerr + unit" where
  "validate_run_status status =
     (if status \<notin> RUN_STATUSES then Inl (InvalidRunStatusError status) else Inr ())"

definition validate_run_transition :: "string \<Rightarrow> string \<Rightarrow> pyerr + unit" where
  "validate_run_transition from_status to_status =
     (case validate_run_status from_status of
        Inl e \<Rightarrow> Inl e
      | Inr _ \<Rightarrow>
          (case validate_run_status to_status of
             Inl e \<Rightarrow> Inl e
           | Inr _ \<Rightarrow>
               (if from_status = to_status then Inr ()
                else case ALLOWED_RUN_TRANSITIONS from_status of
                       None \<Rightarrow> Inl (KeyError from_status)
                     | Some allowed \<Rightarrow>
                         (if to_status \<notin> allowed
                          then Inl (InvalidRunTransitionError from_status to_status)
                          else Inr ()))))"

text \<open>\<open>str(e)\<close> of the exceptions that reach a handler which records their text.\<close>

fun pyerr_str :: "pyerr \<Rightarrow> string" where
  "pyerr_str TypeError = ''TypeError''"
| "pyerr_str (ValueError m) = m"
| "pyerr_str (KeyError k) = str_repr k"
| "pyerr_str IntegrityError = ''UNIQUE constraint failed: runs.id''"
| "pyerr_str (InvalidRunStatusError s) = ''unknown run status: '' @ s"
| "pyerr_str (InvalidRunTransitionError s t) = ''invalid run transition: '' @ s @ '' -> '' @ t"
| "pyerr_str (ThreadNotActiveError t s) = ''thread is not active''"
| "pyerr_str (ActiveRunExistsError t r) = ''thread already has an active run''"
| "pyerr_str (RunConcurrencyLimitError n) = ''max concurrent runs ('' @ int_str n @ '') reached''"
| "pyerr_str (IdempotencyConflictError t k) = ''idempotency key conflict''"

section \<open>The transition relation\<close>

lemmas run_status_sets = TERMINAL_RUN_STATUSES_def NON_TERMINAL_RUN_STATUSES_def RUN_STATUSES_def

text \<open>One change of status the validator lets through.\<close>

inductive run_step :: "string \<Rightarrow> string \<Rightarrow> bool" where
  queued_running: "run_step ''queued'' ''running''"
| queued_cancelling: "run_step ''queued'' ''cancelling''"
| queued_failed: "run_step ''queued'' ''failed''"
| running_waiting: "run_step ''running'' ''waiting_approval''"
| running_cancelling: "run_step ''running'' ''cancelling''"
| running_completed: "run_step ''running'' ''completed''"
| running_failed: "run_step ''running'' ''failed''"
| waiting_running: "run_step ''waiting_approval'' ''running''"
| waiting_cancelling: "run_step ''waiting_approval'' ''cancelling''"
| waiting_completed: "run_step ''waiting_approval'' ''completed''"
| cancelling_cancelled: "run_step ''cancelling'' ''cancelled''"
| cancelling_failed: "run_step ''cancelling'' ''failed''"

code_pred run_step .

inductive_cases from_queued: "run_step ''queued'' t"
inductive_cases from_cancelling: "run_step ''cancelling'' t"
inductive_simps run_step_from_terminal:
  "run_step ''completed'' t" "run_step ''failed'' t" "run_step ''cancelled'' t"

lemma terminal_or_not: "s \<in> RUN_STATUSES \<longleftrightarrow> s \<in> TERMINAL_RUN_STATUSES \<or> s \<in> NON_TERMINAL_RUN_STATUSES"
  by (auto simp: run_status_sets)

lemma terminal_disjoint: "s \<in> TERMINAL_RUN_STATUSES \<Longrightarrow> s \<notin> NON_TERMINAL_RUN_STATUSES"
  by (auto simp: run_status_sets)

lemma terminal_no_step: "run_step s t \<Longrightarrow> s \<notin> TERMINAL_RUN_STATUSES"
  by (erule run_step.cases) (simp_all add: run_status_sets)

lemma run_step_valid: "run_step s t \<Longrightarrow> s \<in> NON_TERMINAL_RUN_STATUSES \<and> t \<in> RUN_STATUSES"
  by (erule run_step.cases) (simp_all add: run_status_sets)

lemma run_step_iff_table:
  "run_step s t \<longleftrightarrow> (\<exists>allowed. ALLOWED_RUN_TRANSITIONS s = Some allowed \<and> t \<in> allowed)"
proof
  assume "run_step s t"
  then show "\<exists>allowed. ALLOWED_RUN_TRANSITIONS s = Some allowed \<and> t \<in> allowed"
    by - (erule run_step.cases, simp_all add: ALLOWED_RUN_TRANSITIONS_def)
next
  assume "\<exists>allowed. ALLOWED_RUN_TRANSITIONS s = Some allowed \<and> t \<in> allowed"
  then show "run_step s t"
    by (auto simp: ALLOWED_RUN_TRANSITIONS_def split: if_splits intro: run_step.intros)
qed

lemma table_total: "s \<in> RUN_STATUSES \<Longrightarrow> \<exists>allowed. ALLOWED_RUN_TRANSITIONS s = Some allowed"
  by (auto simp: run_status_sets ALLOWED_RUN_TRANSITIONS_def)

lemma validate_run_transition_eq:
  "validate_run_transition s t =
     (if s \<notin> RUN_STATUSES then Inl (InvalidRunStatusError s)
      else if t \<notin> RUN_STATUSES then Inl (InvalidRunStatusError t)
      else if s = t \<or> run_step s t then Inr ()
      else Inl (InvalidRunTransitionError s t))"
proof (cases "s \<in> RUN_STATUSES")
  case True
  then obtain allowed where "ALLOWED_RUN_TRANSITIONS s = Some allowed"
    using table_total by blast
  with True show ?thesis
    by (simp add: validate_run_transition_def validate_run_status_def run_step_iff_table)
next
  case False
  then show ?thesis by (simp add: validate_run_transition_def validate_run_status_def)
qed

lemma validate_run_transition_Inr:
  "validate_run_transition s t = Inr u \<longleftrightarrow> s \<in> RUN_STATUSES \<and> t \<in> RUN_STATUSES \<and> (s = t \<or> run_step s t)"
  by (cases u) (auto simp: validate_run_transition_eq)

text \<open>
  The validator accepts exactly the moves of the state machine (and a status to itself), and its two
  exceptions are the two documented ones: a string that is not a status, then a move the table lacks.
\<close>

theorem validate_run_transition_spec:
  "validate_run_transition s t =
     (if s \<notin> RUN_STATUSES then Inl (InvalidRunStatusError s)
      else if t \<notin> RUN_STATUSES then Inl (InvalidRunStatusError t)
      else if s = t \<or> run_step s t then Inr ()
      else Inl (InvalidRunTransitionError s t))"
  by (rule validate_run_transition_eq)

lemma validate_run_status_Inr: "validate_run_status s = Inr u \<longleftrightarrow> s \<in> RUN_STATUSES"
  by (cases u) (auto simp: validate_run_status_def)

section \<open>Runs of the machine\<close>

text \<open>
  A rank that falls along every path that does not go through an approval: only the pair
  \<open>running\<close>/\<open>waiting_approval\<close> can alternate, and nothing comes back to \<open>queued\<close> or out of a terminal
  status.
\<close>

definition run_rank :: "string \<Rightarrow> nat" where
  "run_rank s =
     (if s = RUN_STATUS_QUEUED then 3
      else if s = RUN_STATUS_RUNNING \<or> s = RUN_STATUS_WAITING_APPROVAL then 2
      else if s = RUN_STATUS_CANCELLING then 1
      else 0)"

lemma run_step_rank: "run_step s t \<Longrightarrow> run_rank t \<le> run_rank s"
  by (erule run_step.cases) (simp_all add: run_rank_def)

lemma run_steps_rank: "run_step\<^sup>*\<^sup>* s t \<Longrightarrow> run_rank t \<le> run_rank s"
  by (induction rule: rtranclp_induct) (auto dest: run_step_rank)

lemma terminal_steps: "run_step\<^sup>*\<^sup>* s t \<Longrightarrow> s \<in> TERMINAL_RUN_STATUSES \<Longrightarrow> t = s"
  by (induction rule: converse_rtranclp_induct) (auto dest: terminal_no_step)

lemma cancelling_closed:
  "run_step s t \<Longrightarrow> s \<in> {''cancelling'', ''cancelled'', ''failed''} \<Longrightarrow>
    t \<in> {''cancelling'', ''cancelled'', ''failed''}"
  by (erule run_step.cases) simp_all

lemma cancelling_steps:
  "run_step\<^sup>*\<^sup>* s t \<Longrightarrow> s = ''cancelling'' \<Longrightarrow> t \<in> {''cancelling'', ''cancelled'', ''failed''}"
  by (induction rule: rtranclp_induct) (auto dest!: cancelling_closed)

lemma steps_to_queued: "run_step\<^sup>*\<^sup>* s t \<Longrightarrow> t = ''queued'' \<Longrightarrow> s = ''queued''"
  by (induction rule: rtranclp_induct) (auto elim: run_step.cases)

text \<open>
  Along any sequence of accepted moves a terminal status is final, \<open>queued\<close> is never entered again, a
  run that is being cancelled can only end as cancelled or failed, and every status that is not terminal
  still has a path to a terminal one.
\<close>

theorem run_machine_runs:
  assumes "s \<in> RUN_STATUSES" and "run_step\<^sup>*\<^sup>* s t"
  shows "(s \<in> TERMINAL_RUN_STATUSES \<longrightarrow> t = s)
    \<and> (t = RUN_STATUS_QUEUED \<longrightarrow> s = RUN_STATUS_QUEUED)
    \<and> (s = RUN_STATUS_CANCELLING \<longrightarrow> t \<in> {RUN_STATUS_CANCELLING, RUN_STATUS_CANCELLED, RUN_STATUS_FAILED})
    \<and> t \<in> RUN_STATUSES
    \<and> (\<exists>u \<in> TERMINAL_RUN_STATUSES. run_step\<^sup>*\<^sup>* t u)"
proof -
  have valid: "t \<in> RUN_STATUSES"
    using assms(2,1) by (induction rule: rtranclp_induct) (auto dest: run_step_valid)
  have one: "run_step u ''failed'' \<or> u \<in> TERMINAL_RUN_STATUSES \<or> u = ''waiting_approval''"
    if "u \<in> RUN_STATUSES" for u
    using that queued_failed running_failed cancelling_failed by (auto simp: run_status_sets)
  have ends: "\<exists>u \<in> TERMINAL_RUN_STATUSES. run_step\<^sup>*\<^sup>* t u"
    using one [OF valid]
  proof (elim disjE)
    assume "run_step t ''failed''"
    then show ?thesis by (intro bexI [of _ "''failed''"]) (auto simp: run_status_sets)
  next
    assume "t = ''waiting_approval''"
    then show ?thesis
      using r_into_rtranclp [of run_step, OF waiting_completed] by (auto simp: run_status_sets)
  qed auto
  show ?thesis
  proof (intro conjI impI)
    show "t = s" if "s \<in> TERMINAL_RUN_STATUSES" using terminal_steps [OF assms(2) that] .
    show "s = RUN_STATUS_QUEUED" if "t = RUN_STATUS_QUEUED"
      using steps_to_queued [OF assms(2)] that by simp
    show "t \<in> {RUN_STATUS_CANCELLING, RUN_STATUS_CANCELLED, RUN_STATUS_FAILED}"
      if "s = RUN_STATUS_CANCELLING"
      using cancelling_steps [OF assms(2)] that by simp
  qed (fact valid ends)+
qed

theorem run_machine_runs_witness:
  "''cancelling'' \<in> RUN_STATUSES \<and> run_step\<^sup>*\<^sup>* ''cancelling'' ''cancelled''
    \<and> ''cancelled'' \<in> {''cancelling'', ''cancelled'', ''failed''}"
proof -
  have a: "''cancelling'' \<in> RUN_STATUSES" by (simp add: run_status_sets)
  have b: "run_step\<^sup>*\<^sup>* ''cancelling'' ''cancelled''"
    by (rule r_into_rtranclp [of run_step, OF cancelling_cancelled])
  show ?thesis using a b run_machine_runs [OF a b] by simp
qed

end
