(* ===== verification/Contracts.thy ===== *)
theory Contracts
  imports RunState
begin

text \<open>
  The event contract: the schema version envelope (\<^verbatim>\<open>contracts/envelope.py\<close>), the known event types
  (\<^verbatim>\<open>runtime/event_schema.py\<close>), the cross-boundary event (\<open>runtime_event\<close>, \<^verbatim>\<open>contracts/base.py\<close>) with
  its flattening and parsing, its SSE form (\<^verbatim>\<open>contracts/adapters/sse.py\<close>), and the table that gives each
  event kind its payload validator (\<^verbatim>\<open>contracts/events/registry.py\<close>). The pydantic payload classes are
  named, their field validation is not modelled.
\<close>

section \<open>Envelope\<close>

definition EVENT_SCHEMA_VERSION :: int where
  "EVENT_SCHEMA_VERSION = 1"

definition envelope_payload :: "string \<Rightarrow> dict \<Rightarrow> dict" where
  "envelope_payload event_type payload =
     (if dhas payload ''schema_version'' then payload
      else dset ''schema_version'' (PInt EVENT_SCHEMA_VERSION) payload)"

definition payload_schema_version :: "dict \<Rightarrow> int" where
  "payload_schema_version payload =
     (let raw = dget payload ''schema_version'' in
      if raw = PNone then 0 else case py_int raw of Some i \<Rightarrow> i | None \<Rightarrow> 0)"

lemma dget_envelope: "k \<noteq> ''schema_version'' \<Longrightarrow> dget (envelope_payload t p) k = dget p k"
  by (simp add: envelope_payload_def)

lemma dget_or_envelope: "k \<noteq> ''schema_version'' \<Longrightarrow> dget_or (envelope_payload t p) k v = dget_or p k v"
  by (simp add: envelope_payload_def)

lemma dhas_envelope: "dhas (envelope_payload t p) k \<longleftrightarrow> k = ''schema_version'' \<or> dhas p k"
  by (auto simp: envelope_payload_def)

lemma envelope_idem [simp]: "envelope_payload t (envelope_payload t' p) = envelope_payload t' p"
  by (simp add: envelope_payload_def)

section \<open>Event types\<close>

definition KNOWN_EVENT_TYPES :: "string list" where
  "KNOWN_EVENT_TYPES =
    [''run_created'', ''run_started'', ''token'', ''assistant_state'', ''tool_start'', ''tool_end'',
     ''tool_side_effect_recorded'', ''policy_decision_recorded'', ''approval_required'',
     ''approval_resolved'', ''run_checkpoint_meta'', ''run_completed_meta'', ''run_failed_meta'',
     ''run_consistency_checked'', ''checkpoint_consistency_checked'', ''thread_checkpoint_purged'',
     ''plan_created'', ''plan_updated'', ''checkpoint_sync_failed'', ''cancel_requested'', ''cancelled'',
     ''done'', ''error'', ''memory_run_summary'', ''memory_thread_summary'', ''memory_item_confirmed'',
     ''memory_item_rejected'', ''memory_item_deleted'', ''memory_item_delete_proof'',
     ''checkpoint_compacted'', ''retrieval_completed'', ''context_built'', ''skill_selected'',
     ''credential_binding_audit'', ''output_guard_checked'', ''llm_generation'',
     ''rag_document_ingested'', ''rag_document_deleted'', ''rag_document_delete_proof'',
     ''robot_observation_recorded'', ''vla_policy_inferred'', ''robot_action_executed'',
     ''robot_episode_labeled'']"

section \<open>The payload validator registry\<close>

datatype payload_model = StrictModel string | LooseEventPayload

definition LOOSE_KINDS :: "string list" where
  "LOOSE_KINDS =
    [''run_created'', ''run_started'', ''assistant_state'', ''approval_required'',
     ''run_checkpoint_meta'', ''run_consistency_checked'', ''checkpoint_consistency_checked'',
     ''run_completed_meta'', ''run_failed_meta'', ''thread_checkpoint_purged'', ''plan_created'',
     ''rag_document_ingested'', ''rag_document_deleted'', ''rag_document_delete_proof'',
     ''cancel_requested'', ''cancelled'']"

definition STRICT_MODELS :: "(string \<times> string) list" where
  "STRICT_MODELS =
    [(''token'', ''TokenPayload''), (''tool_start'', ''ToolStartPayload''),
     (''tool_end'', ''ToolEndPayload''), (''tool_side_effect_recorded'', ''ToolSideEffectRecordedPayload''),
     (''policy_decision_recorded'', ''PolicyDecisionRecordedPayload''),
     (''retrieval_completed'', ''RetrievalCompletedPayload''), (''context_built'', ''ContextBuiltPayload''),
     (''skill_selected'', ''SkillSelectedPayload''),
     (''credential_binding_audit'', ''CredentialBindingAuditPayload''),
     (''output_guard_checked'', ''OutputGuardCheckedPayload''), (''llm_generation'', ''LlmGenerationPayload''),
     (''robot_observation_recorded'', ''RobotObservationRecordedPayload''),
     (''vla_policy_inferred'', ''VlaPolicyInferredPayload''),
     (''robot_action_executed'', ''RobotActionExecutedPayload''),
     (''robot_episode_labeled'', ''RobotEpisodeLabeledPayload''),
     (''memory_run_summary'', ''MemoryRunSummaryPayload''),
     (''memory_thread_summary'', ''MemoryThreadSummaryPayload''),
     (''memory_item_confirmed'', ''MemoryItemGovernancePayload''),
     (''memory_item_rejected'', ''MemoryItemGovernancePayload''),
     (''memory_item_deleted'', ''MemoryItemGovernancePayload''),
     (''memory_item_delete_proof'', ''MemoryItemDeleteProofPayload''),
     (''checkpoint_compacted'', ''CheckpointCompactedPayload''),
     (''approval_resolved'', ''ApprovalResolvedPayload''), (''done'', ''DonePayload''),
     (''error'', ''ErrorPayload'')]"

definition payload_model_for_kind :: "string \<Rightarrow> payload_model option" where
  "payload_model_for_kind kind =
     (case map_of STRICT_MODELS kind of
        Some m \<Rightarrow> Some (StrictModel m)
      | None \<Rightarrow> if kind \<in> set LOOSE_KINDS then Some LooseEventPayload else None)"

definition strip_schema_version :: "dict \<Rightarrow> dict" where
  "strip_schema_version payload = filter (\<lambda>kv. fst kv \<noteq> ''schema_version'') payload"

text \<open>
  \<^verbatim>\<open>validate_payload_for_kind\<close>: the parsing of the body by the chosen pydantic class is the parameter
  \<open>parse\<close> (\<open>Inl\<close> the validation error, \<open>Inr\<close> the dumped model); the dispatch, the split of the version
  and its re-attachment are the code's.
\<close>

definition validate_payload_for_kind ::
    "(payload_model \<Rightarrow> dict \<Rightarrow> string + dict) \<Rightarrow> string \<Rightarrow> dict \<Rightarrow> string + dict" where
  "validate_payload_for_kind parse kind payload =
     (let schema_version = dget payload ''schema_version'';
          body = strip_schema_version payload
      in case payload_model_for_kind kind of
           None \<Rightarrow> Inl (''no payload validator registered for kind: '' @ kind)
         | Some model \<Rightarrow>
             (case parse model body of
                Inl e \<Rightarrow> Inl (kind @ '': '' @ e)
              | Inr out \<Rightarrow>
                  Inr (if schema_version \<noteq> PNone then dset ''schema_version'' schema_version out else out)))"

text \<open>
  The registry covers the declared event types except two: an event of kind \<open>plan_updated\<close> or
  \<open>checkpoint_sync_failed\<close> is known, is written by the graph nodes and the event mapper, and is
  nevertheless refused by payload validation whatever its payload; and the registry has no kind outside
  the declared ones.
\<close>

theorem registry_gap:
  "(\<forall>kind. (kind \<in> set KNOWN_EVENT_TYPES \<and> payload_model_for_kind kind = None) \<longleftrightarrow>
       kind \<in> {''plan_updated'', ''checkpoint_sync_failed''})
    \<and> set (map fst STRICT_MODELS) \<union> set LOOSE_KINDS \<subseteq> set KNOWN_EVENT_TYPES
    \<and> set (map fst STRICT_MODELS) \<inter> set LOOSE_KINDS = {}
    \<and> isl (validate_payload_for_kind parse ''plan_updated'' payload)
    \<and> isl (validate_payload_for_kind parse ''checkpoint_sync_failed'' payload)"
proof -
  have refused: "isl (validate_payload_for_kind parse ''plan_updated'' payload)"
      "isl (validate_payload_for_kind parse ''checkpoint_sync_failed'' payload)"
    by (simp_all add: validate_payload_for_kind_def Let_def payload_model_for_kind_def STRICT_MODELS_def
        LOOSE_KINDS_def)
  have gap: "filter (\<lambda>k. payload_model_for_kind k = None) KNOWN_EVENT_TYPES =
      [''plan_updated'', ''checkpoint_sync_failed'']"
    by code_simp
  have "\<forall>kind. (kind \<in> set KNOWN_EVENT_TYPES \<and> payload_model_for_kind kind = None) \<longleftrightarrow>
      kind \<in> set (filter (\<lambda>k. payload_model_for_kind k = None) KNOWN_EVENT_TYPES)"
    by simp
  moreover have "list_all (\<lambda>k. List.member KNOWN_EVENT_TYPES k) (map fst STRICT_MODELS @ LOOSE_KINDS)"
    by code_simp
  moreover have "list_all (\<lambda>k. \<not> List.member LOOSE_KINDS k) (map fst STRICT_MODELS)"
    by code_simp
  ultimately show ?thesis
    unfolding gap using refused by (auto simp: list_all_iff)
qed

lemma validate_unregistered:
  "payload_model_for_kind kind = None \<Longrightarrow> \<exists>e. validate_payload_for_kind parse kind payload = Inl e"
  by (simp add: validate_payload_for_kind_def Let_def)

section \<open>Runtime events\<close>

record runtime_event =
  re_schema_version :: int
  re_kind :: string
  re_thread_id :: "string option"
  re_run_id :: "string option"
  re_trace_id :: "string option"
  re_tool_call_id :: "string option"
  re_meta :: dict
  re_content :: "string option"
  re_data :: dict

definition to_store_payload :: "runtime_event \<Rightarrow> dict" where
  "to_store_payload ev =
     (let out = re_data ev;
          out = (case re_content ev of
              None \<Rightarrow> out
            | Some content \<Rightarrow>
                (if re_kind ev = ''token'' then dset ''text'' (PStr content) out
                 else if re_kind ev = ''error'' \<and> \<not> dhas out ''error'' then dset ''error'' (PStr content) out
                 else if \<not> dhas out ''message'' \<and> \<not> dhas out ''text'' then dset ''message'' (PStr content) out
                 else out));
          out = fold (\<lambda>(key, value). dsetdefault key value) (re_meta ev) out;
          out = dset ''schema_version'' (PInt (re_schema_version ev)) out
      in envelope_payload (re_kind ev) out)"

definition from_payload ::
    "string \<Rightarrow> dict \<Rightarrow> string option \<Rightarrow> string option \<Rightarrow> string option \<Rightarrow> string option \<Rightarrow> runtime_event" where
  "from_payload kind payload thread_id run_id trace_id tool_call_id =
     (let raw = payload;
          version = payload_schema_version raw;
          schema_version = (if version \<noteq> 0 then version else EVENT_SCHEMA_VERSION);
          raw = (if dhas raw ''schema_version'' then filter (\<lambda>kv. fst kv \<noteq> ''schema_version'') raw else raw);
          content = (if kind = ''token'' \<and> dhas raw ''text'' then Some (py_str (dget raw ''text''))
                     else if kind = ''error'' \<and> dhas raw ''error'' \<and> length raw = 1
                       then Some (py_str (dget raw ''error''))
                     else None);
          raw = (if kind = ''token'' \<and> dhas raw ''text'' then ddel ''text'' raw else raw);
          call_id = (if truthy (opt_str tool_call_id) then opt_str tool_call_id else dget raw ''call_id'');
          call_id = (if call_id = PNone then None else Some (py_str call_id))
      in \<lparr>re_schema_version = schema_version, re_kind = kind, re_thread_id = thread_id, re_run_id = run_id,
          re_trace_id = trace_id, re_tool_call_id = call_id, re_meta = [], re_content = content,
          re_data = raw\<rparr>)"

definition from_stored :: "string \<Rightarrow> dict \<Rightarrow> string option \<Rightarrow> string option \<Rightarrow> runtime_event" where
  "from_stored kind payload thread_id run_id = from_payload kind payload thread_id run_id None None"

definition format_sse :: "string \<Rightarrow> dict \<Rightarrow> string" where
  "format_sse event data =
     ''event: '' @ event @ [char_of (10 :: nat)] @ ''data: '' @ json_dumps (PDict data) @
     [char_of (10 :: nat), char_of (10 :: nat)]"

definition sse_encode :: "runtime_event \<Rightarrow> string" where
  "sse_encode ev = format_sse (re_kind ev) (to_store_payload ev)"

lemma map_of_filter_key: "map_of (filter (\<lambda>kv. fst kv \<noteq> a) d) k = (if k = a then None else map_of d k)"
  by (induction d) auto

lemma dget_filter_key [simp]: "dget (filter (\<lambda>kv. fst kv \<noteq> a) d) k = (if k = a then PNone else dget d k)"
  by (simp add: dget_def dget_or_def map_of_filter_key)

lemma dhas_filter_key [simp]: "dhas (filter (\<lambda>kv. fst kv \<noteq> a) d) k \<longleftrightarrow> k \<noteq> a \<and> dhas d k"
  by (simp add: dhas_def map_of_filter_key)

lemma dhas_ddel [simp]: "dhas (ddel a d) k \<longleftrightarrow> k \<noteq> a \<and> dhas d k"
  by (simp add: dhas_def ddel_def delete_conv)

lemma filter_key_absent: "\<not> dhas d a \<Longrightarrow> filter (\<lambda>kv. fst kv \<noteq> a) d = d"
  by (auto simp: dhas_iff_keys filter_id_conv)

text \<open>
  Parsing a stored payload into an event and flattening it again keeps every field: the token text
  and the call id survive, a missing version becomes the current one, and the only field that can appear
  is the \<open>message\<close> copy of an error that carries nothing else.
\<close>

theorem runtime_event_roundtrip:
  assumes "k \<noteq> ''schema_version''" and "k \<noteq> ''message''"
    and "kind = ''token'' \<Longrightarrow> k = ''text'' \<Longrightarrow> dhas p ''text'' \<Longrightarrow> dget p ''text'' = PStr s"
  shows "dget (to_store_payload (from_payload kind p t r tr c)) k = dget p k
    \<and> dget (to_store_payload (from_payload kind p t r tr c)) ''schema_version'' =
      PInt (if payload_schema_version p = 0 then EVENT_SCHEMA_VERSION else payload_schema_version p)"
proof (cases "kind = ''token'' \<and> dhas p ''text''")
  case True
  then show ?thesis
    using assms
    by (simp add: to_store_payload_def from_payload_def Let_def envelope_payload_def filter_key_absent)
next
  case False
  then show ?thesis
    using assms
    by (auto simp: to_store_payload_def from_payload_def Let_def envelope_payload_def filter_key_absent)
qed

theorem runtime_event_roundtrip_witness:
  "dget (to_store_payload (from_payload ''token'' [(''text'', PStr ''hi''), (''n'', PInt 3)] None None None None))
     ''text'' = PStr ''hi''"
  using runtime_event_roundtrip [of "''text''" "''token''" "[(''text'', PStr ''hi''), (''n'', PInt 3)]" "''hi''"
      None None None None]
  by simp

end
