(* ===== verification/EventStore.thy ===== *)
theory EventStore
  imports Contracts
begin

text \<open>
  The SQLite event store of \<^verbatim>\<open>copilot_agent/runtime/event_store.py\<close>: three tables (threads, runs,
  events) and the operations of the class \<^verbatim>\<open>EventStore\<close>, one definition per method.

  \<^item> A table is the list of its rows in rowid order. An \<open>ORDER BY\<close> is a stable sort, so ties come in
    rowid order; \<open>ORDER BY ... DESC LIMIT 1\<close> is the last row of the ascending order.
  \<^item> A method body under \<^verbatim>\<open>with self._lock, self._connect() as conn\<close> is one transaction: an
    exception inside it rolls the tables back, which the definitions make explicit by returning the state
    from before the block. A method that can raise returns \<open>(pyerr + result) \<times> store\<close>.
  \<^item> A time is an integer (microseconds): every timestamp the store compares is the ISO text of a UTC
    time, whose text order is the order of the times. The readings of the clock and of \<^verbatim>\<open>uuid4\<close> are two
    arbitrary streams in the state; each call consumes the next reading.
  \<^item> Foreign keys are not enforced: the pragma is set on the connection of \<^verbatim>\<open>_init_db\<close> only, and every
    method opens a connection of its own.
  \<^item> A payload is stored as JSON text and parsed back; for JSON values that is the identity.
\<close>

section \<open>Rows and state\<close>

type_synonym time = int

record thread_row =
  th_id :: string
  th_title :: "string option"
  th_status :: string
  th_created_at :: time
  th_updated_at :: time
  th_last_interaction_at :: time
  th_ended_at :: "time option"
  th_archived_at :: "time option"
  th_end_reason :: "string option"
  th_user_id :: "string option"

record run_row =
  rn_id :: string
  rn_thread_id :: string
  rn_status :: string
  rn_created_at :: time
  rn_completed_at :: "time option"
  rn_error :: "string option"
  rn_idempotency_key :: "string option"
  rn_idempotency_payload_hash :: "string option"
  rn_recovered_at :: "time option"
  rn_recovery_reason :: "string option"

record event_row =
  ev_id :: int
  ev_thread_id :: string
  ev_run_id :: string
  ev_type :: string
  ev_payload :: pyval
  ev_created_at :: time
  ev_sequence :: "int option"

record store =
  threads :: "thread_row list"
  runs :: "run_row list"
  events :: "event_row list"
  last_event_id :: int
  clock :: "nat \<Rightarrow> time"
  ticks :: nat
  uuids :: "nat \<Rightarrow> string"
  uuid_pos :: nat
  subscribers :: "nat list"
  deliveries :: "(nat \<times> event_row) list"

definition THREAD_STATUS_ACTIVE :: string where
  [simp]: "THREAD_STATUS_ACTIVE = ''active''"

definition THREAD_STATUS_ENDED :: string where
  [simp]: "THREAD_STATUS_ENDED = ''ended''"

definition THREAD_STATUS_ARCHIVED :: string where
  [simp]: "THREAD_STATUS_ARCHIVED = ''archived''"

definition utc_now_iso :: "store \<Rightarrow> time \<times> store" where
  "utc_now_iso s = (clock s (ticks s), s\<lparr>ticks := Suc (ticks s)\<rparr>)"

definition utc_iso_before :: "store \<Rightarrow> int \<Rightarrow> time \<times> store" where
  "utc_iso_before s seconds = (let (now, s) = utc_now_iso s in (now - max 0 seconds * 1000000, s))"

definition uuid4 :: "store \<Rightarrow> string \<times> store" where
  "uuid4 s = (uuids s (uuid_pos s), s\<lparr>uuid_pos := Suc (uuid_pos s)\<rparr>)"

text \<open>\<open>_payload\<close> of the readers: the payload if it is a dictionary, else the empty one.\<close>

definition payload_of :: "event_row \<Rightarrow> dict" where
  "payload_of e = as_dict (ev_payload e)"

text \<open>\<open>ORDER BY sequence ASC, id ASC\<close>: a missing sequence (\<open>NULL\<close>) sorts first.\<close>

definition row_order :: "event_row \<Rightarrow> int option \<times> int" where
  "row_order e = (ev_sequence e, ev_id e)"

section \<open>Threads\<close>

definition get_thread :: "store \<Rightarrow> string \<Rightarrow> thread_row option" where
  "get_thread s thread_id = find (\<lambda>t. th_id t = thread_id) (threads s)"

definition get_run :: "store \<Rightarrow> string \<Rightarrow> run_row option" where
  "get_run s run_id = find (\<lambda>r. rn_id r = run_id) (runs s)"

definition get_user_id :: "store \<Rightarrow> string \<Rightarrow> string" where
  "get_user_id s thread_id =
     (case get_thread s thread_id of
        None \<Rightarrow> thread_id
      | Some t \<Rightarrow> (case th_user_id t of None \<Rightarrow> thread_id | Some u \<Rightarrow> if u = [] then thread_id else u))"

definition set_threads :: "(thread_row \<Rightarrow> bool) \<Rightarrow> (thread_row \<Rightarrow> thread_row) \<Rightarrow> store \<Rightarrow> store" where
  "set_threads p f s = s\<lparr>threads := update_where p f (threads s)\<rparr>"

definition set_runs :: "(run_row \<Rightarrow> bool) \<Rightarrow> (run_row \<Rightarrow> run_row) \<Rightarrow> store \<Rightarrow> store" where
  "set_runs p f s = s\<lparr>runs := update_where p f (runs s)\<rparr>"

definition ensure_thread ::
    "store \<Rightarrow> string \<Rightarrow> string option \<Rightarrow> string option \<Rightarrow> thread_row option \<times> store" where
  "ensure_thread s thread_id title user_id =
     (let (now, s) = utc_now_iso s;
          effective_user_id = (case user_id of None \<Rightarrow> thread_id | Some u \<Rightarrow> if u = [] then thread_id else u);
          s = (if get_thread s thread_id = None
               then s\<lparr>threads := threads s @
                 [\<lparr>th_id = thread_id, th_title = title, th_status = THREAD_STATUS_ACTIVE,
                   th_created_at = now, th_updated_at = now, th_last_interaction_at = now,
                   th_ended_at = None, th_archived_at = None, th_end_reason = None,
                   th_user_id = Some effective_user_id\<rparr>]\<rparr>
               else set_threads (\<lambda>t. th_id t = thread_id)
                 (\<lambda>t. t\<lparr>th_title := coalesce title (th_title t), th_updated_at := now,
                   th_user_id := coalesce (th_user_id t) (Some effective_user_id),
                   th_last_interaction_at :=
                     (if th_status t = ''active'' then now else th_last_interaction_at t)\<rparr>) s)
      in (get_thread s thread_id, s))"

definition touch_thread :: "store \<Rightarrow> string \<Rightarrow> thread_row option \<times> store" where
  "touch_thread s thread_id =
     (let (now, s) = utc_now_iso s;
          s = set_threads (\<lambda>t. th_id t = thread_id \<and> th_status t = THREAD_STATUS_ACTIVE)
                (\<lambda>t. t\<lparr>th_last_interaction_at := now, th_updated_at := now\<rparr>) s
      in (get_thread s thread_id, s))"

definition end_thread :: "store \<Rightarrow> string \<Rightarrow> string \<Rightarrow> thread_row option \<times> store" where
  "end_thread s thread_id reason =
     (let (now, s) = utc_now_iso s;
          s = set_threads (\<lambda>t. th_id t = thread_id \<and> th_status t = THREAD_STATUS_ACTIVE)
                (\<lambda>t. t\<lparr>th_status := THREAD_STATUS_ENDED, th_ended_at := coalesce (th_ended_at t) (Some now),
                  th_end_reason := coalesce (th_end_reason t) (Some reason), th_updated_at := now\<rparr>) s
      in (get_thread s thread_id, s))"

definition archive_thread :: "store \<Rightarrow> string \<Rightarrow> thread_row option \<times> store" where
  "archive_thread s thread_id =
     (let (now, s) = utc_now_iso s;
          s = set_threads (\<lambda>t. th_id t = thread_id \<and> th_status t \<noteq> THREAD_STATUS_ARCHIVED)
                (\<lambda>t. t\<lparr>th_status := THREAD_STATUS_ARCHIVED,
                  th_archived_at := coalesce (th_archived_at t) (Some now), th_updated_at := now\<rparr>) s
      in (get_thread s thread_id, s))"

text \<open>The idle threads: active, last used at or before the cutoff, oldest first.\<close>

definition idle_active_threads :: "store \<Rightarrow> time \<Rightarrow> int \<Rightarrow> thread_row list" where
  "idle_active_threads s cutoff lim =
     sql_limit (Some lim) (sort_key th_last_interaction_at
       (filter (\<lambda>t. th_status t = THREAD_STATUS_ACTIVE \<and> th_last_interaction_at t \<le> cutoff) (threads s)))"

definition ended_threads :: "store \<Rightarrow> time \<Rightarrow> int \<Rightarrow> thread_row list" where
  "ended_threads s cutoff lim =
     sql_limit (Some lim) (sort_key th_ended_at
       (filter (\<lambda>t. th_status t = THREAD_STATUS_ENDED \<and>
            (case th_ended_at t of None \<Rightarrow> False | Some e \<Rightarrow> e \<le> cutoff)) (threads s)))"

text \<open>\<open>SELECT * FROM threads WHERE id IN (...) ORDER BY updated_at ASC\<close>\<close>

definition threads_in :: "store \<Rightarrow> string list \<Rightarrow> thread_row list" where
  "threads_in s ids = sort_key th_updated_at (filter (\<lambda>t. th_id t \<in> set ids) (threads s))"

definition end_idle_threads_before :: "store \<Rightarrow> time \<Rightarrow> string \<Rightarrow> int \<Rightarrow> thread_row list \<times> store" where
  "end_idle_threads_before s cutoff reason lim =
     (let (now, s) = utc_now_iso s;
          rows = idle_active_threads s cutoff lim;
          thread_ids = map th_id rows
      in if thread_ids = [] then (rows, s)
         else let s = set_threads (\<lambda>t. th_id t \<in> set thread_ids)
                    (\<lambda>t. t\<lparr>th_status := THREAD_STATUS_ENDED, th_ended_at := Some now,
                      th_end_reason := Some reason, th_updated_at := now\<rparr>) s
              in (threads_in s thread_ids, s))"

definition list_ended_threads_before :: "store \<Rightarrow> time \<Rightarrow> int \<Rightarrow> thread_row list" where
  "list_ended_threads_before s cutoff lim = ended_threads s cutoff lim"

definition archive_ended_threads_before :: "store \<Rightarrow> time \<Rightarrow> int \<Rightarrow> thread_row list \<times> store" where
  "archive_ended_threads_before s cutoff lim =
     (let (now, s) = utc_now_iso s;
          rows = ended_threads s cutoff lim;
          thread_ids = map th_id rows
      in if thread_ids = [] then (rows, s)
         else let s = set_threads (\<lambda>t. th_id t \<in> set thread_ids)
                    (\<lambda>t. t\<lparr>th_status := THREAD_STATUS_ARCHIVED, th_archived_at := Some now,
                      th_updated_at := now\<rparr>) s
              in (threads_in s thread_ids, s))"

definition end_idle_threads_older_than :: "store \<Rightarrow> int \<Rightarrow> int \<Rightarrow> thread_row list \<times> store" where
  "end_idle_threads_older_than s ttl_seconds lim =
     (let (cutoff, s) = utc_iso_before s ttl_seconds in end_idle_threads_before s cutoff ''idle'' lim)"

definition list_idle_active_threads_older_than :: "store \<Rightarrow> int \<Rightarrow> int \<Rightarrow> thread_row list \<times> store" where
  "list_idle_active_threads_older_than s ttl_seconds lim =
     (let (cutoff, s) = utc_iso_before s ttl_seconds in (idle_active_threads s cutoff lim, s))"

definition archive_ended_threads_older_than :: "store \<Rightarrow> int \<Rightarrow> int \<Rightarrow> thread_row list \<times> store" where
  "archive_ended_threads_older_than s ttl_seconds lim =
     (let (cutoff, s) = utc_iso_before s ttl_seconds in archive_ended_threads_before s cutoff lim)"

section \<open>Runs\<close>

text \<open>\<open>(x or "").strip() or None\<close>\<close>

definition strip_or_none :: "string option \<Rightarrow> string option" where
  "strip_or_none x = (case x of None \<Rightarrow> None | Some t \<Rightarrow> if strip t = [] then None else Some (strip t))"

definition runs_by_created :: "(run_row \<Rightarrow> bool) \<Rightarrow> store \<Rightarrow> run_row list" where
  "runs_by_created p s = sort_key rn_created_at (filter p (runs s))"

definition first_row :: "'a list \<Rightarrow> 'a option" where
  "first_row xs = (case xs of [] \<Rightarrow> None | x # _ \<Rightarrow> Some x)"

definition last_row :: "'a list \<Rightarrow> 'a option" where
  "last_row xs = first_row (rev xs)"

definition is_active_run :: "string \<Rightarrow> run_row \<Rightarrow> bool" where
  "is_active_run thread_id r \<longleftrightarrow> rn_thread_id r = thread_id \<and>
     rn_status r \<in> {RUN_STATUS_QUEUED, RUN_STATUS_RUNNING, RUN_STATUS_WAITING_APPROVAL, RUN_STATUS_CANCELLING}"

text \<open>
  The body of \<^verbatim>\<open>create_run\<close> under the lock: \<open>s\<close> is the state the transaction starts from, and the one
  an exception rolls back to. First the thread row (inserted when it is missing), then an earlier run
  with the same idempotency key, then the active run of the thread, then the insertion.
\<close>

definition create_run_thread :: "store \<Rightarrow> time \<Rightarrow> string \<Rightarrow> string \<times> store" where
  "create_run_thread s now thread_id =
     (case get_thread s thread_id of
        None \<Rightarrow> (THREAD_STATUS_ACTIVE, s\<lparr>threads := threads s @
          [\<lparr>th_id = thread_id, th_title = None, th_status = THREAD_STATUS_ACTIVE,
            th_created_at = now, th_updated_at = now, th_last_interaction_at = now,
            th_ended_at = None, th_archived_at = None, th_end_reason = None,
            th_user_id = Some thread_id\<rparr>]\<rparr>)
      | Some t \<Rightarrow> (th_status t, s))"

definition existing_run :: "store \<Rightarrow> string \<Rightarrow> string option \<Rightarrow> run_row option" where
  "existing_run s thread_id key =
     (case key of None \<Rightarrow> None
      | Some k \<Rightarrow> first_row (runs_by_created
          (\<lambda>r. rn_thread_id r = thread_id \<and> rn_idempotency_key r = Some k) s))"

definition hash_conflict :: "string option \<Rightarrow> string option \<Rightarrow> bool" where
  "hash_conflict existing_hash new_hash =
     (truthy (opt_str existing_hash) \<and> truthy (opt_str new_hash) \<and> existing_hash \<noteq> new_hash)"

definition insert_run ::
    "store \<Rightarrow> time \<Rightarrow> string \<Rightarrow> string \<Rightarrow> string \<Rightarrow> string option \<Rightarrow> string option \<Rightarrow> run_row \<times> store" where
  "insert_run s now thread_id run_id status key hash =
     (let row = \<lparr>rn_id = run_id, rn_thread_id = thread_id, rn_status = status,
            rn_created_at = now, rn_completed_at = None, rn_error = None,
            rn_idempotency_key = key, rn_idempotency_payload_hash = hash,
            rn_recovered_at = None, rn_recovery_reason = None\<rparr>;
          s = s\<lparr>runs := runs s @ [row]\<rparr>
      in (row, set_threads (\<lambda>t. th_id t = thread_id)
                 (\<lambda>t. t\<lparr>th_last_interaction_at := now, th_updated_at := now\<rparr>) s))"

definition create_run_txn ::
    "store \<Rightarrow> time \<Rightarrow> string \<Rightarrow> string \<Rightarrow> string \<Rightarrow> string option \<Rightarrow> string option \<Rightarrow>
     (pyerr + run_row) \<times> store" where
  "create_run_txn s now thread_id run_id status key hash =
     (let (thread_status, s1) = create_run_thread s now thread_id
      in if thread_status \<noteq> THREAD_STATUS_ACTIVE then (Inl (ThreadNotActiveError thread_id thread_status), s)
         else case existing_run s1 thread_id key of
           Some r \<Rightarrow>
             (if hash_conflict (rn_idempotency_payload_hash r) hash
              then (Inl (IdempotencyConflictError thread_id (the key)), s)
              else (Inr r, s1))
         | None \<Rightarrow>
             (case first_row (runs_by_created (is_active_run thread_id) s1) of
                Some r \<Rightarrow> (Inl (ActiveRunExistsError thread_id (rn_id r)), s)
              | None \<Rightarrow>
                  (if get_run s1 run_id \<noteq> None then (Inl IntegrityError, s)
                   else (case insert_run s1 now thread_id run_id status key hash of
                           (row, s2) \<Rightarrow> (Inr row, s2)))))"

definition create_run ::
    "store \<Rightarrow> string \<Rightarrow> string option \<Rightarrow> string \<Rightarrow> string option \<Rightarrow> string option \<Rightarrow>
     (pyerr + run_row) \<times> store" where
  "create_run s thread_id run_id status idempotency_key idempotency_payload_hash =
     (case validate_run_status status of
        Inl e \<Rightarrow> (Inl e, s)
      | Inr _ \<Rightarrow>
          (let (run_id, s) = (case run_id of
                 Some r \<Rightarrow> if r = [] then uuid4 s else (r, s)
               | None \<Rightarrow> uuid4 s);
               key = strip_or_none idempotency_key;
               hash = strip_or_none idempotency_payload_hash;
               (now, s) = utc_now_iso s
           in create_run_txn s now thread_id run_id status key hash))"

text \<open>
  The digest the engine passes as payload hash; \<open>sha256\<close> is the hex digest of the text's UTF-8 bytes.
\<close>

definition idempotency_payload_hash :: "(string \<Rightarrow> string) \<Rightarrow> dict \<Rightarrow> string" where
  "idempotency_payload_hash sha256 payload = sha256 (json_dumps (sort_keys (PDict payload)))"

definition update_run_status ::
    "store \<Rightarrow> string \<Rightarrow> string \<Rightarrow> string option \<Rightarrow> bool \<Rightarrow> (pyerr + run_row option) \<times> store" where
  "update_run_status s run_id status error completed =
     (case validate_run_status status of
        Inl e \<Rightarrow> (Inl e, s)
      | Inr _ \<Rightarrow>
          (let (now, s) = utc_now_iso s in
           case get_run s run_id of
             None \<Rightarrow> (Inr None, s)
           | Some current \<Rightarrow>
               (if rn_status current = status then (Inr (Some current), s)
                else case validate_run_transition (rn_status current) status of
                  Inl e \<Rightarrow> (Inl e, s)
                | Inr _ \<Rightarrow>
                    (let completed_at =
                           (if completed \<or> status \<in> TERMINAL_RUN_STATUSES then Some now else None);
                         s = set_runs (\<lambda>r. rn_id r = run_id)
                           (\<lambda>r. r\<lparr>rn_status := status, rn_completed_at := completed_at, rn_error := error\<rparr>) s;
                         s = set_threads (\<lambda>t. th_id t = rn_thread_id current)
                           (\<lambda>t. t\<lparr>th_updated_at := now\<rparr>) s
                     in (Inr (get_run s run_id), s)))))"

definition mark_run_recovered :: "store \<Rightarrow> string \<Rightarrow> string \<Rightarrow> run_row option \<times> store" where
  "mark_run_recovered s run_id reason =
     (let (now, s) = utc_now_iso s;
          s = set_runs (\<lambda>r. rn_id r = run_id)
            (\<lambda>r. r\<lparr>rn_recovered_at := coalesce (rn_recovered_at r) (Some now),
                  rn_recovery_reason := coalesce (rn_recovery_reason r) (Some reason)\<rparr>) s
      in (get_run s run_id, s))"

definition complete_run :: "store \<Rightarrow> string \<Rightarrow> string option \<Rightarrow> (pyerr + run_row option) \<times> store" where
  "complete_run s run_id error =
     (let status = (if truthy (opt_str error) then RUN_STATUS_FAILED else RUN_STATUS_COMPLETED)
      in update_run_status s run_id status error True)"

definition list_runs_by_status :: "store \<Rightarrow> string list \<Rightarrow> pyerr + run_row list" where
  "list_runs_by_status s statuses =
     (case find (\<lambda>st. st \<notin> RUN_STATUSES) statuses of
        Some st \<Rightarrow> Inl (InvalidRunStatusError st)
      | None \<Rightarrow> Inr (runs_by_created (\<lambda>r. rn_status r \<in> set statuses) s))"

definition fail_non_terminal_runs :: "store \<Rightarrow> string \<Rightarrow> string list \<Rightarrow> run_row list \<times> store" where
  "fail_non_terminal_runs s error exclude_statuses =
     (let statuses = NON_TERMINAL_RUN_STATUSES - set exclude_statuses in
      if statuses = {} then ([], s)
      else
        (let (now, s) = utc_now_iso s;
             rows = runs_by_created (\<lambda>r. rn_status r \<in> statuses) s;
             run_ids = map rn_id rows
         in if run_ids = [] then (rows, s)
            else
              (let s = set_runs (\<lambda>r. rn_id r \<in> set run_ids)
                     (\<lambda>r. r\<lparr>rn_status := RUN_STATUS_FAILED, rn_completed_at := Some now, rn_error := Some error\<rparr>) s;
                   touched = rn_thread_id ` set (filter (\<lambda>r. rn_id r \<in> set run_ids) (runs s));
                   s = set_threads (\<lambda>t. th_id t \<in> touched) (\<lambda>t. t\<lparr>th_updated_at := now\<rparr>) s
               in (runs_by_created (\<lambda>r. rn_id r \<in> set run_ids) s, s))))"

definition list_runs :: "store \<Rightarrow> string \<Rightarrow> run_row list" where
  "list_runs s thread_id = runs_by_created (\<lambda>r. rn_thread_id r = thread_id) s"

definition latest_run_id :: "store \<Rightarrow> string \<Rightarrow> string option" where
  "latest_run_id s thread_id = map_option rn_id (last_row (runs_by_created (\<lambda>r. rn_thread_id r = thread_id) s))"

section \<open>Events\<close>

definition select_events :: "(event_row \<Rightarrow> bool) \<Rightarrow> store \<Rightarrow> event_row list" where
  "select_events p s = sort_key row_order (filter p (events s))"

definition find_tool_end_event :: "store \<Rightarrow> string \<Rightarrow> string \<Rightarrow> event_row option" where
  "find_tool_end_event s run_id call_id =
     (if strip call_id = [] then None
      else find (\<lambda>e. str_or (dget (payload_of e) ''call_id'') = call_id)
             (select_events (\<lambda>e. ev_run_id e = run_id \<and> ev_type e = ''tool_end'') s))"

definition find_successful_tool_end_by_idempotency ::
    "store \<Rightarrow> string \<Rightarrow> string \<Rightarrow> string \<Rightarrow> event_row option" where
  "find_successful_tool_end_by_idempotency s run_id tool_name idempotency_key =
     (let key = strip idempotency_key in
      if key = [] then None
      else find (\<lambda>e. str_or (dget (payload_of e) ''name'') = tool_name \<and>
                    str_or (dget (payload_of e) ''idempotency_key'') = key \<and>
                    dget (payload_of e) ''success'' = PBool True)
             (select_events (\<lambda>e. ev_run_id e = run_id \<and> ev_type e = ''tool_end'') s))"

text \<open>\<open>SELECT COALESCE(MAX(sequence), 0) FROM events WHERE run_id = ?\<close>\<close>

definition max_sequence :: "store \<Rightarrow> string \<Rightarrow> int" where
  "max_sequence s run_id =
     (case List.map_filter ev_sequence (filter (\<lambda>e. ev_run_id e = run_id) (events s)) of
        [] \<Rightarrow> 0
      | n # ns \<Rightarrow> fold max ns n)"

definition notify :: "event_row \<Rightarrow> store \<Rightarrow> store" where
  "notify e s = s\<lparr>deliveries := deliveries s @ map (\<lambda>c. (c, e)) (subscribers s)\<rparr>"

text \<open>
  \<^verbatim>\<open>append_event\<close> in its two locked sections: the search for an earlier \<open>tool_end\<close> of the same call, and
  the insertion. The lock is released between them.
\<close>

definition append_lookup :: "store \<Rightarrow> string \<Rightarrow> string \<Rightarrow> dict \<Rightarrow> event_row option" where
  "append_lookup s run_id event_type payload =
     (if event_type = ''tool_end'' then
        (let call_id = strip (str_or (dget payload ''call_id'')) in
         if call_id = [] then None else find_tool_end_event s run_id call_id)
      else None)"

definition append_insert :: "store \<Rightarrow> string \<Rightarrow> string \<Rightarrow> string \<Rightarrow> dict \<Rightarrow> event_row \<times> store" where
  "append_insert s thread_id run_id event_type payload =
     (let (now, s) = utc_now_iso s;
          stored_payload = envelope_payload event_type payload;
          sequence = max_sequence s run_id + 1;
          e = \<lparr>ev_id = last_event_id s + 1, ev_thread_id = thread_id, ev_run_id = run_id,
               ev_type = event_type, ev_payload = PDict stored_payload, ev_created_at = now,
               ev_sequence = Some sequence\<rparr>;
          s = s\<lparr>events := events s @ [e], last_event_id := last_event_id s + 1\<rparr>;
          s = set_threads (\<lambda>t. th_id t = thread_id) (\<lambda>t. t\<lparr>th_updated_at := now\<rparr>) s
      in (e, notify e s))"

definition append_event :: "store \<Rightarrow> string \<Rightarrow> string \<Rightarrow> string \<Rightarrow> dict \<Rightarrow> event_row \<times> store" where
  "append_event s thread_id run_id event_type payload =
     (case append_lookup s run_id event_type payload of
        Some existing \<Rightarrow> (existing, s)
      | None \<Rightarrow> append_insert s thread_id run_id event_type payload)"

definition list_events_query ::
    "store \<Rightarrow> (event_row \<Rightarrow> bool) \<Rightarrow> string option \<Rightarrow> int option \<Rightarrow> int option \<Rightarrow> event_row list" where
  "list_events_query s base run_id after_id lim =
     sql_limit lim (select_events
       (\<lambda>e. base e \<and> (case run_id of None \<Rightarrow> True | Some r \<Rightarrow> r = [] \<or> ev_run_id e = r)
          \<and> (case after_id of None \<Rightarrow> True | Some a \<Rightarrow> a < ev_id e)) s)"

definition list_events ::
    "store \<Rightarrow> string \<Rightarrow> string option \<Rightarrow> int option \<Rightarrow> int option \<Rightarrow> event_row list" where
  "list_events s thread_id run_id after_id lim =
     list_events_query s (\<lambda>e. ev_thread_id e = thread_id) run_id after_id lim"

definition list_run_events :: "store \<Rightarrow> string \<Rightarrow> int option \<Rightarrow> int option \<Rightarrow> event_row list" where
  "list_run_events s run_id after_id lim = list_events_query s (\<lambda>e. ev_run_id e = run_id) None after_id lim"

abbreviation run_events :: "store \<Rightarrow> string \<Rightarrow> event_row list" where
  "run_events s run_id \<equiv> list_run_events s run_id None None"

text \<open>\<open>ORDER BY id DESC\<close>, scanned for the first row whose payload field has the wanted text.\<close>

definition find_latest_event_by_type_and_payload ::
    "store \<Rightarrow> string \<Rightarrow> string \<Rightarrow> string \<Rightarrow> string option \<Rightarrow> event_row option" where
  "find_latest_event_by_type_and_payload s event_type payload_key payload_value run_id =
     find (\<lambda>e. str_or (dget (payload_of e) payload_key) = payload_value)
       (rev (sort_key ev_id (filter (\<lambda>e. ev_type e = event_type \<and>
          (case run_id of None \<Rightarrow> True | Some r \<Rightarrow> r = [] \<or> ev_run_id e = r)) (events s))))"

definition latest_run_event_id :: "store \<Rightarrow> string \<Rightarrow> int option" where
  "latest_run_event_id s run_id = map_option ev_id (last_row (select_events (\<lambda>e. ev_run_id e = run_id) s))"

definition latest_run_sequence :: "store \<Rightarrow> string \<Rightarrow> int option" where
  "latest_run_sequence s run_id =
     (case last_row (select_events (\<lambda>e. ev_run_id e = run_id) s) of None \<Rightarrow> None | Some e \<Rightarrow> ev_sequence e)"

section \<open>Pages\<close>

record page =
  pg_events :: "event_row list"
  pg_next_after_id :: "int option"
  pg_has_more :: bool

text \<open>The two page limits are fields of \<^verbatim>\<open>settings\<close>.\<close>

record page_settings =
  event_page_default_limit :: int
  event_page_max_limit :: int

definition resolve_event_limit :: "page_settings \<Rightarrow> int option \<Rightarrow> int option \<Rightarrow> int option" where
  "resolve_event_limit st after_id lim =
     (if after_id = None \<and> lim = None then None
      else case lim of
        None \<Rightarrow> Some (min (event_page_default_limit st) (event_page_max_limit st))
      | Some n \<Rightarrow> Some (min (max 1 n) (event_page_max_limit st)))"

text \<open>\<open>xs[:n]\<close>: a negative \<open>n\<close> drops from the end.\<close>

definition py_take :: "int \<Rightarrow> 'a list \<Rightarrow> 'a list" where
  "py_take n xs = (if 0 \<le> n then take (nat n) xs else take (length xs - nat (- n)) xs)"

definition page_from_events :: "event_row list \<Rightarrow> int option \<Rightarrow> page" where
  "page_from_events evs lim =
     (case lim of
        None \<Rightarrow> \<lparr>pg_events = evs, pg_next_after_id = map_option ev_id (last_row evs), pg_has_more = False\<rparr>
      | Some n \<Rightarrow>
          (let has_more = (int (length evs) > n); pg = py_take n evs
           in \<lparr>pg_events = pg, pg_next_after_id = map_option ev_id (last_row pg), pg_has_more = has_more\<rparr>))"

definition list_events_page ::
    "page_settings \<Rightarrow> store \<Rightarrow> string \<Rightarrow> string option \<Rightarrow> int option \<Rightarrow> int option \<Rightarrow> page" where
  "list_events_page st s thread_id run_id after_id lim =
     (let effective_limit = resolve_event_limit st after_id lim;
          fetch_limit = map_option (\<lambda>n. n + 1) effective_limit
      in page_from_events (list_events s thread_id run_id after_id fetch_limit) effective_limit)"

definition list_run_events_page ::
    "page_settings \<Rightarrow> store \<Rightarrow> string \<Rightarrow> int option \<Rightarrow> int option \<Rightarrow> page" where
  "list_run_events_page st s run_id after_id lim =
     (let effective_limit = resolve_event_limit st after_id lim;
          fetch_limit = map_option (\<lambda>n. n + 1) effective_limit
      in page_from_events (list_run_events s run_id after_id fetch_limit) effective_limit)"

section \<open>Subscribers\<close>

definition subscribe :: "nat \<Rightarrow> store \<Rightarrow> store" where
  "subscribe callback s = s\<lparr>subscribers := subscribers s @ [callback]\<rparr>"

definition unsubscribe :: "nat \<Rightarrow> store \<Rightarrow> store" where
  "unsubscribe callback s = s\<lparr>subscribers := remove1 callback (subscribers s)\<rparr>"

section \<open>Migration of the events table\<close>

text \<open>
  \<^verbatim>\<open>_migrate_events\<close>: the rows without a sequence, by run and id, are numbered from 1 within each run.
\<close>

fun number_rows :: "event_row list \<Rightarrow> (string \<rightharpoonup> int) \<Rightarrow> (int \<times> int) list" where
  "number_rows [] next_seq = []"
| "number_rows (row # rows) next_seq =
     (let seq = (case next_seq (ev_run_id row) of None \<Rightarrow> 0 | Some n \<Rightarrow> n) + 1
      in (ev_id row, seq) # number_rows rows (next_seq(ev_run_id row \<mapsto> seq)))"

definition migrate_events :: "store \<Rightarrow> store" where
  "migrate_events s =
     (let rows = sort_key (\<lambda>e. (ev_run_id e, ev_id e)) (filter (\<lambda>e. ev_sequence e = None) (events s));
          updates = number_rows rows Map.empty
      in s\<lparr>events := fold (\<lambda>(i, seq). update_where (\<lambda>e. ev_id e = i) (\<lambda>e. e\<lparr>ev_sequence := Some seq\<rparr>))
             updates (events s)\<rparr>)"

end
