(* ===== verification/StoreInv.thy ===== *)
theory StoreInv
  imports EventStore
begin

text \<open>
  The invariant of the event store and its preservation by every operation: distinct keys, valid
  statuses, at most one run per thread that is not terminal, event ids that grow, and per run the
  sequence numbers 1, 2, 3, ... with no gap. The operations that change the store are the rules of
  \<open>store_step\<close>.
\<close>

section \<open>Frames\<close>

lemma set_threads_frame [simp]:
  "runs (set_threads p f s) = runs s" "events (set_threads p f s) = events s"
  "last_event_id (set_threads p f s) = last_event_id s" "clock (set_threads p f s) = clock s"
  "ticks (set_threads p f s) = ticks s" "uuids (set_threads p f s) = uuids s"
  "uuid_pos (set_threads p f s) = uuid_pos s" "subscribers (set_threads p f s) = subscribers s"
  "deliveries (set_threads p f s) = deliveries s"
  "threads (set_threads p f s) = update_where p f (threads s)"
  by (simp_all add: set_threads_def)

lemma set_runs_frame [simp]:
  "threads (set_runs p f s) = threads s" "events (set_runs p f s) = events s"
  "last_event_id (set_runs p f s) = last_event_id s" "clock (set_runs p f s) = clock s"
  "ticks (set_runs p f s) = ticks s" "uuids (set_runs p f s) = uuids s"
  "uuid_pos (set_runs p f s) = uuid_pos s" "subscribers (set_runs p f s) = subscribers s"
  "deliveries (set_runs p f s) = deliveries s"
  "runs (set_runs p f s) = update_where p f (runs s)"
  by (simp_all add: set_runs_def)

lemma get_run_cong: "runs s' = runs s \<Longrightarrow> get_run s' i = get_run s i"
  by (simp add: get_run_def)

lemma get_thread_cong: "threads s' = threads s \<Longrightarrow> get_thread s' i = get_thread s i"
  by (simp add: get_thread_def)

text \<open>An operation that only touches the threads table (and the clock).\<close>

definition same_runs_and_log :: "store \<Rightarrow> store \<Rightarrow> bool" where
  "same_runs_and_log s s' \<longleftrightarrow> runs s' = runs s \<and> events s' = events s \<and> last_event_id s' = last_event_id s"

lemma same_runs_and_log_refl [simp]: "same_runs_and_log s s"
  by (simp add: same_runs_and_log_def)

lemma ensure_thread_frame [frame]: "same_runs_and_log s (snd (ensure_thread s t ti u))"
  by (simp add: ensure_thread_def utc_now_iso_def Let_def same_runs_and_log_def)

lemma touch_thread_frame [frame]: "same_runs_and_log s (snd (touch_thread s t))"
  by (simp add: touch_thread_def utc_now_iso_def Let_def same_runs_and_log_def)

lemma end_thread_frame [frame]: "same_runs_and_log s (snd (end_thread s t r))"
  by (simp add: end_thread_def utc_now_iso_def Let_def same_runs_and_log_def)

lemma archive_thread_frame [frame]: "same_runs_and_log s (snd (archive_thread s t))"
  by (simp add: archive_thread_def utc_now_iso_def Let_def same_runs_and_log_def)

lemma end_idle_frame [frame]: "same_runs_and_log s (snd (end_idle_threads_before s c r l))"
  by (simp add: end_idle_threads_before_def utc_now_iso_def Let_def same_runs_and_log_def)

lemma archive_ended_frame [frame]: "same_runs_and_log s (snd (archive_ended_threads_before s c l))"
  by (simp add: archive_ended_threads_before_def utc_now_iso_def Let_def same_runs_and_log_def)

lemma end_idle_older_frame [frame]: "same_runs_and_log s (snd (end_idle_threads_older_than s t l))"
  by (simp add: end_idle_threads_older_than_def end_idle_threads_before_def utc_iso_before_def
      utc_now_iso_def Let_def same_runs_and_log_def)

lemma archive_ended_older_frame [frame]: "same_runs_and_log s (snd (archive_ended_threads_older_than s t l))"
  by (simp add: archive_ended_threads_older_than_def archive_ended_threads_before_def utc_iso_before_def
      utc_now_iso_def Let_def same_runs_and_log_def)

lemma list_idle_frame [frame]: "same_runs_and_log s (snd (list_idle_active_threads_older_than s t l))"
  by (simp add: list_idle_active_threads_older_than_def utc_iso_before_def utc_now_iso_def Let_def
      same_runs_and_log_def)

lemma uuid4_frame [frame]: "same_runs_and_log s (snd (uuid4 s))"
  by (simp add: uuid4_def same_runs_and_log_def)

lemma subscribe_frame [frame]: "same_runs_and_log s (subscribe c s)"
  by (simp add: subscribe_def same_runs_and_log_def)

lemma unsubscribe_frame [frame]: "same_runs_and_log s (unsubscribe c s)"
  by (simp add: unsubscribe_def same_runs_and_log_def)

section \<open>The invariant\<close>

definition run_log :: "store \<Rightarrow> string \<Rightarrow> event_row list" where
  "run_log s rid = filter (\<lambda>e. ev_run_id e = rid) (events s)"

definition active_runs :: "store \<Rightarrow> string \<Rightarrow> run_row list" where
  "active_runs s tid = filter (is_active_run tid) (runs s)"

definition runs_inv :: "store \<Rightarrow> bool" where
  "runs_inv s \<longleftrightarrow> distinct (map rn_id (runs s)) \<and> (\<forall>r \<in> set (runs s). rn_status r \<in> RUN_STATUSES)
     \<and> (\<forall>tid. length (active_runs s tid) \<le> 1)"

definition log_inv :: "store \<Rightarrow> bool" where
  "log_inv s \<longleftrightarrow> sorted_wrt (<) (map ev_id (events s)) \<and> (\<forall>e \<in> set (events s). ev_id e \<le> last_event_id s)
     \<and> (\<forall>rid. map ev_sequence (run_log s rid) = map (\<lambda>n. Some (int n)) [1..<Suc (length (run_log s rid))])"

definition store_inv :: "store \<Rightarrow> bool" where
  "store_inv s \<longleftrightarrow> runs_inv s \<and> log_inv s"

lemma store_invD: "store_inv s \<Longrightarrow> runs_inv s" "store_inv s \<Longrightarrow> log_inv s"
  by (simp_all add: store_inv_def)

lemma is_active_run_iff: "is_active_run t r \<longleftrightarrow> rn_thread_id r = t \<and> rn_status r \<in> NON_TERMINAL_RUN_STATUSES"
  by (simp add: is_active_run_def NON_TERMINAL_RUN_STATUSES_def)

lemma runs_inv_cong: "runs s' = runs s \<Longrightarrow> runs_inv s' = runs_inv s"
  by (simp add: runs_inv_def active_runs_def)

lemma log_inv_cong:
  "events s' = events s \<Longrightarrow> last_event_id s' = last_event_id s \<Longrightarrow> log_inv s' = log_inv s"
  by (simp add: log_inv_def run_log_def)

lemma store_inv_frame: "same_runs_and_log s s' \<Longrightarrow> store_inv s \<Longrightarrow> store_inv s'"
  by (simp add: store_inv_def same_runs_and_log_def runs_inv_cong [of s' s] log_inv_cong [of s' s])

lemma get_run_in: "get_run s i = Some r \<Longrightarrow> r \<in> set (runs s) \<and> rn_id r = i"
  by (auto simp: get_run_def find_Some_iff)

lemma get_run_None: "get_run s i = None \<longleftrightarrow> i \<notin> rn_id ` set (runs s)"
  by (auto simp: get_run_def find_None_iff)

lemma get_run_of_member: "runs_inv s \<Longrightarrow> r \<in> set (runs s) \<Longrightarrow> get_run s (rn_id r) = Some r"
  by (simp add: get_run_def runs_inv_def find_key_distinct)

section \<open>Selecting runs\<close>

lemma set_runs_by_created [simp]: "set (runs_by_created p s) = {r \<in> set (runs s). p r}"
  by (auto simp: runs_by_created_def)

lemma first_row_None [simp]: "first_row xs = None \<longleftrightarrow> xs = []"
  by (simp add: first_row_def split: list.splits)

lemma first_row_Some: "first_row xs = Some x \<Longrightarrow> x \<in> set xs"
  by (auto simp: first_row_def split: list.splits)

lemma last_row_Some: "last_row xs = Some x \<Longrightarrow> x \<in> set xs"
  unfolding last_row_def by (drule first_row_Some) simp

lemma last_row_Nil [simp]: "last_row [] = None"
  by (simp add: last_row_def first_row_def)

lemma last_row_eq: "last_row xs = (if xs = [] then None else Some (last xs))"
  by (cases xs rule: rev_cases) (simp_all add: last_row_def first_row_def)

lemma runs_by_created_Nil: "runs_by_created p s = [] \<longleftrightarrow> filter p (runs s) = []"
  by (metis (no_types) filter.simps(1) filter_empty_conv runs_by_created_def set_empty set_sort)

section \<open>Creating a run\<close>

lemma create_run_thread_frame: "same_runs_and_log s (snd (create_run_thread s now tid))"
  by (simp add: create_run_thread_def same_runs_and_log_def split: option.splits)

lemma existing_run_Some:
  "existing_run s tid key = Some r \<Longrightarrow>
    \<exists>k. key = Some k \<and> r \<in> set (runs s) \<and> rn_thread_id r = tid \<and> rn_idempotency_key r = Some k"
  by (auto simp: existing_run_def split: option.splits dest!: first_row_Some)

lemma insert_run_frame:
  "events (snd (insert_run s now tid rid st key hash)) = events s"
  "last_event_id (snd (insert_run s now tid rid st key hash)) = last_event_id s"
  "runs (snd (insert_run s now tid rid st key hash)) = runs s @ [fst (insert_run s now tid rid st key hash)]"
  by (simp_all add: insert_run_def Let_def)

lemma insert_run_row:
  "rn_id (fst (insert_run s now tid rid st key hash)) = rid"
  "rn_status (fst (insert_run s now tid rid st key hash)) = st"
  "rn_thread_id (fst (insert_run s now tid rid st key hash)) = tid"
  "rn_idempotency_key (fst (insert_run s now tid rid st key hash)) = key"
  "rn_idempotency_payload_hash (fst (insert_run s now tid rid st key hash)) = hash"
  by (simp_all add: insert_run_def Let_def)

lemma create_run_txn_cases:
  assumes "create_run_txn s now tid rid st key hash = (res, s')"
  obtains (error) e where "res = Inl e" "s' = s"
  | (existing) r k where "res = Inr r" "key = Some k" "r \<in> set (runs s)" "rn_thread_id r = tid"
      "rn_idempotency_key r = Some k" "same_runs_and_log s s'"
  | (created) r where "res = Inr r" "runs s' = runs s @ [r]" "rn_id r = rid" "rn_status r = st"
      "rn_thread_id r = tid" "active_runs s tid = []" "get_run s rid = None" "events s' = events s"
      "last_event_id s' = last_event_id s" "rn_idempotency_key r = key" "rn_idempotency_payload_hash r = hash"
proof -
  obtain ts s1 where ts: "create_run_thread s now tid = (ts, s1)" by (cases "create_run_thread s now tid")
  then have same: "same_runs_and_log s s1" using create_run_thread_frame [of s now tid] by simp
  then have s1: "runs s1 = runs s" "events s1 = events s" "last_event_id s1 = last_event_id s"
    by (simp_all add: same_runs_and_log_def)
  note txn = assms [unfolded create_run_txn_def ts Let_def prod.case]
  show thesis
  proof (cases "ts = THREAD_STATUS_ACTIVE")
    case False
    then show thesis using txn error by auto
  next
    case active: True
    show thesis
    proof (cases "existing_run s1 tid key")
      case (Some r)
      then show thesis
        using txn active same s1 error existing_run_Some [OF Some] existing [of r] by (auto split: if_splits)
    next
      case fresh: None
      show thesis
      proof (cases "first_row (runs_by_created (is_active_run tid) s1) = None \<and> get_run s1 rid = None")
        case True
        define row where "row = fst (insert_run s1 now tid rid st key hash)"
        have "active_runs s tid = []" "get_run s rid = None"
          using True by (simp_all add: runs_by_created_Nil s1 active_runs_def get_run_cong [of s1 s])
        moreover have "res = Inr row" "s' = snd (insert_run s1 now tid rid st key hash)"
          using txn active fresh True by (auto simp: row_def split: prod.splits)
        ultimately show thesis
          using created [of row] by (simp add: row_def insert_run_frame insert_run_row s1)
      next
        case False
        then show thesis
          using txn active fresh error by (auto split: option.splits if_splits)
      qed
    qed
  qed
qed

lemma store_inv_tick [simp]: "store_inv (s\<lparr>ticks := n\<rparr>) = store_inv s" "store_inv (s\<lparr>uuid_pos := n\<rparr>) = store_inv s"
  by (simp_all add: store_inv_def runs_inv_def log_inv_def active_runs_def run_log_def)

lemma active_runs_append:
  "active_runs (s\<lparr>runs := runs s @ [r]\<rparr>) t = active_runs s t @ (if is_active_run t r then [r] else [])"
  by (simp add: active_runs_def)

lemma create_run_txn_inv:
  assumes inv: "store_inv s" and st: "st \<in> RUN_STATUSES"
    and res: "create_run_txn s now tid rid st key hash = (res, s')"
  shows "store_inv s'"
  using res
proof (cases rule: create_run_txn_cases)
  case (error e)
  then show ?thesis using inv by simp
next
  case (existing r k)
  then show ?thesis using inv store_inv_frame by blast
next
  case (created r)
  have "length (active_runs s' t) \<le> 1" for t
  proof (cases "t = tid")
    case True
    then show ?thesis using created by (simp add: active_runs_def)
  next
    case False
    then have "active_runs s' t = active_runs s t"
      using created by (auto simp: active_runs_def is_active_run_iff)
    then show ?thesis using inv by (simp add: store_inv_def runs_inv_def)
  qed
  then have "runs_inv s'"
    using inv st created by (auto simp: store_inv_def runs_inv_def get_run_None)
  moreover have "log_inv s'"
    using inv created log_inv_cong [of s' s] by (simp add: store_inv_def)
  ultimately show ?thesis by (simp add: store_inv_def)
qed

lemma create_run_decomp:
  assumes "create_run s tid rid st key hash = (res, s')"
  obtains (invalid) "st \<notin> RUN_STATUSES" "res = Inl (InvalidRunStatusError st)" "s' = s"
  | (valid) rid' n where "st \<in> RUN_STATUSES"
      "create_run_txn (s\<lparr>ticks := Suc (ticks s), uuid_pos := n\<rparr>) (clock s (ticks s)) tid rid' st
         (strip_or_none key) (strip_or_none hash) = (res, s')"
proof (cases "st \<in> RUN_STATUSES")
  case False
  then show thesis using assms invalid by (auto simp: create_run_def validate_run_status_def)
next
  case True
  define p where "p = (case rid of Some r \<Rightarrow> if r = [] then uuid4 s else (r, s) | None \<Rightarrow> uuid4 s)"
  have p: "snd p = s\<lparr>uuid_pos := uuid_pos (snd p)\<rparr>"
    by (simp add: p_def uuid4_def split: option.splits)
  have "create_run_txn ((snd p)\<lparr>ticks := Suc (ticks (snd p))\<rparr>) (clock (snd p) (ticks (snd p))) tid (fst p) st
         (strip_or_none key) (strip_or_none hash) = (res, s')"
    using assms True
    by (simp add: create_run_def validate_run_status_def p_def utc_now_iso_def Let_def split: prod.splits)
  then show thesis
    using True valid [of "uuid_pos (snd p)" "fst p"] p by (metis (no_types, lifting) store.simps store.surjective
        store.update_convs)
qed

lemma create_run_inv:
  assumes inv: "store_inv s" and eq: "create_run s tid rid st key hash = (res, s')"
  shows "store_inv s'"
  using eq
proof (cases rule: create_run_decomp)
  case invalid
  then show ?thesis using inv by simp
next
  case (valid rid' n)
  show ?thesis
    by (rule create_run_txn_inv [OF _ valid(1) valid(2)]) (simp add: inv)
qed

section \<open>The event log\<close>

lemma map_filter_via_map: "map f xs = map Some ys \<Longrightarrow> List.map_filter f xs = ys"
  by (induction xs arbitrary: ys) (auto simp: List.map_filter_def)

lemma fold_max_upt: "fold max (map int [Suc k..<Suc (k + n)]) (int k) = int (k + n)"
proof (induction n)
  case (Suc n)
  then show ?case by simp
qed simp

lemma max_sequence_eq:
  assumes "log_inv s"
  shows "max_sequence s rid = int (length (run_log s rid))"
proof -
  let ?n = "length (run_log s rid)"
  have "map ev_sequence (run_log s rid) = map Some (map int [1..<Suc ?n])"
    using assms by (simp add: log_inv_def)
  then have m: "List.map_filter ev_sequence (run_log s rid) = map int [1..<Suc ?n]"
    by (rule map_filter_via_map)
  show ?thesis
  proof (cases "?n = 0")
    case True
    then show ?thesis using m by (simp add: max_sequence_def run_log_def)
  next
    case False
    then obtain k where k: "?n = Suc k" by (cases ?n) auto
    then have "map int [1..<Suc ?n] = 1 # map int [Suc 1..<Suc (1 + k)]"
      by (simp add: upt_conv_Cons del: upt_Suc)
    then show ?thesis
      using m fold_max_upt [of 1 k] k by (simp add: max_sequence_def run_log_def del: upt_Suc)
  qed
qed

lemma run_log_append:
  "events s' = events s @ [e] \<Longrightarrow> run_log s' rid = run_log s rid @ (if ev_run_id e = rid then [e] else [])"
  by (simp add: run_log_def)

lemma log_inv_append:
  assumes inv: "log_inv s" and evs: "events s' = events s @ [e]" and lst: "last_event_id s' = ev_id e"
    and i: "last_event_id s < ev_id e"
    and seq: "ev_sequence e = Some (int (length (run_log s (ev_run_id e))) + 1)"
  shows "log_inv s'"
proof -
  have "map ev_sequence (run_log s' rid) = map (\<lambda>n. Some (int n)) [1..<Suc (length (run_log s' rid))]" for rid
  proof (cases "ev_run_id e = rid")
    case True
    then show ?thesis
      using inv seq by (auto simp: run_log_append [OF evs] log_inv_def)
  next
    case False
    then show ?thesis
      using inv by (simp add: run_log_append [OF evs] log_inv_def del: upt_Suc)
  qed
  moreover have "sorted_wrt (<) (map ev_id (events s'))"
    using inv i by (force simp: evs log_inv_def sorted_wrt_append)
  ultimately show ?thesis
    using inv i lst by (force simp: evs log_inv_def)
qed

lemma append_insert_effect:
  assumes "append_insert s tid rid ty p = (e, s')"
  shows "events s' = events s @ [e]" "runs s' = runs s" "last_event_id s' = last_event_id s + 1"
    "ev_id e = last_event_id s + 1" "ev_thread_id e = tid" "ev_run_id e = rid" "ev_type e = ty"
    "ev_payload e = PDict (envelope_payload ty p)" "ev_sequence e = Some (max_sequence s rid + 1)"
    "ev_created_at e = clock s (ticks s)"
    "deliveries s' = deliveries s @ map (\<lambda>c. (c, e)) (subscribers s)"
    "clock s' = clock s" "ticks s' = Suc (ticks s)" "uuids s' = uuids s" "uuid_pos s' = uuid_pos s"
    "threads s' = update_where (\<lambda>t. th_id t = tid) (\<lambda>t. t\<lparr>th_updated_at := clock s (ticks s)\<rparr>) (threads s)"
  using assms
  by (auto simp: append_insert_def utc_now_iso_def Let_def notify_def max_sequence_def)

lemma append_insert_inv:
  assumes "store_inv s" and "append_insert s tid rid ty p = (e, s')"
  shows "store_inv s'"
proof -
  have "log_inv s'"
    by (rule log_inv_append [of s s' e]) (use assms append_insert_effect [OF assms(2)] max_sequence_eq
        in \<open>auto simp: store_inv_def\<close>)
  then show ?thesis
    using assms append_insert_effect [OF assms(2)] runs_inv_cong [of s' s] by (simp add: store_inv_def)
qed

lemma append_event_cases:
  assumes "append_event s tid rid ty p = (e, s')"
  obtains (duplicate) "append_lookup s rid ty p = Some e" "s' = s"
  | (inserted) "append_lookup s rid ty p = None" "append_insert s tid rid ty p = (e, s')"
  using assms by (auto simp: append_event_def split: option.splits)

lemma append_event_inv: "store_inv s \<Longrightarrow> append_event s tid rid ty p = (e, s') \<Longrightarrow> store_inv s'"
  by (erule append_event_cases) (auto intro: append_insert_inv)

section \<open>Changing the status of runs\<close>

lemma runs_inv_update:
  assumes inv: "runs_inv s" and r: "runs s' = update_where p f (runs s)"
    and ident: "\<And>r. rn_id (f r) = rn_id r" and thr: "\<And>r. rn_thread_id (f r) = rn_thread_id r"
    and st: "\<And>r. r \<in> set (runs s) \<Longrightarrow> p r \<Longrightarrow> rn_status (f r) \<in> RUN_STATUSES"
    and act: "\<And>r. r \<in> set (runs s) \<Longrightarrow> p r \<Longrightarrow> rn_status (f r) \<in> NON_TERMINAL_RUN_STATUSES \<Longrightarrow>
        rn_status r \<in> NON_TERMINAL_RUN_STATUSES"
  shows "runs_inv s'"
proof -
  have "length (active_runs s' t) \<le> length (active_runs s t)" for t
    unfolding active_runs_def r
    by (rule filter_update_where_length) (auto simp: is_active_run_iff thr dest: act)
  then have "\<forall>t. length (active_runs s' t) \<le> 1"
    using inv by (metis runs_inv_def le_trans)
  moreover have "map rn_id (runs s') = map rn_id (runs s)"
    unfolding r by (rule map_update_where) (rule ident)
  moreover have "\<forall>r \<in> set (runs s'). rn_status r \<in> RUN_STATUSES"
    using inv st by (auto simp: r set_update_where runs_inv_def)
  ultimately show ?thesis using inv by (simp add: runs_inv_def)
qed

lemma get_run_update:
  assumes "runs s' = update_where p f (runs s)" and "\<And>r. rn_id (f r) = rn_id r"
  shows "get_run s' i = map_option (\<lambda>r. if p r then f r else r) (get_run s i)"
  unfolding get_run_def assms(1) by (rule find_update_where) (simp add: assms(2))

lemma update_run_status_cases:
  assumes "update_run_status s rid st err cpl = (res, s')"
  obtains (error) e where "res = Inl e" "same_runs_and_log s s'"
      "st \<in> RUN_STATUSES \<Longrightarrow> \<exists>r. get_run s rid = Some r \<and> rn_status r \<noteq> st \<and>
        validate_run_transition (rn_status r) st = Inl e"
  | (missing) "res = Inr None" "get_run s rid = None" "same_runs_and_log s s'"
  | (unchanged) r where "res = Inr (Some r)" "get_run s rid = Some r" "rn_status r = st" "same_runs_and_log s s'"
  | (changed) r now where "get_run s rid = Some r" "rn_status r \<noteq> st" "run_step (rn_status r) st"
      "runs s' = update_where (\<lambda>r. rn_id r = rid)
         (\<lambda>r. r\<lparr>rn_status := st, rn_completed_at := (if cpl \<or> st \<in> TERMINAL_RUN_STATUSES then Some now else None),
              rn_error := err\<rparr>) (runs s)"
      "events s' = events s" "last_event_id s' = last_event_id s" "res = Inr (get_run s' rid)"
proof (cases "st \<in> RUN_STATUSES")
  case False
  then show thesis
    using assms error by (auto simp: update_run_status_def validate_run_status_def)
next
  case valid: True
  note eq = assms [unfolded update_run_status_def validate_run_status_def utc_now_iso_def Let_def prod.case]
  have same: "same_runs_and_log s (s\<lparr>ticks := Suc (ticks s)\<rparr>)" by (simp add: same_runs_and_log_def)
  show thesis
  proof (cases "get_run s rid")
    case None
    then show thesis using eq valid same missing by (auto simp: get_run_def)
  next
    case (Some r)
    then have g: "get_run (s\<lparr>ticks := Suc (ticks s)\<rparr>) rid = Some r" by (simp add: get_run_def)
    show thesis
    proof (cases "rn_status r = st")
      case True
      then show thesis using eq valid same g Some unchanged by auto
    next
      case neq: False
      show thesis
      proof (cases "validate_run_transition (rn_status r) st")
        case (Inl e)
        then show thesis using eq valid same g neq Some error by auto
      next
        case (Inr u)
        then have "run_step (rn_status r) st" using neq by (simp add: validate_run_transition_Inr)
        then show thesis
          using eq valid g neq Inr Some changed [of r "clock s (ticks s)"] by (auto simp: get_run_def)
      qed
    qed
  qed
qed

lemma update_run_status_inv:
  assumes inv: "store_inv s" and eq: "update_run_status s rid st err cpl = (res, s')"
  shows "store_inv s'"
  using eq
proof (cases rule: update_run_status_cases)
  case (changed r now)
  have own: "r' = r" if "r' \<in> set (runs s)" "rn_id r' = rid" for r'
    using get_run_of_member [OF store_invD(1) [OF inv] that(1)] changed(1) that by simp
  have "runs_inv s'"
    by (rule runs_inv_update [OF store_invD(1) [OF inv] changed(4)])
      (use run_step_valid [OF changed(3)] own in auto)
  then show ?thesis
    using inv changed log_inv_cong [of s' s] by (simp add: store_inv_def)
qed (use inv store_inv_frame in blast)+

lemma mark_run_recovered_effect:
  assumes "mark_run_recovered s rid reason = (res, s')"
  shows "runs s' = update_where (\<lambda>r. rn_id r = rid)
            (\<lambda>r. r\<lparr>rn_recovered_at := coalesce (rn_recovered_at r) (Some (clock s (ticks s))),
                  rn_recovery_reason := coalesce (rn_recovery_reason r) (Some reason)\<rparr>) (runs s)"
    "events s' = events s" "last_event_id s' = last_event_id s" "threads s' = threads s" "res = get_run s' rid"
  using assms by (auto simp: mark_run_recovered_def utc_now_iso_def Let_def)

lemma mark_run_recovered_inv:
  assumes inv: "store_inv s" and eq: "mark_run_recovered s rid reason = (res, s')"
  shows "store_inv s'"
proof -
  note e = mark_run_recovered_effect [OF eq]
  have "runs_inv s'"
    by (rule runs_inv_update [OF store_invD(1) [OF inv] e(1)])
      (use store_invD(1) [OF inv] in \<open>auto simp: runs_inv_def\<close>)
  then show ?thesis
    using inv e log_inv_cong [of s' s] by (simp add: store_inv_def)
qed

lemma fail_non_terminal_effect:
  assumes "fail_non_terminal_runs s err ex = (res, s')"
  obtains (none) "same_runs_and_log s s'"
      "{r \<in> set (runs s). rn_status r \<in> NON_TERMINAL_RUN_STATUSES - set ex} = {}"
  | (failed) ids now where "runs s' = update_where (\<lambda>r. rn_id r \<in> ids)
          (\<lambda>r. r\<lparr>rn_status := ''failed'', rn_completed_at := Some now, rn_error := Some err\<rparr>) (runs s)"
      "ids = rn_id ` {r \<in> set (runs s). rn_status r \<in> NON_TERMINAL_RUN_STATUSES - set ex}"
      "events s' = events s" "last_event_id s' = last_event_id s"
proof (cases "NON_TERMINAL_RUN_STATUSES - set ex = {} \<or>
    runs_by_created (\<lambda>r. rn_status r \<in> NON_TERMINAL_RUN_STATUSES - set ex) s = []")
  case True
  then have "{r \<in> set (runs s). rn_status r \<in> NON_TERMINAL_RUN_STATUSES - set ex} = {}"
    by (auto simp: runs_by_created_Nil filter_empty_conv)
  moreover have "same_runs_and_log s s'"
    using True assms
    by (auto simp: fail_non_terminal_runs_def utc_now_iso_def Let_def same_runs_and_log_def runs_by_created_def
        split: if_splits)
  ultimately show thesis using none by blast
next
  case False
  let ?p = "\<lambda>r. rn_status r \<in> NON_TERMINAL_RUN_STATUSES - set ex"
  have sel: "runs_by_created ?p (s\<lparr>ticks := Suc (ticks s)\<rparr>) = runs_by_created ?p s"
    by (simp add: runs_by_created_def)
  define ids where "ids = rn_id ` {r \<in> set (runs s). ?p r}"
  have s': "s' = snd (fail_non_terminal_runs s err ex)" using assms by simp
  have "runs s' = update_where (\<lambda>r. rn_id r \<in> ids)
      (\<lambda>r. r\<lparr>rn_status := ''failed'', rn_completed_at := Some (clock s (ticks s)), rn_error := Some err\<rparr>) (runs s)"
    using False unfolding s' fail_non_terminal_runs_def utc_now_iso_def Let_def prod.case sel
    by (simp add: ids_def)
  moreover have "events s' = events s" "last_event_id s' = last_event_id s"
    using False unfolding s' fail_non_terminal_runs_def utc_now_iso_def Let_def prod.case sel
    by simp_all
  ultimately show thesis using failed by (simp add: ids_def)
qed

lemma fail_non_terminal_inv:
  assumes inv: "store_inv s" and eq: "fail_non_terminal_runs s err ex = (res, s')"
  shows "store_inv s'"
  using eq
proof (cases rule: fail_non_terminal_effect)
  case none
  then show ?thesis using inv store_inv_frame by blast
next
  case (failed ids now)
  have "runs_inv s'"
    by (rule runs_inv_update [OF store_invD(1) [OF inv] failed(1)]) (auto simp: run_status_sets)
  then show ?thesis
    using inv failed log_inv_cong [of s' s] by (simp add: store_inv_def)
qed

end
