(* ===== verification/Interfaces.thy ===== *)
theory Interfaces
  imports EventStore
begin

text \<open>
  The contracts the rest of the runtime relies on, as locales.

  \<^item> \<open>status_system\<close>: a system in which every step moves the status of a run along the state machine, or
    forces a run that is not terminal to \<open>failed\<close>, and never loses a run. Its lemmas say what a whole
    execution can do to a run. The event store provides it.
  \<^item> \<open>status_client\<close>: a system whose steps are sequences of steps of a status system it contains. It is a
    status system itself (the \<open>sublocale\<close> below); the execution engine is one over the event store.
  \<^item> \<open>run_log_system\<close>: an append operation that extends the log of one run or finds an equal call already
    recorded, and leaves the logs of the other runs alone. The event store provides it; the engine's
    claims about the events of a run are proved from it.
\<close>

section \<open>Systems that move run statuses\<close>

text \<open>What a sequence of steps may do to one status.\<close>

definition status_moves :: "string \<Rightarrow> string \<Rightarrow> bool" where
  "status_moves st st' \<longleftrightarrow> run_step\<^sup>*\<^sup>* st st' \<or> (st \<notin> TERMINAL_RUN_STATUSES \<and> st' = ''failed'')"

lemma status_moves_refl [simp]: "status_moves st st"
  by (simp add: status_moves_def)

lemma failed_moves: "run_step\<^sup>*\<^sup>* ''failed'' st \<Longrightarrow> st = ''failed''"
  by (drule terminal_steps) (simp_all add: run_status_sets)

lemma status_moves_trans:
  assumes "status_moves a b" and "status_moves b c"
  shows "status_moves a c"
  using assms(1) unfolding status_moves_def [of a b]
proof (elim disjE conjE)
  assume ab: "run_step\<^sup>*\<^sup>* a b"
  show ?thesis
    using assms(2) unfolding status_moves_def
  proof (elim disjE conjE)
    assume "run_step\<^sup>*\<^sup>* b c"
    then show "run_step\<^sup>*\<^sup>* a c \<or> a \<notin> TERMINAL_RUN_STATUSES \<and> c = ''failed''"
      using ab by (intro disjI1) (rule rtranclp_trans)
  next
    assume "b \<notin> TERMINAL_RUN_STATUSES" "c = ''failed''"
    then show "run_step\<^sup>*\<^sup>* a c \<or> a \<notin> TERMINAL_RUN_STATUSES \<and> c = ''failed''"
      using terminal_steps [OF ab] by blast
  qed
next
  assume ab: "a \<notin> TERMINAL_RUN_STATUSES" "b = ''failed''"
  have "c = ''failed''"
    using assms(2) ab failed_moves by (auto simp: status_moves_def)
  then show ?thesis using ab by (simp add: status_moves_def)
qed

lemma status_moves_terminal: "status_moves st st' \<Longrightarrow> st \<in> TERMINAL_RUN_STATUSES \<Longrightarrow> st' = st"
  by (auto simp: status_moves_def dest: terminal_steps)

lemma status_moves_queued: "status_moves st ''queued'' \<Longrightarrow> st = ''queued''"
  by (auto simp: status_moves_def dest: steps_to_queued)

lemma status_moves_cancelling:
  "status_moves ''cancelling'' st \<Longrightarrow> st \<in> {''cancelling'', ''cancelled'', ''failed''}"
  by (auto simp: status_moves_def dest: cancelling_steps)

locale status_system =
  fixes step :: "'s \<Rightarrow> 's \<Rightarrow> bool"
    and inv :: "'s \<Rightarrow> bool"
    and status :: "'s \<Rightarrow> string \<Rightarrow> string option"
  assumes inv_step: "step s s' \<Longrightarrow> inv s \<Longrightarrow> inv s'"
    and status_valid: "inv s \<Longrightarrow> status s i = Some st \<Longrightarrow> st \<in> RUN_STATUSES"
    and status_step: "step s s' \<Longrightarrow> inv s \<Longrightarrow> status s i = Some st \<Longrightarrow>
      \<exists>st'. status s' i = Some st' \<and> status_moves st st'"
begin

lemma inv_steps: "step\<^sup>*\<^sup>* s s' \<Longrightarrow> inv s \<Longrightarrow> inv s'"
  by (induction rule: rtranclp_induct) (auto dest: inv_step)

lemma status_steps:
  assumes "step\<^sup>*\<^sup>* s s'" and "inv s" and "status s i = Some st"
  shows "\<exists>st'. status s' i = Some st' \<and> status_moves st st'"
  using assms(1)
proof (induction rule: rtranclp_induct)
  case base
  then show ?case using assms(3) by simp
next
  case (step y z)
  then obtain st' where y: "status y i = Some st'" "status_moves st st'" by blast
  have "inv y" using inv_steps step.hyps(1) assms(2) by blast
  from status_step [OF step.hyps(2) this y(1)] show ?case using y(2) status_moves_trans by blast
qed

lemma terminal_kept:
  assumes "step\<^sup>*\<^sup>* s s'" and "inv s" and "status s i = Some st" and "st \<in> TERMINAL_RUN_STATUSES"
  shows "status s' i = Some st"
  using status_steps [OF assms(1-3)] status_moves_terminal assms(4) by blast

lemma never_queued_again:
  assumes "step\<^sup>*\<^sup>* s s'" and "inv s" and "status s i = Some st" and "st \<noteq> ''queued''"
  shows "status s' i \<noteq> Some ''queued''"
  using status_steps [OF assms(1-3)] status_moves_queued assms(4) by auto

lemma cancelling_outcome:
  assumes "step\<^sup>*\<^sup>* s s'" and "inv s" and "status s i = Some ''cancelling''"
  shows "\<exists>st \<in> {''cancelling'', ''cancelled'', ''failed''}. status s' i = Some st"
  using status_steps [OF assms] status_moves_cancelling by blast

end

locale status_client = status_system +
  fixes cstep :: "'c \<Rightarrow> 'c \<Rightarrow> bool"
    and part :: "'c \<Rightarrow> 's"
  assumes client_step: "cstep c c' \<Longrightarrow> step\<^sup>*\<^sup>* (part c) (part c')"
begin

lemma client_steps: "cstep\<^sup>*\<^sup>* c c' \<Longrightarrow> step\<^sup>*\<^sup>* (part c) (part c')"
proof (induction rule: rtranclp_induct)
  case (step y z)
  then show ?case using client_step rtranclp_trans by metis
qed simp

end

sublocale status_client \<subseteq> client: status_system cstep "\<lambda>c. inv (part c)" "\<lambda>c. status (part c)"
proof unfold_locales
  fix c c' assume "cstep c c'" "inv (part c)"
  then show "inv (part c')" using inv_steps client_step by blast
next
  fix c i st assume "inv (part c)" "status (part c) i = Some st"
  then show "st \<in> RUN_STATUSES" by (rule status_valid)
next
  fix c c' i st assume "cstep c c'" "inv (part c)" "status (part c) i = Some st"
  then show "\<exists>st'. status (part c') i = Some st' \<and> status_moves st st'"
    using status_steps client_step by blast
qed

section \<open>Systems with a log per run\<close>

definition logged :: "event_row list \<Rightarrow> string \<Rightarrow> bool" where
  "logged es ty \<longleftrightarrow> (\<exists>e \<in> set es. ev_type e = ty)"

lemma logged_append [simp]: "logged (xs @ ys) ty \<longleftrightarrow> logged xs ty \<or> logged ys ty"
  by (auto simp: logged_def)

lemma logged_Cons [simp]: "logged (e # es) ty \<longleftrightarrow> ev_type e = ty \<or> logged es ty"
  by (auto simp: logged_def)

lemma logged_Nil [simp]: "\<not> logged [] ty"
  by (simp add: logged_def)

locale run_log_system =
  fixes append :: "'s \<Rightarrow> string \<Rightarrow> string \<Rightarrow> string \<Rightarrow> dict \<Rightarrow> event_row \<times> 's"
    and log :: "'s \<Rightarrow> string \<Rightarrow> event_row list"
    and inv :: "'s \<Rightarrow> bool"
  assumes append_inv: "inv s \<Longrightarrow> append s tid rid ty p = (e, s') \<Longrightarrow> inv s'"
    and append_result: "inv s \<Longrightarrow> append s tid rid ty p = (e, s') \<Longrightarrow>
      ev_run_id e = rid \<and> ev_type e = ty \<and> e \<in> set (log s' rid)"
    and append_log: "inv s \<Longrightarrow> append s tid rid ty p = (e, s') \<Longrightarrow>
      log s' rid = log s rid @ [e] \<or> (ty = ''tool_end'' \<and> log s' rid = log s rid)"
    and append_other: "inv s \<Longrightarrow> append s tid rid ty p = (e, s') \<Longrightarrow> r \<noteq> rid \<Longrightarrow> log s' r = log s r"
begin

lemma logged_by_append: "inv s \<Longrightarrow> append s tid rid ty p = (e, s') \<Longrightarrow> logged (log s' rid) ty"
  using append_result by (fastforce simp: logged_def)

lemma logged_mono:
  assumes "inv s" and "append s tid rid ty p = (e, s')" and "logged (log s r) t"
  shows "logged (log s' r) t"
proof (cases "r = rid")
  case True
  then show ?thesis using append_log [OF assms(1,2)] assms(3) by auto
next
  case False
  then show ?thesis using append_other [OF assms(1,2) False] assms(3) by simp
qed

lemma append_prefix: "inv s \<Longrightarrow> append s tid rid ty p = (e, s') \<Longrightarrow> \<exists>es. log s' r = log s r @ es"
  using append_log append_other by (metis append.right_neutral)

end

end
