(* ===== verification/StoreProps.thy ===== *)
theory StoreProps
  imports StoreInv Interfaces
begin

text \<open>
  The theorems about the event store: its executions (\<open>store_step\<close>, one rule per transaction), what they
  keep, and what the single operations promise.
\<close>

section \<open>Executions of the store\<close>

text \<open>
  One rule per locked section, so that the sequences of steps are the interleavings of concurrent callers:
  \<^verbatim>\<open>append_event\<close> is its lookup, which changes nothing, followed by \<open>insert\<close> as a step of its own.
\<close>

inductive store_step :: "store \<Rightarrow> store \<Rightarrow> bool" where
  ensure: "store_step s (snd (ensure_thread s tid title uid))"
| touch: "store_step s (snd (touch_thread s tid))"
| end_one: "store_step s (snd (end_thread s tid reason))"
| archive_one: "store_step s (snd (archive_thread s tid))"
| end_idle: "store_step s (snd (end_idle_threads_older_than s ttl lim))"
| archive_ended: "store_step s (snd (archive_ended_threads_older_than s ttl lim))"
| list_idle: "store_step s (snd (list_idle_active_threads_older_than s ttl lim))"
| create: "store_step s (snd (create_run s tid rid st key hash))"
| update: "store_step s (snd (update_run_status s rid st err cpl))"
| complete: "store_step s (snd (complete_run s rid err))"
| recovered: "store_step s (snd (mark_run_recovered s rid reason))"
| fail_all: "store_step s (snd (fail_non_terminal_runs s err ex))"
| insert: "store_step s (snd (append_insert s tid rid ty p))"
| uuid: "store_step s (snd (uuid4 s))"
| sub: "store_step s (subscribe c s)"
| unsub: "store_step s (unsubscribe c s)"

definition empty_store :: "(nat \<Rightarrow> time) \<Rightarrow> (nat \<Rightarrow> string) \<Rightarrow> store" where
  "empty_store clk ids = \<lparr>threads = [], runs = [], events = [], last_event_id = 0, clock = clk, ticks = 0,
     uuids = ids, uuid_pos = 0, subscribers = [], deliveries = []\<rparr>"

definition reachable_store :: "store \<Rightarrow> bool" where
  "reachable_store s \<longleftrightarrow> (\<exists>clk ids. store_step\<^sup>*\<^sup>* (empty_store clk ids) s)"

lemma store_inv_empty: "store_inv (empty_store clk ids)"
  by (simp add: store_inv_def runs_inv_def log_inv_def empty_store_def active_runs_def run_log_def)

lemma store_step_inv: "store_step s s' \<Longrightarrow> store_inv s \<Longrightarrow> store_inv s'"
proof (induction rule: store_step.induct)
  case (create s tid rid st key hash)
  then show ?case using create_run_inv surjective_pairing by blast
next
  case (update s rid st err cpl)
  then show ?case using update_run_status_inv surjective_pairing by blast
next
  case (complete s rid err)
  then show ?case using update_run_status_inv surjective_pairing unfolding complete_run_def Let_def by blast
next
  case (recovered s rid reason)
  then show ?case using mark_run_recovered_inv surjective_pairing by blast
next
  case (fail_all s err ex)
  then show ?case using fail_non_terminal_inv surjective_pairing by blast
next
  case (insert s tid rid ty p)
  then show ?case using append_insert_inv surjective_pairing by blast
qed (rule store_inv_frame, rule frame, assumption)+

definition run_status :: "store \<Rightarrow> string \<Rightarrow> string option" where
  "run_status s rid = map_option rn_status (get_run s rid)"

lemma run_status_same: "same_runs_and_log s s' \<Longrightarrow> run_status s' rid = run_status s rid"
  by (simp add: run_status_def same_runs_and_log_def get_run_cong [of s' s])

lemma get_run_append_run:
  "runs s' = runs s @ [r] \<Longrightarrow> get_run s' i =
    (case get_run s i of None \<Rightarrow> if rn_id r = i then Some r else None | Some r' \<Rightarrow> Some r')"
  by (simp add: get_run_def find_append split: option.splits)

text \<open>What one operation does to one run: nothing, a move of the machine, or a forced failure.\<close>

definition run_moved :: "run_row \<Rightarrow> run_row \<Rightarrow> bool" where
  "run_moved r r' \<longleftrightarrow>
     (rn_status r' = rn_status r \<and> rn_completed_at r' = rn_completed_at r \<and> rn_error r' = rn_error r)
     \<or> run_step (rn_status r) (rn_status r')
     \<or> (rn_status r \<in> NON_TERMINAL_RUN_STATUSES \<and> rn_status r' = ''failed'')"

lemma run_moved_refl [simp]: "run_moved r r"
  by (simp add: run_moved_def)

lemma moved_frame:
  "same_runs_and_log s s' \<Longrightarrow> get_run s i = Some r \<Longrightarrow>
    \<exists>r'. get_run s' i = Some r' \<and> run_moved r r' \<and> rn_thread_id r' = rn_thread_id r"
  by (simp add: same_runs_and_log_def get_run_cong [of s' s])

lemma get_run_ticks [simp]: "get_run (s\<lparr>ticks := n, uuid_pos := m\<rparr>) i = get_run s i"
  by (simp add: get_run_def)

lemma create_run_keeps:
  assumes "create_run s tid rid st key hash = (res, s')" and g: "get_run s i = Some r"
  shows "get_run s' i = Some r"
  using assms(1)
proof (cases rule: create_run_decomp)
  case invalid
  then show ?thesis using g by simp
next
  case (valid rid' n)
  have g': "get_run (s\<lparr>ticks := Suc (ticks s), uuid_pos := n\<rparr>) i = Some r"
    using g by (simp add: get_run_def)
  show ?thesis
    using valid(2)
  proof (cases rule: create_run_txn_cases)
    case error
    then show ?thesis using g' by simp
  next
    case existing
    then show ?thesis using g by (simp add: same_runs_and_log_def get_run_def)
  next
    case (created r')
    then show ?thesis using g by (simp add: get_run_append_run)
  qed
qed

lemma update_run_status_moves:
  assumes "update_run_status s rid st err cpl = (res, s')" and g: "get_run s i = Some r"
  shows "\<exists>r'. get_run s' i = Some r' \<and> run_moved r r' \<and> rn_thread_id r' = rn_thread_id r"
  using assms(1)
proof (cases rule: update_run_status_cases)
  case (changed r0 now)
  show ?thesis
    using g get_run_in [OF g] changed(1,3) by (auto simp: get_run_update [OF changed(4)] run_moved_def)
qed (use g in \<open>auto simp: same_runs_and_log_def get_run_cong [of s' s]\<close>)

lemma store_step_moves:
  "store_step s s' \<Longrightarrow> store_inv s \<Longrightarrow> get_run s i = Some r \<Longrightarrow>
    \<exists>r'. get_run s' i = Some r' \<and> run_moved r r' \<and> rn_thread_id r' = rn_thread_id r"
proof (induction rule: store_step.induct)
  case (create s tid rid st key hash)
  then show ?case using create_run_keeps [OF surjective_pairing] by auto
next
  case (update s rid st err cpl)
  then show ?case using update_run_status_moves [OF surjective_pairing] by blast
next
  case (complete s rid err)
  then show ?case using update_run_status_moves [OF surjective_pairing] unfolding complete_run_def Let_def by blast
next
  case (recovered s rid reason)
  obtain res s' where eq: "mark_run_recovered s rid reason = (res, s')" by fastforce
  then show ?case
    using recovered by (auto simp: get_run_update [OF mark_run_recovered_effect(1) [OF eq]] run_moved_def)
next
  case (fail_all s err ex)
  obtain res s' where eq: "fail_non_terminal_runs s err ex = (res, s')" by fastforce
  then show ?case
  proof (cases rule: fail_non_terminal_effect)
    case none
    then show ?thesis using eq fail_all by (simp add: same_runs_and_log_def get_run_def)
  next
    case (failed ids now)
    have "rn_status r \<in> NON_TERMINAL_RUN_STATUSES" if "rn_id r \<in> ids"
      using that get_run_in [OF fail_all(2)] get_run_of_member [OF store_invD(1) [OF fail_all(1)]] failed(2)
      by (auto simp: image_iff) (metis fail_all(2) option.inject)
    then show ?thesis
      using fail_all(2) eq by (auto simp: get_run_update [OF failed(1)] run_moved_def)
  qed
next
  case (insert s tid rid ty p)
  then show ?case using append_insert_effect(2) [OF surjective_pairing] by (metis get_run_cong run_moved_refl)
qed (rule moved_frame, rule frame, assumption)+

section \<open>The store as a status system and as a log\<close>

lemma run_status_step:
  assumes "store_step s s'" and "store_inv s" and "run_status s i = Some st"
  shows "\<exists>st'. run_status s' i = Some st' \<and> status_moves st st'"
proof -
  obtain r where r: "get_run s i = Some r" "rn_status r = st"
    using assms(3) by (auto simp: run_status_def)
  obtain r' where "get_run s' i = Some r'" "run_moved r r'"
    using store_step_moves [OF assms(1,2) r(1)] by blast
  then show ?thesis
    using r(2) terminal_disjoint by (auto simp: run_status_def run_moved_def status_moves_def)
qed

lemma run_status_valid: "store_inv s \<Longrightarrow> run_status s i = Some st \<Longrightarrow> st \<in> RUN_STATUSES"
  by (auto simp: run_status_def store_inv_def runs_inv_def dest: get_run_in)

interpretation store_status: status_system store_step store_inv run_status
  by unfold_locales (fact store_step_inv run_status_valid run_status_step)+

text \<open>Under the invariant the events of a run are listed in the order they were written.\<close>

lemma run_events_sorted:
  assumes "log_inv s"
  shows "sorted (map row_order (run_log s rid))"
proof -
  have "sorted_wrt (\<lambda>a b. row_order a \<le> row_order b) (run_log s rid)"
    unfolding sorted_wrt_iff_nth_less
  proof (intro allI impI)
    fix i j assume ij: "i < j" "j < length (run_log s rid)"
    have "ev_sequence (run_log s rid ! k) = Some (int (Suc k))" if "k < length (run_log s rid)" for k
    proof -
      have "map ev_sequence (run_log s rid) ! k = map (\<lambda>n. Some (int n)) [1..<Suc (length (run_log s rid))] ! k"
        using assms by (simp add: log_inv_def)
      then show ?thesis using that by (simp del: upt_Suc)
    qed
    then show "row_order (run_log s rid ! i) \<le> row_order (run_log s rid ! j)"
      using ij by (simp add: row_order_def less_eq_prod_def)
  qed
  then show ?thesis
    by (simp add: sorted_map)
qed

lemma run_events_eq:
  assumes "log_inv s"
  shows "run_events s rid = run_log s rid"
  using run_events_sorted [OF assms, of rid]
    by (simp add: list_run_events_def list_events_query_def select_events_def sql_limit_def run_log_def
        sort_key_id_if_sorted)

lemma select_tool_ends:
  "set (select_events p s) = {e \<in> set (events s). p e}"
  by (auto simp: select_events_def)

lemma find_tool_end_Some:
  "find_tool_end_event s rid c = Some e \<Longrightarrow>
    e \<in> set (events s) \<and> ev_run_id e = rid \<and> ev_type e = ''tool_end'' \<and>
    str_or (dget (payload_of e) ''call_id'') = c"
  by (auto simp: find_tool_end_event_def select_tool_ends split: if_splits dest!: find_SomeD)

lemma append_lookup_Some:
  "append_lookup s rid ty p = Some e \<Longrightarrow>
    ty = ''tool_end'' \<and> e \<in> set (events s) \<and> ev_run_id e = rid \<and> ev_type e = ''tool_end''"
  by (auto simp: append_lookup_def Let_def split: if_splits dest: find_tool_end_Some)

lemma append_event_log:
  assumes "append_event s tid rid ty p = (e, s')"
  shows "(run_log s' rid = run_log s rid @ [e] \<or> (ty = ''tool_end'' \<and> run_log s' rid = run_log s rid))
    \<and> (\<forall>r. r \<noteq> rid \<longrightarrow> run_log s' r = run_log s r)
    \<and> ev_run_id e = rid \<and> ev_type e = ty \<and> e \<in> set (run_log s' rid)"
  using assms
proof (cases rule: append_event_cases)
  case duplicate
  then show ?thesis by (auto simp: run_log_def dest: append_lookup_Some)
next
  case inserted
  note eff = append_insert_effect [OF inserted(2)]
  show ?thesis using eff by (auto simp: run_log_append [OF eff(1)])
qed

interpretation store_log: run_log_system append_event run_events store_inv
proof unfold_locales
  fix s tid rid ty p e s'
  assume inv: "store_inv s" and eq: "append_event s tid rid ty p = (e, s')"
  have inv': "store_inv s'" using append_event_inv [OF inv eq] .
  have l: "run_events s r = run_log s r" "run_events s' r = run_log s' r" for r
    using run_events_eq store_invD(2) inv inv' by auto
  show "store_inv s'" by (rule inv')
  show "ev_run_id e = rid \<and> ev_type e = ty \<and> e \<in> set (run_events s' rid)"
    using append_event_log [OF eq] by (simp add: l)
  show "run_events s' rid = run_events s rid @ [e] \<or> ty = ''tool_end'' \<and> run_events s' rid = run_events s rid"
    using append_event_log [OF eq] by (simp add: l)
  show "run_events s' r = run_events s r" if "r \<noteq> rid" for r
    using append_event_log [OF eq] that by (simp add: l)
qed

end
