(* ===== verification/StoreClaims.thy ===== *)
theory StoreClaims
  imports StoreProps
begin

text \<open>
  What the event store promises its users, for every interleaving of its transactions: the properties of
  the runs table, of the log, of the thread lifecycle and of the pages it serves. The examples evaluate
  the operations on small stores.
\<close>

section \<open>Runs\<close>

lemma reachable_inv: "reachable_store s \<Longrightarrow> store_inv s"
  unfolding reachable_store_def using store_status.inv_steps store_inv_empty by blast

lemma reachable_step: "reachable_store s \<Longrightarrow> store_step s s' \<Longrightarrow> reachable_store s'"
  unfolding reachable_store_def by (meson rtranclp.rtrancl_into_rtrancl)

lemma reachable_empty: "reachable_store (empty_store clk ids)"
  by (auto simp: reachable_store_def)

lemma members_of_short_list: "length xs \<le> 1 \<Longrightarrow> x \<in> set xs \<Longrightarrow> y \<in> set xs \<Longrightarrow> x = y"
  by (cases xs) auto

text \<open>
  C1. In every store an interleaving of transactions can reach, a thread has at most one run that is not
  terminal: however many clients create runs, change statuses or recover, two active runs of one thread
  are the same row.
\<close>

theorem one_active_run_per_thread:
  assumes "reachable_store s" and "r1 \<in> set (runs s)" and "r2 \<in> set (runs s)"
    and "rn_thread_id r1 = rn_thread_id r2"
    and "rn_status r1 \<in> NON_TERMINAL_RUN_STATUSES" and "rn_status r2 \<in> NON_TERMINAL_RUN_STATUSES"
  shows "r1 = r2"
proof -
  have "length (active_runs s (rn_thread_id r1)) \<le> 1"
    using reachable_inv [OF assms(1)] by (simp add: store_inv_def runs_inv_def)
  then show ?thesis
    by (rule members_of_short_list) (use assms in \<open>simp_all add: active_runs_def is_active_run_iff\<close>)
qed

definition demo_ids :: "nat \<Rightarrow> string" where
  "demo_ids n = CHR ''r'' # nat_str n"

definition demo_empty :: store where
  "demo_empty = empty_store int demo_ids"

definition demo_one_run :: store where
  "demo_one_run = snd (create_run demo_empty ''t'' None ''queued'' (Some ''k'') None)"

lemma demo_one_run_reachable: "reachable_store demo_one_run"
  unfolding demo_one_run_def demo_empty_def by (rule reachable_step [OF reachable_empty store_step.create])

lemma demo_one_run_runs:
  "runs demo_one_run = [\<lparr>rn_id = ''r0'', rn_thread_id = ''t'', rn_status = ''queued'', rn_created_at = 0,
     rn_completed_at = None, rn_error = None, rn_idempotency_key = Some ''k'',
     rn_idempotency_payload_hash = None, rn_recovered_at = None, rn_recovery_reason = None\<rparr>]"
  by code_simp

theorem one_active_run_per_thread_witness:
  "hd (runs demo_one_run) = last (runs demo_one_run)
    \<and> rn_status (hd (runs demo_one_run)) \<in> NON_TERMINAL_RUN_STATUSES"
proof -
  have m: "hd (runs demo_one_run) \<in> set (runs demo_one_run)" "last (runs demo_one_run) \<in> set (runs demo_one_run)"
    and st: "rn_status (hd (runs demo_one_run)) \<in> NON_TERMINAL_RUN_STATUSES"
      "rn_status (last (runs demo_one_run)) \<in> NON_TERMINAL_RUN_STATUSES"
    and th: "rn_thread_id (hd (runs demo_one_run)) = rn_thread_id (last (runs demo_one_run))"
    by (simp_all add: demo_one_run_runs NON_TERMINAL_RUN_STATUSES_def)
  show ?thesis
    using one_active_run_per_thread [OF demo_one_run_reachable m th st] st by simp
qed

text \<open>
  C2. A terminal run is final: no later transaction changes its status, its completion time or its error,
  or removes it.
\<close>

theorem terminal_run_final:
  assumes "store_inv s" and "store_step\<^sup>*\<^sup>* s s'" and "get_run s i = Some r"
    and "rn_status r \<in> TERMINAL_RUN_STATUSES"
  shows "\<exists>r'. get_run s' i = Some r' \<and> rn_status r' = rn_status r
    \<and> rn_completed_at r' = rn_completed_at r \<and> rn_error r' = rn_error r"
  using assms(2)
proof (induction rule: rtranclp_induct)
  case base
  then show ?case using assms(3) by blast
next
  case (step y z)
  then obtain r' where r': "get_run y i = Some r'" "rn_status r' = rn_status r"
      "rn_completed_at r' = rn_completed_at r" "rn_error r' = rn_error r" by blast
  have "store_inv y" using store_status.inv_steps step.hyps(1) assms(1) by blast
  from store_step_moves [OF step.hyps(2) this r'(1)] obtain r'' where
    r'': "get_run z i = Some r''" "run_moved r' r''" by blast
  then show ?case
    using r' assms(4) terminal_no_step terminal_disjoint by (fastforce simp: run_moved_def)
qed

definition demo_failed_run :: store where
  "demo_failed_run = snd (update_run_status demo_one_run ''r0'' ''failed'' (Some ''boom'') True)"

lemma demo_failed_run_get:
  "map_option (\<lambda>r. (rn_status r, rn_error r)) (get_run demo_failed_run ''r0'') = Some (''failed'', Some ''boom'')"
  by code_simp

lemma demo_failed_run_inv: "store_inv demo_failed_run"
  unfolding demo_failed_run_def
  by (rule store_step_inv [OF store_step.update]) (rule reachable_inv [OF demo_one_run_reachable])

theorem terminal_run_final_witness:
  "\<exists>r. get_run (snd (complete_run demo_failed_run ''r0'' None)) ''r0'' = Some r \<and> rn_error r = Some ''boom''"
proof -
  obtain r where r: "get_run demo_failed_run ''r0'' = Some r" "rn_status r = ''failed''" "rn_error r = Some ''boom''"
    using demo_failed_run_get by auto
  have "store_step\<^sup>*\<^sup>* demo_failed_run (snd (complete_run demo_failed_run ''r0'' None))"
    by (rule r_into_rtranclp) (rule store_step.complete)
  from terminal_run_final [OF demo_failed_run_inv this r(1)] show ?thesis
    using r by (auto simp: TERMINAL_RUN_STATUSES_def)
qed

text \<open>
  What \<^verbatim>\<open>update_run_status\<close> does on every branch: a string that is not a status and a move the machine
  does not allow raise and change no table; an unknown run and a status the run already has change nothing;
  an allowed move rewrites the status, the completion time and the error of that run, and no other row.
\<close>

theorem update_run_status_spec:
  assumes "store_inv s" and "update_run_status s i st err cpl = (res, s')"
  shows "events s' = events s \<and>
    (if st \<notin> RUN_STATUSES then res = Inl (InvalidRunStatusError st) \<and> runs s' = runs s
     else case get_run s i of
       None \<Rightarrow> res = Inr None \<and> runs s' = runs s
     | Some r \<Rightarrow>
         if rn_status r = st then res = Inr (Some r) \<and> runs s' = runs s
         else if \<not> run_step (rn_status r) st
           then res = Inl (InvalidRunTransitionError (rn_status r) st) \<and> runs s' = runs s
         else (\<exists>now. res = Inr (get_run s' i)
           \<and> get_run s' i = Some (r\<lparr>rn_status := st, rn_completed_at :=
                (if cpl \<or> st \<in> TERMINAL_RUN_STATUSES then Some now else None), rn_error := err\<rparr>)
           \<and> (\<forall>j. j \<noteq> i \<longrightarrow> get_run s' j = get_run s j)))"
proof (cases "st \<in> RUN_STATUSES")
  case False
  then show ?thesis using assms(2) by (auto simp: update_run_status_def validate_run_status_def)
next
  case valid: True
  show ?thesis
    using assms(2)
  proof (cases rule: update_run_status_cases)
    case (error e)
    then obtain r where r: "get_run s i = Some r" "rn_status r \<noteq> st" "validate_run_transition (rn_status r) st = Inl e"
      using valid by blast
    then have "rn_status r \<in> RUN_STATUSES"
      using assms(1) get_run_in by (auto simp: store_inv_def runs_inv_def)
    then show ?thesis
      using error valid r by (auto simp: validate_run_transition_eq same_runs_and_log_def split: if_splits)
  next
    case (changed r now)
    have g: "get_run s' j = map_option (\<lambda>r. if rn_id r = i then r\<lparr>rn_status := st, rn_completed_at :=
        (if cpl \<or> st \<in> TERMINAL_RUN_STATUSES then Some now else None), rn_error := err\<rparr> else r) (get_run s j)" for j
      by (rule get_run_update [OF changed(4)]) simp
    have other: "get_run s' j = get_run s j" if "j \<noteq> i" for j
      using that get_run_in [of s j] by (cases "get_run s j") (auto simp: g)
    have own: "get_run s' i = Some (r\<lparr>rn_status := st, rn_completed_at :=
        (if cpl \<or> st \<in> TERMINAL_RUN_STATUSES then Some now else None), rn_error := err\<rparr>)"
      using changed(1) get_run_in [OF changed(1)] by (simp add: g)
    show ?thesis
      using changed(1-3,5,7) valid own other by (simp del: RUN_STATUS_FAILED_def) blast
  qed (use valid in \<open>auto simp: same_runs_and_log_def\<close>)
qed

theorem update_run_status_spec_witness:
  "\<exists>now. get_run demo_failed_run ''r0'' = Some ((hd (runs demo_one_run))\<lparr>rn_status := ''failed'',
      rn_completed_at := Some now, rn_error := Some ''boom''\<rparr>)"
proof -
  have g: "get_run demo_one_run ''r0'' = Some (hd (runs demo_one_run))"
    by (simp add: get_run_def demo_one_run_runs)
  have "update_run_status demo_one_run ''r0'' ''failed'' (Some ''boom'') True =
      (fst (update_run_status demo_one_run ''r0'' ''failed'' (Some ''boom'') True), demo_failed_run)"
    by (simp add: demo_failed_run_def)
  from update_run_status_spec [OF reachable_inv [OF demo_one_run_reachable] this] show ?thesis
    unfolding g by (simp add: demo_one_run_runs run_status_sets queued_failed)
qed

end
