(* ===== verification/StoreLog.thy ===== *)
theory StoreLog
  imports StoreClaims
begin

text \<open>
  The event log as its readers see it: append-only numbering per run, the duplicate check of \<open>tool_end\<close>
  and its two gaps, and the pages a client follows with \<open>next_after_id\<close>.
\<close>

section \<open>The log only grows\<close>

lemma store_step_events:
  assumes "store_step s s'"
  shows "\<exists>es. events s' = events s @ es"
  using assms
proof (induction rule: store_step.induct)
  case (create s tid rid st key hash)
  obtain res s' where eq: "create_run s tid rid st key hash = (res, s')" by fastforce
  then have "events s' = events s"
  proof (cases rule: create_run_decomp)
    case (valid rid' n)
    show ?thesis
      using valid(2) by (cases rule: create_run_txn_cases) (simp_all add: same_runs_and_log_def)
  qed simp
  then show ?case using eq by simp
next
  case (update s rid st err cpl)
  obtain res s' where eq: "update_run_status s rid st err cpl = (res, s')" by fastforce
  then have "events s' = events s"
    by (cases rule: update_run_status_cases) (simp_all add: same_runs_and_log_def)
  then show ?case using eq by simp
next
  case (complete s rid err)
  obtain res s' where eq: "complete_run s rid err = (res, s')" by fastforce
  then have "events s' = events s"
    unfolding complete_run_def Let_def
    by (cases rule: update_run_status_cases) (simp_all add: same_runs_and_log_def)
  then show ?case using eq by simp
next
  case (recovered s rid reason)
  then show ?case by (simp add: mark_run_recovered_def utc_now_iso_def Let_def)
next
  case (fail_all s err ex)
  then show ?case by (simp add: fail_non_terminal_runs_def utc_now_iso_def Let_def)
next
  case (insert s tid rid ty p)
  then show ?case by (simp add: append_insert_def utc_now_iso_def notify_def Let_def)
qed (simp_all add: frame [unfolded same_runs_and_log_def])

lemma store_steps_events: "store_step\<^sup>*\<^sup>* s s' \<Longrightarrow> \<exists>es. events s' = events s @ es"
  by (induction rule: rtranclp_induct) (auto dest!: store_step_events)

lemma run_log_ids: "log_inv s \<Longrightarrow> sorted_wrt (<) (map ev_id (run_log s rid))"
  unfolding log_inv_def run_log_def by (simp add: sorted_wrt_map sorted_wrt_filter)

text \<open>
  C24. The log of a run only grows, whatever transactions interleave: at any later time it has the earlier
  events as a prefix, its sequence numbers are 1, 2, 3, ... with no gap and no repetition, and its ids
  strictly increase, so a reader that has seen a prefix can resume after its last id.
\<close>

theorem run_log_append_only:
  assumes "reachable_store s" and "store_step\<^sup>*\<^sup>* s s'"
  shows "(\<exists>es. run_events s' rid = run_events s rid @ es)
    \<and> map ev_sequence (run_events s' rid) = map (\<lambda>n. Some (int n)) [1..<Suc (length (run_events s' rid))]
    \<and> sorted_wrt (<) (map ev_id (run_events s' rid))"
proof -
  have inv: "log_inv s" "log_inv s'"
    using reachable_inv [OF assms(1)] store_status.inv_steps [OF assms(2)] by (auto simp: store_inv_def)
  have "\<exists>es. run_log s' rid = run_log s rid @ es"
    using store_steps_events [OF assms(2)] by (auto simp: run_log_def)
  then show ?thesis
    using inv run_log_ids [OF inv(2)] by (simp add: run_events_eq log_inv_def del: upt_Suc)
qed

theorem run_log_append_only_witness:
  "map ev_sequence (run_events (snd (append_event demo_one_run ''t'' ''r0'' ''token'' [])) ''r0'') = [Some 1]"
proof -
  let ?s = "snd (append_event demo_one_run ''t'' ''r0'' ''token'' [])"
  have "store_step demo_one_run ?s"
    by (simp add: append_event_def append_lookup_def store_step.insert)
  from run_log_append_only [OF demo_one_run_reachable r_into_rtranclp [of store_step, OF this], of "''r0''"]
  have "map ev_sequence (run_events ?s ''r0'') = map (\<lambda>n. Some (int n)) [1..<Suc (length (run_events ?s ''r0''))]"
    by blast
  moreover have "length (run_events ?s ''r0'') = 1" by code_simp
  ultimately show ?thesis by simp
qed

section \<open>Recording a tool call once\<close>

definition call_id_of :: "dict \<Rightarrow> string" where
  "call_id_of p = str_or (dget p ''call_id'')"

text \<open>The \<open>tool_end\<close> rows of one call of a run.\<close>

definition tool_ends :: "store \<Rightarrow> string \<Rightarrow> string \<Rightarrow> event_row list" where
  "tool_ends s rid c =
     filter (\<lambda>e. ev_run_id e = rid \<and> ev_type e = ''tool_end'' \<and> call_id_of (payload_of e) = c) (events s)"

text \<open>The calls of one client, one after the other.\<close>

fun append_all :: "store \<Rightarrow> (string \<times> string \<times> string \<times> dict) list \<Rightarrow> store" where
  "append_all s [] = s"
| "append_all s ((tid, rid, ty, p) # cs) = append_all (snd (append_event s tid rid ty p)) cs"

lemma find_tool_end_None:
  "c \<noteq> [] \<Longrightarrow> strip c = c \<Longrightarrow> find_tool_end_event s rid c = None \<longleftrightarrow> tool_ends s rid c = []"
  by (auto simp: find_tool_end_event_def find_None_iff select_tool_ends tool_ends_def filter_empty_conv call_id_of_def)

lemma insert_tool_ends:
  assumes "append_insert s tid rid ty p = (e, s')"
  shows "tool_ends s' r c = tool_ends s r c @ (if r = rid \<and> ty = ''tool_end'' \<and> call_id_of p = c then [e] else [])"
  using assms
  by (auto simp: append_insert_def utc_now_iso_def notify_def Let_def tool_ends_def payload_of_def call_id_of_def
      dget_envelope)

lemma append_event_once:
  assumes "\<forall>r c. c \<noteq> [] \<longrightarrow> length (tool_ends s r c) \<le> 1" and "strip (call_id_of p) = call_id_of p"
    and "append_event s tid rid ty p = (e, s')"
  shows "\<forall>r c. c \<noteq> [] \<longrightarrow> length (tool_ends s' r c) \<le> 1"
  using assms(3)
proof (cases rule: append_event_cases)
  case duplicate
  then show ?thesis using assms(1) by simp
next
  case inserted
  then have "tool_ends s rid (call_id_of p) = []" if "ty = ''tool_end''" "call_id_of p \<noteq> []"
    using that assms(2) find_tool_end_None [OF that(2) assms(2)]
    by (simp add: append_lookup_def Let_def call_id_of_def)
  then show ?thesis using insert_tool_ends [OF inserted(2)] assms(1) by auto
qed

text \<open>
  A client that appends one event after the other records the end of a tool call once: for any
  sequence of calls whose call ids carry no surrounding white space, each run holds at most one
  \<open>tool_end\<close> row per call id, and repeating a recorded end returns that row and changes nothing.
\<close>

theorem tool_end_once:
  assumes "\<forall>r c. c \<noteq> [] \<longrightarrow> length (tool_ends s r c) \<le> 1"
    and "\<forall>(tid, rid, ty, p) \<in> set cs. strip (call_id_of p) = call_id_of p"
    and "c \<noteq> []" and "strip (call_id_of p) = c"
  shows "length (tool_ends (append_all s cs) rid c) \<le> 1
    \<and> (\<forall>e. e \<in> set (tool_ends (append_all s cs) rid c) \<longrightarrow>
        append_event (append_all s cs) tid rid ''tool_end'' p = (e, append_all s cs))"
proof -
  have once: "\<forall>r c. c \<noteq> [] \<longrightarrow> length (tool_ends (append_all s cs) r c) \<le> 1"
    using assms(1,2)
  proof (induction s cs rule: append_all.induct)
    case (2 s tid rid ty p cs)
    have "\<forall>r c. c \<noteq> [] \<longrightarrow> length (tool_ends (snd (append_event s tid rid ty p)) r c) \<le> 1"
      using append_event_once [OF 2(2) _ surjective_pairing] 2(3) by simp
    then show ?case using 2 by simp
  qed simp
  moreover have "append_event (append_all s cs) tid rid ''tool_end'' p = (e, append_all s cs)"
    if e: "e \<in> set (tool_ends (append_all s cs) rid c)" for e
  proof -
    let ?s = "append_all s cs"
    have sc: "strip c = c" using assms(4) strip_strip by metis
    obtain e' where e': "find_tool_end_event ?s rid c = Some e'"
      using find_tool_end_None [OF assms(3) sc, of ?s rid] e by (cases "find_tool_end_event ?s rid c") auto
    have "e' \<in> set (tool_ends ?s rid c)"
      using find_tool_end_Some [OF e'] by (simp add: tool_ends_def call_id_of_def)
    then have "e' = e"
      by (rule members_of_short_list [rotated]) (use once assms(3) e in simp_all)
    then show ?thesis
      using e' assms(3,4) by (simp add: append_event_def append_lookup_def Let_def call_id_of_def)
  qed
  ultimately show ?thesis using assms(3) by blast
qed

lemma demo_one_run_events: "events demo_one_run = []"
  by code_simp

theorem tool_end_once_witness:
  "length (tool_ends (append_all demo_one_run
     [(''t'', ''r0'', ''tool_end'', [(''call_id'', PStr ''c'')]), (''t'', ''r0'', ''tool_end'', [(''call_id'', PStr ''c'')])])
     ''r0'' ''c'') \<le> 1"
proof -
  let ?p = "[(''call_id'', PStr ''c'')]" and ?c = "''c''"
  have none: "\<forall>r c. c \<noteq> [] \<longrightarrow> length (tool_ends demo_one_run r c) \<le> 1"
    by (simp add: tool_ends_def demo_one_run_events)
  have s: "strip (call_id_of ?p) = ?c" by code_simp
  have "\<forall>(tid, rid, ty, p) \<in> set [(''t'', ''r0'', ''tool_end'', ?p), (''t'', ''r0'', ''tool_end'', ?p)].
      strip (call_id_of p) = call_id_of p" using s by (simp add: call_id_of_def)
  from tool_end_once [OF none this _ s, of "''r0''"] show ?thesis by blast
qed

definition demo_race :: store where
  "demo_race = (let p = [(''call_id'', PStr ''c'')];
      s = snd (append_insert demo_one_run ''t'' ''r0'' ''tool_end'' p)
    in snd (append_insert s ''t'' ''r0'' ''tool_end'' p))"

definition demo_padded :: store where
  "demo_padded = (let p = [(''call_id'', PStr '' c '')]
    in append_all demo_one_run [(''t'', ''r0'', ''tool_end'', p), (''t'', ''r0'', ''tool_end'', p)])"

text \<open>
  The check is not a guarantee: two clients that look up before either inserts both insert, so a store
  reached by interleaved transactions holds two \<open>tool_end\<close> rows for one call; and a call id with
  surrounding white space is looked up stripped but stored as it is, so even one client that repeats it
  records it twice.
\<close>

theorem tool_end_duplicates:
  "append_lookup demo_one_run ''r0'' ''tool_end'' [(''call_id'', PStr ''c'')] = None
    \<and> reachable_store demo_race \<and> length (tool_ends demo_race ''r0'' ''c'') = 2
    \<and> length (tool_ends demo_padded ''r0'' '' c '') = 2"
proof (intro conjI)
  show "reachable_store demo_race"
    unfolding demo_race_def Let_def
    by (rule reachable_step [OF reachable_step [OF demo_one_run_reachable store_step.insert] store_step.insert])
qed code_simp+

section \<open>Pages\<close>

text \<open>
  A client that follows \<open>next_after_id\<close> until \<open>has_more\<close> is false; \<open>None\<close> when the fuel ends first.
\<close>

fun read_pages :: "(int \<Rightarrow> page) \<Rightarrow> int \<Rightarrow> nat \<Rightarrow> event_row list option" where
  "read_pages pg after 0 = None"
| "read_pages pg after (Suc fuel) =
     (let p = pg after in
      if pg_has_more p then
        (case pg_next_after_id p of
           None \<Rightarrow> None
         | Some a \<Rightarrow> map_option (\<lambda>rest. pg_events p @ rest) (read_pages pg a fuel))
      else Some (pg_events p))"

definition after :: "store \<Rightarrow> string \<Rightarrow> int \<Rightarrow> event_row list" where
  "after s rid a = filter (\<lambda>e. a < ev_id e) (run_log s rid)"

lemma sorted_filter_row_order: "log_inv s \<Longrightarrow> sorted (map row_order (filter p (run_log s rid)))"
proof -
  assume inv: "log_inv s"
  have "sorted (map row_order (run_log s rid))"
    using run_events_sorted [OF inv] .
  then show ?thesis by (simp add: sorted_map sorted_wrt_filter)
qed

lemma list_run_events_after:
  assumes "log_inv s"
  shows "list_run_events s rid (Some a) lim = sql_limit lim (after s rid a)"
proof -
  have "filter (\<lambda>e. ev_run_id e = rid \<and> a < ev_id e) (events s) = after s rid a"
    by (auto simp: after_def run_log_def intro: filter_cong)
  then show ?thesis
    using sorted_filter_row_order [OF assms, of "\<lambda>e. a < ev_id e" rid]
    by (simp add: list_run_events_def list_events_query_def select_events_def sort_key_id_if_sorted after_def)
qed

lemma after_last:
  assumes "log_inv s" and "0 < k" and "k < length (after s rid a)"
  shows "after s rid (ev_id (last (take k (after s rid a)))) = drop k (after s rid a)"
proof -
  let ?xs = "after s rid a"
  have srt: "sorted_wrt (\<lambda>x y. ev_id x < ev_id y) ?xs"
    using run_log_ids [OF assms(1)] unfolding after_def by (simp add: sorted_wrt_map sorted_wrt_filter)
  have last: "last (take k ?xs) = ?xs ! (k - 1)"
    using assms(2,3) last_conv_nth [of "take k ?xs"] by (cases "?xs = []") auto
  have "ev_id (?xs ! (k - 1)) > a"
    using assms(2,3) nth_mem [of "k - 1" ?xs] by (auto simp: after_def)
  then have "after s rid (ev_id (?xs ! (k - 1))) = filter (\<lambda>e. ev_id (?xs ! (k - 1)) < ev_id e) ?xs"
    by (auto simp: after_def intro: filter_cong)
  also have "\<dots> = filter (\<lambda>e. ev_id (?xs ! (k - 1)) < ev_id e) (take k ?xs @ drop k ?xs)"
    by simp
  also have "\<dots> = drop k ?xs"
  proof -
    have "\<not> ev_id (?xs ! (k - 1)) < ev_id e" if mem: "e \<in> set (take k ?xs)" for e
    proof -
      obtain i where i: "i < k" "e = ?xs ! i" using mem unfolding in_set_conv_nth by auto
      then consider "i = k - 1" | "i < k - 1" "k - 1 < length ?xs" using assms(3) by linarith
      then show ?thesis
        using sorted_wrt_nth_less [OF srt, of i "k - 1"] i(2) by cases auto
    qed
    moreover have "ev_id (?xs ! (k - 1)) < ev_id e" if mem: "e \<in> set (drop k ?xs)" for e
    proof -
      obtain i where "i < length ?xs - k" and e: "e = ?xs ! (k + i)"
        using mem unfolding in_set_conv_nth by auto
      then have "k + i < length ?xs" using assms(3) by linarith
      then show ?thesis using sorted_wrt_nth_less [OF srt, of "k - 1" "k + i"] assms(2) e by simp
    qed
    ultimately show ?thesis unfolding filter_append by (simp add: filter_empty_conv filter_id_conv)
  qed
  finally show ?thesis by (simp add: last)
qed

lemma run_page_after:
  fixes lim :: int
  assumes "log_inv s" and "1 \<le> event_page_max_limit st"
  defines "k \<equiv> nat (min (max 1 lim) (event_page_max_limit st))"
  shows "list_run_events_page st s rid (Some a) (Some lim) =
    \<lparr>pg_events = take k (after s rid a), pg_next_after_id = map_option ev_id (last_row (take k (after s rid a))),
     pg_has_more = (k < length (after s rid a))\<rparr>"
proof -
  have k: "int k = min (max 1 lim) (event_page_max_limit st)" "0 < k" using assms(2) by (auto simp: k_def)
  have n: "nat (int k + 1) = Suc k" by simp
  show ?thesis
    unfolding list_run_events_page_def resolve_event_limit_def Let_def
    using n by (simp add: k(1) [symmetric] list_run_events_after [OF assms(1)] sql_limit_def page_from_events_def py_take_def
        min_absorb1 Let_def)
qed

lemma read_pages_after:
  assumes "log_inv s" and "1 \<le> event_page_max_limit st"
  shows "length (after s rid a) < fuel \<Longrightarrow>
    read_pages (\<lambda>x. list_run_events_page st s rid (Some x) (Some lim)) a fuel = Some (after s rid a)"
proof (induction fuel arbitrary: a)
  case (Suc fuel)
  let ?xs = "after s rid a" and ?k = "nat (min (max 1 lim) (event_page_max_limit st))"
  have k: "0 < ?k" using assms(2) by simp
  show ?case
  proof (cases "?k < length ?xs")
    case True
    have ne: "take ?k ?xs \<noteq> []" using True k by auto
    have rest: "after s rid (ev_id (last (take ?k ?xs))) = drop ?k ?xs"
      by (rule after_last [OF assms(1) k True])
    then have "length (after s rid (ev_id (last (take ?k ?xs)))) = length ?xs - ?k" by (simp only: length_drop)
    then have "length (after s rid (ev_id (last (take ?k ?xs)))) < fuel" using Suc.prems k True by linarith
    from Suc.IH [OF this] show ?thesis
      using True ne rest by (simp add: run_page_after [OF assms] last_row_eq del: take_eq_Nil)
  next
    case False
    then show ?thesis by (simp add: run_page_after [OF assms])
  qed
qed simp

lemma after_all: "log_inv s \<Longrightarrow> \<forall>e \<in> set (run_log s rid). b < ev_id e \<Longrightarrow> after s rid b = run_log s rid"
  by (simp add: after_def filter_id_conv)

text \<open>
  C31. A client that reads a run page by page, starting below every id, with any requested limit (the
  server clamps it to at least 1 and at most the maximum), gets every event of the run exactly once and in
  order, after at most one page per event plus one.
\<close>

theorem run_pages_complete:
  assumes "reachable_store s" and "1 \<le> event_page_max_limit st"
    and "\<forall>e \<in> set (run_events s rid). b < ev_id e" and "length (run_events s rid) < fuel"
  shows "read_pages (\<lambda>a. list_run_events_page st s rid (Some a) (Some lim)) b fuel = Some (run_events s rid)"
proof -
  have inv: "log_inv s" using reachable_inv [OF assms(1)] by (simp add: store_inv_def)
  note eq = run_events_eq [OF inv, of rid]
  from after_all [OF inv] assms(3) have "after s rid b = run_log s rid" unfolding eq by blast
  then show ?thesis
    using read_pages_after [OF inv assms(2), of rid b fuel lim] assms(4) by (simp add: eq)
qed

text \<open>Two runs of one thread with three and two events.\<close>

definition demo_two_runs :: store where
  "demo_two_runs =
     (let s = append_all demo_one_run [(''t'', ''r0'', ''token'', []), (''t'', ''r0'', ''token'', []), (''t'', ''r0'', ''token'', [])];
          s = snd (update_run_status s ''r0'' ''failed'' None True);
          s = snd (create_run s ''t'' None ''queued'' None None)
      in append_all s [(''t'', ''r1'', ''token'', []), (''t'', ''r1'', ''token'', [])])"

definition demo_limits :: page_settings where
  "demo_limits = \<lparr>event_page_default_limit = 200, event_page_max_limit = 1000\<rparr>"

lemma reachable_append_all: "reachable_store s \<Longrightarrow> reachable_store (append_all s cs)"
proof (induction s cs rule: append_all.induct)
  case (2 s tid rid ty p cs)
  have "reachable_store (snd (append_event s tid rid ty p))"
    using 2(2) reachable_step [OF 2(2) store_step.insert] by (simp add: append_event_def split: option.splits)
  then show ?case using 2 by simp
qed simp

lemma demo_two_runs_reachable: "reachable_store demo_two_runs"
  unfolding demo_two_runs_def Let_def
  by (intro reachable_append_all reachable_step [OF _ store_step.create] reachable_step [OF _ store_step.update]
      demo_one_run_reachable)

theorem run_pages_complete_witness:
  "map_option (map ev_sequence) (read_pages (\<lambda>a. list_run_events_page demo_limits demo_two_runs ''r0'' (Some a) (Some 2)) 0 4)
    = Some [Some 1, Some 2, Some 3]"
proof -
  have e: "map ev_id (run_events demo_two_runs ''r0'') = [1, 2, 3]"
    "map ev_sequence (run_events demo_two_runs ''r0'') = [Some 1, Some 2, Some 3]" by code_simp+
  have p: "\<forall>e \<in> set (run_events demo_two_runs ''r0''). 0 < ev_id e"
  proof -
    have "\<forall>i \<in> set (map ev_id (run_events demo_two_runs ''r0'')). 0 < i" unfolding e(1) by simp
    then show ?thesis by simp
  qed
  have l: "length (run_events demo_two_runs ''r0'') < 4" using arg_cong [OF e(1), of length] by simp
  have m: "1 \<le> event_page_max_limit demo_limits" by (simp add: demo_limits_def)
  from run_pages_complete [OF demo_two_runs_reachable m p l, of 2] e(2) show ?thesis by simp
qed

text \<open>
  The same client on a whole thread can lose events for good: the rows come ordered by their number
  within their own run, and the next page starts above the largest id of the last row. In a reachable
  store with three events of a first run and two of a second, pages of two return the rows 1, 4 and 5 and
  announce the end; the rows 2 and 3, which the unpaged listing has, are never sent.
\<close>

theorem thread_pages_lose_events:
  "reachable_store demo_two_runs
    \<and> map ev_id (list_events demo_two_runs ''t'' None None None) = [1, 4, 2, 5, 3]
    \<and> map_option (map ev_id)
        (read_pages (\<lambda>a. list_events_page demo_limits demo_two_runs ''t'' None (Some a) (Some 2)) 0 9)
      = Some [1, 4, 5]"
proof (intro conjI)
  show "reachable_store demo_two_runs" by (rule demo_two_runs_reachable)
qed code_simp+

end
