(* ===== verification/StoreThreads.thy ===== *)
theory StoreThreads
  imports StoreClaims
begin

text \<open>
  The life of threads and the creation of runs: a thread only moves from active to ended to archived; what
  \<open>create_run\<close> answers on each of its branches; the retry of a request under its idempotency key; the two
  bulk operations on runs and the migration of old event tables.
\<close>

section \<open>Threads only move forward\<close>

definition thread_rank :: "string \<Rightarrow> nat" where
  "thread_rank st =
     (if st = THREAD_STATUS_ACTIVE then 0 else if st = THREAD_STATUS_ENDED then 1
      else if st = THREAD_STATUS_ARCHIVED then 2 else 3)"

lemma thread_rank_active [simp]: "thread_rank ''active'' = 0"
  by (simp add: thread_rank_def)

definition thread_moved :: "thread_row \<Rightarrow> thread_row \<Rightarrow> bool" where
  "thread_moved a b \<longleftrightarrow> th_id b = th_id a \<and> th_created_at b = th_created_at a
     \<and> thread_rank (th_status a) \<le> thread_rank (th_status b) \<and> thread_rank (th_status b) \<le> 2
     \<and> (th_user_id a \<noteq> None \<longrightarrow> th_user_id b = th_user_id a)"

definition threads_inv :: "store \<Rightarrow> bool" where
  "threads_inv s \<longleftrightarrow> distinct (map th_id (threads s)) \<and> (\<forall>t \<in> set (threads s). thread_rank (th_status t) \<le> 2)"

text \<open>Every operation rewrites rows in place, and adds at most one new row for an id without one.\<close>

definition threads_step :: "store \<Rightarrow> store \<Rightarrow> bool" where
  "threads_step s s' \<longleftrightarrow> (\<exists>f new. threads s' = map f (threads s) @ new
     \<and> (\<forall>t \<in> set (threads s). thread_moved t (f t))
     \<and> (new = [] \<or> (\<exists>n. new = [n] \<and> get_thread s (th_id n) = None \<and> th_status n = THREAD_STATUS_ACTIVE)))"

lemma thread_moved_refl: "threads_inv s \<Longrightarrow> t \<in> set (threads s) \<Longrightarrow> thread_moved t t"
  by (simp add: thread_moved_def threads_inv_def)

lemma get_thread_None: "get_thread s i = None \<longleftrightarrow> i \<notin> th_id ` set (threads s)"
  by (auto simp: get_thread_def find_None_iff)

lemma get_thread_in: "get_thread s i = Some t \<Longrightarrow> t \<in> set (threads s) \<and> th_id t = i"
  by (auto simp: get_thread_def find_Some_iff)

lemma threads_step_inv:
  assumes "threads_step s s'" and "threads_inv s"
  shows "threads_inv s'"
proof -
  obtain f new where e: "threads s' = map f (threads s) @ new"
    and m: "\<forall>t \<in> set (threads s). thread_moved t (f t)"
    and n: "new = [] \<or> (\<exists>n. new = [n] \<and> get_thread s (th_id n) = None \<and> th_status n = THREAD_STATUS_ACTIVE)"
    using assms(1) unfolding threads_step_def by blast
  have ids: "map th_id (map f (threads s)) = map th_id (threads s)"
    using m by (simp add: thread_moved_def)
  have "distinct (map th_id (threads s'))"
    using n assms(2) unfolding e map_append ids
    by (auto simp: threads_inv_def get_thread_None image_iff)
  moreover have "\<forall>t \<in> set (threads s'). thread_rank (th_status t) \<le> 2"
    using m n by (auto simp: e thread_moved_def)
  ultimately show ?thesis by (simp add: threads_inv_def)
qed

lemma threads_step_get:
  assumes "threads_step s s'" and "get_thread s i = Some t"
  shows "\<exists>t'. get_thread s' i = Some t' \<and> thread_moved t t'"
proof -
  obtain f new where e: "threads s' = map f (threads s) @ new" and m: "\<forall>t \<in> set (threads s). thread_moved t (f t)"
    using assms(1) unfolding threads_step_def by blast
  have "find (\<lambda>t. th_id t = i) (map f ts) = map_option f (find (\<lambda>t. th_id t = i) ts)"
    if "\<forall>t \<in> set ts. thread_moved t (f t)" for ts
    using that by (induction ts) (auto simp: thread_moved_def)
  from this [OF m] show ?thesis
    using assms(2) m get_thread_in [OF assms(2)] by (auto simp: get_thread_def e find_append)
qed

text \<open>The form of an update with no new row.\<close>

lemma threads_step_update:
  assumes "threads s' = update_where p f (threads s)" and "threads_inv s"
    and "\<And>t. t \<in> set (threads s) \<Longrightarrow> p t \<Longrightarrow> thread_moved t (f t)"
  shows "threads_step s s'"
  unfolding threads_step_def
  by (rule exI [of _ "\<lambda>t. if p t then f t else t"], rule exI [of _ "[]"])
    (use assms thread_moved_refl in \<open>auto simp: update_where_def\<close>)

lemma threads_step_same:
  assumes "threads s' = threads s" and "threads_inv s"
  shows "threads_step s s'"
  by (rule threads_step_update [of s' "\<lambda>_. False" id]) (use assms in \<open>auto simp: update_where_def\<close>)

lemma threads_step_new:
  assumes "threads s' = update_where p f (threads s @ [n])" and "threads_inv s"
    and "\<And>t. p t \<Longrightarrow> th_id (f t) = th_id t \<and> th_created_at (f t) = th_created_at t \<and> th_status (f t) = th_status t
          \<and> th_user_id (f t) = th_user_id t"
    and "get_thread s (th_id n) = None" and "th_status n = THREAD_STATUS_ACTIVE"
  shows "threads_step s s'"
  unfolding threads_step_def
proof (intro exI conjI)
  let ?g = "\<lambda>t. if p t then f t else t"
  show "threads s' = map ?g (threads s) @ [?g n]" using assms(1) by (simp add: update_where_def)
  show "\<forall>t \<in> set (threads s). thread_moved t (?g t)"
    using assms(2,3) by (auto simp: thread_moved_def threads_inv_def)
  show "[?g n] = [] \<or> (\<exists>m. [?g n] = [m] \<and> get_thread s (th_id m) = None \<and> th_status m = THREAD_STATUS_ACTIVE)"
    using assms(3,4,5) by auto
qed

lemma bookkeeping_moved:
  "threads_inv s \<Longrightarrow> t \<in> set (threads s) \<Longrightarrow> thread_moved t (t\<lparr>th_updated_at := n\<rparr>)"
  "threads_inv s \<Longrightarrow> t \<in> set (threads s) \<Longrightarrow> thread_moved t (t\<lparr>th_last_interaction_at := n, th_updated_at := m\<rparr>)"
  by (simp_all add: thread_moved_def threads_inv_def)

lemma threads_step_ensure: "threads_inv s \<Longrightarrow> threads_step s (snd (ensure_thread s tid title uid))"
proof (cases "get_thread s tid")
  case None
  assume inv: "threads_inv s"
  have g: "get_thread (s\<lparr>ticks := n\<rparr>) tid = None" for n using None by (simp add: get_thread_def)
  show ?thesis
    by (rule threads_step_new [where p = "\<lambda>_. False" and f = id and n = "\<lparr>th_id = tid, th_title = title, th_status = THREAD_STATUS_ACTIVE,
        th_created_at = clock s (ticks s), th_updated_at = clock s (ticks s), th_last_interaction_at = clock s (ticks s),
        th_ended_at = None, th_archived_at = None, th_end_reason = None,
        th_user_id = Some (case uid of None \<Rightarrow> tid | Some u \<Rightarrow> if u = [] then tid else u)\<rparr>"])
      (use inv None g in \<open>simp_all add: ensure_thread_def utc_now_iso_def Let_def update_where_def\<close>)
next
  case (Some t)
  assume inv: "threads_inv s"
  have g: "get_thread (s\<lparr>ticks := n\<rparr>) tid = Some t" for n using Some by (simp add: get_thread_def)
  have e: "threads (snd (ensure_thread s tid title uid)) = update_where (\<lambda>t. th_id t = tid)
      (\<lambda>t. t\<lparr>th_title := coalesce title (th_title t), th_updated_at := clock s (ticks s),
        th_user_id := coalesce (th_user_id t) (Some (case uid of None \<Rightarrow> tid | Some u \<Rightarrow> if u = [] then tid else u)),
        th_last_interaction_at := (if th_status t = ''active'' then clock s (ticks s) else th_last_interaction_at t)\<rparr>)
      (threads s)"
    using g by (simp add: ensure_thread_def utc_now_iso_def Let_def)
  show ?thesis
    by (rule threads_step_update [OF e inv])
      (use inv in \<open>auto simp: thread_moved_def threads_inv_def coalesce_def\<close>)
qed

lemma threads_step_touch: "threads_inv s \<Longrightarrow> threads_step s (snd (touch_thread s tid))"
  by (rule threads_step_update [where p = "\<lambda>t. th_id t = tid \<and> th_status t = THREAD_STATUS_ACTIVE"])
    (simp add: touch_thread_def utc_now_iso_def Let_def, simp, simp add: bookkeeping_moved)

lemma threads_step_end: "threads_inv s \<Longrightarrow> threads_step s (snd (end_thread s tid reason))"
  by (rule threads_step_update [where p = "\<lambda>t. th_id t = tid \<and> th_status t = THREAD_STATUS_ACTIVE"])
    (simp add: end_thread_def utc_now_iso_def Let_def, simp, simp add: thread_moved_def thread_rank_def)

lemma threads_step_archive: "threads_inv s \<Longrightarrow> threads_step s (snd (archive_thread s tid))"
  by (rule threads_step_update [where p = "\<lambda>t. th_id t = tid \<and> th_status t \<noteq> THREAD_STATUS_ARCHIVED"])
    (simp add: archive_thread_def utc_now_iso_def Let_def, simp, simp add: thread_moved_def thread_rank_def threads_inv_def)

lemma same_row: "threads_inv s \<Longrightarrow> a \<in> set (threads s) \<Longrightarrow> b \<in> set (threads s) \<Longrightarrow> th_id a = th_id b \<Longrightarrow> a = b"
  by (auto simp: threads_inv_def distinct_map inj_on_def)

text \<open>The bulk updates select rows by status and then rewrite by id; ids being unique, these are the same rows.\<close>

lemma threads_step_bulk:
  assumes inv: "threads_inv s" and sel: "set rows \<subseteq> {t \<in> set (threads s). th_status t = st}"
    and upd: "threads s' = update_where (\<lambda>t. th_id t \<in> set (map th_id rows)) f (threads s)"
    and moved: "\<And>t. t \<in> set (threads s) \<Longrightarrow> th_status t = st \<Longrightarrow> thread_moved t (f t)"
  shows "threads_step s s'"
proof (rule threads_step_update [OF upd inv])
  fix t assume t: "t \<in> set (threads s)" and "th_id t \<in> set (map th_id rows)"
  then obtain r where "r \<in> set rows" "th_id r = th_id t" by auto
  then have "r = t" "th_status r = st" using same_row [OF inv _ t] sel by auto
  then show "thread_moved t (f t)" using moved t by blast
qed

lemma set_idle: "set (idle_active_threads s c l) \<subseteq> {t \<in> set (threads s). th_status t = ''active''}"
  by (auto simp: idle_active_threads_def dest: set_sql_limit)

lemma set_ended: "set (ended_threads s c l) \<subseteq> {t \<in> set (threads s). th_status t = ''ended''}"
  by (auto simp: ended_threads_def dest: set_sql_limit)

lemma threads_step_end_idle:
  assumes inv: "threads_inv s"
  shows "threads_step s (snd (end_idle_threads_older_than s ttl lim))"
proof -
  let ?s = "s\<lparr>ticks := Suc (Suc (ticks s))\<rparr>"
  let ?rows = "idle_active_threads ?s (clock s (ticks s) - max 0 ttl * 1000000) lim"
  show ?thesis
  proof (cases "?rows = []")
    case True
    then show ?thesis
      by (intro threads_step_same [OF _ inv])
        (simp add: end_idle_threads_older_than_def end_idle_threads_before_def utc_iso_before_def utc_now_iso_def Let_def)
  next
    case False
    show ?thesis
      by (rule threads_step_bulk [OF inv set_idle [of ?s "clock s (ticks s) - max 0 ttl * 1000000" lim, simplified],
            where f = "\<lambda>t. t\<lparr>th_status := THREAD_STATUS_ENDED, th_ended_at := Some (clock s (Suc (ticks s))),
              th_end_reason := Some ''idle'', th_updated_at := clock s (Suc (ticks s))\<rparr>"])
        (use False in \<open>simp_all add: end_idle_threads_older_than_def end_idle_threads_before_def utc_iso_before_def
            utc_now_iso_def Let_def thread_moved_def thread_rank_def\<close>)
  qed
qed

lemma threads_step_archive_ended:
  assumes inv: "threads_inv s"
  shows "threads_step s (snd (archive_ended_threads_older_than s ttl lim))"
proof -
  let ?s = "s\<lparr>ticks := Suc (Suc (ticks s))\<rparr>"
  let ?rows = "ended_threads ?s (clock s (ticks s) - max 0 ttl * 1000000) lim"
  show ?thesis
  proof (cases "?rows = []")
    case True
    then show ?thesis
      by (intro threads_step_same [OF _ inv])
        (simp add: archive_ended_threads_older_than_def archive_ended_threads_before_def utc_iso_before_def
          utc_now_iso_def Let_def)
  next
    case False
    show ?thesis
      by (rule threads_step_bulk [OF inv set_ended [of ?s "clock s (ticks s) - max 0 ttl * 1000000" lim, simplified],
            where f = "\<lambda>t. t\<lparr>th_status := THREAD_STATUS_ARCHIVED, th_archived_at := Some (clock s (Suc (ticks s))),
              th_updated_at := clock s (Suc (ticks s))\<rparr>"])
        (use False in \<open>simp_all add: archive_ended_threads_older_than_def archive_ended_threads_before_def
            utc_iso_before_def utc_now_iso_def Let_def thread_moved_def thread_rank_def\<close>)
  qed
qed

section \<open>What creating a run answers\<close>

definition fresh_thread :: "time \<Rightarrow> string \<Rightarrow> thread_row" where
  "fresh_thread now tid = \<lparr>th_id = tid, th_title = None, th_status = THREAD_STATUS_ACTIVE,
     th_created_at = now, th_updated_at = now, th_last_interaction_at = now,
     th_ended_at = None, th_archived_at = None, th_end_reason = None, th_user_id = Some tid\<rparr>"

lemma create_run_thread_eq:
  "create_run_thread s now tid =
    (case get_thread s tid of None \<Rightarrow> (THREAD_STATUS_ACTIVE, s\<lparr>threads := threads s @ [fresh_thread now tid]\<rparr>)
     | Some t \<Rightarrow> (th_status t, s))"
  by (simp add: create_run_thread_def fresh_thread_def split: option.split)

text \<open>Why a request is refused: the exception of each guard, in the order the guards are checked.\<close>

definition refusal :: "store \<Rightarrow> string \<Rightarrow> string option \<Rightarrow> string option \<Rightarrow> pyerr \<Rightarrow> bool" where
  "refusal s tid key hash e \<longleftrightarrow>
     (\<exists>t. get_thread s tid = Some t \<and> th_status t \<noteq> ''active'' \<and> e = ThreadNotActiveError tid (th_status t))
     \<or> (\<exists>r k. key = Some k \<and> existing_run s tid key = Some r \<and> hash_conflict (rn_idempotency_payload_hash r) hash
          \<and> e = IdempotencyConflictError tid k)
     \<or> (\<exists>r \<in> set (runs s). is_active_run tid r \<and> e = ActiveRunExistsError tid (rn_id r))
     \<or> e = IntegrityError"

lemma existing_run_cong: "runs s' = runs s \<Longrightarrow> existing_run s' tid key = existing_run s tid key"
  by (simp add: existing_run_def runs_by_created_def split: option.split)

lemma runs_by_created_cong: "runs s' = runs s \<Longrightarrow> runs_by_created p s' = runs_by_created p s"
  by (simp add: runs_by_created_def)

lemma create_run_txn_result:
  assumes "create_run_txn s now tid rid st key hash = (res, s')"
  shows "case res of
      Inl e \<Rightarrow> s' = s \<and> refusal s tid key hash e
    | Inr r \<Rightarrow> (\<forall>t. get_thread s tid = Some t \<longrightarrow> th_status t = ''active'')
        \<and> (existing_run s tid key = Some r \<and> \<not> hash_conflict (rn_idempotency_payload_hash r) hash
             \<and> s' = snd (create_run_thread s now tid)
           \<or> existing_run s tid key = None \<and> active_runs s tid = [] \<and> get_run s rid = None
             \<and> (r, s') = insert_run (snd (create_run_thread s now tid)) now tid rid st key hash)"
proof -
  obtain ts s1 where ts: "create_run_thread s now tid = (ts, s1)" by fastforce
  have s1: "runs s1 = runs s"
    using create_run_thread_frame [of s now tid] ts by (simp add: same_runs_and_log_def)
  note cong = existing_run_cong [OF s1] runs_by_created_cong [OF s1] get_run_cong [OF s1]
  note txn = assms [unfolded create_run_txn_def ts Let_def prod.case cong]
  show ?thesis
  proof (cases "ts = THREAD_STATUS_ACTIVE")
    case False
    then show ?thesis
      using txn ts by (auto simp: create_run_thread_eq refusal_def split: option.splits)
  next
    case active: True
    then have th: "\<forall>t. get_thread s tid = Some t \<longrightarrow> th_status t = ''active''"
      using ts by (auto simp: create_run_thread_eq split: option.splits)
    show ?thesis
    proof (cases "existing_run s tid key")
      case (Some r)
      then obtain k where "key = Some k" using existing_run_Some by blast
      then show ?thesis using txn active Some th ts by (auto simp: refusal_def split: if_splits)
    next
      case None
      show ?thesis
      proof (cases "first_row (runs_by_created (is_active_run tid) s)")
        case (Some r)
        then have "r \<in> set (runs s) \<and> is_active_run tid r" using first_row_Some by fastforce
        then show ?thesis using txn active None Some by (auto simp: refusal_def)
      next
        case n: None
        then have "active_runs s tid = []" by (simp add: runs_by_created_Nil active_runs_def)
        then show ?thesis
          using txn active None n th ts by (auto simp: refusal_def split: if_splits prod.splits)
      qed
    qed
  qed
qed

lemma same_tables:
  "runs (s\<lparr>ticks := n, uuid_pos := m\<rparr>) = runs s" "threads (s\<lparr>ticks := n, uuid_pos := m\<rparr>) = threads s"
  "events (s\<lparr>ticks := n, uuid_pos := m\<rparr>) = events s"
  "get_thread (s\<lparr>ticks := n, uuid_pos := m\<rparr>) i = get_thread s i"
  "active_runs (s\<lparr>ticks := n, uuid_pos := m\<rparr>) tid = active_runs s tid"
  by (simp_all add: get_thread_def active_runs_def)

lemma same_tables_existing: "existing_run (s\<lparr>ticks := n, uuid_pos := m\<rparr>) tid key = existing_run s tid key"
  by (rule existing_run_cong) simp

lemma same_tables_refusal: "refusal (s\<lparr>ticks := n, uuid_pos := m\<rparr>) tid key h e = refusal s tid key h e"
  by (simp add: refusal_def same_tables same_tables_existing)

lemma create_run_answer:
  assumes "create_run s tid rid st key hash = (res, s')"
  shows "case res of
      Inl e \<Rightarrow> runs s' = runs s \<and> threads s' = threads s \<and> events s' = events s
        \<and> (if st \<in> RUN_STATUSES then refusal s tid (strip_or_none key) (strip_or_none hash) e
           else e = InvalidRunStatusError st)
    | Inr r \<Rightarrow> st \<in> RUN_STATUSES \<and> events s' = events s
        \<and> (\<forall>t. get_thread s tid = Some t \<longrightarrow> th_status t = ''active'')
        \<and> (existing_run s tid (strip_or_none key) = Some r \<and> runs s' = runs s
             \<and> \<not> hash_conflict (rn_idempotency_payload_hash r) (strip_or_none hash)
           \<or> existing_run s tid (strip_or_none key) = None \<and> active_runs s tid = []
             \<and> runs s' = runs s @ [r] \<and> get_run s (rn_id r) = None \<and> rn_thread_id r = tid \<and> rn_status r = st
             \<and> rn_idempotency_key r = strip_or_none key \<and> rn_idempotency_payload_hash r = strip_or_none hash)"
  using assms
proof (cases rule: create_run_decomp)
  case invalid
  then show ?thesis by simp
next
  case (valid rid' n)
  note res = create_run_txn_result [OF valid(2), unfolded same_tables same_tables_existing same_tables_refusal]
  show ?thesis
  proof (cases res)
    case (Inl e)
    then show ?thesis using res valid(1) by (simp add: same_tables)
  next
    case (Inr r)
    let ?s = "s\<lparr>ticks := Suc (ticks s), uuid_pos := n\<rparr>" and ?now = "clock s (ticks s)"
    have fr: "runs (snd (create_run_thread ?s ?now tid)) = runs s"
        "events (snd (create_run_thread ?s ?now tid)) = events s"
      using create_run_thread_frame [of ?s ?now tid] by (simp_all add: same_runs_and_log_def)
    show ?thesis
    proof (cases "existing_run s tid (strip_or_none key)")
      case (Some r')
      then show ?thesis using res Inr valid(1) fr by auto
    next
      case None
      define s1 where "s1 = snd (create_run_thread ?s ?now tid)"
      have ins: "(r, s') = insert_run s1 ?now tid rid' st (strip_or_none key) (strip_or_none hash)"
        using res Inr None by (simp add: s1_def)
      have row: "r = fst (insert_run s1 ?now tid rid' st (strip_or_none key) (strip_or_none hash))"
          "s' = snd (insert_run s1 ?now tid rid' st (strip_or_none key) (strip_or_none hash))"
        using ins by (metis fst_conv, metis snd_conv)
      have "runs s' = runs s @ [r]" "events s' = events s"
        unfolding row(2) insert_run_frame using fr by (simp_all add: s1_def [symmetric] row(1))
      moreover have "rn_id r = rid'" "rn_thread_id r = tid" "rn_status r = st"
          "rn_idempotency_key r = strip_or_none key" "rn_idempotency_payload_hash r = strip_or_none hash"
        unfolding row(1) by (simp_all add: insert_run_row)
      ultimately show ?thesis using res Inr valid(1) None by (simp add: get_run_ticks)
    qed
  qed
qed


lemma demo_retry: "fst (create_run demo_one_run ''t'' None ''queued'' (Some '' k '') None) = Inr (hd (runs demo_one_run))"
  by code_simp


section \<open>Executions and threads\<close>

lemma threads_step_bookkeeping:
  assumes "threads_inv s"
    and "threads s' = threads s \<or> (\<exists>p now. threads s' = update_where p (\<lambda>t. t\<lparr>th_updated_at := now\<rparr>) (threads s))"
  shows "threads_step s s'"
  using assms threads_step_same threads_step_update bookkeeping_moved(1) by metis

lemma update_run_status_threads:
  "threads (snd (update_run_status s rid st err cpl)) = threads s \<or>
   (\<exists>p now. threads (snd (update_run_status s rid st err cpl)) =
      update_where p (\<lambda>t. t\<lparr>th_updated_at := now\<rparr>) (threads s))"
  by (auto simp: update_run_status_def utc_now_iso_def Let_def split: sum.split option.split)

lemma fail_non_terminal_threads:
  "threads (snd (fail_non_terminal_runs s err ex)) = threads s \<or>
   (\<exists>p now. threads (snd (fail_non_terminal_runs s err ex)) =
      update_where p (\<lambda>t. t\<lparr>th_updated_at := now\<rparr>) (threads s))"
  by (auto simp: fail_non_terminal_runs_def utc_now_iso_def Let_def)

lemma threads_step_create: "threads_inv s \<Longrightarrow> threads_step s (snd (create_run s tid rid st key hash))"
proof -
  assume inv: "threads_inv s"
  obtain res s' where eq: "create_run s tid rid st key hash = (res, s')" by fastforce
  then have "threads_step s s'"
  proof (cases rule: create_run_decomp)
    case invalid
    then show ?thesis using threads_step_same [OF _ inv] by simp
  next
    case (valid rid' n)
    let ?s = "s\<lparr>ticks := Suc (ticks s), uuid_pos := n\<rparr>" and ?now = "clock s (ticks s)"
    note res = create_run_txn_result [OF valid(2), unfolded same_tables same_tables_existing same_tables_refusal]
    have touch: "thread_moved t (t\<lparr>th_last_interaction_at := ?now, th_updated_at := ?now\<rparr>)"
      if "t \<in> set (threads s)" for t using bookkeeping_moved(2) [OF inv that] .
    consider (same) "threads s' = threads s" | (thr) "s' = snd (create_run_thread ?s ?now tid)"
      | (ins) "threads s' = update_where (\<lambda>t. th_id t = tid)
            (\<lambda>t. t\<lparr>th_last_interaction_at := ?now, th_updated_at := ?now\<rparr>) (threads (snd (create_run_thread ?s ?now tid)))"
      using res by (cases res) (auto simp: same_tables insert_run_def Let_def)
    then show ?thesis
    proof cases
      case same
      then show ?thesis by (rule threads_step_same [OF _ inv])
    next
      case thr
      show ?thesis
      proof (cases "get_thread s tid")
        case None
        then show ?thesis using thr inv
          by (intro threads_step_new [where p = "\<lambda>_. False" and f = id and n = "fresh_thread ?now tid"])
            (simp_all add: create_run_thread_eq same_tables update_where_def fresh_thread_def)
      next
        case (Some t)
        then show ?thesis using thr by (intro threads_step_same [OF _ inv]) (simp add: create_run_thread_eq same_tables)
      qed
    next
      case ins
      show ?thesis
      proof (cases "get_thread s tid")
        case None
        with ins have "threads s' = update_where (\<lambda>t. th_id t = tid)
            (\<lambda>t. t\<lparr>th_last_interaction_at := ?now, th_updated_at := ?now\<rparr>) (threads s @ [fresh_thread ?now tid])"
          by (simp add: create_run_thread_eq same_tables)
        then show ?thesis
          by (rule threads_step_new [OF _ inv]) (use None in \<open>simp_all add: fresh_thread_def\<close>)
      next
        case (Some t)
        with ins have "threads s' = update_where (\<lambda>t. th_id t = tid)
            (\<lambda>t. t\<lparr>th_last_interaction_at := ?now, th_updated_at := ?now\<rparr>) (threads s)"
          by (simp add: create_run_thread_eq same_tables)
        then show ?thesis by (rule threads_step_update [OF _ inv]) (rule touch)
      qed
    qed
  qed
  then show ?thesis using eq by simp
qed

lemma threads_step_store: "store_step s s' \<Longrightarrow> threads_inv s \<Longrightarrow> threads_step s s'"
proof (induction rule: store_step.induct)
  case (update s rid st err cpl)
  show ?case
    by (rule threads_step_bookkeeping [OF update]) (simp add: update_run_status_threads)
next
  case (complete s rid err)
  show ?case
    by (rule threads_step_bookkeeping [OF complete]) (simp add: complete_run_def Let_def update_run_status_threads)
next
  case (recovered s rid reason)
  then show ?case by (intro threads_step_same) (simp_all add: mark_run_recovered_def utc_now_iso_def Let_def)
next
  case (fail_all s err ex)
  show ?case
    by (rule threads_step_bookkeeping [OF fail_all]) (rule fail_non_terminal_threads)
next
  case (insert s tid rid ty p)
  show ?case
    by (rule threads_step_bookkeeping [OF insert])
      (auto simp: append_insert_effect(16) [OF surjective_pairing])
next
  case (list_idle s ttl lim)
  then show ?case
    by (intro threads_step_same)
      (simp_all add: list_idle_active_threads_older_than_def utc_iso_before_def utc_now_iso_def Let_def)
qed (simp_all add: threads_step_ensure threads_step_touch threads_step_end threads_step_archive threads_step_end_idle
    threads_step_archive_ended threads_step_create threads_step_same subscribe_def unsubscribe_def uuid4_def)

lemma threads_inv_empty: "threads_inv (empty_store clk ids)"
  by (simp add: threads_inv_def empty_store_def)

lemma reachable_threads_inv: "reachable_store s \<Longrightarrow> threads_inv s"
  unfolding reachable_store_def
  by (auto intro: threads_inv_empty threads_step_inv threads_step_store elim!: rtranclp_induct)

lemma thread_moved_trans: "thread_moved a b \<Longrightarrow> thread_moved b c \<Longrightarrow> thread_moved a c"
  by (auto simp: thread_moved_def)

text \<open>
  A thread only moves forward: whatever transactions follow, an existing thread still exists, an ended
  thread is never active again and an archived one stays archived, its creation time is fixed, and the
  user it belongs to never changes once it is set.
\<close>

theorem thread_lifecycle_monotone:
  assumes "reachable_store s" and "store_step\<^sup>*\<^sup>* s s'" and "get_thread s tid = Some a"
  shows "\<exists>b. get_thread s' tid = Some b
    \<and> (th_status b = ''active'' \<longrightarrow> th_status a = ''active'')
    \<and> (th_status a = ''archived'' \<longrightarrow> th_status b = ''archived'')
    \<and> th_created_at b = th_created_at a
    \<and> (th_user_id a \<noteq> None \<longrightarrow> th_user_id b = th_user_id a)"
proof -
  have "\<exists>b. get_thread s' tid = Some b \<and> thread_moved a b"
    using assms(2)
  proof (induction rule: rtranclp_induct)
    case base
    then show ?case
      using assms(3) thread_moved_refl [OF reachable_threads_inv [OF assms(1)]] get_thread_in by blast
  next
    case (step y z)
    then obtain b where b: "get_thread y tid = Some b" "thread_moved a b" by blast
    have "threads_inv y"
      using assms(1) step.hyps(1) unfolding reachable_store_def
      by (meson reachable_threads_inv reachable_store_def rtranclp_trans)
    then show ?case
      using threads_step_get [OF threads_step_store [OF step.hyps(2)] b(1)] b(2) thread_moved_trans by blast
  qed
  then obtain b where b: "get_thread s' tid = Some b" "thread_moved a b" by blast
  have "th_status a = ''active''" if "th_status b = ''active''"
    using b(2) that by (simp add: thread_moved_def thread_rank_def split: if_splits)
  moreover have "th_status b = ''archived''" if "th_status a = ''archived''"
    using b(2) that by (simp add: thread_moved_def thread_rank_def split: if_splits)
  ultimately show ?thesis using b by (simp add: thread_moved_def)
qed

definition demo_ended :: store where
  "demo_ended = snd (end_thread demo_one_run ''t'' ''done'')"

lemma demo_ended_reachable: "reachable_store demo_ended"
  unfolding demo_ended_def by (rule reachable_step [OF demo_one_run_reachable store_step.end_one])

theorem thread_lifecycle_monotone_witness:
  "\<exists>b. get_thread (snd (ensure_thread demo_ended ''t'' (Some ''again'') None)) ''t'' = Some b
    \<and> th_status b \<noteq> ''active'' \<and> th_user_id b = Some ''t''"
proof -
  obtain a where a: "get_thread demo_ended ''t'' = Some a" "th_status a = ''ended''" "th_user_id a = Some ''t''"
  proof -
    have "map_option (\<lambda>t. (th_status t, th_user_id t)) (get_thread demo_ended ''t'') = Some (''ended'', Some ''t'')"
      by code_simp
    then show thesis using that by auto
  qed
  from thread_lifecycle_monotone [OF demo_ended_reachable r_into_rtranclp [of store_step, OF store_step.ensure] a(1)]
  show ?thesis using a by fastforce
qed

section \<open>Retrying a request\<close>

text \<open>What a run row keeps for ever.\<close>

definition run_ident :: "run_row \<Rightarrow> string \<times> string \<times> string option \<times> string option \<times> time" where
  "run_ident r = (rn_id r, rn_thread_id r, rn_idempotency_key r, rn_idempotency_payload_hash r, rn_created_at r)"

definition keys_inv :: "store \<Rightarrow> bool" where
  "keys_inv s \<longleftrightarrow> (\<forall>tid k. length (filter (\<lambda>r. rn_thread_id r = tid \<and> rn_idempotency_key r = Some k) (runs s)) \<le> 1)"

lemma existing_run_None:
  "existing_run s tid (Some k) = None \<longleftrightarrow> filter (\<lambda>r. rn_thread_id r = tid \<and> rn_idempotency_key r = Some k) (runs s) = []"
  by (simp add: existing_run_def runs_by_created_Nil)

lemma ident_step_create:
  assumes "create_run s tid rid st key hash = (res, s')"
  shows "runs s' = runs s \<or> (\<exists>r. runs s' = runs s @ [r] \<and> existing_run s (rn_thread_id r) (rn_idempotency_key r) = None)"
proof -
  have "(case res of Inl e \<Rightarrow> runs s' = runs s
      | Inr r \<Rightarrow> runs s' = runs s \<or> (runs s' = runs s @ [r] \<and> existing_run s tid (strip_or_none key) = None
          \<and> rn_thread_id r = tid \<and> rn_idempotency_key r = strip_or_none key))"
    using create_run_answer [OF assms] by (auto split: sum.splits)
  then show ?thesis by (auto split: sum.splits)
qed

lemma run_ident_upd [simp]:
  "run_ident (r\<lparr>rn_recovered_at := a, rn_recovery_reason := b\<rparr>) = run_ident r"
  "run_ident (r\<lparr>rn_status := st, rn_completed_at := a, rn_error := e\<rparr>) = run_ident r"
  by (simp_all add: run_ident_def)

lemma ident_update: "(\<And>r. run_ident (f r) = run_ident r) \<Longrightarrow> map run_ident (update_where p f xs) = map run_ident xs"
  by (rule map_update_where)

lemma ident_other_step:
  assumes "store_step s s'"
  shows "map run_ident (runs s') = map run_ident (runs s) \<or>
    (\<exists>r. runs s' = runs s @ [r] \<and> existing_run s (rn_thread_id r) (rn_idempotency_key r) = None)"
  using assms
proof (induction rule: store_step.induct)
  case (create s tid rid st key hash)
  then show ?case using ident_step_create [OF surjective_pairing] by metis
next
  case (update s rid st err cpl)
  obtain res s' where eq: "update_run_status s rid st err cpl = (res, s')" by fastforce
  then have "map run_ident (runs s') = map run_ident (runs s)"
    by (cases rule: update_run_status_cases) (simp_all add: same_runs_and_log_def ident_update)
  then show ?case using eq by simp
next
  case (complete s rid err)
  obtain res s' where eq: "complete_run s rid err = (res, s')" by fastforce
  then have "map run_ident (runs s') = map run_ident (runs s)"
    unfolding complete_run_def Let_def
    by (cases rule: update_run_status_cases) (simp_all add: same_runs_and_log_def ident_update)
  then show ?case using eq by simp
next
  case (recovered s rid reason)
  then show ?case by (simp add: mark_run_recovered_def utc_now_iso_def Let_def ident_update)
next
  case (fail_all s err ex)
  then show ?case by (simp add: fail_non_terminal_runs_def utc_now_iso_def Let_def ident_update)
next
  case (insert s tid rid ty p)
  then show ?case by (simp add: append_insert_def utc_now_iso_def notify_def Let_def)
qed (simp_all add: frame [unfolded same_runs_and_log_def])

lemma keys_by_ident:
  "length (filter (\<lambda>r. rn_thread_id r = tid \<and> rn_idempotency_key r = Some k) rs) =
   length (filter (\<lambda>(i, t, key, h, c). t = tid \<and> key = Some k) (map run_ident rs))"
  by (induction rs) (simp_all add: run_ident_def)

lemma keys_inv_step: "store_step s s' \<Longrightarrow> keys_inv s \<Longrightarrow> keys_inv s'"
proof -
  assume st: "store_step s s'" and inv: "keys_inv s"
  show "keys_inv s'"
    using ident_other_step [OF st]
  proof (elim disjE exE conjE)
    assume "map run_ident (runs s') = map run_ident (runs s)"
    then show ?thesis using inv by (simp add: keys_inv_def keys_by_ident)
  next
    fix r assume "runs s' = runs s @ [r]" "existing_run s (rn_thread_id r) (rn_idempotency_key r) = None"
    then show ?thesis using inv by (auto simp: keys_inv_def existing_run_None)
  qed
qed

lemma reachable_keys_inv: "reachable_store s \<Longrightarrow> keys_inv s"
proof -
  assume "reachable_store s"
  then obtain clk ids where "store_step\<^sup>*\<^sup>* (empty_store clk ids) s" by (auto simp: reachable_store_def)
  then show ?thesis
  proof (induction rule: rtranclp_induct)
    case base
    then show ?case by (simp add: keys_inv_def empty_store_def)
  next
    case (step y z)
    then show ?case using keys_inv_step by blast
  qed
qed

lemma ident_kept: "store_step\<^sup>*\<^sup>* s s' \<Longrightarrow> set (map run_ident (runs s)) \<subseteq> set (map run_ident (runs s'))"
proof (induction rule: rtranclp_induct)
  case (step y z)
  have "set (map run_ident (runs y)) \<subseteq> set (map run_ident (runs z))"
    using ident_other_step [OF step.hyps(2)]
  proof (elim disjE exE conjE)
    assume m: "map run_ident (runs z) = map run_ident (runs y)"
    show ?thesis unfolding m by (rule order_refl)
  next
    fix r assume m: "runs z = runs y @ [r]"
    show ?thesis unfolding m map_append set_append by (rule Un_upper1)
  qed
  then show ?case using step.IH by blast
qed simp

lemma existing_run_unique:
  assumes "keys_inv s" and "r \<in> set (runs s)" and "rn_thread_id r = tid" and "rn_idempotency_key r = Some k"
  shows "existing_run s tid (Some k) = Some r"
proof -
  let ?xs = "runs_by_created (\<lambda>r. rn_thread_id r = tid \<and> rn_idempotency_key r = Some k) s"
  have "length ?xs \<le> 1" using assms(1) by (simp add: keys_inv_def runs_by_created_def)
  moreover have "r \<in> set ?xs" using assms(2-4) by simp
  ultimately show ?thesis by (cases ?xs) (auto simp: existing_run_def first_row_def)
qed

lemma create_run_existing:
  assumes "existing_run s tid (strip_or_none key) = Some r" and "get_thread s tid = Some t" and "th_status t = ''active''"
    and "st \<in> RUN_STATUSES" and "\<not> hash_conflict (rn_idempotency_payload_hash r) (strip_or_none hash)"
  shows "fst (create_run s tid rid st key hash) = Inr r \<and> runs (snd (create_run s tid rid st key hash)) = runs s"
proof -
  obtain res s' where eq: "create_run s tid rid st key hash = (res, s')" by fastforce
  then show ?thesis
  proof (cases rule: create_run_decomp)
    case invalid
    then show ?thesis using assms(4) by simp
  next
    case (valid rid' n)
    have "create_run_txn (s\<lparr>ticks := Suc (ticks s), uuid_pos := n\<rparr>) (clock s (ticks s)) tid rid' st
       (strip_or_none key) (strip_or_none hash) = (Inr r, s\<lparr>ticks := Suc (ticks s), uuid_pos := n\<rparr>)"
      using assms by (simp add: create_run_txn_def create_run_thread_eq same_tables same_tables_existing)
    then show ?thesis using valid eq by auto
  qed
qed

text \<open>
  A request with an idempotency key runs at most once: whenever it is repeated later, after any
  transactions, while its thread is active and with the same payload hash or none, it is answered with the
  run the first request got, whatever became of that run, and no row is added.
\<close>

theorem create_run_retry:
  assumes "reachable_store s" and "create_run s tid rid st key hash = (Inr r, s1)" and "store_step\<^sup>*\<^sup>* s1 s2"
    and "strip_or_none key = Some k" and "strip_or_none key2 = Some k"
    and "strip_or_none hash2 \<in> {None, rn_idempotency_payload_hash r}"
    and "get_thread s2 tid = Some t" and "th_status t = ''active''" and "st2 \<in> RUN_STATUSES"
  shows "\<exists>r2. fst (create_run s2 tid rid2 st2 key2 hash2) = Inr r2 \<and> rn_id r2 = rn_id r
    \<and> runs (snd (create_run s2 tid rid2 st2 key2 hash2)) = runs s2"
proof -
  have s1: "store_step s s1" using store_step.create [of s tid rid st key hash] assms(2) by simp
  have reach: "reachable_store s2"
    using reachable_step [OF assms(1) s1] assms(3) unfolding reachable_store_def by (meson rtranclp_trans)
  have "r \<in> set (runs s1) \<and> rn_thread_id r = tid \<and> rn_idempotency_key r = Some k"
    using create_run_answer [OF assms(2)] assms(4) existing_run_Some by fastforce
  then obtain r2 where r2: "r2 \<in> set (runs s2)" "run_ident r2 = run_ident r"
    and k: "rn_thread_id r = tid" "rn_idempotency_key r = Some k"
    using ident_kept [OF assms(3)] by (force simp: image_iff)
  then have "existing_run s2 tid (Some k) = Some r2"
    by (intro existing_run_unique [OF reachable_keys_inv [OF reach]]) (simp_all add: run_ident_def)
  moreover have "\<not> hash_conflict (rn_idempotency_payload_hash r2) (strip_or_none hash2)"
    using assms(6) r2(2) by (auto simp: hash_conflict_def run_ident_def opt_str_def)
  ultimately show ?thesis
    using create_run_existing [of s2 tid key2 r2 t st2 hash2 rid2] assms(5,7-9) r2(2)
    by (auto simp: run_ident_def)
qed

lemma demo_one_run_create:
  "create_run demo_empty ''t'' None ''queued'' (Some ''k'') None = (Inr (hd (runs demo_one_run)), demo_one_run)"
proof -
  have "fst (create_run demo_empty ''t'' None ''queued'' (Some ''k'') None) = Inr (hd (runs demo_one_run))" by code_simp
  then show ?thesis by (metis demo_one_run_def prod.collapse)
qed

theorem create_run_retry_witness:
  "\<exists>r2. fst (create_run demo_failed_run ''t'' None ''queued'' (Some '' k'') None) = Inr r2 \<and> rn_id r2 = ''r0''"
proof -
  have a: "reachable_store demo_empty" by (simp add: demo_empty_def reachable_empty)
  have b: "store_step\<^sup>*\<^sup>* demo_one_run demo_failed_run"
    unfolding demo_failed_run_def by (rule r_into_rtranclp) (rule store_step.update)
  have k: "strip_or_none (Some ''k'') = Some ''k''" "strip_or_none (Some '' k'') = Some ''k''" by code_simp+
  have h: "strip_or_none None \<in> {None, rn_idempotency_payload_hash (hd (runs demo_one_run))}"
    by (simp add: strip_or_none_def)
  obtain t where t: "get_thread demo_failed_run ''t'' = Some t" "th_status t = ''active''"
  proof -
    have "map_option th_status (get_thread demo_failed_run ''t'') = Some ''active''" by code_simp
    then show thesis using that by auto
  qed
  have q: "''queued'' \<in> RUN_STATUSES" by (simp add: run_status_sets)
  from create_run_retry [OF a demo_one_run_create b k h t q, of None] show ?thesis by (auto simp: demo_one_run_runs)
qed

end
