(* ===== verification/StoreBulk.thy ===== *)
theory StoreBulk
  imports StoreClaims
begin

text \<open>
  The two operations the process runs over whole tables when it starts: failing the runs a crash left in
  progress, and numbering the rows of an events table that has no sequence column yet.
\<close>

section \<open>Failing the runs a crash left behind\<close>

lemma selected_ids:
  "runs_inv s \<Longrightarrow> (\<exists>r0. get_run s i = Some r0 \<and> P r0) \<longleftrightarrow> i \<in> rn_id ` {r \<in> set (runs s). P r}"
  using get_run_of_member get_run_in by (force simp: image_iff)

lemma fail_non_terminal_rows:
  assumes inv: "store_inv s" and eq: "fail_non_terminal_runs s err ex = (rows, s')"
  shows "set rows = {r \<in> set (runs s'). \<exists>r0. get_run s (rn_id r) = Some r0 \<and>
    rn_status r0 \<in> NON_TERMINAL_RUN_STATUSES - set ex}"
proof -
  let ?p = "\<lambda>r. rn_status r \<in> NON_TERMINAL_RUN_STATUSES - set ex"
  have sel: "runs_by_created ?p (s\<lparr>ticks := Suc (ticks s)\<rparr>) = runs_by_created ?p s"
    by (simp add: runs_by_created_def)
  have own: "(\<exists>r0. get_run s i = Some r0 \<and> ?p r0) \<longleftrightarrow> i \<in> rn_id ` {r \<in> set (runs s). ?p r}" for i
    by (rule selected_ids [OF store_invD(1) [OF inv]])
  show ?thesis
  proof (cases "NON_TERMINAL_RUN_STATUSES - set ex = {} \<or> runs_by_created ?p s = []")
    case True
    then have none: "{r \<in> set (runs s). ?p r} = {}"
      by (auto simp: runs_by_created_Nil filter_empty_conv)
    from True have "rows = []"
      using eq unfolding fail_non_terminal_runs_def utc_now_iso_def Let_def prod.case sel by (auto split: if_splits)
    then show ?thesis unfolding own none by simp
  next
    case False
    have ids: "set (map rn_id (runs_by_created ?p s)) = rn_id ` {r \<in> set (runs s). ?p r}" by simp
    have "rows = runs_by_created (\<lambda>r. rn_id r \<in> set (map rn_id (runs_by_created ?p s))) s'"
      using eq False unfolding fail_non_terminal_runs_def utc_now_iso_def Let_def prod.case sel
      by (auto simp: runs_by_created_def)
    then show ?thesis unfolding own ids by simp
  qed
qed

text \<open>
  \<open>fail_non_terminal_runs\<close> fails exactly the runs it should: a run whose status is not terminal and
  not excluded ends failed with the given error and a completion time, and is returned; every other run
  is left exactly as it was. It does so for a run that waits for approval too, a move the state machine
  itself does not have.
\<close>

theorem fail_non_terminal_runs_spec:
  assumes "store_inv s" and "fail_non_terminal_runs s err ex = (rows, s')"
  shows "(\<forall>i r. get_run s i = Some r \<longrightarrow>
      (if rn_status r \<in> NON_TERMINAL_RUN_STATUSES - set ex
       then (\<exists>now. get_run s' i = Some (r\<lparr>rn_status := ''failed'', rn_completed_at := Some now, rn_error := Some err\<rparr>))
         \<and> i \<in> rn_id ` set rows
       else get_run s' i = Some r \<and> i \<notin> rn_id ` set rows))
    \<and> \<not> run_step ''waiting_approval'' ''failed''"
proof (intro conjI allI impI)
  fix i r assume g: "get_run s i = Some r"
  note rows = fail_non_terminal_rows [OF assms]
  show "if rn_status r \<in> NON_TERMINAL_RUN_STATUSES - set ex
       then (\<exists>now. get_run s' i = Some (r\<lparr>rn_status := ''failed'', rn_completed_at := Some now, rn_error := Some err\<rparr>))
         \<and> i \<in> rn_id ` set rows
       else get_run s' i = Some r \<and> i \<notin> rn_id ` set rows"
    using assms(2)
  proof (cases rule: fail_non_terminal_effect)
    case none
    then have "get_run s' i = Some r" "rn_status r \<notin> NON_TERMINAL_RUN_STATUSES - set ex"
      using g get_run_in [OF g] by (auto simp: same_runs_and_log_def get_run_cong [of s' s])
    then show ?thesis using g by (auto simp: rows)
  next
    case (failed ids now)
    let ?ids = "rn_id ` {r \<in> set (runs s). rn_status r \<in> NON_TERMINAL_RUN_STATUSES - set ex}"
    have mem: "i \<in> ?ids \<longleftrightarrow> rn_status r \<in> NON_TERMINAL_RUN_STATUSES - set ex"
      unfolding selected_ids [OF store_invD(1) [OF assms(1)], symmetric] using g by simp
    have g': "get_run s' i = Some (if i \<in> ?ids
        then r\<lparr>rn_status := ''failed'', rn_completed_at := Some now, rn_error := Some err\<rparr> else r)"
      using g get_run_in [OF g] by (simp add: get_run_update [OF failed(1)] failed(2))
    have in_rows: "i \<in> rn_id ` set rows" if "i \<in> ?ids"
    proof -
      from g' that have g2: "get_run s' i = Some (r\<lparr>rn_status := ''failed'', rn_completed_at := Some now, rn_error := Some err\<rparr>)"
        by simp
      have "r\<lparr>rn_status := ''failed'', rn_completed_at := Some now, rn_error := Some err\<rparr> \<in> set rows"
        unfolding rows using get_run_in [OF g2] g that mem by auto
      from imageI [OF this, of rn_id] show ?thesis using get_run_in [OF g2] by simp
    qed
    have "i \<notin> rn_id ` set rows" if "i \<notin> ?ids"
      using that g mem by (auto simp: rows)
    then show ?thesis using g' mem in_rows by auto
  qed
next
  show "\<not> run_step ''waiting_approval'' ''failed''" by (auto elim: run_step.cases)
qed

theorem fail_non_terminal_runs_spec_witness:
  "\<exists>now. get_run (snd (fail_non_terminal_runs demo_one_run ''lost'' [''waiting_approval''])) ''r0'' =
    Some ((hd (runs demo_one_run))\<lparr>rn_status := ''failed'', rn_completed_at := Some now, rn_error := Some ''lost''\<rparr>)"
proof -
  have g: "get_run demo_one_run ''r0'' = Some (hd (runs demo_one_run))"
    by (simp add: get_run_def demo_one_run_runs)
  have st: "rn_status (hd (runs demo_one_run)) \<in> NON_TERMINAL_RUN_STATUSES - set [''waiting_approval'']"
    by (simp add: demo_one_run_runs NON_TERMINAL_RUN_STATUSES_def)
  have "fail_non_terminal_runs demo_one_run ''lost'' [''waiting_approval''] =
      (fst (fail_non_terminal_runs demo_one_run ''lost'' [''waiting_approval'']),
       snd (fail_non_terminal_runs demo_one_run ''lost'' [''waiting_approval'']))" by simp
  from fail_non_terminal_runs_spec [OF reachable_inv [OF demo_one_run_reachable] this] g
  show ?thesis using st by simp
qed

section \<open>Numbering an old events table\<close>

lemma number_rows_ids: "map fst (number_rows rows m) = map ev_id rows"
  by (induction rows arbitrary: m) (simp_all add: Let_def)

lemma number_rows_nth:
  assumes "distinct (map ev_id rows)" and "j < length (filter (\<lambda>e. ev_run_id e = rid) rows)"
    and "filter (\<lambda>e. ev_run_id e = rid) rows ! j = e"
  shows "map_of (number_rows rows m) (ev_id e) =
    Some ((case m rid of None \<Rightarrow> 0 | Some n \<Rightarrow> n) + int j + 1)"
  using assms
proof (induction rows arbitrary: m j)
  case (Cons row rows)
  show ?case
  proof (cases "ev_run_id row = rid")
    case True
    show ?thesis
    proof (cases j)
      case 0
      then show ?thesis using Cons.prems True by (simp add: Let_def)
    next
      case (Suc j')
      then have "e \<in> set rows" using Cons.prems True nth_mem by fastforce
      then have "ev_id row \<noteq> ev_id e" using Cons.prems(1) by auto
      then show ?thesis using Cons.IH [of j' "m(rid \<mapsto> (case m rid of None \<Rightarrow> 0 | Some n \<Rightarrow> n) + 1)"] Cons.prems True Suc
        by (simp add: Let_def fun_upd_def)
    qed
  next
    case False
    then have "e \<in> set rows" using Cons.prems nth_mem by fastforce
    then have "ev_id row \<noteq> ev_id e" using Cons.prems(1) by auto
    then show ?thesis using Cons.IH [of j] Cons.prems False by (simp add: Let_def)
  qed
qed simp

lemma fold_updates:
  "distinct (map fst ups) \<Longrightarrow>
   fold (\<lambda>(i, seq). update_where (\<lambda>e. ev_id e = i) (\<lambda>e. e\<lparr>ev_sequence := Some seq\<rparr>)) ups es =
   map (\<lambda>e. case map_of ups (ev_id e) of None \<Rightarrow> e | Some q \<Rightarrow> e\<lparr>ev_sequence := Some q\<rparr>) es"
proof (induction ups arbitrary: es)
  case (Cons u ups)
  obtain i q where u: "u = (i, q)" by fastforce
  have "map_of ups i = None" using Cons.prems u by (auto simp: map_of_eq_None_iff)
  then show ?case using Cons u by (auto simp: update_where_def)
qed simp

text \<open>
  The migration gives every run whose rows carry no number yet the numbers 1, 2, 3, ... in the order
  of the row ids, and changes nothing else in any row; rows that have a number keep it.
\<close>

theorem migrate_events_numbers:
  assumes "sorted_wrt (<) (map ev_id (events s))" and "\<forall>e \<in> set (run_log s rid). ev_sequence e = None"
  shows "map ev_sequence (run_log (migrate_events s) rid) = map (\<lambda>n. Some (int n)) [1..<Suc (length (run_log s rid))]
    \<and> map (\<lambda>e. e\<lparr>ev_sequence := None\<rparr>) (events (migrate_events s)) = map (\<lambda>e. e\<lparr>ev_sequence := None\<rparr>) (events s)
    \<and> (\<forall>e \<in> set (events s). ev_sequence e \<noteq> None \<longrightarrow> e \<in> set (events (migrate_events s)))"
proof -
  let ?rows = "sort_key (\<lambda>e. (ev_run_id e, ev_id e)) (filter (\<lambda>e. ev_sequence e = None) (events s))"
  let ?ups = "number_rows ?rows Map.empty"
  define g :: "event_row \<Rightarrow> event_row" where "g = (\<lambda>e. case map_of ?ups (ev_id e) of None \<Rightarrow> e | Some q \<Rightarrow> e\<lparr>ev_sequence := Some q\<rparr>)"
  have dist: "distinct (map ev_id (events s))" using assms(1) by (simp add: strict_sorted_iff)
  then have drows: "distinct (map ev_id ?rows)"
    by (simp add: distinct_map inj_on_def)
  then have ev: "events (migrate_events s) = map g (events s)"
    by (simp add: migrate_events_def Let_def fold_updates number_rows_ids g_def)
  have log: "filter (\<lambda>e. ev_run_id e = rid) ?rows = run_log s rid"
  proof -
    have "filter (\<lambda>e. ev_run_id e = rid) (filter (\<lambda>e. ev_sequence e = None) (events s)) = run_log s rid"
      using assms(2) by (auto simp: run_log_def intro: filter_cong)
    moreover have "sorted (map (\<lambda>e. (ev_run_id e, ev_id e)) (run_log s rid))"
    proof -
      have "sorted_wrt (\<lambda>a b. ev_id a < ev_id b) (run_log s rid)"
        using assms(1) by (simp add: run_log_def sorted_wrt_map sorted_wrt_filter)
      then show ?thesis unfolding sorted_map
        by (rule sorted_wrt_mono_rel [rotated]) (auto simp: run_log_def less_eq_prod_def)
    qed
    ultimately show ?thesis by (simp add: filter_sort sort_key_id_if_sorted)
  qed
  have "ev_sequence (g (run_log s rid ! j)) = Some (int (Suc j))" if "j < length (run_log s rid)" for j
    using number_rows_nth [OF drows, of j rid _ Map.empty] that by (simp add: log g_def)
  moreover have "run_log (migrate_events s) rid = map g (run_log s rid)"
  proof -
    have "(\<lambda>e. ev_run_id e = rid) \<circ> g = (\<lambda>e. ev_run_id e = rid)"
      by (rule ext) (simp add: g_def split: option.split)
    then show ?thesis by (simp only: run_log_def ev filter_map)
  qed
  ultimately have "map ev_sequence (run_log (migrate_events s) rid) =
      map (\<lambda>n. Some (int n)) [1..<Suc (length (run_log s rid))]"
    by (intro nth_equalityI) (simp_all del: upt_Suc)
  moreover have "map (\<lambda>e. e\<lparr>ev_sequence := None\<rparr>) (events (migrate_events s)) = map (\<lambda>e. e\<lparr>ev_sequence := None\<rparr>) (events s)"
    by (simp add: ev g_def split: option.split)
  moreover have "e \<in> set (events (migrate_events s))" if "e \<in> set (events s)" "ev_sequence e \<noteq> None" for e
  proof -
    have "ev_id e \<notin> set (map ev_id ?rows)"
      using dist that by (auto simp: distinct_map inj_on_def)
    then have "map_of ?ups (ev_id e) = None"
      unfolding number_rows_ids [symmetric, of ?rows Map.empty] by (simp only: map_of_eq_None_iff set_map not_False_eq_True)
    then have "g e = e" by (simp add: g_def)
    then show ?thesis using that(1) by (force simp: ev)
  qed
  ultimately show ?thesis by blast
qed

definition demo_legacy :: store where
  "demo_legacy = demo_one_run\<lparr>events := map (\<lambda>(i, r). \<lparr>ev_id = i, ev_thread_id = ''t'', ev_run_id = r, ev_type = ''token'',
     ev_payload = PDict [], ev_created_at = 0, ev_sequence = None\<rparr>) [(1, ''a''), (2, ''b''), (3, ''a'')]\<rparr>"

theorem migrate_events_numbers_witness:
  "map ev_sequence (run_log (migrate_events demo_legacy) ''a'') = [Some 1, Some 2]"
proof -
  have s: "sorted_wrt (<) (map ev_id (events demo_legacy))" by (simp add: demo_legacy_def)
  have n: "\<forall>e \<in> set (run_log demo_legacy ''a''). ev_sequence e = None" by (simp add: demo_legacy_def run_log_def)
  have "length (run_log demo_legacy ''a'') = 2" by (simp add: demo_legacy_def run_log_def)
  then show ?thesis using migrate_events_numbers [OF s n] by (simp add: upt_rec)
qed

end
