(* ===== verification/Projections.thy ===== *)
theory Projections
  imports EventStore "HOL-Library.Multiset"
begin

text \<open>
  Read models over a run's events. Every read model of the runtime first orders the events by sequence and
  id, keeps the ones of its kind and turns each into an item; \<open>event_projection\<close> states that contract and
  proves what follows from it once, for the policy audit and for the side-effect ledger.
\<close>

text \<open>\<open>int(event.get("sequence") or 0)\<close>\<close>

definition seq_or_zero :: "event_row \<Rightarrow> int" where
  "seq_or_zero e = (case ev_sequence e of None \<Rightarrow> 0 | Some n \<Rightarrow> n)"

definition event_order :: "event_row \<Rightarrow> int \<times> int" where
  "event_order e = (seq_or_zero e, ev_id e)"

definition ordered_events :: "event_row list \<Rightarrow> event_row list" where
  "ordered_events evs = sort_key event_order evs"

lemma ordered_events_perm:
  assumes "mset xs = mset ys" and "distinct (map event_order xs)"
  shows "ordered_events xs = ordered_events ys"
proof -
  have "inj_on event_order (set xs)" using assms(2) by (simp add: distinct_map)
  moreover have "set (ordered_events xs) = set xs" by (simp add: ordered_events_def)
  ultimately have inj: "inj_on event_order (set (ordered_events xs))" by simp
  have "mset (ordered_events xs) = mset (ordered_events ys)" using assms(1) by (simp add: ordered_events_def)
  moreover have "sorted (map event_order (ordered_events xs))" "sorted (map event_order (ordered_events ys))"
    by (simp_all add: ordered_events_def)
  moreover from calculation(1) have "map event_order (ordered_events xs) = map event_order (ordered_events ys)"
    using calculation(2,3) by (metis mset_map properties_for_sort sorted_sort_id)
  ultimately show ?thesis
    using inj by (metis map_inj_on mset_eq_setD Un_absorb)
qed

lemma ordered_filter: "filter p (ordered_events evs) = ordered_events (filter p evs)"
  by (simp add: ordered_events_def filter_sort)

locale event_projection =
  fixes kind :: string
    and item :: "event_row \<Rightarrow> 'i"
    and project :: "event_row list \<Rightarrow> 'i list"
  assumes project_eq: "project evs = map item (filter (\<lambda>e. ev_type e = kind) (ordered_events evs))"
begin

lemma project_length: "length (project evs) = length (filter (\<lambda>e. ev_type e = kind) evs)"
  unfolding project_eq ordered_filter length_map by (simp add: ordered_events_def)

lemma project_irrelevant: "\<forall>e \<in> set es. ev_type e \<noteq> kind \<Longrightarrow> project (evs @ es) = project evs"
  by (simp add: project_eq ordered_filter filter_False)

lemma project_perm: "mset xs = mset ys \<Longrightarrow> distinct (map event_order xs) \<Longrightarrow> project xs = project ys"
  by (simp add: project_eq ordered_events_perm)

lemma project_member: "i \<in> set (project evs) \<longleftrightarrow> (\<exists>e \<in> set evs. ev_type e = kind \<and> i = item e)"
  by (auto simp: project_eq ordered_events_def)

end

end
