(* ===== verification/Sanitize.thy ===== *)
theory Sanitize
  imports PyValue
begin

text \<open>
  The redaction every audit payload goes through (\<^verbatim>\<open>copilot_agent/tools/sanitize.py\<close>). Payloads here are
  JSON values; a langchain message is turned into one of its five fields before it gets here. Dictionary
  keys are distinct, as Python's are, so writing each rewritten entry to a new dictionary in order is the
  map over the entries below.
\<close>

definition SENSITIVE_KEY_PARTS :: "string list" where
  "SENSITIVE_KEY_PARTS = [''authorization'', ''cookie'', ''password'', ''secret'', ''set-cookie'', ''token'']"

definition RAW_SECRET_KEYS :: "string list" where
  "RAW_SECRET_KEYS = [''_raw_set_cookie_for_store_only'']"

definition MAX_STRING_LENGTH :: nat where
  "MAX_STRING_LENGTH = 2000"

definition REDACTED :: string where
  "REDACTED = ''***REDACTED***''"

definition is_raw_key :: "string \<Rightarrow> bool" where
  "is_raw_key k \<longleftrightarrow> lower k \<in> set RAW_SECRET_KEYS"

definition is_sensitive_key :: "string \<Rightarrow> bool" where
  "is_sensitive_key k \<longleftrightarrow> list_ex (contains (lower k)) SENSITIVE_KEY_PARTS"

definition truncate_text :: "nat \<Rightarrow> string \<Rightarrow> string" where
  "truncate_text n s = (if length s \<le> n then s else take n s @ ''...(truncated)'')"

fun sanitize_tool_payload :: "nat \<Rightarrow> pyval \<Rightarrow> pyval" where
  "sanitize_tool_payload n (PDict d) = PDict (concat (map (\<lambda>kv.
     if is_raw_key (fst kv) then []
     else if is_sensitive_key (fst kv) then [(fst kv, PStr REDACTED)]
     else [(fst kv, sanitize_tool_payload n (snd kv))]) d))"
| "sanitize_tool_payload n (PList xs) = PList (map (sanitize_tool_payload n) xs)"
| "sanitize_tool_payload n (PStr s) = PStr (truncate_text n s)"
| "sanitize_tool_payload n v = v"

definition marked_text :: "string \<Rightarrow> bool" where
  "marked_text s \<longleftrightarrow> contains (lower s) ''wmsessionid='' \<or> contains (lower s) ''set-cookie:''"

fun audit_payload_has_secret :: "pyval \<Rightarrow> bool" where
  "audit_payload_has_secret (PDict d) = list_ex (\<lambda>kv.
     is_raw_key (fst kv)
     \<or> (is_sensitive_key (fst kv) \<and> snd kv \<noteq> PStr REDACTED)
     \<or> audit_payload_has_secret (snd kv)) d"
| "audit_payload_has_secret (PList xs) = list_ex audit_payload_has_secret xs"
| "audit_payload_has_secret (PStr s) = marked_text s"
| "audit_payload_has_secret v = False"

text \<open>The two names are the argument and the module variable that the scenario binding sets.\<close>

definition redact_cookie_header :: "string \<Rightarrow> string option \<Rightarrow> string option \<Rightarrow> string" where
  "redact_cookie_header session_cookie_name value cookie_name =
     (case value of None \<Rightarrow> [] | Some v \<Rightarrow>
       if v = [] then []
       else
         (let configured = strip (case cookie_name of
                Some c \<Rightarrow> if c \<noteq> [] then c else if session_cookie_name \<noteq> [] then session_cookie_name else ''wmsessionid''
              | None \<Rightarrow> if session_cookie_name \<noteq> [] then session_cookie_name else ''wmsessionid'');
              configured_lower = lower configured
          in if configured_lower \<noteq> [] \<and> contains (lower v) (configured_lower @ ''='')
             then ''Cookie:<'' @ upper configured @ ''=***REDACTED***>''
             else ''Cookie:<REDACTED>''))"

section \<open>What redaction guarantees\<close>

lemma truncate_idem [simp]: "truncate_text n (truncate_text n s) = truncate_text n s"
  by (simp add: truncate_text_def)

lemma concat_map_idem:
  assumes "\<And>x y. x \<in> set xs \<Longrightarrow> y \<in> set (f x) \<Longrightarrow> f y = [y]"
  shows "concat (map f (concat (map f xs))) = concat (map f xs)"
proof -
  have flat: "concat (map f ys) = ys" if "\<And>y. y \<in> set ys \<Longrightarrow> f y = [y]" for ys
    using that by (induction ys) auto
  show ?thesis by (rule flat) (use assms in auto)
qed

lemma sanitize_idem: "sanitize_tool_payload n (sanitize_tool_payload n v) = sanitize_tool_payload n v"
proof (induction n v rule: sanitize_tool_payload.induct)
  case (1 n d)
  let ?f = "\<lambda>kv. if is_raw_key (fst kv) then []
     else if is_sensitive_key (fst kv) then [(fst kv, PStr REDACTED)]
     else [(fst kv, sanitize_tool_payload n (snd kv))]"
  have "concat (map ?f (concat (map ?f d))) = concat (map ?f d)"
    by (rule concat_map_idem) (use 1 in \<open>auto split: if_splits\<close>)
  then show ?case by simp
qed simp_all

text \<open>The strings a reader of the payload can see: the leaves, at any depth.\<close>

fun leaf_texts :: "pyval \<Rightarrow> string list" where
  "leaf_texts (PDict d) = concat (map (\<lambda>kv. leaf_texts (snd kv)) d)"
| "leaf_texts (PList xs) = concat (map leaf_texts xs)"
| "leaf_texts (PStr s) = [s]"
| "leaf_texts v = []"

text \<open>The sub-values of a payload with the keys that lead to them.\<close>

fun entries :: "pyval \<Rightarrow> (string \<times> pyval) list" where
  "entries (PDict d) = concat (map (\<lambda>kv. kv # entries (snd kv)) d)"
| "entries (PList xs) = concat (map entries xs)"
| "entries v = []"

lemma redacted_unmarked: "\<not> marked_text REDACTED"
  by code_simp

lemma sanitized_entries:
  "(k, w) \<in> set (entries (sanitize_tool_payload n v)) \<Longrightarrow> \<not> is_raw_key k \<and> (is_sensitive_key k \<longrightarrow> w = PStr REDACTED)"
proof (induction n v rule: sanitize_tool_payload.induct)
  case (1 n d)
  let ?f = "\<lambda>kv. if is_raw_key (fst kv) then []
     else if is_sensitive_key (fst kv) then [(fst kv, PStr REDACTED)]
     else [(fst kv, sanitize_tool_payload n (snd kv))]"
  obtain kv where kv: "kv \<in> set d" "(k, w) \<in> set (concat (map (\<lambda>kv. kv # entries (snd kv)) (?f kv)))"
    using 1(2) by auto
  show ?case
  proof (cases "is_raw_key (fst kv) \<or> is_sensitive_key (fst kv)")
    case True
    then show ?thesis using kv(2) by (auto split: if_splits)
  next
    case False
    then show ?thesis using kv 1(1) [OF kv(1)] by auto
  qed
qed auto

definition leaked :: "string \<times> pyval \<Rightarrow> bool" where
  "leaked kv \<longleftrightarrow> is_raw_key (fst kv) \<or> (is_sensitive_key (fst kv) \<and> snd kv \<noteq> PStr REDACTED)"

lemma has_secret_iff:
  "audit_payload_has_secret v \<longleftrightarrow> list_ex leaked (entries v) \<or> list_ex marked_text (leaf_texts v)"
proof (induction v rule: audit_payload_has_secret.induct)
  case (1 d)
  then show ?case
  proof (induction d)
    case (Cons kv d)
    then have "audit_payload_has_secret (PDict d) \<longleftrightarrow>
        list_ex leaked (entries (PDict d)) \<or> list_ex marked_text (leaf_texts (PDict d))" by simp
    then show ?case using Cons.prems [of kv] by (simp add: leaked_def [of kv]) blast
  qed simp
next
  case (2 xs)
  then show ?case by (induction xs) auto
qed simp_all

text \<open>
  C30. Redaction is complete for keys at every depth and stable: in the result no raw secret key occurs
  and every value under a sensitive key is the redaction mark; the audit's own detector finds nothing
  but, possibly, a session cookie written inside a text, which redaction does not look into; no text is
  longer than the bound and its truncation mark; and redacting again changes nothing.
\<close>

theorem sanitize_redacts:
  "(\<forall>(k, w) \<in> set (entries (sanitize_tool_payload n v)). \<not> is_raw_key k \<and> (is_sensitive_key k \<longrightarrow> w = PStr REDACTED))
    \<and> (audit_payload_has_secret (sanitize_tool_payload n v) \<longleftrightarrow>
        (\<exists>s \<in> set (leaf_texts (sanitize_tool_payload n v)). marked_text s))
    \<and> (\<forall>s \<in> set (leaf_texts (sanitize_tool_payload n v)). length s \<le> n + 14)
    \<and> sanitize_tool_payload n (sanitize_tool_payload n v) = sanitize_tool_payload n v"
proof (intro conjI)
  show k: "\<forall>(k, w) \<in> set (entries (sanitize_tool_payload n v)).
      \<not> is_raw_key k \<and> (is_sensitive_key k \<longrightarrow> w = PStr REDACTED)"
    using sanitized_entries by fastforce
  show "audit_payload_has_secret (sanitize_tool_payload n v) \<longleftrightarrow>
        (\<exists>s \<in> set (leaf_texts (sanitize_tool_payload n v)). marked_text s)"
    using k unfolding has_secret_iff list_ex_iff leaked_def by auto
  show "\<forall>s \<in> set (leaf_texts (sanitize_tool_payload n v)). length s \<le> n + 14"
  proof (induction n v rule: sanitize_tool_payload.induct)
    case (1 n d)
    then show ?case by (auto simp: REDACTED_def split: if_splits)
  qed (auto simp: truncate_text_def)
qed (rule sanitize_idem)

theorem sanitize_redacts_witness:
  "\<not> audit_payload_has_secret (sanitize_tool_payload 4 (PDict [(''headers'', PDict [(''Set-Cookie'', PStr ''wmsessionid=1'')]),
     (''note'', PStr ''a longer text'')]))"
proof -
  have "leaf_texts (sanitize_tool_payload 4 (PDict [(''headers'', PDict [(''Set-Cookie'', PStr ''wmsessionid=1'')]),
     (''note'', PStr ''a longer text'')])) = [REDACTED, ''a lo...(truncated)'']" by code_simp
  moreover have "\<not> marked_text ''a lo...(truncated)''" by code_simp
  ultimately show ?thesis
    using sanitize_redacts [of 4 "PDict [(''headers'', PDict [(''Set-Cookie'', PStr ''wmsessionid=1'')]),
     (''note'', PStr ''a longer text'')]"] redacted_unmarked by simp
qed

end
