(* ===== verification/ToolAudit.thy ===== *)
theory ToolAudit
  imports Sanitize
begin

text \<open>
  The ledger of write-tool side effects (\<^verbatim>\<open>copilot_agent/tools/audit.py\<close>): the payload of a
  \<open>tool_side_effect_recorded\<close> event, and the canonical form of the path it names. \<^verbatim>\<open>urlsplit\<close> and
  \<^verbatim>\<open>urlunsplit\<close> are written out as the standard library has them; they raise \<^verbatim>\<open>ValueError\<close> for a
  network location with unbalanced or invalid brackets or one that changes under NFKC normalisation, and
  that test is the parameter \<open>netloc_ok\<close>. An operation that can raise returns \<open>None\<close> for the exception.
\<close>

section \<open>Splitting a URL\<close>

definition is_alpha :: "char \<Rightarrow> bool" where
  "is_alpha c = (let n = (of_char c :: nat) in (65 \<le> n \<and> n \<le> 90) \<or> (97 \<le> n \<and> n \<le> 122))"

definition is_scheme_char :: "char \<Rightarrow> bool" where
  "is_scheme_char c \<longleftrightarrow> is_alpha c \<or> is_digit c \<or> c \<in> {CHR ''+'', CHR ''-'', CHR ''.''}"

record split_url =
  su_scheme :: string
  su_netloc :: string
  su_path :: string

definition until_char :: "char \<Rightarrow> string \<Rightarrow> string" where
  "until_char c s = takeWhile (\<lambda>x. x \<noteq> c) s"

text \<open>Leading control characters and spaces go, and every tab and line break.\<close>

definition clean_url :: "string \<Rightarrow> string" where
  "clean_url s = filter (\<lambda>c. (of_char c :: nat) \<notin> {9, 10, 13}) (dropWhile (\<lambda>c. (of_char c :: nat) \<le> 32) s)"

definition split_scheme :: "string \<Rightarrow> string \<times> string" where
  "split_scheme url =
     (let p = until_char (CHR '':'') url in
      if length p < length url \<and> p \<noteq> [] \<and> is_alpha (hd p) \<and> list_all is_scheme_char p
      then (lower p, drop (Suc (length p)) url) else ([], url))"

definition split_netloc :: "string \<Rightarrow> string \<times> string" where
  "split_netloc url =
     (if starts_with url ''//'' then
        (let rest = drop 2 url;
             netloc = takeWhile (\<lambda>c. c \<notin> {CHR ''/'', CHR ''?'', CHR ''#''}) rest
         in (netloc, drop (length netloc) rest))
      else ([], url))"

definition urlsplit :: "(string \<Rightarrow> bool) \<Rightarrow> string \<Rightarrow> split_url option" where
  "urlsplit netloc_ok s =
     (let (scheme, url) = split_scheme (clean_url s);
          (netloc, url) = split_netloc url
      in if netloc_ok netloc
         then Some \<lparr>su_scheme = scheme, su_netloc = netloc,
                    su_path = until_char (CHR ''?'') (until_char (CHR ''#'') url)\<rparr>
         else None)"

text \<open>\<open>urlunsplit(("", "", path, "", ""))\<close>\<close>

definition urlunsplit_path :: "string \<Rightarrow> string" where
  "urlunsplit_path path = (if starts_with path ''//'' then ''//'' @ path else path)"

definition canonicalize_side_effect_path :: "(string \<Rightarrow> bool) \<Rightarrow> string \<Rightarrow> string option" where
  "canonicalize_side_effect_path netloc_ok path =
     (let text = strip path in
      if text = [] then Some []
      else case urlsplit netloc_ok text of
        None \<Rightarrow> None
      | Some parts \<Rightarrow>
          (if su_scheme parts \<noteq> [] \<or> su_netloc parts \<noteq> []
           then Some (urlunsplit_path (if su_path parts = [] then ''/'' else su_path parts))
           else Some (until_char (CHR ''?'') text)))"

section \<open>The status of a side effect\<close>

definition AMBIGUOUS_MARKERS :: "string list" where
  "AMBIGUOUS_MARKERS = [''timeout'', ''timed out'', ''network'', ''connection'', ''connect'', ''readerror'',
     ''writeerror'', ''transport'', ''did not produce a result event'']"

definition ambiguous_error :: "string \<Rightarrow> string \<Rightarrow> bool" where
  "ambiguous_error error_type error_text \<longleftrightarrow>
     list_ex (contains (lower (error_type @ '' '' @ error_text))) AMBIGUOUS_MARKERS"

definition side_effect_status :: "bool \<Rightarrow> bool \<Rightarrow> string \<Rightarrow> string \<Rightarrow> string \<Rightarrow> string" where
  "side_effect_status success idempotency_reused error_type error_text reason =
     (if reason \<in> {''approval_rejected'', ''policy_blocked''} then ''blocked''
      else if idempotency_reused then ''reused''
      else if success then ''confirmed''
      else if ambiguous_error error_type error_text then ''unknown''
      else ''none'')"

definition side_effect_reason :: "bool \<Rightarrow> bool \<Rightarrow> string \<Rightarrow> string \<Rightarrow> string" where
  "side_effect_reason success idempotency_reused error_type error_text =
     (if idempotency_reused then ''idempotency_reused''
      else if success then ''http_post_success''
      else if ambiguous_error error_type error_text then ''ambiguous_write_result''
      else ''tool_failed_before_confirmed_side_effect'')"

definition approval_status_of :: "string option \<Rightarrow> bool \<Rightarrow> string" where
  "approval_status_of approval_status requires_approval =
     (case approval_status of
        Some st \<Rightarrow> if st \<in> {''not_required'', ''pending'', ''approved'', ''rejected'', ''policy_blocked''} then st
                  else if requires_approval then ''pending'' else ''not_required''
      | None \<Rightarrow> if requires_approval then ''pending'' else ''not_required'')"

text \<open>\<open>_int_or_none\<close>: the exceptions of \<open>int\<close> it catches are the ones \<open>py_int\<close> reports.\<close>

definition int_or_none :: "pyval \<Rightarrow> int option" where
  "int_or_none v = py_int v"

section \<open>The payload\<close>

text \<open>\<open>_start = ... if isinstance(..., dict) else {}\<close> has happened: the two arguments are dictionaries.\<close>

definition side_effect_fields ::
    "(string \<Rightarrow> bool) \<Rightarrow> dict \<Rightarrow> dict \<Rightarrow> string option \<Rightarrow> string option \<Rightarrow> string option \<Rightarrow> string option \<Rightarrow> dict option" where
  "side_effect_fields netloc_ok start fin reason approval_status policy_source policy_trace_id =
     (let tool_name = str_or (py_or (dget fin ''name'') (dget start ''name''));
          key = strip (str_or (py_or (dget fin ''idempotency_key'') (dget start ''idempotency_key'')));
          arguments = as_dict (dget start ''arguments'');
          result = as_dict (dget fin ''result'');
          result_data = as_dict (dget result ''data'');
          result_metadata = as_dict (dget result ''metadata'');
          http_method = upper (py_str (py_or (dget result_data ''method'') (PStr ''POST'')));
          success = truthy (dget_or fin ''success'' (PBool False));
          reused = truthy (py_or (dget fin ''idempotency_reused'') (dget result_metadata ''idempotency_reused''));
          error_type = str_or (dget fin ''error_type'');
          error_text = str_or (py_or (dget fin ''error'') (dget result ''error''));
          resolved_reason = (case reason of
              Some r \<Rightarrow> if r \<noteq> [] then r else side_effect_reason success reused error_type error_text
            | None \<Rightarrow> side_effect_reason success reused error_type error_text);
          requires_approval = truthy (dget_or start ''requires_approval'' (PBool False));
          resolved_approval = approval_status_of approval_status requires_approval;
          status = (if resolved_approval \<in> {''policy_blocked'', ''rejected''} then ''blocked''
                    else side_effect_status success reused error_type error_text resolved_reason)
      in case canonicalize_side_effect_path netloc_ok
                (str_or (py_or (dget result_data ''path'') (dget arguments ''path''))) of
           None \<Rightarrow> None
         | Some path \<Rightarrow> Some
             [(''tool_name'', PStr tool_name),
              (''call_id'', PStr (str_or (py_or (dget fin ''call_id'') (dget start ''call_id'')))),
              (''path'', PStr path),
              (''method'', PStr http_method),
              (''risk_level'', PStr (str_or (dget start ''risk_level''))),
              (''requires_approval'', PBool requires_approval),
              (''approval_status'', PStr resolved_approval),
              (''side_effect_status'', PStr status),
              (''success'', PBool success),
              (''status_code'', opt_int (int_or_none
                 (py_or (dget result_metadata ''status_code'') (dget result_data ''status_code'')))),
              (''idempotency_key'', opt_str (if key = [] then None else Some key)),
              (''idempotency_reused'', PBool reused),
              (''compensatable'', PBool False),
              (''reason'', PStr resolved_reason),
              (''policy_source'', opt_str policy_source),
              (''policy_trace_id'', opt_str policy_trace_id)])"

text \<open>Outer \<open>None\<close>: the path raised. Inner \<open>None\<close>: no event, for a tool that is not the audited write.\<close>

definition build_tool_side_effect_payload ::
    "(string \<Rightarrow> bool) \<Rightarrow> pyval \<Rightarrow> pyval \<Rightarrow> string option \<Rightarrow> string option \<Rightarrow> string option \<Rightarrow> string option \<Rightarrow>
     dict option option" where
  "build_tool_side_effect_payload netloc_ok tool_start tool_end reason approval_status policy_source policy_trace_id =
     (let start = as_dict tool_start;
          fin = as_dict tool_end;
          tool_name = str_or (py_or (dget fin ''name'') (dget start ''name''));
          category = str_or (dget start ''category'');
          risk_level = str_or (dget start ''risk_level'');
          key = strip (str_or (py_or (dget fin ''idempotency_key'') (dget start ''idempotency_key'')))
      in if tool_name \<noteq> ''http_post'' then Some None
         else if \<not> ((category = ''http'' \<and> risk_level = ''high'') \<or> key \<noteq> []) then Some None
         else map_option Some
           (side_effect_fields netloc_ok start fin reason approval_status policy_source policy_trace_id))"

definition build_blocked_tool_side_effect_payload ::
    "(string \<Rightarrow> bool) \<Rightarrow> dict \<Rightarrow> string \<Rightarrow> string option \<Rightarrow> bool \<Rightarrow> string option \<Rightarrow> dict option option" where
  "build_blocked_tool_side_effect_payload netloc_ok tool_call reason policy_source requires_approval policy_trace_id =
     (let name = str_or (dget tool_call ''name'');
          args = as_dict (dget tool_call ''args'');
          call_id = strip (str_or (py_or (dget tool_call ''id'') (dget tool_call ''call_id'')));
          start_payload = [(''name'', PStr name), (''call_id'', PStr call_id),
            (''category'', PStr (if name = ''http_post'' then ''http'' else [])),
            (''risk_level'', PStr (if name = ''http_post'' then ''high'' else [])),
            (''requires_approval'', PBool requires_approval), (''arguments'', PDict args),
            (''idempotency_key'', dget args ''idempotency_key'')];
          end_payload = [(''name'', PStr name), (''call_id'', PStr call_id), (''success'', PBool False),
            (''error'', PStr ''tool execution was blocked before side effect''),
            (''idempotency_key'', dget start_payload ''idempotency_key''),
            (''result'', PDict [(''success'', PBool False), (''error'', PStr reason), (''metadata'', PDict [])])]
      in build_tool_side_effect_payload netloc_ok (PDict start_payload) (PDict end_payload) (Some reason)
           (Some (if reason \<noteq> ''approval_rejected'' then ''policy_blocked'' else ''rejected''))
           policy_source policy_trace_id)"

section \<open>The path of a write\<close>

lemma until_char_absent: "c \<notin> set (until_char c s)"
  by (auto simp: until_char_def dest: set_takeWhileD)

lemma until_char_append: "c \<notin> set p \<Longrightarrow> until_char c (p @ c # r) = p"
  by (auto simp: until_char_def takeWhile_tail)

lemma until_char_id: "c \<notin> set p \<Longrightarrow> until_char c p = p"
  by (auto simp: until_char_def takeWhile_eq_all_conv)

lemma set_until_char: "set (until_char c s) \<subseteq> set s"
  by (auto simp: until_char_def dest: set_takeWhileD)

lemma canonical_no_query: "canonicalize_side_effect_path ok p = Some q \<Longrightarrow> CHR ''?'' \<notin> set q"
  using until_char_absent
  by (auto simp: canonicalize_side_effect_path_def urlsplit_def urlunsplit_path_def Let_def
      split: if_splits option.splits prod.splits)

definition visible :: "char \<Rightarrow> bool" where
  "visible c \<longleftrightarrow> 33 \<le> (of_char c :: nat) \<and> (of_char c :: nat) < 127"

lemma visible_not_space: "visible c \<Longrightarrow> \<not> is_space c"
  by (auto simp: visible_def is_space_def Let_def)

lemma strip_visible: "\<forall>c \<in> set s. visible c \<Longrightarrow> strip s = s"
proof -
  assume v: "\<forall>c \<in> set s. visible c"
  have d: "dropWhile is_space xs = xs" if "\<forall>c \<in> set xs. visible c" for xs
    using that by (cases xs) (auto dest: visible_not_space)
  show ?thesis using d [of s] d [of "rev s"] v by (simp add: strip_def lstrip_def rstrip_def)
qed

lemma clean_visible: "\<forall>c \<in> set s. visible c \<Longrightarrow> clean_url s = s"
proof -
  assume v: "\<forall>c \<in> set s. visible c"
  then have "dropWhile (\<lambda>c. (of_char c :: nat) \<le> 32) s = s"
    by (cases s) (auto simp: visible_def)
  then show ?thesis using v by (auto simp: clean_url_def visible_def filter_id_conv)
qed

lemma split_https:
  "split_scheme (''https://'' @ s) = (''https'', ''//'' @ s)"
  by (simp add: split_scheme_def until_char_def is_scheme_char_def is_alpha_def lower_def lower_char_def Let_def)

lemma split_netloc_at:
  assumes "set h \<inter> {CHR ''/'', CHR ''?'', CHR ''#''} = {}"
  shows "split_netloc (''//'' @ h @ CHR ''/'' # s) = (h, CHR ''/'' # s)"
proof -
  have "takeWhile (\<lambda>c. c \<notin> {CHR ''/'', CHR ''?'', CHR ''#''}) (h @ CHR ''/'' # s) = h"
    using assms by (subst takeWhile_append2) auto
  then show ?thesis by (simp add: split_netloc_def Let_def)
qed

text \<open>
  The ledger never records a query string, and of an absolute URL it keeps the path alone: the scheme,
  the host with any user name and password in it, the query and the fragment are gone.
\<close>

theorem canonical_path_is_bare:
  assumes "\<forall>c \<in> set (h @ p @ r). visible c" and "set h \<inter> {CHR ''/'', CHR ''?'', CHR ''#''} = {}"
    and "set p \<inter> {CHR ''?'', CHR ''#''} = {}" and "\<not> starts_with p ''/''" and "ok h"
  shows "canonicalize_side_effect_path ok (''https://'' @ h @ ''/'' @ p @ ''?'' @ r) = Some (CHR ''/'' # p)
    \<and> (canonicalize_side_effect_path ok u = Some q \<longrightarrow> CHR ''?'' \<notin> set q)"
proof -
  let ?t = "''https://'' @ h @ ''/'' @ p @ ''?'' @ r"
  have vis: "\<forall>c \<in> set ?t. visible c"
    using assms(1) by (auto simp: visible_def)
  have hash: "until_char (CHR ''?'') (until_char (CHR ''#'') (CHR ''/'' # p @ CHR ''?'' # r)) = CHR ''/'' # p"
  proof -
    have "until_char (CHR ''#'') ((CHR ''/'' # p) @ (CHR ''?'' # r)) =
        (CHR ''/'' # p) @ (CHR ''?'' # until_char (CHR ''#'') r)"
      using assms(3) unfolding until_char_def by (subst takeWhile_append2) auto
    then show ?thesis
      using assms(3) until_char_append [of "CHR ''?''" "CHR ''/'' # p" "until_char (CHR ''#'') r"] by auto
  qed
  have "urlsplit ok ?t = Some \<lparr>su_scheme = ''https'', su_netloc = h, su_path = CHR ''/'' # p\<rparr>"
    using split_netloc_at [OF assms(2), of "p @ CHR ''?'' # r"] hash assms(5)
    by (simp add: urlsplit_def clean_visible [OF vis, simplified] split_https [simplified] Let_def)
  then have "canonicalize_side_effect_path ok ?t = Some (CHR ''/'' # p)"
    using assms(4) strip_visible [OF vis]
    by (simp add: canonicalize_side_effect_path_def Let_def urlunsplit_path_def)
  then show ?thesis using canonical_no_query by blast
qed

theorem canonical_path_is_bare_witness:
  "canonicalize_side_effect_path (\<lambda>_. True) ''https://ann:pw@shop.example/orders/7?token=x'' = Some ''/orders/7''"
proof -
  have v: "\<forall>c \<in> set (''ann:pw@shop.example'' @ ''orders/7'' @ ''token=x''). visible c" by (simp add: visible_def)
  from canonical_path_is_bare [OF v, of "\<lambda>_. True" "[]" "[]"] show ?thesis by simp
qed

section \<open>What the ledger can say\<close>

definition SIDE_EFFECT_STATUSES :: "string list" where
  "SIDE_EFFECT_STATUSES = [''confirmed'', ''reused'', ''none'', ''unknown'', ''blocked'']"

lemma fields_of_payload:
  "build_tool_side_effect_payload ok st fin reason appr src tr = Some (Some d) \<Longrightarrow>
    side_effect_fields ok (as_dict st) (as_dict fin) reason appr src tr = Some d
    \<and> dget d ''tool_name'' = PStr ''http_post''"
  by (auto simp: build_tool_side_effect_payload_def side_effect_fields_def Let_def split: if_splits option.splits)

lemma fields_status:
  assumes "side_effect_fields ok st fin reason appr src tr = Some d"
  shows "\<exists>status success reused et ex why approval.
    dget d ''side_effect_status'' = PStr status \<and> dget d ''success'' = PBool success
    \<and> dget d ''idempotency_reused'' = PBool reused \<and> dget d ''approval_status'' = PStr approval
    \<and> dget d ''reason'' = PStr why \<and> success = truthy (dget_or fin ''success'' (PBool False))
    \<and> approval = approval_status_of appr (truthy (dget_or st ''requires_approval'' (PBool False)))
    \<and> et = str_or (dget fin ''error_type'')
    \<and> ex = str_or (py_or (dget fin ''error'') (dget (as_dict (dget fin ''result'')) ''error''))
    \<and> why = (case reason of Some r \<Rightarrow> if r \<noteq> [] then r else side_effect_reason success reused et ex
            | None \<Rightarrow> side_effect_reason success reused et ex)
    \<and> status = (if approval \<in> {''policy_blocked'', ''rejected''} then ''blocked''
                else side_effect_status success reused et ex why)"
  using assms by (auto simp: side_effect_fields_def Let_def split: option.splits)

text \<open>
  What a ledger entry claims is what the tool reported. It is written for \<open>http_post\<close> only, with one of
  the five statuses; \<open>confirmed\<close> needs a reported success that was not a replay; \<open>none\<close> is claimed only
  for a failure whose error text has no sign of a lost answer (such failures are \<open>unknown\<close>); and a call
  that was rejected or blocked by policy is \<open>blocked\<close>, whatever else the payloads say.
\<close>

theorem ledger_entry_sound:
  assumes "build_tool_side_effect_payload ok st fin reason appr src tr = Some (Some d)"
  shows "\<exists>status. dget d ''tool_name'' = PStr ''http_post'' \<and> dget d ''side_effect_status'' = PStr status
    \<and> status \<in> set SIDE_EFFECT_STATUSES
    \<and> (status = ''confirmed'' \<longrightarrow> dget d ''success'' = PBool True \<and> dget d ''idempotency_reused'' = PBool False)
    \<and> (status = ''none'' \<longrightarrow> dget d ''success'' = PBool False
        \<and> \<not> ambiguous_error (str_or (dget (as_dict fin) ''error_type''))
              (str_or (py_or (dget (as_dict fin) ''error'') (dget (as_dict (dget (as_dict fin) ''result'')) ''error''))))
    \<and> (appr \<in> {Some ''rejected'', Some ''policy_blocked''} \<longrightarrow> status = ''blocked'')
    \<and> (\<forall>q. dget d ''path'' = PStr q \<longrightarrow> CHR ''?'' \<notin> set q)"
proof -
  note f = fields_of_payload [OF assms]
  obtain status success reused et ex why approval where s:
    "dget d ''side_effect_status'' = PStr status" "dget d ''success'' = PBool success"
    "dget d ''idempotency_reused'' = PBool reused"
    "approval = approval_status_of appr (truthy (dget_or (as_dict st) ''requires_approval'' (PBool False)))"
    "et = str_or (dget (as_dict fin) ''error_type'')"
    "ex = str_or (py_or (dget (as_dict fin) ''error'') (dget (as_dict (dget (as_dict fin) ''result'')) ''error''))"
    "status = (if approval \<in> {''policy_blocked'', ''rejected''} then ''blocked''
                else side_effect_status success reused et ex why)"
    using fields_status [OF conjunct1 [OF f]] by blast
  have path: "\<forall>q. dget d ''path'' = PStr q \<longrightarrow> CHR ''?'' \<notin> set q"
    using conjunct1 [OF f] canonical_no_query by (auto simp: side_effect_fields_def Let_def split: option.splits)
  have "status \<in> set SIDE_EFFECT_STATUSES"
    by (simp add: s(7) SIDE_EFFECT_STATUSES_def side_effect_status_def)
  moreover have "status = ''confirmed'' \<longrightarrow> success \<and> \<not> reused"
    by (simp add: s(7) side_effect_status_def)
  moreover have "status = ''none'' \<longrightarrow> \<not> success \<and> \<not> ambiguous_error et ex"
    by (simp add: s(7) side_effect_status_def)
  moreover have "appr \<in> {Some ''rejected'', Some ''policy_blocked''} \<longrightarrow> status = ''blocked''"
    by (auto simp: s(4,7) approval_status_of_def)
  ultimately show ?thesis using f s(1-3) path unfolding s(5,6) by simp
qed

definition demo_call :: dict where
  "demo_call = [(''name'', PStr ''http_post''), (''id'', PStr ''c1''),
     (''args'', PDict [(''path'', PStr ''/orders?token=x''), (''idempotency_key'', PStr ''k'')])]"

lemma demo_blocked:
  "map_option (map_option (\<lambda>d. (dget d ''path'', dget d ''side_effect_status'')))
     (build_blocked_tool_side_effect_payload (\<lambda>_. True) demo_call ''approval_rejected'' None True None) =
   Some (Some (PStr ''/orders'', PStr ''blocked''))"
  by code_simp

theorem ledger_entry_sound_witness:
  "\<exists>d. build_blocked_tool_side_effect_payload (\<lambda>_. True) demo_call ''approval_rejected'' None True None = Some (Some d)
    \<and> dget d ''tool_name'' = PStr ''http_post''"
proof -
  obtain d where d: "build_blocked_tool_side_effect_payload (\<lambda>_. True) demo_call ''approval_rejected'' None True None
      = Some (Some d)" using demo_blocked by auto
  from ledger_entry_sound [OF this [unfolded build_blocked_tool_side_effect_payload_def Let_def]] show ?thesis
    using d by blast
qed

end
