(* ===== verification/SideEffects.thy ===== *)
theory SideEffects
  imports Projections ToolAudit
begin

text \<open>
  The run-level read model of write-tool side effects (\<^verbatim>\<open>copilot_agent/runtime/side_effects.py\<close>): the
  ledger entries in order, a summary with one count per status, and a warning for every entry whose
  outcome is not known.
\<close>

definition side_effect_item :: "event_row \<Rightarrow> dict" where
  "side_effect_item e =
     (let payload = payload_of e in
      [(''event_id'', PInt (ev_id e)), (''sequence'', PInt (seq_or_zero e)), (''created_at'', PInt (ev_created_at e)),
       (''tool_name'', dget payload ''tool_name''), (''call_id'', dget payload ''call_id''),
       (''method'', dget payload ''method''), (''path'', dget payload ''path''),
       (''risk_level'', dget payload ''risk_level''),
       (''requires_approval'', PBool (truthy (dget_or payload ''requires_approval'' (PBool False)))),
       (''approval_status'', dget payload ''approval_status''),
       (''side_effect_status'', dget payload ''side_effect_status''),
       (''success'', PBool (truthy (dget_or payload ''success'' (PBool False)))),
       (''status_code'', dget payload ''status_code''), (''idempotency_key'', dget payload ''idempotency_key''),
       (''idempotency_reused'', PBool (truthy (dget_or payload ''idempotency_reused'' (PBool False)))),
       (''compensatable'', PBool (truthy (dget_or payload ''compensatable'' (PBool False)))),
       (''reason'', dget payload ''reason''), (''policy_trace_id'', dget payload ''policy_trace_id'')])"

definition item_status :: "dict \<Rightarrow> string" where
  "item_status item = str_or (dget item ''side_effect_status'')"

definition side_effect_items :: "event_row list \<Rightarrow> dict list" where
  "side_effect_items evs =
     map side_effect_item (filter (\<lambda>e. ev_type e = ''tool_side_effect_recorded'') (ordered_events evs))"

definition side_effect_warning :: "dict \<Rightarrow> dict list" where
  "side_effect_warning item =
     (let status = item_status item in
      if status = ''unknown'' then
        [[(''code'', PStr ''side_effect_unknown''),
          (''message'', PStr ''write tool side effect could not be confirmed''),
          (''event_id'', dget item ''event_id''), (''call_id'', dget item ''call_id''),
          (''tool'', dget item ''tool_name''), (''reason'', dget item ''reason'')]]
      else if status \<notin> set SIDE_EFFECT_STATUSES then
        [[(''code'', PStr ''side_effect_unknown_status''),
          (''message'', PStr ''write tool side effect used an unknown status''),
          (''event_id'', dget item ''event_id''), (''call_id'', dget item ''call_id''),
          (''tool'', dget item ''tool_name''), (''side_effect_status'', PStr status)]]
      else [])"

definition status_count :: "dict list \<Rightarrow> string \<Rightarrow> nat" where
  "status_count items st = length (filter (\<lambda>i. item_status i = st) items)"

definition side_effect_summary :: "dict list \<Rightarrow> dict" where
  "side_effect_summary items =
     (''total'', PInt (int (length items)))
     # map (\<lambda>st. (st, PInt (int (status_count items st)))) SIDE_EFFECT_STATUSES
     @ [(''has_unknown'', PBool (0 < status_count items ''unknown''))]"

record side_effect_model =
  se_summary :: dict
  se_items :: "dict list"
  se_warnings :: "dict list"

definition build_side_effect_read_model :: "event_row list \<Rightarrow> side_effect_model" where
  "build_side_effect_read_model evs =
     (let items = side_effect_items evs in
      \<lparr>se_summary = side_effect_summary items, se_items = items,
       se_warnings = concat (map side_effect_warning items)\<rparr>)"

interpretation ledger: event_projection "''tool_side_effect_recorded''" side_effect_item side_effect_items
  by unfold_locales (simp add: side_effect_items_def)

text \<open>An entry as the ledger builder writes it: an envelope around a built payload.\<close>

definition ledger_event :: "(string \<Rightarrow> bool) \<Rightarrow> event_row \<Rightarrow> bool" where
  "ledger_event ok e \<longleftrightarrow> (ev_type e = ''tool_side_effect_recorded'' \<longrightarrow>
     (\<exists>st fin reason appr src tr d ty. build_tool_side_effect_payload ok st fin reason appr src tr = Some (Some d)
        \<and> ev_payload e = PDict (envelope_payload ty d)))"

lemma built_status:
  assumes "build_tool_side_effect_payload ok st fin reason appr src tr = Some (Some d)"
  shows "\<exists>s. dget d ''side_effect_status'' = PStr s \<and> s \<in> set SIDE_EFFECT_STATUSES"
proof -
  obtain status success reused et ex why approval where
    "dget d ''side_effect_status'' = PStr status"
    "status = (if approval \<in> {''policy_blocked'', ''rejected''} then ''blocked''
                else side_effect_status success reused et ex why)"
    using fields_status [OF conjunct1 [OF fields_of_payload [OF assms]]] by blast
  then show ?thesis by (auto simp: SIDE_EFFECT_STATUSES_def side_effect_status_def)
qed

lemma ledger_item_status:
  assumes "\<forall>e \<in> set evs. ledger_event ok e" and "i \<in> set (side_effect_items evs)"
  shows "item_status i \<in> set SIDE_EFFECT_STATUSES"
proof -
  obtain e where e: "e \<in> set evs" "ev_type e = ''tool_side_effect_recorded''" "i = side_effect_item e"
    using assms(2) unfolding ledger.project_member by blast
  then obtain st fin reason appr src tr d ty where
    b: "build_tool_side_effect_payload ok st fin reason appr src tr = Some (Some d)"
    and p: "ev_payload e = PDict (envelope_payload ty d)"
    using assms(1) unfolding ledger_event_def by blast
  obtain s where "dget d ''side_effect_status'' = PStr s" "s \<in> set SIDE_EFFECT_STATUSES" using built_status [OF b] by blast
  then show ?thesis
    by (simp add: e(3) item_status_def side_effect_item_def Let_def payload_of_def p dget_envelope)
qed

lemma sum_counts:
  "distinct sts \<Longrightarrow> \<forall>x \<in> set xs. f x \<in> set sts \<Longrightarrow>
    sum_list (map (\<lambda>st. length (filter (\<lambda>i. f i = st) xs)) sts) = length xs"
proof (induction xs)
  case (Cons x xs)
  have one: "sum_list (map (\<lambda>st. if f x = st then Suc (g st) else g st) sts) = Suc (sum_list (map g sts))"
    if "f x \<in> set sts" "distinct sts" for g :: "_ \<Rightarrow> nat"
    using that
  proof (induction sts)
    case (Cons a sts)
    show ?case
    proof (cases "f x = a")
      case True
      then have "map (\<lambda>st. if f x = st then Suc (g st) else g st) sts = map g sts" using Cons.prems by auto
      then have "sum_list (map (\<lambda>st. if f x = st then Suc (g st) else g st) sts) = sum_list (map g sts)" by (rule arg_cong)
      then show ?thesis using True by simp
    qed (use Cons in auto)
  qed simp
  show ?case
    using Cons one [of "\<lambda>st. length (filter (\<lambda>i. f i = st) xs)"] by (simp add: if_distrib [of length] cong: if_cong)
qed simp

lemma warnings_count:
  "\<forall>i \<in> set items. item_status i \<in> set SIDE_EFFECT_STATUSES \<Longrightarrow>
    length (concat (map side_effect_warning items)) = status_count items ''unknown''"
  by (induction items) (auto simp: status_count_def side_effect_warning_def Let_def)

text \<open>
  On a log written by the ledger, the read model accounts for every entry exactly once: the five counts
  add up to the total, which is the number of ledger events; there is exactly one warning for each entry
  of unknown outcome and none of any other kind; and the order the events are handed over in is
  irrelevant.
\<close>

theorem side_effect_model_accounts:
  assumes "\<forall>e \<in> set evs. ledger_event ok e" and "distinct (map event_order evs)" and "mset evs' = mset evs"
  shows "sum_list (map (status_count (side_effect_items evs)) SIDE_EFFECT_STATUSES) =
        length (filter (\<lambda>e. ev_type e = ''tool_side_effect_recorded'') evs)
    \<and> length (se_warnings (build_side_effect_read_model evs)) = status_count (side_effect_items evs) ''unknown''
    \<and> build_side_effect_read_model evs' = build_side_effect_read_model evs"
proof -
  let ?items = "side_effect_items evs"
  have st: "\<forall>i \<in> set ?items. item_status i \<in> set SIDE_EFFECT_STATUSES"
    using ledger_item_status [OF assms(1)] by blast
  have "sum_list (map (status_count ?items) SIDE_EFFECT_STATUSES) = length ?items"
    using sum_counts [OF _ st] by (simp add: status_count_def [abs_def] SIDE_EFFECT_STATUSES_def)
  moreover have "length (concat (map side_effect_warning ?items)) = status_count ?items ''unknown''"
    by (rule warnings_count [OF st])
  moreover have "side_effect_items evs' = ?items"
    using ledger.project_perm [OF assms(3) [symmetric] assms(2)] by simp
  ultimately show ?thesis
    by (simp add: ledger.project_length build_side_effect_read_model_def Let_def)
qed

definition demo_entry :: dict where
  "demo_entry = the (the (build_blocked_tool_side_effect_payload (\<lambda>_. True) demo_call ''approval_rejected'' None True None))"

definition demo_ledger :: "event_row list" where
  "demo_ledger = [\<lparr>ev_id = 1, ev_thread_id = ''t'', ev_run_id = ''r'', ev_type = ''tool_side_effect_recorded'',
     ev_payload = PDict (envelope_payload ''tool_side_effect_recorded'' demo_entry), ev_created_at = 0,
     ev_sequence = Some 1\<rparr>]"

lemma demo_ledger_built:
  "\<exists>st fin reason appr src tr. build_tool_side_effect_payload (\<lambda>_. True) st fin reason appr src tr = Some (Some demo_entry)"
proof -
  have "build_blocked_tool_side_effect_payload (\<lambda>_. True) demo_call ''approval_rejected'' None True None = Some (Some demo_entry)"
    using demo_blocked by (auto simp: demo_entry_def)
  then show ?thesis unfolding build_blocked_tool_side_effect_payload_def Let_def by blast
qed

theorem side_effect_model_accounts_witness:
  "sum_list (map (status_count (side_effect_items demo_ledger)) SIDE_EFFECT_STATUSES) = 1"
proof -
  obtain st fin reason appr src tr where b:
    "build_tool_side_effect_payload (\<lambda>_. True) st fin reason appr src tr = Some (Some demo_entry)"
    using demo_ledger_built by blast
  have "ledger_event (\<lambda>_. True) (hd demo_ledger)"
    unfolding ledger_event_def by (intro impI exI conjI, rule b) (simp add: demo_ledger_def)
  then have "\<forall>e \<in> set demo_ledger. ledger_event (\<lambda>_. True) e" by (simp add: demo_ledger_def)
  moreover have "distinct (map event_order demo_ledger)" by (simp add: demo_ledger_def)
  moreover have "length (filter (\<lambda>e. ev_type e = ''tool_side_effect_recorded'') demo_ledger) = 1"
    by (simp add: demo_ledger_def)
  ultimately show ?thesis using side_effect_model_accounts by metis
qed

end
