(* ===== verification/PolicyAudit.thy ===== *)
theory PolicyAudit
  imports SideEffects
begin

text \<open>
  Policy decisions as audit events (\<^verbatim>\<open>copilot_agent/runtime/policy_audit.py\<close>): the builders of the
  \<open>policy_decision_recorded\<close> payload for tools, retrieval and the output guard, and the run-level read
  model. The hex digest \<open>sha\<close> and the hex text \<open>fresh\<close> of a new \<^verbatim>\<open>uuid4\<close> are parameters; \<open>None\<close> is the
  \<^verbatim>\<open>ValueError\<close> a malformed URL raises.
\<close>

definition POLICY_SCOPES :: "string list" where
  "POLICY_SCOPES = [''tool'', ''route'', ''credential'', ''rag'', ''output_guard'']"

definition POLICY_DECISIONS :: "string list" where
  "POLICY_DECISIONS = [''allow'', ''ask'', ''deny'', ''block'', ''redact'']"

definition hash_text :: "(string \<Rightarrow> string) \<Rightarrow> string \<Rightarrow> string" where
  "hash_text sha text = take 16 (sha text)"

definition new_trace_id :: "string \<Rightarrow> string \<Rightarrow> string" where
  "new_trace_id fresh scope = ''pol_'' @ scope @ ''_'' @ take 16 fresh"

text \<open>Every value under a key spelled \<open>query\<close> is replaced by its hash, under the key \<open>query_hash\<close>.\<close>

definition hash_entry :: "(string \<Rightarrow> string) \<Rightarrow> (pyval \<Rightarrow> pyval) \<Rightarrow> string \<times> pyval \<Rightarrow> string \<times> pyval" where
  "hash_entry sha rec kv =
     (if lower (fst kv) = ''query'' then (''query_hash'', PStr (hash_text sha (str_or (snd kv))))
      else (fst kv, rec (snd kv)))"

lemma hash_entry_cong [fundef_cong]:
  "kv = kv' \<Longrightarrow> (rec (snd kv') = rec' (snd kv')) \<Longrightarrow> hash_entry sha rec kv = hash_entry sha rec' kv'"
  by (simp add: hash_entry_def)

fun hash_query_values :: "(string \<Rightarrow> string) \<Rightarrow> pyval \<Rightarrow> pyval" where
  "hash_query_values sha (PDict d) = PDict (dupdate [] (map (\<lambda>kv. hash_entry sha (hash_query_values sha) kv) d))"
| "hash_query_values sha (PList xs) = PList (map (hash_query_values sha) xs)"
| "hash_query_values sha v = v"

definition safe_metadata :: "(string \<Rightarrow> string) \<Rightarrow> dict \<Rightarrow> pyval" where
  "safe_metadata sha value = hash_query_values sha (sanitize_tool_payload MAX_STRING_LENGTH (PDict value))"

definition safe_resource :: "(string \<Rightarrow> bool) \<Rightarrow> string \<Rightarrow> string option" where
  "safe_resource ok value =
     (let text = strip value in
      if text = [] then Some []
      else if CHR ''?'' \<in> set text \<or> contains text ''://'' then canonicalize_side_effect_path ok text
      else Some (take 300 text))"

record policy_args =
  pa_scope :: string
  pa_source :: string
  pa_action :: string
  pa_decision :: string
  pa_reason :: string
  pa_subject :: string
  pa_resource :: string
  pa_risk_level :: string
  pa_requires_approval :: bool
  pa_related_call_id :: "string option"
  pa_related_event_id :: "int option"
  pa_policy_trace_id :: "string option"
  pa_metadata :: dict

definition build_policy_decision_payload ::
    "(string \<Rightarrow> string) \<Rightarrow> (string \<Rightarrow> bool) \<Rightarrow> string \<Rightarrow> policy_args \<Rightarrow> dict option" where
  "build_policy_decision_payload sha ok fresh a =
     (let scope = (if pa_scope a \<in> set POLICY_SCOPES then pa_scope a else ''tool'');
          decision = (if pa_decision a \<in> set POLICY_DECISIONS then pa_decision a else ''deny'');
          trace = (case pa_policy_trace_id a of Some t \<Rightarrow> if t \<noteq> [] then t else new_trace_id fresh scope
                   | None \<Rightarrow> new_trace_id fresh scope)
      in case safe_resource ok (pa_resource a) of
           None \<Rightarrow> None
         | Some resource \<Rightarrow> Some
             [(''policy_trace_id'', PStr trace),
              (''scope'', PStr scope),
              (''source'', PStr (if pa_source a \<noteq> [] then pa_source a else ''policy'')),
              (''subject'', PStr (pa_subject a)),
              (''action'', PStr (pa_action a)),
              (''resource'', PStr resource),
              (''decision'', PStr decision),
              (''reason'', PStr (pa_reason a)),
              (''risk_level'', PStr (pa_risk_level a)),
              (''requires_approval'', PBool (pa_requires_approval a)),
              (''related_call_id'', opt_str (pa_related_call_id a)),
              (''related_event_id'', opt_int (pa_related_event_id a)),
              (''metadata'', safe_metadata sha (pa_metadata a))])"

definition build_tool_policy_decision_payload ::
    "(string \<Rightarrow> string) \<Rightarrow> (string \<Rightarrow> bool) \<Rightarrow> string \<Rightarrow> policy_args \<Rightarrow> string \<Rightarrow> dict option" where
  "build_tool_policy_decision_payload sha ok fresh a path =
     (case canonicalize_side_effect_path ok path of
        None \<Rightarrow> None
      | Some safe_path \<Rightarrow>
          (let metadata = (if safe_path \<noteq> [] then dsetdefault ''path'' (PStr safe_path) (pa_metadata a) else pa_metadata a)
           in build_policy_decision_payload sha ok fresh
                (a\<lparr>pa_scope := ''tool'', pa_action := ''tool_call'', pa_resource := safe_path,
                   pa_related_call_id := (case pa_related_call_id a of Some c \<Rightarrow> if c \<noteq> [] then Some c else None
                                          | None \<Rightarrow> None),
                   pa_related_event_id := None, pa_metadata := metadata\<rparr>)))"

definition rag_policy_args :: "dict \<Rightarrow> int option \<Rightarrow> dict \<Rightarrow> policy_args" where
  "rag_policy_args retrieval related_event_id decision =
     (let trace_id = str_or (dget retrieval ''policy_trace_id'');
          call_id = str_or (dget retrieval ''call_id'');
          metadata = [(''tenant_id'', py_or (dget decision ''tenant_id'') (dget retrieval ''tenant_id'')),
            (''doc_id'', dget decision ''doc_id''), (''chunk_id'', dget decision ''chunk_id''),
            (''classification'', dget decision ''classification''), (''pii_level'', dget decision ''pii_level''),
            (''purpose'', dget retrieval ''purpose''), (''query_hash'', dget retrieval ''query_hash''),
            (''max_classification'', dget retrieval ''max_classification'')]
      in \<lparr>pa_scope = ''rag'', pa_source = ''rag_policy_filter'', pa_action = ''retrieve_chunk'', pa_decision = ''block'',
          pa_reason = py_str (py_or (dget decision ''reason'') (PStr ''rag_policy_blocked'')),
          pa_subject = str_or (dget retrieval ''user_id''),
          pa_resource = str_or (py_or (dget decision ''chunk_id'') (dget decision ''doc_id'')),
          pa_risk_level = str_or (dget decision ''classification''), pa_requires_approval = False,
          pa_related_call_id = (if call_id = [] then None else Some call_id),
          pa_related_event_id = related_event_id,
          pa_policy_trace_id = (if trace_id = [] then None else Some trace_id), pa_metadata = metadata\<rparr>)"

text \<open>One \<^verbatim>\<open>uuid4\<close> per built payload: \<open>fresh\<close> is the list of the next ones.\<close>

fun rag_payloads ::
    "(string \<Rightarrow> string) \<Rightarrow> (string \<Rightarrow> bool) \<Rightarrow> string list \<Rightarrow> dict \<Rightarrow> int option \<Rightarrow> pyval list \<Rightarrow> dict list option" where
  "rag_payloads sha ok fresh retrieval related [] = Some []"
| "rag_payloads sha ok fresh retrieval related (v # vs) =
     (if \<not> is_dict v then rag_payloads sha ok fresh retrieval related vs
      else if dget (as_dict v) ''allowed'' = PBool True then rag_payloads sha ok fresh retrieval related vs
      else case build_policy_decision_payload sha ok (case fresh of [] \<Rightarrow> [] | f # _ \<Rightarrow> f)
                  (rag_policy_args retrieval related (as_dict v)) of
             None \<Rightarrow> None
           | Some p \<Rightarrow> map_option (Cons p) (rag_payloads sha ok (tl fresh) retrieval related vs))"

definition build_rag_policy_decision_payloads ::
    "(string \<Rightarrow> string) \<Rightarrow> (string \<Rightarrow> bool) \<Rightarrow> string list \<Rightarrow> dict \<Rightarrow> int option \<Rightarrow> dict list option" where
  "build_rag_policy_decision_payloads sha ok fresh retrieval related =
     rag_payloads sha ok fresh retrieval related (as_list (dget retrieval ''policy_decisions''))"

definition build_output_guard_policy_decision_payload ::
    "(string \<Rightarrow> string) \<Rightarrow> (string \<Rightarrow> bool) \<Rightarrow> string \<Rightarrow> dict \<Rightarrow> int option \<Rightarrow> string option \<Rightarrow> dict option option" where
  "build_output_guard_policy_decision_payload sha ok fresh guard related trace =
     (if dget guard ''safe'' = PBool True then Some None
      else
        (let action = str_or (dget guard ''action'');
             decision = (if action \<in> {''degrade'', ''audit_only''} then ''redact'' else ''block'')
         in map_option Some (build_policy_decision_payload sha ok fresh
              \<lparr>pa_scope = ''output_guard'', pa_source = py_str (py_or (dget guard ''guard'') (PStr ''output_guard'')),
               pa_action = ''emit_final_answer'', pa_decision = decision, pa_reason = ''sensitive_output_detected'',
               pa_subject = ''assistant_output'', pa_resource = ''final_answer'', pa_risk_level = ''high'',
               pa_requires_approval = False, pa_related_call_id = None, pa_related_event_id = related,
               pa_policy_trace_id = trace,
               pa_metadata = [(''guard_action'', PStr action), (''finding_count'', dget guard ''finding_count''),
                 (''findings'', PList (as_list (dget guard ''findings''))),
                 (''original_chars'', dget guard ''original_chars''), (''emitted_chars'', dget guard ''emitted_chars'')]\<rparr>)))"

section \<open>The read model\<close>

definition policy_item :: "event_row \<Rightarrow> dict" where
  "policy_item e =
     (let payload = payload_of e in
      [(''event_id'', PInt (ev_id e)), (''sequence'', PInt (seq_or_zero e)), (''created_at'', PInt (ev_created_at e)),
       (''policy_trace_id'', dget payload ''policy_trace_id''), (''scope'', dget payload ''scope''),
       (''source'', dget payload ''source''), (''subject'', dget payload ''subject''),
       (''action'', dget payload ''action''), (''resource'', dget payload ''resource''),
       (''decision'', dget payload ''decision''), (''reason'', dget payload ''reason''),
       (''risk_level'', dget payload ''risk_level''),
       (''requires_approval'', PBool (truthy (dget_or payload ''requires_approval'' (PBool False)))),
       (''related_call_id'', dget payload ''related_call_id''),
       (''related_event_id'', dget payload ''related_event_id''),
       (''metadata'', PDict (as_dict (dget payload ''metadata'')))])"

definition item_decision :: "dict \<Rightarrow> string" where
  "item_decision item = str_or (dget item ''decision'')"

definition policy_items :: "event_row list \<Rightarrow> dict list" where
  "policy_items evs = map policy_item (filter (\<lambda>e. ev_type e = ''policy_decision_recorded'') (ordered_events evs))"

definition policy_warning :: "dict \<Rightarrow> dict list" where
  "policy_warning item =
     (let decision = item_decision item in
      if decision = ''block'' then
        [[(''code'', PStr ''policy_blocked''), (''message'', PStr ''policy blocked an action''),
          (''event_id'', dget item ''event_id''), (''scope'', dget item ''scope''), (''reason'', dget item ''reason'')]]
      else if decision = ''deny'' then
        [[(''code'', PStr ''policy_denied''), (''message'', PStr ''policy denied an action''),
          (''event_id'', dget item ''event_id''), (''scope'', dget item ''scope''), (''reason'', dget item ''reason'')]]
      else if decision \<notin> set POLICY_DECISIONS then
        [[(''code'', PStr ''policy_unknown_decision''),
          (''message'', PStr ''policy decision used an unknown value''),
          (''event_id'', dget item ''event_id''), (''decision'', PStr decision)]]
      else [])"

definition decision_count :: "dict list \<Rightarrow> string \<Rightarrow> nat" where
  "decision_count items d = length (filter (\<lambda>i. item_decision i = d) items)"

definition scope_counts :: "dict list \<Rightarrow> dict" where
  "scope_counts items = fold (\<lambda>item scopes.
     let scope = str_or (dget item ''scope'') in
     if scope = [] then scopes
     else dset scope (PInt ((case dget_or scopes scope (PInt 0) of PInt n \<Rightarrow> n | _ \<Rightarrow> 0) + 1)) scopes) items []"

definition policy_summary :: "dict list \<Rightarrow> dict" where
  "policy_summary items =
     (''total'', PInt (int (length items)))
     # map (\<lambda>d. (d, PInt (int (decision_count items d)))) [''allow'', ''ask'', ''block'', ''deny'', ''redact'']
     @ [(''by_scope'', PDict (scope_counts items)),
        (''has_block_or_deny'', PBool (0 < decision_count items ''block'' \<or> 0 < decision_count items ''deny''))]"

record policy_model =
  pm_summary :: dict
  pm_decisions :: "dict list"
  pm_warnings :: "dict list"

definition build_policy_read_model :: "event_row list \<Rightarrow> policy_model" where
  "build_policy_read_model evs =
     (let items = policy_items evs in
      \<lparr>pm_summary = policy_summary items, pm_decisions = items, pm_warnings = concat (map policy_warning items)\<rparr>)"

interpretation audit: event_projection "''policy_decision_recorded''" policy_item policy_items
  by unfold_locales (simp add: policy_items_def)

section \<open>What the audit events guarantee\<close>

lemma set_dset: "set (dset k v d) \<subseteq> insert (k, v) (set d)"
  unfolding dset_def by (induction d) auto

lemma set_dupdate: "set (dupdate d e) \<subseteq> set d \<union> set e"
proof (induction e arbitrary: d)
  case (Cons kv e)
  then show ?case using set_dset [of "fst kv" "snd kv" d] by (fastforce simp: dupdate_def split_beta)
qed (simp add: dupdate_def)

lemma hashed_entries:
  "(k, w) \<in> set (entries (hash_query_values sha v)) \<Longrightarrow>
    (k = ''query_hash'') \<or> (lower k \<noteq> ''query'' \<and> (\<exists>w0. (k, w0) \<in> set (entries v) \<and> w = hash_query_values sha w0))"
proof (induction sha v rule: hash_query_values.induct)
  case (1 sha d)
  let ?f = "hash_entry sha (hash_query_values sha)"
  from 1(2) obtain kw where kw: "kw \<in> set (dupdate [] (map ?f d))" "(k, w) \<in> set (kw # entries (snd kw))" by auto
  then have "kw \<in> set (map ?f d)" using set_dupdate [of "[]" "map ?f d"] by (auto simp del: set_map)
  then obtain kv where kv: "kv \<in> set d" "kw = ?f kv" by auto
  have mem: "x \<in> set (entries (PDict d))" if "x = kv \<or> x \<in> set (entries (snd kv))" for x
    using that kv(1) by auto
  show ?case
  proof (cases "lower (fst kv) = ''query''")
    case True
    then show ?thesis using kw(2) kv(2) by (auto simp: hash_entry_def)
  next
    case False
    then have "kw = (fst kv, hash_query_values sha (snd kv))" by (simp add: kv(2) hash_entry_def)
    then consider "k = fst kv" "w = hash_query_values sha (snd kv)" | "(k, w) \<in> set (entries (hash_query_values sha (snd kv)))"
      using kw(2) by auto
    then show ?thesis
    proof cases
      case 1
      then show ?thesis using False mem [of kv] by (metis prod.collapse)
    next
      case 2
      then show ?thesis using "1.IH" [OF kv(1)] mem by blast
    qed
  qed
next
  case (2 sha xs)
  then show ?case by fastforce
qed simp_all

lemma query_hash_key: "lower ''query_hash'' \<noteq> ''query''" "\<not> is_raw_key ''query_hash''" "\<not> is_sensitive_key ''query_hash''"
  by code_simp+

lemma safe_metadata_entries:
  assumes "(k, w) \<in> set (entries (safe_metadata sha m))"
  shows "lower k \<noteq> ''query'' \<and> \<not> is_raw_key k \<and> (is_sensitive_key k \<longrightarrow> w = PStr REDACTED)"
proof -
  consider "k = ''query_hash''" | w0 where "lower k \<noteq> ''query''" "w = hash_query_values sha w0"
      "(k, w0) \<in> set (entries (sanitize_tool_payload MAX_STRING_LENGTH (PDict m)))"
    using hashed_entries [OF assms [unfolded safe_metadata_def]] by blast
  then show ?thesis
  proof cases
    case 1
    then show ?thesis using query_hash_key by simp
  next
    case (2 w0)
    then show ?thesis using sanitized_entries [OF 2(3)] by auto
  qed
qed

text \<open>
  C32. A policy decision event is safe to keep whatever it is built from: its scope and decision are known
  ones, a decision the audit does not know counts as a denial, a source and a trace id are always there,
  and in its metadata, at any depth, there is no search query in clear, no raw secret and no value under
  a sensitive key.
\<close>

theorem policy_event_safe:
  assumes "build_policy_decision_payload sha ok fresh a = Some d"
  shows "\<exists>scope dec src trace m. dget d ''scope'' = PStr scope \<and> scope \<in> set POLICY_SCOPES
    \<and> dget d ''decision'' = PStr dec \<and> dec \<in> set POLICY_DECISIONS
    \<and> (pa_decision a \<notin> set POLICY_DECISIONS \<longrightarrow> dec = ''deny'')
    \<and> dget d ''source'' = PStr src \<and> src \<noteq> [] \<and> dget d ''policy_trace_id'' = PStr trace \<and> trace \<noteq> []
    \<and> dget d ''metadata'' = m
    \<and> (\<forall>(k, w) \<in> set (entries m). lower k \<noteq> ''query'' \<and> \<not> is_raw_key k \<and> (is_sensitive_key k \<longrightarrow> w = PStr REDACTED))"
proof -
  have m: "\<forall>(k, w) \<in> set (entries (safe_metadata sha (pa_metadata a))).
      lower k \<noteq> ''query'' \<and> \<not> is_raw_key k \<and> (is_sensitive_key k \<longrightarrow> w = PStr REDACTED)"
    using safe_metadata_entries by fastforce
  have s: "''tool'' \<in> set POLICY_SCOPES" "''deny'' \<in> set POLICY_DECISIONS"
    by (simp_all add: POLICY_SCOPES_def POLICY_DECISIONS_def)
  show ?thesis
    using assms m s
    by (auto simp: build_policy_decision_payload_def Let_def new_trace_id_def split: option.splits if_splits)
qed

definition demo_policy :: policy_args where
  "demo_policy = \<lparr>pa_scope = ''tool'', pa_source = [], pa_action = ''tool_call'', pa_decision = ''maybe'', pa_reason = [],
     pa_subject = ''http_post'', pa_resource = ''/orders?token=x'', pa_risk_level = ''high'', pa_requires_approval = True,
     pa_related_call_id = None, pa_related_event_id = None, pa_policy_trace_id = None,
     pa_metadata = [(''Query'', PStr ''who owes''), (''auth'', PDict [(''password'', PStr ''pw'')])]\<rparr>"

theorem policy_event_safe_witness:
  "\<exists>d. build_policy_decision_payload (\<lambda>t. ''0123456789abcdef01'') (\<lambda>_. True) ''f'' demo_policy = Some d
    \<and> dget d ''decision'' = PStr ''deny''"
proof -
  have "build_policy_decision_payload (\<lambda>t. ''0123456789abcdef01'') (\<lambda>_. True) ''f'' demo_policy \<noteq> None" by code_simp
  then obtain d where d: "build_policy_decision_payload (\<lambda>t. ''0123456789abcdef01'') (\<lambda>_. True) ''f'' demo_policy = Some d"
    by blast
  have "pa_decision demo_policy \<notin> set POLICY_DECISIONS" by (simp add: demo_policy_def POLICY_DECISIONS_def)
  then show ?thesis using policy_event_safe [OF d] d by auto
qed

lemma policy_warnings_length:
  "length (concat (map policy_warning items)) = length (filter (\<lambda>i. item_decision i \<notin> {''allow'', ''ask'', ''redact''}) items)"
  by (induction items) (auto simp: policy_warning_def POLICY_DECISIONS_def Let_def)

lemma decision_counts:
  "sum_list (map (decision_count items) [''allow'', ''ask'', ''block'', ''deny'', ''redact''])
    + length (filter (\<lambda>i. item_decision i \<notin> set POLICY_DECISIONS) items) = length items"
  by (induction items) (auto simp: decision_count_def POLICY_DECISIONS_def)

text \<open>
  The policy read model accounts for every recorded decision: the five counts and the decisions of
  unknown value add up to the number of decision events; there is one warning for each decision that is
  not an allow, an ask or a redaction; the run is flagged exactly when some action was blocked or denied;
  and events of other kinds, or handing the events over in another order, change nothing.
\<close>

theorem policy_model_accounts:
  assumes "distinct (map event_order evs)" and "mset evs' = mset evs"
    and "\<forall>e \<in> set other. ev_type e \<noteq> ''policy_decision_recorded''"
  shows "sum_list (map (decision_count (policy_items evs)) [''allow'', ''ask'', ''block'', ''deny'', ''redact''])
        + length (filter (\<lambda>i. item_decision i \<notin> set POLICY_DECISIONS) (policy_items evs))
      = length (filter (\<lambda>e. ev_type e = ''policy_decision_recorded'') evs)
    \<and> length (pm_warnings (build_policy_read_model evs)) =
        length (filter (\<lambda>i. item_decision i \<notin> {''allow'', ''ask'', ''redact''}) (policy_items evs))
    \<and> (dget (pm_summary (build_policy_read_model evs)) ''has_block_or_deny'' = PBool True \<longleftrightarrow>
        (\<exists>i \<in> set (policy_items evs). item_decision i \<in> {''block'', ''deny''}))
    \<and> build_policy_read_model evs' = build_policy_read_model evs
    \<and> build_policy_read_model (evs @ other) = build_policy_read_model evs"
proof -
  have flag: "dget (policy_summary items) ''has_block_or_deny'' =
      PBool (0 < decision_count items ''block'' \<or> 0 < decision_count items ''deny'')" for items
    by (simp add: policy_summary_def)
  have some: "0 < decision_count items d \<longleftrightarrow> (\<exists>i \<in> set items. item_decision i = d)" for items d
    by (auto simp: decision_count_def filter_empty_conv length_greater_0_conv simp del: length_0_conv)
  have "policy_items evs' = policy_items evs"
    using audit.project_perm [OF assms(2) [symmetric] assms(1)] by simp
  then show ?thesis
    using decision_counts [of "policy_items evs"] audit.project_irrelevant [OF assms(3), of evs]
    by (auto simp: audit.project_length build_policy_read_model_def Let_def policy_warnings_length flag some)
qed

definition demo_policy_log :: "event_row list" where
  "demo_policy_log = map (\<lambda>(n, d). \<lparr>ev_id = n, ev_thread_id = ''t'', ev_run_id = ''r'', ev_type = ''policy_decision_recorded'',
     ev_payload = PDict [(''decision'', PStr d)], ev_created_at = 0, ev_sequence = Some n\<rparr>) [(1, ''allow''), (2, ''deny'')]"

theorem policy_model_accounts_witness:
  "build_policy_read_model (rev demo_policy_log) = build_policy_read_model demo_policy_log"
proof -
  have d: "distinct (map event_order demo_policy_log)" by (simp add: demo_policy_log_def event_order_def)
  have m: "mset (rev demo_policy_log) = mset demo_policy_log" by simp
  have o: "\<forall>e \<in> set []. ev_type e \<noteq> ''policy_decision_recorded''" by simp
  from policy_model_accounts [OF d m o] show ?thesis by blast
qed

end
