(* ===== verification/ExecutionEngine.thy ===== *)
theory ExecutionEngine
  imports EventStore PolicyAudit
begin

text \<open>
  The run engine of \<^verbatim>\<open>copilot_agent/runtime/execution_engine.py\<close>: the class \<^verbatim>\<open>ExecutionEngine\<close>, one
  definition per method, and \<^verbatim>\<open>_execute\<close> and \<^verbatim>\<open>_continue_after_approval\<close> cut at the points where the
  coroutine is suspended.

  \<^item> The engine shares \<^verbatim>\<open>ManagedRun\<close> objects between its table \<^verbatim>\<open>_runs\<close> and the tasks that drive them. They
    are a list of records (\<open>eg_objs\<close>); the table maps a run id to a position in it.
  \<^item> asyncio is single threaded: code between two suspension points is atomic. The engine's own lock, its
    unbounded queues and its semaphore (taken only after a check that a slot is free) never suspend. What
    suspends is the runner's stream, the wait for an approval, the checkpoint read and the compaction;
    \<open>task\<close> says at which of them a task is.
  \<^item> The runner, the graph and the memory manager are not modelled: at each suspension point they may
    append any events and the awaited call may end in any way (\<open>run_outcome\<close>, \<open>snapshot\<close>).
  \<^item> A cancelled task that has not run yet never enters its body; one that is suspended gets the
    \<^verbatim>\<open>CancelledError\<close> at the suspension point.
\<close>

section \<open>State\<close>

datatype stream_item = Chunk string | FinalMarker

datatype task =
    TStart
  | TRun bool
  | TWait
  | TRejected
  | TResumed
  | CStart
  | CRejected
  | CResumed
  | TSnapshot bool "int option" "int list"
  | TCompact
  | TDone

record managed =
  m_run_id :: string
  m_thread_id :: string
  m_messages :: "pyval list"
  m_confirm_dangerous :: bool
  m_stream :: bool
  m_queue :: "stream_item list option"
  m_task :: "task option"
  m_cancelling :: bool
  m_approval_event :: bool
  m_approved :: bool
  m_rejected :: bool
  m_cancel_requested :: bool
  m_checkpoint_pending :: bool
  m_slot :: bool
  m_rehydrated :: bool
  m_idempotency_reused :: bool
  m_interrupt :: dict

record engine =
  eg_store :: store
  eg_objs :: "managed list"
  eg_runs :: "string \<rightharpoonup> nat"
  eg_slots :: int
  eg_limit :: int
  eg_timeout :: int
  eg_has_graph :: bool
  eg_sha256 :: "string \<Rightarrow> string"
  eg_netloc_ok :: "string \<Rightarrow> bool"

text \<open>How the awaited runner call ends. \<open>RunCancelled\<close> is \<^verbatim>\<open>CancelledError\<close>.\<close>

datatype run_outcome =
    RunOk
  | GraphInterrupted dict
  | CheckpointSyncFailed string
  | RunTimeout
  | RunCancelled
  | RunException string

datatype snapshot = SnapOk dict | SnapError string | NoGraph

definition obj :: "engine \<Rightarrow> nat \<Rightarrow> managed" where
  "obj g i = eg_objs g ! i"

definition upd :: "nat \<Rightarrow> (managed \<Rightarrow> managed) \<Rightarrow> engine \<Rightarrow> engine" where
  "upd i f g = g\<lparr>eg_objs := (eg_objs g)[i := f (eg_objs g ! i)]\<rparr>"

definition set_store :: "store \<Rightarrow> engine \<Rightarrow> engine" where
  "set_store s g = g\<lparr>eg_store := s\<rparr>"

definition new_managed :: "string \<Rightarrow> string \<Rightarrow> pyval list \<Rightarrow> managed" where
  "new_managed run_id thread_id messages =
     \<lparr>m_run_id = run_id, m_thread_id = thread_id, m_messages = messages, m_confirm_dangerous = False,
      m_stream = False, m_queue = None, m_task = None, m_cancelling = False, m_approval_event = False,
      m_approved = False, m_rejected = False, m_cancel_requested = False, m_checkpoint_pending = False,
      m_slot = False, m_rehydrated = False, m_idempotency_reused = False, m_interrupt = []\<rparr>"

section \<open>Events and statuses of one managed run\<close>

definition put_queue :: "nat \<Rightarrow> stream_item \<Rightarrow> engine \<Rightarrow> engine" where
  "put_queue i x = upd i (\<lambda>m. m\<lparr>m_queue := map_option (\<lambda>q. q @ [x]) (m_queue m)\<rparr>)"

definition append_for :: "nat \<Rightarrow> string \<Rightarrow> dict \<Rightarrow> engine \<Rightarrow> engine" where
  "append_for i event_type payload g =
     set_store (snd (append_event (eg_store g) (m_thread_id (obj g i)) (m_run_id (obj g i)) event_type payload)) g"

definition status_for :: "nat \<Rightarrow> string \<Rightarrow> string option \<Rightarrow> bool \<Rightarrow> engine \<Rightarrow> pyerr option \<times> engine" where
  "status_for i status error completed g =
     (case update_run_status (eg_store g) (m_run_id (obj g i)) status error completed of
        (r, s) \<Rightarrow> (case r of Inl e \<Rightarrow> Some e | Inr _ \<Rightarrow> None, set_store s g))"

definition complete_for :: "nat \<Rightarrow> string option \<Rightarrow> engine \<Rightarrow> pyerr option \<times> engine" where
  "complete_for i error g =
     (case complete_run (eg_store g) (m_run_id (obj g i)) error of
        (r, s) \<Rightarrow> (case r of Inl e \<Rightarrow> Some e | Inr _ \<Rightarrow> None, set_store s g))"

definition emit_runtime :: "nat \<Rightarrow> runtime_event \<Rightarrow> engine \<Rightarrow> engine" where
  "emit_runtime i ev g = put_queue i (Chunk (sse_encode ev)) (append_for i (re_kind ev) (to_store_payload ev) g)"

definition interrupt_summary :: "dict \<Rightarrow> dict option" where
  "interrupt_summary payload =
     (case py_iter (py_or (dget payload ''tool_calls'') (PList [])) of
        None \<Rightarrow> None
      | Some calls \<Rightarrow> Some
          [(''required'', PBool (truthy (dget_or payload ''required'' (PBool True)))),
           (''reason'', dget payload ''reason''),
           (''message'', dget payload ''message''),
           (''tool_calls'', PList (map (\<lambda>call. PDict [(''name'', dget (as_dict call) ''name''),
                                                    (''id'', dget (as_dict call) ''id'')]) (filter is_dict calls)))])"

definition append_checkpoint_meta :: "nat \<Rightarrow> engine \<Rightarrow> pyerr option \<times> engine" where
  "append_checkpoint_meta i g =
     (case interrupt_summary (m_interrupt (obj g i)) of
        None \<Rightarrow> (Some TypeError, g)
      | Some summary \<Rightarrow> (None, append_for i ''run_checkpoint_meta''
          [(''checkpoint_thread_id'', PStr (m_thread_id (obj g i))), (''checkpoint_pending'', PBool True),
           (''resume_supported'', PBool True),
           (''resume_command'', PStr ''Command(resume=<approval_value>)''),
           (''interrupt_summary'', PDict summary)] g))"

definition failed_meta_payload :: "store \<Rightarrow> string \<Rightarrow> string \<Rightarrow> bool \<Rightarrow> string \<Rightarrow> string \<Rightarrow> string \<Rightarrow> dict" where
  "failed_meta_payload s thread_id run_id checkpoint_pending error reason phase =
     [(''status'', PStr ''failed''), (''reason'', PStr reason), (''phase'', PStr phase), (''error'', PStr error),
      (''last_successful_event_id'', opt_int (latest_run_event_id s run_id)),
      (''last_successful_sequence'', opt_int (latest_run_sequence s run_id)),
      (''checkpoint_thread_id'', PStr thread_id),
      (''checkpoint_pending'', PBool checkpoint_pending),
      (''resume_supported'', PBool checkpoint_pending)]"

definition append_failed_meta :: "nat \<Rightarrow> string \<Rightarrow> string \<Rightarrow> string \<Rightarrow> engine \<Rightarrow> engine" where
  "append_failed_meta i error reason phase g =
     append_for i ''run_failed_meta'' (failed_meta_payload (eg_store g) (m_thread_id (obj g i)) (m_run_id (obj g i))
       (m_checkpoint_pending (obj g i)) error reason phase) g"

definition mark_cancelled :: "nat \<Rightarrow> engine \<Rightarrow> engine" where
  "mark_cancelled i g = snd (status_for i RUN_STATUS_CANCELLED None True (append_for i ''cancelled'' [] g))"

definition is_terminal :: "engine \<Rightarrow> nat \<Rightarrow> bool" where
  "is_terminal g i = (case get_run (eg_store g) (m_run_id (obj g i)) of
     None \<Rightarrow> False | Some r \<Rightarrow> rn_status r \<in> TERMINAL_RUN_STATUSES)"

text \<open>
  The body of an exception handler of either coroutine: the error event (also sent to the stream), the
  failure record, the failed status. An exception of the last call leaves the state as it is here.
\<close>

definition fail_run :: "nat \<Rightarrow> string \<Rightarrow> string option \<Rightarrow> string \<Rightarrow> string \<Rightarrow> engine \<Rightarrow> engine" where
  "fail_run i message event_reason reason phase g =
     (let payload = (''error'', PStr message) # (case event_reason of None \<Rightarrow> [] | Some r \<Rightarrow> [(''reason'', PStr r)]);
          ev = from_payload ''error'' payload (Some (m_thread_id (obj g i))) (Some (m_run_id (obj g i))) None None;
          g = emit_runtime i ev g;
          g = append_failed_meta i message reason phase g
      in snd (complete_for i (Some message) g))"

definition timeout_message :: "engine \<Rightarrow> string" where
  "timeout_message g = ''run timed out after '' @ int_str (eg_timeout g) @ '' seconds''"

section \<open>The closing of a run\<close>

definition event_types :: "store \<Rightarrow> string \<Rightarrow> string list" where
  "event_types s run_id = map ev_type (run_events s run_id)"

definition call_ids_of :: "store \<Rightarrow> string \<Rightarrow> string \<Rightarrow> string list" where
  "call_ids_of s run_id event_type =
     map (\<lambda>e. str_or (dget (payload_of e) ''call_id'')) (filter (\<lambda>e. ev_type e = event_type) (run_events s run_id))"

definition missing_tool_ends :: "store \<Rightarrow> string \<Rightarrow> string list" where
  "missing_tool_ends s run_id =
     sort (remdups (filter (\<lambda>c. c \<noteq> [] \<and> c \<notin> set (call_ids_of s run_id ''tool_end''))
       (call_ids_of s run_id ''tool_start'')))"

definition missing_events :: "store \<Rightarrow> string \<Rightarrow> string \<Rightarrow> string list" where
  "missing_events s run_id status =
     (let types = set (event_types s run_id) in
      (if status = ''completed'' \<and> ''done'' \<notin> types then [''done''] else [])
      @ (if status = ''failed'' \<and> ''error'' \<notin> types then [''error''] else [])
      @ (if status = ''failed'' \<and> ''run_failed_meta'' \<notin> types then [''run_failed_meta''] else [])
      @ (if status = ''cancelled'' \<and> ''cancelled'' \<notin> types then [''cancelled''] else [])
      @ (if status = ''completed'' \<and> ''approval_required'' \<in> types \<and> ''approval_resolved'' \<notin> types
         then [''approval_resolved''] else [])
      @ map (\<lambda>c. ''tool_end:'' @ c) (missing_tool_ends s run_id))"

definition consistency_payload :: "store \<Rightarrow> string \<Rightarrow> bool \<Rightarrow> dict option \<Rightarrow> dict" where
  "consistency_payload s run_id checkpoint_pending checkpoint_consistency =
     (let status = (case get_run s run_id of None \<Rightarrow> [] | Some r \<Rightarrow> rn_status r);
          missing = missing_events s run_id status
      in [(''status'', PStr status), (''ok'', PBool (missing = [])), (''missing_events'', PList (map PStr missing)),
          (''event_count'', PInt (int (length (run_events s run_id)))),
          (''last_event_id'', opt_int (latest_run_event_id s run_id)),
          (''last_sequence'', opt_int (latest_run_sequence s run_id)),
          (''checkpoint_pending'', PBool checkpoint_pending),
          (''missing_tool_end_call_ids'', PList (map PStr (missing_tool_ends s run_id)))]
         @ (case checkpoint_consistency of None \<Rightarrow> [] | Some c \<Rightarrow>
             [(''checkpoint_match'', dget c ''checkpoint_match''),
              (''checkpoint_message_count_actual'', dget c ''checkpoint_message_count_actual''),
              (''checkpoint_message_count_reported'', dget c ''checkpoint_message_count_reported''),
              (''checkpoint_warning_count'', PInt (int (length (as_list (dget c ''warnings'')))))]))"

definition append_consistency_checked :: "nat \<Rightarrow> dict option \<Rightarrow> engine \<Rightarrow> engine" where
  "append_consistency_checked i cc g =
     append_for i ''run_consistency_checked''
       (consistency_payload (eg_store g) (m_run_id (obj g i)) (m_checkpoint_pending (obj g i)) cc) g"

text \<open>
  \<^verbatim>\<open>_append_checkpoint_consistency_checked\<close> up to the checkpoint read: whether a \<open>run_completed_meta\<close> is
  there, the message count it reports, and its id.
\<close>

definition completed_meta :: "store \<Rightarrow> string \<Rightarrow> bool \<times> int option \<times> int list" where
  "completed_meta s run_id =
     (case find_last (\<lambda>e. ev_type e = ''run_completed_meta'') (run_events s run_id) of
        None \<Rightarrow> (False, None, [])
      | Some e \<Rightarrow> (True, py_int (dget (payload_of e) ''message_count''), [ev_id e]))"

definition checkpoint_payload :: "bool \<Rightarrow> int option \<Rightarrow> int list \<Rightarrow> snapshot \<Rightarrow> dict" where
  "checkpoint_payload has_meta reported source_event_ids snap =
     (let actual = (case snap of SnapOk d \<Rightarrow> py_int (dget d ''message_count'') | _ \<Rightarrow> None);
          read_ok = (case snap of SnapOk _ \<Rightarrow> True | _ \<Rightarrow> False);
          checkpoint_missing = (read_ok \<and> (case actual of None \<Rightarrow> True | Some n \<Rightarrow> n \<le> 0));
          warnings = (case snap of NoGraph \<Rightarrow> [''checkpoint_graph_unavailable'']
                      | SnapError _ \<Rightarrow> [''checkpoint_read_failed'']
                      | SnapOk _ \<Rightarrow> if checkpoint_missing then [''checkpoint_missing''] else []);
          matches = (read_ok \<and> \<not> checkpoint_missing \<and> reported \<noteq> None \<and> actual = reported);
          warnings = warnings @
            (if \<not> has_meta then [''run_completed_meta_missing'']
             else if reported = None then [''run_completed_meta_message_count_missing'']
             else if read_ok \<and> \<not> checkpoint_missing \<and> actual \<noteq> reported then [''checkpoint_message_count_mismatch'']
             else [])
      in [(''checkpoint_read_ok'', PBool read_ok),
          (''checkpoint_missing'', PBool checkpoint_missing),
          (''checkpoint_has_interrupt'', case snap of SnapOk d \<Rightarrow> PBool (truthy (dget_or d ''has_interrupt'' (PBool False)))
             | _ \<Rightarrow> PNone),
          (''checkpoint_message_count_actual'', opt_int actual),
          (''checkpoint_message_count_reported'', opt_int reported),
          (''checkpoint_match'', PBool matches),
          (''warnings'', PList (map PStr warnings)),
          (''error'', case snap of SnapError e \<Rightarrow> PStr e | _ \<Rightarrow> PNone),
          (''source_event_ids'', PList (map PInt source_event_ids))])"

definition pop_run :: "nat \<Rightarrow> engine \<Rightarrow> engine" where
  "pop_run i g = upd i (\<lambda>m. m\<lparr>m_task := Some TDone\<rparr>) (g\<lparr>eg_runs := (eg_runs g)(m_run_id (obj g i) := None)\<rparr>)"

text \<open>
  The memory hook runs here. \<open>compacts\<close>: it did not raise and the runner has a compaction to await;
  otherwise \<^verbatim>\<open>_finalize_memory\<close> returns at once and the run leaves the table.
\<close>

definition finalize_rest :: "nat \<Rightarrow> bool \<Rightarrow> dict option \<Rightarrow> engine \<Rightarrow> engine" where
  "finalize_rest i compacts cc g =
     (let g = append_consistency_checked i cc g
      in if compacts then upd i (\<lambda>m. m\<lparr>m_task := Some TCompact\<rparr>) g else pop_run i g)"

definition checkpoint_checked :: "nat \<Rightarrow> bool \<Rightarrow> bool \<Rightarrow> int option \<Rightarrow> int list \<Rightarrow> snapshot \<Rightarrow> engine \<Rightarrow> engine" where
  "checkpoint_checked i compacts has_meta reported ids snap g =
     (let payload = checkpoint_payload has_meta reported ids snap
      in finalize_rest i compacts (Some payload) (append_for i ''checkpoint_consistency_checked'' payload g))"

definition finalize_memory :: "nat \<Rightarrow> bool \<Rightarrow> engine \<Rightarrow> engine" where
  "finalize_memory i compacts g =
     (if map_option rn_status (get_run (eg_store g) (m_run_id (obj g i))) = Some RUN_STATUS_COMPLETED then
        (case completed_meta (eg_store g) (m_run_id (obj g i)) of
           (has_meta, reported, ids) \<Rightarrow>
             if eg_has_graph g then upd i (\<lambda>m. m\<lparr>m_task := Some (TSnapshot has_meta reported ids)\<rparr>) g
             else checkpoint_checked i compacts has_meta reported ids NoGraph g)
      else finalize_rest i compacts None g)"

text \<open>The \<^verbatim>\<open>finally\<close> block of both coroutines.\<close>

definition release_slot :: "nat \<Rightarrow> engine \<Rightarrow> engine" where
  "release_slot i g =
     (if m_slot (obj g i) then upd i (\<lambda>m. m\<lparr>m_slot := False\<rparr>) (g\<lparr>eg_slots := eg_slots g + 1\<rparr>) else g)"

definition finally_block :: "nat \<Rightarrow> bool \<Rightarrow> engine \<Rightarrow> engine" where
  "finally_block i compacts g =
     (let g = put_queue i FinalMarker g;
          g = release_slot i g
      in if is_terminal g i then finalize_memory i compacts g
         else upd i (\<lambda>m. m\<lparr>m_task := Some TDone\<rparr>) g)"

section \<open>The task of a new run\<close>

definition resumed_payload :: "string \<Rightarrow> dict" where
  "resumed_payload thread_id =
     [(''status'', PStr RUN_STATUS_RUNNING), (''resumed'', PBool True), (''resume_from_checkpoint'', PBool True),
      (''checkpoint_thread_id'', PStr thread_id)]"

definition set_task :: "nat \<Rightarrow> task \<Rightarrow> engine \<Rightarrow> engine" where
  "set_task i t = upd i (\<lambda>m. m\<lparr>m_task := Some t\<rparr>)"

text \<open>\<^verbatim>\<open>_execute\<close> up to the first call of the runner, whose \<open>confirm_dangerous\<close> argument the task records.\<close>

definition execute_start :: "nat \<Rightarrow> bool \<Rightarrow> engine \<Rightarrow> engine" where
  "execute_start i compacts g =
     (case status_for i RUN_STATUS_RUNNING None False g of
        (Some e, g) \<Rightarrow> finally_block i compacts (fail_run i (pyerr_str e) None ''runtime_exception'' ''execute'' g)
      | (None, g) \<Rightarrow>
          (let g = append_for i ''run_started'' [(''status'', PStr RUN_STATUS_RUNNING)] g
           in set_task i (TRun (m_confirm_dangerous (obj g i) \<or> m_approved (obj g i))) g))"

text \<open>
  After the approval wait. This code is inside the handler of \<^verbatim>\<open>GraphInterrupted\<close>: an exception here, and
  in the runner call it goes on to, reaches none of the handlers beside it, only the \<open>finally\<close> block.
\<close>

definition after_wait :: "nat \<Rightarrow> bool \<Rightarrow> engine \<Rightarrow> engine" where
  "after_wait i compacts g =
     (let g = upd i (\<lambda>m. m\<lparr>m_checkpoint_pending := False\<rparr>) g in
      if m_cancel_requested (obj g i) then finally_block i compacts (mark_cancelled i g)
      else if m_rejected (obj g i) then set_task i TRejected g
      else (case status_for i RUN_STATUS_RUNNING None False g of
              (Some e, g) \<Rightarrow> finally_block i compacts g
            | (None, g) \<Rightarrow> set_task i TResumed
                (append_for i ''run_started'' (resumed_payload (m_thread_id (obj g i))) g)))"

definition handle_interrupt :: "nat \<Rightarrow> bool \<Rightarrow> dict \<Rightarrow> engine \<Rightarrow> engine" where
  "handle_interrupt i compacts payload g =
     (if m_cancel_requested (obj g i) then finally_block i compacts (mark_cancelled i g)
      else
        (let g = upd i (\<lambda>m. m\<lparr>m_interrupt := payload, m_checkpoint_pending := True\<rparr>) g in
         case status_for i RUN_STATUS_WAITING_APPROVAL None False g of
           (Some e, g) \<Rightarrow> finally_block i compacts g
         | (None, g) \<Rightarrow>
             (case append_checkpoint_meta i g of
                (Some e, g) \<Rightarrow> finally_block i compacts g
              | (None, g) \<Rightarrow>
                  if m_approval_event (obj g i) then after_wait i compacts g else set_task i TWait g)))"

text \<open>The first call of the runner returns or raises.\<close>

definition execute_outcome :: "nat \<Rightarrow> bool \<Rightarrow> run_outcome \<Rightarrow> engine \<Rightarrow> engine" where
  "execute_outcome i compacts out g =
     (case out of
        RunOk \<Rightarrow>
          (case complete_for i None g of
             (None, g) \<Rightarrow> finally_block i compacts g
           | (Some e, g) \<Rightarrow> finally_block i compacts (fail_run i (pyerr_str e) None ''runtime_exception'' ''execute'' g))
      | GraphInterrupted payload \<Rightarrow> handle_interrupt i compacts payload g
      | CheckpointSyncFailed message \<Rightarrow> finally_block i compacts
          (fail_run i message (Some ''checkpoint_sync_failed'') ''checkpoint_sync_failed'' ''finalize'' g)
      | RunTimeout \<Rightarrow> finally_block i compacts
          (fail_run i (timeout_message g) (Some ''run_timeout'') ''run_timeout'' ''execute'' g)
      | RunCancelled \<Rightarrow> finally_block i compacts (mark_cancelled i g)
      | RunException message \<Rightarrow> finally_block i compacts
          (fail_run i message None ''runtime_exception'' ''execute'' g))"

text \<open>The wait ends, by the approval event or by the cancellation of the task.\<close>

definition execute_wake :: "nat \<Rightarrow> bool \<Rightarrow> engine \<Rightarrow> engine" where
  "execute_wake i compacts g =
     (if m_cancelling (obj g i) then finally_block i compacts (upd i (\<lambda>m. m\<lparr>m_cancelling := False\<rparr>) g)
      else after_wait i compacts g)"

text \<open>The second call of the runner, inside the handler.\<close>

definition execute_second_outcome :: "nat \<Rightarrow> bool \<Rightarrow> run_outcome \<Rightarrow> engine \<Rightarrow> engine" where
  "execute_second_outcome i compacts out g =
     (case out of
        RunOk \<Rightarrow> finally_block i compacts (snd (complete_for i None g))
      | _ \<Rightarrow> finally_block i compacts g)"

section \<open>The task that continues a run after its approval\<close>

definition continue_start :: "nat \<Rightarrow> bool \<Rightarrow> engine \<Rightarrow> engine" where
  "continue_start i compacts g =
     (if m_cancel_requested (obj g i) then finally_block i compacts (mark_cancelled i g)
      else if m_rejected (obj g i) then set_task i CRejected g
      else (case status_for i RUN_STATUS_RUNNING None False g of
              (Some e, g) \<Rightarrow> finally_block i compacts
                (fail_run i (pyerr_str e) None ''runtime_exception'' ''approval_resume'' g)
            | (None, g) \<Rightarrow> set_task i CResumed
                (append_for i ''run_started'' (resumed_payload (m_thread_id (obj g i))) g)))"

definition continue_interrupt :: "nat \<Rightarrow> bool \<Rightarrow> engine \<Rightarrow> engine" where
  "continue_interrupt i compacts g =
     (let g = upd i (\<lambda>m. m\<lparr>m_checkpoint_pending := True\<rparr>) g in
      case status_for i RUN_STATUS_WAITING_APPROVAL None False g of
        (Some e, g) \<Rightarrow> finally_block i compacts g
      | (None, g) \<Rightarrow> finally_block i compacts (snd (append_checkpoint_meta i g)))"

definition continue_outcome :: "nat \<Rightarrow> bool \<Rightarrow> run_outcome \<Rightarrow> engine \<Rightarrow> engine" where
  "continue_outcome i compacts out g =
     (case out of
        RunOk \<Rightarrow>
          (case complete_for i None g of
             (None, g) \<Rightarrow> finally_block i compacts g
           | (Some e, g) \<Rightarrow> finally_block i compacts
               (fail_run i (pyerr_str e) None ''runtime_exception'' ''approval_resume'' g))
      | GraphInterrupted payload \<Rightarrow> continue_interrupt i compacts g
      | CheckpointSyncFailed message \<Rightarrow> finally_block i compacts
          (fail_run i message None ''runtime_exception'' ''approval_resume'' g)
      | RunTimeout \<Rightarrow> finally_block i compacts
          (fail_run i (timeout_message g) (Some ''run_timeout'') ''run_timeout'' ''approval_resume'' g)
      | RunCancelled \<Rightarrow> finally_block i compacts (mark_cancelled i g)
      | RunException message \<Rightarrow> finally_block i compacts
          (fail_run i message None ''runtime_exception'' ''approval_resume'' g))"

section \<open>The requests\<close>

definition acquire_slot :: "engine \<Rightarrow> pyerr + engine" where
  "acquire_slot g =
     (if eg_slots g \<le> 0 then Inl (RunConcurrencyLimitError (eg_limit g)) else Inr (g\<lparr>eg_slots := eg_slots g - 1\<rparr>))"

definition has_run_created :: "store \<Rightarrow> string \<Rightarrow> bool" where
  "has_run_created s run_id = list_ex (\<lambda>e. ev_type e = ''run_created'') (run_events s run_id)"

definition add_managed :: "managed \<Rightarrow> engine \<Rightarrow> engine" where
  "add_managed m g = g\<lparr>eg_objs := eg_objs g @ [m]\<rparr>"

definition register :: "string \<Rightarrow> nat \<Rightarrow> engine \<Rightarrow> engine" where
  "register run_id i g = g\<lparr>eg_runs := (eg_runs g)(run_id \<mapsto> i)\<rparr>"

text \<open>
  \<^verbatim>\<open>create_run\<close>, with the slot taken: a request answered with an existing run gives the slot back and gets
  an object of its own, with a closed stream; a new run is announced and its task scheduled.
\<close>

definition admit_run :: "engine \<Rightarrow> run_row \<Rightarrow> string \<Rightarrow> pyval list \<Rightarrow> bool \<Rightarrow> bool \<Rightarrow> nat \<times> engine" where
  "admit_run g run thread_id messages confirm_dangerous stream =
     (let i = length (eg_objs g);
          base = (new_managed (rn_id run) thread_id messages)\<lparr>m_confirm_dangerous := confirm_dangerous, m_stream := stream\<rparr>
      in if rn_status run \<noteq> RUN_STATUS_QUEUED \<or> has_run_created (eg_store g) (rn_id run) then
           (let g = add_managed (base\<lparr>m_queue := (if stream then Some [FinalMarker] else None),
                      m_idempotency_reused := True\<rparr>) g;
                g = (if stream then register (rn_id run) i g else g)
            in (i, g\<lparr>eg_slots := eg_slots g + 1\<rparr>))
         else
           (let g = add_managed (base\<lparr>m_queue := (if stream then Some [] else None), m_slot := True,
                      m_approved := confirm_dangerous, m_approval_event := confirm_dangerous\<rparr>) g;
                g = append_for i ''run_created'' [(''status'', PStr RUN_STATUS_QUEUED), (''messages'', PList messages)] g
            in (i, set_task i TStart (register (rn_id run) i g))))"

definition engine_create_run ::
    "engine \<Rightarrow> string \<Rightarrow> pyval list \<Rightarrow> bool \<Rightarrow> bool \<Rightarrow> string option \<Rightarrow> (pyerr + nat) \<times> engine" where
  "engine_create_run g thread_id messages confirm_dangerous stream idempotency_key =
     (let payload_hash = idempotency_payload_hash (eg_sha256 g)
            [(''messages'', PList messages), (''confirm_dangerous'', PBool confirm_dangerous), (''stream'', PBool stream)]
      in case acquire_slot g of
           Inl e \<Rightarrow> (Inl e, g)
         | Inr g \<Rightarrow>
             (case create_run (eg_store g) thread_id None RUN_STATUS_QUEUED idempotency_key
                     (if truthy (opt_str idempotency_key) then Some payload_hash else None) of
                (Inl e, s) \<Rightarrow> (Inl e, (set_store s g)\<lparr>eg_slots := eg_slots g + 1\<rparr>)
              | (Inr run, s) \<Rightarrow>
                  (case admit_run (set_store s g) run thread_id messages confirm_dangerous stream of
                     (i, g) \<Rightarrow> (Inr i, g))))"

text \<open>\<^verbatim>\<open>task.cancel()\<close>: no effect on a task that is done.\<close>

definition task_done :: "managed \<Rightarrow> bool" where
  "task_done m \<longleftrightarrow> m_task m = Some TDone"

definition cancel_task :: "nat \<Rightarrow> engine \<Rightarrow> engine" where
  "cancel_task i = upd i (\<lambda>m. if m_task m = None \<or> task_done m then m else m\<lparr>m_cancelling := True\<rparr>)"

text \<open>The answers are the run row; \<open>None\<close> is the empty dictionary.\<close>

definition engine_cancel :: "engine \<Rightarrow> string \<Rightarrow> (pyerr + run_row option) \<times> engine" where
  "engine_cancel g run_id =
     (case eg_runs g run_id of
        None \<Rightarrow> (Inl (KeyError run_id), g)
      | Some i \<Rightarrow>
          (case get_run (eg_store g) run_id of
             None \<Rightarrow> (Inr None, g)
           | Some current \<Rightarrow>
               (if rn_status current \<in> TERMINAL_RUN_STATUSES then (Inr (Some current), g)
                else case update_run_status (eg_store g) run_id RUN_STATUS_CANCELLING None False of
                  (Inl e, s) \<Rightarrow> (Inl e, set_store s g)
                | (Inr _, s) \<Rightarrow>
                    (let s = snd (append_event s (m_thread_id (obj g i)) run_id ''cancel_requested'' []);
                         g = upd i (\<lambda>m. m\<lparr>m_cancel_requested := True, m_approval_event := True\<rparr>) (set_store s g);
                         g = cancel_task i g
                     in (Inr (get_run (eg_store g) run_id), g)))))"

definition start_approval_continuation :: "nat \<Rightarrow> engine \<Rightarrow> (pyerr + unit) \<times> engine" where
  "start_approval_continuation i g =
     (case (if m_slot (obj g i) then Inr g
            else map_sum id (upd i (\<lambda>m. m\<lparr>m_slot := True\<rparr>)) (acquire_slot g)) of
        Inl e \<Rightarrow> (Inl e, g)
      | Inr g \<Rightarrow>
          (if m_task (obj g i) \<noteq> None \<and> \<not> task_done (obj g i)
           then (Inr (), upd i (\<lambda>m. m\<lparr>m_approval_event := True\<rparr>) g)
           else (Inr (), upd i (\<lambda>m. m\<lparr>m_task := Some CStart, m_cancelling := False\<rparr>) g)))"

definition resolve_approval :: "nat \<Rightarrow> engine \<Rightarrow> (pyerr + unit) \<times> engine" where
  "resolve_approval i g =
     (if m_rehydrated (obj g i) \<or> m_task (obj g i) = None \<or> task_done (obj g i)
      then start_approval_continuation i g
      else (Inr (), upd i (\<lambda>m. m\<lparr>m_approval_event := True\<rparr>) g))"

definition resolved_payload :: "bool \<Rightarrow> string \<Rightarrow> dict" where
  "resolved_payload approved thread_id =
     [(''approved'', PBool approved), (''resume_value'', PBool approved),
      (''checkpoint_thread_id'', PStr thread_id), (''checkpoint_resume'', PBool True)]"

definition engine_approve :: "engine \<Rightarrow> string \<Rightarrow> (pyerr + run_row option) \<times> engine" where
  "engine_approve g run_id =
     (case eg_runs g run_id of
        None \<Rightarrow> (Inl (KeyError run_id), g)
      | Some i \<Rightarrow>
          (case get_run (eg_store g) run_id of
             None \<Rightarrow> (Inr None, g)
           | Some current \<Rightarrow>
               (if rn_status current \<noteq> RUN_STATUS_WAITING_APPROVAL then (Inr (Some current), g)
                else
                  (let g = upd i (\<lambda>m. m\<lparr>m_approved := True\<rparr>) g;
                       s = snd (append_event (eg_store g) (m_thread_id (obj g i)) run_id ''approval_resolved''
                             (resolved_payload True (m_thread_id (obj g i))))
                   in case resolve_approval i (set_store s g) of
                        (Inl e, g) \<Rightarrow> (Inl e, g)
                      | (Inr _, g) \<Rightarrow> (Inr (get_run (eg_store g) run_id), g)))))"

text \<open>The audit events of a rejection: for each tool call of the interrupt that the ledger does not have.\<close>

definition rejection_args :: "dict \<Rightarrow> string \<Rightarrow> policy_args" where
  "rejection_args call call_id =
     (let name = str_or (dget call ''name'') in
      \<lparr>pa_scope = ''tool'', pa_source = ''human_approval'', pa_action = ''tool_call'', pa_decision = ''deny'',
       pa_reason = ''approval_rejected'', pa_subject = name,
       pa_resource = py_str (py_or (dget (as_dict (dget call ''args'')) ''path'') (PStr name)),
       pa_risk_level = (if name = ''http_post'' then ''high'' else []), pa_requires_approval = True,
       pa_related_call_id = Some call_id, pa_related_event_id = None, pa_policy_trace_id = None, pa_metadata = []\<rparr>)"

fun blocked_side_effects ::
    "(string \<Rightarrow> string) \<Rightarrow> (string \<Rightarrow> bool) \<Rightarrow> string \<Rightarrow> string \<Rightarrow> string list \<Rightarrow> pyval list \<Rightarrow> store \<Rightarrow>
     pyerr option \<times> store" where
  "blocked_side_effects sha ok thread_id run_id known [] s = (None, s)"
| "blocked_side_effects sha ok thread_id run_id known (v # vs) s =
     (let call = as_dict v; call_id = strip (str_or (dget call ''id'')) in
      if \<not> is_dict v \<or> call_id = [] \<or> call_id \<in> set known
      then blocked_side_effects sha ok thread_id run_id known vs s
      else
        (let (u, s) = uuid4 s in
         case build_policy_decision_payload sha ok (filter (\<lambda>c. c \<noteq> CHR ''-'') u) (rejection_args call call_id) of
           None \<Rightarrow> (Some (ValueError ''url''), s)
         | Some policy \<Rightarrow>
             (let s = snd (append_event s thread_id run_id ''policy_decision_recorded'' policy) in
              case build_blocked_tool_side_effect_payload ok call ''approval_rejected'' (Some ''human_approval'') True
                     (Some (str_or (dget policy ''policy_trace_id''))) of
                None \<Rightarrow> (Some (ValueError ''url''), s)
              | Some None \<Rightarrow> blocked_side_effects sha ok thread_id run_id known vs s
              | Some (Some payload) \<Rightarrow> blocked_side_effects sha ok thread_id run_id known vs
                  (snd (append_event s thread_id run_id ''tool_side_effect_recorded'' payload)))))"

definition append_blocked_side_effects :: "nat \<Rightarrow> engine \<Rightarrow> pyerr option \<times> engine" where
  "append_blocked_side_effects i g =
     (case py_iter (py_or (dget (m_interrupt (obj g i)) ''tool_calls'') (PList [])) of
        None \<Rightarrow> (Some TypeError, g)
      | Some calls \<Rightarrow>
          (case blocked_side_effects (eg_sha256 g) (eg_netloc_ok g) (m_thread_id (obj g i)) (m_run_id (obj g i))
                  (call_ids_of (eg_store g) (m_run_id (obj g i)) ''tool_side_effect_recorded'') calls (eg_store g) of
             (e, s) \<Rightarrow> (e, set_store s g)))"

definition engine_reject :: "engine \<Rightarrow> string \<Rightarrow> (pyerr + run_row option) \<times> engine" where
  "engine_reject g run_id =
     (case eg_runs g run_id of
        None \<Rightarrow> (Inl (KeyError run_id), g)
      | Some i \<Rightarrow>
          (case get_run (eg_store g) run_id of
             None \<Rightarrow> (Inr None, g)
           | Some current \<Rightarrow>
               (if rn_status current \<noteq> RUN_STATUS_WAITING_APPROVAL then (Inr (Some current), g)
                else
                  (let g = upd i (\<lambda>m. m\<lparr>m_rejected := True\<rparr>) g;
                       s = snd (append_event (eg_store g) (m_thread_id (obj g i)) run_id ''approval_resolved''
                             (resolved_payload False (m_thread_id (obj g i))))
                   in case append_blocked_side_effects i (set_store s g) of
                        (Some e, g) \<Rightarrow> (Inl e, g)
                      | (None, g) \<Rightarrow>
                          (case resolve_approval i g of
                             (Inl e, g) \<Rightarrow> (Inl e, g)
                           | (Inr _, g) \<Rightarrow> (Inr (get_run (eg_store g) run_id), g))))))"

text \<open>
  One \<open>get\<close> of the stream of an object: the next item, or \<open>None\<close> when the queue is empty and the reader
  waits. After the final marker of a reused run its table entry is dropped.
\<close>

definition stream_get :: "nat \<Rightarrow> engine \<Rightarrow> (pyerr + stream_item option) \<times> engine" where
  "stream_get i g =
     (case m_queue (obj g i) of
        None \<Rightarrow> (Inl (ValueError ''run was not created with streaming enabled''), g)
      | Some [] \<Rightarrow> (Inr None, g)
      | Some (x # xs) \<Rightarrow>
          (let g = upd i (\<lambda>m. m\<lparr>m_queue := Some xs\<rparr>) g
           in (Inr (Some x),
               if x = FinalMarker \<and> m_idempotency_reused (obj g i)
               then g\<lparr>eg_runs := (eg_runs g)(m_run_id (obj g i) := None)\<rparr> else g)))"

section \<open>Start of the process\<close>

definition recover_run_messages :: "store \<Rightarrow> string \<Rightarrow> pyval list" where
  "recover_run_messages s run_id =
     (case find (\<lambda>e. ev_type e = ''run_created'' \<and> as_list (dget (payload_of e) ''messages'') \<noteq> []) (run_events s run_id) of
        None \<Rightarrow> []
      | Some e \<Rightarrow> filter is_dict (as_list (dget (payload_of e) ''messages'')))"

definition recover_interrupt_payload :: "store \<Rightarrow> string \<Rightarrow> dict" where
  "recover_interrupt_payload s run_id =
     (case find_last (\<lambda>e. ev_type e = ''approval_required'' \<or>
             (ev_type e = ''run_checkpoint_meta'' \<and> is_dict (dget (payload_of e) ''interrupt_summary''))) (run_events s run_id) of
        None \<Rightarrow> []
      | Some e \<Rightarrow> if ev_type e = ''approval_required'' then payload_of e
                  else as_dict (dget (payload_of e) ''interrupt_summary''))"

text \<open>An exception of \<^verbatim>\<open>update_run_status\<close> leaves the constructor.\<close>

definition recover_failed_run :: "string \<Rightarrow> run_row \<Rightarrow> store \<Rightarrow> pyerr + store" where
  "recover_failed_run reason run s =
     (let rid = rn_id run; tid = rn_thread_id run;
          s = snd (mark_run_recovered s rid reason);
          message = ''server restarted before run completed'';
          s = snd (append_event s tid rid ''error'' [(''error'', PStr message), (''reason'', PStr reason)]);
          s = snd (append_event s tid rid ''run_failed_meta''
                (failed_meta_payload s tid rid False message reason ''startup_recovery''))
      in case update_run_status s rid RUN_STATUS_FAILED (Some message) True of
           (Inl e, s) \<Rightarrow> Inl e
         | (Inr _, s) \<Rightarrow> Inr (snd (append_event s tid rid ''run_consistency_checked''
                          (consistency_payload s rid False None))))"

definition recover_cancelled_run :: "string \<Rightarrow> run_row \<Rightarrow> store \<Rightarrow> pyerr + store" where
  "recover_cancelled_run reason run s =
     (let rid = rn_id run; tid = rn_thread_id run;
          s = snd (mark_run_recovered s rid reason);
          s = snd (append_event s tid rid ''cancelled'' [(''reason'', PStr reason)])
      in case update_run_status s rid RUN_STATUS_CANCELLED None True of
           (Inl e, s) \<Rightarrow> Inl e
         | (Inr _, s) \<Rightarrow> Inr (snd (append_event s tid rid ''run_consistency_checked''
                          (consistency_payload s rid False None))))"

fun recover_all :: "(run_row \<Rightarrow> store \<Rightarrow> pyerr + store) \<Rightarrow> run_row list \<Rightarrow> store \<Rightarrow> pyerr + store" where
  "recover_all f [] s = Inr s"
| "recover_all f (r # rs) s = (case f r s of Inl e \<Rightarrow> Inl e | Inr s \<Rightarrow> recover_all f rs s)"

definition rehydrate_run :: "run_row \<Rightarrow> engine \<Rightarrow> engine" where
  "rehydrate_run run g =
     (let s = snd (mark_run_recovered (eg_store g) (rn_id run) ''waiting_approval_rehydrated'');
          m = (new_managed (rn_id run) (rn_thread_id run) (recover_run_messages s (rn_id run)))
                \<lparr>m_checkpoint_pending := True, m_rehydrated := True,
                 m_interrupt := recover_interrupt_payload s (rn_id run)\<rparr>
      in register (rn_id run) (length (eg_objs g)) (add_managed m (set_store s g)))"

text \<open>The statuses asked for are valid, so \<^verbatim>\<open>list_runs_by_status\<close> does not raise.\<close>

definition runs_with_status :: "store \<Rightarrow> string list \<Rightarrow> run_row list" where
  "runs_with_status s statuses = (case list_runs_by_status s statuses of Inl e \<Rightarrow> [] | Inr rs \<Rightarrow> rs)"

record engine_config =
  cfg_run_timeout_seconds :: int
  cfg_max_concurrent_runs :: int
  cfg_has_graph :: bool
  cfg_sha256 :: "string \<Rightarrow> string"
  cfg_netloc_ok :: "string \<Rightarrow> bool"

definition fresh_engine :: "engine_config \<Rightarrow> store \<Rightarrow> engine" where
  "fresh_engine cfg s =
     \<lparr>eg_store = s, eg_objs = [], eg_runs = Map.empty, eg_slots = max 1 (cfg_max_concurrent_runs cfg),
      eg_limit = max 1 (cfg_max_concurrent_runs cfg), eg_timeout = max 1 (cfg_run_timeout_seconds cfg),
      eg_has_graph = cfg_has_graph cfg, eg_sha256 = cfg_sha256 cfg, eg_netloc_ok = cfg_netloc_ok cfg\<rparr>"

definition engine_init :: "engine_config \<Rightarrow> store \<Rightarrow> pyerr + engine" where
  "engine_init cfg s =
     (case recover_all (recover_cancelled_run ''process_restarted'')
             (runs_with_status s [RUN_STATUS_CANCELLING]) s of
        Inl e \<Rightarrow> Inl e
      | Inr s \<Rightarrow>
          (case recover_all (recover_failed_run ''process_restarted'')
                  (runs_with_status s [RUN_STATUS_QUEUED, RUN_STATUS_RUNNING]) s of
             Inl e \<Rightarrow> Inl e
           | Inr s \<Rightarrow> Inr (fold rehydrate_run (runs_with_status s [RUN_STATUS_WAITING_APPROVAL]) (fresh_engine cfg s))))"

end
