(* ===== verification/EngineSteps.thy ===== *)
theory EngineSteps
  imports ExecutionEngine StoreLog StoreThreads
begin

text \<open>
  The executions of the engine: one rule per request and per resumption of a task, with arbitrary behaviour
  of what is not modelled (the runner, the memory hooks, the other users of the store, a restart of the
  process). Every step is a sequence of transactions of the store, so the engine inherits the store's
  guarantees through the interface \<open>status_client\<close>.
\<close>

section \<open>Steps\<close>

text \<open>
  What others do to the store: threads are created, ended and archived, events of any kind are appended,
  callbacks come and go, and the memory manager files a run that is completed from the start.
\<close>

inductive env_step :: "store \<Rightarrow> store \<Rightarrow> bool" where
  env_ensure: "env_step s (snd (ensure_thread s tid title uid))"
| env_touch: "env_step s (snd (touch_thread s tid))"
| env_end: "env_step s (snd (end_thread s tid reason))"
| env_archive: "env_step s (snd (archive_thread s tid))"
| env_end_idle: "env_step s (snd (end_idle_threads_older_than s ttl lim))"
| env_archive_ended: "env_step s (snd (archive_ended_threads_older_than s ttl lim))"
| env_append: "env_step s (snd (append_event s tid rid ty p))"
| env_sub: "env_step s (subscribe c s)"
| env_unsub: "env_step s (unsubscribe c s)"
| env_file: "env_step s (snd (create_run s tid rid RUN_STATUS_COMPLETED key hash))"

definition at :: "engine \<Rightarrow> nat \<Rightarrow> task \<Rightarrow> bool" where
  "at g i t \<longleftrightarrow> i < length (eg_objs g) \<and> m_task (obj g i) = Some t"

definition undisturbed :: "nat \<Rightarrow> engine \<Rightarrow> engine" where
  "undisturbed i = upd i (\<lambda>m. m\<lparr>m_cancelling := False\<rparr>)"

inductive engine_step :: "engine \<Rightarrow> engine \<Rightarrow> bool" where
  request: "engine_step g (snd (engine_create_run g tid msgs confirm strm key))"
| cancel: "engine_step g (snd (engine_cancel g rid))"
| approve: "engine_step g (snd (engine_approve g rid))"
| reject: "engine_step g (snd (engine_reject g rid))"
| read_stream: "i < length (eg_objs g) \<Longrightarrow> engine_step g (snd (stream_get i g))"
| unstarted: "at g i TStart \<or> at g i CStart \<Longrightarrow> m_cancelling (obj g i) \<Longrightarrow> engine_step g (set_task i TDone g)"
| start: "at g i TStart \<Longrightarrow> \<not> m_cancelling (obj g i) \<Longrightarrow> engine_step g (execute_start i c g)"
| outcome: "at g i (TRun d) \<Longrightarrow> engine_step g (execute_outcome i c out (undisturbed i g))"
| wake: "at g i TWait \<Longrightarrow> m_approval_event (obj g i) \<or> m_cancelling (obj g i) \<Longrightarrow> engine_step g (execute_wake i c g)"
| second: "at g i TRejected \<or> at g i TResumed \<Longrightarrow> engine_step g (execute_second_outcome i c out (undisturbed i g))"
| continue_: "at g i CStart \<Longrightarrow> \<not> m_cancelling (obj g i) \<Longrightarrow> engine_step g (continue_start i c g)"
| continued: "at g i CRejected \<or> at g i CResumed \<Longrightarrow> engine_step g (continue_outcome i c out (undisturbed i g))"
| checked: "at g i (TSnapshot b n ids) \<Longrightarrow> snap \<noteq> NoGraph \<Longrightarrow> engine_step g (checkpoint_checked i c b n ids snap g)"
| compacted: "at g i TCompact \<Longrightarrow> engine_step g (pop_run i g)"
| others: "env_step (eg_store g) s \<Longrightarrow> engine_step g (set_store s g)"
| restart: "engine_init cfg (eg_store g) = Inr g' \<Longrightarrow> engine_step g g'"

section \<open>Statuses after one transaction\<close>

lemma status_append [simp]: "run_status (snd (append_event s tid rid ty p)) = run_status s"
proof
  fix x
  obtain e s' where eq: "append_event s tid rid ty p = (e, s')" by force
  show "run_status (snd (append_event s tid rid ty p)) x = run_status s x"
    unfolding eq using eq by (cases rule: append_event_cases) (simp_all add: run_status_def append_insert_effect(2) get_run_cong [of s' s])
qed

lemma status_recovered [simp]: "run_status (snd (mark_run_recovered s rid reason)) = run_status s"
proof
  fix x
  obtain r s' where eq: "mark_run_recovered s rid reason = (r, s')" by force
  show "run_status (snd (mark_run_recovered s rid reason)) x = run_status s x"
    by (simp add: eq run_status_def get_run_update [OF mark_run_recovered_effect(1) [OF eq]] option.map_comp comp_def
        if_distrib cong: if_cong)
qed

lemma status_update:
  assumes "run_status s rid = Some a" and "run_step a st"
  shows "\<exists>r. fst (update_run_status s rid st err cpl) = Inr r"
    and "run_status (snd (update_run_status s rid st err cpl)) = (run_status s)(rid \<mapsto> st)"
proof -
  obtain r where r: "get_run s rid = Some r" "rn_status r = a" using assms(1) by (auto simp: run_status_def)
  have st: "st \<in> RUN_STATUSES" "a \<noteq> st" "validate_run_transition a st = Inr ()"
    using assms(2) run_step_valid [OF assms(2)] terminal_or_not
    by (auto simp: validate_run_transition_Inr elim: run_step.cases)
  obtain res s' where eq: "update_run_status s rid st err cpl = (res, s')" by force
  show "\<exists>r. fst (update_run_status s rid st err cpl) = Inr r"
    unfolding eq using eq by (cases rule: update_run_status_cases) (use r st in auto)
  show "run_status (snd (update_run_status s rid st err cpl)) = (run_status s)(rid \<mapsto> st)"
    using eq
  proof (cases rule: update_run_status_cases)
    case (changed r' now)
    have "run_status s' x = ((run_status s)(rid \<mapsto> st)) x" for x
    proof (cases "get_run s x")
      case None
      then show ?thesis using changed(1) by (auto simp: run_status_def get_run_update [OF changed(4)])
    next
      case (Some q)
      then show ?thesis using get_run_in [OF Some] by (auto simp: run_status_def get_run_update [OF changed(4)])
    qed
    then show ?thesis by (auto simp: eq)
  qed (use r st in auto)
qed

lemma status_update_cases:
  "run_status (snd (update_run_status s rid st err cpl)) \<in> {run_status s, (run_status s)(rid \<mapsto> st)}"
proof -
  obtain res s' where eq: "update_run_status s rid st err cpl = (res, s')" by force
  show ?thesis
    using eq
  proof (cases rule: update_run_status_cases)
    case (changed r now)
    then have "run_status s rid = Some (rn_status r)" by (simp add: run_status_def)
    from status_update(2) [OF this changed(3)] show ?thesis by blast
  qed (auto simp: eq run_status_same fun_eq_iff)
qed

lemma create_run_status:
  "run_status (snd (create_run s tid rid st key hash)) x = run_status s x
    \<or> run_status (snd (create_run s tid rid st key hash)) x = Some st"
proof (cases "get_run s x")
  case (Some r)
  then show ?thesis using create_run_keeps [OF surjective_pairing Some] by (simp add: run_status_def)
next
  case None
  obtain res s' where eq: "create_run s tid rid st key hash = (res, s')" by force
  from eq show ?thesis
  proof (cases rule: create_run_decomp)
    case (valid rid' n)
    from valid(2) show ?thesis
    proof (cases rule: create_run_txn_cases)
      case (created r)
      then show ?thesis using None by (simp add: eq run_status_def get_run_def find_append)
    qed (simp_all add: eq run_status_def same_runs_and_log_def get_run_def)
  qed (simp add: eq)
qed

section \<open>Every step is a sequence of store transactions\<close>

text \<open>
  The engine uses the transactions that follow the state machine: it never forces a failure
  (\<^verbatim>\<open>fail_non_terminal_runs\<close>).
\<close>

definition follows_machine :: "store \<Rightarrow> store \<Rightarrow> bool" where
  "follows_machine s s' \<longleftrightarrow>
     (\<forall>rid st. run_status s rid = Some st \<longrightarrow> (\<exists>st'. run_status s' rid = Some st' \<and> run_step\<^sup>*\<^sup>* st st'))"

definition reaches :: "store \<Rightarrow> store \<Rightarrow> bool" where
  "reaches s s' \<longleftrightarrow> store_step\<^sup>*\<^sup>* s s' \<and> follows_machine s s'"

lemma reaches_steps: "reaches s s' \<Longrightarrow> store_step\<^sup>*\<^sup>* s s'"
  by (simp add: reaches_def)

lemma follows_same: "run_status s' = run_status s \<Longrightarrow> follows_machine s s'"
  by (simp add: follows_machine_def)

lemma follows_trans: "follows_machine a b \<Longrightarrow> follows_machine b c \<Longrightarrow> follows_machine a c"
  unfolding follows_machine_def by (meson rtranclp_trans)

lemma follows_update: "follows_machine s (snd (update_run_status s rid st err cpl))"
proof -
  obtain res s' where eq: "update_run_status s rid st err cpl = (res, s')" by force
  then have "follows_machine s s'"
  proof (cases rule: update_run_status_cases)
    case (changed r now)
    then have r: "run_status s rid = Some (rn_status r)" by (simp add: run_status_def)
    have "run_status s' = (run_status s)(rid \<mapsto> st)"
      using status_update(2) [OF r changed(3), of err cpl] eq by simp
    then show ?thesis using r changed(3) by (auto simp: follows_machine_def)
  qed (auto intro!: follows_same ext run_status_same)
  then show ?thesis by (simp add: eq)
qed

lemma follows_create: "follows_machine s (snd (create_run s tid rid st key hash))"
  unfolding follows_machine_def run_status_def using create_run_keeps [OF surjective_pairing] by fastforce

lemma reaches_refl [simp]: "reaches s s"
  by (simp add: reaches_def follows_machine_def)

lemma reaches_trans: "reaches a b \<Longrightarrow> reaches b c \<Longrightarrow> reaches a c"
  unfolding reaches_def using rtranclp_trans follows_trans by metis

lemma reaches_step: "reaches h s \<Longrightarrow> store_step s s' \<Longrightarrow> follows_machine s s' \<Longrightarrow> reaches h s'"
  unfolding reaches_def using rtranclp.rtrancl_into_rtrancl follows_trans by metis

named_theorems chain \<open>what is reached after one more operation\<close>

lemma eg_store_simps [simp]:
  "eg_store (upd i f g) = eg_store g" "eg_store (set_store s g) = s" "eg_store (put_queue i x g) = eg_store g"
  "eg_store (set_task i t g) = eg_store g" "eg_store (pop_run i g) = eg_store g"
  "eg_store (release_slot i g) = eg_store g" "eg_store (add_managed m g) = eg_store g"
  "eg_store (register rid i g) = eg_store g" "eg_store (cancel_task i g) = eg_store g"
  "eg_store (undisturbed i g) = eg_store g"
  by (simp_all add: upd_def set_store_def put_queue_def set_task_def pop_run_def release_slot_def add_managed_def
      register_def cancel_task_def undisturbed_def)

lemma reaches_append [chain]:
  assumes "reaches h s"
  shows "reaches h (snd (append_event s tid rid ty p))"
proof (cases "append_lookup s rid ty p")
  case None
  have "snd (append_event s tid rid ty p) = snd (append_insert s tid rid ty p)" using None by (simp add: append_event_def)
  then show ?thesis using reaches_step [OF assms store_step.insert] follows_same [OF status_append] by metis
qed (simp add: append_event_def assms)

lemma reaches_update [chain]: "reaches h s \<Longrightarrow> reaches h (snd (update_run_status s rid st err cpl))"
  by (rule reaches_step [OF _ store_step.update follows_update])

lemma reaches_create [chain]: "reaches h s \<Longrightarrow> reaches h (snd (create_run s tid rid st key hash))"
  by (rule reaches_step [OF _ store_step.create follows_create])

lemma reaches_recovered [chain]: "reaches h s \<Longrightarrow> reaches h (snd (mark_run_recovered s rid reason))"
  by (rule reaches_step [OF _ store_step.recovered follows_same]) simp_all

lemma follows_frame: "same_runs_and_log s s' \<Longrightarrow> follows_machine s s'"
  by (intro follows_same ext run_status_same)

lemma reaches_append_for [chain]: "reaches h (eg_store g) \<Longrightarrow> reaches h (eg_store (append_for i ty p g))"
  by (simp add: append_for_def reaches_append)

lemma store_status_for:
  "eg_store (snd (status_for i st err cpl g)) = snd (update_run_status (eg_store g) (m_run_id (obj g i)) st err cpl)"
  by (simp add: status_for_def split_beta)

lemma store_complete_for:
  "eg_store (snd (complete_for i err g)) = snd (complete_run (eg_store g) (m_run_id (obj g i)) err)"
  by (simp add: complete_for_def split_beta)

lemma reaches_status_for [chain]: "reaches h (eg_store g) \<Longrightarrow> reaches h (eg_store (snd (status_for i st err cpl g)))"
  by (simp add: store_status_for reaches_update)

lemma reaches_complete_for [chain]: "reaches h (eg_store g) \<Longrightarrow> reaches h (eg_store (snd (complete_for i err g)))"
  by (simp add: store_complete_for complete_run_def Let_def reaches_update)

lemma reaches_checkpoint_meta [chain]:
  "reaches h (eg_store g) \<Longrightarrow> reaches h (eg_store (snd (append_checkpoint_meta i g)))"
  by (simp add: append_checkpoint_meta_def reaches_append_for split: option.split)

lemma reaches_emit [chain]: "reaches h (eg_store g) \<Longrightarrow> reaches h (eg_store (emit_runtime i ev g))"
  by (simp add: emit_runtime_def chain)

lemma reaches_failed_meta [chain]:
  "reaches h (eg_store g) \<Longrightarrow> reaches h (eg_store (append_failed_meta i err rs ph g))"
  by (simp add: append_failed_meta_def chain)

lemma reaches_mark_cancelled [chain]: "reaches h (eg_store g) \<Longrightarrow> reaches h (eg_store (mark_cancelled i g))"
  by (simp add: mark_cancelled_def chain)

lemma reaches_fail_run [chain]: "reaches h (eg_store g) \<Longrightarrow> reaches h (eg_store (fail_run i m er rs ph g))"
  by (simp add: fail_run_def Let_def chain)

lemma reaches_finalize_rest [chain]: "reaches h (eg_store g) \<Longrightarrow> reaches h (eg_store (finalize_rest i c cc g))"
  by (simp add: finalize_rest_def append_consistency_checked_def Let_def chain)

lemma reaches_checked [chain]: "reaches h (eg_store g) \<Longrightarrow> reaches h (eg_store (checkpoint_checked i c b n ids sn g))"
  by (simp add: checkpoint_checked_def Let_def chain)

lemma reaches_finalize [chain]: "reaches h (eg_store g) \<Longrightarrow> reaches h (eg_store (finalize_memory i c g))"
  by (simp add: finalize_memory_def chain split: prod.split)

lemma reaches_finally [chain]: "reaches h (eg_store g) \<Longrightarrow> reaches h (eg_store (finally_block i c g))"
  by (simp add: finally_block_def Let_def chain)

lemma reaches_after_wait [chain]: "reaches h (eg_store g) \<Longrightarrow> reaches h (eg_store (after_wait i c g))"
  by (simp add: after_wait_def Let_def split_beta chain split: option.split)

lemma reaches_interrupt [chain]: "reaches h (eg_store g) \<Longrightarrow> reaches h (eg_store (handle_interrupt i c p g))"
  by (simp add: handle_interrupt_def Let_def split_beta chain split: option.split)

lemma reaches_tasks [chain]:
  "reaches h (eg_store g) \<Longrightarrow> reaches h (eg_store (execute_start i c g))"
  "reaches h (eg_store g) \<Longrightarrow> reaches h (eg_store (execute_outcome i c out g))"
  "reaches h (eg_store g) \<Longrightarrow> reaches h (eg_store (execute_wake i c g))"
  "reaches h (eg_store g) \<Longrightarrow> reaches h (eg_store (execute_second_outcome i c out g))"
  "reaches h (eg_store g) \<Longrightarrow> reaches h (eg_store (continue_start i c g))"
  "reaches h (eg_store g) \<Longrightarrow> reaches h (eg_store (continue_outcome i c out g))"
  by (simp_all add: execute_start_def execute_outcome_def execute_wake_def execute_second_outcome_def
      continue_start_def continue_outcome_def continue_interrupt_def Let_def split_beta chain
      split: option.split run_outcome.split)

lemma reaches_continuation [chain]:
  "reaches h (eg_store g) \<Longrightarrow> reaches h (eg_store (snd (start_approval_continuation i g)))"
  "reaches h (eg_store g) \<Longrightarrow> reaches h (eg_store (snd (resolve_approval i g)))"
  by (auto simp: start_approval_continuation_def resolve_approval_def acquire_slot_def split: sum.split)

lemma reaches_blocked [chain]:
  "reaches h s \<Longrightarrow> reaches h (snd (blocked_side_effects sha ok tid rid known vs s))"
proof (induction sha ok tid rid known vs s rule: blocked_side_effects.induct)
  case (2 sha ok tid rid known v vs s)
  have u: "reaches h (s\<lparr>uuid_pos := Suc (uuid_pos s)\<rparr>)"
    using reaches_step [OF 2(4) store_step.uuid follows_frame [OF uuid4_frame]] by (simp add: uuid4_def)
  show ?case
    using 2 u by (simp add: Let_def uuid4_def chain split: option.split)
qed simp

lemma reaches_requests [chain]:
  "reaches h (eg_store g) \<Longrightarrow> reaches h (eg_store (snd (engine_create_run g tid msgs confirm strm key)))"
  "reaches h (eg_store g) \<Longrightarrow> reaches h (eg_store (snd (engine_cancel g rid)))"
  "reaches h (eg_store g) \<Longrightarrow> reaches h (eg_store (snd (engine_approve g rid)))"
  "reaches h (eg_store g) \<Longrightarrow> reaches h (eg_store (snd (engine_reject g rid)))"
  "reaches h (eg_store g) \<Longrightarrow> reaches h (eg_store (snd (stream_get i g)))"
proof -
  assume r: "reaches h (eg_store g)"
  show "reaches h (eg_store (snd (engine_create_run g tid msgs confirm strm key)))"
    using r by (simp add: engine_create_run_def acquire_slot_def admit_run_def Let_def split_beta chain split: sum.split)
  show "reaches h (eg_store (snd (engine_cancel g rid)))"
    using r by (simp add: engine_cancel_def Let_def split_beta chain split: option.split sum.split)
  show "reaches h (eg_store (snd (engine_approve g rid)))"
    using r by (simp add: engine_approve_def Let_def split_beta chain split: option.split sum.split)
  show "reaches h (eg_store (snd (engine_reject g rid)))"
    using r by (simp add: engine_reject_def append_blocked_side_effects_def Let_def split_beta chain
        split: option.split sum.split)
  show "reaches h (eg_store (snd (stream_get i g)))"
    using r by (simp add: stream_get_def Let_def split: option.split list.split)
qed

lemma reaches_recover:
  "reaches h s \<Longrightarrow> recover_failed_run reason r s = Inr s' \<Longrightarrow> reaches h s'"
  "reaches h s \<Longrightarrow> recover_cancelled_run reason r s = Inr s' \<Longrightarrow> reaches h s'"
  by (auto simp: recover_failed_run_def recover_cancelled_run_def Let_def split_beta split: sum.splits intro!: chain)

lemma reaches_recover_all:
  assumes "\<And>r s s'. reaches h s \<Longrightarrow> f r s = Inr s' \<Longrightarrow> reaches h s'"
  shows "reaches h s \<Longrightarrow> recover_all f rs s = Inr s' \<Longrightarrow> reaches h s'"
  using assms by (induction f rs s rule: recover_all.induct) (auto split: sum.splits)

lemma reaches_rehydrate: "reaches h (eg_store g) \<Longrightarrow> reaches h (eg_store (fold rehydrate_run rs g))"
  by (induction rs arbitrary: g) (simp_all add: rehydrate_run_def Let_def chain)

lemma reaches_init:
  assumes "engine_init cfg s = Inr g"
  shows "reaches s (eg_store g)"
proof -
  obtain s1 s2 where
    s1: "recover_all (recover_cancelled_run ''process_restarted'') (runs_with_status s [RUN_STATUS_CANCELLING]) s = Inr s1"
    and s2: "recover_all (recover_failed_run ''process_restarted'')
      (runs_with_status s1 [RUN_STATUS_QUEUED, RUN_STATUS_RUNNING]) s1 = Inr s2"
    and g: "g = fold rehydrate_run (runs_with_status s2 [RUN_STATUS_WAITING_APPROVAL]) (fresh_engine cfg s2)"
    using assms by (auto simp: engine_init_def split: sum.splits)
  have "reaches s s1" by (rule reaches_recover_all [OF reaches_recover(2) reaches_refl s1])
  from reaches_recover_all [OF reaches_recover(1) this s2] have "reaches s s2" .
  then show ?thesis unfolding g by (intro reaches_rehydrate) (simp add: fresh_engine_def)
qed

lemma env_reaches: "env_step s s' \<Longrightarrow> reaches s s'"
proof (induction rule: env_step.induct)
  case (env_append s tid rid ty p)
  then show ?case by (simp add: chain)
next
  case (env_file s tid rid key hash)
  then show ?case by (simp add: chain)
qed (rule reaches_step [OF reaches_refl], rule store_step.intros, rule follows_frame, rule frame)+

lemma engine_step_reaches: "engine_step g g' \<Longrightarrow> reaches (eg_store g) (eg_store g')"
  by (induction rule: engine_step.induct) (auto intro: chain reaches_init env_reaches)

interpretation engine_status: status_client store_step store_inv run_status engine_step eg_store
  by unfold_locales (use engine_step_reaches reaches_steps in blast)

end
