(* ===== verification/EngineInv.thy ===== *)
theory EngineInv
  imports EngineSteps
begin

text \<open>
  The invariant of the engine: the slots of the semaphore are accounted for, a task that is under way holds
  one, the run table points at the objects of its runs, and a resumed run has been approved.
\<close>

section \<open>What the operations leave alone\<close>

lemma engine_frame [simp]:
  "eg_objs (set_store s g) = eg_objs g" "eg_runs (set_store s g) = eg_runs g"
  "eg_slots (set_store s g) = eg_slots g" "eg_limit (set_store s g) = eg_limit g"
  "eg_runs (upd i f g) = eg_runs g" "eg_slots (upd i f g) = eg_slots g" "eg_limit (upd i f g) = eg_limit g"
  "length (eg_objs (upd i f g)) = length (eg_objs g)"
  "eg_objs (append_for i ty p g) = eg_objs g" "eg_runs (append_for i ty p g) = eg_runs g"
  "eg_slots (append_for i ty p g) = eg_slots g" "eg_limit (append_for i ty p g) = eg_limit g"
  "eg_objs (snd (status_for i st err cpl g)) = eg_objs g" "eg_runs (snd (status_for i st err cpl g)) = eg_runs g"
  "eg_slots (snd (status_for i st err cpl g)) = eg_slots g" "eg_limit (snd (status_for i st err cpl g)) = eg_limit g"
  "eg_objs (snd (complete_for i err g)) = eg_objs g" "eg_runs (snd (complete_for i err g)) = eg_runs g"
  "eg_slots (snd (complete_for i err g)) = eg_slots g" "eg_limit (snd (complete_for i err g)) = eg_limit g"
  by (simp_all add: set_store_def upd_def append_for_def status_for_def complete_for_def split_beta)

lemma checkpoint_meta_frame [simp]:
  "eg_objs (snd (append_checkpoint_meta i g)) = eg_objs g" "eg_runs (snd (append_checkpoint_meta i g)) = eg_runs g"
  "eg_slots (snd (append_checkpoint_meta i g)) = eg_slots g" "eg_limit (snd (append_checkpoint_meta i g)) = eg_limit g"
  by (simp_all add: append_checkpoint_meta_def split: option.split)

lemma obj_frame [simp]:
  "obj (set_store s g) i = obj g i" "obj (append_for j ty p g) i = obj g i"
  "obj (snd (status_for j st err cpl g)) i = obj g i" "obj (snd (complete_for j err g)) i = obj g i"
  "obj (snd (append_checkpoint_meta j g)) i = obj g i"
  by (simp_all add: obj_def)

lemma obj_upd: "i < length (eg_objs g) \<Longrightarrow> obj (upd i f g) j = (if j = i then f (obj g i) else obj g j)"
  by (simp add: obj_def upd_def)

section \<open>Objects\<close>

definition live :: "managed \<Rightarrow> bool" where
  "live m \<longleftrightarrow> (case m_task m of
     Some t \<Rightarrow> (case t of TStart \<Rightarrow> True | TRun _ \<Rightarrow> True | TWait \<Rightarrow> True | TRejected \<Rightarrow> True | TResumed \<Rightarrow> True
              | CStart \<Rightarrow> True | CRejected \<Rightarrow> True | CResumed \<Rightarrow> True | _ \<Rightarrow> False)
   | None \<Rightarrow> False)"

definition approval_logged :: "store \<Rightarrow> string \<Rightarrow> bool" where
  "approval_logged s rid \<longleftrightarrow> (\<exists>e \<in> set (run_log s rid). ev_type e = ''approval_resolved''
     \<and> dget (payload_of e) ''approved'' = PBool True)"

definition obj_ok :: "store \<Rightarrow> managed \<Rightarrow> bool" where
  "obj_ok s m \<longleftrightarrow> (live m \<longrightarrow> m_slot m)
     \<and> (m_task m \<in> {Some TResumed, Some CResumed} \<longrightarrow> m_approved m)
     \<and> (m_task m = Some (TRun True) \<longrightarrow> m_confirm_dangerous m \<or> m_approved m)
     \<and> (m_approval_event m \<longrightarrow> m_approved m \<or> m_rejected m \<or> m_cancel_requested m)
     \<and> (m_task m = Some CStart \<longrightarrow> m_approved m \<or> m_rejected m)
     \<and> (m_approved m \<longrightarrow> m_confirm_dangerous m \<or> approval_logged s (m_run_id m))"

definition objs_ok :: "engine \<Rightarrow> bool" where
  "objs_ok g \<longleftrightarrow> (\<forall>m \<in> set (eg_objs g). obj_ok (eg_store g) m)"

definition table_ok :: "engine \<Rightarrow> bool" where
  "table_ok g \<longleftrightarrow> (\<forall>rid i. eg_runs g rid = Some i \<longrightarrow> i < length (eg_objs g) \<and> m_run_id (obj g i) = rid)"

definition holders :: "engine \<Rightarrow> nat" where
  "holders g = length (filter m_slot (eg_objs g))"

definition slots_ok :: "engine \<Rightarrow> bool" where
  "slots_ok g \<longleftrightarrow> eg_slots g + int (holders g) = eg_limit g \<and> 0 \<le> eg_slots g"

definition engine_inv :: "engine \<Rightarrow> bool" where
  "engine_inv g \<longleftrightarrow> objs_ok g \<and> table_ok g \<and> slots_ok g"

lemma approval_mono: "reaches s s' \<Longrightarrow> approval_logged s rid \<Longrightarrow> approval_logged s' rid"
  using store_steps_events [OF reaches_steps] by (fastforce simp: approval_logged_def run_log_def)

lemma obj_ok_mono: "reaches s s' \<Longrightarrow> obj_ok s m \<Longrightarrow> obj_ok s' m"
  unfolding obj_ok_def using approval_mono by blast

lemma obj_in: "i < length (eg_objs g) \<Longrightarrow> obj g i \<in> set (eg_objs g)"
  by (simp add: obj_def)

text \<open>The three ways the engine changes: the store moves on, one object changes, one is added.\<close>

lemma inv_store:
  "engine_inv g \<Longrightarrow> reaches (eg_store g) s \<Longrightarrow> engine_inv (set_store s g)"
  by (auto simp: engine_inv_def objs_ok_def table_ok_def slots_ok_def holders_def intro: obj_ok_mono)

lemma inv_same:
  assumes "engine_inv g" and "reaches (eg_store g) (eg_store g')" and "eg_objs g' = eg_objs g"
    and "eg_runs g' = eg_runs g" and "eg_slots g' = eg_slots g" and "eg_limit g' = eg_limit g"
  shows "engine_inv g'"
  using assms by (auto simp: engine_inv_def objs_ok_def table_ok_def slots_ok_def holders_def obj_def intro: obj_ok_mono)

lemma filter_length_update:
  "i < length xs \<Longrightarrow> int (length (filter p (xs[i := y]))) =
    int (length (filter p xs)) + (if p y then 1 else 0) - (if p (xs ! i) then 1 else 0)"
proof (induction xs arbitrary: i)
  case (Cons x xs)
  show ?case
  proof (cases i)
    case 0
    then show ?thesis by simp
  next
    case (Suc j)
    then have "j < length xs" using Cons.prems by simp
    from Cons.IH [OF this] show ?thesis using Suc by (cases "p x") simp_all
  qed
qed simp

lemma inv_upd:
  assumes inv: "engine_inv g" and st: "reaches (eg_store g) (eg_store g')" and i: "i < length (eg_objs g)"
    and objs: "eg_objs g' = (eg_objs g)[i := m]" and ok: "obj_ok (eg_store g') m"
    and rid: "m_run_id m = m_run_id (obj g i)"
    and runs: "\<And>r j. eg_runs g' r = Some j \<Longrightarrow> eg_runs g r = Some j"
    and lim: "eg_limit g' = eg_limit g" "0 \<le> eg_slots g'"
      "eg_slots g' = eg_slots g - (if m_slot m then 1 else 0) + (if m_slot (obj g i) then 1 else 0)"
  shows "engine_inv g'"
proof -
  have "obj_ok (eg_store g') m'" if "m' \<in> set (eg_objs g')" for m'
  proof -
    have "m' = m \<or> m' \<in> set (eg_objs g)" using that set_update_subset_insert unfolding objs by fastforce
    then show ?thesis using ok inv st by (auto simp: engine_inv_def objs_ok_def intro: obj_ok_mono)
  qed
  moreover have "table_ok g'"
    unfolding table_ok_def
  proof (intro allI impI)
    fix r j assume "eg_runs g' r = Some j"
    then have "j < length (eg_objs g)" "m_run_id (obj g j) = r" using runs inv by (auto simp: engine_inv_def table_ok_def)
    then show "j < length (eg_objs g') \<and> m_run_id (obj g' j) = r"
      using rid i by (cases "j = i") (auto simp: objs obj_def)
  qed
  moreover have "slots_ok g'"
    using inv lim filter_length_update [OF i, of m_slot m]
    by (auto simp: slots_ok_def engine_inv_def holders_def objs obj_def)
  ultimately show ?thesis by (simp add: engine_inv_def objs_ok_def)
qed

lemma inv_obj: "engine_inv g \<Longrightarrow> i < length (eg_objs g) \<Longrightarrow> obj_ok (eg_store g) (obj g i)"
  using obj_in by (auto simp: engine_inv_def objs_ok_def)

text \<open>An update of an object that keeps its slot and its run.\<close>

lemma inv_upd_simple:
  assumes "engine_inv g" and "i < length (eg_objs g)" and "obj_ok (eg_store g) (f (obj g i))"
    and "m_run_id (f (obj g i)) = m_run_id (obj g i)" and "m_slot (f (obj g i)) = m_slot (obj g i)"
  shows "engine_inv (upd i f g)"
  by (rule inv_upd [OF assms(1) _ assms(2), of _ "f (obj g i)"])
    (use assms in \<open>auto simp: upd_def obj_def engine_inv_def slots_ok_def\<close>)

section \<open>The \<open>finally\<close> block\<close>

definition ended :: "task \<Rightarrow> bool" where
  "ended t \<longleftrightarrow> t \<in> {TDone, TCompact} \<or> (\<exists>b n ids. t = TSnapshot b n ids)"

lemma finalize_rest_effect:
  assumes "i < length (eg_objs g)"
  shows "\<exists>t. ended t \<and> eg_objs (finalize_rest i c cc g) = (eg_objs g)[i := (obj g i)\<lparr>m_task := Some t\<rparr>]
    \<and> eg_slots (finalize_rest i c cc g) = eg_slots g \<and> eg_limit (finalize_rest i c cc g) = eg_limit g
    \<and> (\<forall>r j. eg_runs (finalize_rest i c cc g) r = Some j \<longrightarrow> eg_runs g r = Some j)"
  using assms
  by (auto simp: finalize_rest_def append_consistency_checked_def pop_run_def upd_def ended_def obj_def Let_def)

lemma checkpoint_checked_effect:
  assumes "i < length (eg_objs g)"
  shows "\<exists>t. ended t \<and> eg_objs (checkpoint_checked i c b n ids sn g) = (eg_objs g)[i := (obj g i)\<lparr>m_task := Some t\<rparr>]
    \<and> eg_slots (checkpoint_checked i c b n ids sn g) = eg_slots g \<and> eg_limit (checkpoint_checked i c b n ids sn g) = eg_limit g
    \<and> (\<forall>r j. eg_runs (checkpoint_checked i c b n ids sn g) r = Some j \<longrightarrow> eg_runs g r = Some j)"
  using finalize_rest_effect [of i "append_for i ''checkpoint_consistency_checked'' (checkpoint_payload b n ids sn) g"] assms
  by (simp add: checkpoint_checked_def Let_def)

lemma finalize_memory_effect:
  assumes "i < length (eg_objs g)"
  shows "\<exists>t. ended t \<and> eg_objs (finalize_memory i c g) = (eg_objs g)[i := (obj g i)\<lparr>m_task := Some t\<rparr>]
    \<and> eg_slots (finalize_memory i c g) = eg_slots g \<and> eg_limit (finalize_memory i c g) = eg_limit g
    \<and> (\<forall>r j. eg_runs (finalize_memory i c g) r = Some j \<longrightarrow> eg_runs g r = Some j)"
proof -
  obtain b n ids where m: "completed_meta (eg_store g) (m_run_id (obj g i)) = (b, n, ids)" by (metis prod_cases3)
  have "ended (TSnapshot b n ids)" by (simp add: ended_def)
  moreover have "finalize_memory i c g \<in> {finalize_rest i c None g,
      upd i (\<lambda>m. m\<lparr>m_task := Some (TSnapshot b n ids)\<rparr>) g, checkpoint_checked i c b n ids NoGraph g}"
    unfolding finalize_memory_def m by (simp only: prod.case insert_iff empty_iff split: if_split) blast
  moreover define g' where "g' = finalize_memory i c g"
  ultimately show ?thesis
    using checkpoint_checked_effect [OF assms, of c b n ids NoGraph] finalize_rest_effect [OF assms, of c None]
    unfolding g'_def [symmetric] by (elim insertE emptyE) (auto simp: upd_def obj_def)
qed

lemma finally_effect:
  assumes "i < length (eg_objs g)"
  shows "\<exists>t q. ended t \<and> eg_objs (finally_block i c g) =
      (eg_objs g)[i := (obj g i)\<lparr>m_queue := q, m_slot := False, m_task := Some t\<rparr>]
    \<and> eg_slots (finally_block i c g) = eg_slots g + (if m_slot (obj g i) then 1 else 0)
    \<and> eg_limit (finally_block i c g) = eg_limit g
    \<and> (\<forall>r j. eg_runs (finally_block i c g) r = Some j \<longrightarrow> eg_runs g r = Some j)"
proof -
  define h where "h = release_slot i (put_queue i FinalMarker g)"
  define q where "q = map_option (\<lambda>q. q @ [FinalMarker]) (m_queue (obj g i))"
  have same: "m\<lparr>m_slot := False\<rparr> = m" if "\<not> m_slot m" for m :: managed
    using that by (cases m) simp
  have h: "eg_objs h = (eg_objs g)[i := (obj g i)\<lparr>m_queue := q, m_slot := False\<rparr>]"
      "eg_slots h = eg_slots g + (if m_slot (obj g i) then 1 else 0)" "eg_limit h = eg_limit g" "eg_runs h = eg_runs g"
      "length (eg_objs h) = length (eg_objs g)" "obj h i = (obj g i)\<lparr>m_queue := q, m_slot := False\<rparr>"
    using assms by (auto simp: h_def q_def release_slot_def put_queue_def upd_def obj_def same)
  show ?thesis
  proof (cases "is_terminal h i")
    case True
    then have f: "finally_block i c g = finalize_memory i c h" by (simp add: finally_block_def h_def)
    have "i < length (eg_objs h)" using assms h(5) by simp
    from finalize_memory_effect [OF this, of c] obtain t where t: "ended t"
        "eg_objs (finalize_memory i c h) = (eg_objs h)[i := (obj h i)\<lparr>m_task := Some t\<rparr>]"
        "eg_slots (finalize_memory i c h) = eg_slots h" "eg_limit (finalize_memory i c h) = eg_limit h"
        "\<forall>r j. eg_runs (finalize_memory i c h) r = Some j \<longrightarrow> eg_runs h r = Some j"
      by blast
    have "eg_objs (finalize_memory i c h) = (eg_objs g)[i := (obj g i)\<lparr>m_queue := q, m_slot := False, m_task := Some t\<rparr>]"
      unfolding t(2) h(1) h(6) by simp
    then show ?thesis
      using t(1,3-5) unfolding f h(2-4) by (intro exI [of _ t] exI [of _ q] conjI)
  next
    case False
    then have "finally_block i c g = upd i (\<lambda>m. m\<lparr>m_task := Some TDone\<rparr>) h" by (simp add: finally_block_def h_def)
    then have "eg_objs (finally_block i c g) = (eg_objs g)[i := (obj g i)\<lparr>m_queue := q, m_slot := False, m_task := Some TDone\<rparr>]"
        "eg_slots (finally_block i c g) = eg_slots h" "eg_limit (finally_block i c g) = eg_limit h"
        "eg_runs (finally_block i c g) = eg_runs h"
      using h(1,6) by (simp_all add: upd_def obj_def)
    moreover have "ended TDone" by (simp add: ended_def)
    ultimately show ?thesis unfolding h(2-4) by (intro exI [of _ TDone] exI [of _ q] conjI) simp_all
  qed
qed

lemma obj_ok_ended:
  assumes "obj_ok s m" and "ended t"
  shows "obj_ok s (m\<lparr>m_queue := q, m_slot := b, m_task := Some t\<rparr>)"
proof -
  have "t = TDone \<or> t = TCompact \<or> (\<exists>b n ids. t = TSnapshot b n ids)" using assms(2) by (auto simp: ended_def)
  then show ?thesis
    using assms(1) by (elim disjE exE) (simp_all add: obj_ok_def live_def)
qed

lemma inv_finally:
  assumes inv: "engine_inv g" and i: "i < length (eg_objs g)"
  shows "engine_inv (finally_block i c g)"
proof -
  obtain t q where e: "ended t" "eg_objs (finally_block i c g) =
      (eg_objs g)[i := (obj g i)\<lparr>m_queue := q, m_slot := False, m_task := Some t\<rparr>]"
    "eg_slots (finally_block i c g) = eg_slots g + (if m_slot (obj g i) then 1 else 0)"
    "eg_limit (finally_block i c g) = eg_limit g"
    "\<forall>r j. eg_runs (finally_block i c g) r = Some j \<longrightarrow> eg_runs g r = Some j"
    using finally_effect [OF i] by blast
  have st: "reaches (eg_store g) (eg_store (finally_block i c g))" by (simp add: chain)
  have "obj_ok (eg_store (finally_block i c g)) (obj g i)" using inv_obj [OF inv i] obj_ok_mono [OF st] by blast
  then have "obj_ok (eg_store (finally_block i c g)) ((obj g i)\<lparr>m_queue := q, m_slot := False, m_task := Some t\<rparr>)"
    using e(1) by (rule obj_ok_ended)
  then show ?thesis
    by (rule inv_upd [OF inv st i e(2)])
      (use e inv in \<open>auto simp: engine_inv_def slots_ok_def\<close>)
qed

end
