(* ===== verification/EngineKeeps.thy ===== *)
theory EngineKeeps
  imports EngineInv
begin

text \<open>Every step of the engine keeps its invariant, and a restart establishes it.\<close>

section \<open>The building blocks\<close>

named_theorems keeps \<open>operations that keep the invariant of the engine\<close>

lemma engine_frame2 [simp]:
  "length (eg_objs (put_queue i x g)) = length (eg_objs g)"
  "length (eg_objs (set_task i t g)) = length (eg_objs g)"
  "length (eg_objs (undisturbed i g)) = length (eg_objs g)"
  "length (eg_objs (emit_runtime i ev g)) = length (eg_objs g)"
  "eg_objs (append_failed_meta i m rs ph g) = eg_objs g"
  "eg_objs (mark_cancelled i g) = eg_objs g"
  "length (eg_objs (fail_run i m er rs ph g)) = length (eg_objs g)"
  by (simp_all add: put_queue_def set_task_def undisturbed_def emit_runtime_def append_failed_meta_def mark_cancelled_def
      fail_run_def Let_def)

lemma keeps_put_queue [keeps]: "engine_inv g \<Longrightarrow> i < length (eg_objs g) \<Longrightarrow> engine_inv (put_queue i x g)"
  unfolding put_queue_def by (rule inv_upd_simple) (use inv_obj in \<open>auto simp: obj_ok_def live_def\<close>)

lemma keeps_append_for [keeps]: "engine_inv g \<Longrightarrow> engine_inv (append_for i ty p g)"
  by (rule inv_same) (simp_all add: chain)

lemma keeps_status_for [keeps]: "engine_inv g \<Longrightarrow> engine_inv (snd (status_for i st err cpl g))"
  by (rule inv_same) (simp_all add: chain)

lemma keeps_complete_for [keeps]: "engine_inv g \<Longrightarrow> engine_inv (snd (complete_for i err g))"
  by (rule inv_same) (simp_all add: chain)

lemma keeps_checkpoint_meta [keeps]: "engine_inv g \<Longrightarrow> engine_inv (snd (append_checkpoint_meta i g))"
  by (rule inv_same) (simp_all add: chain)

lemma keeps_mark_cancelled [keeps]: "engine_inv g \<Longrightarrow> engine_inv (mark_cancelled i g)"
  by (simp add: mark_cancelled_def keeps)

lemma keeps_fail_run [keeps]:
  "engine_inv g \<Longrightarrow> i < length (eg_objs g) \<Longrightarrow> engine_inv (fail_run i m er rs ph g)"
  by (simp add: fail_run_def Let_def emit_runtime_def append_failed_meta_def keeps)

lemmas keeps_finally [keeps] = inv_finally

lemma keeps_undisturbed [keeps]: "engine_inv g \<Longrightarrow> i < length (eg_objs g) \<Longrightarrow> engine_inv (undisturbed i g)"
  unfolding undisturbed_def by (rule inv_upd_simple) (use inv_obj in \<open>auto simp: obj_ok_def live_def\<close>)

lemma keeps_set_task:
  "engine_inv g \<Longrightarrow> i < length (eg_objs g) \<Longrightarrow> obj_ok (eg_store g) ((obj g i)\<lparr>m_task := Some t\<rparr>) \<Longrightarrow>
   engine_inv (set_task i t g)"
  unfolding set_task_def by (rule inv_upd_simple) simp_all

lemma keeps_set_ended [keeps]:
  assumes "engine_inv g" and "i < length (eg_objs g)" and "ended t"
  shows "engine_inv (set_task i t g)"
  using assms obj_ok_ended [OF inv_obj [OF assms(1,2)] assms(3), where q = "m_queue (obj g i)" and b = "m_slot (obj g i)"]
  by (intro keeps_set_task) simp_all

lemma keeps_pop_run [keeps]:
  assumes "engine_inv g" and "i < length (eg_objs g)"
  shows "engine_inv (pop_run i g)"
proof -
  have "engine_inv (g\<lparr>eg_runs := (eg_runs g)(m_run_id (obj g i) := None)\<rparr>)"
    using assms by (auto simp: engine_inv_def objs_ok_def table_ok_def slots_ok_def holders_def obj_def)
  then show ?thesis
    using assms keeps_set_ended [of _ i TDone] by (simp add: pop_run_def set_task_def [symmetric] ended_def)
qed

lemma keeps_finalize_rest [keeps]:
  "engine_inv g \<Longrightarrow> i < length (eg_objs g) \<Longrightarrow> engine_inv (finalize_rest i c cc g)"
  using keeps_set_ended [of _ i TCompact]
  by (simp add: finalize_rest_def append_consistency_checked_def Let_def ended_def set_task_def [symmetric] keeps)

lemma keeps_checked [keeps]:
  "engine_inv g \<Longrightarrow> i < length (eg_objs g) \<Longrightarrow> engine_inv (checkpoint_checked i c b n ids sn g)"
  by (simp add: checkpoint_checked_def Let_def keeps)

section \<open>The tasks\<close>

lemma live_slot: "engine_inv g \<Longrightarrow> at g i t \<Longrightarrow> live (obj g i) \<Longrightarrow> m_slot (obj g i)"
  using inv_obj by (auto simp: at_def obj_ok_def)

lemma at_live: "at g i TStart \<Longrightarrow> live (obj g i)" "at g i (TRun d) \<Longrightarrow> live (obj g i)" "at g i TWait \<Longrightarrow> live (obj g i)"
    "at g i CStart \<Longrightarrow> live (obj g i)"
  by (simp_all add: at_def live_def)

text \<open>Giving a live task to an object that has a slot.\<close>

lemma obj_ok_task:
  assumes "obj_ok s m" and "m_slot m" and "t \<in> {TResumed, CResumed} \<Longrightarrow> m_approved m"
    and "t = TRun True \<Longrightarrow> m_confirm_dangerous m \<or> m_approved m"
    and "t = CStart \<Longrightarrow> m_approved m \<or> m_rejected m"
  shows "obj_ok s (m\<lparr>m_task := Some t\<rparr>)"
  using assms by (simp add: obj_ok_def)

lemma keeps_live_task:
  assumes "engine_inv g" and "i < length (eg_objs g)" and "m_slot (obj g i)"
    and "t \<in> {TResumed, CResumed} \<Longrightarrow> m_approved (obj g i)"
    and "t = TRun True \<Longrightarrow> m_confirm_dangerous (obj g i) \<or> m_approved (obj g i)"
    and "t = CStart \<Longrightarrow> m_approved (obj g i) \<or> m_rejected (obj g i)"
  shows "engine_inv (set_task i t g)"
  by (rule keeps_set_task [OF assms(1,2)]) (rule obj_ok_task [OF inv_obj [OF assms(1,2)] assms(3-6)])

lemma keeps_execute_start:
  assumes inv: "engine_inv g" and "at": "at g i TStart"
  shows "engine_inv (execute_start i c g)"
proof -
  have i: "i < length (eg_objs g)" using "at" by (simp add: at_def)
  have slot: "m_slot (obj g i)" using live_slot [OF inv "at" at_live(1)] "at" by simp
  define g1 where "g1 = snd (status_for i RUN_STATUS_RUNNING None False g)"
  have g1: "engine_inv g1" "length (eg_objs g1) = length (eg_objs g)" "obj g1 i = obj g i"
    unfolding g1_def using inv by (simp_all add: keeps)
  show ?thesis
  proof (cases "fst (status_for i RUN_STATUS_RUNNING None False g)")
    case None
    then have "execute_start i c g = set_task i (TRun (m_confirm_dangerous (obj g i) \<or> m_approved (obj g i)))
        (append_for i ''run_started'' [(''status'', PStr RUN_STATUS_RUNNING)] g1)"
      by (simp add: execute_start_def split_beta g1_def)
    moreover have "engine_inv \<dots>"
      by (rule keeps_live_task) (use g1 i slot in \<open>simp_all add: keeps\<close>)
    ultimately show ?thesis by simp
  next
    case (Some e)
    then show ?thesis using inv i by (simp add: execute_start_def split_beta keeps)
  qed
qed

lemma keeps_flags [keeps]:
  assumes "engine_inv g" and "i < length (eg_objs g)"
  shows "engine_inv (upd i (\<lambda>m. m\<lparr>m_checkpoint_pending := b\<rparr>) g)"
    "engine_inv (upd i (\<lambda>m. m\<lparr>m_interrupt := p, m_checkpoint_pending := b\<rparr>) g)"
    "engine_inv (upd i (\<lambda>m. m\<lparr>m_cancelling := b\<rparr>) g)"
  by (rule inv_upd_simple; use assms inv_obj in \<open>auto simp: obj_ok_def live_def\<close>)+

text \<open>After the wait: the task goes on as resumed only when the run has been approved.\<close>

lemma keeps_after_wait:
  assumes inv: "engine_inv g" and i: "i < length (eg_objs g)" and slot: "m_slot (obj g i)"
    and go: "m_cancel_requested (obj g i) \<or> m_rejected (obj g i) \<or> m_approved (obj g i)"
  shows "engine_inv (after_wait i c g)"
proof -
  define g0 where "g0 = upd i (\<lambda>m. m\<lparr>m_checkpoint_pending := False\<rparr>) g"
  have g0: "engine_inv g0" "i < length (eg_objs g0)" "m_slot (obj g0 i)"
      "m_cancel_requested (obj g0 i) \<or> m_rejected (obj g0 i) \<or> m_approved (obj g0 i)"
    using assms by (simp_all add: g0_def keeps obj_upd)
  have resumed: "engine_inv (set_task i TResumed (append_for i ty p (snd (status_for i st None False g0))))"
    if "m_approved (obj g0 i)" for ty p st
    by (rule keeps_live_task) (use g0 that in \<open>simp_all add: keeps\<close>)
  have rejected: "engine_inv (set_task i TRejected g0)"
    by (rule keeps_live_task) (use g0 in simp_all)
  show ?thesis
    using g0 resumed rejected
    by (cases "m_cancel_requested (obj g0 i)"; cases "m_rejected (obj g0 i)")
      (simp_all add: after_wait_def g0_def [symmetric] split_beta keeps split: option.split)
qed

lemma keeps_handle_interrupt:
  assumes inv: "engine_inv g" and i: "i < length (eg_objs g)" and slot: "m_slot (obj g i)"
  shows "engine_inv (handle_interrupt i c p g)"
proof -
  define g0 where "g0 = upd i (\<lambda>m. m\<lparr>m_interrupt := p, m_checkpoint_pending := True\<rparr>) g"
  have g0: "engine_inv g0" "i < length (eg_objs g0)" "m_slot (obj g0 i)"
    using assms by (simp_all add: g0_def keeps obj_upd)
  define g1 where "g1 = snd (append_checkpoint_meta i (snd (status_for i ''waiting_approval'' None False g0)))"
  have g1: "engine_inv g1" "i < length (eg_objs g1)" "m_slot (obj g1 i)"
    unfolding g1_def using g0 by (simp_all add: keeps)
  have wait: "engine_inv (set_task i TWait g1)"
    by (rule keeps_live_task) (use g1 in simp_all)
  have go: "engine_inv (after_wait i c g1)" if "m_approval_event (obj g1 i)"
    by (rule keeps_after_wait) (use g1 inv_obj [OF g1(1,2)] that in \<open>auto simp: obj_ok_def\<close>)
  show ?thesis
    using inv i g0 g1 wait go
    by (simp add: handle_interrupt_def g0_def [symmetric] g1_def [symmetric] split_beta keeps split: option.split)
qed

lemma keeps_execute_outcome:
  assumes "engine_inv g" and "i < length (eg_objs g)" and "m_slot (obj g i)"
  shows "engine_inv (execute_outcome i c out g)"
  using assms keeps_handle_interrupt
  by (simp add: execute_outcome_def split_beta keeps split: run_outcome.split option.split)

lemma keeps_execute_wake:
  assumes inv: "engine_inv g" and "at": "at g i TWait" and woken: "m_approval_event (obj g i) \<or> m_cancelling (obj g i)"
  shows "engine_inv (execute_wake i c g)"
proof -
  have i: "i < length (eg_objs g)" using "at" by (simp add: at_def)
  have "m_slot (obj g i)" using live_slot [OF inv "at" at_live(3)] "at" by simp
  then have "engine_inv (after_wait i c g)" if "\<not> m_cancelling (obj g i)"
    by (intro keeps_after_wait) (use inv i woken that inv_obj [OF inv i] in \<open>auto simp: obj_ok_def\<close>)
  then show ?thesis using inv i by (simp add: execute_wake_def keeps)
qed

lemma keeps_execute_second:
  "engine_inv g \<Longrightarrow> i < length (eg_objs g) \<Longrightarrow> engine_inv (execute_second_outcome i c out g)"
  by (simp add: execute_second_outcome_def keeps split: run_outcome.split)

lemma keeps_continue_start:
  assumes inv: "engine_inv g" and "at": "at g i CStart"
  shows "engine_inv (continue_start i c g)"
proof -
  have i: "i < length (eg_objs g)" using "at" by (simp add: at_def)
  have slot: "m_slot (obj g i)" using live_slot [OF inv "at" at_live(4)] "at" by simp
  have "m_approved (obj g i) \<or> m_rejected (obj g i)" using inv_obj [OF inv i] "at" by (auto simp: obj_ok_def at_def)
  then have "engine_inv (set_task i CResumed (append_for i ty p (snd (status_for i st None False g))))"
    if "\<not> m_rejected (obj g i)" for ty p st
    by (intro keeps_live_task) (use inv i slot that in \<open>simp_all add: keeps\<close>)
  moreover have "engine_inv (set_task i CRejected g)"
    by (rule keeps_live_task) (use inv i slot in simp_all)
  ultimately show ?thesis
    using inv i by (simp add: continue_start_def split_beta keeps split: option.split)
qed

lemma keeps_continue_outcome:
  "engine_inv g \<Longrightarrow> i < length (eg_objs g) \<Longrightarrow> engine_inv (continue_outcome i c out g)"
  by (simp add: continue_outcome_def continue_interrupt_def Let_def split_beta keeps
      split: run_outcome.split option.split)

section \<open>The requests\<close>

lemma inv_add:
  assumes inv: "engine_inv g" and st: "reaches (eg_store g) (eg_store g')" and objs: "eg_objs g' = eg_objs g @ [m]"
    and ok: "obj_ok (eg_store g') m"
    and runs: "eg_runs g' = eg_runs g \<or> eg_runs g' = (eg_runs g)(m_run_id m \<mapsto> length (eg_objs g))"
    and lim: "eg_limit g' = eg_limit g" "eg_slots g' = eg_slots g - (if m_slot m then 1 else 0)" "0 \<le> eg_slots g'"
  shows "engine_inv g'"
proof -
  have "objs_ok g'" using inv st ok by (auto simp: engine_inv_def objs_ok_def objs intro: obj_ok_mono)
  moreover have "table_ok g'"
    using inv runs unfolding engine_inv_def table_ok_def objs obj_def
    by (auto simp: nth_append less_Suc_eq split: if_splits)
  moreover have "slots_ok g'" using inv lim by (auto simp: engine_inv_def slots_ok_def holders_def objs)
  ultimately show ?thesis by (simp add: engine_inv_def)
qed

lemma obj_ok_new: "obj_ok s (new_managed rid tid msgs)"
  by (simp add: obj_ok_def new_managed_def live_def)

lemma create_error: "fst (engine_create_run g tid msgs cf sm key) = Inl e \<Longrightarrow>
    \<exists>s. reaches (eg_store g) s \<and> snd (engine_create_run g tid msgs cf sm key) = set_store s g"
proof -
  assume e: "fst (engine_create_run g tid msgs cf sm key) = Inl e"
  show ?thesis
  proof (cases "eg_slots g \<le> 0")
    case True
    then have "snd (engine_create_run g tid msgs cf sm key) = set_store (eg_store g) g"
      by (simp add: engine_create_run_def acquire_slot_def set_store_def)
    then show ?thesis by (metis reaches_refl)
  next
    case False
    define h where "h = (if truthy (opt_str key) then Some (idempotency_payload_hash (eg_sha256 g)
            [(''messages'', PList msgs), (''confirm_dangerous'', PBool cf), (''stream'', PBool sm)]) else None)"
    have "snd (engine_create_run g tid msgs cf sm key) =
        set_store (snd (create_run (eg_store g) tid None RUN_STATUS_QUEUED key h)) g"
      using e False by (auto simp: engine_create_run_def acquire_slot_def set_store_def h_def Let_def split_beta split: sum.splits)
    then show ?thesis using reaches_create [OF reaches_refl] by metis
  qed
qed

lemma add_managed_frame [simp]:
  "eg_objs (add_managed m g) = eg_objs g @ [m]" "eg_runs (add_managed m g) = eg_runs g"
  "eg_slots (add_managed m g) = eg_slots g" "eg_limit (add_managed m g) = eg_limit g"
  "eg_objs (register rid i g) = eg_objs g" "eg_runs (register rid i g) = (eg_runs g)(rid \<mapsto> i)"
  "eg_slots (register rid i g) = eg_slots g" "eg_limit (register rid i g) = eg_limit g"
  by (simp_all add: add_managed_def register_def)

lemma keeps_admit:
  assumes inv: "engine_inv g" and free: "0 < eg_slots g" and st: "reaches (eg_store g) s"
  shows "engine_inv (snd (admit_run (set_store s (g\<lparr>eg_slots := eg_slots g - 1\<rparr>)) run tid msgs cf sm))"
proof -
  define base where "base = (new_managed (rn_id run) tid msgs)\<lparr>m_confirm_dangerous := cf, m_stream := sm\<rparr>"
  define reused where "reused = base\<lparr>m_queue := (if sm then Some [FinalMarker] else None), m_idempotency_reused := True\<rparr>"
  define fresh where "fresh = base\<lparr>m_queue := (if sm then Some [] else None), m_slot := True,
      m_approved := cf, m_approval_event := cf\<rparr>"
  show ?thesis
  proof (cases "rn_status run \<noteq> RUN_STATUS_QUEUED \<or> has_run_created s (rn_id run)")
    case True
    show ?thesis
      by (rule inv_add [OF inv, of _ reused])
        (use True st inv in \<open>auto simp: admit_run_def Let_def reused_def base_def new_managed_def obj_ok_def live_def
          engine_inv_def slots_ok_def\<close>)
  next
    case False
    show ?thesis
      by (rule inv_add [OF inv, of _ "fresh\<lparr>m_task := Some TStart\<rparr>"])
        (use False st free in \<open>auto simp: admit_run_def Let_def fresh_def base_def new_managed_def obj_ok_def live_def
          set_task_def upd_def chain\<close>)
  qed
qed

lemma keeps_create: 
  assumes inv: "engine_inv g"
  shows "engine_inv (snd (engine_create_run g tid msgs cf sm key))"
proof (cases "fst (engine_create_run g tid msgs cf sm key)")
  case (Inl e)
  from create_error [OF this] show ?thesis using inv inv_store by metis
next
  case (Inr j)
  define h where "h = (if truthy (opt_str key) then Some (idempotency_payload_hash (eg_sha256 g)
            [(''messages'', PList msgs), (''confirm_dangerous'', PBool cf), (''stream'', PBool sm)]) else None)"
  have free: "0 < eg_slots g"
    using Inr by (auto simp: engine_create_run_def acquire_slot_def Let_def split: if_splits)
  obtain run where "fst (create_run (eg_store g) tid None RUN_STATUS_QUEUED key h) = Inr run"
    using Inr free by (auto simp: engine_create_run_def acquire_slot_def h_def Let_def split_beta split: sum.splits)
  then have "snd (engine_create_run g tid msgs cf sm key) =
      snd (admit_run (set_store (snd (create_run (eg_store g) tid None RUN_STATUS_QUEUED key h)) (g\<lparr>eg_slots := eg_slots g - 1\<rparr>))
        run tid msgs cf sm)"
    using free by (simp add: engine_create_run_def acquire_slot_def h_def Let_def split_beta)
  then show ?thesis using keeps_admit [OF inv free] reaches_create [OF reaches_refl] by metis
qed

lemma table_obj: "engine_inv g \<Longrightarrow> eg_runs g rid = Some i \<Longrightarrow> i < length (eg_objs g) \<and> m_run_id (obj g i) = rid"
  by (simp add: engine_inv_def table_ok_def)

lemma keeps_cancel:
  assumes inv: "engine_inv g"
  shows "engine_inv (snd (engine_cancel g rid))"
proof -
  have go: "engine_inv (cancel_task i (upd i (\<lambda>m. m\<lparr>m_cancel_requested := True, m_approval_event := True\<rparr>) (set_store s g)))"
    if i: "i < length (eg_objs g)" and st: "reaches (eg_store g) s" for i s
  proof -
    define g1 where "g1 = set_store s g"
    have g1: "engine_inv g1" "i < length (eg_objs g1)" unfolding g1_def using inv st i by (simp_all add: inv_store)
    have g2: "engine_inv (upd i (\<lambda>m. m\<lparr>m_cancel_requested := True, m_approval_event := True\<rparr>) g1)"
      by (rule inv_upd_simple [OF g1]) (use inv_obj [OF g1] in \<open>auto simp: obj_ok_def live_def\<close>)
    show ?thesis
      unfolding cancel_task_def g1_def [symmetric]
      by (rule inv_upd_simple [OF g2])
        (use g1 inv_obj [OF g2, of i] in \<open>simp_all add: obj_ok_def live_def\<close>)
  qed
  have "reaches (eg_store g) (snd (append_event (snd (update_run_status (eg_store g) rid st None False)) tid rid ty p))"
    for st tid ty p by (simp add: chain)
  moreover have "reaches (eg_store g) (snd (update_run_status (eg_store g) rid st None False))" for st by (simp add: chain)
  ultimately show ?thesis
    using inv table_obj [OF inv, of rid] go
    by (simp add: engine_cancel_def Let_def split_beta inv_store split: option.split sum.split)
qed

lemma keeps_continuation:
  assumes inv: "engine_inv g" and i: "i < length (eg_objs g)" and go: "m_approved (obj g i) \<or> m_rejected (obj g i)"
  shows "engine_inv (snd (resolve_approval i g))"
proof -
  have event: "engine_inv (upd i (\<lambda>m. m\<lparr>m_approval_event := True\<rparr>) g')"
    if "engine_inv g'" "i < length (eg_objs g')" "m_approved (obj g' i) \<or> m_rejected (obj g' i)" for g'
    by (rule inv_upd_simple [OF that(1,2)]) (use inv_obj [OF that(1,2)] that(3) in \<open>auto simp: obj_ok_def live_def\<close>)
  have cont: "engine_inv (upd i (\<lambda>m. m\<lparr>m_task := Some CStart, m_cancelling := False\<rparr>) g')"
    if "engine_inv g'" "i < length (eg_objs g')" "m_approved (obj g' i) \<or> m_rejected (obj g' i)" "m_slot (obj g' i)" for g'
    by (rule inv_upd_simple [OF that(1,2)]) (use inv_obj [OF that(1,2)] that(3,4) in \<open>auto simp: obj_ok_def live_def\<close>)
  define g2 where "g2 = upd i (\<lambda>m. m\<lparr>m_slot := True\<rparr>) (g\<lparr>eg_slots := eg_slots g - 1\<rparr>)"
  have g2: "engine_inv g2" "i < length (eg_objs g2)" "m_approved (obj g2 i) \<or> m_rejected (obj g2 i)" "m_slot (obj g2 i)"
    if "\<not> m_slot (obj g i)" "0 < eg_slots g"
  proof -
    show "engine_inv g2"
      by (rule inv_upd [OF inv _ i, of _ "(obj g i)\<lparr>m_slot := True\<rparr>"])
        (use that inv_obj [OF inv i] in \<open>auto simp: g2_def upd_def obj_def obj_ok_def live_def\<close>)
    show "i < length (eg_objs g2)" "m_approved (obj g2 i) \<or> m_rejected (obj g2 i)" "m_slot (obj g2 i)"
      using i go by (simp_all add: g2_def upd_def obj_def)
  qed
  show ?thesis
    using inv i go event cont g2
    by (cases "m_slot (obj g i)"; cases "eg_slots g \<le> 0")
      (simp_all add: resolve_approval_def start_approval_continuation_def acquire_slot_def g2_def [symmetric] split: sum.split)
qed

lemma approval_recorded: "approval_logged (snd (append_event s tid rid ''approval_resolved'' (resolved_payload True x))) rid"
proof -
  obtain e s' where a: "append_insert s tid rid ''approval_resolved'' (resolved_payload True x) = (e, s')" by force
  then have "e \<in> set (run_log s' rid)" by (simp add: append_insert_effect run_log_def)
  moreover have "dget (payload_of e) ''approved'' = PBool True"
    by (simp add: payload_of_def append_insert_effect(8) [OF a] dget_envelope resolved_payload_def)
  moreover have "snd (append_event s tid rid ''approval_resolved'' (resolved_payload True x)) = s'"
    by (simp add: append_event_def append_lookup_def a)
  ultimately show ?thesis using append_insert_effect(7) [OF a] unfolding approval_logged_def by metis
qed

lemma keeps_approve:
  assumes inv: "engine_inv g"
  shows "engine_inv (snd (engine_approve g rid))"
proof -
  have go: "engine_inv (snd (resolve_approval i (set_store (snd (append_event (eg_store g) tid rid ''approval_resolved''
      (resolved_payload True x))) (upd i (\<lambda>m. m\<lparr>m_approved := True\<rparr>) g))))"
    if i: "i < length (eg_objs g)" "m_run_id (obj g i) = rid" for i tid x
  proof -
    define s where "s = snd (append_event (eg_store g) tid rid ''approval_resolved'' (resolved_payload True x))"
    have st: "reaches (eg_store g) s" "approval_logged s rid" by (simp_all add: s_def chain approval_recorded)
    have s: "engine_inv (set_store s g)" "i < length (eg_objs (set_store s g))" using inv_store [OF inv st(1)] i by simp_all
    have "engine_inv (upd i (\<lambda>m. m\<lparr>m_approved := True\<rparr>) (set_store s g))"
      by (rule inv_upd_simple [OF s]) (use inv_obj [OF s] st i in \<open>auto simp: obj_ok_def live_def\<close>)
    moreover have "upd i (\<lambda>m. m\<lparr>m_approved := True\<rparr>) (set_store s g) = set_store s (upd i (\<lambda>m. m\<lparr>m_approved := True\<rparr>) g)"
      by (simp add: upd_def set_store_def)
    ultimately show ?thesis
      unfolding s_def [symmetric] by (intro keeps_continuation) (use i in \<open>simp_all add: obj_upd\<close>)
  qed
  show ?thesis
    using inv go table_obj [OF inv, of rid]
    by (simp add: engine_approve_def Let_def split_beta split: option.split sum.split)
qed

lemma keeps_blocked [keeps]:
  "engine_inv g \<Longrightarrow> engine_inv (snd (append_blocked_side_effects i g))"
  by (simp add: append_blocked_side_effects_def split_beta chain inv_store split: option.split)

lemma blocked_frame [simp]:
  "eg_objs (snd (append_blocked_side_effects i g)) = eg_objs g"
  "obj (snd (append_blocked_side_effects i g)) j = obj g j"
  by (simp_all add: append_blocked_side_effects_def obj_def split_beta split: option.split)

lemma keeps_reject:
  assumes inv: "engine_inv g"
  shows "engine_inv (snd (engine_reject g rid))"
proof -
  define gr where "gr i p = snd (append_blocked_side_effects i (set_store (snd (append_event (eg_store g)
      (m_thread_id (obj (upd i (\<lambda>m. m\<lparr>m_rejected := True\<rparr>) g) i)) rid ''approval_resolved'' p))
      (upd i (\<lambda>m. m\<lparr>m_rejected := True\<rparr>) g)))" for i p
  have gr: "engine_inv (gr i p)" "engine_inv (snd (resolve_approval i (gr i p)))"
    if i: "i < length (eg_objs g)" for i p
  proof -
    have "engine_inv (upd i (\<lambda>m. m\<lparr>m_rejected := True\<rparr>) g)"
      by (rule inv_upd_simple [OF inv i]) (use inv_obj [OF inv i] in \<open>auto simp: obj_ok_def live_def\<close>)
    then show "engine_inv (gr i p)"
      unfolding gr_def by (intro keeps_blocked inv_store) (simp_all add: chain)
    then show "engine_inv (snd (resolve_approval i (gr i p)))"
      by (rule keeps_continuation) (use i in \<open>simp_all add: gr_def obj_upd\<close>)
  qed
  show ?thesis
    using inv gr table_obj [OF inv, of rid]
    by (simp add: engine_reject_def gr_def Let_def split_beta split: option.split sum.split)
qed

lemma keeps_stream:
  assumes inv: "engine_inv g" and i: "i < length (eg_objs g)"
  shows "engine_inv (snd (stream_get i g))"
proof -
  have drop: "engine_inv (upd i (\<lambda>m. m\<lparr>m_queue := q\<rparr>) g)" for q
    by (rule inv_upd_simple [OF inv i]) (use inv_obj [OF inv i] in \<open>auto simp: obj_ok_def live_def\<close>)
  have table: "engine_inv (g'\<lparr>eg_runs := (eg_runs g')(r := None)\<rparr>)" if "engine_inv g'" for g' r
    using that by (auto simp: engine_inv_def objs_ok_def table_ok_def slots_ok_def holders_def obj_def)
  show ?thesis
    using inv drop table [OF drop] by (simp add: stream_get_def Let_def split: option.split list.split)
qed

section \<open>Restart, and the whole\<close>

lemma keeps_rehydrate:
  assumes inv: "engine_inv g"
  shows "engine_inv (rehydrate_run run g)"
proof -
  define s where "s = snd (mark_run_recovered (eg_store g) (rn_id run) ''waiting_approval_rehydrated'')"
  show ?thesis
    by (rule inv_add [OF inv, of _ "(new_managed (rn_id run) (rn_thread_id run) (recover_run_messages s (rn_id run)))
                \<lparr>m_checkpoint_pending := True, m_rehydrated := True,
                 m_interrupt := recover_interrupt_payload s (rn_id run)\<rparr>"])
      (use inv in \<open>auto simp: rehydrate_run_def s_def Let_def chain new_managed_def obj_ok_def live_def set_store_def
        engine_inv_def slots_ok_def\<close>)
qed

lemma inv_fresh: "engine_inv (fresh_engine cfg s)"
  by (simp add: engine_inv_def objs_ok_def table_ok_def slots_ok_def holders_def fresh_engine_def)

lemma inv_rehydrated: "engine_inv g \<Longrightarrow> engine_inv (fold rehydrate_run rs g)"
  by (induction rs arbitrary: g) (simp_all add: keeps_rehydrate)

lemma inv_init: "engine_init cfg s = Inr g \<Longrightarrow> engine_inv g"
  by (auto simp: engine_init_def inv_rehydrated inv_fresh split: sum.splits)

lemma engine_step_inv: "engine_step g g' \<Longrightarrow> engine_inv g \<Longrightarrow> engine_inv g'"
proof (induction rule: engine_step.induct)
  case (unstarted g i)
  then show ?case by (intro keeps_set_ended) (auto simp: at_def ended_def)
next
  case (outcome g i d c out)
  then have i: "i < length (eg_objs g)" and "m_slot (obj g i)" using live_slot at_live(2) by (auto simp: at_def)
  then show ?case using outcome
    by (intro keeps_execute_outcome keeps_undisturbed) (simp_all add: undisturbed_def obj_upd)
next
  case (second g i c out)
  then show ?case by (intro keeps_execute_second keeps_undisturbed) (auto simp: at_def)
next
  case (continued g i c out)
  then show ?case by (intro keeps_continue_outcome keeps_undisturbed) (auto simp: at_def)
next
  case (restart cfg g g')
  then show ?case by (simp add: inv_init)
qed (auto simp: at_def keeps_create keeps_cancel keeps_approve keeps_reject keeps_stream keeps_execute_start
    keeps_execute_wake keeps_continue_start keeps_checked keeps_pop_run env_reaches intro: inv_store)

lemma engine_steps_inv: "engine_step\<^sup>*\<^sup>* g g' \<Longrightarrow> engine_inv g \<Longrightarrow> engine_inv g'"
  by (induction rule: rtranclp_induct) (auto intro: engine_step_inv)

text \<open>An engine that a process has: a start on a reachable store, then any execution.\<close>

definition engine_run :: "engine \<Rightarrow> bool" where
  "engine_run g \<longleftrightarrow> (\<exists>cfg s g0. reachable_store s \<and> engine_init cfg s = Inr g0 \<and> engine_step\<^sup>*\<^sup>* g0 g)"

lemma engine_run_inv: "engine_run g \<Longrightarrow> engine_inv g"
  unfolding engine_run_def using inv_init engine_steps_inv by blast

end
