(* ===== verification/EngineRecovery.thy ===== *)
theory EngineRecovery
  imports EngineKeeps
begin

text \<open>
  What a start of the process does to the runs it finds.
\<close>

section \<open>Recovery\<close>

lemma reaches_inv: "reaches s s' \<Longrightarrow> store_inv s \<Longrightarrow> store_inv s'"
  by (rule store_status.inv_steps [OF reaches_steps])

lemma recover_cancelled_status:
  assumes "run_status s (rn_id r) = Some ''cancelling''"
  shows "\<exists>s'. recover_cancelled_run reason r s = Inr s' \<and> run_status s' = (run_status s)(rn_id r \<mapsto> ''cancelled'')"
proof -
  have "run_step ''cancelling'' ''cancelled''" by (simp add: run_step_iff_table ALLOWED_RUN_TRANSITIONS_def)
  note u = status_update [OF _ this, of _ "rn_id r" None True]
  define s1 where "s1 = snd (append_event (snd (mark_run_recovered s (rn_id r) reason)) (rn_thread_id r) (rn_id r)
      ''cancelled'' [(''reason'', PStr reason)])"
  have s1: "run_status s1 = run_status s" by (simp add: s1_def)
  obtain x where "fst (update_run_status s1 (rn_id r) ''cancelled'' None True) = Inr x" using u(1) s1 assms by metis
  moreover have "run_status (snd (update_run_status s1 (rn_id r) ''cancelled'' None True)) = (run_status s)(rn_id r \<mapsto> ''cancelled'')"
    using u(2) s1 assms by simp
  ultimately show ?thesis
    unfolding recover_cancelled_run_def Let_def s1_def [symmetric] by (simp add: split_beta)
qed

lemma recover_failed_status:
  assumes "run_status s (rn_id r) \<in> {Some ''queued'', Some ''running''}"
  shows "\<exists>s'. recover_failed_run reason r s = Inr s' \<and> run_status s' = (run_status s)(rn_id r \<mapsto> ''failed'')"
proof -
  have step: "run_step a ''failed''" if "a \<in> {''queued'', ''running''}" for a
    using that by (auto simp: run_step_iff_table ALLOWED_RUN_TRANSITIONS_def)
  define m where "m = ''server restarted before run completed''"
  define s0 where "s0 = snd (append_event (snd (mark_run_recovered s (rn_id r) reason)) (rn_thread_id r) (rn_id r)
      ''error'' [(''error'', PStr m), (''reason'', PStr reason)])"
  define s1 where "s1 = snd (append_event s0 (rn_thread_id r) (rn_id r) ''run_failed_meta''
      (failed_meta_payload s0 (rn_thread_id r) (rn_id r) False m reason ''startup_recovery''))"
  have s1: "run_status s1 = run_status s" by (simp add: s1_def s0_def)
  obtain a where a: "run_status s1 (rn_id r) = Some a" "run_step a ''failed''" using assms s1 step by auto
  note u = status_update [OF a, of "Some m" True]
  obtain x where "fst (update_run_status s1 (rn_id r) ''failed'' (Some m) True) = Inr x" using u(1) by blast
  then show ?thesis
    using u(2) unfolding recover_failed_run_def Let_def m_def [symmetric] s0_def [symmetric] s1_def [symmetric]
    by (simp add: split_beta s1)
qed

lemma recover_all_status:
  assumes "\<And>r s. run_status s (rn_id r) \<in> Some ` A \<Longrightarrow>
      \<exists>s'. f r s = Inr s' \<and> run_status s' = (run_status s)(rn_id r \<mapsto> st)"
    and "distinct (map rn_id rs)" and "\<forall>r \<in> set rs. run_status s (rn_id r) \<in> Some ` A"
  shows "\<exists>s'. recover_all f rs s = Inr s' \<and> run_status s' = (\<lambda>x. if x \<in> rn_id ` set rs then Some st else run_status s x)"
  using assms(2,3)
proof (induction rs arbitrary: s)
  case (Cons r rs)
  obtain s1 where s1: "f r s = Inr s1" "run_status s1 = (run_status s)(rn_id r \<mapsto> st)"
    using assms(1) [of s r] Cons.prems(2) by auto
  have "\<forall>q \<in> set rs. run_status s1 (rn_id q) \<in> Some ` A"
    using Cons.prems by (auto simp: s1(2) image_iff)
  then obtain s2 where "recover_all f rs s1 = Inr s2"
      "run_status s2 = (\<lambda>x. if x \<in> rn_id ` set rs then Some st else run_status s1 x)"
    using Cons.IH [of s1] Cons.prems(1) by auto
  then show ?case using s1 by (auto simp: fun_eq_iff)
qed auto

lemma runs_with_status_ids:
  assumes "store_inv s" and "set sts \<subseteq> RUN_STATUSES"
  shows "distinct (map rn_id (runs_with_status s sts))"
    and "rid \<in> rn_id ` set (runs_with_status s sts) \<longleftrightarrow> run_status s rid \<in> Some ` set sts"
proof -
  have valid: "find (\<lambda>st. st \<notin> RUN_STATUSES) sts = None" using assms(2) by (auto simp: find_None_iff)
  then have rs: "runs_with_status s sts = runs_by_created (\<lambda>r. rn_status r \<in> set sts) s"
    by (simp add: runs_with_status_def list_runs_by_status_def)
  have d: "distinct (map rn_id (runs s))" using assms(1) by (simp add: store_inv_def runs_inv_def)
  then show "distinct (map rn_id (runs_with_status s sts))"
    unfolding rs runs_by_created_def by (simp add: distinct_map inj_on_def)
  show "rid \<in> rn_id ` set (runs_with_status s sts) \<longleftrightarrow> run_status s rid \<in> Some ` set sts"
    using get_run_of_member [OF store_invD(1) [OF assms(1)]] get_run_in
    unfolding rs by (fastforce simp: run_status_def)
qed

text \<open>The status of every run after a restart.\<close>

definition recovered_status :: "string \<Rightarrow> string" where
  "recovered_status st = (if st = ''cancelling'' then ''cancelled''
     else if st \<in> {''queued'', ''running''} then ''failed'' else st)"

lemma rehydrate_frame:
  "run_status (eg_store (rehydrate_run r g)) = run_status (eg_store g)"
  "length (eg_objs (rehydrate_run r g)) = Suc (length (eg_objs g))"
  "i < length (eg_objs g) \<Longrightarrow> obj (rehydrate_run r g) i = obj g i"
  "eg_runs (rehydrate_run r g) = (eg_runs g)(rn_id r \<mapsto> length (eg_objs g))"
  "eg_slots (rehydrate_run r g) = eg_slots g" "eg_limit (rehydrate_run r g) = eg_limit g"
  "m_rehydrated (obj (rehydrate_run r g) (length (eg_objs g)))"
  "m_task (obj (rehydrate_run r g) (length (eg_objs g))) = None"
  by (simp_all add: rehydrate_run_def Let_def set_store_def obj_def nth_append new_managed_def)

definition rehydrated :: "engine \<Rightarrow> string \<Rightarrow> bool" where
  "rehydrated g rid \<longleftrightarrow> (\<exists>i < length (eg_objs g). eg_runs g rid = Some i \<and> m_rehydrated (obj g i) \<and> m_task (obj g i) = None)"

lemma rehydrate_all:
  "run_status (eg_store (fold rehydrate_run rs g)) = run_status (eg_store g)
   \<and> eg_slots (fold rehydrate_run rs g) = eg_slots g \<and> eg_limit (fold rehydrate_run rs g) = eg_limit g
   \<and> (\<forall>rid. rid \<in> rn_id ` set rs \<or> rehydrated g rid \<longrightarrow> rehydrated (fold rehydrate_run rs g) rid)"
proof (induction rs arbitrary: g)
  case (Cons r rs)
  have "rehydrated (rehydrate_run r g) rid" if "rid = rn_id r \<or> rehydrated g rid" for rid
    using that rehydrate_frame [where g = g and r = r] unfolding rehydrated_def
    by (cases "rid = rn_id r") (auto simp: less_Suc_eq)
  then show ?case using Cons.IH [of "rehydrate_run r g"] rehydrate_frame [where g = g and r = r] by auto
qed simp

text \<open>
  C23. A start of the process never raises on a store the transactions can produce, and settles every run:
  one that was cancelling is cancelled, one that was queued or running has failed, a finished one is as it
  was, and one that waits for approval still waits and is in the table of the new engine, as an object with
  no task that an approval or a rejection can continue. All slots are free.
\<close>

theorem restart_settles_runs:
  assumes "store_inv s"
  shows "\<exists>g. engine_init cfg s = Inr g
    \<and> (\<forall>rid. run_status (eg_store g) rid = map_option recovered_status (run_status s rid))
    \<and> (\<forall>rid. run_status (eg_store g) rid = Some RUN_STATUS_WAITING_APPROVAL \<longrightarrow> rehydrated g rid)
    \<and> eg_slots g = eg_limit g"
proof -
  let ?c = "recover_all (recover_cancelled_run ''process_restarted'') (runs_with_status s [''cancelling'']) s"
  have c: "\<exists>s'. recover_cancelled_run q r s = Inr s' \<and> run_status s' = (run_status s)(rn_id r \<mapsto> ''cancelled'')"
    if "run_status s (rn_id r) \<in> Some ` {''cancelling''}" for q r s
    using that recover_cancelled_status by auto
  have cs: "distinct (map rn_id (runs_with_status s [''cancelling'']))"
      "rid \<in> rn_id ` set (runs_with_status s [''cancelling'']) \<longleftrightarrow> run_status s rid = Some ''cancelling''" for rid
    using runs_with_status_ids [OF assms, of "[''cancelling'']"] by (auto simp: run_status_sets)
  have cs3: "\<forall>r \<in> set (runs_with_status s [''cancelling'']). run_status s (rn_id r) \<in> Some ` {''cancelling''}"
    using cs(2) by blast
  have "\<exists>s'. ?c = Inr s' \<and> run_status s' =
      (\<lambda>x. if x \<in> rn_id ` set (runs_with_status s [''cancelling'']) then Some ''cancelled'' else run_status s x)"
    by (rule recover_all_status [of "{''cancelling''}"]) (fact c cs(1) cs3)+
  then obtain s1 where s1: "?c = Inr s1"
      "run_status s1 = (\<lambda>x. if run_status s x = Some ''cancelling'' then Some ''cancelled'' else run_status s x)"
    unfolding cs(2) by blast
  have inv1: "store_inv s1"
    by (rule reaches_inv [OF reaches_recover_all [OF reaches_recover(2) reaches_refl s1(1)] assms])
  let ?q = "[''queued'', ''running'']"
  have f: "\<exists>s'. recover_failed_run q r s = Inr s' \<and> run_status s' = (run_status s)(rn_id r \<mapsto> ''failed'')"
    if "run_status s (rn_id r) \<in> Some ` set ?q" for q r s
    using that recover_failed_status [of s r] by auto
  have fs: "distinct (map rn_id (runs_with_status s1 ?q))"
      "rid \<in> rn_id ` set (runs_with_status s1 ?q) \<longleftrightarrow> run_status s1 rid \<in> Some ` set ?q" for rid
    using runs_with_status_ids [OF inv1, of ?q] by (auto simp: run_status_sets)
  have fs3: "\<forall>r \<in> set (runs_with_status s1 ?q). run_status s1 (rn_id r) \<in> Some ` set ?q"
    using fs(2) by blast
  have "\<exists>s'. recover_all (recover_failed_run ''process_restarted'') (runs_with_status s1 ?q) s1 = Inr s' \<and> run_status s' =
      (\<lambda>x. if x \<in> rn_id ` set (runs_with_status s1 ?q) then Some ''failed'' else run_status s1 x)"
    by (rule recover_all_status [of "set ?q"]) (fact f fs(1) fs3)+
  then obtain s2 where s2:
      "recover_all (recover_failed_run ''process_restarted'') (runs_with_status s1 ?q) s1 = Inr s2"
      "run_status s2 = (\<lambda>x. if run_status s1 x \<in> Some ` set ?q then Some ''failed'' else run_status s1 x)"
    unfolding fs(2) by blast
  have inv2: "store_inv s2"
    by (rule reaches_inv [OF reaches_recover_all [OF reaches_recover(1) reaches_refl s2(1)] inv1])
  let ?w = "runs_with_status s2 [''waiting_approval'']"
  define g where "g = fold rehydrate_run ?w (fresh_engine cfg s2)"
  have init: "engine_init cfg s = Inr g"
    using s1(1) s2(1) by (simp add: engine_init_def g_def)
  have g: "run_status (eg_store g) = run_status s2" "eg_slots g = eg_limit g"
      "\<And>rid. rid \<in> rn_id ` set ?w \<Longrightarrow> rehydrated g rid"
    using rehydrate_all [of ?w "fresh_engine cfg s2"] unfolding g_def [symmetric] by (auto simp: fresh_engine_def)
  have "run_status s2 rid = map_option recovered_status (run_status s rid)" for rid
    by (cases "run_status s rid") (auto simp: s2(2) s1(2) recovered_status_def)
  moreover have "rehydrated g rid" if "run_status (eg_store g) rid = Some ''waiting_approval''" for rid
    using g(3) runs_with_status_ids(2) [OF inv2, of "[''waiting_approval'']" rid] that
    by (auto simp: g(1) run_status_sets)
  ultimately show ?thesis using init g(1,2) by (intro exI [of _ g]) simp
qed

text \<open>Three threads, with a run that is running, one that is being cancelled and one that waits.\<close>

definition demo_config :: engine_config where
  "demo_config = \<lparr>cfg_run_timeout_seconds = 60, cfg_max_concurrent_runs = 1, cfg_has_graph = False,
     cfg_sha256 = id, cfg_netloc_ok = (\<lambda>_. True)\<rparr>"

definition demo_crash :: store where
  "demo_crash =
     (let s = snd (create_run demo_empty ''a'' None ''queued'' None None);
          s = snd (create_run s ''b'' None ''queued'' None None);
          s = snd (create_run s ''c'' None ''queued'' None None);
          s = snd (update_run_status s ''r0'' ''running'' None False);
          s = snd (update_run_status s ''r1'' ''cancelling'' None False);
          s = snd (update_run_status s ''r2'' ''running'' None False)
      in snd (update_run_status s ''r2'' ''waiting_approval'' None False))"

lemma demo_crash_reachable: "reachable_store demo_crash"
  unfolding demo_crash_def Let_def demo_empty_def
  by (intro reachable_step [OF _ store_step.create] reachable_step [OF _ store_step.update] reachable_empty)

theorem restart_settles_runs_witness:
  "\<exists>g. engine_init demo_config demo_crash = Inr g \<and> run_status (eg_store g) ''r0'' = Some ''failed''
    \<and> run_status (eg_store g) ''r1'' = Some ''cancelled'' \<and> run_status (eg_store g) ''r2'' = Some ''waiting_approval''
    \<and> rehydrated g ''r2''"
proof -
  have st: "map (run_status demo_crash) [''r0'', ''r1'', ''r2''] =
      [Some ''running'', Some ''cancelling'', Some ''waiting_approval'']"
    by code_simp
  from restart_settles_runs [OF reachable_inv [OF demo_crash_reachable], of demo_config] obtain g where
    g: "engine_init demo_config demo_crash = Inr g"
      "\<forall>rid. run_status (eg_store g) rid = map_option recovered_status (run_status demo_crash rid)"
      "\<forall>rid. run_status (eg_store g) rid = Some RUN_STATUS_WAITING_APPROVAL \<longrightarrow> rehydrated g rid"
    by (elim exE conjE)
  then show ?thesis using st by (intro exI [of _ g]) (simp add: recovered_status_def)
qed

end
