(* ===== verification/EngineEvidence.thy ===== *)
theory EngineEvidence
  imports EngineRecovery
begin

text \<open>
  The evidence a failed or cancelled run leaves in its log: the engine never sets one of these statuses
  before the events that explain it are recorded.
\<close>

section \<open>Evidence\<close>

definition evidence :: "store \<Rightarrow> string \<Rightarrow> string \<Rightarrow> bool" where
  "evidence s rid st \<longleftrightarrow>
     (st = ''failed'' \<longrightarrow> logged (run_log s rid) ''error'' \<and> logged (run_log s rid) ''run_failed_meta'')
     \<and> (st = ''cancelled'' \<longrightarrow> logged (run_log s rid) ''cancelled'')"

definition evidenced :: "store \<Rightarrow> bool" where
  "evidenced s \<longleftrightarrow> (\<forall>rid st. run_status s rid = Some st \<longrightarrow> evidence s rid st)"

lemma append_logged:
  assumes "ty \<noteq> ''tool_end''"
  shows "logged (run_log (snd (append_event s tid rid ty p)) rid) ty"
proof -
  obtain e s' where a: "append_insert s tid rid ty p = (e, s')" by force
  then have "e \<in> set (run_log s' rid)" by (simp add: append_insert_effect run_log_def)
  moreover have "snd (append_event s tid rid ty p) = s'" by (simp add: append_event_def append_lookup_def a assms)
  ultimately show ?thesis using append_insert_effect(7) [OF a] unfolding logged_def by (intro bexI [of _ e]) simp_all
qed

lemma logged_reaches: "reaches s s' \<Longrightarrow> logged (run_log s rid) ty \<Longrightarrow> logged (run_log s' rid) ty"
  using store_steps_events [OF reaches_steps] by (fastforce simp: run_log_def logged_def)

lemma evidence_reaches: "reaches s s' \<Longrightarrow> evidence s rid st \<Longrightarrow> evidence s' rid st"
  unfolding evidence_def using logged_reaches [of s s' rid] by simp

named_theorems evid \<open>operations that leave evidence\<close>

lemma evidenced_same: "evidenced s \<Longrightarrow> reaches s s' \<Longrightarrow> run_status s' = run_status s \<Longrightarrow> evidenced s'"
  unfolding evidenced_def using evidence_reaches by auto

lemma evid_append [evid]: "evidenced s \<Longrightarrow> evidenced (snd (append_event s tid rid ty p))"
  by (rule evidenced_same) (simp_all add: chain)

lemma evid_recovered [evid]: "evidenced s \<Longrightarrow> evidenced (snd (mark_run_recovered s rid reason))"
  by (rule evidenced_same) (simp_all add: chain)

lemma evid_update:
  assumes ev: "evidenced s" "evidence s rid st"
  shows "evidenced (snd (update_run_status s rid st err cpl))"
proof -
  define s' where "s' = snd (update_run_status s rid st err cpl)"
  have m: "reaches s s'" by (simp add: s'_def chain)
  have "run_status s' x = run_status s x \<or> (x = rid \<and> run_status s' x = Some st)" for x
    using status_update_cases [of s rid st err cpl] unfolding s'_def [symmetric]
    by (cases "x = rid") auto
  then have "evidence s' x a" if "run_status s' x = Some a" for x a
    using that ev [unfolded evidenced_def] evidence_reaches [OF m] by (metis option.inject)
  then have "evidenced s'" by (simp add: evidenced_def)
  then show ?thesis by (simp add: s'_def)
qed

lemma evid_create:
  assumes ev: "evidenced s" and "st \<notin> {''failed'', ''cancelled''}"
  shows "evidenced (snd (create_run s tid rid st key hash))"
proof -
  define s' where "s' = snd (create_run s tid rid st key hash)"
  have m: "reaches s s'" by (simp add: s'_def chain)
  have "evidence s' x st" for x using assms(2) by (simp add: evidence_def)
  moreover have "run_status s' x = run_status s x \<or> run_status s' x = Some st" for x
    unfolding s'_def by (rule create_run_status)
  ultimately have "evidence s' x a" if "run_status s' x = Some a" for x a
    using that ev [unfolded evidenced_def] evidence_reaches [OF m] by (metis option.inject)
  then have "evidenced s'" by (simp add: evidenced_def)
  then show ?thesis by (simp add: s'_def)
qed

lemma evidence_other: "st \<noteq> ''failed'' \<Longrightarrow> st \<noteq> ''cancelled'' \<Longrightarrow> evidence s rid st"
  by (simp add: evidence_def)

lemma evid_append_for [evid]: "evidenced (eg_store g) \<Longrightarrow> evidenced (eg_store (append_for i ty p g))"
  by (simp add: append_for_def evid)

lemma evid_status_for [evid]:
  "evidenced (eg_store g) \<Longrightarrow> st \<noteq> ''failed'' \<Longrightarrow> st \<noteq> ''cancelled'' \<Longrightarrow>
    evidenced (eg_store (snd (status_for i st err cpl g)))"
  by (simp add: store_status_for evid_update evidence_other)

lemma evid_completed [evid]: "evidenced (eg_store g) \<Longrightarrow> evidenced (eg_store (snd (complete_for i None g)))"
  by (simp add: store_complete_for complete_run_def opt_str_def evid_update evidence_other)

lemma evid_meta [evid]: "evidenced (eg_store g) \<Longrightarrow> evidenced (eg_store (snd (append_checkpoint_meta i g)))"
  by (simp add: append_checkpoint_meta_def evid split: option.split)

lemma append_for_logged:
  "ty \<noteq> ''tool_end'' \<Longrightarrow> logged (run_log (eg_store (append_for i ty p g)) (m_run_id (obj g i))) ty"
  by (simp add: append_for_def append_logged)

lemma append_for_logged_mono:
  "logged (run_log (eg_store g) rid) ty \<Longrightarrow> logged (run_log (eg_store (append_for i ty' p g)) rid) ty"
  by (rule logged_reaches [of "eg_store g"]) (simp_all add: chain)

lemma evid_mark_cancelled [evid]:
  assumes "evidenced (eg_store g)"
  shows "evidenced (eg_store (mark_cancelled i g))"
proof -
  define g1 where "g1 = append_for i ''cancelled'' [] g"
  have "evidence (eg_store g1) (m_run_id (obj g1 i)) ''cancelled''"
    unfolding evidence_def g1_def using append_for_logged [of "''cancelled''" i "[]" g] by simp
  then show ?thesis
    using assms unfolding mark_cancelled_def g1_def [symmetric]
    by (simp add: store_status_for g1_def evid evid_update)
qed

lemma put_queue_run_id [simp]: "m_run_id (obj (put_queue i x g) j) = m_run_id (obj g j)"
  by (cases "i < length (eg_objs g)") (simp_all add: put_queue_def upd_def obj_def nth_list_update list_update_beyond)

lemma append_failed_logged:
  "logged (run_log (eg_store (append_failed_meta i m rs ph g)) (m_run_id (obj g i))) ''run_failed_meta''"
  by (simp add: append_failed_meta_def append_for_logged)

lemma evid_fail_run [evid]:
  assumes "evidenced (eg_store g)"
  shows "evidenced (eg_store (fail_run i m er rs ph g))"
proof -
  define ev where "ev = from_payload ''error'' ((''error'', PStr m) # (case er of None \<Rightarrow> [] | Some r \<Rightarrow> [(''reason'', PStr r)]))
    (Some (m_thread_id (obj g i))) (Some (m_run_id (obj g i))) None None"
  define g1 where "g1 = emit_runtime i ev g"
  define g2 where "g2 = append_failed_meta i m rs ph g1"
  have kind: "re_kind ev = ''error''" by (simp add: ev_def from_payload_def Let_def)
  have e1: "logged (run_log (eg_store g1) (m_run_id (obj g i))) ''error''"
    using append_for_logged [of "''error''" i _ g] by (simp add: g1_def emit_runtime_def kind)
  have rid: "m_run_id (obj g1 i) = m_run_id (obj g i)" "m_run_id (obj g2 i) = m_run_id (obj g i)"
    by (simp_all add: g1_def g2_def emit_runtime_def append_failed_meta_def)
  have e2: "logged (run_log (eg_store g2) (m_run_id (obj g i))) ''error''"
    unfolding g2_def append_failed_meta_def by (rule append_for_logged_mono) (rule e1)
  have e3: "logged (run_log (eg_store g2) (m_run_id (obj g i))) ''run_failed_meta''"
    using append_failed_logged [of i m rs ph g1] by (simp add: g2_def rid)
  have ev2: "evidenced (eg_store g2)"
    using assms by (simp add: g2_def g1_def emit_runtime_def append_failed_meta_def evid)
  have "evidence (eg_store g2) (m_run_id (obj g i)) (if truthy (opt_str (Some m)) then ''failed'' else ''completed'')"
    using e2 e3 by (simp add: evidence_def)
  then show ?thesis
    unfolding fail_run_def Let_def ev_def [symmetric] g1_def [symmetric] g2_def [symmetric]
    using evid_update [OF ev2]
    by (cases "truthy (opt_str (Some m))") (simp_all add: store_complete_for complete_run_def rid)
qed

lemma evid_finalize_rest [evid]: "evidenced (eg_store g) \<Longrightarrow> evidenced (eg_store (finalize_rest i c cc g))"
  by (simp add: finalize_rest_def append_consistency_checked_def Let_def evid)

lemma evid_checked [evid]: "evidenced (eg_store g) \<Longrightarrow> evidenced (eg_store (checkpoint_checked i c b n ids sn g))"
  by (simp add: checkpoint_checked_def Let_def evid)

lemma evid_finalize [evid]: "evidenced (eg_store g) \<Longrightarrow> evidenced (eg_store (finalize_memory i c g))"
  by (simp add: finalize_memory_def evid split: prod.split)

lemma evid_finally [evid]: "evidenced (eg_store g) \<Longrightarrow> evidenced (eg_store (finally_block i c g))"
  by (simp add: finally_block_def Let_def evid)

lemma evid_after_wait [evid]: "evidenced (eg_store g) \<Longrightarrow> evidenced (eg_store (after_wait i c g))"
  by (simp add: after_wait_def Let_def split_beta evid split: option.split)

lemma evid_interrupt [evid]: "evidenced (eg_store g) \<Longrightarrow> evidenced (eg_store (handle_interrupt i c p g))"
  by (simp add: handle_interrupt_def Let_def split_beta evid split: option.split)

lemma evid_tasks [evid]:
  "evidenced (eg_store g) \<Longrightarrow> evidenced (eg_store (execute_start i c g))"
  "evidenced (eg_store g) \<Longrightarrow> evidenced (eg_store (execute_outcome i c out g))"
  "evidenced (eg_store g) \<Longrightarrow> evidenced (eg_store (execute_wake i c g))"
  "evidenced (eg_store g) \<Longrightarrow> evidenced (eg_store (execute_second_outcome i c out g))"
  "evidenced (eg_store g) \<Longrightarrow> evidenced (eg_store (continue_start i c g))"
  "evidenced (eg_store g) \<Longrightarrow> evidenced (eg_store (continue_outcome i c out g))"
  by (simp_all add: execute_start_def execute_outcome_def execute_wake_def execute_second_outcome_def
      continue_start_def continue_outcome_def continue_interrupt_def Let_def split_beta evid
      split: option.split run_outcome.split)

lemma evid_continuation [evid]:
  "evidenced (eg_store g) \<Longrightarrow> evidenced (eg_store (snd (start_approval_continuation i g)))"
  "evidenced (eg_store g) \<Longrightarrow> evidenced (eg_store (snd (resolve_approval i g)))"
  by (auto simp: start_approval_continuation_def resolve_approval_def acquire_slot_def split: sum.split)

lemma evid_tick [evid]: "evidenced s \<Longrightarrow> evidenced (s\<lparr>uuid_pos := n\<rparr>)"
  by (simp add: evidenced_def evidence_def run_status_def get_run_def run_log_def)

lemma evid_blocked [evid]:
  "evidenced s \<Longrightarrow> evidenced (snd (blocked_side_effects sha ok tid rid known vs s))"
proof (induction sha ok tid rid known vs s rule: blocked_side_effects.induct)
  case (2 sha ok tid rid known v vs s)
  show ?case
    using 2 evid_tick [OF 2(4)] by (simp add: Let_def uuid4_def evid split: option.split)
qed simp

lemma evid_requests [evid]:
  "evidenced (eg_store g) \<Longrightarrow> evidenced (eg_store (snd (engine_create_run g tid msgs confirm strm key)))"
  "evidenced (eg_store g) \<Longrightarrow> evidenced (eg_store (snd (engine_cancel g rid)))"
  "evidenced (eg_store g) \<Longrightarrow> evidenced (eg_store (snd (engine_approve g rid)))"
  "evidenced (eg_store g) \<Longrightarrow> evidenced (eg_store (snd (engine_reject g rid)))"
  "evidenced (eg_store g) \<Longrightarrow> evidenced (eg_store (snd (stream_get i g)))"
proof -
  assume r: "evidenced (eg_store g)"
  show "evidenced (eg_store (snd (engine_create_run g tid msgs confirm strm key)))"
    using r by (simp add: engine_create_run_def acquire_slot_def admit_run_def Let_def split_beta evid evid_create
        split: sum.split)
  show "evidenced (eg_store (snd (engine_cancel g rid)))"
    using r by (simp add: engine_cancel_def Let_def split_beta evid evid_update evidence_other
        split: option.split sum.split)
  show "evidenced (eg_store (snd (engine_approve g rid)))"
    using r by (simp add: engine_approve_def Let_def split_beta evid split: option.split sum.split)
  show "evidenced (eg_store (snd (engine_reject g rid)))"
    using r by (simp add: engine_reject_def append_blocked_side_effects_def Let_def split_beta evid
        split: option.split sum.split)
  show "evidenced (eg_store (snd (stream_get i g)))"
    using r by (simp add: stream_get_def Let_def split: option.split list.split)
qed

lemma evid_recover:
  "evidenced s \<Longrightarrow> recover_failed_run reason r s = Inr s' \<Longrightarrow> evidenced s'"
  "evidenced s \<Longrightarrow> recover_cancelled_run reason r s = Inr s' \<Longrightarrow> evidenced s'"
proof -
  assume ev: "evidenced s"
  define m where "m = ''server restarted before run completed''"
  define s1 where "s1 = snd (append_event (snd (mark_run_recovered s (rn_id r) reason)) (rn_thread_id r) (rn_id r)
      ''error'' [(''error'', PStr m), (''reason'', PStr reason)])"
  define s2 where "s2 = snd (append_event s1 (rn_thread_id r) (rn_id r) ''run_failed_meta''
      (failed_meta_payload s1 (rn_thread_id r) (rn_id r) False m reason ''startup_recovery''))"
  have "logged (run_log s1 (rn_id r)) ''error''" by (simp add: s1_def append_logged)
  moreover have "reaches s1 s2" by (simp add: s2_def chain)
  ultimately have "logged (run_log s2 (rn_id r)) ''error''" by (rule logged_reaches [rotated])
  moreover have "logged (run_log s2 (rn_id r)) ''run_failed_meta''" by (simp add: s2_def append_logged)
  ultimately have "evidence s2 (rn_id r) ''failed''" by (simp add: evidence_def)
  moreover have "evidenced s2" using ev by (simp add: s2_def s1_def evid)
  ultimately have u: "evidenced (snd (update_run_status s2 (rn_id r) ''failed'' (Some m) True))" by (rule evid_update [rotated])
  show "recover_failed_run reason r s = Inr s' \<Longrightarrow> evidenced s'"
    using u unfolding recover_failed_run_def Let_def m_def [symmetric] s1_def [symmetric] s2_def [symmetric]
    by (auto simp: split_beta split: sum.splits intro: evid_append)
  define t1 where "t1 = snd (append_event (snd (mark_run_recovered s (rn_id r) reason)) (rn_thread_id r) (rn_id r)
      ''cancelled'' [(''reason'', PStr reason)])"
  have "evidence t1 (rn_id r) ''cancelled''" by (simp add: evidence_def t1_def append_logged)
  moreover have "evidenced t1" using ev by (simp add: t1_def evid)
  ultimately have v: "evidenced (snd (update_run_status t1 (rn_id r) ''cancelled'' None True))" by (rule evid_update [rotated])
  show "recover_cancelled_run reason r s = Inr s' \<Longrightarrow> evidenced s'"
    using v unfolding recover_cancelled_run_def Let_def t1_def [symmetric]
    by (auto simp: split_beta split: sum.splits intro: evid_append)
qed

lemma evid_recover_all:
  assumes "\<And>r s s'. evidenced s \<Longrightarrow> f r s = Inr s' \<Longrightarrow> evidenced s'"
  shows "evidenced s \<Longrightarrow> recover_all f rs s = Inr s' \<Longrightarrow> evidenced s'"
  using assms by (induction f rs s rule: recover_all.induct) (auto split: sum.splits)

lemma evid_rehydrate: "evidenced (eg_store g) \<Longrightarrow> evidenced (eg_store (fold rehydrate_run rs g))"
  by (induction rs arbitrary: g) (simp_all add: rehydrate_run_def Let_def evid)

lemma evid_init:
  assumes "evidenced s" and "engine_init cfg s = Inr g"
  shows "evidenced (eg_store g)"
proof -
  obtain s1 s2 where
    s1: "recover_all (recover_cancelled_run ''process_restarted'') (runs_with_status s [RUN_STATUS_CANCELLING]) s = Inr s1"
    and s2: "recover_all (recover_failed_run ''process_restarted'')
      (runs_with_status s1 [RUN_STATUS_QUEUED, RUN_STATUS_RUNNING]) s1 = Inr s2"
    and g: "g = fold rehydrate_run (runs_with_status s2 [RUN_STATUS_WAITING_APPROVAL]) (fresh_engine cfg s2)"
    using assms(2) by (auto simp: engine_init_def split: sum.splits)
  have "evidenced s1" by (rule evid_recover_all [OF evid_recover(2) assms(1) s1])
  from evid_recover_all [OF evid_recover(1) this s2] have "evidenced s2" .
  then show ?thesis unfolding g by (intro evid_rehydrate) (simp add: fresh_engine_def)
qed

lemma evidenced_frame: "same_runs_and_log s s' \<Longrightarrow> evidenced s \<Longrightarrow> evidenced s'"
  by (simp add: evidenced_def evidence_def run_status_same) (simp add: same_runs_and_log_def run_log_def)

lemma evid_env: "env_step s s' \<Longrightarrow> evidenced s \<Longrightarrow> evidenced s'"
proof (induction rule: env_step.induct)
  case (env_append s tid rid ty p)
  then show ?case by (simp add: evid)
next
  case (env_file s tid rid key hash)
  then show ?case by (simp add: evid_create)
qed (rule evidenced_frame, rule frame, assumption)+

lemma evid_step: "engine_step g g' \<Longrightarrow> evidenced (eg_store g) \<Longrightarrow> evidenced (eg_store g')"
  by (induction rule: engine_step.induct) (simp_all add: evid evid_init evid_env)

lemma evid_steps: "engine_step\<^sup>*\<^sup>* g g' \<Longrightarrow> evidenced (eg_store g) \<Longrightarrow> evidenced (eg_store g')"
  by (induction rule: rtranclp_induct) (auto intro: evid_step)

lemma evidenced_empty: "evidenced (empty_store clk ids)"
  by (simp add: evidenced_def run_status_def get_run_def empty_store_def)

section \<open>The claim\<close>

lemma evid_run:
  assumes "engine_init cfg (empty_store clk ids) = Inr g0" and "engine_step\<^sup>*\<^sup>* g0 g"
  shows "store_inv (eg_store g)" and "evidenced (eg_store g)"
proof -
  have "reaches (empty_store clk ids) (eg_store g0)" using reaches_init [OF assms(1)] .
  then have "store_inv (eg_store g0)" by (rule reaches_inv) (rule store_inv_empty)
  then show "store_inv (eg_store g)" using engine_status.client.inv_steps [OF assms(2)] by blast
  show "evidenced (eg_store g)" by (rule evid_steps [OF assms(2) evid_init [OF evidenced_empty assms(1)]])
qed

lemma logged_types: "store_inv s \<Longrightarrow> logged (run_log s rid) ty \<longleftrightarrow> ty \<in> set (event_types s rid)"
  by (auto simp: event_types_def logged_def run_events_eq store_inv_def)

text \<open>
  C4. A run is never marked as failed or cancelled without the events that say so. From an empty store, in
  every state of every execution of the engine (whatever the runner does, with cancellations, approvals and
  restarts in between), a failed run has an \<open>error\<close> and a \<open>run_failed_meta\<close> event and a cancelled run a
  \<open>cancelled\<close> event, so the consistency check of a run never reports one of these as missing.
\<close>

theorem terminal_run_evidence:
  assumes "engine_init cfg (empty_store clk ids) = Inr g0" and "engine_step\<^sup>*\<^sup>* g0 g"
    and "run_status (eg_store g) rid = Some st"
  shows "(st = RUN_STATUS_FAILED \<longrightarrow> {''error'', ''run_failed_meta''} \<subseteq> set (event_types (eg_store g) rid))
    \<and> (st = RUN_STATUS_CANCELLED \<longrightarrow> ''cancelled'' \<in> set (event_types (eg_store g) rid))
    \<and> {''error'', ''run_failed_meta'', ''cancelled''} \<inter> set (missing_events (eg_store g) rid st) = {}"
proof -
  have "evidence (eg_store g) rid st" using evid_run(2) [OF assms(1,2)] assms(3) by (simp add: evidenced_def)
  then have e: "st = ''failed'' \<longrightarrow> ''error'' \<in> set (event_types (eg_store g) rid) \<and> ''run_failed_meta'' \<in> set (event_types (eg_store g) rid)"
      "st = ''cancelled'' \<longrightarrow> ''cancelled'' \<in> set (event_types (eg_store g) rid)"
    by (simp_all add: evidence_def logged_types [OF evid_run(1) [OF assms(1,2)]])
  have "x \<noteq> ''tool_end:'' @ c" if "x \<in> {''error'', ''run_failed_meta'', ''cancelled''}" for x c :: string
    using that by auto
  then have "{''error'', ''run_failed_meta'', ''cancelled''} \<inter> set (missing_events (eg_store g) rid st) = {}"
    using e by (auto simp: missing_events_def Let_def)
  then show ?thesis using e by simp
qed

text \<open>A first run that ends in an exception.\<close>

definition demo_engine :: engine where
  "demo_engine = fresh_engine demo_config demo_empty"

definition demo_failed :: engine where
  "demo_failed =
     (let g = snd (engine_create_run demo_engine ''t'' [] False False None);
          g = execute_start 0 False g
      in execute_outcome 0 False (RunException ''boom'') (undisturbed 0 g))"

lemma init_empty: "engine_init cfg (empty_store clk ids) = Inr (fresh_engine cfg (empty_store clk ids))"
proof -
  have "runs_with_status (empty_store clk ids) sts = []" for sts
    by (simp add: runs_with_status_def list_runs_by_status_def runs_by_created_def empty_store_def split: option.split)
  then show ?thesis by (simp add: engine_init_def)
qed

lemma demo_init: "engine_init demo_config (empty_store int demo_ids) = Inr demo_engine"
  by (simp add: init_empty demo_engine_def demo_empty_def)

lemma demo_failed_steps: "engine_step\<^sup>*\<^sup>* demo_engine demo_failed"
proof -
  define g1 where "g1 = snd (engine_create_run demo_engine ''t'' [] False False None)"
  define g2 where "g2 = execute_start 0 False g1"
  have "at g1 0 TStart" "\<not> m_cancelling (obj g1 0)"
    unfolding at_def g1_def by code_simp+
  moreover have "at g2 0 (TRun False)" unfolding at_def g2_def g1_def by code_simp
  ultimately have "engine_step demo_engine g1" "engine_step g1 g2"
      "engine_step g2 (execute_outcome 0 False (RunException ''boom'') (undisturbed 0 g2))"
    unfolding g2_def using engine_step.start engine_step.outcome by (auto simp: g1_def intro: engine_step.request)
  then show ?thesis unfolding demo_failed_def Let_def g1_def g2_def by (meson converse_rtranclp_into_rtranclp rtranclp.rtrancl_refl)
qed

theorem terminal_run_evidence_witness:
  "run_status (eg_store demo_failed) ''r0'' = Some ''failed''
    \<and> {''error'', ''run_failed_meta''} \<subseteq> set (event_types (eg_store demo_failed) ''r0'')"
proof -
  have st: "run_status (eg_store demo_failed) ''r0'' = Some ''failed''" by code_simp
  from terminal_run_evidence [OF demo_init demo_failed_steps st] st show ?thesis by simp
qed

end
