(* ===== verification/EngineProps.thy ===== *)
theory EngineProps
  imports EngineEvidence
begin

text \<open>
  What the engine guarantees: its runs follow the state machine, its slots are accounted for, nothing
  dangerous is resumed without an approval, the end of a runner call settles its run; and where it does
  not: a failure after an approval, a cancellation before the first step.
\<close>

section \<open>Runs follow the state machine\<close>

lemma engine_steps_reach: "engine_step\<^sup>*\<^sup>* g g' \<Longrightarrow> reaches (eg_store g) (eg_store g')"
  by (induction rule: rtranclp_induct) (auto intro: reaches_trans engine_step_reaches)

text \<open>
  C3. The engine implements the state machine of the runs. In any execution, restarts included, each run is
  kept and its status moves along the transition table only: a finished run stays as it finished, a run
  that is being cancelled can only end as cancelled or failed, and the log of every run only grows.
\<close>

theorem engine_refines_run_machine:
  assumes "engine_step\<^sup>*\<^sup>* g g'" and "store_inv (eg_store g)" and "run_status (eg_store g) rid = Some st"
  shows "\<exists>st'. run_status (eg_store g') rid = Some st' \<and> run_step\<^sup>*\<^sup>* st st'
      \<and> (st \<in> TERMINAL_RUN_STATUSES \<longrightarrow> st' = st)
      \<and> (st = RUN_STATUS_CANCELLING \<longrightarrow> st' \<in> {RUN_STATUS_CANCELLING, RUN_STATUS_CANCELLED, RUN_STATUS_FAILED})
      \<and> (\<exists>es. run_log (eg_store g') rid = run_log (eg_store g) rid @ es)"
proof -
  have r: "reaches (eg_store g) (eg_store g')" by (rule engine_steps_reach [OF assms(1)])
  then obtain st' where st': "run_status (eg_store g') rid = Some st'" "run_step\<^sup>*\<^sup>* st st'"
    using assms(3) by (auto simp: reaches_def follows_machine_def)
  moreover have "st \<in> TERMINAL_RUN_STATUSES \<Longrightarrow> st' = st"
    using engine_status.client.terminal_kept [OF assms] st'(1) by simp
  moreover have "st = ''cancelling'' \<Longrightarrow> st' \<in> {''cancelling'', ''cancelled'', ''failed''}"
    using engine_status.client.cancelling_outcome [OF assms(1,2), of rid] assms(3) st'(1) by auto
  moreover have "\<exists>es. run_log (eg_store g') rid = run_log (eg_store g) rid @ es"
    using store_steps_events [OF reaches_steps [OF r]] by (auto simp: run_log_def)
  ultimately show ?thesis by (intro exI [of _ st']) simp
qed

theorem engine_refines_run_machine_witness:
  "\<exists>st'. run_status (eg_store demo_failed) ''r0'' = Some st' \<and> run_step\<^sup>*\<^sup>* ''failed'' st' \<and> st' = ''failed''"
proof -
  have st: "run_status (eg_store demo_failed) ''r0'' = Some ''failed''" by code_simp
  from engine_refines_run_machine [OF rtranclp.rtrancl_refl evid_run(1) [OF demo_init demo_failed_steps] st]
  show ?thesis by (auto simp: TERMINAL_RUN_STATUSES_def)
qed

section \<open>Slots and approvals\<close>

lemma live_holds:
  assumes "objs_ok g"
  shows "length (filter live (eg_objs g)) \<le> holders g"
proof -
  have "length (filter live ms) \<le> length (filter m_slot ms)" if "\<forall>m \<in> set ms. obj_ok s m" for ms s
    using that by (induction ms) (auto simp: obj_ok_def)
  then show ?thesis using assms unfolding objs_ok_def holders_def by blast
qed

text \<open>
  C22. The semaphore is never overdrawn: in every state of an engine that a process has, the free slots and
  the objects that hold one add up to the limit, so at most \<^verbatim>\<open>max_concurrent_runs\<close> tasks are in their
  runner call, wait for an approval, or are about to start.
\<close>

theorem slots_accounted:
  assumes "engine_run g"
  shows "eg_slots g + int (length (filter m_slot (eg_objs g))) = eg_limit g \<and> 0 \<le> eg_slots g
    \<and> int (length (filter live (eg_objs g))) \<le> eg_limit g"
  using engine_run_inv [OF assms] live_holds [of g]
  by (simp add: engine_inv_def slots_ok_def holders_def)

lemma demo_failed_run: "engine_run demo_failed"
  unfolding engine_run_def using demo_init demo_failed_steps reachable_empty by blast

theorem slots_accounted_witness:
  "eg_slots demo_failed + int (length (filter m_slot (eg_objs demo_failed))) = eg_limit demo_failed
    \<and> length (eg_objs demo_failed) = 1"
proof -
  have "length (eg_objs demo_failed) = 1" by code_simp
  then show ?thesis using slots_accounted [OF demo_failed_run] by simp
qed

text \<open>
  C5. Nothing dangerous runs unapproved: whenever a task is in a runner call that may execute the tools held
  back for confirmation (a first call with \<^verbatim>\<open>confirm_dangerous\<close>, or the call that resumes an interrupted
  run), the request asked for it, or the log of the run has an \<open>approval_resolved\<close> event that approves.
\<close>

theorem resume_requires_approval:
  assumes "engine_run g" and "i < length (eg_objs g)"
    and "m_task (obj g i) \<in> {Some (TRun True), Some TResumed, Some CResumed}"
  shows "m_confirm_dangerous (obj g i) \<or>
    (\<exists>e \<in> set (run_log (eg_store g) (m_run_id (obj g i))).
      ev_type e = ''approval_resolved'' \<and> dget (payload_of e) ''approved'' = PBool True)"
  using inv_obj [OF engine_run_inv [OF assms(1)] assms(2)] assms(3)
  unfolding obj_ok_def approval_logged_def by auto

text \<open>A run that is interrupted, approved and resumed.\<close>

definition demo_waiting :: engine where
  "demo_waiting =
     (let g = snd (engine_create_run demo_engine ''t'' [] False False None);
          g = execute_start 0 False g
      in execute_outcome 0 False (GraphInterrupted [(''reason'', PStr ''write'')]) (undisturbed 0 g))"

definition demo_resumed :: engine where
  "demo_resumed = execute_wake 0 False (snd (engine_approve demo_waiting ''r0''))"

lemma demo_started:
  "engine_step\<^sup>*\<^sup>* demo_engine (execute_start 0 False (snd (engine_create_run demo_engine ''t'' [] False False None)))"
proof -
  define g1 where "g1 = snd (engine_create_run demo_engine ''t'' [] False False None)"
  have "at g1 0 TStart" "\<not> m_cancelling (obj g1 0)"
    unfolding at_def g1_def by code_simp+
  then have "engine_step demo_engine g1" "engine_step g1 (execute_start 0 False g1)"
    using engine_step.start by (auto simp: g1_def intro: engine_step.request)
  then show ?thesis unfolding g1_def by (meson converse_rtranclp_into_rtranclp rtranclp.rtrancl_refl)
qed

lemma demo_waiting_steps: "engine_step\<^sup>*\<^sup>* demo_engine demo_waiting"
proof -
  define g2 where "g2 = execute_start 0 False (snd (engine_create_run demo_engine ''t'' [] False False None))"
  have "at g2 0 (TRun False)" unfolding at_def g2_def by code_simp
  then have "engine_step g2 demo_waiting"
    unfolding demo_waiting_def Let_def g2_def by (rule engine_step.outcome)
  then show ?thesis using demo_started unfolding g2_def by (rule rtranclp.rtrancl_into_rtrancl [rotated])
qed

lemma demo_resumed_steps: "engine_step\<^sup>*\<^sup>* demo_engine demo_resumed"
proof -
  define g3 where "g3 = snd (engine_approve demo_waiting ''r0'')"
  have "at g3 0 TWait" "m_approval_event (obj g3 0)" unfolding at_def g3_def by code_simp+
  then have "engine_step g3 demo_resumed" unfolding demo_resumed_def g3_def by (blast intro: engine_step.wake)
  moreover have "engine_step demo_waiting g3" unfolding g3_def by (rule engine_step.approve)
  ultimately show ?thesis using demo_waiting_steps by (meson rtranclp.rtrancl_into_rtrancl)
qed

lemma demo_engine_run: "engine_step\<^sup>*\<^sup>* demo_engine g \<Longrightarrow> engine_run g"
  unfolding engine_run_def using demo_init reachable_empty by blast

theorem resume_requires_approval_witness:
  "\<not> m_confirm_dangerous (obj demo_resumed 0) \<and> m_task (obj demo_resumed 0) = Some TResumed
    \<and> (\<exists>e \<in> set (run_log (eg_store demo_resumed) ''r0''). ev_type e = ''approval_resolved'')"
proof -
  have d: "0 < length (eg_objs demo_resumed)" "m_task (obj demo_resumed 0) = Some TResumed"
      "\<not> m_confirm_dangerous (obj demo_resumed 0)" "m_run_id (obj demo_resumed 0) = ''r0''" by code_simp+
  from resume_requires_approval [OF demo_engine_run [OF demo_resumed_steps] d(1)] d(2-4) show ?thesis by auto
qed

section \<open>The end of a runner call\<close>

lemma status_effects [simp]:
  "run_status (eg_store (append_for i ty p g)) = run_status (eg_store g)"
  "run_status (eg_store (emit_runtime i ev g)) = run_status (eg_store g)"
  "run_status (eg_store (append_failed_meta i m rs ph g)) = run_status (eg_store g)"
  by (simp_all add: append_for_def emit_runtime_def append_failed_meta_def)

lemma status_finally [simp]: "run_status (eg_store (finally_block i c g)) = run_status (eg_store g)"
proof -
  have rest: "run_status (eg_store (finalize_rest i c cc g)) = run_status (eg_store g)" for cc g
    by (simp add: finalize_rest_def append_consistency_checked_def Let_def)
  then have "run_status (eg_store (finalize_memory i c g)) = run_status (eg_store g)" for g
    by (simp add: finalize_memory_def checkpoint_checked_def Let_def split: prod.split)
  then show ?thesis by (simp add: finally_block_def Let_def)
qed

definition settled :: "string \<Rightarrow> run_outcome \<Rightarrow> string" where
  "settled st out = (case out of
     RunOk \<Rightarrow> (if st = RUN_STATUS_RUNNING then RUN_STATUS_COMPLETED else RUN_STATUS_FAILED)
   | RunCancelled \<Rightarrow> RUN_STATUS_CANCELLED | _ \<Rightarrow> RUN_STATUS_FAILED)"

definition clean_end :: "string \<Rightarrow> run_outcome \<Rightarrow> bool" where
  "clean_end st out \<longleftrightarrow> (case out of GraphInterrupted p \<Rightarrow> False | RunCancelled \<Rightarrow> st = RUN_STATUS_CANCELLING
     | CheckpointSyncFailed m \<Rightarrow> m \<noteq> [] | RunException m \<Rightarrow> m \<noteq> [] | _ \<Rightarrow> True)"

lemma run_step_active:
  "st \<in> {''running'', ''cancelling''} \<Longrightarrow> run_step st ''failed''" "run_step ''running'' ''completed''"
  "run_step ''cancelling'' ''cancelled''" "\<not> run_step ''cancelling'' ''completed''"
  by (auto simp: run_step_iff_table ALLOWED_RUN_TRANSITIONS_def)

lemma fail_run_status:
  assumes "run_status (eg_store g) (m_run_id (obj g i)) = Some st" and "st \<in> {''running'', ''cancelling''}" and "m \<noteq> []"
  shows "run_status (eg_store (fail_run i m er rs ph g)) = (run_status (eg_store g))(m_run_id (obj g i) \<mapsto> ''failed'')"
  using assms status_update(2) [OF _ run_step_active(1) [OF assms(2)]]
  by (simp add: fail_run_def Let_def store_complete_for complete_run_def opt_str_def append_failed_meta_def emit_runtime_def)

lemma mark_cancelled_status:
  assumes "run_status (eg_store g) (m_run_id (obj g i)) = Some ''cancelling''"
  shows "run_status (eg_store (mark_cancelled i g)) = (run_status (eg_store g))(m_run_id (obj g i) \<mapsto> ''cancelled'')"
  using assms status_update(2) [OF _ run_step_active(3)]
  by (simp add: mark_cancelled_def store_status_for)

lemma complete_for_running:
  assumes "run_status (eg_store g) (m_run_id (obj g i)) = Some ''running''"
  shows "fst (complete_for i None g) = None"
    and "run_status (eg_store (snd (complete_for i None g))) = (run_status (eg_store g))(m_run_id (obj g i) \<mapsto> ''completed'')"
  using status_update [OF assms run_step_active(2), of None True]
  by (auto simp: complete_for_def complete_run_def opt_str_def split_beta)

lemma complete_for_cancelling:
  assumes "run_status (eg_store g) (m_run_id (obj g i)) = Some ''cancelling''"
  shows "fst (complete_for i None g) = Some (InvalidRunTransitionError ''cancelling'' ''completed'')"
    and "run_status (eg_store (snd (complete_for i None g))) = run_status (eg_store g)"
proof -
  obtain r where r: "get_run (eg_store g) (m_run_id (obj g i)) = Some r" "rn_status r = ''cancelling''"
    using assms by (auto simp: run_status_def)
  have v: "validate_run_transition ''cancelling'' ''completed'' = Inl (InvalidRunTransitionError ''cancelling'' ''completed'')"
    by (simp add: validate_run_transition_eq run_status_sets run_step_active)
  obtain res s' where eq: "update_run_status (eg_store g) (m_run_id (obj g i)) ''completed'' None True = (res, s')" by force
  then have "res = Inl (InvalidRunTransitionError ''cancelling'' ''completed'') \<and> same_runs_and_log (eg_store g) s'"
    by (cases rule: update_run_status_cases) (use r v run_step_active(4) in \<open>auto simp: run_status_sets\<close>)
  then show "fst (complete_for i None g) = Some (InvalidRunTransitionError ''cancelling'' ''completed'')"
    "run_status (eg_store (snd (complete_for i None g))) = run_status (eg_store g)"
    using eq by (auto simp: complete_for_def complete_run_def opt_str_def run_status_same)
qed

lemma fail_run_frame [simp]:
  "m_slot (obj (put_queue i x g) j) = m_slot (obj g j)"
  "m_slot (obj (fail_run i m er rs ph g) j) = m_slot (obj g j)"
  "m_slot (obj (mark_cancelled i g) j) = m_slot (obj g j)"
  "eg_slots (put_queue i x g) = eg_slots g" "eg_slots (fail_run i m er rs ph g) = eg_slots g"
  "eg_slots (mark_cancelled i g) = eg_slots g"
proof -
  show q: "m_slot (obj (put_queue i x g) j) = m_slot (obj g j)" for i x g
    by (cases "i < length (eg_objs g)") (simp_all add: put_queue_def upd_def obj_def nth_list_update list_update_beyond)
  show s: "eg_slots (put_queue i x g) = eg_slots g" for i x g by (simp add: put_queue_def)
  show "m_slot (obj (fail_run i m er rs ph g) j) = m_slot (obj g j)" "eg_slots (fail_run i m er rs ph g) = eg_slots g"
    by (simp_all add: fail_run_def Let_def emit_runtime_def append_failed_meta_def q s)
  show "m_slot (obj (mark_cancelled i g) j) = m_slot (obj g j)" "eg_slots (mark_cancelled i g) = eg_slots g"
    by (simp_all add: mark_cancelled_def)
qed

text \<open>The outcome is handled, then the \<open>finally\<close> block runs.\<close>

definition handled :: "nat \<Rightarrow> engine \<Rightarrow> string \<Rightarrow> engine \<Rightarrow> bool" where
  "handled i g st h \<longleftrightarrow> run_status (eg_store h) = (run_status (eg_store g))(m_run_id (obj g i) \<mapsto> st)
     \<and> m_slot (obj h i) = m_slot (obj g i) \<and> eg_slots h = eg_slots g \<and> length (eg_objs h) = length (eg_objs g)"

lemma handled_fail:
  assumes "run_status (eg_store g) (m_run_id (obj g i)) = Some st" and "st \<in> {''running'', ''cancelling''}" and "m \<noteq> []"
  shows "handled i g ''failed'' (fail_run i m er rs ph g)"
  using fail_run_status [OF assms] by (simp add: handled_def)

lemma handled_cancel:
  "run_status (eg_store g) (m_run_id (obj g i)) = Some ''cancelling'' \<Longrightarrow> handled i g ''cancelled'' (mark_cancelled i g)"
  using mark_cancelled_status by (simp add: handled_def)

lemma handled_ok:
  assumes "run_status (eg_store g) (m_run_id (obj g i)) = Some st" and "st \<in> {''running'', ''cancelling''}"
  shows "\<exists>h. handled i g (settled st RunOk) h \<and>
    (case complete_for i None g of (None, g) \<Rightarrow> finally_block i c g
      | (Some e, g) \<Rightarrow> finally_block i c (fail_run i (pyerr_str e) None ''runtime_exception'' ph g)) = finally_block i c h"
proof (cases "st = ''running''")
  case True
  then show ?thesis
    using complete_for_running [of g i] assms(1)
    by (intro exI [of _ "snd (complete_for i None g)"]) (simp add: handled_def settled_def split_beta)
next
  case False
  let ?h = "snd (complete_for i None g)"
  let ?m = "pyerr_str (InvalidRunTransitionError ''cancelling'' ''completed'')"
  have c: "fst (complete_for i None g) = Some (InvalidRunTransitionError ''cancelling'' ''completed'')"
    "run_status (eg_store ?h) = run_status (eg_store g)"
    using complete_for_cancelling [of g i] False assms by auto
  have "?m \<noteq> []" by simp
  then have "handled i ?h ''failed'' (fail_run i ?m None ''runtime_exception'' ph ?h)"
    by (intro handled_fail [of _ _ st]) (use assms c in simp_all)
  then have "handled i g (settled st RunOk) (fail_run i ?m None ''runtime_exception'' ph ?h)"
    using c(2) False by (simp add: handled_def settled_def)
  then show ?thesis using c(1) by (intro exI [of _ "fail_run i ?m None ''runtime_exception'' ph ?h"]) (simp add: split_beta)
qed

lemma timeout_message_nonempty: "timeout_message g \<noteq> []"
  by (simp add: timeout_message_def)

lemma outcome_handled:
  assumes st: "run_status (eg_store g) (m_run_id (obj g i)) = Some st" "st \<in> {''running'', ''cancelling''}"
    and out: "clean_end st out"
  shows "\<exists>h. handled i g (settled st out) h \<and> execute_outcome i c out g = finally_block i c h"
    and "\<exists>h. handled i g (settled st out) h \<and> continue_outcome i c out g = finally_block i c h"
proof -
  have fail: "\<exists>h. handled i g ''failed'' h \<and> finally_block i c (fail_run i m er rs ph g) = finally_block i c h"
    if "m \<noteq> []" for m er rs ph using handled_fail [OF st that] by blast
  note ok = handled_ok [OF st, of c]
  have cancel: "\<exists>h. handled i g ''cancelled'' h \<and> finally_block i c (mark_cancelled i g) = finally_block i c h"
    if "st = ''cancelling''" using handled_cancel st(1) that by blast
  show "\<exists>h. handled i g (settled st out) h \<and> execute_outcome i c out g = finally_block i c h"
    using out ok [of "''execute''"] fail cancel timeout_message_nonempty
    by (cases out) (simp_all add: execute_outcome_def clean_end_def settled_def)
  show "\<exists>h. handled i g (settled st out) h \<and> continue_outcome i c out g = finally_block i c h"
    using out ok [of "''approval_resume''"] fail cancel timeout_message_nonempty
    by (cases out) (simp_all add: continue_outcome_def clean_end_def settled_def)
qed

lemma undisturbed_frame:
  "run_status (eg_store (undisturbed i g)) = run_status (eg_store g)"
  "i < length (eg_objs g) \<Longrightarrow> m_run_id (obj (undisturbed i g) i) = m_run_id (obj g i)"
  "i < length (eg_objs g) \<Longrightarrow> m_slot (obj (undisturbed i g) i) = m_slot (obj g i)"
  "eg_slots (undisturbed i g) = eg_slots g"
  by (simp_all add: undisturbed_def obj_upd)

lemma finally_releases:
  assumes "handled i g st h" and "i < length (eg_objs g)" and "m_slot (obj g i)"
  shows "run_status (eg_store (finally_block i c h)) = (run_status (eg_store g))(m_run_id (obj g i) \<mapsto> st)
    \<and> eg_slots (finally_block i c h) = eg_slots g + 1 \<and> \<not> m_slot (obj (finally_block i c h) i)
    \<and> \<not> live (obj (finally_block i c h) i)"
proof -
  have h: "i < length (eg_objs h)" "m_slot (obj h i)" using assms by (simp_all add: handled_def)
  obtain t q where e: "ended t" "eg_objs (finally_block i c h) =
      (eg_objs h)[i := (obj h i)\<lparr>m_queue := q, m_slot := False, m_task := Some t\<rparr>]"
    "eg_slots (finally_block i c h) = eg_slots h + (if m_slot (obj h i) then 1 else 0)"
    using finally_effect [OF h(1)] by blast
  then have "obj (finally_block i c h) i = (obj h i)\<lparr>m_queue := q, m_slot := False, m_task := Some t\<rparr>"
    using h(1) by (simp add: obj_def)
  then show ?thesis using e(1,3) assms(1) h(2) by (auto simp: handled_def ended_def live_def)
qed



section \<open>Where a run is left behind\<close>

text \<open>
  A failure after the approval leaves no trace. When the runner call that follows an approved wait
  ends with anything but success (an exception, a time-out, a cancellation, a second interrupt), the task
  ends and gives its slot back, but the store is exactly as it was: the run stays \<open>running\<close> with no error,
  no failure record and no task, and its thread accepts no other run. The handlers beside
  \<^verbatim>\<open>except GraphInterrupted\<close> do not apply to code inside it.
\<close>

theorem failure_after_approval_unrecorded:
  assumes "engine_run g" and "at g i TResumed"
    and "run_status (eg_store g) (m_run_id (obj g i)) = Some RUN_STATUS_RUNNING" and "out \<noteq> RunOk"
  shows "eg_store (execute_second_outcome i c out (undisturbed i g)) = eg_store g
    \<and> m_task (obj (execute_second_outcome i c out (undisturbed i g)) i) = Some TDone
    \<and> eg_slots (execute_second_outcome i c out (undisturbed i g)) = eg_slots g + 1"
proof -
  let ?g = "undisturbed i g"
  have i: "i < length (eg_objs g)" using assms(2) by (simp add: at_def)
  then have i': "i < length (eg_objs ?g)" by simp
  have slot: "m_slot (obj ?g i)"
    using inv_obj [OF engine_run_inv [OF assms(1)] i] assms(2) i by (simp add: at_def obj_ok_def live_def undisturbed_frame)
  have o: "execute_second_outcome i c out ?g = finally_block i c ?g"
    using assms(4) by (cases out) (simp_all add: execute_second_outcome_def)
  define h where "h = release_slot i (put_queue i FinalMarker ?g)"
  have h: "eg_store h = eg_store g" "m_run_id (obj h i) = m_run_id (obj g i)" "length (eg_objs h) = length (eg_objs g)"
      "eg_slots h = eg_slots g + 1"
    using i slot by (simp_all add: h_def release_slot_def put_queue_def undisturbed_def upd_def obj_def)
  have "\<not> is_terminal h i"
    using assms(3) by (auto simp: is_terminal_def h run_status_def run_status_sets split: option.splits)
  then have f: "finally_block i c ?g = upd i (\<lambda>m. m\<lparr>m_task := Some TDone\<rparr>) h"
    by (simp add: finally_block_def h_def)
  show ?thesis unfolding o f using i h by (simp add: obj_upd)
qed

theorem failure_after_approval_unrecorded_witness:
  "run_status (eg_store (execute_second_outcome 0 False (RunException ''boom'') (undisturbed 0 demo_resumed))) ''r0''
    = Some ''running''"
proof -
  have d: "at demo_resumed 0 TResumed" "m_run_id (obj demo_resumed 0) = ''r0''"
      "run_status (eg_store demo_resumed) ''r0'' = Some ''running''" unfolding at_def by code_simp+
  from failure_after_approval_unrecorded [OF demo_engine_run [OF demo_resumed_steps] d(1), of "RunException ''boom''" False]
  show ?thesis using d(2,3) by simp
qed

text \<open>
  A waiting run without a task cannot be cancelled. A run that waits for approval after a restart (or
  whose task has ended) is set to \<open>cancelling\<close> by \<^verbatim>\<open>cancel\<close> and stays there: its object still has no
  task that could act on the request, and \<^verbatim>\<open>approve\<close> and \<^verbatim>\<open>reject\<close> now change nothing at all.
\<close>

theorem cancel_without_task_stays:
  assumes "engine_inv g" and "eg_runs g rid = Some i" and "m_task (obj g i) \<in> {None, Some TDone}"
    and "run_status (eg_store g) rid = Some RUN_STATUS_WAITING_APPROVAL" and "g' = snd (engine_cancel g rid)"
  shows "run_status (eg_store g') rid = Some RUN_STATUS_CANCELLING
    \<and> map m_task (eg_objs g') = map m_task (eg_objs g)
    \<and> snd (engine_approve g' rid) = g' \<and> snd (engine_reject g' rid) = g'"
proof -
  have i: "i < length (eg_objs g)" using table_obj [OF assms(1,2)] by simp
  obtain r where r: "get_run (eg_store g) rid = Some r" "rn_status r = ''waiting_approval''"
    using assms(4) by (auto simp: run_status_def)
  have step: "run_step ''waiting_approval'' ''cancelling''" by (simp add: run_step_iff_table ALLOWED_RUN_TRANSITIONS_def)
  have u: "\<exists>x. fst (update_run_status (eg_store g) rid ''cancelling'' None False) = Inr x"
      "run_status (snd (update_run_status (eg_store g) rid ''cancelling'' None False)) = (run_status (eg_store g))(rid \<mapsto> ''cancelling'')"
    using status_update [OF _ step, of "eg_store g" rid None False] assms(4) by auto
  define s where "s = snd (append_event (snd (update_run_status (eg_store g) rid ''cancelling'' None False))
      (m_thread_id (obj g i)) rid ''cancel_requested'' [])"
  have g': "g' = cancel_task i (upd i (\<lambda>m. m\<lparr>m_cancel_requested := True, m_approval_event := True\<rparr>) (set_store s g))"
    using u(1) assms(2) r by (auto simp: assms(5) engine_cancel_def s_def Let_def split_beta run_status_sets)
  have st: "run_status (eg_store g') rid = Some ''cancelling''" using u(2) by (simp add: g' s_def)
  then obtain r' where r': "get_run (eg_store g') rid = Some r'" "rn_status r' = ''cancelling''" by (auto simp: run_status_def)
  have runs: "eg_runs g' rid = Some i" using assms(2) by (simp add: g' cancel_task_def)
  have "map m_task (eg_objs g') = map m_task (eg_objs g)"
    using i assms(3) unfolding g' cancel_task_def upd_def set_store_def
    by (auto simp: map_update task_done_def obj_def intro!: list_update_same_conv [THEN iffD2])
  then show ?thesis using st r' runs by (simp add: engine_approve_def engine_reject_def)
qed

text \<open>The same run when the process restarts while it waits.\<close>

definition demo_restarted :: engine where
  "demo_restarted = rehydrate_run (hd (runs (eg_store demo_waiting))) (fresh_engine demo_config (eg_store demo_waiting))"

lemma demo_restarted_init: "engine_init demo_config (eg_store demo_waiting) = Inr demo_restarted"
proof -
  define s where "s = eg_store demo_waiting"
  have "runs_with_status s [''cancelling''] = []" "runs_with_status s [''queued'', ''running''] = []"
      "runs_with_status s [''waiting_approval''] = [hd (runs s)]"
    unfolding s_def by code_simp+
  then show ?thesis unfolding demo_restarted_def s_def [symmetric] by (simp add: engine_init_def)
qed

lemma demo_restarted_steps: "engine_step\<^sup>*\<^sup>* demo_engine demo_restarted"
  by (rule rtranclp.rtrancl_into_rtrancl [OF demo_waiting_steps engine_step.restart [OF demo_restarted_init]])

lemmas demo_restarted_inv = engine_run_inv [OF demo_engine_run [OF demo_restarted_steps]]

lemma demo_restarted_facts:
  "eg_runs demo_restarted ''r0'' = Some 0" "m_task (obj demo_restarted 0) = None"
  "run_status (eg_store demo_restarted) ''r0'' = Some ''waiting_approval''"
  by code_simp+

theorem cancel_without_task_stays_witness:
  "run_status (eg_store (snd (engine_cancel demo_restarted ''r0''))) ''r0'' = Some ''cancelling''"
  using cancel_without_task_stays [OF demo_restarted_inv demo_restarted_facts(1) _ _ refl] demo_restarted_facts by simp

definition demo_leaked :: engine where
  "demo_leaked = set_task 0 TDone (snd (engine_cancel (snd (engine_approve demo_restarted ''r0'')) ''r0''))"

text \<open>
  A cancellation that reaches a continuation before its first step loses a slot for good. The waiting
  run of \<open>demo_restarted\<close> is approved and, in the same turn of the loop, cancelled: the continuation task ends
  without entering its body, so its \<open>finally\<close> block does not run. No task is left, the run stays
  \<open>cancelling\<close>, and with a limit of one every later request to create a run is refused.
\<close>

theorem early_cancel_leaks_slot:
  "engine_run demo_leaked
    \<and> filter live (eg_objs demo_leaked) = []
    \<and> run_status (eg_store demo_leaked) ''r0'' = Some RUN_STATUS_CANCELLING
    \<and> (\<forall>tid msgs cf sm key. fst (engine_create_run demo_leaked tid msgs cf sm key) = Inl (RunConcurrencyLimitError 1))"
proof -
  define g where "g = snd (engine_cancel (snd (engine_approve demo_restarted ''r0'')) ''r0'')"
  have "at g 0 CStart" "m_cancelling (obj g 0)" unfolding at_def g_def by code_simp+
  then have "engine_step g demo_leaked" unfolding demo_leaked_def g_def by (blast intro: engine_step.unstarted)
  moreover have "engine_step demo_restarted (snd (engine_approve demo_restarted ''r0''))"
      "engine_step (snd (engine_approve demo_restarted ''r0'')) g"
    unfolding g_def by (rule engine_step.intros)+
  ultimately have "engine_step\<^sup>*\<^sup>* demo_engine demo_leaked"
    using demo_restarted_steps by (meson rtranclp.rtrancl_into_rtrancl)
  then have run: "engine_run demo_leaked" by (rule demo_engine_run)
  have s: "eg_slots demo_leaked = 0" "eg_limit demo_leaked = 1" by code_simp+
  have l: "map m_task (eg_objs demo_leaked) = [Some TDone]" by code_simp
  have "\<not> live m" if "m \<in> set (eg_objs demo_leaked)" for m
  proof -
    have "m_task m \<in> set (map m_task (eg_objs demo_leaked))" using that by simp
    then show ?thesis unfolding l by (simp add: live_def)
  qed
  then have "filter live (eg_objs demo_leaked) = []" by (simp add: filter_empty_conv)
  moreover have "run_status (eg_store demo_leaked) ''r0'' = Some ''cancelling''" by code_simp
  moreover have "fst (engine_create_run demo_leaked tid msgs cf sm key) = Inl (RunConcurrencyLimitError 1)" for tid msgs cf sm key
    by (simp add: engine_create_run_def acquire_slot_def s)
  ultimately show ?thesis using run by simp
qed

section \<open>The guards of approve and reject\<close>

text \<open>
  \<^verbatim>\<open>approve\<close> and \<^verbatim>\<open>reject\<close> act on a waiting run only. For a run id the engine does not have they
  raise \<^verbatim>\<open>KeyError\<close>; for a run in any other status than \<open>waiting_approval\<close> they answer its row; in both
  cases nothing changes. On a waiting run whose task waits, one \<open>approval_resolved\<close> event with the verdict is
  recorded, and the verdict and the wake-up are set on the object.
\<close>

theorem approve_guarded:
  "(eg_runs g rid = None \<longrightarrow> engine_approve g rid = (Inl (KeyError rid), g) \<and> engine_reject g rid = (Inl (KeyError rid), g))
    \<and> (eg_runs g rid = Some i \<and> get_run (eg_store g) rid = Some r \<and> rn_status r \<noteq> RUN_STATUS_WAITING_APPROVAL \<longrightarrow>
        engine_approve g rid = (Inr (Some r), g) \<and> engine_reject g rid = (Inr (Some r), g))
    \<and> (eg_runs g rid = Some i \<and> i < length (eg_objs g) \<and> m_task (obj g i) = Some TWait \<and> \<not> m_rehydrated (obj g i)
        \<and> run_status (eg_store g) rid = Some RUN_STATUS_WAITING_APPROVAL \<longrightarrow>
        (\<exists>s. snd (engine_approve g rid) =
            upd i (\<lambda>m. m\<lparr>m_approved := True, m_approval_event := True\<rparr>) (set_store s g)
          \<and> s = snd (append_event (eg_store g) (m_thread_id (obj g i)) rid ''approval_resolved''
                (resolved_payload True (m_thread_id (obj g i))))))"
proof (intro conjI impI)
  assume a: "eg_runs g rid = Some i \<and> i < length (eg_objs g) \<and> m_task (obj g i) = Some TWait \<and> \<not> m_rehydrated (obj g i)
        \<and> run_status (eg_store g) rid = Some RUN_STATUS_WAITING_APPROVAL"
  then obtain r where "get_run (eg_store g) rid = Some r" "rn_status r = ''waiting_approval''" by (auto simp: run_status_def)
  with a show "\<exists>s. snd (engine_approve g rid) =
            upd i (\<lambda>m. m\<lparr>m_approved := True, m_approval_event := True\<rparr>) (set_store s g)
          \<and> s = snd (append_event (eg_store g) (m_thread_id (obj g i)) rid ''approval_resolved''
                (resolved_payload True (m_thread_id (obj g i))))"
    by (simp add: engine_approve_def resolve_approval_def task_done_def upd_def obj_def set_store_def Let_def)
qed (simp_all add: engine_approve_def engine_reject_def)

theorem approve_guarded_witness:
  "engine_reject demo_waiting ''x'' = (Inl (KeyError ''x''), demo_waiting)
    \<and> m_approved (obj (snd (engine_approve demo_waiting ''r0'')) 0)"
proof -
  have d: "eg_runs demo_waiting ''x'' = None" "eg_runs demo_waiting ''r0'' = Some 0" "0 < length (eg_objs demo_waiting)"
      "m_task (obj demo_waiting 0) = Some TWait" "\<not> m_rehydrated (obj demo_waiting 0)"
      "run_status (eg_store demo_waiting) ''r0'' = Some ''waiting_approval''"
    by code_simp+
  obtain s where "snd (engine_approve demo_waiting ''r0'') =
      upd 0 (\<lambda>m. m\<lparr>m_approved := True, m_approval_event := True\<rparr>) (set_store s demo_waiting)"
    using approve_guarded [of demo_waiting "''r0''" 0] d(2-6) by auto
  then show ?thesis using approve_guarded [of demo_waiting "''x''"] d(1,3) by (simp add: obj_upd)
qed

end
