(* ===== verification/Timeline.thy ===== *)
theory Timeline
  imports Projections
begin

text \<open>
  The run timeline of \<^verbatim>\<open>copilot_agent/runtime/timeline.py\<close>: \<^verbatim>\<open>TimelineProjector.project_run\<close>, one definition
  per branch of its loop and per helper.

  \<^item> The local variables of the loop are a record (\<open>timeline\<close>). The items, warnings and tool entries are
    dictionaries with the keys the code gives them; the entries of \<^verbatim>\<open>tools\<close> keep the order in which their
    keys were first set.
  \<^item> The pending approval is one object, held by a variable and by the list of items; the definitions
    update both.
  \<^item> \<open>None\<close> is an exception of \<^verbatim>\<open>int()\<close>, \<^verbatim>\<open>len()\<close> or an iteration over a payload field of the wrong type.
  \<^item> The sum of the costs, a float, is a parameter: \<open>cost_sum vs\<close> is \<^verbatim>\<open>round(sum(float(v)), 8)\<close>.
\<close>

definition TL_TERMINAL_STATUSES :: "string list" where
  "TL_TERMINAL_STATUSES = [''completed'', ''failed'', ''cancelled'']"

definition LIFECYCLE_EVENTS :: "string list" where
  "LIFECYCLE_EVENTS = [''run_created'', ''run_started'', ''done'', ''error'', ''cancel_requested'', ''cancelled'']"

definition CHECKPOINT_EVENTS :: "string list" where
  "CHECKPOINT_EVENTS = [''run_checkpoint_meta'', ''run_completed_meta'', ''run_failed_meta'', ''run_consistency_checked'',
     ''checkpoint_consistency_checked'', ''thread_checkpoint_purged'']"

definition MEMORY_EVENTS :: "string list" where
  "MEMORY_EVENTS = [''memory_run_summary'', ''memory_thread_summary'', ''checkpoint_compacted'', ''memory_item_confirmed'',
     ''memory_item_rejected'', ''memory_item_deleted'', ''memory_item_delete_proof'']"

definition ROBOT_EVENTS :: "string list" where
  "ROBOT_EVENTS = [''robot_observation_recorded'', ''vla_policy_inferred'', ''robot_action_executed'', ''robot_episode_labeled'']"

section \<open>Helpers\<close>

text \<open>\<^verbatim>\<open>int(x or d)\<close>, \<^verbatim>\<open>len(x or [])\<close>, \<^verbatim>\<open>bool(payload.get(k, d))\<close>, and fields copied under their own names.\<close>

definition int_or :: "pyval \<Rightarrow> int \<Rightarrow> int option" where
  "int_or v d = py_int (py_or v (PInt d))"

definition len_or :: "pyval \<Rightarrow> int option" where
  "len_or v = py_len (py_or v (PList []))"

definition flag :: "dict \<Rightarrow> string \<Rightarrow> bool \<Rightarrow> pyval" where
  "flag payload k d = PBool (truthy (dget_or payload k (PBool d)))"

definition copied :: "dict \<Rightarrow> string list \<Rightarrow> dict" where
  "copied payload ks = map (\<lambda>k. (k, dget payload k)) ks"

definition list_field :: "dict \<Rightarrow> string \<Rightarrow> pyval" where
  "list_field payload k = PList (as_list (dget payload k))"

definition base_item :: "string \<Rightarrow> string \<Rightarrow> event_row \<Rightarrow> dict" where
  "base_item kind title e =
     [(''kind'', PStr kind), (''title'', PStr title), (''event_id'', PInt (ev_id e)), (''created_at'', PInt (ev_created_at e))]"

definition tl_preview :: "string \<Rightarrow> nat \<Rightarrow> string" where
  "tl_preview text lim =
     (let normalized = join '' '' (words text) in
      if length normalized \<le> lim then normalized else take (lim - 3) normalized @ ''...'')"

definition source_name :: "pyval \<Rightarrow> string list" where
  "source_name source =
     (if \<not> is_dict source then []
      else
        (let file_name = strip (str_or (dget (as_dict source) ''source_file''));
             section = strip (str_or (py_or (dget (as_dict source) ''section_title'') (dget (as_dict source) ''heading_path'')))
         in if file_name \<noteq> [] \<and> section \<noteq> [] then [file_name @ '' '' @ [char_of (183 :: nat)] @ '' '' @ section]
            else if file_name \<noteq> [] then [file_name] else []))"

definition retrieval_preview :: "dict \<Rightarrow> string option" where
  "retrieval_preview payload =
     (let query = strip (str_or (dget payload ''query''));
          sources = as_list (dget payload ''sources'');
          names = concat (map source_name (take 4 sources))
      in map_option (\<lambda>count.
           (let parts = (if query \<noteq> [] then [''query='' @ str_repr query] else [])
                  @ (if names \<noteq> [] then [''sources='' @ join '', '' names] else [])
                  @ (if count \<noteq> 0 then [''hits='' @ int_str count] else [])
            in tl_preview (if join ''; '' parts \<noteq> [] then join ''; '' parts else ''retrieval'') 240))
         (int_or (dget payload ''source_count'') (int (length sources))))"

section \<open>The state of the loop\<close>

record timeline =
  tl_items :: "dict list"
  tl_warnings :: "dict list"
  token_buffer :: "string list"
  token_event_ids :: "int list"
  tl_tools :: "(string \<times> dict) list"
  approval_pending :: "dict option"
  approval_index :: nat
  checkpoint_items :: "dict list"

definition empty_timeline :: timeline where
  "empty_timeline = \<lparr>tl_items = [], tl_warnings = [], token_buffer = [], token_event_ids = [], tl_tools = [],
     approval_pending = None, approval_index = 0, checkpoint_items = []\<rparr>"

definition add_item :: "dict \<Rightarrow> timeline \<Rightarrow> timeline" where
  "add_item i t = t\<lparr>tl_items := tl_items t @ [i]\<rparr>"

definition warn :: "dict \<Rightarrow> timeline \<Rightarrow> timeline" where
  "warn w t = t\<lparr>tl_warnings := tl_warnings t @ [w]\<rparr>"

definition output_item :: "string list \<Rightarrow> int list \<Rightarrow> dict" where
  "output_item texts ids =
     (let text = concat texts in
      [(''kind'', PStr ''assistant_output''), (''title'', PStr ''Assistant output''), (''text'', PStr text),
       (''preview'', PStr (tl_preview text 240)), (''event_ids'', PList (map PInt ids))])"

definition flush_tokens :: "timeline \<Rightarrow> timeline" where
  "flush_tokens t =
     (if token_buffer t = [] then t
      else (add_item (output_item (token_buffer t) (token_event_ids t)) t)\<lparr>token_buffer := [], token_event_ids := []\<rparr>)"

section \<open>The branches\<close>

definition lifecycle_item :: "event_row \<Rightarrow> dict" where
  "lifecycle_item e = base_item ''lifecycle'' (ev_type e) e @ [(''payload'', PDict (payload_of e))]"

definition final_answer_item :: "event_row \<Rightarrow> dict \<Rightarrow> dict option" where
  "final_answer_item e fa =
     (case (len_or (dget fa ''citations''), len_or (dget fa ''tool_evidence'')) of
        (Some citations, Some evidence) \<Rightarrow> Some
          (base_item ''final_answer'' ''Final answer'' e @
           [(''answer'', dget fa ''answer''), (''citation_count'', PInt citations),
            (''tools_used'', py_or (dget fa ''tools_used'') (PList []))] @
           copied fa [''contract_version'', ''citation_required'', ''citation_status'', ''source_count''] @
           [(''tool_evidence_count'', PInt evidence),
            (''contract_warnings'', py_or (dget fa ''contract_warnings'') (PList []))] @
           copied fa [''safety_status'', ''output_guard_action''] @ [(''payload'', PDict fa)])
      | _ \<Rightarrow> None)"

definition on_lifecycle :: "event_row \<Rightarrow> timeline \<Rightarrow> timeline option" where
  "on_lifecycle e t =
     (let payload = payload_of e; t = add_item (lifecycle_item e) t in
      if ev_type e = ''done'' \<and> is_dict (dget payload ''final_answer'')
      then map_option (\<lambda>i. add_item i t) (final_answer_item e (as_dict (dget payload ''final_answer'')))
      else Some t)"

definition tool_name :: "dict \<Rightarrow> string" where
  "tool_name payload = py_str (py_or (dget payload ''name'') (PStr ''tool''))"

definition call_id_for :: "event_row \<Rightarrow> timeline \<Rightarrow> string \<times> timeline" where
  "call_id_for e t =
     (let payload = payload_of e;
          raw = py_or (dget payload ''call_id'') (dget payload ''tool_call_id'')
      in if truthy raw then (py_str raw, t)
         else (tool_name payload @ '':'' @ int_str (ev_id e),
               warn [(''code'', PStr ''tool_missing_call_id''), (''message'', PStr ''tool event is missing call_id''),
                     (''event_id'', PInt (ev_id e)), (''tool'', PStr (tool_name payload))] t))"

definition tool_fields :: "dict \<Rightarrow> string \<Rightarrow> dict" where
  "tool_fields payload call_id =
     [(''kind'', PStr ''tool_call''), (''title'', PStr (tool_name payload)), (''call_id'', PStr call_id)] @
     copied payload [''name'', ''category'', ''risk_level''] @ [(''requires_approval'', flag payload ''requires_approval'' False)]"

definition on_tool_start :: "event_row \<Rightarrow> timeline \<Rightarrow> timeline" where
  "on_tool_start e t =
     (case call_id_for e t of
        (call_id, t) \<Rightarrow>
          (let item = tool_fields (payload_of e) call_id @
                 [(''arguments'', dget_or (payload_of e) ''arguments'' (PDict [])),
                  (''start_event_id'', PInt (ev_id e)), (''started_at'', PInt (ev_created_at e)),
                  (''end_event_id'', PNone), (''ended_at'', PNone), (''result'', PNone), (''duration_ms'', PNone),
                  (''success'', PNone), (''error'', PNone)]
           in t\<lparr>tl_tools := AList.update call_id item (tl_tools t)\<rparr>))"

definition orphan_tool :: "event_row \<Rightarrow> string \<Rightarrow> timeline \<Rightarrow> dict \<times> timeline" where
  "orphan_tool e call_id t =
     (case map_of (tl_tools t) call_id of
        Some item \<Rightarrow> (item, t)
      | None \<Rightarrow>
          (tool_fields (payload_of e) call_id @
             [(''arguments'', PDict []), (''start_event_id'', PNone), (''started_at'', PNone)],
           warn [(''code'', PStr ''tool_missing_start''), (''message'', PStr ''tool_end has no matching tool_start''),
                 (''event_id'', PInt (ev_id e)), (''call_id'', PStr call_id)] t))"

definition end_fields :: "event_row \<Rightarrow> dict" where
  "end_fields e =
     (let payload = payload_of e in
      [(''end_event_id'', PInt (ev_id e)), (''ended_at'', PInt (ev_created_at e)), (''result'', dget payload ''result''),
       (''duration_ms'', dget payload ''duration_ms''), (''success'', flag payload ''success'' True),
       (''error'', dget payload ''error'')])"

definition on_tool_end :: "event_row \<Rightarrow> timeline \<Rightarrow> timeline" where
  "on_tool_end e t =
     (case call_id_for e t of
        (call_id, t) \<Rightarrow>
          (case orphan_tool e call_id t of
             (item, t) \<Rightarrow>
               (let item = dupdate item (end_fields e);
                    t = t\<lparr>tl_tools := AList.update call_id item (tl_tools t)\<rparr>
                in if dget item ''success'' = PBool False
                   then warn [(''code'', PStr ''tool_failed''), (''message'', PStr ''tool call failed''),
                              (''event_id'', PInt (ev_id e)), (''call_id'', PStr call_id), (''tool'', dget item ''name'')] t
                   else t)))"

definition on_approval_required :: "event_row \<Rightarrow> timeline \<Rightarrow> timeline" where
  "on_approval_required e t =
     (let item = [(''kind'', PStr ''approval''), (''title'', PStr ''Approval required''), (''status'', PStr ''waiting''),
                  (''required_event_id'', PInt (ev_id e)), (''resolved_event_id'', PNone),
                  (''requested_at'', PInt (ev_created_at e)), (''resolved_at'', PNone),
                  (''required'', PDict (payload_of e)), (''resolved'', PNone)]
      in (add_item item t)\<lparr>approval_pending := Some item, approval_index := length (tl_items t)\<rparr>)"

definition on_approval_resolved :: "event_row \<Rightarrow> timeline \<Rightarrow> timeline" where
  "on_approval_resolved e t =
     (case (case approval_pending t of None \<Rightarrow> None
            | Some p \<Rightarrow> if dget p ''status'' \<noteq> PStr ''waiting'' then None else Some p) of
        None \<Rightarrow>
          (let item = [(''kind'', PStr ''approval''), (''title'', PStr ''Approval resolved''), (''status'', PStr ''resolved''),
                       (''required_event_id'', PNone), (''resolved_event_id'', PInt (ev_id e)),
                       (''requested_at'', PNone), (''resolved_at'', PInt (ev_created_at e)),
                       (''required'', PNone), (''resolved'', PDict (payload_of e))]
           in (add_item item t)\<lparr>approval_pending := Some item\<rparr>)
      | Some p \<Rightarrow>
          (let item = dupdate p
                 [(''title'', PStr ''Approval resolved''),
                  (''status'', PStr (if truthy (dget (payload_of e) ''approved'') then ''approved'' else ''rejected'')),
                  (''resolved_event_id'', PInt (ev_id e)), (''resolved_at'', PInt (ev_created_at e)),
                  (''resolved'', PDict (payload_of e))]
           in t\<lparr>tl_items := (tl_items t)[approval_index t := item], approval_pending := Some item\<rparr>))"

definition on_checkpoint :: "event_row \<Rightarrow> timeline \<Rightarrow> timeline" where
  "on_checkpoint e t = t\<lparr>checkpoint_items := checkpoint_items t @
     [base_item ''checkpoint'' (ev_type e) e @ [(''payload'', PDict (payload_of e))]]\<rparr>"

definition plan_step :: "pyval \<Rightarrow> pyval list" where
  "plan_step step = (if is_dict step
     then [PDict (copied (as_dict step) [''id'', ''goal'', ''tool_hint'', ''status'', ''outcome''])] else [])"

definition plan_item :: "event_row \<Rightarrow> dict" where
  "plan_item e =
     (let payload = payload_of e; plan = as_dict (dget payload ''plan''); steps = as_list (dget plan ''steps'') in
      base_item ''plan'' (ev_type e) e @
      [(''event_type'', PStr (ev_type e)), (''goal'', py_or (dget payload ''goal'') (dget plan ''goal''))] @
      copied payload [''strategy'', ''tool_route''] @
      [(''steps'', PList (concat (map plan_step steps))), (''payload'', PDict payload)])"

definition guard_item :: "event_row \<Rightarrow> dict option" where
  "guard_item e =
     (let payload = payload_of e in
      map_option (\<lambda>n. base_item ''output_guard'' ''Output guard checked'' e @
          [(''safe'', flag payload ''safe'' True), (''action'', dget payload ''action''), (''finding_count'', PInt n),
           (''payload'', PDict payload)])
        (int_or (dget payload ''finding_count'') 0))"

definition llm_item :: "event_row \<Rightarrow> dict" where
  "llm_item e =
     base_item ''observability'' ''LLM generation'' e @
     copied (payload_of e) [''provider'', ''model'', ''round_index'', ''latency_ms'', ''prompt_tokens'', ''completion_tokens'',
       ''total_tokens'', ''estimated_cost'', ''finish_reason'', ''tool_call_count'', ''observability_provider'',
       ''external_trace_url''] @
     [(''payload'', PDict (payload_of e))]"

definition tl_policy_item :: "event_row \<Rightarrow> dict" where
  "tl_policy_item e =
     (let payload = payload_of e in
      base_item ''policy'' ''Policy decision'' e @
      copied payload [''policy_trace_id'', ''scope'', ''source'', ''subject'', ''action'', ''resource''] @
      [(''decision'', PStr (str_or (dget payload ''decision'')))] @
      copied payload [''reason'', ''risk_level''] @
      [(''requires_approval'', flag payload ''requires_approval'' False)] @
      copied payload [''related_call_id'', ''related_event_id''] @
      [(''metadata'', PDict (as_dict (dget payload ''metadata''))), (''payload'', PDict payload)])"

definition on_policy :: "event_row \<Rightarrow> timeline \<Rightarrow> timeline" where
  "on_policy e t =
     (let payload = payload_of e; decision = str_or (dget payload ''decision''); t = add_item (tl_policy_item e) t;
          w = (\<lambda>code message. [(''code'', PStr code), (''message'', PStr message), (''event_id'', PInt (ev_id e)),
                 (''scope'', dget payload ''scope''), (''reason'', dget payload ''reason'')])
      in if decision = ''block'' then warn (w ''policy_blocked'' ''policy blocked an action'') t
         else if decision = ''deny'' then warn (w ''policy_denied'' ''policy denied an action'') t
         else t)"

definition tl_side_effect_item :: "event_row \<Rightarrow> dict" where
  "tl_side_effect_item e =
     (let payload = payload_of e in
      base_item ''side_effect'' ''Tool side effect'' e @
      copied payload [''tool_name'', ''call_id'', ''method'', ''path'', ''risk_level''] @
      [(''requires_approval'', flag payload ''requires_approval'' False), (''approval_status'', dget payload ''approval_status''),
       (''side_effect_status'', PStr (str_or (dget payload ''side_effect_status'')))] @
      copied payload [''status_code'', ''idempotency_key''] @
      [(''idempotency_reused'', flag payload ''idempotency_reused'' False),
       (''compensatable'', flag payload ''compensatable'' False)] @
      copied payload [''reason'', ''policy_trace_id''] @ [(''payload'', PDict payload)])"

definition on_side_effect :: "event_row \<Rightarrow> timeline \<Rightarrow> timeline" where
  "on_side_effect e t =
     (let payload = payload_of e; t = add_item (tl_side_effect_item e) t in
      if str_or (dget payload ''side_effect_status'') = ''unknown''
      then warn [(''code'', PStr ''side_effect_unknown''),
                 (''message'', PStr ''write tool side effect could not be confirmed''), (''event_id'', PInt (ev_id e)),
                 (''call_id'', dget payload ''call_id''), (''tool'', dget payload ''tool_name''),
                 (''reason'', dget payload ''reason'')] t
      else t)"

definition context_item :: "event_row \<Rightarrow> dict option" where
  "context_item e =
     (let payload = payload_of e; decision = as_dict (dget payload ''retrieval_decision'') in
      case (py_iter (py_or (dget payload ''context_block_sources'') (PList [])), int_or (dget payload ''context_block_count'') 0) of
        (Some sources, Some n) \<Rightarrow> Some
          (base_item ''context'' ''Context assembled'' e @
           copied payload [''assembled_message_count'', ''used_chars'', ''budget_max_chars''] @
           [(''truncated'', PBool (truthy (dget payload ''truncated''))), (''context_block_count'', PInt n),
            (''context_block_sources'', PList (map (\<lambda>s. PStr (py_str s)) (filter (\<lambda>s. strip (str_or s) \<noteq> []) sources))),
            (''retrieval_action'', dget decision ''action''), (''retrieval_reason'', dget decision ''reason''),
            (''preretrieval_enabled'', PBool (truthy (dget payload ''preretrieval_enabled''))),
            (''memory_inject_chars'', dget payload ''memory_inject_chars''), (''payload'', PDict payload)])
      | _ \<Rightarrow> None)"

definition skill_item :: "event_row \<Rightarrow> dict" where
  "skill_item e =
     (let payload = payload_of e in
      base_item ''skill'' ''Skill selected'' e @
      [(''skills'', list_field payload ''skills''), (''recommended_tools'', list_field payload ''recommended_tools''),
       (''missing_capabilities'', list_field payload ''missing_capabilities''), (''route_kind'', dget payload ''route_kind''),
       (''payload'', PDict payload)])"

definition retrieval_item :: "event_row \<Rightarrow> dict option" where
  "retrieval_item e =
     (let payload = payload_of e; sources = as_list (dget payload ''sources'') in
      case (int_or (dget payload ''source_count'') (int (length sources)), retrieval_preview payload) of
        (Some n, Some preview) \<Rightarrow> Some
          (base_item ''retrieval'' ''Document retrieval'' e @
           [(''query'', dget payload ''query''), (''source_count'', PInt n), (''excerpt_chars'', dget payload ''excerpt_chars''),
            (''sources'', PList sources), (''preview'', PStr preview), (''success'', flag payload ''success'' True)] @
           copied payload [''error'', ''call_id''] @ [(''payload'', PDict payload)])
      | _ \<Rightarrow> None)"

definition robot_item :: "event_row \<Rightarrow> dict" where
  "robot_item e =
     (let payload = payload_of e; event_type = ev_type e in
      base_item ''robot'' event_type e @ [(''event_type'', PStr event_type), (''payload'', PDict payload)] @
      (if event_type = ''robot_observation_recorded'' then
         copied payload [''frame_id'', ''input_image_hash'', ''sensor'', ''object_count'']
       else if event_type = ''vla_policy_inferred'' then
         copied payload [''policy_checkpoint_id'', ''frame_id'', ''action_count'', ''confidence'', ''fallback_reason'']
       else if event_type = ''robot_action_executed'' then
         copied payload [''policy_checkpoint_id'', ''frame_id'', ''action_count'', ''execution_status''] @
         [(''success'', flag payload ''success'' True)] @ copied payload [''safety_decision'', ''reason'']
       else if event_type = ''robot_episode_labeled'' then
         [(''episode_id'', dget payload ''episode_id''), (''success'', flag payload ''success'' False)] @
         copied payload [''failure_type'', ''policy_checkpoint_id'']
       else []))"

definition on_robot :: "event_row \<Rightarrow> timeline \<Rightarrow> timeline" where
  "on_robot e t =
     (let payload = payload_of e; t = add_item (robot_item e) t in
      if ev_type e = ''robot_action_executed'' \<and> dget payload ''success'' = PBool False
      then warn ([(''code'', PStr ''robot_action_failed''), (''message'', PStr ''robot action did not complete successfully''),
                  (''event_id'', PInt (ev_id e))] @ copied payload [''reason'', ''execution_status'']) t
      else t)"

definition memory_item_of :: "event_row \<Rightarrow> dict" where
  "memory_item_of e =
     [(''kind'', PStr ''memory''), (''title'', PStr (ev_type e)), (''derived'', PBool True), (''event_id'', PInt (ev_id e)),
      (''created_at'', PInt (ev_created_at e)), (''payload'', PDict (payload_of e))]"

definition plain_item :: "string \<Rightarrow> event_row \<Rightarrow> dict" where
  "plain_item kind e = base_item kind (ev_type e) e @ [(''payload'', PDict (payload_of e))]"

section \<open>The loop\<close>

definition on_token :: "event_row \<Rightarrow> timeline \<Rightarrow> timeline" where
  "on_token e t = t\<lparr>token_buffer := token_buffer t @ [py_str (dget_or (payload_of e) ''text'' (PStr []))],
     token_event_ids := token_event_ids t @ [ev_id e]\<rparr>"

definition project_event :: "event_row \<Rightarrow> timeline \<Rightarrow> timeline option" where
  "project_event e t =
     (let ty = ev_type e in
      if ty = ''token'' then Some (on_token e t)
      else
        (let t = flush_tokens t in
         if ty \<in> set LIFECYCLE_EVENTS then on_lifecycle e t
         else if ty = ''tool_start'' then Some (on_tool_start e t)
         else if ty = ''tool_end'' then Some (on_tool_end e t)
         else if ty = ''approval_required'' then Some (on_approval_required e t)
         else if ty = ''approval_resolved'' then Some (on_approval_resolved e t)
         else if ty \<in> set CHECKPOINT_EVENTS then Some (on_checkpoint e t)
         else if ty = ''plan_created'' \<or> ty = ''plan_updated'' then Some (add_item (plan_item e) t)
         else if ty = ''output_guard_checked'' then map_option (\<lambda>i. add_item i t) (guard_item e)
         else if ty = ''llm_generation'' then Some (add_item (llm_item e) t)
         else if ty = ''policy_decision_recorded'' then Some (on_policy e t)
         else if ty = ''tool_side_effect_recorded'' then Some (on_side_effect e t)
         else if ty = ''context_built'' then map_option (\<lambda>i. add_item i t) (context_item e)
         else if ty = ''assistant_state'' then Some (add_item (plain_item ty e) t)
         else if ty = ''skill_selected'' then Some (add_item (skill_item e) t)
         else if ty = ''retrieval_completed'' then map_option (\<lambda>i. add_item i t) (retrieval_item e)
         else if ty \<in> set ROBOT_EVENTS then Some (on_robot e t)
         else if ty \<in> set MEMORY_EVENTS then Some (add_item (memory_item_of e) t)
         else Some (add_item (plain_item ''event'' e) t)))"

fun project_events :: "event_row list \<Rightarrow> timeline \<Rightarrow> timeline option" where
  "project_events [] t = Some t"
| "project_events (e # es) t = (case project_event e t of None \<Rightarrow> None | Some t \<Rightarrow> project_events es t)"

text \<open>After the loop: the last tokens, the checkpoint items, the tools.\<close>

definition tool_missing_end :: "dict \<Rightarrow> dict list" where
  "tool_missing_end tool =
     (if dget tool ''end_event_id'' = PNone
      then [[(''code'', PStr ''tool_missing_end''), (''message'', PStr ''tool_start has no matching tool_end''),
             (''event_id'', dget tool ''start_event_id''), (''call_id'', dget tool ''call_id''), (''tool'', dget tool ''name'')]]
      else [])"

definition close_timeline :: "timeline \<Rightarrow> timeline" where
  "close_timeline t =
     (let t = flush_tokens t; tools = map snd (tl_tools t)
      in t\<lparr>tl_items := tl_items t @ checkpoint_items t @ tools,
           tl_warnings := tl_warnings t @ concat (map tool_missing_end tools)\<rparr>)"

section \<open>Warnings about the run as a whole\<close>

definition status_warnings :: "string \<Rightarrow> event_row list \<Rightarrow> dict list" where
  "status_warnings status evs =
     (let types = set (map ev_type evs);
          w = (\<lambda>code message. [[(''code'', PStr code), (''message'', PStr message)]])
      in (if status = ''completed'' \<and> ''done'' \<notin> types
          then w ''completed_without_done'' ''run is completed but has no done event'' else [])
         @ (if status = ''failed'' \<and> ''error'' \<notin> types
            then w ''failed_without_error_event'' ''run is failed but has no error event'' else [])
         @ (if status = ''cancelled'' \<and> ''cancelled'' \<notin> types
            then w ''cancelled_without_event'' ''run is cancelled but has no cancelled event'' else [])
         @ (if ''cancel_requested'' \<in> types \<and> status \<notin> set TL_TERMINAL_STATUSES \<and> ''cancelled'' \<notin> types
            then w ''cancel_requested_not_cancelled'' ''cancel was requested but run is not terminal'' else []))"

text \<open>The first place where a number is not the previous one plus one.\<close>

fun first_gap :: "int list \<Rightarrow> (int \<times> int) option" where
  "first_gap (a # b # xs) = (if b \<noteq> a + 1 then Some (a, b) else first_gap (b # xs))"
| "first_gap xs = None"

fun duplicate_ends :: "string set \<Rightarrow> event_row list \<Rightarrow> dict list" where
  "duplicate_ends seen [] = []"
| "duplicate_ends seen (e # es) =
     (let call_id = strip (str_or (dget (payload_of e) ''call_id'')) in
      if ev_type e \<noteq> ''tool_end'' \<or> call_id = [] then duplicate_ends seen es
      else (if call_id \<in> seen
            then [[(''code'', PStr ''duplicate_tool_end_call_id''),
                   (''message'', PStr ''duplicate tool_end for the same call_id''),
                   (''call_id'', PStr call_id), (''event_id'', PInt (ev_id e))]] else [])
           @ duplicate_ends (insert call_id seen) es)"

definition sequence_warnings :: "event_row list \<Rightarrow> dict list" where
  "sequence_warnings evs =
     (case first_gap (List.map_filter ev_sequence evs) of
        None \<Rightarrow> []
      | Some (a, b) \<Rightarrow> [[(''code'', PStr ''sequence_gap''),
          (''message'', PStr ''run event sequence is not strictly monotonic''),
          (''previous'', PInt a), (''current'', PInt b)]])
     @ duplicate_ends {} evs"

definition checkpoint_warnings :: "dict list \<Rightarrow> dict list" where
  "checkpoint_warnings items =
     (case find_last (\<lambda>i. py_str (dget i ''title'') = ''checkpoint_consistency_checked'') items of
        None \<Rightarrow> []
      | Some latest \<Rightarrow>
          (let payload = as_dict (dget latest ''payload''); event_id = dget latest ''event_id'' in
           (if dget payload ''checkpoint_read_ok'' = PBool False
            then [[(''code'', PStr ''checkpoint_read_failed''),
                   (''message'', PStr ''checkpoint consistency check could not read LangGraph checkpoint''),
                   (''event_id'', event_id), (''error'', dget payload ''error'')]] else [])
           @ (if dget payload ''checkpoint_missing'' = PBool True
              then [[(''code'', PStr ''checkpoint_missing''),
                     (''message'', PStr ''checkpoint consistency check found no usable checkpoint snapshot''),
                     (''event_id'', event_id)]] else [])
           @ (if dget payload ''checkpoint_match'' = PBool False
              then [[(''code'', PStr ''checkpoint_message_count_mismatch''),
                     (''message'', PStr ''checkpoint message count does not match run_completed_meta''),
                     (''event_id'', event_id), (''actual'', dget payload ''checkpoint_message_count_actual''),
                     (''reported'', dget payload ''checkpoint_message_count_reported'')]] else [])))"

definition warning_item :: "dict \<Rightarrow> dict" where
  "warning_item w = [(''kind'', PStr ''warning''), (''title'', dget w ''code''), (''warning'', PDict w)]"

section \<open>Order of the items\<close>

text \<open>
  \<^verbatim>\<open>int(event_id)\<close> of \<^verbatim>\<open>item_order\<close>: these fields of an item are event ids or absent, so the conversion does
  not raise (and counts as 0 here if it would).
\<close>

definition item_order :: "dict \<Rightarrow> int" where
  "item_order item =
     (case py_int (py_or (dget item ''event_id'') (py_or (dget item ''start_event_id'') (py_or (dget item ''required_event_id'')
             (py_or (dget item ''end_event_id'') (PInt (10 ^ 12)))))) of None \<Rightarrow> 0 | Some i \<Rightarrow> i)"

definition sort_items :: "dict list \<Rightarrow> dict list" where
  "sort_items items = sort_key item_order items"

section \<open>Summaries\<close>

definition checkpoint_summary :: "dict list \<Rightarrow> dict" where
  "checkpoint_summary items =
     fold (\<lambda>item summary.
        (let payload = py_or (dget item ''payload'') (PDict []); ty = py_str (dget_or item ''title'' (PStr [])) in
         if ty = ''run_completed_meta'' then dset ''completed'' payload summary
         else if ty = ''run_checkpoint_meta'' then dset ''interrupt'' payload summary
         else if ty = ''run_failed_meta'' then dset ''failed'' payload summary
         else if ty = ''run_consistency_checked'' then dset ''consistency'' payload summary
         else if ty = ''checkpoint_consistency_checked'' then dset ''consistency_v2'' payload summary
         else if ty = ''thread_checkpoint_purged'' then dset ''purged'' payload summary
         else summary)) items []"

definition llm_payloads :: "event_row list \<Rightarrow> dict list" where
  "llm_payloads evs = map payload_of (filter (\<lambda>e. ev_type e = ''llm_generation'') evs)"

definition last_payload :: "event_row list \<Rightarrow> string \<Rightarrow> dict" where
  "last_payload evs ty = (case find_last (\<lambda>e. ev_type e = ty) evs of None \<Rightarrow> [] | Some e \<Rightarrow> payload_of e)"

fun sum_opt :: "int option list \<Rightarrow> int option" where
  "sum_opt [] = Some 0"
| "sum_opt (x # xs) = (case (x, sum_opt xs) of (Some a, Some b) \<Rightarrow> Some (a + b) | _ \<Rightarrow> None)"

definition sum_int :: "dict list \<Rightarrow> string \<Rightarrow> int option" where
  "sum_int payloads k = sum_opt (map (\<lambda>p. int_or (dget p k) 0) payloads)"

definition count_type :: "event_row list \<Rightarrow> string \<Rightarrow> int" where
  "count_type evs ty = int (length (filter (\<lambda>e. ev_type e = ty) evs))"

definition failed_tool_events :: "event_row list \<Rightarrow> int" where
  "failed_tool_events evs =
     int (length (filter (\<lambda>e. ev_type e = ''tool_end'' \<and> dget (payload_of e) ''success'' = PBool False) evs))"

definition first_payload_value :: "dict list \<Rightarrow> string \<Rightarrow> pyval" where
  "first_payload_value payloads k =
     (case find (\<lambda>p. truthy (dget p k)) payloads of None \<Rightarrow> PNone | Some p \<Rightarrow> dget p k)"

text \<open>\<^verbatim>\<open>int(meta.get(k) or x)\<close>, where computing \<open>x\<close> may raise but happens only when the field is empty.\<close>

definition meta_or :: "dict \<Rightarrow> string \<Rightarrow> int option \<Rightarrow> int option" where
  "meta_or meta k x = (if truthy (dget meta k) then py_int (dget meta k) else x)"

fun all_ints :: "(string \<times> int option) list \<Rightarrow> dict option" where
  "all_ints [] = Some []"
| "all_ints ((k, x) # xs) = (case (x, all_ints xs) of (Some n, Some d) \<Rightarrow> Some ((k, PInt n) # d) | _ \<Rightarrow> None)"

definition observability_summary :: "event_row list \<Rightarrow> dict option" where
  "observability_summary evs =
     (let llm = llm_payloads evs; meta = last_payload evs ''run_completed_meta'';
          guard = last_payload evs ''output_guard_checked''
      in map_option (\<lambda>d. d @
           [(''output_guard_action'', py_or (dget meta ''output_guard_action'') (dget guard ''action''))] @
           map (\<lambda>k. (k, py_or (dget meta k) (first_payload_value llm k)))
             [''trace_id'', ''observability_provider'', ''external_trace_url''])
         (all_ints
           [(''llm_rounds'', meta_or meta ''llm_rounds'' (Some (int (length llm)))),
            (''total_prompt_tokens'', meta_or meta ''prompt_tokens'' (sum_int llm ''prompt_tokens'')),
            (''total_completion_tokens'', meta_or meta ''completion_tokens'' (sum_int llm ''completion_tokens'')),
            (''total_tokens'', meta_or meta ''total_tokens'' (sum_int llm ''total_tokens'')),
            (''tool_count'', meta_or meta ''tool_count'' (Some (count_type evs ''tool_start''))),
            (''failed_tool_count'', meta_or meta ''failed_tool_count'' (Some (failed_tool_events evs))),
            (''retrieval_count'', meta_or meta ''retrieval_count'' (Some (count_type evs ''retrieval_completed'')))]))"

text \<open>
  \<open>cost_sum vs\<close> stands for the float sum of the values, rounded to eight places, and for the exception of
  \<^verbatim>\<open>float()\<close>. The values of the generations are converted even when the total of the run replaces them.
\<close>

definition cost_summary :: "(pyval list \<Rightarrow> pyval option) \<Rightarrow> event_row list \<Rightarrow> dict option" where
  "cost_summary cost_sum evs =
     (let vals = filter (\<lambda>v. v \<noteq> PNone) (map (\<lambda>p. dget p ''estimated_cost'') (llm_payloads evs));
          meta = dget (last_payload evs ''run_completed_meta'') ''estimated_cost''
      in case cost_sum vals of
           None \<Rightarrow> None
         | Some amount \<Rightarrow>
             (case (if meta = PNone then Some amount else cost_sum [py_or meta (PInt 0)]) of
                None \<Rightarrow> None
              | Some amount \<Rightarrow>
                  (let has_cost = (vals \<noteq> [] \<or> meta \<noteq> PNone) in Some
                   [(''estimated_cost'', if has_cost then amount else PNone), (''currency'', PStr ''USD''),
                    (''source'', PStr (if has_cost then ''static_price_table'' else ''unmatched_model''))])))"

section \<open>The debugger summary\<close>

definition of_kind :: "string \<Rightarrow> dict list \<Rightarrow> dict list" where
  "of_kind kind items = filter (\<lambda>i. dget i ''kind'' = PStr kind) items"

definition tally :: "(dict \<Rightarrow> bool) \<Rightarrow> dict list \<Rightarrow> pyval" where
  "tally p items = PInt (int (length (filter p items)))"

definition has_field :: "string \<Rightarrow> string \<Rightarrow> dict \<Rightarrow> bool" where
  "has_field k v i \<longleftrightarrow> dget i k = PStr v"

definition last_field :: "dict list \<Rightarrow> string \<Rightarrow> pyval \<Rightarrow> pyval" where
  "last_field items k d = (if items = [] then d else dget (last items) k)"

definition last_robot_value :: "dict list \<Rightarrow> string \<Rightarrow> pyval" where
  "last_robot_value items k =
     (case find_last (\<lambda>i. truthy (dget i k)) items of None \<Rightarrow> PNone | Some i \<Rightarrow> dget i k)"

definition robot_rollout :: "dict list \<Rightarrow> dict" where
  "robot_rollout robots =
     (let n = (\<lambda>ty. tally (has_field ''event_type'' ty) robots) in
      [(''total'', PInt (int (length robots))), (''observations'', n ''robot_observation_recorded''),
       (''policy_inferences'', n ''vla_policy_inferred''), (''actions'', n ''robot_action_executed''),
       (''labels'', n ''robot_episode_labeled''),
       (''failed_actions'', tally (\<lambda>i. has_field ''event_type'' ''robot_action_executed'' i
          \<and> dget i ''success'' = PBool False) robots),
       (''last_policy_checkpoint_id'', last_robot_value robots ''policy_checkpoint_id'')])"

definition policy_decisions :: "dict list \<Rightarrow> dict" where
  "policy_decisions policies =
     (''total'', PInt (int (length policies)))
     # map (\<lambda>d. (d, tally (has_field ''decision'' d) policies)) [''allow'', ''ask'', ''deny'', ''block'', ''redact'']"

definition governance :: "dict list \<Rightarrow> dict" where
  "governance items =
     (let n = (\<lambda>ty. tally (has_field ''title'' ty) items) in
      [(''total'', PInt (int (length items))), (''confirmed'', n ''memory_item_confirmed''),
       (''rejected'', n ''memory_item_rejected''), (''deleted'', n ''memory_item_deleted''),
       (''delete_proof'', n ''memory_item_delete_proof'')])"

definition final_answer_summary :: "dict list \<Rightarrow> dict" where
  "final_answer_summary answers =
     [(''present'', PBool (answers \<noteq> [])),
      (''citation_count'', last_field answers ''citation_count'' (PInt 0)),
      (''contract_version'', last_field answers ''contract_version'' PNone),
      (''citation_required'', last_field answers ''citation_required'' PNone),
      (''citation_status'', last_field answers ''citation_status'' PNone),
      (''source_count'', last_field answers ''source_count'' (PInt 0)),
      (''tool_evidence_count'', last_field answers ''tool_evidence_count'' (PInt 0)),
      (''contract_warnings'', last_field answers ''contract_warnings'' (PList [])),
      (''safety_status'', last_field answers ''safety_status'' PNone)]"

definition approval_summary :: "dict list \<Rightarrow> dict" where
  "approval_summary approvals =
     [(''count'', PInt (int (length approvals))), (''waiting'', PBool (list_ex (has_field ''status'' ''waiting'') approvals)),
      (''last_status'', last_field approvals ''status'' PNone)]"

definition plan_summary :: "dict list \<Rightarrow> dict" where
  "plan_summary plans =
     [(''count'', PInt (int (length plans))),
      (''step_count'', PInt (sum_list (map (\<lambda>i. int (length (as_list (dget i ''steps'')))) plans))),
      (''last_event_type'', last_field plans ''event_type'' PNone)]"

definition debugger_summary ::
    "run_row \<Rightarrow> event_row list \<Rightarrow> dict list \<Rightarrow> dict list \<Rightarrow> dict \<Rightarrow> dict \<Rightarrow> dict" where
  "debugger_summary run evs items warnings observability cost =
     (let tools = of_kind ''tool_call'' items; approvals = of_kind ''approval'' items; plans = of_kind ''plan'' items;
          answers = of_kind ''final_answer'' items; guards = of_kind ''output_guard'' items;
          side_effects = of_kind ''side_effect'' items; policies = of_kind ''policy'' items;
          skills = of_kind ''skill'' items; robots = of_kind ''robot'' items; memories = of_kind ''memory'' items;
          governed = filter (\<lambda>i. starts_with (str_or (dget i ''title'')) ''memory_item_'') memories;
          checkpoint = checkpoint_summary (of_kind ''checkpoint'' items);
          unknown = tally (has_field ''side_effect_status'' ''unknown'') side_effects;
          failed_meta = as_dict (dget checkpoint ''failed'');
          consistency = as_dict (dget checkpoint ''consistency'')
      in [(''run_id'', PStr (rn_id run)), (''thread_id'', PStr (rn_thread_id run)), (''status'', PStr (rn_status run)),
          (''event_count'', PInt (int (length evs))),
          (''last_event_id'', if evs = [] then PNone else PInt (ev_id (last evs))),
          (''last_successful_event_id'',
            py_or (dget failed_meta ''last_successful_event_id'') (dget consistency ''last_event_id'')),
          (''event_types'', PList (map (\<lambda>e. PStr (ev_type e)) evs)),
          (''tool_calls'', PDict [(''total'', PInt (int (length tools))),
             (''failed'', tally (\<lambda>i. dget i ''success'' = PBool False) tools),
             (''missing_end'', tally (\<lambda>i. dget i ''end_event_id'' = PNone) tools)]),
          (''side_effects'', PDict [(''total'', PInt (int (length side_effects))), (''unknown'', unknown)]),
          (''side_effect_count'', PInt (int (length side_effects))), (''unknown_side_effect_count'', unknown),
          (''policy_decisions'', PDict (policy_decisions policies)),
          (''policy_decision_count'', PInt (int (length policies))),
          (''policy_block_count'', tally (has_field ''decision'' ''block'') policies),
          (''policy_ask_count'', tally (has_field ''decision'' ''ask'') policies),
          (''policy_deny_count'', tally (has_field ''decision'' ''deny'') policies),
          (''skills'', PDict [(''total'', PInt (int (length skills))),
             (''selected'', PList (concat (map (\<lambda>i. as_list (dget i ''skills'')) skills)))]),
          (''skill_selected_count'', PInt (int (length skills))),
          (''robot_rollout'', PDict (robot_rollout robots)),
          (''memory_governance'', PDict (governance governed)),
          (''memory_governance_count'', PInt (int (length governed))),
          (''approval'', PDict (approval_summary approvals)),
          (''plan'', PDict (plan_summary plans)),
          (''final_answer'', PDict (final_answer_summary answers)),
          (''output_guard'', PDict [(''present'', PBool (guards \<noteq> [])), (''last_action'', last_field guards ''action'' PNone),
             (''safe'', last_field guards ''safe'' PNone)]),
          (''observability'', PDict observability), (''cost'', PDict cost), (''checkpoint'', PDict checkpoint),
          (''consistency'', PDict consistency), (''warnings'', PList (map (\<lambda>w. dget w ''code'') warnings))])"

section \<open>The projection\<close>

record run_timeline =
  rt_status :: string
  rt_items :: "dict list"
  rt_warnings :: "dict list"
  rt_assistant_output :: string
  rt_event_count :: nat
  rt_checkpoint :: dict
  rt_observability :: dict
  rt_cost :: dict
  rt_debugger :: dict

definition assistant_output :: "event_row list \<Rightarrow> string" where
  "assistant_output evs =
     concat (map (\<lambda>e. py_str (dget_or (payload_of e) ''text'' (PStr []))) (filter (\<lambda>e. ev_type e = ''token'') evs))"

definition project_run ::
    "(pyval list \<Rightarrow> pyval option) \<Rightarrow> run_row \<Rightarrow> event_row list \<Rightarrow> run_timeline option" where
  "project_run cost_sum run evs =
     (let ordered = ordered_events evs in
      case (project_events ordered empty_timeline, observability_summary ordered, cost_summary cost_sum ordered) of
        (Some t, Some observability, Some cost) \<Rightarrow>
          (let t = close_timeline t;
               warnings = tl_warnings t @ status_warnings (rn_status run) ordered @ sequence_warnings ordered
                 @ checkpoint_warnings (checkpoint_items t);
               items = sort_items (tl_items t @ map warning_item warnings)
           in Some
             \<lparr>rt_status = rn_status run, rt_items = items, rt_warnings = warnings,
              rt_assistant_output = assistant_output ordered, rt_event_count = length ordered,
              rt_checkpoint = checkpoint_summary (checkpoint_items t),
              rt_observability = observability, rt_cost = cost,
              rt_debugger = debugger_summary run ordered items warnings observability cost\<rparr>)
      | _ \<Rightarrow> None)"

end
