(* ===== verification/TimelineProps.thy ===== *)
theory TimelineProps
  imports Timeline
begin

text \<open>What the timeline of a run shows: its output, its tools, its order, and when it cannot be built.\<close>

section \<open>Kinds of items\<close>

lemma dget_append: "dget (xs @ ys) k = (if dhas xs k then dget xs k else dget ys k)"
  by (induction xs) (auto simp: dget_def dget_or_def dhas_def map_add_def split: option.splits)

lemma dget_append_or: "dget_or (xs @ ys) k v = (if dhas xs k then dget_or xs k v else dget_or ys k v)"
  by (auto simp: dget_or_def dhas_def map_add_def split: option.splits)

named_theorems kinds \<open>the kind and the order fields of each item\<close>

lemma base_kind [kinds]:
  "dget (base_item k ti e @ d) ''kind'' = PStr k" "dget (base_item k ti e @ d) ''event_id'' = PInt (ev_id e)"
  by (simp_all add: base_item_def)

lemma item_kinds [kinds]:
  "dget (lifecycle_item e) ''kind'' = PStr ''lifecycle''" "dget (lifecycle_item e) ''event_id'' = PInt (ev_id e)"
  "dget (plan_item e) ''kind'' = PStr ''plan''" "dget (plan_item e) ''event_id'' = PInt (ev_id e)"
  "dget (llm_item e) ''kind'' = PStr ''observability''" "dget (llm_item e) ''event_id'' = PInt (ev_id e)"
  "dget (tl_policy_item e) ''kind'' = PStr ''policy''" "dget (tl_policy_item e) ''event_id'' = PInt (ev_id e)"
  "dget (tl_side_effect_item e) ''kind'' = PStr ''side_effect''" "dget (tl_side_effect_item e) ''event_id'' = PInt (ev_id e)"
  "dget (skill_item e) ''kind'' = PStr ''skill''" "dget (skill_item e) ''event_id'' = PInt (ev_id e)"
  "dget (robot_item e) ''kind'' = PStr ''robot''" "dget (robot_item e) ''event_id'' = PInt (ev_id e)"
  "dget (memory_item_of e) ''kind'' = PStr ''memory''" "dget (memory_item_of e) ''event_id'' = PInt (ev_id e)"
  "dget (plain_item k e) ''kind'' = PStr k" "dget (plain_item k e) ''event_id'' = PInt (ev_id e)"
  "dget (output_item ts ids) ''kind'' = PStr ''assistant_output''" "dget (output_item ts ids) ''event_id'' = PNone"
  "dget (warning_item w) ''kind'' = PStr ''warning''"
  by (simp_all add: lifecycle_item_def plan_item_def llm_item_def tl_policy_item_def tl_side_effect_item_def skill_item_def
      robot_item_def memory_item_of_def plain_item_def output_item_def warning_item_def Let_def base_kind)

lemma optional_kinds [kinds]:
  "guard_item e = Some i \<Longrightarrow> dget i ''kind'' = PStr ''output_guard'' \<and> dget i ''event_id'' = PInt (ev_id e)"
  "context_item e = Some i \<Longrightarrow> dget i ''kind'' = PStr ''context'' \<and> dget i ''event_id'' = PInt (ev_id e)"
  "retrieval_item e = Some i \<Longrightarrow> dget i ''kind'' = PStr ''retrieval'' \<and> dget i ''event_id'' = PInt (ev_id e)"
  "final_answer_item e fa = Some i \<Longrightarrow> dget i ''kind'' = PStr ''final_answer'' \<and> dget i ''event_id'' = PInt (ev_id e)"
  by (auto simp: guard_item_def context_item_def retrieval_item_def final_answer_item_def Let_def base_kind split: option.splits)

section \<open>The loop as a transformer\<close>

lemma project_events_append:
  "project_events (xs @ ys) t = (case project_events xs t of None \<Rightarrow> None | Some t \<Rightarrow> project_events ys t)"
  by (induction xs arbitrary: t) (auto split: option.split)

text \<open>An invariant of the loop follows from the steps.\<close>

lemma project_events_invariant:
  assumes "project_events es t = Some t'" and "P [] t"
    and "\<And>xs e t t'. P xs t \<Longrightarrow> e \<in> set es \<Longrightarrow> project_event e t = Some t' \<Longrightarrow> P (xs @ [e]) t'"
  shows "P es t'"
  using assms
proof (induction es arbitrary: t' rule: rev_induct)
  case (snoc e es)
  then obtain t1 where t1: "project_events es t = Some t1" "project_event e t1 = Some t'"
    by (auto simp: project_events_append split: option.splits)
  have "P es t1" by (rule snoc.IH [OF t1(1)]) (use snoc.prems in auto)
  then show ?case using snoc.prems(3) t1(2) by simp
qed simp

lemma tool_frames [simp]:
  "tl_items (warn w t) = tl_items t" "token_buffer (warn w t) = token_buffer t" "tl_tools (warn w t) = tl_tools t"
  "checkpoint_items (warn w t) = checkpoint_items t" "approval_pending (warn w t) = approval_pending t"
  "approval_index (warn w t) = approval_index t"
  "tl_items (add_item i t) = tl_items t @ [i]" "token_buffer (add_item i t) = token_buffer t"
  "tl_tools (add_item i t) = tl_tools t" "checkpoint_items (add_item i t) = checkpoint_items t"
  "approval_pending (add_item i t) = approval_pending t" "approval_index (add_item i t) = approval_index t"
  "tl_tools (flush_tokens t) = tl_tools t" "checkpoint_items (flush_tokens t) = checkpoint_items t"
  "approval_pending (flush_tokens t) = approval_pending t" "approval_index (flush_tokens t) = approval_index t"
  "token_buffer (flush_tokens t) = []" "tl_warnings (add_item i t) = tl_warnings t" "tl_warnings (flush_tokens t) = tl_warnings t"
  by (simp_all add: warn_def add_item_def flush_tokens_def)

text \<open>
  What one event that is no token does to the items: it adds items of other kinds, or rewrites the pending
  approval.
\<close>

definition plain :: "dict \<Rightarrow> bool" where
  "plain i \<longleftrightarrow> (\<exists>k. dget i ''kind'' = PStr k \<and> k \<noteq> ''assistant_output'' \<and> k \<noteq> ''warning'')"

definition pending_ok :: "timeline \<Rightarrow> bool" where
  "pending_ok t \<longleftrightarrow> (\<forall>p. approval_pending t = Some p \<and> dget p ''status'' = PStr ''waiting'' \<longrightarrow>
     approval_index t < length (tl_items t) \<and> tl_items t ! approval_index t = p \<and> dget p ''kind'' = PStr ''approval'')"

definition adds_items :: "event_row \<Rightarrow> timeline \<Rightarrow> timeline \<Rightarrow> bool" where
  "adds_items e t t' \<longleftrightarrow> (\<exists>new ws. t' = t\<lparr>tl_items := tl_items t @ new, tl_warnings := tl_warnings t @ ws\<rparr>
     \<and> (\<forall>i \<in> set new. plain i \<and> dget i ''kind'' \<noteq> PStr ''tool_call'' \<and> dget i ''kind'' \<noteq> PStr ''approval''
          \<and> dget i ''event_id'' = PInt (ev_id e)))"

lemma adds_itemsI:
  assumes "t' = t\<lparr>tl_items := tl_items t @ new, tl_warnings := tl_warnings t @ ws\<rparr>"
    and "\<forall>i \<in> set new. plain i \<and> dget i ''kind'' \<noteq> PStr ''tool_call'' \<and> dget i ''kind'' \<noteq> PStr ''approval''
          \<and> dget i ''event_id'' = PInt (ev_id e)"
  shows "adds_items e t t'"
  using assms unfolding adds_items_def by blast

lemma adds_one:
  "dget i ''kind'' = PStr k \<Longrightarrow> k \<notin> {''assistant_output'', ''warning'', ''tool_call'', ''approval''} \<Longrightarrow>
    dget i ''event_id'' = PInt (ev_id e) \<Longrightarrow> adds_items e t (add_item i t)"
  by (rule adds_itemsI [where new = "[i]" and ws = "[]"]) (simp_all add: add_item_def plain_def)

lemma adds_warn: "adds_items e t t' \<Longrightarrow> adds_items e t (warn w t')"
  unfolding adds_items_def warn_def by fastforce

lemma adds_two:
  "adds_items e t t' \<Longrightarrow> dget i ''kind'' = PStr k \<Longrightarrow> k \<notin> {''assistant_output'', ''warning'', ''tool_call'', ''approval''} \<Longrightarrow>
    dget i ''event_id'' = PInt (ev_id e) \<Longrightarrow> adds_items e t (add_item i t')"
  unfolding adds_items_def
proof (elim exE conjE)
  fix new ws
  assume a: "t' = t\<lparr>tl_items := tl_items t @ new, tl_warnings := tl_warnings t @ ws\<rparr>"
    "\<forall>i \<in> set new. plain i \<and> dget i ''kind'' \<noteq> PStr ''tool_call'' \<and> dget i ''kind'' \<noteq> PStr ''approval''
          \<and> dget i ''event_id'' = PInt (ev_id e)"
    and i: "dget i ''kind'' = PStr k" "k \<notin> {''assistant_output'', ''warning'', ''tool_call'', ''approval''}"
      "dget i ''event_id'' = PInt (ev_id e)"
  then show "\<exists>new ws. add_item i t' = t\<lparr>tl_items := tl_items t @ new, tl_warnings := tl_warnings t @ ws\<rparr>
     \<and> (\<forall>i \<in> set new. plain i \<and> dget i ''kind'' \<noteq> PStr ''tool_call'' \<and> dget i ''kind'' \<noteq> PStr ''approval''
          \<and> dget i ''event_id'' = PInt (ev_id e))"
    by (intro exI [of _ "new @ [i]"] exI [of _ ws]) (auto simp: add_item_def plain_def)
qed

lemma adds_handlers:
  "adds_items e t (on_policy e t)" "adds_items e t (on_side_effect e t)" "adds_items e t (on_robot e t)"
  by (auto simp: on_policy_def on_side_effect_def on_robot_def Let_def kinds intro!: adds_warn adds_one)

lemma adds_lifecycle: "on_lifecycle e t = Some t' \<Longrightarrow> adds_items e t t'"
  by (auto simp: on_lifecycle_def Let_def split: if_splits intro!: adds_one adds_two item_kinds dest!: optional_kinds)

text \<open>One event of the loop.\<close>

lemma project_event_cases:
  assumes "project_event e t = Some t'"
  obtains (token) "ev_type e = ''token''" "t' = on_token e t"
  | (start) "ev_type e = ''tool_start''" "t' = on_tool_start e (flush_tokens t)"
  | (tool_end) "ev_type e = ''tool_end''" "t' = on_tool_end e (flush_tokens t)"
  | (required) "ev_type e = ''approval_required''" "t' = on_approval_required e (flush_tokens t)"
  | (resolved) "ev_type e = ''approval_resolved''" "t' = on_approval_resolved e (flush_tokens t)"
  | (checkpoint) "ev_type e \<in> set CHECKPOINT_EVENTS" "t' = on_checkpoint e (flush_tokens t)"
  | (items) "ev_type e \<notin> {''token'', ''tool_start'', ''tool_end''}" "adds_items e (flush_tokens t) t'"
proof -
  consider "ev_type e = ''token''" | "ev_type e = ''tool_start''" | "ev_type e = ''tool_end''"
    | "ev_type e = ''approval_required''" | "ev_type e = ''approval_resolved''" | "ev_type e \<in> set CHECKPOINT_EVENTS"
    | (other) "ev_type e \<notin> {''token'', ''tool_start'', ''tool_end'', ''approval_required'', ''approval_resolved''}"
      "ev_type e \<notin> set CHECKPOINT_EVENTS" by auto
  then show thesis
  proof cases
    case other
    have "adds_items e (flush_tokens t) t'"
      using assms other unfolding project_event_def Let_def
      by (auto split: if_splits intro!: adds_handlers adds_one item_kinds dest!: adds_lifecycle optional_kinds)
    then show thesis using items other by blast
  qed (use assms token start tool_end required resolved checkpoint in
      \<open>auto simp: project_event_def LIFECYCLE_EVENTS_def CHECKPOINT_EVENTS_def\<close>)
qed

section \<open>The output\<close>

definition outputs :: "dict list \<Rightarrow> string" where
  "outputs items = concat (map (\<lambda>i. str_or (dget i ''text'')) (of_kind ''assistant_output'' items))"

lemma outputs_append [simp]: "outputs (xs @ ys) = outputs xs @ outputs ys"
  by (simp add: outputs_def of_kind_def)

lemma outputs_other: "\<forall>i \<in> set xs. dget i ''kind'' \<noteq> PStr ''assistant_output'' \<Longrightarrow> outputs xs = []"
  by (simp add: outputs_def of_kind_def filter_False)

lemma outputs_Nil [simp]: "outputs [] = []"
  by (simp add: outputs_def of_kind_def)

lemma plain_not_output: "plain i \<Longrightarrow> dget i ''kind'' \<noteq> PStr ''assistant_output''"
  by (auto simp: plain_def)

lemma outputs_output_item [simp]: "outputs [output_item ts ids] = concat ts"
  by (simp add: outputs_def of_kind_def kinds) (simp add: output_item_def Let_def)

lemma outputs_update:
  assumes "i < length xs" and "dget (xs ! i) ''kind'' \<noteq> PStr ''assistant_output''"
    and "dget y ''kind'' \<noteq> PStr ''assistant_output''"
  shows "outputs (xs[i := y]) = outputs xs"
proof -
  have "xs = take i xs @ [xs ! i] @ drop (Suc i) xs" using assms(1) by (simp add: id_take_nth_drop)
  then have "outputs xs = outputs (take i xs) @ outputs [xs ! i] @ outputs (drop (Suc i) xs)" by (metis outputs_append)
  moreover have "outputs (xs[i := y]) = outputs (take i xs) @ outputs [y] @ outputs (drop (Suc i) xs)"
    using assms(1) by (simp add: upd_conv_take_nth_drop flip: outputs_append)
  ultimately show ?thesis using assms(2,3) by (simp add: outputs_other)
qed

definition output_like :: "dict \<Rightarrow> bool" where
  "output_like i \<longleftrightarrow> (\<exists>ts ids. i = output_item ts ids)"

definition kinds_ok :: "timeline \<Rightarrow> bool" where
  "kinds_ok t \<longleftrightarrow> (\<forall>i \<in> set (tl_items t). (plain i \<and> dget i ''kind'' \<noteq> PStr ''tool_call'') \<or> output_like i)
     \<and> (\<forall>i \<in> set (checkpoint_items t). dget i ''kind'' = PStr ''checkpoint'')
     \<and> (\<forall>p \<in> set (tl_tools t). dget (snd p) ''kind'' = PStr ''tool_call'')
     \<and> pending_ok t"

definition output_inv :: "event_row list \<Rightarrow> timeline \<Rightarrow> bool" where
  "output_inv xs t \<longleftrightarrow> outputs (tl_items t) @ concat (token_buffer t) = assistant_output xs \<and> kinds_ok t"

lemma assistant_output_snoc:
  "assistant_output (xs @ [e]) = assistant_output xs @
     (if ev_type e = ''token'' then py_str (dget_or (payload_of e) ''text'' (PStr [])) else [])"
  by (simp add: assistant_output_def)

lemma pending_ok_append:
  "pending_ok t \<Longrightarrow> approval_pending t' = approval_pending t \<Longrightarrow> approval_index t' = approval_index t \<Longrightarrow>
    tl_items t' = tl_items t @ xs \<Longrightarrow> pending_ok t'"
  by (auto simp: pending_ok_def nth_append)

lemma flush_items: "\<exists>xs. tl_items (flush_tokens t) = tl_items t @ xs \<and> outputs xs = concat (token_buffer t)
    \<and> (\<forall>i \<in> set xs. output_like i)"
proof (cases "token_buffer t = []")
  case True
  then show ?thesis by (intro exI [of _ "[]"]) (simp add: flush_tokens_def)
next
  case False
  have "output_like (output_item (token_buffer t) (token_event_ids t))" unfolding output_like_def by blast
  then show ?thesis
    using False by (intro exI [of _ "[output_item (token_buffer t) (token_event_ids t)]"]) (simp add: flush_tokens_def)
qed

lemma output_inv_flush:
  assumes "output_inv xs t"
  shows "output_inv xs (flush_tokens t)"
proof -
  obtain ys where ys: "tl_items (flush_tokens t) = tl_items t @ ys" "outputs ys = concat (token_buffer t)"
      "\<forall>i \<in> set ys. output_like i"
    using flush_items by blast
  have "pending_ok (flush_tokens t)"
    by (rule pending_ok_append [of t _ ys]) (use assms ys(1) in \<open>simp_all add: output_inv_def kinds_ok_def\<close>)
  moreover have "outputs (tl_items (flush_tokens t)) @ concat (token_buffer (flush_tokens t)) = assistant_output xs"
    using assms ys(1,2) by (simp add: output_inv_def)
  moreover have "\<forall>i \<in> set (tl_items (flush_tokens t)). (plain i \<and> dget i ''kind'' \<noteq> PStr ''tool_call'') \<or> output_like i"
    using assms ys(1,3) unfolding output_inv_def kinds_ok_def ys(1) set_append by blast
  ultimately show ?thesis using assms by (simp add: output_inv_def kinds_ok_def)
qed

text \<open>A change of the tools, the warnings or the checkpoint items only.\<close>

lemma output_inv_same:
  assumes "output_inv xs t" and "tl_items t' = tl_items t" and "token_buffer t' = token_buffer t"
    and "approval_pending t' = approval_pending t" and "approval_index t' = approval_index t"
    and "\<forall>i \<in> set (checkpoint_items t'). i \<in> set (checkpoint_items t) \<or> dget i ''kind'' = PStr ''checkpoint''"
    and "\<forall>p \<in> set (tl_tools t'). p \<in> set (tl_tools t) \<or> dget (snd p) ''kind'' = PStr ''tool_call''"
  shows "output_inv xs t'"
  using assms unfolding output_inv_def kinds_ok_def pending_ok_def by auto

lemma tools_update: "p \<in> set (AList.update k v al) \<Longrightarrow> p = (k, v) \<or> p \<in> set al"
  by (induction al) (auto split: if_splits)

lemma call_id_for_frame:
  "tl_items (snd (call_id_for e t)) = tl_items t" "token_buffer (snd (call_id_for e t)) = token_buffer t"
  "approval_pending (snd (call_id_for e t)) = approval_pending t" "approval_index (snd (call_id_for e t)) = approval_index t"
  "checkpoint_items (snd (call_id_for e t)) = checkpoint_items t" "tl_tools (snd (call_id_for e t)) = tl_tools t"
  by (simp_all add: call_id_for_def Let_def)

lemma tool_fields_kind [simp]: "dget (tool_fields p c @ d) ''kind'' = PStr ''tool_call''"
  by (simp add: tool_fields_def)

lemma orphan_frame:
  "tl_items (snd (orphan_tool e c t)) = tl_items t" "token_buffer (snd (orphan_tool e c t)) = token_buffer t"
  "approval_pending (snd (orphan_tool e c t)) = approval_pending t" "approval_index (snd (orphan_tool e c t)) = approval_index t"
  "checkpoint_items (snd (orphan_tool e c t)) = checkpoint_items t" "tl_tools (snd (orphan_tool e c t)) = tl_tools t"
  by (simp_all add: orphan_tool_def split: option.split)

lemma orphan_kind:
  "\<forall>p \<in> set (tl_tools t). dget (snd p) ''kind'' = PStr ''tool_call'' \<Longrightarrow>
    dget (fst (orphan_tool e c t)) ''kind'' = PStr ''tool_call''"
  by (auto simp: orphan_tool_def split: option.split dest!: map_of_SomeD)

lemma dget_dupdate: "dget (dupdate d e) k = (if k \<in> fst ` set e then dget (dupdate d e) k else dget d k)"
  by (induction e arbitrary: d rule: rev_induct) (auto simp: dupdate_def split_beta)

lemma end_fields_keys: "''kind'' \<notin> fst ` set (end_fields e)"
  by (simp add: end_fields_def Let_def)

lemma output_inv_tool_start:
  assumes "output_inv xs t"
  shows "output_inv xs (on_tool_start e t)"
  by (rule output_inv_same [OF assms])
    (auto simp: on_tool_start_def split_beta Let_def call_id_for_frame dest!: tools_update)

lemma output_inv_tool_end:
  assumes "output_inv xs t"
  shows "output_inv xs (on_tool_end e t)"
proof -
  define t1 where "t1 = snd (call_id_for e t)"
  define c where "c = fst (call_id_for e t)"
  define item where "item = dupdate (fst (orphan_tool e c t1)) (end_fields e)"
  have "\<forall>p \<in> set (tl_tools t1). dget (snd p) ''kind'' = PStr ''tool_call''"
    using assms by (simp add: t1_def call_id_for_frame output_inv_def kinds_ok_def)
  then have item: "dget item ''kind'' = PStr ''tool_call''"
    using orphan_kind dget_dupdate [of _ "end_fields e" "''kind''"] end_fields_keys by (simp add: item_def)
  show ?thesis
    by (rule output_inv_same [OF assms])
      (use item in \<open>auto simp: on_tool_end_def split_beta Let_def call_id_for_frame orphan_frame t1_def [symmetric]
        c_def [symmetric] item_def [symmetric] dest!: tools_update\<close>, simp_all add: t1_def call_id_for_frame)
qed

lemma output_inv_items:
  assumes inv: "output_inv xs t" and add: "adds_items e t t'"
  shows "output_inv xs t'"
proof -
  obtain new ws where new: "t' = t\<lparr>tl_items := tl_items t @ new, tl_warnings := tl_warnings t @ ws\<rparr>"
      "\<forall>i \<in> set new. plain i \<and> dget i ''kind'' \<noteq> PStr ''tool_call''"
    using add unfolding adds_items_def by blast
  have "outputs new = []" by (rule outputs_other) (use new(2) plain_not_output in blast)
  moreover have "pending_ok t'" by (rule pending_ok_append [of t _ new]) (use inv new(1) in \<open>simp_all add: output_inv_def kinds_ok_def\<close>)
  ultimately show ?thesis using inv new unfolding output_inv_def kinds_ok_def new(1) by simp blast
qed

lemma output_inv_required:
  assumes inv: "output_inv xs t"
  shows "output_inv xs (on_approval_required e t)"
proof -
  define item where "item = [(''kind'', PStr ''approval''), (''title'', PStr ''Approval required''), (''status'', PStr ''waiting''),
                  (''required_event_id'', PInt (ev_id e)), (''resolved_event_id'', PNone),
                  (''requested_at'', PInt (ev_created_at e)), (''resolved_at'', PNone),
                  (''required'', PDict (payload_of e)), (''resolved'', PNone)]"
  have k: "dget item ''kind'' = PStr ''approval''" by (simp add: item_def)
  then have p: "plain item" "outputs [item] = []" by (auto simp: plain_def intro: outputs_other)
  show ?thesis
    using inv k p
    by (simp add: on_approval_required_def item_def [symmetric] Let_def output_inv_def kinds_ok_def pending_ok_def nth_append)
qed

lemma output_inv_resolved:
  assumes inv: "output_inv xs t"
  shows "output_inv xs (on_approval_resolved e t)"
proof -
  define item where "item = [(''kind'', PStr ''approval''), (''title'', PStr ''Approval resolved''), (''status'', PStr ''resolved''),
                       (''required_event_id'', PNone), (''resolved_event_id'', PInt (ev_id e)),
                       (''requested_at'', PNone), (''resolved_at'', PInt (ev_created_at e)),
                       (''required'', PNone), (''resolved'', PDict (payload_of e))]"
  define fields where "fields = [(''title'', PStr ''Approval resolved''),
                  (''status'', PStr (if truthy (dget (payload_of e) ''approved'') then ''approved'' else ''rejected'')),
                  (''resolved_event_id'', PInt (ev_id e)), (''resolved_at'', PInt (ev_created_at e)),
                  (''resolved'', PDict (payload_of e))]"
  have k: "dget item ''kind'' = PStr ''approval''" "dget item ''status'' = PStr ''resolved''" by (simp_all add: item_def)
  then have p: "plain item" "outputs [item] = []" by (auto simp: plain_def intro: outputs_other)
  show ?thesis
  proof (cases "\<exists>q. approval_pending t = Some q \<and> dget q ''status'' = PStr ''waiting''")
    case False
    then have "on_approval_resolved e t = (add_item item t)\<lparr>approval_pending := Some item\<rparr>"
      by (auto simp: on_approval_resolved_def item_def Let_def split: option.split)
    then show ?thesis using inv k p by (simp add: output_inv_def kinds_ok_def pending_ok_def)
  next
    case True
    then obtain q where q: "approval_pending t = Some q" "dget q ''status'' = PStr ''waiting''" by blast
    have o: "on_approval_resolved e t =
        t\<lparr>tl_items := (tl_items t)[approval_index t := dupdate q fields], approval_pending := Some (dupdate q fields)\<rparr>"
      using q by (simp add: on_approval_resolved_def fields_def Let_def)
    have idx: "approval_index t < length (tl_items t)" "tl_items t ! approval_index t = q" "dget q ''kind'' = PStr ''approval''"
      using inv q by (auto simp: output_inv_def kinds_ok_def pending_ok_def)
    have n: "dget (dupdate q fields) ''kind'' = PStr ''approval''"
        "dget (dupdate q fields) ''status'' \<noteq> PStr ''waiting''"
      using idx(3) by (simp_all add: fields_def dupdate_def)
    then have "plain (dupdate q fields)" by (simp add: plain_def)
    moreover have "outputs ((tl_items t)[approval_index t := dupdate q fields]) = outputs (tl_items t)"
      by (rule outputs_update [OF idx(1)]) (use idx n in simp_all)
    ultimately show ?thesis
      using inv n set_update_subset_insert [of "tl_items t" "approval_index t" "dupdate q fields"]
      unfolding o output_inv_def kinds_ok_def pending_ok_def by auto
  qed
qed

lemma output_inv_event:
  assumes inv: "output_inv xs t" and e: "project_event e t = Some t'"
  shows "output_inv (xs @ [e]) t'"
proof -
  have f: "output_inv xs (flush_tokens t)" by (rule output_inv_flush [OF inv])
  have same: "assistant_output (xs @ [e]) = assistant_output xs" if "ev_type e \<noteq> ''token''"
    using that by (simp add: assistant_output_snoc)
  have lift: "output_inv (xs @ [e]) t'" if "output_inv xs t'" "ev_type e \<noteq> ''token''"
    using that same by (simp add: output_inv_def)
  from e show ?thesis
  proof (cases rule: project_event_cases)
    case token
    let ?x = "py_str (dget_or (payload_of e) ''text'' (PStr []))"
    have t': "tl_items t' = tl_items t" "token_buffer t' = token_buffer t @ [?x]"
        "checkpoint_items t' = checkpoint_items t" "tl_tools t' = tl_tools t"
        "approval_pending t' = approval_pending t" "approval_index t' = approval_index t"
      by (simp_all add: token(2) on_token_def)
    have "outputs (tl_items t) @ concat (token_buffer t @ [?x]) = (outputs (tl_items t) @ concat (token_buffer t)) @ ?x" by simp
    also have "\<dots> = assistant_output (xs @ [e])" using inv token(1) by (simp add: output_inv_def assistant_output_snoc)
    finally have "outputs (tl_items t') @ concat (token_buffer t') = assistant_output (xs @ [e])" by (simp only: t')
    moreover have "kinds_ok t'" using inv unfolding output_inv_def kinds_ok_def pending_ok_def t' by blast
    ultimately show ?thesis by (simp add: output_inv_def)
  next
    case start
    then show ?thesis using output_inv_tool_start [OF f] by (intro lift) simp_all
  next
    case tool_end
    then show ?thesis using output_inv_tool_end [OF f] by (intro lift) simp_all
  next
    case required
    then show ?thesis using output_inv_required [OF f] by (intro lift) simp_all
  next
    case resolved
    then show ?thesis using output_inv_resolved [OF f] by (intro lift) simp_all
  next
    case checkpoint
    have "output_inv xs t'"
      unfolding checkpoint(2) by (rule output_inv_same [OF f]) (auto simp: on_checkpoint_def base_kind)
    then show ?thesis using checkpoint(1) by (intro lift) (auto simp: CHECKPOINT_EVENTS_def)
  next
    case items
    then show ?thesis using output_inv_items [OF f] by (intro lift) auto
  qed
qed

lemma output_inv_empty: "output_inv [] empty_timeline"
  by (simp add: output_inv_def kinds_ok_def pending_ok_def empty_timeline_def assistant_output_def)

lemma output_inv_loop: "project_events es empty_timeline = Some t \<Longrightarrow> output_inv es t"
  by (rule project_events_invariant [where P = output_inv]) (auto intro: output_inv_empty output_inv_event)

text \<open>The projection, taken apart.\<close>

lemma project_run_Some:
  assumes "project_run cost_sum run evs = Some r"
  obtains t where "project_events (ordered_events evs) empty_timeline = Some t"
    and "rt_warnings r = tl_warnings (close_timeline t) @ status_warnings (rn_status run) (ordered_events evs)
        @ sequence_warnings (ordered_events evs) @ checkpoint_warnings (checkpoint_items t)"
    and "rt_items r = sort_items (tl_items (close_timeline t) @ map warning_item (rt_warnings r))"
    and "rt_assistant_output r = assistant_output (ordered_events evs)"
proof -
  have "checkpoint_items (close_timeline t) = checkpoint_items t" for t by (simp add: close_timeline_def Let_def)
  then show thesis
    using assms that by (auto simp: project_run_def Let_def split: option.splits)
qed

lemma of_kind_sorted: "of_kind k (sort_items items) = sort_items (of_kind k items)"
  by (simp add: of_kind_def sort_items_def filter_sort)

lemma sort_items_same: "\<forall>i \<in> set items. item_order i = n \<Longrightarrow> sort_items items = items"
  unfolding sort_items_def by (rule sort_key_id_if_sorted) (induction items, auto)

lemma order_of_output: "output_like i \<Longrightarrow> item_order i = 10 ^ 12"
  by (auto simp: output_like_def output_item_def Let_def item_order_def py_or_def)

lemma of_kind_None: "\<forall>i \<in> set items. dget i ''kind'' \<noteq> PStr k \<Longrightarrow> of_kind k items = []"
  by (simp add: of_kind_def filter_False)

lemma of_kind_append [simp]: "of_kind k (xs @ ys) = of_kind k xs @ of_kind k ys"
  by (simp add: of_kind_def)

text \<open>
  C29. The output is shown completely and in order: the texts of the assistant output items of a timeline,
  joined in the order they are listed, are the texts of the token events in the order of the log, and that is
  the \<^verbatim>\<open>assistant_output\<close> of the answer, whatever other events interrupt the stream.
\<close>

theorem timeline_output_complete:
  assumes "project_run cost_sum run evs = Some r"
  shows "outputs (rt_items r) = rt_assistant_output r
    \<and> rt_assistant_output r = assistant_output (ordered_events evs)"
proof -
  obtain t where t: "project_events (ordered_events evs) empty_timeline = Some t"
      "rt_items r = sort_items (tl_items (close_timeline t) @ map warning_item (rt_warnings r))"
      "rt_assistant_output r = assistant_output (ordered_events evs)"
    using project_run_Some [OF assms] by metis
  have inv: "output_inv (ordered_events evs) (flush_tokens t)" by (rule output_inv_flush [OF output_inv_loop [OF t(1)]])
  let ?f = "flush_tokens t"
  have "\<forall>i \<in> set (map snd (tl_tools ?f)). dget i ''kind'' = PStr ''tool_call''"
      "\<forall>i \<in> set (checkpoint_items ?f). dget i ''kind'' = PStr ''checkpoint''"
    using inv by (simp_all add: output_inv_def kinds_ok_def)
  then have rest: "of_kind ''assistant_output'' (checkpoint_items ?f @ map snd (tl_tools ?f)) = []"
      "of_kind ''assistant_output'' (map warning_item (rt_warnings r)) = []"
    by (intro of_kind_None; auto simp: kinds)+
  have "of_kind ''assistant_output'' (tl_items (close_timeline t) @ map warning_item (rt_warnings r))
      = of_kind ''assistant_output'' (tl_items ?f)"
    using rest by (simp add: close_timeline_def Let_def)
  moreover have "\<forall>i \<in> set (of_kind ''assistant_output'' (tl_items ?f)). item_order i = 10 ^ 12"
    using inv plain_not_output order_of_output unfolding output_inv_def kinds_ok_def of_kind_def by fastforce
  ultimately have "of_kind ''assistant_output'' (rt_items r) = of_kind ''assistant_output'' (tl_items ?f)"
    unfolding t(2) of_kind_sorted using sort_items_same by metis
  then have "outputs (rt_items r) = outputs (tl_items ?f)" by (simp add: outputs_def)
  then show ?thesis using inv t(3) by (simp add: output_inv_def)
qed

section \<open>Tools\<close>

text \<open>The id under which an event counts for a tool, and the events of one tool call.\<close>

definition event_call_id :: "event_row \<Rightarrow> string" where
  "event_call_id e = fst (call_id_for e empty_timeline)"

lemma fst_call_id_for [simp]: "fst (call_id_for e t) = event_call_id e"
  by (simp add: event_call_id_def call_id_for_def Let_def)

definition is_tool_event :: "event_row \<Rightarrow> bool" where
  "is_tool_event e \<longleftrightarrow> ev_type e = ''tool_start'' \<or> ev_type e = ''tool_end''"

definition tool_events :: "string \<Rightarrow> event_row list \<Rightarrow> event_row list" where
  "tool_events c evs = filter (\<lambda>e. is_tool_event e \<and> event_call_id e = c) evs"

definition tool_ok :: "event_row list \<Rightarrow> string \<Rightarrow> dict \<Rightarrow> bool" where
  "tool_ok xs c i \<longleftrightarrow> dget i ''kind'' = PStr ''tool_call'' \<and> dget i ''call_id'' = PStr c
     \<and> dget i ''event_id'' = PNone \<and> dget i ''required_event_id'' = PNone
     \<and> (dget i ''end_event_id'' = PNone \<longleftrightarrow> ev_type (last (tool_events c xs)) = ''tool_start'')
     \<and> (\<exists>e \<in> set (tool_events c xs). dget i ''start_event_id'' = PInt (ev_id e)
          \<or> (dget i ''start_event_id'' = PNone \<and> dget i ''end_event_id'' = PInt (ev_id e)))"

definition tools_inv :: "event_row list \<Rightarrow> timeline \<Rightarrow> bool" where
  "tools_inv xs t \<longleftrightarrow> distinct (map fst (tl_tools t))
     \<and> (\<forall>c. c \<in> fst ` set (tl_tools t) \<longleftrightarrow> tool_events c xs \<noteq> [])
     \<and> (\<forall>(c, i) \<in> set (tl_tools t). tool_ok xs c i)"

lemma tool_events_snoc:
  "tool_events c (xs @ [e]) = tool_events c xs @ (if is_tool_event e \<and> event_call_id e = c then [e] else [])"
  by (simp add: tool_events_def)

lemma tools_inv_same:
  assumes "tools_inv xs t" and "\<not> is_tool_event e" and "tl_tools t' = tl_tools t"
  shows "tools_inv (xs @ [e]) t'"
proof -
  have "tool_events c (xs @ [e]) = tool_events c xs" for c using assms(2) by (simp add: tool_events_snoc)
  then show ?thesis using assms(1,3) by (simp add: tools_inv_def tool_ok_def)
qed

text \<open>One entry is set for a tool event.\<close>

lemma tools_inv_set:
  assumes inv: "tools_inv xs t" and e: "is_tool_event e" and t': "tl_tools t' = AList.update (event_call_id e) i (tl_tools t)"
    and ok: "tool_ok (xs @ [e]) (event_call_id e) i"
  shows "tools_inv (xs @ [e]) t'"
proof -
  have other: "tool_events c (xs @ [e]) = tool_events c xs" if "c \<noteq> event_call_id e" for c
    using that by (simp add: tool_events_snoc)
  have own: "tool_events (event_call_id e) (xs @ [e]) \<noteq> []" using e by (simp add: tool_events_snoc)
  have "distinct (map fst (tl_tools t'))" using inv by (simp add: t' tools_inv_def distinct_update)
  moreover have "c \<in> fst ` set (tl_tools t') \<longleftrightarrow> tool_events c (xs @ [e]) \<noteq> []" for c
    using inv own other [of c] by (cases "c = event_call_id e") (auto simp: t' tools_inv_def dom_update)
  moreover have "tool_ok (xs @ [e]) c j" if m: "(c, j) \<in> set (tl_tools t')" for c j
  proof (cases "c = event_call_id e")
    case True
    have "map_of (tl_tools t') c = Some j" using calculation(1) m by simp
    then show ?thesis using ok True by (simp add: t' update_conv)
  next
    case False
    then have "(c, j) \<in> set (tl_tools t)" using m tools_update unfolding t' by fastforce
    then have "tool_ok xs c j" using inv by (auto simp: tools_inv_def)
    then show ?thesis using other [OF False] by (simp add: tool_ok_def)
  qed
  ultimately show ?thesis by (auto simp: tools_inv_def)
qed

lemma start_ok:
  assumes "ev_type e = ''tool_start''"
  shows "tool_ok (xs @ [e]) (event_call_id e)
    (tool_fields (payload_of e) (event_call_id e) @
                 [(''arguments'', dget_or (payload_of e) ''arguments'' (PDict [])),
                  (''start_event_id'', PInt (ev_id e)), (''started_at'', PInt (ev_created_at e)),
                  (''end_event_id'', PNone), (''ended_at'', PNone), (''result'', PNone), (''duration_ms'', PNone),
                  (''success'', PNone), (''error'', PNone)])"
  using assms by (simp add: tool_ok_def tool_fields_def copied_def tool_events_snoc is_tool_event_def)

lemma end_ok:
  assumes e: "ev_type e = ''tool_end''"
    and i: "tool_ok xs (event_call_id e) i \<or> i = tool_fields (payload_of e) (event_call_id e) @
             [(''arguments'', PDict []), (''start_event_id'', PNone), (''started_at'', PNone)]"
  shows "tool_ok (xs @ [e]) (event_call_id e) (dupdate i (end_fields e))"
proof -
  have f: "dget (dupdate i (end_fields e)) k = (if k = ''end_event_id'' then PInt (ev_id e) else dget i k)"
    if "k \<in> {''kind'', ''call_id'', ''event_id'', ''required_event_id'', ''start_event_id'', ''end_event_id''}" for k
    using that by (auto simp: end_fields_def dupdate_def Let_def)
  have ev: "tool_events (event_call_id e) (xs @ [e]) = tool_events (event_call_id e) xs @ [e]"
    using e by (simp add: tool_events_snoc is_tool_event_def)
  from i show ?thesis
  proof
    assume "tool_ok xs (event_call_id e) i"
    then show ?thesis using e by (auto simp: tool_ok_def f ev)
  next
    assume "i = tool_fields (payload_of e) (event_call_id e) @
             [(''arguments'', PDict []), (''start_event_id'', PNone), (''started_at'', PNone)]"
    then have "dget i ''kind'' = PStr ''tool_call''" "dget i ''call_id'' = PStr (event_call_id e)" "dget i ''event_id'' = PNone"
        "dget i ''required_event_id'' = PNone" "dget i ''start_event_id'' = PNone"
      by (simp_all add: tool_fields_def copied_def)
    then show ?thesis using e by (simp add: tool_ok_def f ev)
  qed
qed

lemma tools_inv_start:
  assumes "tools_inv xs t" and "ev_type e = ''tool_start''"
  shows "tools_inv (xs @ [e]) (on_tool_start e t)"
  by (rule tools_inv_set [OF assms(1) _ _ start_ok [OF assms(2)]])
    (simp_all add: assms(2) is_tool_event_def on_tool_start_def split_beta Let_def call_id_for_frame)

lemma tools_inv_end:
  assumes inv: "tools_inv xs t" and e: "ev_type e = ''tool_end''"
  shows "tools_inv (xs @ [e]) (on_tool_end e t)"
proof -
  define t1 where "t1 = snd (call_id_for e t)"
  define i where "i = fst (orphan_tool e (event_call_id e) t1)"
  have tools: "tl_tools t1 = tl_tools t" by (simp add: t1_def call_id_for_frame)
  have "tool_ok xs (event_call_id e) i \<or> i = tool_fields (payload_of e) (event_call_id e) @
             [(''arguments'', PDict []), (''start_event_id'', PNone), (''started_at'', PNone)]"
  proof (cases "map_of (tl_tools t) (event_call_id e)")
    case None
    then show ?thesis by (simp add: i_def orphan_tool_def tools)
  next
    case (Some j)
    then have "(event_call_id e, j) \<in> set (tl_tools t)" by (rule map_of_SomeD)
    then show ?thesis using inv Some by (auto simp: i_def orphan_tool_def tools tools_inv_def)
  qed
  note ok = end_ok [OF e this]
  have "tl_tools (on_tool_end e t) = AList.update (event_call_id e) (dupdate i (end_fields e)) (tl_tools t)"
    by (simp add: on_tool_end_def split_beta Let_def t1_def [symmetric] i_def [symmetric] orphan_frame tools)
  then show ?thesis by (rule tools_inv_set [OF inv _ _ ok, rotated]) (simp add: e is_tool_event_def)
qed

lemma approval_tools [simp]:
  "tl_tools (on_approval_required e t) = tl_tools t" "tl_tools (on_approval_resolved e t) = tl_tools t"
  "tl_tools (on_checkpoint e t) = tl_tools t" "tl_tools (on_token e t) = tl_tools t"
  by (simp_all add: on_approval_required_def on_approval_resolved_def on_checkpoint_def on_token_def Let_def split: option.split)

lemma tools_inv_flush: "tools_inv xs t \<Longrightarrow> tools_inv xs (flush_tokens t)"
  by (simp add: tools_inv_def)

lemma tools_inv_event:
  assumes inv: "tools_inv xs t" and e: "project_event e t = Some t'"
  shows "tools_inv (xs @ [e]) t'"
  using e
proof (cases rule: project_event_cases)
  case start
  then show ?thesis using tools_inv_start [OF tools_inv_flush [OF inv]] by simp
next
  case tool_end
  then show ?thesis using tools_inv_end [OF tools_inv_flush [OF inv]] by simp
next
  case items
  then have "tl_tools t' = tl_tools t" by (auto simp: adds_items_def)
  then show ?thesis using items(1) by (intro tools_inv_same [OF inv]) (auto simp: is_tool_event_def)
qed (auto simp: is_tool_event_def CHECKPOINT_EVENTS_def intro!: tools_inv_same [OF inv])

lemma tools_inv_empty: "tools_inv [] empty_timeline"
  by (simp add: tools_inv_def empty_timeline_def tool_events_def)

lemma tools_inv_loop: "project_events es empty_timeline = Some t \<Longrightarrow> tools_inv es t"
  by (rule project_events_invariant [where P = tools_inv]) (auto intro: tools_inv_event tools_inv_empty)

lemma set_sort_items [simp]: "set (sort_items items) = set items"
  by (simp add: sort_items_def)

lemma length_of_kind_sorted: "length (of_kind k (sort_items items)) = length (of_kind k items)"
  unfolding of_kind_sorted by (simp add: sort_items_def)

text \<open>The tool items of a timeline are the entries of the table.\<close>

lemma tool_items:
  assumes "project_events evs empty_timeline = Some t"
  shows "of_kind ''tool_call'' (tl_items (close_timeline t) @ map warning_item ws) = map snd (tl_tools t)"
proof -
  have inv: "output_inv evs (flush_tokens t)" by (rule output_inv_flush [OF output_inv_loop [OF assms]])
  have o: "dget i ''kind'' \<noteq> PStr ''tool_call''" if "output_like i" for i
    using that by (auto simp: output_like_def kinds)
  have "of_kind ''tool_call'' (tl_items (flush_tokens t)) = []"
    by (rule of_kind_None) (use inv o in \<open>auto simp: output_inv_def kinds_ok_def\<close>)
  moreover have "of_kind ''tool_call'' (checkpoint_items t) = []" "of_kind ''tool_call'' (map warning_item ws) = []"
    by (rule of_kind_None, use inv in \<open>auto simp: output_inv_def kinds_ok_def kinds\<close>)+
  moreover have "of_kind ''tool_call'' (map snd (tl_tools t)) = map snd (tl_tools t)"
    using inv unfolding of_kind_def by (intro filter_True) (simp add: output_inv_def kinds_ok_def)
  ultimately show ?thesis by (simp add: close_timeline_def Let_def)
qed

text \<open>
  A timeline has exactly one item per tool call, whichever of its events are present and however often
  they repeat; the item counts as unfinished exactly when the last of its events is a \<open>tool_start\<close>, and then
  the timeline warns about it by its call id.
\<close>

theorem timeline_tool_calls:
  assumes "project_run cost_sum run evs = Some r"
  shows "length (of_kind ''tool_call'' (rt_items r)) = card (event_call_id ` {e \<in> set evs. is_tool_event e})
    \<and> (\<forall>i \<in> set (of_kind ''tool_call'' (rt_items r)). \<exists>c. dget i ''call_id'' = PStr c
        \<and> tool_events c (ordered_events evs) \<noteq> []
        \<and> (dget i ''end_event_id'' = PNone \<longleftrightarrow> ev_type (last (tool_events c (ordered_events evs))) = ''tool_start'')
        \<and> (dget i ''end_event_id'' = PNone \<longrightarrow> (\<exists>w \<in> set (rt_warnings r).
              dget w ''code'' = PStr ''tool_missing_end'' \<and> dget w ''call_id'' = PStr c)))"
proof -
  let ?o = "ordered_events evs"
  obtain t where t: "project_events ?o empty_timeline = Some t"
      "rt_warnings r = tl_warnings (close_timeline t) @ status_warnings (rn_status run) ?o
        @ sequence_warnings ?o @ checkpoint_warnings (checkpoint_items t)"
      "rt_items r = sort_items (tl_items (close_timeline t) @ map warning_item (rt_warnings r))"
    by (rule project_run_Some [OF assms])
  have inv: "tools_inv ?o t" by (rule tools_inv_loop [OF t(1)])
  note items = tool_items [OF t(1), of "rt_warnings r"]
  have len: "length (of_kind ''tool_call'' (rt_items r)) = length (tl_tools t)"
    unfolding t(3) length_of_kind_sorted items by simp
  have set: "set (of_kind ''tool_call'' (rt_items r)) = snd ` set (tl_tools t)"
    unfolding t(3) of_kind_sorted set_sort_items items by simp
  have keys: "fst ` set (tl_tools t) = event_call_id ` {e \<in> set evs. is_tool_event e}"
  proof (rule set_eqI)
    fix c
    have "tool_events c ?o \<noteq> [] \<longleftrightarrow> c \<in> event_call_id ` {e \<in> set evs. is_tool_event e}"
      by (auto simp: tool_events_def filter_empty_conv ordered_events_def)
    then show "c \<in> fst ` set (tl_tools t) \<longleftrightarrow> c \<in> event_call_id ` {e \<in> set evs. is_tool_event e}"
      using inv by (simp add: tools_inv_def)
  qed
  have "length (tl_tools t) = card (fst ` set (tl_tools t))"
    using inv by (metis distinct_card length_map list.set_map tools_inv_def)
  moreover have "\<exists>w \<in> set (rt_warnings r). dget w ''code'' = PStr ''tool_missing_end'' \<and> dget w ''call_id'' = PStr c"
    if "(c, i) \<in> set (tl_tools t)" "dget i ''end_event_id'' = PNone" for c i
  proof -
    have "dget i ''call_id'' = PStr c" using inv that(1) by (auto simp: tools_inv_def tool_ok_def)
    moreover have "set (tool_missing_end i) \<subseteq> set (rt_warnings r)"
      using that(1) by (force simp: t(2) close_timeline_def Let_def)
    ultimately show ?thesis
      using that(2) by (intro bexI [of _ "hd (tool_missing_end i)"]) (simp_all add: tool_missing_end_def)
  qed
  moreover have "tool_events c ?o \<noteq> []" if "(c, i) \<in> set (tl_tools t)" for c i
    using inv that by (force simp: tools_inv_def)
  ultimately show ?thesis
    using inv unfolding len set keys by (fastforce simp: tools_inv_def tool_ok_def)
qed

section \<open>Order\<close>

definition ids_ok :: "event_row list \<Rightarrow> bool" where
  "ids_ok evs \<longleftrightarrow> (\<forall>e \<in> set evs. 0 < ev_id e \<and> ev_id e < 10 ^ 12)"

definition early :: "dict \<Rightarrow> bool" where
  "early i \<longleftrightarrow> item_order i < 10 ^ 12"

lemma early_event: "dget i ''event_id'' = PInt n \<Longrightarrow> 0 < n \<Longrightarrow> n < 10 ^ 12 \<Longrightarrow> early i"
  by (simp add: early_def item_order_def py_or_def)

definition placed :: "dict \<Rightarrow> bool" where
  "placed i \<longleftrightarrow> early i \<or> dget i ''kind'' = PStr ''approval'' \<or> output_like i"

definition order_inv :: "timeline \<Rightarrow> bool" where
  "order_inv t \<longleftrightarrow> (\<forall>i \<in> set (tl_items t) \<union> set (checkpoint_items t). placed i)"

lemma order_inv_flush: "order_inv t \<Longrightarrow> order_inv (flush_tokens t)"
  using flush_items [of t] by (auto simp: order_inv_def placed_def)

lemma order_inv_event:
  assumes inv: "order_inv t" and pend: "pending_ok t" and id: "0 < ev_id e" "ev_id e < 10 ^ 12"
    and e: "project_event e t = Some t'"
  shows "order_inv t'"
proof -
  have f: "order_inv (flush_tokens t)" by (rule order_inv_flush [OF inv])
  have early: "placed i" if "dget i ''event_id'' = PInt (ev_id e)" for i
    using early_event [OF that id] by (simp add: placed_def)
  from e show ?thesis
  proof (cases rule: project_event_cases)
    case resolved
    define i where "i = (tl_items (on_approval_resolved e (flush_tokens t)))"
    show ?thesis
    proof (cases "\<exists>q. approval_pending t = Some q \<and> dget q ''status'' = PStr ''waiting''")
      case False
      then show ?thesis
        using f by (auto simp: resolved(2) on_approval_resolved_def Let_def order_inv_def placed_def split: option.split)
    next
      case True
      then obtain q where q: "approval_pending t = Some q" "dget q ''status'' = PStr ''waiting''" by blast
      then have k: "dget q ''kind'' = PStr ''approval''" using pend by (simp add: pending_ok_def)
      show ?thesis
        unfolding order_inv_def
      proof
        fix x assume x: "x \<in> set (tl_items t') \<union> set (checkpoint_items t')"
        have "x \<in> set (tl_items (flush_tokens t)) \<union> set (checkpoint_items (flush_tokens t)) \<or> dget x ''kind'' = PStr ''approval''"
          using x q k set_update_subset_insert
          unfolding resolved(2) on_approval_resolved_def by (fastforce simp: Let_def dupdate_def)
        then show "placed x" using f by (auto simp: order_inv_def placed_def)
      qed
    qed
  next
    case token
    then show ?thesis using inv by (simp add: on_token_def order_inv_def)
  next
    case start
    then show ?thesis using f by (simp add: on_tool_start_def split_beta Let_def call_id_for_frame order_inv_def)
  next
    case tool_end
    then show ?thesis using f by (simp add: on_tool_end_def split_beta Let_def call_id_for_frame orphan_frame order_inv_def)
  next
    case required
    then show ?thesis using f by (auto simp: on_approval_required_def Let_def order_inv_def placed_def)
  next
    case checkpoint
    then show ?thesis using f early by (auto simp: on_checkpoint_def order_inv_def base_kind)
  next
    case items
    then show ?thesis using f early by (auto simp: adds_items_def order_inv_def)
  qed
qed

lemma order_inv_loop:
  assumes "project_events es empty_timeline = Some t" and "ids_ok es"
  shows "order_inv t"
proof -
  have "output_inv es t \<and> order_inv t"
  proof (rule project_events_invariant [OF assms(1), where P = "\<lambda>xs t. output_inv xs t \<and> order_inv t"])
    show "output_inv [] empty_timeline \<and> order_inv empty_timeline"
      by (simp add: output_inv_empty order_inv_def) (simp add: empty_timeline_def)
  next
    fix xs e t t'
    assume "output_inv xs t \<and> order_inv t" "e \<in> set es" "project_event e t = Some t'"
    moreover from this have "pending_ok t" by (simp add: output_inv_def kinds_ok_def)
    ultimately show "output_inv (xs @ [e]) t' \<and> order_inv t'"
      using output_inv_event order_inv_event assms(2) by (auto simp: ids_ok_def)
  qed
  then show ?thesis by simp
qed

lemma tool_early:
  assumes "tool_ok xs c i" and "ids_ok xs"
  shows "early i"
proof -
  obtain e where "e \<in> set (tool_events c xs)" and i: "dget i ''start_event_id'' = PInt (ev_id e)
          \<or> (dget i ''start_event_id'' = PNone \<and> dget i ''end_event_id'' = PInt (ev_id e))"
      "dget i ''event_id'' = PNone" "dget i ''required_event_id'' = PNone"
    using assms(1) unfolding tool_ok_def by blast
  then have "0 < ev_id e" "ev_id e < 10 ^ 12" using assms(2) by (auto simp: ids_ok_def tool_events_def)
  then show ?thesis using i by (auto simp: early_def item_order_def py_or_def)
qed

text \<open>
  The output is not where it was produced. An assistant output item has the ids of its tokens but none of
  the fields the order of the items is taken from, so it sorts behind everything: after an assistant output
  a timeline lists only further outputs, warnings and approvals without a request, never a later tool call,
  error or end of the run.
\<close>

theorem timeline_output_last:
  assumes "project_run cost_sum run evs = Some r" and "ids_ok evs"
    and "i < j" and "j < length (rt_items r)" and "dget (rt_items r ! i) ''kind'' = PStr ''assistant_output''"
  shows "dget (rt_items r ! j) ''kind'' \<in> PStr ` {''assistant_output'', ''warning'', ''approval''}"
proof -
  let ?o = "ordered_events evs"
  obtain t where t: "project_events ?o empty_timeline = Some t"
      "rt_items r = sort_items (tl_items (close_timeline t) @ map warning_item (rt_warnings r))"
    by (rule project_run_Some [OF assms(1)])
  have ids: "ids_ok ?o" using assms(2) by (simp add: ids_ok_def ordered_events_def)
  have inv: "output_inv ?o (flush_tokens t)" by (rule output_inv_flush [OF output_inv_loop [OF t(1)]])
  have ord: "order_inv (flush_tokens t)" by (rule order_inv_flush [OF order_inv_loop [OF t(1) ids]])
  have tools: "\<forall>x \<in> set (map snd (tl_tools t)). early x"
    using tools_inv_loop [OF t(1)] tool_early [OF _ ids] by (fastforce simp: tools_inv_def)
  have "sorted (map item_order (rt_items r))" by (simp add: t(2) sort_items_def)
  then have le: "item_order (rt_items r ! i) \<le> item_order (rt_items r ! j)"
    using assms(3,4) by (simp add: sorted_iff_nth_mono)
  have mem: "x \<in> set (tl_items (flush_tokens t)) \<union> set (checkpoint_items (flush_tokens t)) \<union> set (map snd (tl_tools t))
      \<or> dget x ''kind'' = PStr ''warning''" if "x \<in> set (rt_items r)" for x
    using that by (auto simp: t(2) close_timeline_def Let_def kinds)
  have out: "output_like x" if x: "x \<in> set (rt_items r)" "dget x ''kind'' = PStr ''assistant_output''" for x
    using mem [OF x(1)] x(2) inv plain_not_output [of x] by (auto simp: output_inv_def kinds_ok_def)
  have "rt_items r ! i \<in> set (rt_items r)" using assms(3,4) by simp
  then have "item_order (rt_items r ! i) = 10 ^ 12" using order_of_output out assms(5) by blast
  then have "\<not> early (rt_items r ! j)" using le by (simp add: early_def)
  then show ?thesis
    using mem [of "rt_items r ! j"] assms(4) ord tools by (auto simp: order_inv_def placed_def output_like_def kinds)
qed

section \<open>When there is no timeline\<close>

text \<open>The events whose branch does not raise.\<close>

definition event_ok :: "event_row \<Rightarrow> bool" where
  "event_ok e \<longleftrightarrow>
     (let p = payload_of e; fa = as_dict (dget p ''final_answer''); n = int (length (as_list (dget p ''sources''))) in
      (ev_type e = ''done'' \<and> is_dict (dget p ''final_answer'') \<longrightarrow>
         len_or (dget fa ''citations'') \<noteq> None \<and> len_or (dget fa ''tool_evidence'') \<noteq> None)
      \<and> (ev_type e = ''output_guard_checked'' \<longrightarrow> int_or (dget p ''finding_count'') 0 \<noteq> None)
      \<and> (ev_type e = ''context_built'' \<longrightarrow>
         py_iter (py_or (dget p ''context_block_sources'') (PList [])) \<noteq> None \<and> int_or (dget p ''context_block_count'') 0 \<noteq> None)
      \<and> (ev_type e = ''retrieval_completed'' \<longrightarrow> int_or (dget p ''source_count'') n \<noteq> None))"

lemma optional_None:
  "guard_item e = None \<longleftrightarrow> int_or (dget (payload_of e) ''finding_count'') 0 = None"
  "context_item e = None \<longleftrightarrow> py_iter (py_or (dget (payload_of e) ''context_block_sources'') (PList [])) = None
     \<or> int_or (dget (payload_of e) ''context_block_count'') 0 = None"
  "retrieval_item e = None \<longleftrightarrow>
     int_or (dget (payload_of e) ''source_count'') (int (length (as_list (dget (payload_of e) ''sources'')))) = None"
  "final_answer_item e fa = None \<longleftrightarrow> len_or (dget fa ''citations'') = None \<or> len_or (dget fa ''tool_evidence'') = None"
  by (auto simp: guard_item_def context_item_def retrieval_item_def final_answer_item_def retrieval_preview_def Let_def
      split: option.splits)

lemma project_event_None: "project_event e t = None \<longleftrightarrow> \<not> event_ok e"
proof -
  consider "ev_type e = ''done''" | "ev_type e = ''output_guard_checked''" | "ev_type e = ''context_built''"
    | "ev_type e = ''retrieval_completed''"
    | (other) "ev_type e \<notin> {''done'', ''output_guard_checked'', ''context_built'', ''retrieval_completed''}" by auto
  then show ?thesis
  proof cases
    case other
    then have "event_ok e" by (simp add: event_ok_def Let_def)
    moreover have "project_event e t \<noteq> None"
      using other unfolding project_event_def Let_def by (simp add: on_lifecycle_def Let_def)
    ultimately show ?thesis by simp
  qed (auto simp: project_event_def event_ok_def Let_def LIFECYCLE_EVENTS_def CHECKPOINT_EVENTS_def on_lifecycle_def optional_None)
qed

lemma project_events_None: "project_events es t = None \<longleftrightarrow> (\<exists>e \<in> set es. \<not> event_ok e)"
proof (induction es arbitrary: t)
  case (Cons e es)
  show ?case using project_event_None [of e t] by (cases "project_event e t") (auto simp: Cons.IH)
qed simp

text \<open>
  One malformed event hides the whole run: the timeline raises exactly when some event carries a field its
  branch cannot convert (a count that is no number, citations that have no length, block sources that cannot
  be iterated), or a summary meets one; all other events and any order of them project.
\<close>

theorem timeline_raises_iff:
  "project_run cost_sum run evs = None \<longleftrightarrow>
     (\<exists>e \<in> set evs. \<not> event_ok e) \<or> observability_summary (ordered_events evs) = None
       \<or> cost_summary cost_sum (ordered_events evs) = None"
proof -
  have "project_events (ordered_events evs) empty_timeline = None \<longleftrightarrow> (\<exists>e \<in> set evs. \<not> event_ok e)"
    by (simp add: project_events_None ordered_events_def)
  then show ?thesis by (auto simp: project_run_def Let_def split: option.splits)
qed

section \<open>A concrete run\<close>

definition demo_event :: "int \<Rightarrow> string \<Rightarrow> dict \<Rightarrow> event_row" where
  "demo_event n ty p = \<lparr>ev_id = n, ev_thread_id = ''t'', ev_run_id = ''r'', ev_type = ty, ev_payload = PDict p,
     ev_created_at = n, ev_sequence = Some n\<rparr>"

definition demo_events :: "event_row list" where
  "demo_events =
     [demo_event 1 ''run_created'' [], demo_event 2 ''token'' [(''text'', PStr ''Hel'')],
      demo_event 3 ''tool_start'' [(''call_id'', PStr ''c1''), (''name'', PStr ''search'')],
      demo_event 4 ''token'' [(''text'', PStr ''lo'')], demo_event 5 ''done'' []]"

definition demo_run_row :: run_row where
  "demo_run_row = \<lparr>rn_id = ''r'', rn_thread_id = ''t'', rn_status = ''completed'', rn_created_at = 0,
     rn_completed_at = Some 9, rn_error = None, rn_idempotency_key = None, rn_idempotency_payload_hash = None,
     rn_recovered_at = None, rn_recovery_reason = None\<rparr>"

lemma demo_projects:
  "map_option (\<lambda>r. (map (\<lambda>i. dget i ''kind'') (rt_items r), map (\<lambda>w. dget w ''code'') (rt_warnings r), rt_assistant_output r))
     (project_run (\<lambda>_. Some PNone) demo_run_row demo_events)
   = Some (map PStr [''lifecycle'', ''tool_call'', ''lifecycle'', ''assistant_output'', ''assistant_output'', ''warning''],
       [PStr ''tool_missing_end''], ''Hello'')"
  by code_simp

definition demo_timeline :: run_timeline where
  "demo_timeline = the (project_run (\<lambda>_. Some PNone) demo_run_row demo_events)"

lemma demo_timeline: "project_run (\<lambda>_. Some PNone) demo_run_row demo_events = Some demo_timeline"
  "map (\<lambda>i. dget i ''kind'') (rt_items demo_timeline) =
     map PStr [''lifecycle'', ''tool_call'', ''lifecycle'', ''assistant_output'', ''assistant_output'', ''warning'']"
  "rt_assistant_output demo_timeline = ''Hello''"
  using demo_projects by (auto simp: demo_timeline_def)

theorem timeline_output_complete_witness: "outputs (rt_items demo_timeline) = ''Hello''"
  using timeline_output_complete [OF demo_timeline(1)] demo_timeline(3) by simp

theorem timeline_tool_calls_witness:
  "length (of_kind ''tool_call'' (rt_items demo_timeline)) = 1"
proof -
  have "card (event_call_id ` {e \<in> set demo_events. is_tool_event e}) = 1"
  proof -
    have "{e \<in> set demo_events. is_tool_event e} = {demo_event 3 ''tool_start'' [(''call_id'', PStr ''c1''), (''name'', PStr ''search'')]}"
      by (auto simp: demo_events_def is_tool_event_def demo_event_def)
    then show ?thesis by simp
  qed
  then show ?thesis using timeline_tool_calls [OF demo_timeline(1)] by simp
qed

theorem timeline_output_last_witness:
  "dget (rt_items demo_timeline ! 5) ''kind'' \<in> PStr ` {''assistant_output'', ''warning'', ''approval''}
    \<and> dget (rt_items demo_timeline ! 2) ''kind'' = PStr ''lifecycle''"
proof -
  have "length (map (\<lambda>i. dget i ''kind'') (rt_items demo_timeline)) = 6" unfolding demo_timeline(2) by simp
  then have l: "length (rt_items demo_timeline) = 6" by simp
  have k: "dget (rt_items demo_timeline ! n) ''kind'' =
      map PStr [''lifecycle'', ''tool_call'', ''lifecycle'', ''assistant_output'', ''assistant_output'', ''warning''] ! n"
    if "n < 6" for n
    using that arg_cong [OF demo_timeline(2), of "\<lambda>xs. xs ! n"] l by simp
  have ids: "ids_ok demo_events" by (simp add: ids_ok_def demo_events_def demo_event_def)
  have "dget (rt_items demo_timeline ! 3) ''kind'' = PStr ''assistant_output''" using k [of 3] by simp
  then show ?thesis using timeline_output_last [OF demo_timeline(1) ids, of 3 5] l k [of 2] by simp
qed

end
