(* ===== verification/TimelineStore.thy ===== *)
theory TimelineStore
  imports TimelineProps EngineEvidence
begin

text \<open>
  The timeline of the runs the engine executes: which of its warnings the event store and the engine rule
  out.
\<close>

section \<open>The warnings of the loop\<close>

definition LOOP_CODES :: "string set" where
  "LOOP_CODES = {''tool_missing_call_id'', ''tool_missing_start'', ''tool_failed'', ''policy_blocked'', ''policy_denied'',
     ''side_effect_unknown'', ''robot_action_failed''}"

definition loop_code :: "dict \<Rightarrow> bool" where
  "loop_code w \<longleftrightarrow> dget w ''code'' \<in> PStr ` LOOP_CODES"

definition warns_more :: "timeline \<Rightarrow> timeline \<Rightarrow> bool" where
  "warns_more t t' \<longleftrightarrow> (\<forall>w \<in> set (tl_warnings t'). w \<in> set (tl_warnings t) \<or> loop_code w)"

lemma warns_refl [simp]: "warns_more t t"
  by (simp add: warns_more_def)

lemma warns_eq: "tl_warnings t' = tl_warnings t \<Longrightarrow> warns_more t t'"
  by (simp add: warns_more_def)

lemma warns_warn: "warns_more t t' \<Longrightarrow> loop_code w \<Longrightarrow> warns_more t (warn w t')"
  by (auto simp: warns_more_def warn_def)

lemma warns_trans: "warns_more a b \<Longrightarrow> warns_more b c \<Longrightarrow> warns_more a c"
  unfolding warns_more_def by blast

lemma code_first: "loop_code ((''code'', PStr c) # d) \<longleftrightarrow> c \<in> LOOP_CODES"
  by (auto simp: loop_code_def)

lemma warns_call_id: "warns_more t (snd (call_id_for e t))"
  by (auto simp: call_id_for_def Let_def intro!: warns_warn) (simp add: code_first LOOP_CODES_def)

lemma warns_orphan: "warns_more t (snd (orphan_tool e c t))"
  by (auto simp: orphan_tool_def split: option.split intro!: warns_warn) (simp add: code_first LOOP_CODES_def)

lemma warns_start: "warns_more t (on_tool_start e t)"
  by (rule warns_trans [OF warns_call_id [of t e]]) (auto simp: on_tool_start_def split_beta Let_def intro!: warns_eq)

lemma warns_end: "warns_more t (on_tool_end e t)"
proof -
  define t1 where "t1 = snd (orphan_tool e (event_call_id e) (snd (call_id_for e t)))"
  have "warns_more t t1" unfolding t1_def by (rule warns_trans [OF warns_call_id warns_orphan])
  moreover have "warns_more t1 (t1\<lparr>tl_tools := ts\<rparr>)" for ts by (rule warns_eq) simp
  ultimately have "warns_more t (t1\<lparr>tl_tools := ts\<rparr>)" for ts using warns_trans by blast
  moreover have "loop_code ((''code'', PStr ''tool_failed'') # d)" for d by (simp add: code_first LOOP_CODES_def)
  ultimately show ?thesis by (simp add: on_tool_end_def split_beta Let_def t1_def [symmetric] warns_warn)
qed

lemma warns_add: "warns_more t (add_item i t)"
  by (rule warns_eq) simp

lemma warns_handlers:
  "warns_more t (on_policy e t)" "warns_more t (on_side_effect e t)" "warns_more t (on_robot e t)"
  using warns_add by (auto simp: on_policy_def on_side_effect_def on_robot_def Let_def code_first LOOP_CODES_def intro!: warns_warn)

lemma warns_lifecycle: "on_lifecycle e t = Some t' \<Longrightarrow> warns_more t t'"
  by (auto simp: on_lifecycle_def Let_def split: if_splits intro!: warns_eq)

lemma warns_approval:
  "warns_more t (on_approval_required e t)" "warns_more t (on_approval_resolved e t)" "warns_more t (on_checkpoint e t)"
  "warns_more t (on_token e t)"
  by (auto simp: on_approval_required_def on_approval_resolved_def on_checkpoint_def on_token_def Let_def split: option.split
      intro!: warns_eq)

lemma warns_flush: "warns_more (flush_tokens t) t' \<Longrightarrow> warns_more t t'"
  by (simp add: warns_more_def)

lemma warns_event:
  assumes "project_event e t = Some t'"
  shows "warns_more t t'"
proof (cases "ev_type e = ''token''")
  case True
  then show ?thesis using assms by (auto simp: project_event_def warns_approval)
next
  case False
  show ?thesis
    by (rule warns_flush) (use assms False in \<open>auto simp: project_event_def Let_def split: if_splits
      intro!: warns_start warns_end warns_approval warns_handlers warns_add dest!: warns_lifecycle\<close>)
qed

lemma warns_loop: "project_events es t = Some t' \<Longrightarrow> warns_more t t'"
  by (induction es arbitrary: t) (auto split: option.splits dest: warns_event intro: warns_trans)

section \<open>What the store rules out\<close>

lemma first_gap_upt: "first_gap (map int [a..<b]) = None"
proof (induction "b - a" arbitrary: a)
  case (Suc n)
  then have ab: "a < b" and IH: "first_gap (map int [Suc a..<b]) = None" by auto
  show ?case
  proof (cases "Suc a < b")
    case True
    then show ?thesis using IH ab by (simp add: upt_conv_Cons)
  next
    case False
    then have "[a..<b] = [a]" using ab by (simp add: upt_conv_Cons)
    then show ?thesis by simp
  qed
qed simp

lemma duplicate_codes: "w \<in> set (duplicate_ends seen es) \<Longrightarrow> dget w ''code'' = PStr ''duplicate_tool_end_call_id''"
  by (induction seen es rule: duplicate_ends.induct) (auto simp: Let_def split: if_splits)

lemma checkpoint_codes:
  "w \<in> set (checkpoint_warnings items) \<Longrightarrow>
    dget w ''code'' \<in> PStr ` {''checkpoint_read_failed'', ''checkpoint_missing'', ''checkpoint_message_count_mismatch''}"
  by (auto simp: checkpoint_warnings_def Let_def split: option.splits if_splits)

lemma run_log_ordered:
  assumes "log_inv s"
  shows "ordered_events (run_log s rid) = run_log s rid"
proof -
  let ?l = "run_log s rid"
  have seq: "map ev_sequence ?l = map Some (map int [1..<Suc (length ?l)])" using assms by (simp add: log_inv_def)
  have "seq_or_zero (?l ! i) = 1 + int i" if "i < length ?l" for i
    using arg_cong [OF seq, of "\<lambda>xs. xs ! i"] that by (simp add: seq_or_zero_def del: upt_Suc)
  then have "sorted (map event_order ?l)"
    by (auto simp: sorted_iff_nth_mono_less event_order_def less_eq_prod_def)
  then show ?thesis by (simp add: ordered_events_def sort_key_id_if_sorted)
qed

lemma run_log_no_gap: "log_inv s \<Longrightarrow> first_gap (List.map_filter ev_sequence (run_log s rid)) = None"
  using map_filter_via_map [of ev_sequence "run_log s rid" "map int [1..<Suc (length (run_log s rid))]"]
    first_gap_upt [of 1 "Suc (length (run_log s rid))"]
  by (simp add: log_inv_def del: upt_Suc)

text \<open>The codes a timeline of the store's events can have.\<close>

lemma timeline_codes:
  assumes "log_inv s" and "project_run cost_sum run (run_log s rid) = Some r" and "w \<in> set (rt_warnings r)"
  shows "loop_code w \<or> dget w ''code'' \<in> PStr ` {''tool_missing_end'', ''duplicate_tool_end_call_id'',
      ''checkpoint_read_failed'', ''checkpoint_missing'', ''checkpoint_message_count_mismatch''}
    \<or> w \<in> set (status_warnings (rn_status run) (run_log s rid))"
proof -
  let ?o = "run_log s rid"
  note o = run_log_ordered [OF assms(1), of rid]
  obtain t where t: "project_events ?o empty_timeline = Some t"
      "rt_warnings r = tl_warnings (close_timeline t) @ status_warnings (rn_status run) ?o
        @ sequence_warnings ?o @ checkpoint_warnings (checkpoint_items t)"
    using project_run_Some [OF assms(2)] unfolding o by metis
  have "sequence_warnings ?o = duplicate_ends {} ?o" by (simp add: sequence_warnings_def run_log_no_gap [OF assms(1)])
  moreover have "loop_code w \<or> dget w ''code'' = PStr ''tool_missing_end''" if "w \<in> set (tl_warnings (close_timeline t))"
    using that warns_loop [OF t(1)]
    by (auto simp: close_timeline_def Let_def warns_more_def empty_timeline_def tool_missing_end_def split: if_splits)
  ultimately show ?thesis
    using assms(3) duplicate_codes [of w] checkpoint_codes [of w "checkpoint_items t"] unfolding t(2) by auto
qed

end
