(* ===== verification/Credentials.thy ===== *)
theory Credentials
  imports Sanitize Complex_Main
begin

text \<open>
  The session cookies of the HTTP tools (\<^verbatim>\<open>copilot_agent/credentials/\<close>): the binding metadata of a
  scenario (\<^verbatim>\<open>schema.py\<close>), the in-memory secret store with its expiry (\<^verbatim>\<open>store.py\<close>), the manager that
  checks scopes before it hands a cookie out (\<^verbatim>\<open>manager.py\<close>) and the audit payload (\<^verbatim>\<open>audit.py\<close>).

  The readings of \<^verbatim>\<open>time.monotonic()\<close> are rational numbers and arguments of the operations. The
  operations of the store run under its lock, so that a sequence of operations describes every use.
\<close>

section \<open>Bindings\<close>

record credential_binding =
  cb_binding_id :: string
  cb_tenant_id :: "string option"
  cb_user_id :: string
  cb_thread_id :: "string option"
  cb_provider :: string
  cb_credential_type :: string
  cb_scopes :: "string list"
  cb_expires_at :: "string option"
  cb_storage :: string
  cb_audit_required :: bool

text \<open>\<open>CredentialBinding(binding_id=..., scopes=...)\<close> with the defaults of the class.\<close>

definition new_binding :: "string \<Rightarrow> string list \<Rightarrow> credential_binding" where
  "new_binding binding_id scopes = \<lparr>cb_binding_id = binding_id, cb_tenant_id = None, cb_user_id = [],
     cb_thread_id = None, cb_provider = ''scenario'', cb_credential_type = ''cookie'', cb_scopes = scopes,
     cb_expires_at = None, cb_storage = ''memory'', cb_audit_required = True\<rparr>"

definition str_list :: "string list \<Rightarrow> pyval" where
  "str_list xs = PList (map PStr xs)"

definition binding_audit_payload :: "credential_binding \<Rightarrow> dict" where
  "binding_audit_payload b =
     [(''binding_id'', PStr (cb_binding_id b)), (''provider'', PStr (cb_provider b)),
      (''credential_type'', PStr (cb_credential_type b)), (''scopes'', str_list (cb_scopes b)),
      (''storage'', PStr (cb_storage b)), (''thread_id'', opt_str (cb_thread_id b)),
      (''user_id'', if cb_user_id b \<noteq> [] then PStr (cb_user_id b) else PNone)]"

definition build_credential_audit_payload ::
    "string \<Rightarrow> credential_binding \<Rightarrow> string \<Rightarrow> string list \<Rightarrow> string \<Rightarrow> string \<Rightarrow> dict" where
  "build_credential_audit_payload action b tool_name required reason user_id =
     [(''action'', PStr action), (''binding_id'', PStr (cb_binding_id b)),
      (''provider'', PStr (cb_provider b)), (''credential_type'', PStr (cb_credential_type b)),
      (''granted_scopes'', str_list (cb_scopes b)), (''required_scopes'', str_list required)]
     @ (if tool_name \<noteq> [] then [(''tool_name'', PStr tool_name)] else [])
     @ (if reason \<noteq> [] then [(''reason'', PStr reason)] else [])
     @ (if user_id \<noteq> [] then [(''user_id'', PStr user_id)]
        else if cb_user_id b \<noteq> [] then [(''user_id'', PStr (cb_user_id b))] else [])"

section \<open>The secret store\<close>

record secret_entry =
  se_value :: string
  se_expires_at :: rat
  se_user_id :: string

record secret_store =
  ss_ttl :: int
  ss_data :: "(string \<times> secret_entry) list"

definition new_secret_store :: "int \<Rightarrow> secret_store" where
  "new_secret_store ttl_seconds = \<lparr>ss_ttl = max 1 ttl_seconds, ss_data = []\<rparr>"

definition secret_set :: "rat \<Rightarrow> string \<Rightarrow> string \<Rightarrow> string \<Rightarrow> secret_store \<Rightarrow> secret_store" where
  "secret_set now thread_id user_id secret s =
     s\<lparr>ss_data := AList.update thread_id
         \<lparr>se_value = secret, se_expires_at = now + of_int (ss_ttl s), se_user_id = user_id\<rparr> (ss_data s)\<rparr>"

definition secret_purge :: "rat \<Rightarrow> secret_store \<Rightarrow> secret_store" where
  "secret_purge now s = s\<lparr>ss_data := filter (\<lambda>(k, e). \<not> se_expires_at e < now) (ss_data s)\<rparr>"

definition secret_get :: "rat \<Rightarrow> string \<Rightarrow> secret_store \<Rightarrow> string option \<times> secret_store" where
  "secret_get now thread_id s =
     (let s = secret_purge now s in
      case map_of (ss_data s) thread_id of
        None \<Rightarrow> (None, s)
      | Some e \<Rightarrow> if se_expires_at e < now then (None, s\<lparr>ss_data := AList.delete thread_id (ss_data s)\<rparr>)
                  else (Some (se_value e), s))"

section \<open>The manager\<close>

text \<open>The fields of \<^verbatim>\<open>ScenarioResourcesConfig\<close> that the tools read.\<close>

record scenario_resources =
  sr_credential_binding :: string
  sr_credential_cookie_name :: string
  sr_credential_provider :: string
  sr_credential_scopes :: "string list"
  sr_http_get_actuator_paths :: "string list"
  sr_http_get_patterns :: "string list"
  sr_http_post_paths :: "string list"

record credential_manager =
  cm_binding :: credential_binding
  cm_store :: secret_store
  cm_cookie_header_name :: string

definition or_text :: "string \<Rightarrow> string \<Rightarrow> string" where
  "or_text a b = (if a \<noteq> [] then a else b)"

definition manager_of_resources :: "scenario_resources \<Rightarrow> int \<Rightarrow> credential_manager" where
  "manager_of_resources resources ttl_seconds =
     (let binding_id = or_text (strip (or_text (sr_credential_binding resources) ''default'')) ''default'';
          provider = or_text (strip (or_text (sr_credential_provider resources) binding_id)) binding_id;
          scopes = (if sr_credential_scopes resources \<noteq> [] then sr_credential_scopes resources
                    else [''http:read'', ''http:write''])
      in \<lparr>cm_binding = (new_binding binding_id scopes)\<lparr>cb_provider := provider\<rparr>,
          cm_store = new_secret_store ttl_seconds,
          cm_cookie_header_name = strip (sr_credential_cookie_name resources)\<rparr>)"

definition authorize_scopes :: "string list \<Rightarrow> credential_manager \<Rightarrow> bool" where
  "authorize_scopes required m \<longleftrightarrow> required = [] \<or> list_all (\<lambda>s. s \<in> set (cb_scopes (cm_binding m))) required"

definition get_cookie :: "rat \<Rightarrow> string \<Rightarrow> string list \<Rightarrow> credential_manager \<Rightarrow> string option \<times> credential_manager" where
  "get_cookie now thread_id required m =
     (if \<not> authorize_scopes required m then (None, m)
      else case secret_get now thread_id (cm_store m) of (r, s) \<Rightarrow> (r, m\<lparr>cm_store := s\<rparr>))"

definition set_cookie :: "rat \<Rightarrow> string \<Rightarrow> string \<Rightarrow> string \<Rightarrow> credential_manager \<Rightarrow> credential_manager" where
  "set_cookie now thread_id user_id cookie_header m =
     m\<lparr>cm_store := secret_set now thread_id user_id cookie_header (cm_store m),
       cm_binding := (cm_binding m)\<lparr>cb_thread_id := Some thread_id,
         cb_user_id := or_text user_id (cb_user_id (cm_binding m))\<rparr>\<rparr>"

definition manager_redact :: "string \<Rightarrow> string option \<Rightarrow> credential_manager \<Rightarrow> string" where
  "manager_redact session_cookie_name cookie_header m =
     redact_cookie_header session_cookie_name cookie_header (Some (cm_cookie_header_name m))"

definition audit_ref :: "string option \<Rightarrow> string option \<Rightarrow> credential_manager \<Rightarrow> dict" where
  "audit_ref thread_id user_id m =
     (let payload = binding_audit_payload (cm_binding m);
          payload = (case thread_id of Some t \<Rightarrow> if t \<noteq> [] then dset ''thread_id'' (PStr t) payload else payload
                     | None \<Rightarrow> payload)
      in case user_id of Some u \<Rightarrow> if u \<noteq> [] then dset ''user_id'' (PStr u) payload else payload
         | None \<Rightarrow> payload)"

section \<open>Histories\<close>

text \<open>
  What the operations promise together, over every history of them: the cookie of a thread is the one set
  last for it, until it expires.
\<close>

datatype cookie_op = SetCookie string string string | GetCookie string "string list"

fun cookie_step :: "cookie_op \<times> rat \<Rightarrow> credential_manager \<Rightarrow> credential_manager" where
  "cookie_step (SetCookie t u c, now) m = set_cookie now t u c m"
| "cookie_step (GetCookie t req, now) m = snd (get_cookie now t req m)"

definition cookie_run :: "(cookie_op \<times> rat) list \<Rightarrow> credential_manager \<Rightarrow> credential_manager" where
  "cookie_run ops m = fold cookie_step ops m"

fun sets_for :: "string \<Rightarrow> cookie_op \<times> rat \<Rightarrow> (string \<times> rat) list" where
  "sets_for thread_id (SetCookie t u c, now) = (if t = thread_id then [(c, now)] else [])"
| "sets_for thread_id (GetCookie t req, now) = []"

definition last_set :: "string \<Rightarrow> (cookie_op \<times> rat) list \<Rightarrow> (string \<times> rat) option" where
  "last_set thread_id ops = (case rev (concat (map (sets_for thread_id) ops)) of [] \<Rightarrow> None | x # _ \<Rightarrow> Some x)"

lemma last_set_snoc:
  "last_set thread_id (ops @ [x]) =
     (case sets_for thread_id x of [] \<Rightarrow> last_set thread_id ops | y # _ \<Rightarrow> Some y)"
  by (cases "(thread_id, x)" rule: sets_for.cases) (auto simp: last_set_def)

text \<open>The invariant: the entry of a thread is the last cookie set, and is there while it has not expired.\<close>

definition entry_ok :: "int \<Rightarrow> rat \<Rightarrow> (string \<times> rat) option \<Rightarrow> secret_entry option \<Rightarrow> bool" where
  "entry_ok ttl now l e \<longleftrightarrow>
     (case e of
        None \<Rightarrow> (case l of None \<Rightarrow> True | Some (c, t) \<Rightarrow> t + of_int ttl < now)
      | Some x \<Rightarrow> l = Some (se_value x, se_expires_at x - of_int ttl))"

definition cookies_ok :: "(cookie_op \<times> rat) list \<Rightarrow> rat \<Rightarrow> credential_manager \<Rightarrow> bool" where
  "cookies_ok ops now m \<longleftrightarrow> distinct (map fst (ss_data (cm_store m))) \<and>
     (\<forall>thread_id. entry_ok (ss_ttl (cm_store m)) now (last_set thread_id ops)
        (map_of (ss_data (cm_store m)) thread_id))"

lemma map_of_filter_distinct:
  "distinct (map fst xs) \<Longrightarrow>
   map_of (filter (\<lambda>(k, e). p e) xs) k = (case map_of xs k of None \<Rightarrow> None | Some e \<Rightarrow> if p e then Some e else None)"
  by (induction xs) (auto split: option.splits simp: map_of_eq_None_iff)

lemma entry_ok_later: "entry_ok ttl now l e \<Longrightarrow> now \<le> now' \<Longrightarrow> entry_ok ttl now' l e"
  by (auto simp: entry_ok_def split: option.splits)

lemma cookies_ok_later: "cookies_ok ops now m \<Longrightarrow> now \<le> now' \<Longrightarrow> cookies_ok ops now' m"
  by (auto simp: cookies_ok_def intro: entry_ok_later)

lemma secret_get_live:
  "distinct (map fst (ss_data s)) \<Longrightarrow>
   secret_get now thread_id s =
     (case map_of (ss_data s) thread_id of
        None \<Rightarrow> None | Some e \<Rightarrow> if se_expires_at e < now then None else Some (se_value e), secret_purge now s)"
  by (auto simp: secret_get_def secret_purge_def map_of_filter_distinct Let_def split: option.split)

lemma entry_ok_purge:
  "entry_ok ttl now l e \<Longrightarrow> entry_ok ttl now l (case e of None \<Rightarrow> None | Some x \<Rightarrow> if \<not> se_expires_at x < now then Some x else None)"
  by (auto simp: entry_ok_def split: option.splits)

lemma cookies_ok_get:
  assumes "cookies_ok ops now m" shows "cookies_ok (ops @ [(GetCookie t req, now)]) now (snd (get_cookie now t req m))"
proof -
  have d: "distinct (map fst (ss_data (cm_store m)))" using assms by (simp add: cookies_ok_def)
  have "distinct (map fst (ss_data (secret_purge now (cm_store m))))"
    using d by (simp add: secret_purge_def distinct_map_filter)
  then show ?thesis
    using assms entry_ok_purge
    by (auto simp: cookies_ok_def get_cookie_def secret_get_live d last_set_snoc secret_purge_def map_of_filter_distinct)
qed

lemma cookies_ok_set:
  assumes "cookies_ok ops now m"
  shows "cookies_ok (ops @ [(SetCookie t u c, now)]) now (set_cookie now t u c m)"
proof -
  have e: "entry_ok (ss_ttl (cm_store m)) now (last_set k (ops @ [(SetCookie t u c, now)]))
      (map_of (ss_data (cm_store (set_cookie now t u c m))) k)" for k
  proof (cases "k = t")
    case True
    then show ?thesis by (simp add: last_set_snoc set_cookie_def secret_set_def update_conv entry_ok_def)
  next
    case False
    then show ?thesis
      using assms by (simp add: last_set_snoc set_cookie_def secret_set_def update_conv cookies_ok_def)
  qed
  show ?thesis
    using assms e by (auto simp: cookies_ok_def set_cookie_def secret_set_def distinct_update)
qed

lemma cookies_ok_step: "cookies_ok ops (snd x) m \<Longrightarrow> cookies_ok (ops @ [x]) (snd x) (cookie_step x m)"
  by (cases x; cases "fst x") (simp_all add: cookies_ok_get cookies_ok_set)

lemma cookies_ok_run:
  assumes "sorted (map snd ops)" "\<forall>x \<in> set ops. snd x \<le> now"
    and "m = \<lparr>cm_binding = b, cm_store = new_secret_store ttl, cm_cookie_header_name = n\<rparr>"
  shows "cookies_ok ops now (cookie_run ops m)"
  using assms(1,2)
proof (induction ops arbitrary: now rule: rev_induct)
  case Nil
  show ?case by (simp add: assms(3) cookie_run_def cookies_ok_def new_secret_store_def last_set_def entry_ok_def)
next
  case (snoc x ops)
  have "cookies_ok ops (snd x) (cookie_run ops m)"
    using snoc.prems by (intro snoc.IH) (auto simp: sorted_append)
  then have "cookies_ok (ops @ [x]) (snd x) (cookie_run (ops @ [x]) m)"
    by (simp add: cookie_run_def cookies_ok_step)
  then show ?case using snoc.prems by (auto intro: cookies_ok_later [where now = "snd x"])
qed

lemma cookie_step_scopes: "cb_scopes (cm_binding (cookie_step x m)) = cb_scopes (cm_binding m)"
  by (cases "(x, m)" rule: cookie_step.cases) (simp_all add: set_cookie_def get_cookie_def split: prod.split)

lemma cookie_run_scopes: "cb_scopes (cm_binding (cookie_run ops m)) = cb_scopes (cm_binding m)"
  by (induction ops rule: rev_induct) (simp_all add: cookie_run_def cookie_step_scopes)

lemma cookie_run_ttl: "ss_ttl (cm_store (cookie_run ops m)) = ss_ttl (cm_store m)"
proof (induction ops rule: rev_induct)
  case (snoc x ops)
  then show ?case
    by (cases "(x, m)" rule: cookie_step.cases)
      (auto simp: cookie_run_def set_cookie_def secret_set_def get_cookie_def secret_get_def secret_purge_def Let_def
            split: option.splits)
qed (simp add: cookie_run_def)

text \<open>
  A cookie is only handed out to a caller whose required scopes the binding grants, it is the one set
  last for that very thread, and not once the time to live (at least a second) has passed; otherwise there
  is none. This holds after every sequence of reads and writes of any threads, in the order of the clock.
\<close>

theorem cookie_is_last_set:
  assumes "sorted (map snd ops)" "\<forall>x \<in> set ops. snd x \<le> now" "m = cookie_run ops (manager_of_resources res ttl)"
  shows "fst (get_cookie now thread_id required m) =
    (if authorize_scopes required (manager_of_resources res ttl) then
       (case last_set thread_id ops of
          None \<Rightarrow> None
        | Some (c, t) \<Rightarrow> if t + of_int (max 1 ttl) < now then None else Some c)
     else None)"
proof -
  let ?m = "manager_of_resources res ttl"
  have ok: "cookies_ok ops now m"
    unfolding assms(3) by (rule cookies_ok_run [OF assms(1,2)]) (simp add: manager_of_resources_def Let_def)
  have ttl: "ss_ttl (cm_store m) = max 1 ttl"
    by (simp add: assms(3) cookie_run_ttl) (simp add: manager_of_resources_def new_secret_store_def Let_def)
  have auth: "authorize_scopes required m = authorize_scopes required ?m"
    by (simp add: assms(3) authorize_scopes_def cookie_run_scopes)
  have "distinct (map fst (ss_data (cm_store m)))" using ok by (simp add: cookies_ok_def)
  moreover have "entry_ok (max 1 ttl) now (last_set thread_id ops) (map_of (ss_data (cm_store m)) thread_id)"
    using ok by (simp add: cookies_ok_def ttl)
  ultimately show ?thesis
    by (cases "map_of (ss_data (cm_store m)) thread_id")
      (auto simp: get_cookie_def auth secret_get_live entry_ok_def split: option.split)
qed

lemma cookie_is_last_set_witness:
  "\<exists>res. fst (get_cookie 12 ''t1'' [''http:read'']
      (cookie_run [(SetCookie ''t1'' ''u'' ''a=1'', 1), (SetCookie ''t2'' ''u'' ''a=2'', 2),
                   (GetCookie ''t2'' [''http:write''], 5), (SetCookie ''t1'' ''u'' ''a=3'', 7)]
         (manager_of_resources res 10))) = Some ''a=3''"
proof -
  define res where "res = \<lparr>sr_credential_binding = [], sr_credential_cookie_name = [], sr_credential_provider = [],
    sr_credential_scopes = [], sr_http_get_actuator_paths = [], sr_http_get_patterns = [], sr_http_post_paths = []\<rparr>"
  have "authorize_scopes [''http:read''] (manager_of_resources res 10)"
    by (simp add: authorize_scopes_def manager_of_resources_def new_binding_def res_def Let_def)
  then show ?thesis
    by (intro exI [of _ res]) (subst cookie_is_last_set, auto simp: last_set_def)
qed

end
