(* ===== verification/ToolSpecs.thy ===== *)
theory ToolSpecs
  imports Sanitize Complex_Main
begin

text \<open>
  The tool registry (\<^verbatim>\<open>copilot_agent/tools/registry.py\<close>), the registration of the HTTP and document
  tools (\<^verbatim>\<open>tools/capability/\<close>) and what the model of the language sees of a result
  (\<^verbatim>\<open>agent/tool_message_policy.py\<close>).

  A tool coroutine is outside: the n-th call of it in one tool call has an outcome, it returns a value,
  exceeds the time limit or raises an exception with a text. A float (a time limit) is kept as its \<open>repr\<close>,
  as everywhere; the pauses between attempts are exact rationals. \<^verbatim>\<open>json.loads\<close> is the parameter
  \<open>loads\<close>, \<open>None\<close> for text that is not JSON.
\<close>

section \<open>Specifications\<close>

datatype approval_rule = Always bool | Rule "dict \<Rightarrow> bool"

record tool_spec =
  ts_name :: string
  ts_description :: string
  ts_category :: string
  ts_risk_level :: string
  ts_requires_approval :: approval_rule
  ts_required_scopes :: "string list"
  ts_timeout_seconds :: string
  ts_max_retries :: int
  ts_idempotency_key_field :: "string option"
  ts_audit_enabled :: bool
  ts_mcp_server :: "string option"
  ts_mcp_tool :: "string option"

fun requires_approval_for :: "tool_spec \<Rightarrow> dict \<Rightarrow> bool" where
  "requires_approval_for spec args = (case ts_requires_approval spec of Always b \<Rightarrow> b | Rule f \<Rightarrow> f args)"

definition text_entry :: "string \<Rightarrow> string option \<Rightarrow> dict" where
  "text_entry key v = (case v of Some s \<Rightarrow> if s \<noteq> [] then [(key, PStr s)] else [] | None \<Rightarrow> [])"

definition public_dict :: "tool_spec \<Rightarrow> dict \<Rightarrow> dict" where
  "public_dict spec args =
     [(''name'', PStr (ts_name spec)), (''description'', PStr (ts_description spec)),
      (''category'', PStr (ts_category spec)), (''risk_level'', PStr (ts_risk_level spec)),
      (''requires_approval'', PBool (requires_approval_for spec args)),
      (''timeout_seconds'', PFloat (ts_timeout_seconds spec)), (''max_retries'', PInt (ts_max_retries spec)),
      (''idempotency_key_field'', opt_str (ts_idempotency_key_field spec)),
      (''audit_enabled'', PBool (ts_audit_enabled spec))]
     @ text_entry ''mcp_server'' (ts_mcp_server spec) @ text_entry ''mcp_tool'' (ts_mcp_tool spec)
     @ (if ts_required_scopes spec \<noteq> [] then [(''required_scopes'', PList (map PStr (ts_required_scopes spec)))]
        else [])"

section \<open>The registry\<close>

text \<open>A \<^verbatim>\<open>StructuredTool\<close> wraps the coroutine under the specification it was registered with.\<close>

record tool_registry =
  tr_tools :: "tool_spec list"
  tr_specs :: "(string \<times> tool_spec) list"

definition empty_registry :: tool_registry where
  "empty_registry = \<lparr>tr_tools = [], tr_specs = []\<rparr>"

definition register_async :: "tool_spec \<Rightarrow> tool_registry \<Rightarrow> tool_registry" where
  "register_async spec r =
     (let spec = spec\<lparr>ts_max_retries := max 0 (ts_max_retries spec)\<rparr>
      in r\<lparr>tr_specs := AList.update (ts_name spec) spec (tr_specs r), tr_tools := tr_tools r @ [spec]\<rparr>)"

definition get_spec :: "tool_registry \<Rightarrow> string \<Rightarrow> tool_spec option" where
  "get_spec r name = map_of (tr_specs r) name"

definition tool_names :: "tool_registry \<Rightarrow> string list" where
  "tool_names r = map ts_name (tr_tools r)"

text \<open>\<open>[self._specs[name] for name in self.names()]\<close>; \<open>None\<close> for the \<^verbatim>\<open>KeyError\<close>.\<close>

definition registry_specs :: "tool_registry \<Rightarrow> tool_spec option list" where
  "registry_specs r = map (get_spec r) (tool_names r)"

text \<open>The defaults of \<^verbatim>\<open>register_async\<close>.\<close>

definition plain_spec :: "string \<Rightarrow> string \<Rightarrow> string \<Rightarrow> string \<Rightarrow> tool_spec" where
  "plain_spec name description category risk_level =
     \<lparr>ts_name = name, ts_description = description, ts_category = category, ts_risk_level = risk_level,
      ts_requires_approval = Always False, ts_required_scopes = [], ts_timeout_seconds = ''60.0'',
      ts_max_retries = 0, ts_idempotency_key_field = None, ts_audit_enabled = True, ts_mcp_server = None,
      ts_mcp_tool = None\<rparr>"

definition SEARCH_DOCS_DESCRIPTION :: string where
  "SEARCH_DOCS_DESCRIPTION =
     ''Keyword search over platform docs (API, deploy, runbook, security, requirements, algorithms).''"

definition HTTP_GET_DESCRIPTION :: string where
  "HTTP_GET_DESCRIPTION = ''GET from the scenario-configured HTTP API (path allowlist). '' @
     ''Optional cookie_header overrides the server-stored session.''"

definition HTTP_POST_DESCRIPTION :: string where
  "HTTP_POST_DESCRIPTION = ''POST to scenario-configured HTTP paths (allowlist). '' @
     ''Dangerous paths require deployment flag and approval.''"

definition from_agent_tools :: "approval_rule \<Rightarrow> tool_registry" where
  "from_agent_tools dangerous_post_requires_approval =
     register_async ((plain_spec ''http_post'' HTTP_POST_DESCRIPTION ''http'' ''high'')
         \<lparr>ts_requires_approval := dangerous_post_requires_approval, ts_required_scopes := [''http:write''],
          ts_timeout_seconds := ''120.0'', ts_idempotency_key_field := Some ''idempotency_key''\<rparr>)
      (register_async ((plain_spec ''http_get'' HTTP_GET_DESCRIPTION ''http'' ''medium'')
         \<lparr>ts_required_scopes := [''http:read''], ts_max_retries := 1\<rparr>)
       (register_async ((plain_spec ''search_docs'' SEARCH_DOCS_DESCRIPTION ''memory'' ''low'')
         \<lparr>ts_timeout_seconds := ''30.0'', ts_max_retries := 1\<rparr>) empty_registry))"

section \<open>The capability packs\<close>

text \<open>\<open>path.split("?", 1)[0]\<close>\<close>

definition base_path :: "string \<Rightarrow> string" where
  "base_path path = takeWhile (\<lambda>c. c \<noteq> CHR ''?'') path"

text \<open>\<open>str(args.get("path", ""))\<close>\<close>

definition path_arg :: "dict \<Rightarrow> string" where
  "path_arg args = py_str (dget_or args ''path'' (PStr []))"

definition dangerous_post_approval_rule :: "string list \<Rightarrow> approval_rule" where
  "dangerous_post_approval_rule scenario_dangerous_paths =
     (let dangerous_paths = filter (\<lambda>p. strip p \<noteq> []) scenario_dangerous_paths
      in Rule (\<lambda>args. if dangerous_paths = [] then False else base_path (path_arg args) \<in> set dangerous_paths))"

definition register_http :: "string list \<Rightarrow> tool_registry \<Rightarrow> tool_registry" where
  "register_http scenario_dangerous_paths r =
     register_async ((plain_spec ''http_post'' HTTP_POST_DESCRIPTION ''http'' ''high'')
         \<lparr>ts_requires_approval := dangerous_post_approval_rule scenario_dangerous_paths,
          ts_required_scopes := [''http:write''], ts_timeout_seconds := ''120.0''\<rparr>)
      (register_async ((plain_spec ''http_get'' HTTP_GET_DESCRIPTION ''http'' ''medium'')
         \<lparr>ts_required_scopes := [''http:read'']\<rparr>) r)"

definition register_rag :: "tool_registry \<Rightarrow> tool_registry" where
  "register_rag r = register_async ((plain_spec ''search_docs'' SEARCH_DOCS_DESCRIPTION ''memory'' ''low'')
     \<lparr>ts_timeout_seconds := ''30.0''\<rparr>) r"

section \<open>The result the language model sees\<close>

definition shorten :: "string \<Rightarrow> nat \<Rightarrow> string" where
  "shorten text max_chars =
     (if length text \<le> max_chars then text else rstrip (take (max_chars - 3) text) @ ''...'')"

definition loaded_dict :: "(string \<Rightarrow> pyval option) \<Rightarrow> pyval \<Rightarrow> dict" where
  "loaded_dict loads v =
     (case v of
        PDict d \<Rightarrow> d
      | PStr s \<Rightarrow> (case loads s of
            None \<Rightarrow> [(''value'', PStr s)]
          | Some (PDict d) \<Rightarrow> d
          | Some parsed \<Rightarrow> [(''value'', parsed)])
      | _ \<Rightarrow> [(''value'', v)])"

fun type_name :: "pyval \<Rightarrow> string" where
  "type_name PNone = ''NoneType''"
| "type_name (PBool b) = ''bool''"
| "type_name (PInt i) = ''int''"
| "type_name (PFloat t) = ''float''"
| "type_name (PStr s) = ''str''"
| "type_name (PList xs) = ''list''"
| "type_name (PDict d) = ''dict''"

text \<open>
  \<open>v or data.get("metadata", {}).get(key)\<close>: an \<^verbatim>\<open>AttributeError\<close>, given by its text, when the metadata is
  consulted and is not a dictionary.
\<close>

definition or_metadata :: "pyval \<Rightarrow> dict \<Rightarrow> string \<Rightarrow> string + pyval" where
  "or_metadata v data key =
     (if truthy v then Inr v
      else case dget_or data ''metadata'' (PDict []) of
             PDict m \<Rightarrow> Inr (dget m key)
           | w \<Rightarrow> Inl ([CHR 0x27] @ type_name w @ [CHR 0x27] @ '' object has no attribute '' @
                       [CHR 0x27] @ ''get'' @ [CHR 0x27]))"

definition error_entry :: "dict \<Rightarrow> dict" where
  "error_entry data = (if truthy (dget data ''error'') then [(''error'', dget data ''error'')] else [])"

definition summarize_search :: "dict \<Rightarrow> nat \<Rightarrow> string + pyval" where
  "summarize_search data max_chars =
     (let inner = (if is_dict (dget data ''data'') then as_dict (dget data ''data'') else data);
          excerpt = str_or (dget inner ''excerpts_markdown'')
      in case or_metadata (dget inner ''citations'') data ''citations'' of
           Inl e \<Rightarrow> Inl e
         | Inr citations \<Rightarrow> Inr (PDict
             ([(''success'', dget_or data ''success'' (PBool True)),
               (''data'', PDict
                 [(''excerpts_markdown'', PStr (shorten excerpt max_chars)),
                  (''sources'', py_or (dget inner ''sources'') (PList [])),
                  (''citations'', py_or citations (PList [])),
                  (''suggested_api_paths'', py_or (dget inner ''suggested_api_paths'') (PList []))]),
               (''metadata'', PDict
                 [(''summary_mode'', PBool True), (''excerpt_chars'', PInt (int (length excerpt))),
                  (''excerpt_truncated'', PBool (max_chars < length excerpt))])]
              @ error_entry data)))"

definition summarize_http :: "dict \<Rightarrow> nat \<Rightarrow> string + pyval" where
  "summarize_http data max_chars =
     (let inner = (if is_dict (dget data ''data'') then as_dict (dget data ''data'') else data);
          body = dget inner ''body'';
          body_text = (if body \<noteq> PNone then json_dumps body else [])
      in case or_metadata (dget inner ''status_code'') data ''status_code'' of
           Inl e \<Rightarrow> Inl e
         | Inr status_code \<Rightarrow> Inr (PDict
             ([(''success'', dget_or data ''success'' (PBool True)),
               (''data'', PDict
                 [(''path'', dget inner ''path''), (''status_code'', status_code),
                  (''body_preview'', PStr (shorten body_text (min max_chars 1200)))]),
               (''metadata'', PDict
                 [(''summary_mode'', PBool True),
                  (''body_truncated'', PBool (min max_chars 1200 < length body_text))])]
              @ error_entry data)))"

definition summarize_tool_llm_payload ::
    "(string \<Rightarrow> pyval option) \<Rightarrow> string \<Rightarrow> int \<Rightarrow> string \<Rightarrow> pyval \<Rightarrow> string + pyval" where
  "summarize_tool_llm_payload loads message_mode message_max_chars tool_name payload =
     (if message_mode \<noteq> ''summary'' then Inr payload
      else
        (let data = loaded_dict loads payload; max_chars = nat (max 256 message_max_chars)
         in if tool_name = ''search_docs'' then summarize_search data max_chars
            else if tool_name \<in> {''http_get'', ''http_post''} then summarize_http data max_chars
            else
              (let serialized = json_dumps (PDict data)
               in if length serialized \<le> max_chars then Inr payload
                  else Inr (PDict
                    [(''success'', dget_or data ''success'' (PBool True)),
                     (''data'', PDict [(''preview'', PStr (shorten serialized max_chars))]),
                     (''metadata'', PDict [(''summary_mode'', PBool True)]), (''error'', dget data ''error'')]))))"

section \<open>Attempts\<close>

datatype attempt_outcome = Returned pyval | TimedOut | Raised string

datatype tool_error =
    ToolExecutionTimeout (te_tool: string) string (te_attempt: nat) (te_max: nat)
  | ToolExecutionError (te_tool: string) (te_attempt: nat) (te_max: nat) string
  | ToolNeverRan (te_tool: string)

fun tool_error_text :: "tool_error \<Rightarrow> string" where
  "tool_error_text (ToolExecutionTimeout name timeout a m) =
     ''tool '' @ name @ '' timed out after '' @ timeout @ ''s (attempt '' @ nat_str a @ ''/'' @ nat_str m @ '')''"
| "tool_error_text (ToolExecutionError name a m cause) =
     ''tool '' @ name @ '' failed on attempt '' @ nat_str a @ ''/'' @ nat_str m @ '': '' @ cause"
| "tool_error_text (ToolNeverRan name) = ''tool execution failed without error: '' @ name"

definition stamp_metadata :: "nat \<Rightarrow> nat \<Rightarrow> pyval \<Rightarrow> pyval" where
  "stamp_metadata attempt attempts payload =
     (case payload of
        PDict d \<Rightarrow>
          PDict (dset ''metadata''
            (PDict (dsetdefault ''retry_count'' (PInt (int attempt - 1))
              (dsetdefault ''max_attempts'' (PInt (int attempts))
                (dsetdefault ''attempt'' (PInt (int attempt)) (as_dict (dget d ''metadata'')))))) d)
      | _ \<Rightarrow> payload)"

text \<open>One pass of the loop: the value to return, or the error to keep.\<close>

definition attempt_once ::
    "(pyval \<Rightarrow> string + pyval) \<Rightarrow> tool_spec \<Rightarrow> nat \<Rightarrow> nat \<Rightarrow> attempt_outcome \<Rightarrow> tool_error + pyval" where
  "attempt_once summarize spec attempts attempt out =
     (case out of
        Returned v \<Rightarrow>
          (case summarize v of
             Inl text \<Rightarrow> Inl (ToolExecutionError (ts_name spec) attempt attempts text)
           | Inr payload \<Rightarrow> Inr (stamp_metadata attempt attempts payload))
      | TimedOut \<Rightarrow> Inl (ToolExecutionTimeout (ts_name spec) (ts_timeout_seconds spec) attempt attempts)
      | Raised text \<Rightarrow> Inl (ToolExecutionError (ts_name spec) attempt attempts text))"

text \<open>The loop: its result, the number of calls of the coroutine and the pauses between them.\<close>

fun attempt_loop ::
    "(pyval \<Rightarrow> string + pyval) \<Rightarrow> tool_spec \<Rightarrow> nat \<Rightarrow> (nat \<Rightarrow> attempt_outcome) \<Rightarrow> nat list \<Rightarrow> tool_error option \<Rightarrow>
     (tool_error + pyval) \<times> nat \<times> rat list" where
  "attempt_loop summarize spec attempts run [] last_error =
     (Inl (case last_error of Some e \<Rightarrow> e | None \<Rightarrow> ToolNeverRan (ts_name spec)), 0, [])"
| "attempt_loop summarize spec attempts run (attempt # rest) last_error =
     (case attempt_once summarize spec attempts attempt (run attempt) of
        Inr v \<Rightarrow> (Inr v, 1, [])
      | Inl e \<Rightarrow>
          (if attempts \<le> attempt then (Inl e, 1, [])
           else (case attempt_loop summarize spec attempts run rest (Some e) of
                   (r, calls, pauses) \<Rightarrow> (r, Suc calls, min (of_nat attempt / 10) (1 / 2) # pauses))))"

definition max_attempts_of :: "tool_spec \<Rightarrow> nat" where
  "max_attempts_of spec = nat (max 1 (ts_max_retries spec + 1))"

definition run_tool ::
    "(pyval \<Rightarrow> string + pyval) \<Rightarrow> tool_spec \<Rightarrow> (nat \<Rightarrow> attempt_outcome) \<Rightarrow> (tool_error + pyval) \<times> nat \<times> rat list" where
  "run_tool summarize spec run =
     (let attempts = max_attempts_of spec
      in attempt_loop summarize spec attempts run [1..<Suc attempts] None)"

section \<open>Properties\<close>

definition attempt_succeeds :: "(pyval \<Rightarrow> string + pyval) \<Rightarrow> (nat \<Rightarrow> attempt_outcome) \<Rightarrow> nat \<Rightarrow> bool" where
  "attempt_succeeds summarize run k = (case run k of Returned v \<Rightarrow> \<not> isl (summarize v) | _ \<Rightarrow> False)"

lemma attempt_succeeds_iff:
  "attempt_succeeds summarize run k \<longleftrightarrow> (\<exists>v. attempt_once summarize spec attempts k (run k) = Inr v)"
  by (auto simp: attempt_succeeds_def attempt_once_def isl_def split: attempt_outcome.splits sum.splits)

lemma attempt_loop_cases:
  assumes "a \<le> n"
  shows "attempt_loop summarize spec n run [a..<Suc n] last_error =
    (case find (attempt_succeeds summarize run) [a..<Suc n] of
       Some k \<Rightarrow> (attempt_once summarize spec n k (run k), Suc (k - a),
                  map (\<lambda>i. min (of_nat i / 10) (1 / 2)) [a..<k])
     | None \<Rightarrow> (attempt_once summarize spec n n (run n), Suc (n - a),
                map (\<lambda>i. min (of_nat i / 10) (1 / 2)) [a..<n]))"
  using assms
proof (induction "n - a" arbitrary: a last_error)
  case 0
  then have "a = n" by simp
  then show ?case
    by (auto simp: attempt_succeeds_iff [where spec = spec and attempts = n] split: sum.split)
next
  case (Suc d)
  then have a: "a < n" and IH: "\<And>e. attempt_loop summarize spec n run [Suc a..<Suc n] e =
     (case find (attempt_succeeds summarize run) [Suc a..<Suc n] of
       Some k \<Rightarrow> (attempt_once summarize spec n k (run k), Suc (k - Suc a),
                  map (\<lambda>i. min (of_nat i / 10) (1 / 2)) [Suc a..<k])
     | None \<Rightarrow> (attempt_once summarize spec n n (run n), Suc (n - Suc a),
                map (\<lambda>i. min (of_nat i / 10) (1 / 2)) [Suc a..<n]))"
    by simp_all
  have l: "[a..<Suc n] = a # [Suc a..<Suc n]" using a by (simp add: upt_conv_Cons)
  show ?case
  proof (cases "attempt_once summarize spec n a (run a)")
    case (Inr v)
    then have "attempt_succeeds summarize run a" by (simp add: attempt_succeeds_iff [where spec = spec and attempts = n])
    then show ?thesis by (simp add: l Inr del: upt_Suc)
  next
    case (Inl e)
    then have "\<not> attempt_succeeds summarize run a" by (simp add: attempt_succeeds_iff [where spec = spec and attempts = n])
    moreover have "Suc a \<le> k" if "find (attempt_succeeds summarize run) [Suc a..<Suc n] = Some k" for k
      using find_SomeD [OF that] by (simp del: upt_Suc)
    moreover have "[a..<k] = a # [Suc a..<k]" if "Suc a \<le> k" for k
      using that by (simp add: upt_conv_Cons)
    ultimately show ?thesis
      using a by (auto simp: l Inl IH Suc_diff_Suc simp del: upt_Suc attempt_loop.simps(2) split: option.split)
        (auto simp: Inl IH Suc_diff_Suc simp del: upt_Suc)
  qed
qed

lemma find_upt_Some:
  assumes "find p [a..<b] = Some k"
  shows "a \<le> k \<and> k < b \<and> p k \<and> (\<forall>j. a \<le> j \<and> j < k \<longrightarrow> \<not> p j)"
proof -
  obtain i where i: "i < b - a" "p (a + i)" "k = a + i" "\<forall>j < i. \<not> p (a + j)"
    using assms by (auto simp: find_Some_iff)
  have "\<not> p j" if "a \<le> j" "j < k" for j
    using i(3,4) that by (metis le_add_diff_inverse less_diff_conv2 add.commute nat_add_left_cancel_less)
  then show ?thesis using i by auto
qed

text \<open>
  A tool call is answered with the value of the first attempt that returns one, stamped with the number
  of that attempt, and with the error of the last attempt when none does. The coroutine is called at most
  one time more than the configured retries, exactly once for a tool without retries, and never again
  after it has answered.
\<close>

theorem tool_attempts:
  assumes "run_tool summarize spec run = (r, calls, pauses)"
  defines "n \<equiv> nat (max 0 (ts_max_retries spec)) + 1"
  shows "1 \<le> calls \<and> calls \<le> n \<and> length pauses = calls - 1 \<and> (\<forall>p \<in> set pauses. 0 < p \<and> p \<le> 1 / 2)
    \<and> (\<forall>k. 1 \<le> k \<and> k < calls \<longrightarrow> \<not> attempt_succeeds summarize run k)
    \<and> r = attempt_once summarize spec n calls (run calls)
    \<and> (isl r \<longrightarrow> calls = n \<and> \<not> attempt_succeeds summarize run n)"
proof -
  let ?f = "find (attempt_succeeds summarize run) [1..<Suc n]"
  have n: "max_attempts_of spec = n" "1 \<le> n" by (simp_all add: max_attempts_of_def n_def)
  have ok: "isl (attempt_once summarize spec n k (run k)) \<longleftrightarrow> \<not> attempt_succeeds summarize run k" for k
    by (auto simp: attempt_succeeds_iff [where spec = spec and attempts = n] isl_def) (metis sum.exhaust)
  have p: "0 < min (of_nat i / 10 :: rat) (1 / 2) \<and> min (of_nat i / 10 :: rat) (1 / 2) \<le> 1 / 2" if "1 \<le> i" for i
    using that by simp
  have loop: "(r, calls, pauses) = (case ?f of
       Some k \<Rightarrow> (attempt_once summarize spec n k (run k), Suc (k - 1), map (\<lambda>i. min (of_nat i / 10) (1 / 2)) [1..<k])
     | None \<Rightarrow> (attempt_once summarize spec n n (run n), Suc (n - 1), map (\<lambda>i. min (of_nat i / 10) (1 / 2)) [1..<n]))"
    using assms(1) attempt_loop_cases [OF n(2), of summarize spec run None] unfolding run_tool_def n(1) Let_def
    by (simp only:)
  show ?thesis
  proof (cases ?f)
    case None
    then have "\<forall>k \<in> {1..n}. \<not> attempt_succeeds summarize run k"
      by (auto simp: find_None_iff simp del: upt_Suc)
    moreover have "r = attempt_once summarize spec n n (run n)" "calls = n"
      "pauses = map (\<lambda>i. min (of_nat i / 10) (1 / 2)) [1..<n]"
      using loop None n(2) by (simp_all del: upt_Suc)
    ultimately show ?thesis using n(2) p ok by (auto simp del: upt_Suc)
  next
    case (Some k)
    then have k: "1 \<le> k" "k \<le> n" "attempt_succeeds summarize run k"
      "\<forall>j. 1 \<le> j \<and> j < k \<longrightarrow> \<not> attempt_succeeds summarize run j"
      using find_upt_Some [OF Some] by simp_all
    moreover have "r = attempt_once summarize spec n k (run k)" "calls = k"
      "pauses = map (\<lambda>i. min (of_nat i / 10) (1 / 2)) [1..<k]"
      using loop Some k(1) by (simp_all del: upt_Suc)
    ultimately show ?thesis using p ok [of k] by (auto simp del: upt_Suc)
  qed
qed

definition demo_attempts :: "nat \<Rightarrow> attempt_outcome" where
  "demo_attempts k = (if k = 1 then TimedOut else Returned (PDict [(''success'', PBool True)]))"

lemma tool_attempts_witness:
  "\<exists>pauses. run_tool Inr ((plain_spec ''http_get'' [] ''http'' ''medium'')\<lparr>ts_max_retries := 1\<rparr>) demo_attempts =
    (Inr (PDict [(''success'', PBool True), (''metadata'', PDict [(''attempt'', PInt 2), (''max_attempts'', PInt 2),
       (''retry_count'', PInt 1)])]), 2, pauses)"
proof -
  define s where "s = (plain_spec ''http_get'' [] ''http'' ''medium'')\<lparr>ts_max_retries := 1\<rparr>"
  obtain r calls pauses where run: "run_tool Inr s demo_attempts = (r, calls, pauses)" by (metis prod.exhaust)
  have n: "nat (max 0 (ts_max_retries s)) + 1 = 2" by (simp add: plain_spec_def s_def)
  note T = tool_attempts [OF run, unfolded n]
  have "1 \<le> calls" "calls \<le> 2" "r = attempt_once Inr s 2 calls (demo_attempts calls)"
    "isl r \<longrightarrow> calls = 2"
    using T by (blast, blast, blast, blast)
  moreover have "calls \<noteq> 1"
  proof
    assume "calls = 1"
    then have "isl r" using calculation(3) by (simp add: attempt_once_def demo_attempts_def)
    then show False using calculation(4) \<open>calls = 1\<close> by simp
  qed
  then have "calls = 2" using calculation(1,2) by simp
  then show ?thesis
    using run calculation(3) unfolding s_def by (simp add: attempt_once_def demo_attempts_def stamp_metadata_def dsetdefault_def dset_def)
qed

end
