(* ===== verification/PolicyGate.thy ===== *)
theory PolicyGate
  imports Credentials ToolSpecs
begin

text \<open>
  The policy gate of the kernel (\<^verbatim>\<open>copilot_agent/policy/registry.py\<close>, \<^verbatim>\<open>contracts/policy.py\<close>): the final
  allow, ask or deny for the tool calls of one message of the language model. The calls are examined in
  order and the first one that is denied or needs an approval decides; the credential audits gathered on
  the way are part of the decision.
\<close>

section \<open>Decisions\<close>

record policy_decision =
  pd_allowed :: bool
  pd_requires_approval :: bool
  pd_decision :: string
  pd_message :: string
  pd_reason :: string
  pd_tool_name :: string
  pd_call_id :: string
  pd_policy_source :: string
  pd_credential_audits :: "dict list"
  pd_metadata :: dict

definition plain_decision :: policy_decision where
  "plain_decision = \<lparr>pd_allowed = True, pd_requires_approval = False, pd_decision = ''allow'', pd_message = [],
     pd_reason = [], pd_tool_name = [], pd_call_id = [], pd_policy_source = ''kernel'', pd_credential_audits = [],
     pd_metadata = []\<rparr>"

record scenario_policy =
  sp_tool_allowlist :: "string list"
  sp_tool_denylist :: "string list"
  sp_dangerous_paths :: "string list"
  sp_require_approval_tools :: "string list"
  sp_mcp_server_allowlist :: "string list"
  sp_mcp_tool_allowlist :: "string list"

definition default_policy :: scenario_policy where
  "default_policy = \<lparr>sp_tool_allowlist = [''search_docs'', ''http_get'', ''http_post''], sp_tool_denylist = [],
     sp_dangerous_paths = [], sp_require_approval_tools = [], sp_mcp_server_allowlist = [],
     sp_mcp_tool_allowlist = []\<rparr>"

record policy_registry =
  pr_tools :: "tool_registry option"
  pr_scenario_policy :: scenario_policy
  pr_credentials :: "credential_manager option"

definition new_policy_registry ::
    "tool_registry option \<Rightarrow> scenario_policy option \<Rightarrow> credential_manager option \<Rightarrow> policy_registry" where
  "new_policy_registry tools policy credentials =
     \<lparr>pr_tools = tools, pr_scenario_policy = (case policy of Some p \<Rightarrow> p | None \<Rightarrow> default_policy),
      pr_credentials = credentials\<rparr>"

section \<open>Tool calls\<close>

definition call_name :: "dict \<Rightarrow> string" where
  "call_name call = py_str (dget_or call ''name'' (PStr []))"

definition pending_call_id :: "dict \<Rightarrow> string" where
  "pending_call_id call = str_or (py_or (dget call ''id'') (dget call ''call_id''))"

definition call_args :: "dict \<Rightarrow> dict" where
  "call_args call = as_dict (dget call ''args'')"

definition quoted :: "string \<Rightarrow> string" where
  "quoted s = [CHR 0x27] @ s @ [CHR 0x27]"

definition none_text :: "string option \<Rightarrow> string" where
  "none_text s = py_str (opt_str s)"

section \<open>Credential scopes\<close>

definition scope_decision ::
    "bool \<Rightarrow> string \<Rightarrow> string \<Rightarrow> string \<Rightarrow> dict \<Rightarrow> dict \<Rightarrow> policy_decision" where
  "scope_decision allowed message reason tool_name metadata audit =
     plain_decision\<lparr>pd_allowed := allowed, pd_decision := (if allowed then ''allow'' else ''deny''),
       pd_message := message, pd_reason := reason, pd_tool_name := tool_name,
       pd_policy_source := ''credential_scope'', pd_metadata := metadata, pd_credential_audits := [audit]\<rparr>"

definition evaluate_required_scopes :: "policy_registry \<Rightarrow> string \<Rightarrow> tool_spec option \<Rightarrow> policy_decision option" where
  "evaluate_required_scopes p tool_name spec =
     (case spec of None \<Rightarrow> None | Some spec \<Rightarrow>
        (let required = ts_required_scopes spec; listed = py_repr (str_list required);
             metadata = [(''required_scopes'', str_list required)]
         in if required = [] then None
            else case pr_credentials p of
              None \<Rightarrow> Some (scope_decision False
                (''Tool '' @ quoted tool_name @ '' requires credential scopes '' @ listed @
                 '' but no credential binding is configured.'')
                ''credential_binding_missing'' tool_name metadata
                (build_credential_audit_payload ''scope_denied'' (new_binding ''missing'' []) tool_name required
                  ''credential_binding_missing'' []))
            | Some m \<Rightarrow>
                (let b = cm_binding m;
                     metadata = metadata @ [(''binding_id'', PStr (cb_binding_id b))]
                 in if \<not> authorize_scopes required m
                    then Some (scope_decision False
                      (''Tool '' @ quoted tool_name @ '' requires scopes '' @ listed @
                       '' not granted by binding '' @ quoted (cb_binding_id b) @ ''.'')
                      ''credential_scope_denied'' tool_name metadata
                      (build_credential_audit_payload ''scope_denied'' b tool_name required
                        ''credential_scope_denied'' []))
                    else Some (scope_decision True [] ''credential_scope_allowed'' tool_name metadata
                      (build_credential_audit_payload ''scope_allowed'' b tool_name required
                        ''credential_scope_allowed'' [])))))"

section \<open>The guards, in order\<close>

definition deny :: "dict \<Rightarrow> string \<Rightarrow> string \<Rightarrow> string \<Rightarrow> dict \<Rightarrow> dict list \<Rightarrow> policy_decision" where
  "deny call message reason source metadata audits =
     plain_decision\<lparr>pd_allowed := False, pd_decision := ''deny'', pd_message := message, pd_reason := reason,
       pd_tool_name := call_name call, pd_call_id := pending_call_id call, pd_policy_source := source,
       pd_metadata := metadata, pd_credential_audits := audits\<rparr>"

definition ask :: "dict \<Rightarrow> bool \<Rightarrow> string \<Rightarrow> string \<Rightarrow> string \<Rightarrow> dict \<Rightarrow> dict list \<Rightarrow> policy_decision" where
  "ask call requires message reason source metadata audits =
     plain_decision\<lparr>pd_requires_approval := requires, pd_decision := ''ask'', pd_message := message,
       pd_reason := reason, pd_tool_name := call_name call, pd_call_id := pending_call_id call,
       pd_policy_source := source, pd_metadata := metadata, pd_credential_audits := audits\<rparr>"

definition spec_of :: "policy_registry \<Rightarrow> string \<Rightarrow> tool_spec option" where
  "spec_of p name = (case pr_tools p of None \<Rightarrow> None | Some r \<Rightarrow> get_spec r name)"

definition list_guard :: "policy_registry \<Rightarrow> dict \<Rightarrow> dict list \<Rightarrow> policy_decision option" where
  "list_guard p call audits =
     (let name = call_name call; pol = pr_scenario_policy p
      in if sp_tool_denylist pol \<noteq> [] \<and> name \<in> set (sp_tool_denylist pol)
         then Some (deny call (''Tool '' @ quoted name @ '' is denied by scenario policy.'')
           ''scenario_tool_denied'' ''scenario_tool_policy'' [] audits)
         else if sp_tool_allowlist pol \<noteq> [] \<and> name \<notin> set (sp_tool_allowlist pol)
         then Some (deny call (''Tool '' @ quoted name @ '' is not enabled for this scenario.'')
           ''scenario_tool_not_allowed'' ''scenario_tool_policy'' [] audits)
         else None)"

text \<open>The scope decision is made again under the call's own name and id.\<close>

definition scope_guard :: "policy_registry \<Rightarrow> dict \<Rightarrow> dict list \<Rightarrow> policy_decision option \<times> dict list" where
  "scope_guard p call audits =
     (case evaluate_required_scopes p (call_name call) (spec_of p (call_name call)) of
        None \<Rightarrow> (None, audits)
      | Some d \<Rightarrow>
          (let audits = audits @ pd_credential_audits d
           in (if pd_allowed d then None
               else Some (deny call (pd_message d) (pd_reason d) (pd_policy_source d) (pd_metadata d) audits), audits)))"

definition mcp_guard :: "policy_registry \<Rightarrow> dict \<Rightarrow> dict list \<Rightarrow> policy_decision option" where
  "mcp_guard p call audits =
     (case spec_of p (call_name call) of
        None \<Rightarrow> None
      | Some spec \<Rightarrow>
          (let name = call_name call; server_allow = sp_mcp_server_allowlist (pr_scenario_policy p);
               tool_allow = sp_mcp_tool_allowlist (pr_scenario_policy p)
           in if ts_category spec \<noteq> ''mcp'' then None
              else if server_allow \<noteq> [] \<and> str_or (opt_str (ts_mcp_server spec)) \<notin> set server_allow
              then Some (deny call
                (''MCP server '' @ quoted (none_text (ts_mcp_server spec)) @ '' is not enabled for this scenario.'')
                ''scenario_mcp_server_denied'' ''scenario_mcp_policy'' [(''mcp_server'', opt_str (ts_mcp_server spec))]
                audits)
              else if tool_allow \<noteq> [] \<and> name \<notin> set tool_allow \<and> str_or (opt_str (ts_mcp_tool spec)) \<notin> set tool_allow
              then Some (deny call (''MCP tool '' @ quoted name @ '' is not enabled for this scenario.'')
                ''scenario_mcp_tool_denied'' ''scenario_mcp_policy'' [(''mcp_tool'', opt_str (ts_mcp_tool spec))] audits)
              else None))"

definition dangerous_paths :: "policy_registry \<Rightarrow> string list" where
  "dangerous_paths p = map base_path (filter (\<lambda>x. strip x \<noteq> []) (sp_dangerous_paths (pr_scenario_policy p)))"

definition dangerous_guard :: "policy_registry \<Rightarrow> bool \<Rightarrow> bool \<Rightarrow> dict \<Rightarrow> dict list \<Rightarrow> policy_decision option" where
  "dangerous_guard p allow_job_post confirm_dangerous call audits =
     (let normalized_path = base_path (path_arg (call_args call)); metadata = [(''path'', PStr normalized_path)]
      in if call_name call = ''http_post'' \<and> normalized_path \<in> set (dangerous_paths p) then
           (if \<not> allow_job_post
            then Some (deny call (''POST '' @ normalized_path @ '' is disabled by deployment. '' @
                ''Enable COPILOT_ALLOW_JOB_POST=true, then retry with explicit confirmation.'')
              ''job_post_disabled'' ''deployment_policy'' metadata audits)
            else if \<not> confirm_dangerous
            then Some (ask call
              (case spec_of p (call_name call) of Some spec \<Rightarrow> requires_approval_for spec (call_args call) | None \<Rightarrow> True)
              (''POST '' @ normalized_path @ '' is gated by scenario policy. '' @ ''Approve this run to continue.'')
              ''dangerous_tool_requires_approval'' ''scenario_approval_policy'' metadata audits)
            else None)
         else None)"

definition approval_guard :: "policy_registry \<Rightarrow> bool \<Rightarrow> dict \<Rightarrow> dict list \<Rightarrow> policy_decision option" where
  "approval_guard p confirm_dangerous call audits =
     (case spec_of p (call_name call) of
        None \<Rightarrow> None
      | Some spec \<Rightarrow>
          (if requires_approval_for spec (call_args call) \<and> \<not> confirm_dangerous
           then Some (ask call True (''Tool '' @ quoted (call_name call) @ '' requires approval before execution.'')
             ''tool_requires_approval'' ''tool_approval_policy''
             [(''tool_name'', PStr (call_name call)), (''category'', PStr (ts_category spec))] audits)
           else None))"

definition or_else :: "'a option \<Rightarrow> 'a option \<Rightarrow> 'a option" where
  "or_else a b = (case a of Some x \<Rightarrow> Some x | None \<Rightarrow> b)"

text \<open>One pass of the loop over the calls: the decision to return, if any, and the audits so far.\<close>

definition examine_call ::
    "policy_registry \<Rightarrow> bool \<Rightarrow> bool \<Rightarrow> dict \<Rightarrow> dict list \<Rightarrow> policy_decision option \<times> dict list" where
  "examine_call p allow_job_post confirm_dangerous call audits =
     (case list_guard p call audits of
        Some d \<Rightarrow> (Some d, audits)
      | None \<Rightarrow>
          (case scope_guard p call audits of
             (Some d, audits) \<Rightarrow> (Some d, audits)
           | (None, audits) \<Rightarrow>
               (or_else (mcp_guard p call audits)
                 (or_else (dangerous_guard p allow_job_post confirm_dangerous call audits)
                   (approval_guard p confirm_dangerous call audits)), audits)))"

fun examine_calls :: "policy_registry \<Rightarrow> bool \<Rightarrow> bool \<Rightarrow> dict list \<Rightarrow> dict list \<Rightarrow> policy_decision" where
  "examine_calls p allow_job_post confirm_dangerous [] audits =
     plain_decision\<lparr>pd_reason := ''tool_calls_allowed'', pd_credential_audits := audits\<rparr>"
| "examine_calls p allow_job_post confirm_dangerous (call # calls) audits =
     (case examine_call p allow_job_post confirm_dangerous call audits of
        (Some d, audits) \<Rightarrow> d
      | (None, audits) \<Rightarrow> examine_calls p allow_job_post confirm_dangerous calls audits)"

definition evaluate_tool_calls :: "policy_registry \<Rightarrow> dict list \<Rightarrow> bool \<Rightarrow> bool \<Rightarrow> policy_decision" where
  "evaluate_tool_calls p tool_calls allow_job_post confirm_dangerous =
     examine_calls p allow_job_post confirm_dangerous tool_calls []"

section \<open>What a call needs\<close>

text \<open>The reference: a call is permitted when none of the conditions of the policy stands against it.\<close>

definition scopes_granted :: "policy_registry \<Rightarrow> tool_spec \<Rightarrow> bool" where
  "scopes_granted p spec \<longleftrightarrow> ts_required_scopes spec = [] \<or>
     (\<exists>m. pr_credentials p = Some m \<and> set (ts_required_scopes spec) \<subseteq> set (cb_scopes (cm_binding m)))"

definition mcp_enabled :: "policy_registry \<Rightarrow> string \<Rightarrow> tool_spec \<Rightarrow> bool" where
  "mcp_enabled p name spec \<longleftrightarrow> ts_category spec \<noteq> ''mcp'' \<or>
     (let pol = pr_scenario_policy p in
       (sp_mcp_server_allowlist pol = [] \<or> str_or (opt_str (ts_mcp_server spec)) \<in> set (sp_mcp_server_allowlist pol)) \<and>
       (sp_mcp_tool_allowlist pol = [] \<or> name \<in> set (sp_mcp_tool_allowlist pol)
         \<or> str_or (opt_str (ts_mcp_tool spec)) \<in> set (sp_mcp_tool_allowlist pol)))"

definition dangerous_call :: "policy_registry \<Rightarrow> dict \<Rightarrow> bool" where
  "dangerous_call p call \<longleftrightarrow>
     call_name call = ''http_post'' \<and> base_path (path_arg (call_args call)) \<in> set (dangerous_paths p)"

definition permitted :: "policy_registry \<Rightarrow> bool \<Rightarrow> dict \<Rightarrow> bool" where
  "permitted p allow_job_post call \<longleftrightarrow>
     (let name = call_name call; pol = pr_scenario_policy p in
       name \<notin> set (sp_tool_denylist pol) \<and> (sp_tool_allowlist pol = [] \<or> name \<in> set (sp_tool_allowlist pol))
       \<and> (case spec_of p name of None \<Rightarrow> True | Some spec \<Rightarrow> scopes_granted p spec \<and> mcp_enabled p name spec)
       \<and> (\<not> dangerous_call p call \<or> allow_job_post))"

definition rule_asks :: "policy_registry \<Rightarrow> dict \<Rightarrow> bool \<Rightarrow> bool" where
  "rule_asks p call otherwise =
     (case spec_of p (call_name call) of Some spec \<Rightarrow> requires_approval_for spec (call_args call) | None \<Rightarrow> otherwise)"

definition needs_approval :: "policy_registry \<Rightarrow> dict \<Rightarrow> bool" where
  "needs_approval p call \<longleftrightarrow> dangerous_call p call \<or> rule_asks p call False"

definition passes :: "policy_registry \<Rightarrow> bool \<Rightarrow> bool \<Rightarrow> dict \<Rightarrow> bool" where
  "passes p allow_job_post confirm_dangerous call \<longleftrightarrow>
     permitted p allow_job_post call \<and> (confirm_dangerous \<or> \<not> needs_approval p call)"

definition denies :: "dict \<Rightarrow> policy_decision \<Rightarrow> bool" where
  "denies call d \<longleftrightarrow> pd_decision d = ''deny'' \<and> \<not> pd_allowed d \<and> \<not> pd_requires_approval d
     \<and> pd_tool_name d = call_name call \<and> pd_call_id d = pending_call_id call"

definition asks :: "policy_registry \<Rightarrow> dict \<Rightarrow> policy_decision \<Rightarrow> bool" where
  "asks p call d \<longleftrightarrow> pd_decision d = ''ask'' \<and> pd_allowed d \<and> pd_requires_approval d = rule_asks p call True
     \<and> pd_tool_name d = call_name call \<and> pd_call_id d = pending_call_id call"

lemma denies_deny [simp]: "denies call (deny call message reason source metadata audits)"
  by (simp add: denies_def deny_def plain_decision_def)

lemma asks_ask [simp]: "asks p call (ask call b message reason source metadata audits) \<longleftrightarrow> b = rule_asks p call True"
  by (simp add: asks_def ask_def plain_decision_def)

lemma authorize_subset: "authorize_scopes required m \<longleftrightarrow> set required \<subseteq> set (cb_scopes (cm_binding m))"
  by (auto simp: authorize_scopes_def list_all_iff)

text \<open>Each guard against its condition.\<close>

lemma list_guard_cases:
  "case list_guard p call audits of
     None \<Rightarrow> call_name call \<notin> set (sp_tool_denylist (pr_scenario_policy p)) \<and>
       (sp_tool_allowlist (pr_scenario_policy p) = [] \<or> call_name call \<in> set (sp_tool_allowlist (pr_scenario_policy p)))
   | Some d \<Rightarrow> denies call d \<and> \<not> permitted p allow call"
  by (auto simp: list_guard_def Let_def permitted_def)

lemma scopes_decided:
  "evaluate_required_scopes p name (Some spec) =
     (if ts_required_scopes spec = [] then None else evaluate_required_scopes p name (Some spec))
   \<and> (\<forall>d. evaluate_required_scopes p name (Some spec) = Some d \<longrightarrow> pd_allowed d = scopes_granted p spec)
   \<and> (evaluate_required_scopes p name (Some spec) = None \<longrightarrow> scopes_granted p spec)"
  by (auto simp: evaluate_required_scopes_def scopes_granted_def Let_def scope_decision_def plain_decision_def
      authorize_subset split: option.split)

lemma scope_guard_cases:
  "case fst (scope_guard p call audits) of
     None \<Rightarrow> (case spec_of p (call_name call) of None \<Rightarrow> True | Some spec \<Rightarrow> scopes_granted p spec)
   | Some d \<Rightarrow> denies call d \<and> \<not> permitted p allow call"
proof (cases "spec_of p (call_name call)")
  case None
  then show ?thesis by (simp add: scope_guard_def evaluate_required_scopes_def)
next
  case (Some spec)
  then show ?thesis
    using scopes_decided [of p "call_name call" spec]
    by (auto simp: scope_guard_def Let_def permitted_def split: option.split)
qed

lemma mcp_guard_cases:
  "case mcp_guard p call audits of
     None \<Rightarrow> (case spec_of p (call_name call) of None \<Rightarrow> True | Some spec \<Rightarrow> mcp_enabled p (call_name call) spec)
   | Some d \<Rightarrow> denies call d \<and> \<not> permitted p allow call"
  by (cases "spec_of p (call_name call)") (auto simp: mcp_guard_def Let_def permitted_def mcp_enabled_def)

lemma dangerous_guard_cases:
  "case dangerous_guard p allow confirm call audits of
     None \<Rightarrow> \<not> dangerous_call p call \<or> (allow \<and> confirm)
   | Some d \<Rightarrow> dangerous_call p call \<and> (if allow then \<not> confirm \<and> asks p call d else denies call d)"
  by (auto simp: dangerous_guard_def Let_def dangerous_call_def rule_asks_def)

lemma approval_guard_cases:
  "case approval_guard p confirm call audits of
     None \<Rightarrow> confirm \<or> \<not> rule_asks p call False
   | Some d \<Rightarrow> \<not> confirm \<and> rule_asks p call False \<and> asks p call d"
  by (auto simp: approval_guard_def rule_asks_def split: option.split)

lemma examine_call_cases:
  "case fst (examine_call p allow confirm call audits) of
     None \<Rightarrow> passes p allow confirm call
   | Some d \<Rightarrow> (if permitted p allow call then \<not> confirm \<and> needs_approval p call \<and> asks p call d else denies call d)"
proof (cases "list_guard p call audits")
  case (Some d)
  then show ?thesis using list_guard_cases [where p = p and call = call and audits = audits and allow = allow] by (simp add: examine_call_def)
next
  case l: None
  obtain s audits' where s: "scope_guard p call audits = (s, audits')" by fastforce
  show ?thesis
  proof (cases s)
    case (Some d)
    then show ?thesis using l s scope_guard_cases [where p = p and call = call and audits = audits and allow = allow] by (simp add: examine_call_def)
  next
    case n: None
    show ?thesis
    proof (cases "mcp_guard p call audits'")
      case (Some d)
      then show ?thesis using l s n mcp_guard_cases [where p = p and call = call and audits = audits' and allow = allow] by (simp add: examine_call_def or_else_def)
    next
      case m: None
      have perm: "permitted p allow call \<longleftrightarrow> \<not> dangerous_call p call \<or> allow"
        using list_guard_cases [where p = p and call = call and audits = audits and allow = allow] scope_guard_cases [where p = p and call = call and audits = audits and allow = allow]
          mcp_guard_cases [where p = p and call = call and audits = audits' and allow = allow] l s n m
        by (auto simp: permitted_def Let_def split: option.splits)
      have e: "fst (examine_call p allow confirm call audits) =
          or_else (dangerous_guard p allow confirm call audits') (approval_guard p confirm call audits')"
        using l s n m by (simp add: examine_call_def or_else_def)
      show ?thesis
        unfolding e using dangerous_guard_cases [where p = p and allow = allow and confirm = confirm and call = call and audits = audits']
          approval_guard_cases [where p = p and confirm = confirm and call = call and audits = audits']
        by (auto simp: or_else_def perm passes_def needs_approval_def split: option.splits if_splits)
    qed
  qed
qed

text \<open>The call that decides, behind calls that pass.\<close>

definition decides :: "policy_registry \<Rightarrow> bool \<Rightarrow> bool \<Rightarrow> dict \<Rightarrow> policy_decision \<Rightarrow> bool" where
  "decides p allow_job_post confirm call d \<longleftrightarrow>
     (if permitted p allow_job_post call then \<not> confirm \<and> needs_approval p call \<and> asks p call d
      else denies call d)"

lemma examine_calls_decides:
  "examine_calls p allow confirm calls audits = d \<Longrightarrow>
     (if list_all (passes p allow confirm) calls
      then pd_decision d = ''allow'' \<and> pd_allowed d \<and> \<not> pd_requires_approval d
      else \<exists>pre call post. calls = pre @ call # post \<and> list_all (passes p allow confirm) pre
        \<and> \<not> passes p allow confirm call \<and> decides p allow confirm call d)"
proof (induction calls arbitrary: audits)
  case Nil
  then show ?case by (auto simp: plain_decision_def)
next
  case (Cons c calls)
  obtain r audits' where r: "examine_call p allow confirm c audits = (r, audits')" by fastforce
  note ex = examine_call_cases [where p = p and allow = allow and confirm = confirm and call = c and audits = audits, unfolded r fst_conv]
  show ?case
  proof (cases r)
    case None
    then have c: "passes p allow confirm c" using ex by simp
    have d: "examine_calls p allow confirm calls audits' = d" using Cons.prems r None by simp
    show ?thesis
    proof (cases "list_all (passes p allow confirm) calls")
      case True
      then show ?thesis using Cons.IH [OF d] c by simp
    next
      case False
      then obtain pre call post where "calls = pre @ call # post" "list_all (passes p allow confirm) pre"
        "\<not> passes p allow confirm call" "decides p allow confirm call d"
        using Cons.IH [OF d] by auto
      then have "c # calls = (c # pre) @ call # post \<and> list_all (passes p allow confirm) (c # pre)
          \<and> \<not> passes p allow confirm call \<and> decides p allow confirm call d" using c by simp
      moreover have "\<not> list_all (passes p allow confirm) (c # calls)" using False by simp
      ultimately show ?thesis by (simp only: if_False) blast
    qed
  next
    case (Some d')
    then have d: "d' = d" using Cons.prems r by simp
    have "\<not> passes p allow confirm c" "decides p allow confirm c d"
      using ex Some d by (auto simp: passes_def decides_def split: if_splits)
    then have "\<not> list_all (passes p allow confirm) (c # calls)"
      "c # calls = [] @ c # calls \<and> list_all (passes p allow confirm) []
          \<and> \<not> passes p allow confirm c \<and> decides p allow confirm c d" by simp_all
    then show ?thesis by (simp only: if_False) blast
  qed
qed

lemma gate_decision:
  "if list_all (passes p allow confirm) calls
   then pd_decision (evaluate_tool_calls p calls allow confirm) = ''allow''
     \<and> pd_allowed (evaluate_tool_calls p calls allow confirm)
     \<and> \<not> pd_requires_approval (evaluate_tool_calls p calls allow confirm)
   else \<exists>pre call post. calls = pre @ call # post \<and> list_all (passes p allow confirm) pre
     \<and> \<not> passes p allow confirm call \<and> decides p allow confirm call (evaluate_tool_calls p calls allow confirm)"
  by (rule examine_calls_decides) (simp add: evaluate_tool_calls_def)

text \<open>
  C33. The gate allows the tool calls of a message exactly when each of them, by itself, passes: its tool is
  not denied and is enabled, the credentials grant its scopes, its MCP server and tool are enabled, a
  dangerous POST is switched on, and no approval is missing. Otherwise the first call that does not pass
  decides: a call the policy does not permit is denied, under its name and id, and only a permitted call
  that needs an approval nobody gave is asked about.
\<close>

theorem policy_gate_decides:
  "let d = evaluate_tool_calls p calls allow_job_post confirm in
     if list_all (passes p allow_job_post confirm) calls
     then pd_decision d = ''allow'' \<and> pd_allowed d \<and> \<not> pd_requires_approval d
     else \<exists>pre call post. calls = pre @ call # post \<and> list_all (passes p allow_job_post confirm) pre
       \<and> \<not> passes p allow_job_post confirm call
       \<and> (if permitted p allow_job_post call
          then \<not> confirm \<and> needs_approval p call \<and> pd_decision d = ''ask'' \<and> pd_allowed d
            \<and> pd_requires_approval d = rule_asks p call True
          else pd_decision d = ''deny'' \<and> \<not> pd_allowed d \<and> \<not> pd_requires_approval d)
       \<and> pd_tool_name d = call_name call \<and> pd_call_id d = pending_call_id call"
proof -
  define d where "d = evaluate_tool_calls p calls allow_job_post confirm"
  have e: "decides p allow_job_post confirm call d \<longleftrightarrow>
      (if permitted p allow_job_post call
       then \<not> confirm \<and> needs_approval p call \<and> pd_decision d = ''ask'' \<and> pd_allowed d
         \<and> pd_requires_approval d = rule_asks p call True
       else pd_decision d = ''deny'' \<and> \<not> pd_allowed d \<and> \<not> pd_requires_approval d)
      \<and> pd_tool_name d = call_name call \<and> pd_call_id d = pending_call_id call" for call
    by (simp add: decides_def asks_def denies_def)
  show ?thesis
    unfolding d_def [symmetric] Let_def e [symmetric]
    by (rule gate_decision [of p allow_job_post confirm calls, folded d_def])
qed

end
