(* ===== verification/Planning.thy ===== *)
theory Planning
  imports PyValue
begin

text \<open>
  Tool routes and plans: the route a turn is given (\<^verbatim>\<open>copilot_agent/scenario/router/types.py\<close>), the API
  paths merged into it from search results (\<^verbatim>\<open>agent/tool_route_merge.py\<close>), and the plan built from it and
  brought up to date as tools answer (\<^verbatim>\<open>agent/plan_builder.py\<close>, \<^verbatim>\<open>contracts/plan.py\<close>).

  The four classes of chat messages that the agent's graph holds are \<open>lc_message\<close>; the content of a tool
  message and of an answer of the language model is any value. \<^verbatim>\<open>json.loads\<close> is the parameter \<open>loads\<close>.
\<close>

section \<open>Messages\<close>

datatype lc_message =
    SystemMessage string
  | HumanMessage string
  | AIMessage pyval "dict list"
  | ToolMessage string pyval string

section \<open>Routes\<close>

record tool_route =
  rt_kind :: string
  rt_recommended_tools :: "string list"
  rt_forbidden_tools :: "string list"
  rt_suggested_paths :: "string list"
  rt_rationale :: string

definition ROUTE_KINDS :: "string list" where
  "ROUTE_KINDS = [''knowledge'', ''live_status'', ''troubleshooting'', ''dangerous_execute'', ''safety_reject'']"

definition strs :: "string list \<Rightarrow> pyval" where
  "strs xs = PList (map PStr xs)"

definition route_dict :: "tool_route \<Rightarrow> dict" where
  "route_dict r =
     [(''kind'', PStr (rt_kind r)), (''recommended_tools'', strs (rt_recommended_tools r)),
      (''forbidden_tools'', strs (rt_forbidden_tools r)), (''suggested_paths'', strs (rt_suggested_paths r)),
      (''rationale'', PStr (rt_rationale r))]"

definition build_route_system_message :: "tool_route \<Rightarrow> string" where
  "build_route_system_message r = join [CHR 0x0A]
     ([''Tool routing plan for this user turn (follow before choosing tools):'', ''- Intent: '' @ rt_kind r]
      @ (if rt_recommended_tools r \<noteq> []
         then [''- Recommended tool order: '' @ join '' -> '' (rt_recommended_tools r)]
         else [''- Recommended: respond without calling tools''])
      @ (if rt_forbidden_tools r \<noteq> [] then [''- Do not call: '' @ join '', '' (rt_forbidden_tools r)] else [])
      @ (if rt_suggested_paths r \<noteq> []
         then [''- Suggested API paths (http_get whitelist): '' @ join '', '' (rt_suggested_paths r)] else [])
      @ [''- Rationale: '' @ rt_rationale r])"

text \<open>\<open>tuple(str(item) for item in (data.get(key) or []))\<close>; \<open>None\<close> for the \<^verbatim>\<open>TypeError\<close> of a value that
  cannot be iterated over.\<close>

definition str_items :: "dict \<Rightarrow> string \<Rightarrow> string list option" where
  "str_items data key = map_option (map py_str) (py_iter (py_or (dget data key) (PList [])))"

text \<open>Outer \<open>None\<close>: the exception. Inner \<open>None\<close>: not a route.\<close>

definition tool_route_from_mapping :: "pyval \<Rightarrow> tool_route option option" where
  "tool_route_from_mapping v =
     (let data = as_dict v in
      if \<not> is_dict v \<or> \<not> truthy (dget data ''kind'') then Some None
      else
        (let kind = py_str (dget data ''kind'');
             kind = (if kind \<in> set ROUTE_KINDS then kind else ''knowledge'')
         in case (str_items data ''recommended_tools'', str_items data ''forbidden_tools'',
                  str_items data ''suggested_paths'') of
              (Some rec, Some forb, Some paths) \<Rightarrow>
                Some (Some \<lparr>rt_kind = kind, rt_recommended_tools = rec, rt_forbidden_tools = forb,
                            rt_suggested_paths = paths, rt_rationale = str_or (dget data ''rationale'')\<rparr>)
            | _ \<Rightarrow> None))"

definition tool_allowed :: "tool_route \<Rightarrow> string \<Rightarrow> bool" where
  "tool_allowed r tool_name =
     (if tool_name \<in> set (rt_forbidden_tools r) then False
      else if rt_kind r = ''safety_reject'' then False
      else if rt_recommended_tools r = [] then False
      else if rt_kind r = ''knowledge'' \<and> tool_name \<in> {''http_get'', ''http_post''} then False
      else True)"

section \<open>Paths from search results\<close>

definition parse_tool_payload :: "(string \<Rightarrow> pyval option) \<Rightarrow> pyval \<Rightarrow> dict" where
  "parse_tool_payload loads content =
     (case content of
        PDict d \<Rightarrow> d
      | PStr s \<Rightarrow> (let text = strip s in if text = [] then [] else
          (case loads text of Some v \<Rightarrow> as_dict v | None \<Rightarrow> []))
      | _ \<Rightarrow> [])"

definition message_hints :: "(string \<Rightarrow> pyval option) \<Rightarrow> lc_message \<Rightarrow> string list" where
  "message_hints loads m =
     (case m of
        ToolMessage _ content _ \<Rightarrow>
          (let payload = parse_tool_payload loads content;
               data = (if is_dict (dget payload ''data'') then as_dict (dget payload ''data'') else payload)
           in filter (\<lambda>p. p \<noteq> []) (map (\<lambda>hint. strip (str_or (dget (as_dict hint) ''path'')))
                (filter is_dict (as_list (dget data ''suggested_api_paths'')))))
      | _ \<Rightarrow> [])"

fun add_unseen :: "string list \<Rightarrow> string list \<Rightarrow> string list" where
  "add_unseen paths [] = paths"
| "add_unseen paths (p # ps) = add_unseen (if p \<in> set paths then paths else paths @ [p]) ps"

definition extract_suggested_paths :: "(string \<Rightarrow> pyval option) \<Rightarrow> lc_message list \<Rightarrow> string list" where
  "extract_suggested_paths loads messages =
     rev (add_unseen [] (concat (map (message_hints loads) (rev messages))))"

definition merge_api_paths_into_route :: "tool_route \<Rightarrow> string list \<Rightarrow> tool_route \<times> bool" where
  "merge_api_paths_into_route r api_paths =
     (if api_paths = [] then (r, False)
      else (let merged = add_unseen (rt_suggested_paths r) api_paths
            in if merged = rt_suggested_paths r then (r, False)
               else (r\<lparr>rt_suggested_paths := merged\<rparr>, True)))"

section \<open>Plans\<close>

record plan_step_model =
  ps_id :: string
  ps_goal :: string
  ps_tool_hint :: "string option"
  ps_status :: string
  ps_outcome :: "string option"

record plan =
  pl_goal :: string
  pl_route_kind :: "string option"
  pl_steps :: "plan_step_model list"

definition step_dict :: "plan_step_model \<Rightarrow> dict" where
  "step_dict s = [(''id'', PStr (ps_id s)), (''goal'', PStr (ps_goal s)), (''tool_hint'', opt_str (ps_tool_hint s)),
     (''status'', PStr (ps_status s)), (''outcome'', opt_str (ps_outcome s))]"

definition plan_dict :: "plan \<Rightarrow> dict" where
  "plan_dict p = [(''goal'', PStr (pl_goal p)), (''route_kind'', opt_str (pl_route_kind p)),
     (''steps'', PList (map (PDict \<circ> step_dict) (pl_steps p)))]"

definition pending_step :: "string \<Rightarrow> string \<Rightarrow> string option \<Rightarrow> plan_step_model" where
  "pending_step i goal hint = \<lparr>ps_id = i, ps_goal = goal, ps_tool_hint = hint, ps_status = ''pending'', ps_outcome = None\<rparr>"

definition build_plan_from_route :: "tool_route \<Rightarrow> string \<Rightarrow> plan" where
  "build_plan_from_route r goal =
     (let steps = map (\<lambda>(i, tool_name). pending_step (''step-'' @ nat_str i)
            (''Execute '' @ tool_name @ '' for: '' @ take 120 goal) (Some tool_name))
          (zip [1..<Suc (length (rt_recommended_tools r))] (rt_recommended_tools r));
          steps = (if steps = [] then [pending_step ''step-1'' (''Answer without tools: '' @ take 120 goal) None]
                   else steps)
      in \<lparr>pl_goal = goal, pl_route_kind = Some (rt_kind r), pl_steps = steps\<rparr>)"

definition message_tool_names :: "lc_message list \<Rightarrow> string list" where
  "message_tool_names messages =
     filter (\<lambda>n. n \<noteq> []) (concat (map (\<lambda>m. case m of ToolMessage name _ _ \<Rightarrow> [strip name] | _ \<Rightarrow> []) messages))"

definition update_step :: "string list \<Rightarrow> plan_step_model \<Rightarrow> plan_step_model" where
  "update_step names s =
     (let hint = strip (case ps_tool_hint s of None \<Rightarrow> [] | Some h \<Rightarrow> h)
      in if hint \<noteq> [] \<and> hint \<in> set names \<and> ps_status s = ''pending''
         then s\<lparr>ps_status := ''completed'', ps_outcome := Some (hint @ '' executed'')\<rparr> else s)"

definition update_plan_outcomes :: "plan \<Rightarrow> lc_message list \<Rightarrow> plan" where
  "update_plan_outcomes p messages =
     p\<lparr>pl_steps := map (update_step (message_tool_names messages)) (pl_steps p)\<rparr>"

definition REPLAN_ID :: string where
  "REPLAN_ID = ''step-replan-summary''"

definition answered :: "lc_message list \<Rightarrow> bool" where
  "answered messages =
     (case find (\<lambda>m. case m of AIMessage _ _ \<Rightarrow> True | _ \<Rightarrow> False) (rev messages) of
        Some (AIMessage content calls) \<Rightarrow> strip (str_or content) \<noteq> [] \<and> calls = []
      | _ \<Rightarrow> False)"

definition maybe_replan_troubleshooting :: "plan \<Rightarrow> string \<Rightarrow> lc_message list \<Rightarrow> plan option" where
  "maybe_replan_troubleshooting p route_kind messages =
     (if route_kind \<noteq> ''troubleshooting'' then None
      else if \<not> {''search_docs'', ''http_get''} \<subseteq> set (message_tool_names messages) then None
      else if answered messages then None
      else if list_ex (\<lambda>s. ps_id s = REPLAN_ID) (pl_steps p) then None
      else Some (p\<lparr>pl_steps := pl_steps p @ [pending_step REPLAN_ID
             ''Summarize troubleshooting findings from docs and live API checks'' None]\<rparr>))"

definition plan_step_statuses :: "plan \<Rightarrow> string list" where
  "plan_step_statuses p = map ps_status (pl_steps p)"

text \<open>What one turn of the assistant does to the plan (\<^verbatim>\<open>AgentNodes.assistant\<close>).\<close>

definition plan_turn :: "plan \<Rightarrow> string \<Rightarrow> lc_message list \<Rightarrow> plan" where
  "plan_turn p route_kind messages =
     (let updated = update_plan_outcomes p messages
      in case maybe_replan_troubleshooting updated route_kind messages of
           Some q \<Rightarrow> q
         | None \<Rightarrow> updated)"

section \<open>Round trip of a route\<close>

lemma str_items_strs: "dget data key = strs xs \<Longrightarrow> str_items data key = Some xs"
  by (auto simp: str_items_def strs_def py_or_def comp_def)

text \<open>
  C36. A route survives the state of the graph: reading back the dictionary of a route with a known kind
  gives that route.
\<close>

theorem route_roundtrip:
  assumes "rt_kind r \<in> set ROUTE_KINDS"
  shows "tool_route_from_mapping (PDict (route_dict r)) = Some (Some r)"
proof -
  have "rt_kind r \<noteq> []" using assms by (auto simp: ROUTE_KINDS_def)
  then show ?thesis
    using assms by (simp add: tool_route_from_mapping_def str_items_def route_dict_def strs_def py_or_def comp_def Let_def)
qed

definition demo_route :: tool_route where
  "demo_route = \<lparr>rt_kind = ''troubleshooting'', rt_recommended_tools = [''search_docs'', ''http_get''],
     rt_forbidden_tools = [''http_post''], rt_suggested_paths = [''/api/v1/jobs''], rt_rationale = ''failed job''\<rparr>"

text \<open>The hypothesis can be met: a troubleshooting route.\<close>

theorem route_roundtrip_witness:
  "tool_route_from_mapping (PDict (route_dict demo_route)) = Some (Some demo_route)"
  by (rule route_roundtrip) (simp add: demo_route_def ROUTE_KINDS_def)

section \<open>Merged paths\<close>

lemma add_unseen_append: "\<exists>new. add_unseen paths ps = paths @ new \<and> set new = set ps - set paths \<and> distinct new"
proof (induction ps arbitrary: paths)
  case (Cons p ps)
  obtain new where new: "add_unseen (if p \<in> set paths then paths else paths @ [p]) ps =
      (if p \<in> set paths then paths else paths @ [p]) @ new"
    "set new = set ps - set (if p \<in> set paths then paths else paths @ [p])" "distinct new"
    using Cons.IH by blast
  show ?case
  proof (cases "p \<in> set paths")
    case True
    then show ?thesis using new by auto
  next
    case False
    then show ?thesis using new by (intro exI [of _ "p # new"]) auto
  qed
qed auto

lemma merge_again:
  "merge_api_paths_into_route (fst (merge_api_paths_into_route r ps)) ps = (fst (merge_api_paths_into_route r ps), False)"
proof -
  obtain new where "add_unseen (rt_suggested_paths r) ps = rt_suggested_paths r @ new" "set new = set ps - set (rt_suggested_paths r)"
    using add_unseen_append by blast
  moreover obtain new' where "add_unseen (rt_suggested_paths r @ new) ps = rt_suggested_paths r @ new @ new'"
    "set new' = set ps - set (rt_suggested_paths r @ new)"
    using add_unseen_append [of "rt_suggested_paths r @ new" ps] by auto
  moreover from calculation have "set new' = {}" by auto
  ultimately show ?thesis by (auto simp: merge_api_paths_into_route_def Let_def)
qed

section \<open>Progress of a plan\<close>

lemma digit_char: "(n :: nat) < 10 \<Longrightarrow> char_of (48 + n) \<noteq> CHR ''y''"
proof
  assume n: "n < 10" and eq: "char_of (48 + n) = CHR ''y''"
  have "48 + n = of_char (char_of (48 + n) :: char)" using n by simp
  also have "\<dots> = of_char (CHR ''y'')" by (simp only: eq)
  also have "\<dots> = 121" by simp
  finally show False using n by simp
qed

lemma nat_str_last: "last (nat_str n) \<noteq> CHR ''y''"
  using digit_char [of n] digit_char [of "n mod 10"] by (subst nat_str.simps) auto

lemma numbered_step_id: "''step-'' @ nat_str i \<noteq> REPLAN_ID"
proof
  assume "''step-'' @ nat_str i = REPLAN_ID"
  then have "nat_str i = ''replan-summary''" by (simp add: REPLAN_ID_def)
  then show False using nat_str_last [of i] by simp
qed

definition step_moved :: "plan_step_model \<Rightarrow> plan_step_model \<Rightarrow> bool" where
  "step_moved s t \<longleftrightarrow> t = s \<or> (ps_status s = ''pending'' \<and> ps_status t = ''completed''
     \<and> ps_id t = ps_id s \<and> ps_goal t = ps_goal s \<and> ps_tool_hint t = ps_tool_hint s)"

lemma step_moved_update: "step_moved s (update_step names s)"
  by (auto simp: step_moved_def update_step_def Let_def)

lemma step_moved_trans: "step_moved s t \<Longrightarrow> step_moved t u \<Longrightarrow> step_moved s u"
  by (auto simp: step_moved_def)

lemma update_step_idem: "update_step names (update_step names s) = update_step names s"
  by (auto simp: update_step_def Let_def)

definition replans :: "plan \<Rightarrow> nat" where
  "replans p = length (filter (\<lambda>s. ps_id s = REPLAN_ID) (pl_steps p))"

definition plan_moved :: "plan \<Rightarrow> plan \<Rightarrow> bool" where
  "plan_moved p q \<longleftrightarrow> pl_goal q = pl_goal p \<and> pl_route_kind q = pl_route_kind p
     \<and> (\<exists>old new. pl_steps q = old @ new \<and> list_all2 step_moved (pl_steps p) old)
     \<and> (replans p \<le> 1 \<longrightarrow> replans q \<le> 1)"

lemma list_all2_step_moved_refl: "list_all2 step_moved xs xs"
  by (simp add: list_all2_conv_all_nth step_moved_def)

lemma update_moved: "list_all2 step_moved (pl_steps p) (pl_steps (update_plan_outcomes p messages))"
  by (simp add: update_plan_outcomes_def list_all2_conv_all_nth step_moved_update)

lemma replans_update: "replans (update_plan_outcomes p messages) = replans p"
proof -
  have i: "ps_id (update_step names s) = ps_id s" for names s by (simp add: update_step_def Let_def)
  show ?thesis by (simp add: replans_def update_plan_outcomes_def filter_map comp_def i)
qed

lemma plan_turn_moved: "plan_moved p (plan_turn p kind messages)"
proof (cases "maybe_replan_troubleshooting (update_plan_outcomes p messages) kind messages")
  case None
  then show ?thesis
    using update_moved [of p messages]
    by (auto simp: plan_turn_def plan_moved_def replans_update) (simp_all add: update_plan_outcomes_def)
next
  case (Some q)
  then have "replans q \<le> 1" "\<exists>s. pl_steps q = pl_steps (update_plan_outcomes p messages) @ [s]"
    "pl_goal q = pl_goal p" "pl_route_kind q = pl_route_kind p"
    by (auto simp: maybe_replan_troubleshooting_def replans_def list_ex_iff filter_empty_conv update_plan_outcomes_def
        split: if_splits)
  moreover have "plan_turn p kind messages = q" using Some by (simp add: plan_turn_def)
  ultimately show ?thesis
    using update_moved [of p messages] by (auto simp: plan_moved_def)
qed

lemma plan_moved_refl: "plan_moved p p"
  using list_all2_step_moved_refl by (auto simp: plan_moved_def intro: exI [of _ "[]"])

lemma plan_moved_trans: "plan_moved p q \<Longrightarrow> plan_moved q r \<Longrightarrow> plan_moved p r"
proof -
  assume pq: "plan_moved p q" and qr: "plan_moved q r"
  from pq obtain o1 n1 where q: "pl_steps q = o1 @ n1" "list_all2 step_moved (pl_steps p) o1"
    by (auto simp: plan_moved_def)
  from qr obtain o2 n2 where r: "pl_steps r = o2 @ n2" "list_all2 step_moved (pl_steps q) o2"
    by (auto simp: plan_moved_def)
  then obtain o3 n3 where o: "o2 = o3 @ n3" "list_all2 step_moved o1 o3"
    using q(1) by (auto simp: list_all2_append1)
  have "list_all2 step_moved (pl_steps p) o3"
    using q(2) o(2) by (rule list_all2_trans [rotated]) (rule step_moved_trans)
  then have "\<exists>old new. pl_steps r = old @ new \<and> list_all2 step_moved (pl_steps p) old"
    using r(1) o(1) by auto
  then show ?thesis using pq qr by (auto simp: plan_moved_def)
qed

text \<open>
  Over any number of turns of the assistant a plan only makes progress: its goal and route stay, every
  step stays in its place and at most turns from pending into completed, new steps are only added behind,
  the summary step of a replanned troubleshooting at most once, and a turn that sees the same messages
  again changes no step.
\<close>

theorem plan_progress:
  assumes "q = fold (\<lambda>(kind, messages) p. plan_turn p kind messages) turns (build_plan_from_route route goal)"
  shows "pl_goal q = goal \<and> pl_route_kind q = Some (rt_kind route)
    \<and> (\<exists>old new. pl_steps q = old @ new
         \<and> list_all2 step_moved (pl_steps (build_plan_from_route route goal)) old)
    \<and> replans q \<le> 1
    \<and> update_plan_outcomes (update_plan_outcomes q messages) messages = update_plan_outcomes q messages"
proof -
  let ?p = "build_plan_from_route route goal"
  have m: "plan_moved ?p (fold (\<lambda>(kind, messages) p. plan_turn p kind messages) turns ?p)"
    by (induction turns rule: rev_induct) (auto intro: plan_moved_refl plan_moved_trans plan_turn_moved)
  have "replans ?p = 0"
    using numbered_step_id
    by (auto simp: replans_def build_plan_from_route_def Let_def pending_step_def filter_empty_conv REPLAN_ID_def)
  then show ?thesis
    using m assms by (auto simp: plan_moved_def build_plan_from_route_def Let_def update_plan_outcomes_def update_step_idem)
qed

text \<open>The hypothesis can be met: two turns of the demo route, the second after both tools have answered.\<close>

theorem plan_progress_witness:
  "\<exists>q. length (pl_steps q) = 3 \<and> plan_step_statuses q = [''completed'', ''completed'', ''pending'']
     \<and> replans q \<le> 1
     \<and> (\<exists>old new. pl_steps q = old @ new
          \<and> list_all2 step_moved (pl_steps (build_plan_from_route demo_route ''why did it fail'')) old)"
proof -
  let ?turns = "[(''troubleshooting'', []),
     (''troubleshooting'', [ToolMessage ''search_docs'' PNone ''c1'', ToolMessage ''http_get'' PNone ''c2''])]"
  define q where "q = fold (\<lambda>(kind, messages) p. plan_turn p kind messages) ?turns
     (build_plan_from_route demo_route ''why did it fail'')"
  have "length (pl_steps q) = 3 \<and> plan_step_statuses q = [''completed'', ''completed'', ''pending'']"
    unfolding q_def by code_simp
  with plan_progress [OF q_def] show ?thesis by blast
qed

end
