(* ===== verification/Schemas.thy ===== *)
theory Schemas
  imports Contracts
begin

text \<open>
  The shapes of the event payloads (\<^verbatim>\<open>copilot_agent/contracts/events/payloads.py\<close>,
  \<^verbatim>\<open>contracts/tool_data.py\<close>). A pydantic class is the list of its fields, each with its type and its
  default (no default: the field is required), and whether other keys are allowed.

  \<open>conforms\<close> is the part of pydantic's validation that needs no conversion: a value of the declared type
  is accepted as it is (an integer also where a float is declared). The library accepts more, by
  converting; nothing here depends on what it does then.
\<close>

section \<open>Types of fields\<close>

datatype ftype =
    TAny | TStr | TInt | TBool | TFloat | TDict
  | TLiteral "string list"
  | TOptional ftype
  | TList ftype
  | TMap ftype
  | TUnion "ftype list"
  | TModel bool "(string \<times> ftype \<times> pyval option) list"

fun conforms :: "ftype \<Rightarrow> pyval \<Rightarrow> bool"
  and conforms_fields :: "(string \<times> ftype \<times> pyval option) list \<Rightarrow> dict \<Rightarrow> bool"
  and conforms_some :: "ftype list \<Rightarrow> pyval \<Rightarrow> bool" where
  "conforms TAny v = True"
| "conforms TStr v = (case v of PStr s \<Rightarrow> True | _ \<Rightarrow> False)"
| "conforms TInt v = (case v of PInt i \<Rightarrow> True | _ \<Rightarrow> False)"
| "conforms TBool v = (case v of PBool b \<Rightarrow> True | _ \<Rightarrow> False)"
| "conforms TFloat v = (case v of PFloat t \<Rightarrow> True | PInt i \<Rightarrow> True | _ \<Rightarrow> False)"
| "conforms TDict v = is_dict v"
| "conforms (TLiteral ls) v = (case v of PStr s \<Rightarrow> s \<in> set ls | _ \<Rightarrow> False)"
| "conforms (TOptional t) v = (v = PNone \<or> conforms t v)"
| "conforms (TList t) v = (case v of PList xs \<Rightarrow> list_all (conforms t) xs | _ \<Rightarrow> False)"
| "conforms (TMap t) v = (case v of PDict d \<Rightarrow> list_all (\<lambda>(k, w). conforms t w) d | _ \<Rightarrow> False)"
| "conforms (TUnion ts) v = conforms_some ts v"
| "conforms (TModel extra fs) v =
     (case v of
        PDict d \<Rightarrow> conforms_fields fs d \<and> (extra \<or> fst ` set d \<subseteq> fst ` set fs)
      | _ \<Rightarrow> False)"
| "conforms_fields [] d = True"
| "conforms_fields ((name, t, init) # fs) d =
     ((case map_of d name of None \<Rightarrow> init \<noteq> None | Some v \<Rightarrow> conforms t v) \<and> conforms_fields fs d)"
| "conforms_some [] v = False"
| "conforms_some (t # ts) v = (conforms t v \<or> conforms_some ts v)"

text \<open>The dictionary of a model made from keyword arguments: \<open>model_dump(exclude_none=True)\<close>.\<close>

definition dump_without_none :: "dict \<Rightarrow> dict" where
  "dump_without_none fs = filter (\<lambda>(k, v). v \<noteq> PNone) fs"

abbreviation required_field :: "string \<Rightarrow> ftype \<Rightarrow> string \<times> ftype \<times> pyval option" where
  "required_field name t \<equiv> (name, t, None)"

abbreviation default_field :: "string \<Rightarrow> ftype \<Rightarrow> pyval \<Rightarrow> string \<times> ftype \<times> pyval option" where
  "default_field name t v \<equiv> (name, t, Some v)"

abbreviation text_field :: "string \<Rightarrow> string \<times> ftype \<times> pyval option" where
  "text_field name \<equiv> (name, TStr, Some (PStr []))"

abbreviation optional_field :: "string \<Rightarrow> ftype \<Rightarrow> string \<times> ftype \<times> pyval option" where
  "optional_field name t \<equiv> (name, TOptional t, Some PNone)"

abbreviation list_field :: "string \<Rightarrow> ftype \<Rightarrow> string \<times> ftype \<times> pyval option" where
  "list_field name t \<equiv> (name, TList t, Some (PList []))"

abbreviation dict_field :: "string \<Rightarrow> string \<times> ftype \<times> pyval option" where
  "dict_field name \<equiv> (name, TDict, Some (PDict []))"

abbreviation number_field :: "string \<Rightarrow> string \<times> ftype \<times> pyval option" where
  "number_field name \<equiv> (name, TInt, Some (PInt 0))"

abbreviation flag_field :: "string \<Rightarrow> bool \<Rightarrow> string \<times> ftype \<times> pyval option" where
  "flag_field name b \<equiv> (name, TBool, Some (PBool b))"

section \<open>Data of tool results\<close>

definition TOOL_VALUE :: ftype where
  "TOOL_VALUE = TUnion [TDict, TList TAny, TStr]"

definition ToolResultAuditEnvelope :: ftype where
  "ToolResultAuditEnvelope = TModel True
     [required_field ''success'' TBool, optional_field ''data'' TOOL_VALUE, optional_field ''error'' TStr, dict_field ''metadata'',
      flag_field ''sanitized'' True, optional_field ''sanitized_args'' TDict, optional_field ''sanitized_result'' TDict]"

definition ApiPathHintData :: ftype where
  "ApiPathHintData = TModel True
     [required_field ''method'' TStr, required_field ''path'' TStr, text_field ''path_template'', text_field ''source_file'',
      text_field ''heading_path'', default_field ''score'' TFloat (PFloat ''1.0'')]"

definition CitationItem :: ftype where
  "CitationItem = TModel True
     [required_field ''source_file'' TStr, optional_field ''heading_path'' TStr, number_field ''start_line'', text_field ''chunk_id'',
      optional_field ''authority'' TInt]"

definition SearchDocsToolData :: ftype where
  "SearchDocsToolData = TModel True
     [optional_field ''excerpts_markdown'' TStr, list_field ''sources'' TStr, list_field ''citations'' CitationItem,
      list_field ''suggested_api_paths'' ApiPathHintData]"

definition HttpToolData :: ftype where
  "HttpToolData = TModel True
     [optional_field ''status_code'' TInt, default_field ''body'' TAny PNone, optional_field ''path'' TStr, optional_field ''method'' TStr]"

section \<open>Payloads\<close>

definition TokenPayload :: ftype where
  "TokenPayload = TModel True [text_field ''text'']"

definition ToolStartPayload :: ftype where
  "ToolStartPayload = TModel True
     [required_field ''name'' TStr, required_field ''call_id'' TStr, text_field ''category'', text_field ''risk_level'',
      flag_field ''requires_approval'' False, dict_field ''arguments'', optional_field ''sanitized_args'' TDict,
      optional_field ''timeout_seconds'' TFloat, optional_field ''max_retries'' TInt, optional_field ''idempotency_key'' TStr,
      flag_field ''idempotency_key_present'' False]"

definition ToolEndPayload :: ftype where
  "ToolEndPayload = TModel True
     [required_field ''name'' TStr, required_field ''call_id'' TStr, required_field ''result'' ToolResultAuditEnvelope,
      optional_field ''duration_ms'' TInt, flag_field ''success'' True, optional_field ''error'' TStr, optional_field ''error_type'' TStr,
      optional_field ''sanitized_result'' TDict, optional_field ''attempt'' TInt, optional_field ''max_attempts'' TInt,
      optional_field ''retry_count'' TInt, optional_field ''timeout_seconds'' TFloat, optional_field ''idempotency_key'' TStr,
      flag_field ''idempotency_key_present'' False, flag_field ''idempotency_reused'' False]"

definition ToolSideEffectRecordedPayload :: ftype where
  "ToolSideEffectRecordedPayload = TModel False
     [required_field ''tool_name'' (TLiteral [''http_post'']), text_field ''call_id'', text_field ''path'',
      default_field ''method'' TStr (PStr ''POST''), default_field ''risk_level'' TStr (PStr ''high''),
      flag_field ''requires_approval'' False,
      required_field ''approval_status'' (TLiteral [''not_required'', ''pending'', ''approved'', ''rejected'', ''policy_blocked'']),
      required_field ''side_effect_status'' (TLiteral [''confirmed'', ''reused'', ''none'', ''unknown'', ''blocked'']),
      flag_field ''success'' False, optional_field ''status_code'' TInt, optional_field ''idempotency_key'' TStr,
      flag_field ''idempotency_reused'' False, flag_field ''compensatable'' False, text_field ''reason'',
      optional_field ''policy_source'' TStr, optional_field ''policy_trace_id'' TStr]"

definition PolicyDecisionRecordedPayload :: ftype where
  "PolicyDecisionRecordedPayload = TModel False
     [required_field ''policy_trace_id'' TStr,
      required_field ''scope'' (TLiteral [''tool'', ''route'', ''credential'', ''rag'', ''output_guard'']),
      required_field ''source'' TStr, text_field ''subject'', required_field ''action'' TStr, text_field ''resource'',
      required_field ''decision'' (TLiteral [''allow'', ''ask'', ''deny'', ''block'', ''redact'']), text_field ''reason'',
      text_field ''risk_level'', flag_field ''requires_approval'' False, optional_field ''related_call_id'' TStr,
      optional_field ''related_event_id'' TInt, dict_field ''metadata'']"

definition RetrievalSourceItem :: ftype where
  "RetrievalSourceItem = TModel True
     [required_field ''source_file'' TStr, optional_field ''section_title'' TStr, optional_field ''heading_path'' TStr,
      optional_field ''doc_type'' TStr, number_field ''start_line'', number_field ''chunk_index'', optional_field ''http_method'' TStr,
      optional_field ''http_path'' TStr, list_field ''request_field_names'' TStr, list_field ''error_codes'' TStr,
      optional_field ''authority'' TInt]"

definition RetrievalCompletedPayload :: ftype where
  "RetrievalCompletedPayload = TModel False
     [required_field ''query'' TStr, list_field ''sources'' RetrievalSourceItem, number_field ''source_count'', number_field ''excerpt_chars'',
      flag_field ''success'' True, optional_field ''call_id'' TStr, optional_field ''error'' TStr, optional_field ''retrieval_mode'' TStr,
      optional_field ''retrieval_route'' TDict, optional_field ''tenant_id'' TStr, optional_field ''user_id'' TStr, optional_field ''purpose'' TStr,
      optional_field ''query_hash'' TStr, optional_field ''max_classification'' TStr, list_field ''retrieved_chunk_ids'' TStr,
      list_field ''allowed_chunk_ids'' TStr, list_field ''blocked_chunk_ids'' TStr, number_field ''blocked_count'',
      list_field ''prefilter_blocked_chunk_ids'' TStr, number_field ''prefilter_blocked_count'', optional_field ''policy_trace_id'' TStr,
      list_field ''policy_decisions'' TDict, dict_field ''context_guard'', list_field ''allowed_scopes'' TStr,
      optional_field ''allow_high_pii'' TBool, optional_field ''policy_context_hash'' TStr]"

definition ContextBuiltPayload :: ftype where
  "ContextBuiltPayload = TModel False
     [number_field ''user_message_chars'', number_field ''assembled_message_count'', number_field ''budget_max_chars'', number_field ''used_chars'',
      flag_field ''truncated'' False, list_field ''truncation_steps'' TStr, flag_field ''router_injected'' False,
      flag_field ''preretrieval_enabled'' False, list_field ''preretrieval_sources'' TStr, number_field ''preretrieval_excerpt_chars'',
      number_field ''memory_inject_chars'', flag_field ''checkpoint_compacted'' False, number_field ''checkpoint_chars'',
      optional_field ''retrieval_decision'' TDict, number_field ''context_block_count'', list_field ''context_block_sources'' TStr]"

definition SkillSelectedPayload :: ftype where
  "SkillSelectedPayload = TModel False
     [list_field ''skills'' TStr, default_field ''trigger_reasons'' (TMap (TList TStr)) (PDict []), list_field ''recommended_tools'' TStr,
      list_field ''missing_capabilities'' TStr, default_field ''missing_capabilities_by_skill'' (TMap (TList TStr)) (PDict []),
      default_field ''selection_scores'' (TMap TFloat) (PDict []), default_field ''injected'' (TMap TBool) (PDict []),
      text_field ''route_kind'']"

definition CREDENTIAL_ACTIONS :: "string list" where
  "CREDENTIAL_ACTIONS = [''scope_allowed'', ''scope_denied'', ''credential_set'', ''credential_read_denied'']"

definition CredentialBindingAuditPayload :: ftype where
  "CredentialBindingAuditPayload = TModel False
     [required_field ''action'' (TLiteral CREDENTIAL_ACTIONS), required_field ''binding_id'' TStr,
      default_field ''provider'' TStr (PStr ''scenario''), default_field ''credential_type'' TStr (PStr ''cookie''),
      list_field ''granted_scopes'' TStr, list_field ''required_scopes'' TStr, text_field ''tool_name'', text_field ''reason'',
      text_field ''user_id'']"

definition OutputGuardCheckedPayload :: ftype where
  "OutputGuardCheckedPayload = TModel False
     [default_field ''guard'' TStr (PStr ''private_rag_output_v1''), flag_field ''safe'' True, default_field ''action'' TStr (PStr ''allow''),
      number_field ''finding_count'', list_field ''findings'' TStr, number_field ''original_chars'', number_field ''emitted_chars'']"

definition RobotObservationRecordedPayload :: ftype where
  "RobotObservationRecordedPayload = TModel False
     [default_field ''robot_type'' TStr (PStr ''SO-ARM101''), default_field ''adapter'' TStr (PStr ''mock''),
      required_field ''frame_id'' TStr, required_field ''input_image_hash'' TStr, default_field ''sensor'' TStr (PStr ''rgbd''),
      number_field ''object_count'', default_field ''workspace_bounds'' (TMap (TList TFloat)) (PDict []),
      flag_field ''raw_image_recorded'' False]"

definition VlaPolicyInferredPayload :: ftype where
  "VlaPolicyInferredPayload = TModel False
     [required_field ''policy_checkpoint_id'' TStr, required_field ''frame_id'' TStr, required_field ''instruction_hash'' TStr,
      number_field ''action_count'', optional_field ''confidence'' TFloat, text_field ''fallback_reason'',
      default_field ''model_family'' TStr (PStr ''smolvla'')]"

definition RobotActionExecutedPayload :: ftype where
  "RobotActionExecutedPayload = TModel False
     [text_field ''policy_checkpoint_id'', text_field ''frame_id'', number_field ''action_count'',
      default_field ''execution_status'' (TLiteral [''completed'', ''blocked'', ''failed'', ''stopped'', ''home'']) (PStr ''completed''),
      flag_field ''success'' True,
      default_field ''safety_decision'' (TLiteral [''allow'', ''ask'', ''deny'', ''block'']) (PStr ''allow''),
      text_field ''reason'', optional_field ''idempotency_key'' TStr]"

definition RobotEpisodeLabeledPayload :: ftype where
  "RobotEpisodeLabeledPayload = TModel False
     [required_field ''episode_id'' TStr, required_field ''success'' TBool, text_field ''failure_type'',
      text_field ''policy_checkpoint_id'', text_field ''dataset_dir'']"

definition LlmGenerationPayload :: ftype where
  "LlmGenerationPayload = TModel False
     [text_field ''trace_id'', text_field ''provider'', text_field ''model'', number_field ''round_index'',
      optional_field ''latency_ms'' TInt, number_field ''prompt_tokens'', number_field ''completion_tokens'', number_field ''total_tokens'',
      optional_field ''estimated_cost'' TFloat, optional_field ''finish_reason'' TStr, number_field ''tool_call_count'',
      list_field ''tool_names'' TStr, default_field ''observability_provider'' TStr (PStr ''none''),
      optional_field ''external_trace_url'' TStr]"

definition ToolDetailItem :: ftype where
  "ToolDetailItem = TModel True [required_field ''name'' TStr, text_field ''category'', text_field ''risk_level'']"

definition MemoryRunSummaryPayload :: ftype where
  "MemoryRunSummaryPayload = TModel True
     [default_field ''summary_type'' (TLiteral [''run'']) (PStr ''run''), text_field ''goal'', text_field ''outcome'',
      list_field ''tools_used'' TStr, list_field ''tool_details'' ToolDetailItem, text_field ''final_answer'',
      list_field ''completed_actions'' TDict, list_field ''decisions'' TDict, list_field ''artifacts'' TDict,
      list_field ''retrieval_sources'' TDict, list_field ''warnings'' TStr, list_field ''memory_candidates_seed'' TDict,
      list_field ''key_outputs'' TStr, list_field ''errors'' TStr, list_field ''source_event_ids'' TInt,
      flag_field ''eligible_for_thread'' False, optional_field ''char_count'' TInt]"

definition MemoryThreadSummaryPayload :: ftype where
  "MemoryThreadSummaryPayload = TModel True
     [default_field ''summary_type'' (TLiteral [''thread'']) (PStr ''thread''), list_field ''recent_goals'' TStr,
      list_field ''recent_outcomes'' TStr, list_field ''tools_used'' TStr, list_field ''open_items'' TStr,
      list_field ''source_run_ids'' TStr, list_field ''source_event_ids'' TInt]"

definition MEMORY_SCOPES :: "string list" where
  "MEMORY_SCOPES = [''user'', ''session'', ''global'']"

definition MEMORY_TYPES :: "string list" where
  "MEMORY_TYPES = [''fact'', ''preference'', ''behavior'', ''task_summary'']"

definition MemoryItemGovernancePayload :: ftype where
  "MemoryItemGovernancePayload = TModel False
     [required_field ''item_id'' TStr, text_field ''user_id'', optional_field ''thread_id'' TStr,
      required_field ''scope'' (TLiteral MEMORY_SCOPES), required_field ''memory_type'' (TLiteral MEMORY_TYPES),
      optional_field ''source_run_id'' TStr, required_field ''action'' (TLiteral [''confirmed'', ''rejected'', ''deleted'']),
      text_field ''reason'', default_field ''actor'' TStr (PStr ''system''), required_field ''at'' TStr, optional_field ''deleted_at'' TStr,
      optional_field ''deleted_by'' TStr, flag_field ''content_redacted'' False, flag_field ''embedding_removed'' False]"

definition MemoryItemDeleteProofPayload :: ftype where
  "MemoryItemDeleteProofPayload = TModel False
     [required_field ''item_id'' TStr, text_field ''user_id'', optional_field ''thread_id'' TStr,
      required_field ''scope'' (TLiteral MEMORY_SCOPES), required_field ''memory_type'' (TLiteral MEMORY_TYPES),
      optional_field ''source_run_id'' TStr, required_field ''deleted_at'' TStr, text_field ''reason'',
      default_field ''deleted_by'' TStr (PStr ''system''), flag_field ''content_redacted'' True, flag_field ''embedding_removed'' True,
      required_field ''delete_event_id'' TInt]"

definition CheckpointCompactedPayload :: ftype where
  "CheckpointCompactedPayload = TModel True
     [flag_field ''compacted'' True, text_field ''thread_id'', optional_field ''before_count'' TInt, optional_field ''after_count'' TInt,
      optional_field ''prefix_count'' TInt, optional_field ''kept_count'' TInt, optional_field ''checkpoint_path'' TStr,
      optional_field ''summary_format'' TStr, list_field ''sections_present'' TStr, optional_field ''summary_chars'' TInt,
      dict_field ''summary_model'']"

definition ApprovalResolvedPayload :: ftype where
  "ApprovalResolvedPayload = TModel True [flag_field ''approved'' False]"

definition DonePayload :: ftype where
  "DonePayload = TModel True [dict_field ''assistant_message'']"

definition ErrorPayload :: ftype where
  "ErrorPayload = TModel True [text_field ''error'']"

text \<open>The classes by the names the registry dispatches to.\<close>

definition PAYLOAD_MODELS :: "(string \<times> ftype) list" where
  "PAYLOAD_MODELS =
     [(''TokenPayload'', TokenPayload), (''ToolStartPayload'', ToolStartPayload), (''ToolEndPayload'', ToolEndPayload),
      (''ToolSideEffectRecordedPayload'', ToolSideEffectRecordedPayload),
      (''PolicyDecisionRecordedPayload'', PolicyDecisionRecordedPayload),
      (''RetrievalCompletedPayload'', RetrievalCompletedPayload), (''ContextBuiltPayload'', ContextBuiltPayload),
      (''SkillSelectedPayload'', SkillSelectedPayload), (''CredentialBindingAuditPayload'', CredentialBindingAuditPayload),
      (''OutputGuardCheckedPayload'', OutputGuardCheckedPayload), (''LlmGenerationPayload'', LlmGenerationPayload),
      (''RobotObservationRecordedPayload'', RobotObservationRecordedPayload),
      (''VlaPolicyInferredPayload'', VlaPolicyInferredPayload), (''RobotActionExecutedPayload'', RobotActionExecutedPayload),
      (''RobotEpisodeLabeledPayload'', RobotEpisodeLabeledPayload), (''MemoryRunSummaryPayload'', MemoryRunSummaryPayload),
      (''MemoryThreadSummaryPayload'', MemoryThreadSummaryPayload),
      (''MemoryItemGovernancePayload'', MemoryItemGovernancePayload),
      (''MemoryItemDeleteProofPayload'', MemoryItemDeleteProofPayload),
      (''CheckpointCompactedPayload'', CheckpointCompactedPayload), (''ApprovalResolvedPayload'', ApprovalResolvedPayload),
      (''DonePayload'', DonePayload), (''ErrorPayload'', ErrorPayload)]"

text \<open>An event whose payload, without its schema version, has the declared shape of its kind.\<close>

definition event_conforms :: "string \<Rightarrow> dict \<Rightarrow> bool" where
  "event_conforms kind payload =
     (case payload_model_for_kind kind of
        None \<Rightarrow> False
      | Some LooseEventPayload \<Rightarrow> True
      | Some (StrictModel name) \<Rightarrow>
          (case map_of PAYLOAD_MODELS name of
             None \<Rightarrow> False
           | Some t \<Rightarrow> conforms t (PDict (strip_schema_version payload))))"

lemma models_found: "list_all (\<lambda>(kind, name). map_of PAYLOAD_MODELS name \<noteq> None) STRICT_MODELS"
  by code_simp

lemma conforms_fields_iff:
  "conforms_fields fs d \<longleftrightarrow> (\<forall>(name, t, init) \<in> set fs.
     case map_of d name of None \<Rightarrow> init \<noteq> None | Some v \<Rightarrow> conforms t v)"
  by (induction fs) auto

lemma conforms_default [simp]: "conforms (TOptional t) PNone"
  by simp

lemma conforms_opt_str [simp]: "conforms (TOptional TStr) (opt_str x)"
  by (simp add: opt_str_def split: option.split)

lemma conforms_opt_int [simp]: "conforms (TOptional TInt) (opt_int x)"
  by (simp add: opt_int_def split: option.split)

end
