(* ===== verification/EventShapes.thy ===== *)
theory EventShapes
  imports Schemas PolicyAudit ToolAudit Credentials
begin

text \<open>
  The payload builders produce payloads of the declared shape: whatever a policy decision, a ledger entry
  or a credential audit is built from, its event is accepted by the class its kind is validated with.
\<close>

lemmas payload_classes = payload_model_for_kind_def STRICT_MODELS_def PAYLOAD_MODELS_def

lemma kind_policy: "event_conforms ''policy_decision_recorded'' d \<longleftrightarrow>
    conforms PolicyDecisionRecordedPayload (PDict (strip_schema_version d))"
  by (simp add: event_conforms_def payload_classes)

lemma kind_ledger: "event_conforms ''tool_side_effect_recorded'' d \<longleftrightarrow>
    conforms ToolSideEffectRecordedPayload (PDict (strip_schema_version d))"
  by (simp add: event_conforms_def payload_classes)

lemma kind_audit: "event_conforms ''credential_binding_audit'' d \<longleftrightarrow>
    conforms CredentialBindingAuditPayload (PDict (strip_schema_version d))"
  by (simp add: event_conforms_def payload_classes)

lemma safe_metadata_dict: "is_dict (safe_metadata sha value)"
  by (simp add: safe_metadata_def)

lemma policy_fields_conform:
  assumes "scope \<in> set POLICY_SCOPES" and "dec \<in> set POLICY_DECISIONS" and "is_dict metadata"
  shows "conforms PolicyDecisionRecordedPayload (PDict
     [(''policy_trace_id'', PStr trace), (''scope'', PStr scope), (''source'', PStr src), (''subject'', PStr subject),
      (''action'', PStr action), (''resource'', PStr resource), (''decision'', PStr dec), (''reason'', PStr reason),
      (''risk_level'', PStr risk), (''requires_approval'', PBool appr), (''related_call_id'', opt_str call_id),
      (''related_event_id'', opt_int event_id), (''metadata'', metadata)])"
  using assms
  by (simp add: PolicyDecisionRecordedPayload_def POLICY_SCOPES_def POLICY_DECISIONS_def del: conforms.simps(8))

lemma policy_scope_known: "(if s \<in> set POLICY_SCOPES then s else ''tool'') \<in> set POLICY_SCOPES"
  by (simp add: POLICY_SCOPES_def)

lemma policy_decision_known: "(if s \<in> set POLICY_DECISIONS then s else ''deny'') \<in> set POLICY_DECISIONS"
  by (simp add: POLICY_DECISIONS_def)

lemma policy_payload_conforms:
  assumes "build_policy_decision_payload sha ok fresh a = Some d"
  shows "event_conforms ''policy_decision_recorded'' d"
proof (cases "safe_resource ok (pa_resource a)")
  case None
  then show ?thesis using assms by (simp only: build_policy_decision_payload_def Let_def option.case) simp
next
  case (Some resource)
  show ?thesis
    using assms
    apply (simp only: build_policy_decision_payload_def Let_def Some option.case option.inject)
    apply (drule sym)
    apply (simp only: kind_policy)
    apply (simp only: strip_schema_version_def)
    apply (simp add: policy_fields_conform [OF policy_scope_known policy_decision_known safe_metadata_dict]
        del: conforms.simps)
    done
qed

lemma approval_status_values:
  "approval_status_of a b \<in> {''not_required'', ''pending'', ''approved'', ''rejected'', ''policy_blocked''}"
  by (auto simp: approval_status_of_def split: option.splits)

lemma side_effect_status_values:
  "side_effect_status success reused et ex why \<in> {''confirmed'', ''reused'', ''none'', ''unknown'', ''blocked''}"
  by (simp add: side_effect_status_def)

lemma ledger_payload_conforms:
  assumes "build_tool_side_effect_payload ok st fin reason appr src tr = Some (Some d)"
  shows "event_conforms ''tool_side_effect_recorded'' d"
proof -
  have f: "side_effect_fields ok (as_dict st) (as_dict fin) reason appr src tr = Some d"
    and n: "str_or (py_or (dget (as_dict fin) ''name'') (dget (as_dict st) ''name'')) = ''http_post''"
    using assms by (auto simp: build_tool_side_effect_payload_def Let_def split: if_splits option.splits)
  obtain cid path m rl ra ap se su code key reused why et ex where d: "d =
     [(''tool_name'', PStr ''http_post''), (''call_id'', PStr cid), (''path'', PStr path), (''method'', PStr m),
      (''risk_level'', PStr rl), (''requires_approval'', PBool ra), (''approval_status'', PStr ap),
      (''side_effect_status'', PStr se), (''success'', PBool su), (''status_code'', opt_int code),
      (''idempotency_key'', opt_str key), (''idempotency_reused'', PBool reused), (''compensatable'', PBool False),
      (''reason'', PStr why), (''policy_source'', opt_str src), (''policy_trace_id'', opt_str tr)]
    \<and> ap = approval_status_of appr ra
    \<and> se = (if ap \<in> {''policy_blocked'', ''rejected''} then ''blocked'' else side_effect_status su reused et ex why)"
    using f n by (auto simp: side_effect_fields_def Let_def split: option.splits)
  have "ap \<in> {''not_required'', ''pending'', ''approved'', ''rejected'', ''policy_blocked''}"
    using d approval_status_values by blast
  moreover have "se \<in> {''confirmed'', ''reused'', ''none'', ''unknown'', ''blocked''}"
    using d side_effect_status_values [of su reused et ex why] by (simp split: if_splits)
  ultimately show ?thesis
    unfolding kind_ledger ToolSideEffectRecordedPayload_def conjunct1 [OF d]
    by (simp add: strip_schema_version_def del: conforms.simps(8))
qed

lemma conforms_str_list [simp]: "conforms (TList TStr) (str_list xs)"
  by (simp add: str_list_def list_all_iff)

lemma audit_payload_conforms:
  assumes "action \<in> set CREDENTIAL_ACTIONS"
  shows "event_conforms ''credential_binding_audit'' (build_credential_audit_payload action b tool_name scopes reason user_id)"
  unfolding kind_audit CredentialBindingAuditPayload_def using assms
  by (simp add: build_credential_audit_payload_def strip_schema_version_def del: conforms.simps(9))

end
