(* ===== verification/SafetyGate.thy ===== *)
theory SafetyGate
  imports PolicyGate Planning EventShapes
begin

text \<open>
  The node of the agent's graph between the language model and its tools
  (\<^verbatim>\<open>copilot_agent/agent/nodes.py\<close>, \<^verbatim>\<open>AgentNodes.safety_gate\<close>), and the edges around it
  (\<^verbatim>\<open>agent/graph.py\<close>). The node either leaves the state alone, so that the pending tool calls go to
  the tools, or answers with a message, which ends the turn, or interrupts the graph for an approval;
  every verdict is recorded in the event log first.

  \<^verbatim>\<open>interrupt\<close> of the graph library raises when the graph was not resumed and returns the value it was
  resumed with otherwise; the node then runs again from its start. The payload builders take the hash
  function, the test of \<^verbatim>\<open>urlsplit\<close> and the numbered UUIDs as parameters.
\<close>

section \<open>The run of the node\<close>

record gate_env =
  ge_sha256 :: "string \<Rightarrow> string"
  ge_netloc_ok :: "string \<Rightarrow> bool"
  ge_uuid :: "nat \<Rightarrow> string"
  ge_allow_job_post :: bool
  ge_route_enforce :: bool
  ge_policy :: policy_registry
  ge_registry :: tool_registry

text \<open>What the configuration of the graph run says.\<close>

record gate_ctx =
  gx_thread_id :: string
  gx_run_id :: string
  gx_allow_job_post :: bool
  gx_confirm_dangerous :: bool
  gx_resume :: "bool option"

definition gate_ctx_of :: "gate_env \<Rightarrow> dict \<Rightarrow> bool option \<Rightarrow> gate_ctx" where
  "gate_ctx_of env ctx resume =
     \<lparr>gx_thread_id = str_or (py_or (dget ctx ''conversation_id'') (dget ctx ''thread_id'')),
      gx_run_id = str_or (dget ctx ''run_id''),
      gx_allow_job_post = truthy (dget_or ctx ''allow_job_post'' (PBool (ge_allow_job_post env))),
      gx_confirm_dangerous = truthy (dget_or ctx ''confirm_dangerous'' (PBool False)),
      gx_resume = resume\<rparr>"

text \<open>The events appended so far and the number of UUIDs drawn; \<open>None\<close> in its place is an exception.\<close>

type_synonym gate_log = "(string \<times> dict) list \<times> nat option"

definition and_then :: "gate_log \<Rightarrow> ((string \<times> dict) list \<Rightarrow> nat \<Rightarrow> gate_log) \<Rightarrow> gate_log" where
  "and_then l f = (case snd l of None \<Rightarrow> l | Some n \<Rightarrow> f (fst l) n)"

text \<open>\<^verbatim>\<open>MemoryManager.append_event\<close>, which drops the event of an unnamed run.\<close>

definition memory_append :: "gate_ctx \<Rightarrow> string \<Rightarrow> dict \<Rightarrow> (string \<times> dict) list \<Rightarrow> (string \<times> dict) list" where
  "memory_append x event_type payload es = (if gx_run_id x \<noteq> [] then es @ [(event_type, payload)] else es)"

definition policy_payload :: "gate_env \<Rightarrow> nat \<Rightarrow> policy_args \<Rightarrow> dict option" where
  "policy_payload env n a = build_policy_decision_payload (ge_sha256 env) (ge_netloc_ok env) (ge_uuid env n) a"

definition append_policy :: "gate_env \<Rightarrow> gate_ctx \<Rightarrow> policy_args \<Rightarrow> (string \<times> dict) list \<Rightarrow> nat \<Rightarrow> gate_log" where
  "append_policy env x a es n =
     (case policy_payload env n a of
        None \<Rightarrow> (es, None)
      | Some payload \<Rightarrow> (memory_append x ''policy_decision_recorded'' payload es, Some (Suc n)))"

section \<open>Helpers of the node\<close>

definition call_requires_approval :: "tool_registry \<Rightarrow> dict \<Rightarrow> bool" where
  "call_requires_approval registry call =
     (case get_spec registry (str_or (dget call ''name'')) of
        None \<Rightarrow> str_or (dget call ''name'') = ''http_post''
      | Some spec \<Rightarrow> requires_approval_for spec (as_dict (dget call ''args'')))"

definition risk_level_for :: "tool_registry \<Rightarrow> string \<Rightarrow> string" where
  "risk_level_for registry tool_name =
     (case get_spec registry tool_name of
        None \<Rightarrow> if tool_name = ''http_post'' then ''high'' else []
      | Some spec \<Rightarrow> ts_risk_level spec)"

definition gate_policy_args :: "string \<Rightarrow> string \<Rightarrow> string \<Rightarrow> string \<Rightarrow> string \<Rightarrow> string \<Rightarrow> policy_args" where
  "gate_policy_args scope source subject action resource decision =
     \<lparr>pa_scope = scope, pa_source = source, pa_action = action, pa_decision = decision, pa_reason = [],
      pa_subject = subject, pa_resource = resource, pa_risk_level = [], pa_requires_approval = False,
      pa_related_call_id = None, pa_related_event_id = None, pa_policy_trace_id = None, pa_metadata = []\<rparr>"

definition some_text :: "string \<Rightarrow> string option" where
  "some_text s = (if s \<noteq> [] then Some s else None)"

definition audit_policy_args :: "tool_registry \<Rightarrow> dict \<Rightarrow> policy_args" where
  "audit_policy_args registry audit =
     (gate_policy_args ''credential'' (or_text (str_or (dget audit ''provider'')) ''credential_scope'')
        (str_or (dget audit ''tool_name'')) ''credential_scope_check'' (str_or (dget audit ''binding_id'')) ''deny'')
     \<lparr>pa_reason := or_text (str_or (dget audit ''reason'')) ''credential_denied'',
      pa_risk_level := risk_level_for registry (str_or (dget audit ''tool_name'')),
      pa_metadata := [(''required_scopes'', PList (as_list (dget audit ''required_scopes''))),
                      (''granted_scopes'', PList (as_list (dget audit ''granted_scopes''))),
                      (''binding_id'', dget audit ''binding_id'')]\<rparr>"

definition append_credential_policy ::
    "gate_env \<Rightarrow> gate_ctx \<Rightarrow> dict \<Rightarrow> (string \<times> dict) list \<Rightarrow> nat \<Rightarrow> gate_log" where
  "append_credential_policy env x audit es n =
     (if str_or (dget audit ''action'') \<notin> {''scope_denied'', ''credential_read_denied''} then (es, Some n)
      else append_policy env x (audit_policy_args (ge_registry env) audit) es n)"

fun append_audits :: "gate_env \<Rightarrow> gate_ctx \<Rightarrow> dict list \<Rightarrow> (string \<times> dict) list \<Rightarrow> nat \<Rightarrow> gate_log" where
  "append_audits env x [] es n = (es, Some n)"
| "append_audits env x (audit # audits) es n =
     and_then (append_credential_policy env x audit (memory_append x ''credential_binding_audit'' audit es) n)
       (append_audits env x audits)"

text \<open>\<open>_append_blocked_side_effects\<close>: the ledger entries of the calls of a list, under the policy trace
  recorded for the call or else for the message.\<close>

fun blocked_entries ::
    "gate_env \<Rightarrow> gate_ctx \<Rightarrow> string list \<Rightarrow> string \<Rightarrow> string \<Rightarrow> (string \<Rightarrow> string option) \<Rightarrow> dict list \<Rightarrow>
     (string \<times> dict) list \<Rightarrow> nat \<Rightarrow> gate_log" where
  "blocked_entries env x known reason source trace [] es n = (es, Some n)"
| "blocked_entries env x known reason source trace (call # calls) es n =
     (let call_id = strip (pending_call_id call) in
      if call_id \<noteq> [] \<and> call_id \<in> set known then blocked_entries env x known reason source trace calls es n
      else case build_blocked_tool_side_effect_payload (ge_netloc_ok env) call (or_text reason ''policy_blocked'')
             (Some (or_text source ''policy'')) (call_requires_approval (ge_registry env) call) (trace call_id) of
             None \<Rightarrow> (es, None)
           | Some None \<Rightarrow> blocked_entries env x known reason source trace calls es n
           | Some (Some payload) \<Rightarrow> blocked_entries env x known reason source trace calls
               (memory_append x ''tool_side_effect_recorded'' payload es) n)"

definition append_blocked ::
    "gate_env \<Rightarrow> gate_ctx \<Rightarrow> string list \<Rightarrow> string \<Rightarrow> string \<Rightarrow> (string \<Rightarrow> string option) \<Rightarrow> dict list \<Rightarrow>
     (string \<times> dict) list \<Rightarrow> nat \<Rightarrow> gate_log" where
  "append_blocked env x known reason source trace calls es n =
     (if gx_thread_id x = [] \<or> gx_run_id x = [] then (es, Some n)
      else blocked_entries env x known reason source trace calls es n)"

section \<open>The verdicts\<close>

datatype gate_outcome = Unchanged | Reply string | AwaitApproval dict | GateRaised

definition outcome_of :: "gate_log \<Rightarrow> gate_outcome \<Rightarrow> gate_outcome \<times> (string \<times> dict) list" where
  "outcome_of l out = (case snd l of None \<Rightarrow> GateRaised | Some n \<Rightarrow> out, fst l)"

definition decision_resource :: "policy_decision \<Rightarrow> string" where
  "decision_resource d = py_str (py_or (dget (pd_metadata d) ''path'') (PStr (pd_tool_name d)))"

definition decision_args :: "gate_env \<Rightarrow> policy_decision \<Rightarrow> string \<Rightarrow> string \<Rightarrow> string \<Rightarrow> policy_args" where
  "decision_args env d scope verdict reason =
     (gate_policy_args scope (pd_policy_source d) (pd_tool_name d) ''tool_call'' (decision_resource d) verdict)
     \<lparr>pa_reason := or_text (pd_reason d) reason, pa_risk_level := risk_level_for (ge_registry env) (pd_tool_name d),
      pa_requires_approval := (verdict = ''ask''), pa_related_call_id := some_text (pd_call_id d),
      pa_metadata := pd_metadata d\<rparr>"

text \<open>The branch of a denied message. The payload is built before the guard on its append.\<close>

definition gate_denied ::
    "gate_env \<Rightarrow> gate_ctx \<Rightarrow> string list \<Rightarrow> dict list \<Rightarrow> policy_decision \<Rightarrow> (string \<times> dict) list \<Rightarrow> nat \<Rightarrow> gate_log" where
  "gate_denied env x known calls d es n =
     (case policy_payload env n (decision_args env d
             (if pd_policy_source d = ''credential_scope'' then ''credential'' else ''tool'') ''deny'' ''policy_denied'') of
        None \<Rightarrow> (es, None)
      | Some payload \<Rightarrow>
          append_blocked env x known (or_text (pd_reason d) ''policy_blocked'') (pd_policy_source d)
            (\<lambda>_. Some (str_or (dget payload ''policy_trace_id''))) calls
            (if gx_thread_id x \<noteq> [] then memory_append x ''policy_decision_recorded'' payload es else es) (Suc n))"

definition route_block_args :: "gate_env \<Rightarrow> tool_route \<Rightarrow> dict \<Rightarrow> policy_args" where
  "route_block_args env r call =
     (gate_policy_args ''route'' ''tool_route_policy'' (call_name call) ''tool_call'' (rt_kind r) ''block'')
     \<lparr>pa_reason := ''tool_route_forbidden'', pa_risk_level := risk_level_for (ge_registry env) (call_name call),
      pa_requires_approval := call_requires_approval (ge_registry env) call,
      pa_related_call_id := some_text (pending_call_id call),
      pa_metadata := [(''route_kind'', PStr (rt_kind r)), (''recommended_tools'', strs (rt_recommended_tools r)),
                      (''forbidden_tools'', strs (rt_forbidden_tools r))]\<rparr>"

fun append_route_blocks ::
    "gate_env \<Rightarrow> gate_ctx \<Rightarrow> tool_route \<Rightarrow> dict list \<Rightarrow> (string \<times> string) list \<Rightarrow> (string \<times> dict) list \<Rightarrow> nat \<Rightarrow>
     (string \<times> string) list \<times> gate_log" where
  "append_route_blocks env x r [] traces es n = (traces, es, Some n)"
| "append_route_blocks env x r (call # calls) traces es n =
     (case policy_payload env n (route_block_args env r call) of
        None \<Rightarrow> (traces, es, None)
      | Some payload \<Rightarrow> append_route_blocks env x r calls
          (if pending_call_id call \<noteq> [] then (pending_call_id call, str_or (dget payload ''policy_trace_id'')) # traces
           else traces)
          (memory_append x ''policy_decision_recorded'' payload es) (Suc n))"

definition gate_route_blocked ::
    "gate_env \<Rightarrow> gate_ctx \<Rightarrow> string list \<Rightarrow> tool_route \<Rightarrow> dict list \<Rightarrow> (string \<times> dict) list \<Rightarrow> nat \<Rightarrow> gate_log" where
  "gate_route_blocked env x known r blocked es n =
     (case append_route_blocks env x r blocked [] es n of
        (traces, l) \<Rightarrow> and_then l
          (append_blocked env x known ''policy_blocked'' ''tool_route_policy''
            (\<lambda>c. case map_of traces c of Some t \<Rightarrow> some_text t | None \<Rightarrow> None) blocked))"

definition route_reply :: "tool_route \<Rightarrow> dict list \<Rightarrow> string" where
  "route_reply r blocked =
     ''Tool routing blocked '' @ join '', '' (map call_name blocked) @ '' for intent '' @ quoted (rt_kind r) @
     ''. Recommended: '' @ or_text (join '' -> '' (rt_recommended_tools r)) ''no tools'' @ ''. '' @ rt_rationale r"

definition approval_request :: "policy_decision \<Rightarrow> dict list \<Rightarrow> dict" where
  "approval_request d calls =
     [(''required'', PBool True), (''reason'', PStr (or_text (pd_reason d) ''dangerous_tool'')),
      (''message'', PStr (pd_message d)),
      (''tool_calls'', PList (map (\<lambda>call. sanitize_tool_payload MAX_STRING_LENGTH (PDict call)) calls))]"

definition gate_approval ::
    "gate_env \<Rightarrow> gate_ctx \<Rightarrow> policy_decision \<Rightarrow> dict list \<Rightarrow> (string \<times> dict) list \<Rightarrow> nat \<Rightarrow>
     gate_outcome \<times> (string \<times> dict) list" where
  "gate_approval env x d calls es n =
     outcome_of
       (if gx_thread_id x \<noteq> [] \<and> gx_run_id x \<noteq> []
        then append_policy env x (decision_args env d ''tool'' ''ask'' ''approval_required'') es n else (es, Some n))
       (case gx_resume x of
          None \<Rightarrow> AwaitApproval (approval_request d calls)
        | Some approved \<Rightarrow> if approved then Unchanged else Reply ''Dangerous tool call was rejected by the user.'')"

text \<open>The calls a route forbids, when routes are enforced and the state has one.\<close>

definition route_forbids :: "gate_env \<Rightarrow> tool_route option \<Rightarrow> dict list \<Rightarrow> dict list" where
  "route_forbids env route calls =
     (case route of
        None \<Rightarrow> []
      | Some r \<Rightarrow> if ge_route_enforce env then filter (\<lambda>call. \<not> tool_allowed r (call_name call)) calls else [])"

definition pending_calls :: "lc_message list \<Rightarrow> dict list" where
  "pending_calls messages =
     (if messages = [] then [] else case last messages of AIMessage _ calls \<Rightarrow> calls | _ \<Rightarrow> [])"

text \<open>The node. \<open>known\<close> are the call ids of the ledger entries already in the log of the run.\<close>

definition safety_gate ::
    "gate_env \<Rightarrow> gate_ctx \<Rightarrow> string list \<Rightarrow> tool_route option \<Rightarrow> lc_message list \<Rightarrow>
     gate_outcome \<times> (string \<times> dict) list" where
  "safety_gate env x known route messages =
     (let calls = pending_calls messages in
      if calls = [] then (Unchanged, [])
      else
        (let d = evaluate_tool_calls (ge_policy env) calls (gx_allow_job_post x) (gx_confirm_dangerous x)
         in case (if gx_thread_id x \<noteq> [] \<and> gx_run_id x \<noteq> []
                  then append_audits env x (pd_credential_audits d) [] 0 else ([], Some 0)) of
              (es, None) \<Rightarrow> (GateRaised, es)
            | (es, Some n) \<Rightarrow>
                (if \<not> pd_allowed d
                 then outcome_of (gate_denied env x known calls d es n) (Reply (pd_message d))
                 else
                   (let blocked = route_forbids env route calls
                    in if blocked \<noteq> []
                       then outcome_of (gate_route_blocked env x known (the route) blocked es n)
                         (Reply (route_reply (the route) blocked))
                       else if pd_requires_approval d then gate_approval env x d calls es n
                       else (Unchanged, es)))))"

section \<open>The edges\<close>

definition has_pending :: "lc_message list \<Rightarrow> bool" where
  "has_pending messages \<longleftrightarrow> pending_calls messages \<noteq> []"

definition route_after_assistant :: "lc_message list \<Rightarrow> string" where
  "route_after_assistant messages = (if has_pending messages then ''safety_gate'' else ''__end__'')"

definition route_after_safety_gate :: "lc_message list \<Rightarrow> string" where
  "route_after_safety_gate messages = (if has_pending messages then ''tools'' else ''__end__'')"

text \<open>The messages after the node, for the outcomes that let the graph go on.\<close>

fun after_gate :: "gate_outcome \<Rightarrow> lc_message list \<Rightarrow> lc_message list option" where
  "after_gate Unchanged messages = Some messages"
| "after_gate (Reply text) messages = Some (messages @ [AIMessage (PStr text) []])"
| "after_gate (AwaitApproval request) messages = None"
| "after_gate GateRaised messages = None"

definition next_node :: "gate_outcome \<Rightarrow> lc_message list \<Rightarrow> string option" where
  "next_node out messages = map_option route_after_safety_gate (after_gate out messages)"

section \<open>What reaches the tools\<close>

lemma next_tools: "next_node out messages = Some ''tools'' \<longleftrightarrow> out = Unchanged \<and> has_pending messages"
  by (cases out) (auto simp: next_node_def route_after_safety_gate_def has_pending_def pending_calls_def)

text \<open>An approval rule of the registry that asks about every call the policy calls dangerous.\<close>

definition rule_covers :: "policy_registry \<Rightarrow> bool" where
  "rule_covers p \<longleftrightarrow> (\<forall>call. dangerous_call p call \<longrightarrow> rule_asks p call True)"

lemma outcome_Unchanged:
  "fst (outcome_of l out) = Unchanged \<Longrightarrow> out = Unchanged"
  by (auto simp: outcome_of_def split: option.splits prod.splits)

lemma gate_unchanged:
  assumes "fst (safety_gate env x known route messages) = Unchanged" "has_pending messages"
  defines "calls \<equiv> pending_calls messages"
  defines "d \<equiv> evaluate_tool_calls (ge_policy env) calls (gx_allow_job_post x) (gx_confirm_dangerous x)"
  shows "pd_allowed d \<and> route_forbids env route calls = [] \<and> (pd_requires_approval d \<longrightarrow> gx_resume x = Some True)"
  using assms(1,2) unfolding has_pending_def calls_def [symmetric]
  by (auto simp: safety_gate_def Let_def calls_def [symmetric] d_def [symmetric] gate_approval_def
      dest!: outcome_Unchanged split: option.splits prod.splits if_splits)


section \<open>What a denial leaves in the log\<close>

lemma blocked_payload:
  assumes "str_or (dget call ''name'') = ''http_post''"
    and "build_blocked_tool_side_effect_payload ok call reason src req tr = Some r"
  shows "\<exists>d. r = Some d \<and> dget d ''side_effect_status'' = PStr ''blocked''
    \<and> dget d ''call_id'' = PStr (strip (pending_call_id call))"
proof -
  define st where "st = [(''name'', PStr (''http_post'')), (''call_id'', PStr (strip (pending_call_id call))),
      (''category'', PStr ''http''), (''risk_level'', PStr ''high''), (''requires_approval'', PBool req),
      (''arguments'', PDict (as_dict (dget call ''args''))),
      (''idempotency_key'', dget (as_dict (dget call ''args'')) ''idempotency_key'')]"
  define fin where "fin = [(''name'', PStr (''http_post'')), (''call_id'', PStr (strip (pending_call_id call))),
      (''success'', PBool False), (''error'', PStr ''tool execution was blocked before side effect''),
      (''idempotency_key'', dget st ''idempotency_key''),
      (''result'', PDict [(''success'', PBool False), (''error'', PStr reason), (''metadata'', PDict [])])]"
  define appr where "appr = Some (if reason \<noteq> ''approval_rejected'' then ''policy_blocked'' else ''rejected'')"
  have b: "build_tool_side_effect_payload ok (PDict st) (PDict fin) (Some reason) appr src tr = Some r"
    using assms by (simp add: build_blocked_tool_side_effect_payload_def Let_def st_def fin_def appr_def pending_call_id_def)
  then obtain d where d: "r = Some d" "side_effect_fields ok st fin (Some reason) appr src tr = Some d"
    by (auto simp: build_tool_side_effect_payload_def Let_def st_def fin_def py_or_def str_or_def)
  have "dget d ''side_effect_status'' = PStr ''blocked''"
    using fields_status [OF d(2)] by (auto simp: appr_def approval_status_of_def)
  moreover have "dget d ''call_id'' = PStr (strip (pending_call_id call))"
    using d(2) by (auto simp: side_effect_fields_def Let_def st_def fin_def py_or_def str_or_def split: option.splits)
  ultimately show ?thesis using d(1) by blast
qed

definition blocked_recorded :: "(string \<times> dict) list \<Rightarrow> dict \<Rightarrow> bool" where
  "blocked_recorded es call \<longleftrightarrow>
     (\<exists>payload. (''tool_side_effect_recorded'', payload) \<in> set es
       \<and> dget payload ''side_effect_status'' = PStr ''blocked''
       \<and> dget payload ''call_id'' = PStr (strip (pending_call_id call)))"

lemma memory_append_mono: "set es \<subseteq> set (memory_append x ty payload es)"
  by (auto simp: memory_append_def)

lemma blocked_entries_mono: "set es \<subseteq> set (fst (blocked_entries env x known reason src tr calls es n))"
proof (induction calls arbitrary: es)
  case (Cons call calls)
  have "set es \<subseteq> set (fst (blocked_entries env x known reason src tr calls
      (memory_append x ''tool_side_effect_recorded'' payload es) n))" for payload
    using memory_append_mono Cons.IH by (rule subset_trans)
  then show ?case using Cons.IH [of es] by (simp add: Let_def split: option.split)
qed simp

lemma blocked_entries_recorded:
  assumes "blocked_entries env x known reason src tr calls es n = (es', Some m)" "gx_run_id x \<noteq> []"
    and "call \<in> set calls" "str_or (dget call ''name'') = ''http_post''"
    and "strip (pending_call_id call) = [] \<or> strip (pending_call_id call) \<notin> set known"
  shows "blocked_recorded es' call"
  using assms(1,3)
proof (induction calls arbitrary: es)
  case (Cons c calls)
  show ?case
  proof (cases "c = call")
    case True
    obtain payload where p: "build_blocked_tool_side_effect_payload (ge_netloc_ok env) call (or_text reason ''policy_blocked'')
        (Some (or_text src ''policy'')) (call_requires_approval (ge_registry env) call) (tr (strip (pending_call_id call))) = Some payload"
      using Cons.prems(1) assms(5) True by (auto simp: Let_def split: option.splits)
    then obtain d where d: "payload = Some d" "dget d ''side_effect_status'' = PStr ''blocked''"
        "dget d ''call_id'' = PStr (strip (pending_call_id call))"
      using blocked_payload [OF assms(4)] by blast
    then have "blocked_entries env x known reason src tr calls (es @ [(''tool_side_effect_recorded'', d)]) n = (es', Some m)"
      using Cons.prems(1) assms(2,5) True p by (auto simp: Let_def memory_append_def)
    then have "(''tool_side_effect_recorded'', d) \<in> set es'"
      using blocked_entries_mono [of "es @ [(''tool_side_effect_recorded'', d)]" env x known reason src tr calls n] by auto
    then show ?thesis using d by (auto simp: blocked_recorded_def)
  next
    case False
    then have "call \<in> set calls" using Cons.prems(2) by simp
    then show ?thesis
      using Cons.IH Cons.prems(1) by (auto simp: Let_def split: if_splits option.splits)
  qed
qed simp

lemma payload_decision:
  "policy_payload env n a = Some payload \<Longrightarrow> pa_decision a \<in> set POLICY_DECISIONS \<Longrightarrow>
   dget payload ''decision'' = PStr (pa_decision a)"
  by (auto simp: policy_payload_def build_policy_decision_payload_def Let_def split: option.splits)

text \<open>
  C34. A message the policy denies is answered, never executed, and the answer is on the record: the log of
  the run has the denial, and every write the message asked for has a ledger entry saying that it was
  blocked, unless its call already has one.
\<close>

theorem denial_recorded:
  assumes "safety_gate env x known route messages = (out, es)" "out \<noteq> GateRaised"
    and "gx_thread_id x \<noteq> []" "gx_run_id x \<noteq> []"
    and "pending_calls messages = calls" "calls \<noteq> []"
    and "\<not> pd_allowed (evaluate_tool_calls (ge_policy env) calls (gx_allow_job_post x) (gx_confirm_dangerous x))"
  shows "(\<exists>text. out = Reply text)
    \<and> (\<exists>payload. (''policy_decision_recorded'', payload) \<in> set es \<and> dget payload ''decision'' = PStr ''deny'')
    \<and> (\<forall>c \<in> set calls. str_or (dget c ''name'') = ''http_post'' \<and> strip (pending_call_id c) \<notin> set known
         \<longrightarrow> blocked_recorded es c)"
proof -
  define d where "d = evaluate_tool_calls (ge_policy env) calls (gx_allow_job_post x) (gx_confirm_dangerous x)"
  have deny: "\<not> pd_allowed d" using assms(7) by (simp add: d_def)
  obtain es0 n where a: "append_audits env x (pd_credential_audits d) [] 0 = (es0, Some n)"
    and o: "(out, es) = outcome_of (gate_denied env x known calls d es0 n) (Reply (pd_message d))"
    using assms(1-6) deny
    by (auto simp: safety_gate_def Let_def d_def [symmetric] split: prod.splits option.splits)
  obtain payload m where p: "policy_payload env n (decision_args env d
      (if pd_policy_source d = ''credential_scope'' then ''credential'' else ''tool'') ''deny'' ''policy_denied'') = Some payload"
    and b: "blocked_entries env x known (or_text (pd_reason d) ''policy_blocked'') (pd_policy_source d)
      (\<lambda>_. Some (str_or (dget payload ''policy_trace_id''))) calls
      (es0 @ [(''policy_decision_recorded'', payload)]) (Suc n) = (es, Some m)"
    using o assms(2-4)
    by (auto simp: outcome_of_def gate_denied_def append_blocked_def memory_append_def prod_eq_iff split: option.splits)
  have "dget payload ''decision'' = PStr ''deny''"
    using payload_decision [OF p] by (simp add: decision_args_def gate_policy_args_def POLICY_DECISIONS_def)
  moreover have "(''policy_decision_recorded'', payload) \<in> set es"
    using blocked_entries_mono [of "es0 @ [(''policy_decision_recorded'', payload)]" env x known
        "or_text (pd_reason d) ''policy_blocked''" "pd_policy_source d"
        "\<lambda>_. Some (str_or (dget payload ''policy_trace_id''))" calls "Suc n"]
    unfolding b by simp
  moreover have "out = Reply (pd_message d)"
    using o assms(2) by (auto simp: outcome_of_def split: option.splits)
  ultimately show ?thesis
    using blocked_entries_recorded [OF b assms(4)] by auto
qed

section \<open>The shape of the events\<close>

abbreviation well_shaped :: "(string \<times> dict) list \<Rightarrow> bool" where
  "well_shaped es \<equiv> list_all (\<lambda>(kind, payload). event_conforms kind payload) es"

lemma verdict_audits [simp]:
  "pd_credential_audits (deny call message reason src metadata audits) = audits"
  "pd_credential_audits (ask call b message reason src metadata audits) = audits"
  by (simp_all add: deny_def ask_def)

lemma guard_audits:
  "list_guard p call audits = Some d \<Longrightarrow> pd_credential_audits d = audits"
  "mcp_guard p call audits = Some d \<Longrightarrow> pd_credential_audits d = audits"
  "dangerous_guard p allow confirm call audits = Some d \<Longrightarrow> pd_credential_audits d = audits"
  "approval_guard p confirm call audits = Some d \<Longrightarrow> pd_credential_audits d = audits"
  by (auto simp: list_guard_def mcp_guard_def dangerous_guard_def approval_guard_def Let_def
      split: if_splits option.splits)

lemma scope_guard_audits: "scope_guard p call audits = (r, audits') \<Longrightarrow> r = Some d \<Longrightarrow> pd_credential_audits d = audits'"
  by (auto simp: scope_guard_def Let_def split: if_splits option.splits)

lemma examine_audits:
  "examine_call p allow confirm call audits = (r, audits') \<Longrightarrow>
     (\<forall>d. r = Some d \<longrightarrow> pd_credential_audits d = audits') \<and> (audits' = audits \<or> audits' = snd (scope_guard p call audits))"
  unfolding examine_call_def or_else_def
  by (auto dest: guard_audits scope_guard_audits split: option.splits prod.splits)

lemma audits_conform:
  assumes "list_all (event_conforms ''credential_binding_audit'') audits"
  shows "list_all (event_conforms ''credential_binding_audit'') (pd_credential_audits (examine_calls p allow confirm calls audits))"
  using assms
proof (induction calls arbitrary: audits)
  case Nil
  then show ?case by (simp add: plain_decision_def)
next
  case (Cons call calls)
  have sc: "list_all (event_conforms ''credential_binding_audit'') (pd_credential_audits d)"
    if "evaluate_required_scopes p name spec = Some d" for name spec d
    using that
    by (auto simp: evaluate_required_scopes_def Let_def scope_decision_def plain_decision_def CREDENTIAL_ACTIONS_def
        intro!: audit_payload_conforms split: option.splits if_splits)
  have sg: "list_all (event_conforms ''credential_binding_audit'') (snd (scope_guard p call audits))"
    using Cons.prems sc by (auto simp: scope_guard_def Let_def split: option.split)
  obtain r audits' where r: "examine_call p allow confirm call audits = (r, audits')" by fastforce
  have "list_all (event_conforms ''credential_binding_audit'') audits'"
    using examine_audits [OF r] sg Cons.prems by auto
  then show ?case
    using Cons.IH [of audits'] examine_audits [OF r] by (simp add: r split: option.split)
qed

lemma shaped_append: "well_shaped es \<Longrightarrow> event_conforms kind payload \<Longrightarrow> well_shaped (memory_append x kind payload es)"
  by (simp add: memory_append_def)

lemma shaped_policy: "policy_payload env n a = Some payload \<Longrightarrow> event_conforms ''policy_decision_recorded'' payload"
  unfolding policy_payload_def by (rule policy_payload_conforms)

lemma shaped_append_policy: "well_shaped es \<Longrightarrow> well_shaped (fst (append_policy env x a es n))"
  by (auto simp: append_policy_def split: option.split intro: shaped_append shaped_policy)

lemma shaped_audits:
  "well_shaped es \<Longrightarrow> list_all (event_conforms ''credential_binding_audit'') audits \<Longrightarrow>
   well_shaped (fst (append_audits env x audits es n))"
proof (induction audits arbitrary: es n)
  case (Cons audit audits)
  have "well_shaped (fst (append_credential_policy env x audit (memory_append x ''credential_binding_audit'' audit es) n))"
    using Cons.prems by (auto simp: append_credential_policy_def intro!: shaped_append_policy shaped_append)
  then show ?case using Cons by (auto simp: and_then_def split: option.split)
qed simp

lemma shaped_blocked:
  "well_shaped es \<Longrightarrow> well_shaped (fst (blocked_entries env x known reason src tr calls es n))"
proof (induction calls arbitrary: es)
  case (Cons call calls)
  have "event_conforms ''tool_side_effect_recorded'' payload"
    if "build_blocked_tool_side_effect_payload ok call r s q t = Some (Some payload)" for ok r s q t payload
    using that unfolding build_blocked_tool_side_effect_payload_def Let_def by (rule ledger_payload_conforms)
  then have "well_shaped (fst (blocked_entries env x known reason src tr calls
      (memory_append x ''tool_side_effect_recorded'' payload es) n))"
    if "build_blocked_tool_side_effect_payload ok call r s q t = Some (Some payload)" for ok r s q t payload
    using that Cons.prems by (intro Cons.IH shaped_append) blast+
  then show ?case
    using Cons by (simp add: Let_def split: option.split)
qed simp

lemma shaped_append_blocked:
  "well_shaped es \<Longrightarrow> well_shaped (fst (append_blocked env x known reason src tr calls es n))"
  by (simp add: append_blocked_def shaped_blocked)

lemma shaped_route_blocks:
  "well_shaped es \<Longrightarrow> well_shaped (fst (snd (append_route_blocks env x r calls traces es n)))"
proof (induction calls arbitrary: traces es n)
  case (Cons call calls)
  then show ?case by (auto intro!: Cons.IH shaped_append shaped_policy split: option.split)
qed simp

text \<open>
  C35. Whatever it decides, and even when it fails, the gate writes only events of the declared shape: each
  payload has the fields, types and literals of the class its kind is validated with, so no later reader
  of the log refuses it.
\<close>

theorem gate_events_shaped:
  "list_all (\<lambda>(kind, payload). event_conforms kind payload) (snd (safety_gate env x known route messages))"
proof (cases "pending_calls messages = []")
  case True
  then show ?thesis by (simp add: safety_gate_def)
next
  case False
  define d where "d = evaluate_tool_calls (ge_policy env) (pending_calls messages) (gx_allow_job_post x) (gx_confirm_dangerous x)"
  define l where "l = (if gx_thread_id x \<noteq> [] \<and> gx_run_id x \<noteq> []
      then append_audits env x (pd_credential_audits d) [] 0 else ([], Some 0))"
  have l: "well_shaped (fst l)"
    using audits_conform [of "[]"] by (auto simp: l_def d_def evaluate_tool_calls_def intro!: shaped_audits)
  have denied: "well_shaped (fst (gate_denied env x known calls d es n))" if "well_shaped es" for calls es n
    using that by (auto simp: gate_denied_def intro!: shaped_append_blocked shaped_append shaped_policy split: option.split)
  have blocked: "well_shaped (fst (gate_route_blocked env x known r calls es n))" if "well_shaped es" for r calls es n
    using shaped_route_blocks [OF that, of env x r calls "[]" n]
    by (auto simp: gate_route_blocked_def and_then_def intro!: shaped_append_blocked split: prod.splits option.split)
  have approval: "well_shaped (snd (gate_approval env x d calls es n))" if "well_shaped es" for calls es n
    using that by (auto simp: gate_approval_def outcome_of_def intro!: shaped_append_policy)
  have "safety_gate env x known route messages =
     (case l of (es, None) \<Rightarrow> (GateRaised, es)
      | (es, Some n) \<Rightarrow>
          (if \<not> pd_allowed d
           then outcome_of (gate_denied env x known (pending_calls messages) d es n) (Reply (pd_message d))
           else if route_forbids env route (pending_calls messages) \<noteq> []
           then outcome_of (gate_route_blocked env x known (the route) (route_forbids env route (pending_calls messages)) es n)
             (Reply (route_reply (the route) (route_forbids env route (pending_calls messages))))
           else if pd_requires_approval d then gate_approval env x d (pending_calls messages) es n
           else (Unchanged, es)))"
    using False by (simp add: safety_gate_def Let_def d_def l_def)
  then show ?thesis
    using l denied blocked approval
    by (cases l; cases "snd l") (auto simp: outcome_of_def)
qed

section \<open>The kernel's own registry\<close>

text \<open>The registry the kernel builds for a scenario, with the HTTP tools registered last.\<close>

lemma kernel_rule_covers:
  assumes "pr_tools p = Some (register_http (sp_dangerous_paths (pr_scenario_policy p)) r)"
    and "\<forall>path \<in> set (sp_dangerous_paths (pr_scenario_policy p)). CHR ''?'' \<notin> set path"
  shows "rule_covers p"
proof -
  have b: "base_path path = path" if "path \<in> set (sp_dangerous_paths (pr_scenario_policy p))" for path
    using assms(2) that by (auto simp: base_path_def takeWhile_eq_all_conv)
  have "rule_asks p call True" if d: "dangerous_call p call" for call
  proof -
    define post where "post = spec_of p ''http_post''"
    have "post = Some ((plain_spec ''http_post'' HTTP_POST_DESCRIPTION ''http'' ''high'')
         \<lparr>ts_requires_approval := dangerous_post_approval_rule (sp_dangerous_paths (pr_scenario_policy p)),
          ts_required_scopes := [''http:write''], ts_timeout_seconds := ''120.0'', ts_max_retries := 0\<rparr>)"
      by (simp add: post_def spec_of_def assms(1) get_spec_def register_http_def register_async_def Let_def update_conv
          plain_spec_def)
    moreover have "base_path (path_arg (call_args call)) \<in> set (filter (\<lambda>x. strip x \<noteq> []) (sp_dangerous_paths (pr_scenario_policy p)))"
      using d b by (auto simp: dangerous_call_def dangerous_paths_def)
    ultimately show ?thesis
      using d by (auto simp: rule_asks_def dangerous_call_def post_def [symmetric] dangerous_post_approval_rule_def Let_def filter_empty_conv)
  qed
  then show ?thesis by (simp add: rule_covers_def)
qed

definition demo_credentials :: credential_manager where
  "demo_credentials = manager_of_resources \<lparr>sr_credential_binding = [], sr_credential_cookie_name = [],
     sr_credential_provider = [], sr_credential_scopes = [], sr_http_get_actuator_paths = [],
     sr_http_get_patterns = [], sr_http_post_paths = []\<rparr> 60"

definition demo_gate :: "string \<Rightarrow> gate_env" where
  "demo_gate dangerous = \<lparr>ge_sha256 = (\<lambda>s. s), ge_netloc_ok = (\<lambda>s. True), ge_uuid = (\<lambda>n. nat_str n),
     ge_allow_job_post = True, ge_route_enforce = False,
     ge_policy = new_policy_registry (Some (register_http [dangerous] (register_rag empty_registry)))
       (Some (default_policy\<lparr>sp_dangerous_paths := [dangerous]\<rparr>)) (Some demo_credentials),
     ge_registry = register_http [dangerous] (register_rag empty_registry)\<rparr>"

definition demo_ctx :: "bool \<Rightarrow> gate_ctx" where
  "demo_ctx confirm = \<lparr>gx_thread_id = ''t1'', gx_run_id = ''r1'', gx_allow_job_post = True,
     gx_confirm_dangerous = confirm, gx_resume = (if confirm then Some True else None)\<rparr>"

definition demo_post :: "string \<Rightarrow> lc_message list" where
  "demo_post tool = [AIMessage (PStr []) [[(''name'', PStr tool), (''args'', PDict [(''path'', PStr ''/jobs'')]),
     (''id'', PStr ''c1'')]]]"

lemma demo_gate_approved: "next_node (fst (safety_gate (demo_gate ''/jobs'') (demo_ctx True) [] None (demo_post ''http_post'')))
    (demo_post ''http_post'') = Some ''tools''"
  by code_simp


lemma demo_denied:
  "fst (safety_gate (demo_gate ''/jobs'') (demo_ctx False) [] None (demo_post ''drop_all'')) =
     Reply (''Tool '' @ quoted ''drop_all'' @ '' is not enabled for this scenario.'')"
  "pd_allowed (evaluate_tool_calls (ge_policy (demo_gate ''/jobs'')) (pending_calls (demo_post ''drop_all'')) True False) = False"
  by code_simp+

lemma denial_recorded_witness:
  "\<exists>payload. (''policy_decision_recorded'', payload)
      \<in> set (snd (safety_gate (demo_gate ''/jobs'') (demo_ctx False) [] None (demo_post ''drop_all'')))
    \<and> dget payload ''decision'' = PStr ''deny''"
proof -
  obtain out es where s: "safety_gate (demo_gate ''/jobs'') (demo_ctx False) [] None (demo_post ''drop_all'') = (out, es)"
    by fastforce
  have "out \<noteq> GateRaised" using demo_denied(1) by (simp add: s)
  moreover have "gx_thread_id (demo_ctx False) \<noteq> []" "gx_run_id (demo_ctx False) \<noteq> []"
    "pending_calls (demo_post ''drop_all'') \<noteq> []" by (simp_all add: demo_ctx_def demo_post_def pending_calls_def)
  moreover have "\<not> pd_allowed (evaluate_tool_calls (ge_policy (demo_gate ''/jobs'')) (pending_calls (demo_post ''drop_all''))
      (gx_allow_job_post (demo_ctx False)) (gx_confirm_dangerous (demo_ctx False)))"
    using demo_denied(2) by (simp add: demo_ctx_def)
  ultimately show ?thesis
    using denial_recorded [OF s _ _ _ refl] unfolding s snd_conv by blast
qed

text \<open>
  The approval rule of the kernel compares the path of the call with the configured path as it stands, the
  policy compares it with the part before the question mark: for a dangerous path configured with a query
  the policy asks but the rule does not, and the call goes on to the tools although nobody approved it.
\<close>

lemma query_in_dangerous_path:
  "next_node (fst (safety_gate (demo_gate ''/jobs?dry=1'') (demo_ctx False) [] None (demo_post ''http_post'')))
     (demo_post ''http_post'') = Some ''tools''
   \<and> list_all (dangerous_call (ge_policy (demo_gate ''/jobs?dry=1''))) (pending_calls (demo_post ''http_post''))
   \<and> gx_confirm_dangerous (demo_ctx False) = False"
  by code_simp

end
