(* ===== verification/ToolResult.thy ===== *)
theory ToolResult
  imports EventShapes
begin

text \<open>
  The envelope of a tool's result (\<^verbatim>\<open>copilot_agent/contracts/tool_result.py\<close>) and the payloads of the
  \<open>tool_start\<close> and \<open>tool_end\<close> events (\<^verbatim>\<open>tools/audit.py\<close>).

  The validation of the two data classes of \<^verbatim>\<open>contracts/tool_data.py\<close>, with the dump that follows it, are the
  parameters \<open>http_data\<close> and \<open>search_data\<close>; \<open>None\<close> is the \<^verbatim>\<open>ValidationError\<close>. A tool's output is a result that
  was made before, a JSON value, a langchain message (its class and attributes) or another object (its text).
\<close>

section \<open>The envelope\<close>

record tool_result =
  tl_success :: bool
  tl_data :: pyval
  tl_error :: "string option"
  tl_duration_ms :: "int option"
  tl_sanitized_args :: "dict option"
  tl_sanitized_result :: "dict option"
  tl_metadata :: dict
  tl_sanitized :: bool

definition HTTP_INTERNAL_KEYS :: "string list" where
  "HTTP_INTERNAL_KEYS = [''ok'', ''_raw_set_cookie_for_store_only'']"

definition opt_dict :: "dict option \<Rightarrow> pyval" where
  "opt_dict x = (case x of None \<Rightarrow> PNone | Some d \<Rightarrow> PDict d)"

definition as_audit_dict :: "tool_result \<Rightarrow> dict" where
  "as_audit_dict r =
     [(''success'', PBool (tl_success r)), (''data'', tl_data r), (''error'', opt_str (tl_error r)),
      (''metadata'', PDict (tl_metadata r)), (''sanitized'', PBool (tl_sanitized r)),
      (''sanitized_args'', opt_dict (tl_sanitized_args r)), (''sanitized_result'', opt_dict (tl_sanitized_result r))]"

definition to_llm_dict :: "tool_result \<Rightarrow> dict" where
  "to_llm_dict r =
     [(''success'', PBool (tl_success r))]
     @ (case tl_error r of Some e \<Rightarrow> if e \<noteq> [] then [(''error'', PStr e)] else [] | None \<Rightarrow> [])
     @ (if tl_data r \<noteq> PNone then [(''data'', tl_data r)] else [])
     @ (if tl_metadata r \<noteq> [] then [(''metadata'', PDict (tl_metadata r))] else [])"

text \<open>\<open>d or None\<close>\<close>

definition dict_or_none :: "dict \<Rightarrow> pyval" where
  "dict_or_none d = (if d \<noteq> [] then PDict d else PNone)"

text \<open>\<open>sanitize_tool_payload\<close> with the default bound, of a dictionary.\<close>

definition sanitize_dict :: "dict \<Rightarrow> dict" where
  "sanitize_dict d = as_dict (sanitize_tool_payload MAX_STRING_LENGTH (PDict d))"

definition http_fields :: "dict \<Rightarrow> dict" where
  "http_fields sanitized =
     filter (\<lambda>(k, v). k \<notin> set HTTP_INTERNAL_KEYS \<and> k \<notin> {''success'', ''error''}) sanitized"

definition from_http_result ::
    "(dict \<Rightarrow> dict option) \<Rightarrow> dict \<Rightarrow> int option \<Rightarrow> dict option \<Rightarrow> tool_result option" where
  "from_http_result http_data raw duration_ms sanitized_args =
     (let sanitized = sanitize_dict raw;
          success = truthy (dget_or raw ''success'' (dget_or raw ''ok'' (PBool False)));
          error = dget raw ''error'';
          error_text = (if error \<noteq> PNone \<and> \<not> success then Some (py_str error) else None);
          metadata = (if dhas sanitized ''status_code'' then [(''status_code'', dget sanitized ''status_code'')] else [])
      in map_option (\<lambda>dump.
           \<lparr>tl_success = success, tl_data = dict_or_none dump, tl_error = error_text, tl_duration_ms = duration_ms,
            tl_sanitized_args = sanitized_args, tl_sanitized_result = Some sanitized, tl_metadata = metadata,
            tl_sanitized = True\<rparr>) (http_data (http_fields sanitized)))"

definition search_fields :: "dict \<Rightarrow> dict" where
  "search_fields sanitized =
     [(''excerpts_markdown'', dget sanitized ''excerpts_markdown''),
      (''sources'', py_or (dget sanitized ''sources'') (PList [])),
      (''citations'', py_or (dget sanitized ''citations'') (PList [])),
      (''suggested_api_paths'', py_or (dget sanitized ''suggested_api_paths'') (PList []))]"

definition from_search_docs :: "(dict \<Rightarrow> dict option) \<Rightarrow> dict \<Rightarrow> int option \<Rightarrow> tool_result option" where
  "from_search_docs search_data raw duration_ms =
     (let sanitized = sanitize_dict raw
      in map_option (\<lambda>typed.
           \<lparr>tl_success = True, tl_data = PDict typed, tl_error = None, tl_duration_ms = duration_ms,
            tl_sanitized_args = None, tl_sanitized_result = Some sanitized,
            tl_metadata = [(''sources'', dget typed ''sources''), (''citations'', dget typed ''citations''),
              (''excerpt_chars'', PInt (int (length (str_or (dget typed ''excerpts_markdown''))))),
              (''suggested_api_paths'', dget typed ''suggested_api_paths'')],
            tl_sanitized = True\<rparr>) (search_data (search_fields sanitized)))"

definition MCP_KEYS :: "string list" where
  "MCP_KEYS = [''content'', ''text'', ''structured'', ''echo'', ''tool'', ''arguments'']"

definition mcp_data :: "dict \<Rightarrow> dict" where
  "mcp_data sanitized =
     (let data = filter (\<lambda>(k, v). v \<noteq> PNone) (map (\<lambda>k. (k, dget sanitized k)) MCP_KEYS);
          data = fold (\<lambda>(k, v). dsetdefault k v) (as_dict (dget sanitized ''structured'')) data
      in if data \<noteq> [] then data
         else filter (\<lambda>(k, v). k \<notin> {''success'', ''error'', ''metadata''}) sanitized)"

definition from_mcp :: "dict \<Rightarrow> string \<Rightarrow> string \<Rightarrow> int option \<Rightarrow> dict option \<Rightarrow> tool_result" where
  "from_mcp raw server tool duration_ms sanitized_args =
     (let sanitized = sanitize_dict raw;
          success = (truthy (dget_or raw ''success'' (PBool True)) \<and> \<not> truthy (dget raw ''error''));
          error = (if truthy (dget raw ''error'') then Some (py_str (dget raw ''error'')) else None)
      in \<lparr>tl_success = success, tl_data = dict_or_none (mcp_data sanitized),
          tl_error = (if success then None else error), tl_duration_ms = duration_ms,
          tl_sanitized_args = sanitized_args, tl_sanitized_result = Some sanitized,
          tl_metadata = dupdate [(''mcp_server'', PStr server), (''mcp_tool'', PStr tool)] (as_dict (dget raw ''metadata'')),
          tl_sanitized = True\<rparr>)"

section \<open>Any output\<close>

datatype tool_output =
    ResultOut tool_result
  | ValueOut pyval
  | MessageOut string dict
  | ObjectOut string

definition message_fields :: "string \<Rightarrow> dict \<Rightarrow> dict" where
  "message_fields cls attrs =
     [(''type'', PStr cls), (''content'', dget_or attrs ''content'' (PStr [])), (''name'', dget attrs ''name''),
      (''tool_call_id'', dget attrs ''tool_call_id''), (''status'', dget attrs ''status'')]"

fun sanitize_output :: "tool_output \<Rightarrow> pyval" where
  "sanitize_output (ValueOut v) = sanitize_tool_payload MAX_STRING_LENGTH v"
| "sanitize_output (MessageOut cls attrs) = sanitize_tool_payload MAX_STRING_LENGTH (PDict (message_fields cls attrs))"
| "sanitize_output (ObjectOut s) = PStr s"
| "sanitize_output (ResultOut r) = PNone"

definition result_of_any :: "pyval \<Rightarrow> bool \<Rightarrow> string option \<Rightarrow> int option \<Rightarrow> dict option \<Rightarrow> tool_result" where
  "result_of_any sanitized success error duration_ms sanitized_args =
     (let d = (case sanitized of PDict d \<Rightarrow> d | v \<Rightarrow> [(''value'', v)])
      in \<lparr>tl_success = success, tl_data = PDict d, tl_error = error, tl_duration_ms = duration_ms,
          tl_sanitized_args = sanitized_args, tl_sanitized_result = Some d, tl_metadata = [], tl_sanitized = True\<rparr>)"

definition copy_result :: "tool_result \<Rightarrow> bool \<Rightarrow> string option \<Rightarrow> int option \<Rightarrow> dict option \<Rightarrow> tool_result" where
  "copy_result r success error duration_ms sanitized_args =
     (if duration_ms \<noteq> None \<or> sanitized_args \<noteq> None \<or> error \<noteq> None then
        (let r = (if duration_ms \<noteq> None then r\<lparr>tl_duration_ms := duration_ms\<rparr> else r);
             r = (if sanitized_args \<noteq> None then r\<lparr>tl_sanitized_args := sanitized_args\<rparr> else r)
         in if error \<noteq> None then r\<lparr>tl_error := error, tl_success := False\<rparr> else r)
      else if \<not> success \<and> tl_success r then r\<lparr>tl_success := False, tl_error := error\<rparr> else r)"

definition search_shaped :: "dict \<Rightarrow> bool" where
  "search_shaped d \<longleftrightarrow> dhas d ''excerpts_markdown''
     \<or> (dhas d ''sources'' \<and> \<not> dhas d ''status_code'' \<and> \<not> dhas d ''body'')"

definition from_structured ::
    "(dict \<Rightarrow> dict option) \<Rightarrow> (dict \<Rightarrow> dict option) \<Rightarrow> dict \<Rightarrow> string option \<Rightarrow> int option \<Rightarrow> dict option \<Rightarrow>
     tool_result option" where
  "from_structured http_data search_data d error duration_ms sanitized_args =
     map_option (\<lambda>r.
       (let r = (case dget d ''metadata'' of PDict m \<Rightarrow> r\<lparr>tl_metadata := dupdate (tl_metadata r) m\<rparr> | _ \<Rightarrow> r)
        in if error \<noteq> None then r\<lparr>tl_success := False, tl_error := error\<rparr> else r))
       (if search_shaped d then from_search_docs search_data d duration_ms
        else from_http_result http_data d duration_ms sanitized_args)"

definition normalize_tool_result ::
    "(dict \<Rightarrow> dict option) \<Rightarrow> (dict \<Rightarrow> dict option) \<Rightarrow> tool_output \<Rightarrow> bool \<Rightarrow> string option \<Rightarrow> int option \<Rightarrow>
     dict option \<Rightarrow> tool_result option" where
  "normalize_tool_result http_data search_data out success error duration_ms sanitized_args =
     (case out of
        ResultOut r \<Rightarrow> Some (copy_result r success error duration_ms sanitized_args)
      | ValueOut (PDict d) \<Rightarrow>
          (if dhas d ''success'' \<or> dhas d ''ok''
           then from_structured http_data search_data d error duration_ms sanitized_args
           else Some (result_of_any (sanitize_output out) success error duration_ms sanitized_args))
      | _ \<Rightarrow> Some (result_of_any (sanitize_output out) success error duration_ms sanitized_args))"

definition result_failure :: "string \<Rightarrow> int option \<Rightarrow> dict option \<Rightarrow> tool_result" where
  "result_failure error duration_ms sanitized_args =
     \<lparr>tl_success = False, tl_data = PNone, tl_error = Some error, tl_duration_ms = duration_ms,
      tl_sanitized_args = sanitized_args, tl_sanitized_result = Some [], tl_metadata = [], tl_sanitized = True\<rparr>"

section \<open>Start and end of a tool call\<close>

definition opt_float :: "string option \<Rightarrow> pyval" where
  "opt_float x = (case x of None \<Rightarrow> PNone | Some t \<Rightarrow> PFloat t)"

text \<open>What the registry says of a call (\<^verbatim>\<open>_tool_audit_metadata\<close> of the event mapper).\<close>

record audit_metadata =
  am_category :: string
  am_risk_level :: string
  am_requires_approval :: bool
  am_timeout_seconds :: "string option"
  am_max_retries :: "int option"
  am_retry_count :: "int option"
  am_attempt :: "int option"
  am_max_attempts :: "int option"
  am_idempotency_key :: "string option"

definition no_metadata :: audit_metadata where
  "no_metadata = \<lparr>am_category = [], am_risk_level = [], am_requires_approval = False, am_timeout_seconds = None,
     am_max_retries = None, am_retry_count = None, am_attempt = None, am_max_attempts = None,
     am_idempotency_key = None\<rparr>"

definition key_present :: "string option \<Rightarrow> bool" where
  "key_present k = (case k of Some s \<Rightarrow> s \<noteq> [] | None \<Rightarrow> False)"

definition build_tool_start_payload :: "string \<Rightarrow> string \<Rightarrow> audit_metadata \<Rightarrow> pyval \<Rightarrow> dict" where
  "build_tool_start_payload name call_id m arguments =
     (let sanitized = sanitize_tool_payload MAX_STRING_LENGTH arguments
      in dump_without_none
        [(''name'', PStr name), (''call_id'', PStr call_id), (''category'', PStr (am_category m)),
         (''risk_level'', PStr (am_risk_level m)), (''requires_approval'', PBool (am_requires_approval m)),
         (''arguments'', PDict (as_dict sanitized)),
         (''sanitized_args'', if is_dict sanitized then sanitized else PNone),
         (''timeout_seconds'', opt_float (am_timeout_seconds m)), (''max_retries'', opt_int (am_max_retries m)),
         (''idempotency_key'', opt_str (am_idempotency_key m)),
         (''idempotency_key_present'', PBool (key_present (am_idempotency_key m)))])"

text \<open>The arguments of \<^verbatim>\<open>build_tool_end_payload\<close>.\<close>

record end_args =
  en_name :: string
  en_call_id :: string
  en_result :: tool_output
  en_duration_ms :: "int option"
  en_success :: bool
  en_error :: "string option"
  en_sanitized_args :: "dict option"
  en_retry_count :: "int option"
  en_timeout_seconds :: "string option"
  en_idempotency_key :: "string option"
  en_error_type :: "string option"
  en_attempt :: "int option"
  en_max_attempts :: "int option"
  en_idempotency_reused :: bool

text \<open>A number that was not given is read from the metadata of the result, when it is one there.\<close>

definition resolve_number :: "int option \<Rightarrow> pyval \<Rightarrow> int option" where
  "resolve_number given v = (case given of Some i \<Rightarrow> Some i | None \<Rightarrow> if v = PNone then None else py_int v)"

definition tool_end_fields :: "end_args \<Rightarrow> tool_result \<Rightarrow> dict" where
  "tool_end_fields a r =
     (let m = tl_metadata r
      in dump_without_none
        [(''name'', PStr (en_name a)), (''call_id'', PStr (en_call_id a)), (''result'', PDict (as_audit_dict r)),
         (''duration_ms'', opt_int (if en_duration_ms a \<noteq> None then en_duration_ms a else tl_duration_ms r)),
         (''success'', PBool (tl_success r)), (''error'', opt_str (tl_error r)),
         (''error_type'', opt_str (en_error_type a)),
         (''sanitized_result'', opt_dict (tl_sanitized_result r)),
         (''attempt'', opt_int (resolve_number (en_attempt a) (dget m ''attempt''))),
         (''max_attempts'', opt_int (resolve_number (en_max_attempts a) (dget m ''max_attempts''))),
         (''retry_count'', opt_int (resolve_number (en_retry_count a) (dget m ''retry_count''))),
         (''timeout_seconds'', opt_float (en_timeout_seconds a)),
         (''idempotency_key'', opt_str (en_idempotency_key a)),
         (''idempotency_key_present'', PBool (key_present (en_idempotency_key a))),
         (''idempotency_reused'', PBool (en_idempotency_reused a \<or> truthy (dget m ''idempotency_reused'')))])"

definition build_tool_end_payload ::
    "(dict \<Rightarrow> dict option) \<Rightarrow> (dict \<Rightarrow> dict option) \<Rightarrow> end_args \<Rightarrow> dict option" where
  "build_tool_end_payload http_data search_data a =
     map_option (tool_end_fields a)
       (normalize_tool_result http_data search_data (en_result a) (en_success a) (en_error a) (en_duration_ms a)
          (en_sanitized_args a))"

section \<open>Shapes\<close>

lemma dump_lookup:
  "distinct (map fst d) \<Longrightarrow> map_of (dump_without_none d) k =
     (case map_of d k of None \<Rightarrow> None | Some v \<Rightarrow> if v = PNone then None else Some v)"
  unfolding dump_without_none_def
  by (induction d) (auto split: option.splits simp: map_of_eq_None_iff image_iff)

lemma conforms_dump:
  assumes "distinct (map fst d)"
    and "\<forall>(name, t, init) \<in> set fs. case map_of d name of None \<Rightarrow> init \<noteq> None
       | Some v \<Rightarrow> conforms t v \<and> (v = PNone \<longrightarrow> init \<noteq> None)"
  shows "conforms (TModel True fs) (PDict (dump_without_none d))"
proof -
  have "case map_of (dump_without_none d) (fst x) of None \<Rightarrow> snd (snd x) \<noteq> None | Some v \<Rightarrow> conforms (fst (snd x)) v"
    if "x \<in> set fs" for x
    using bspec [OF assms(2) that]
    by (cases x; cases "map_of d (fst x)") (auto simp: dump_lookup [OF assms(1)])
  then have "conforms_fields fs (dump_without_none d)" by (simp add: conforms_fields_iff case_prod_beta)
  then show ?thesis by simp
qed

lemma strip_dump: "\<not> dhas d ''schema_version'' \<Longrightarrow> strip_schema_version (dump_without_none d) = dump_without_none d"
  unfolding strip_schema_version_def by (rule filter_key_absent) (auto simp: dhas_iff_keys dump_without_none_def)

lemma conforms_opt_float [simp]: "conforms (TOptional TFloat) (opt_float x)"
  by (simp add: opt_float_def split: option.split)

lemma conforms_opt_dict [simp]: "conforms (TOptional TDict) (opt_dict x)"
  by (simp add: opt_dict_def split: option.split)

lemma kind_tool_start: "event_conforms ''tool_start'' d \<longleftrightarrow> conforms ToolStartPayload (PDict (strip_schema_version d))"
  by (simp add: event_conforms_def payload_classes)

lemma kind_tool_end: "event_conforms ''tool_end'' d \<longleftrightarrow> conforms ToolEndPayload (PDict (strip_schema_version d))"
  by (simp add: event_conforms_def payload_classes)

lemma tool_start_conforms: "event_conforms ''tool_start'' (build_tool_start_payload name call_id m arguments)"
proof -
  have d: "conforms (TOptional TDict) (if is_dict v then v else PNone)" for v by simp
  show ?thesis
    unfolding kind_tool_start build_tool_start_payload_def Let_def
    by (subst strip_dump, simp, subst ToolStartPayload_def, rule conforms_dump)
      (simp_all add: d del: conforms.simps(8))
qed

text \<open>What a result may hold as data.\<close>

definition result_ok :: "tool_output \<Rightarrow> bool" where
  "result_ok out = (case out of ResultOut r \<Rightarrow> conforms (TOptional TOOL_VALUE) (tl_data r) | _ \<Rightarrow> True)"

lemma dict_data [simp]: "conforms (TOptional TOOL_VALUE) (PDict d)" "conforms (TOptional TOOL_VALUE) PNone"
  by (simp_all add: TOOL_VALUE_def)

lemma from_http_data: "from_http_result h d dur a = Some r \<Longrightarrow> conforms (TOptional TOOL_VALUE) (tl_data r)"
  by (auto simp: from_http_result_def Let_def dict_or_none_def simp del: conforms.simps(8))

lemma from_search_data: "from_search_docs h d dur = Some r \<Longrightarrow> conforms (TOptional TOOL_VALUE) (tl_data r)"
  by (auto simp: from_search_docs_def Let_def simp del: conforms.simps(8))

lemma from_structured_parts:
  assumes "from_structured h s d er dur a = Some r"
  obtains x where "(if search_shaped d then from_search_docs s d dur else from_http_result h d dur a) = Some x"
    and "tl_data r = tl_data x" "tl_sanitized_result r = tl_sanitized_result x"
proof -
  obtain x where x: "(if search_shaped d then from_search_docs s d dur else from_http_result h d dur a) = Some x"
    and r: "r = (let r = (case dget d ''metadata'' of PDict m \<Rightarrow> x\<lparr>tl_metadata := dupdate (tl_metadata x) m\<rparr> | _ \<Rightarrow> x)
       in if er \<noteq> None then r\<lparr>tl_success := False, tl_error := er\<rparr> else r)"
    using assms by (auto simp: from_structured_def)
  have "tl_data r = tl_data x" "tl_sanitized_result r = tl_sanitized_result x"
    by (simp_all add: r Let_def split: pyval.split)
  then show ?thesis by (rule that [OF x])
qed

lemma from_structured_data:
  assumes "from_structured h s d er dur a = Some r" shows "conforms (TOptional TOOL_VALUE) (tl_data r)"
  using assms
proof (rule from_structured_parts)
  fix x
  assume x: "(if search_shaped d then from_search_docs s d dur else from_http_result h d dur a) = Some x"
    and r: "tl_data r = tl_data x"
  have "conforms (TOptional TOOL_VALUE) (tl_data x)"
    using x by (cases "search_shaped d") (auto simp del: conforms.simps(8) dest: from_http_data from_search_data)
  then show ?thesis by (simp only: r)
qed

lemma normalized_data:
  assumes "normalize_tool_result h s out su er dur a = Some r" and "result_ok out"
  shows "conforms (TOptional TOOL_VALUE) (tl_data r)"
proof (cases out)
  case (ResultOut x)
  then show ?thesis
    using assms by (auto simp: normalize_tool_result_def result_ok_def copy_result_def Let_def simp del: conforms.simps(8))
next
  case (ValueOut v)
  then consider d where "out = ValueOut (PDict d)" "from_structured h s d er dur a = Some r"
    | "r = result_of_any (sanitize_output out) su er dur a"
    using assms by (auto simp: normalize_tool_result_def split: pyval.splits if_splits)
  then show ?thesis
  proof cases
    case 1
    then show ?thesis by (simp only: from_structured_data)
  qed (simp add: result_of_any_def Let_def del: conforms.simps(8))
qed (use assms in \<open>auto simp: normalize_tool_result_def result_of_any_def Let_def simp del: conforms.simps(8)\<close>)

lemma audit_conforms:
  "conforms (TOptional TOOL_VALUE) (tl_data r) \<Longrightarrow> conforms ToolResultAuditEnvelope (PDict (as_audit_dict r))"
  by (simp add: ToolResultAuditEnvelope_def as_audit_dict_def del: conforms.simps(8))

lemma tool_end_conforms:
  assumes "build_tool_end_payload h s a = Some p" and "result_ok (en_result a)"
  shows "event_conforms ''tool_end'' p"
proof -
  obtain r where p: "p = tool_end_fields a r" and r: "conforms ToolResultAuditEnvelope (PDict (as_audit_dict r))"
    using assms normalized_data audit_conforms by (auto simp: build_tool_end_payload_def)
  show ?thesis
    unfolding kind_tool_end p tool_end_fields_def Let_def
    by (subst strip_dump, simp, subst ToolEndPayload_def, rule conforms_dump) (simp_all add: r del: conforms.simps(8))
qed

section \<open>Redaction\<close>

text \<open>
  What the documentation of the validating library promises of the two data classes: a value that is not
  the one of a declared field is passed through as it is or dropped.
\<close>

definition passes_through :: "string list \<Rightarrow> (dict \<Rightarrow> dict option) \<Rightarrow> bool" where
  "passes_through declared parse \<longleftrightarrow>
     (\<forall>d out. parse d = Some out \<longrightarrow>
        (\<forall>(k, w) \<in> set (entries (PDict out)). (k, w) \<in> set (entries (PDict d)) \<or> k \<in> set declared))"

definition HTTP_DATA_FIELDS :: "string list" where
  "HTTP_DATA_FIELDS = [''status_code'', ''body'', ''path'', ''method'']"

definition SEARCH_DATA_FIELDS :: "string list" where
  "SEARCH_DATA_FIELDS = [''excerpts_markdown'', ''sources'', ''citations'', ''suggested_api_paths'', ''source_file'',
     ''heading_path'', ''start_line'', ''chunk_id'', ''authority'', ''method'', ''path'', ''path_template'', ''score'']"

definition redacted_entry :: "string \<times> pyval \<Rightarrow> bool" where
  "redacted_entry e \<longleftrightarrow> \<not> is_raw_key (fst e) \<and> (is_sensitive_key (fst e) \<longrightarrow> snd e = PStr REDACTED)"

definition redacted_value :: "pyval \<Rightarrow> bool" where
  "redacted_value v \<longleftrightarrow> list_all redacted_entry (entries v)"

lemma redacted_sanitized: "redacted_value (sanitize_tool_payload n v)"
  by (auto simp: redacted_value_def list_all_iff redacted_entry_def dest: sanitized_entries)

lemma redacted_sanitize_dict: "redacted_value (PDict (sanitize_dict d))"
  using redacted_sanitized [of MAX_STRING_LENGTH "PDict d"] by (simp add: sanitize_dict_def)

lemma declared_plain: "list_all (\<lambda>k. \<not> is_raw_key k \<and> \<not> is_sensitive_key k) (''value'' # HTTP_DATA_FIELDS @ SEARCH_DATA_FIELDS)"
  by code_simp

lemma redacted_passes:
  assumes "passes_through declared parse" "parse d = Some out" "redacted_value (PDict d)"
    and "set declared \<subseteq> set (HTTP_DATA_FIELDS @ SEARCH_DATA_FIELDS)"
  shows "redacted_value (PDict out)"
proof -
  have "redacted_entry e" if "e \<in> set (entries (PDict out))" for e
  proof -
    have "e \<in> set (entries (PDict d)) \<or> fst e \<in> set declared"
      using assms(1,2) that unfolding passes_through_def by (metis (no_types, lifting) case_prodE fst_conv)
    then show ?thesis
      using assms(3,4) declared_plain
      by (auto simp: redacted_value_def list_all_iff redacted_entry_def simp del: entries.simps)
  qed
  then show ?thesis by (simp only: redacted_value_def list_all_iff ball_simps) blast
qed

lemma redacted_PDict: "redacted_value (PDict d) \<longleftrightarrow> (\<forall>(k, v) \<in> set d. redacted_entry (k, v) \<and> redacted_value v)"
  by (auto simp: redacted_value_def list_all_iff)

lemma redacted_dget: "redacted_value (PDict d) \<Longrightarrow> redacted_value (dget d k)"
  by (auto simp: redacted_PDict dget_def dget_or_def redacted_value_def [of PNone] split: option.split dest: map_of_SomeD)

lemma redacted_http_fields: "redacted_value (PDict d) \<Longrightarrow> redacted_value (PDict (http_fields d))"
  by (auto simp: redacted_PDict http_fields_def)

lemma redacted_search_fields: "redacted_value (PDict d) \<Longrightarrow> redacted_value (PDict (search_fields d))"
proof -
  assume d: "redacted_value (PDict d)"
  have "redacted_value (py_or (dget d k) (PList []))" for k
    using redacted_dget [OF d] by (simp add: py_or_def redacted_value_def [of "PList []"])
  moreover have "redacted_entry (k, v)" if "k \<in> set SEARCH_DATA_FIELDS" for k v
    using declared_plain that by (auto simp: redacted_entry_def list_all_iff)
  ultimately show ?thesis
    using redacted_dget [OF d] by (simp add: redacted_PDict search_fields_def SEARCH_DATA_FIELDS_def)
qed

definition redacted_result :: "tool_result \<Rightarrow> bool" where
  "redacted_result r \<longleftrightarrow> redacted_value (tl_data r) \<and> redacted_value (opt_dict (tl_sanitized_result r))"

lemma redacted_none [simp]: "redacted_value PNone" "redacted_value (PStr s)"
  by (simp_all add: redacted_value_def)

lemma redacted_from_http:
  assumes "passes_through HTTP_DATA_FIELDS h" "from_http_result h d dur a = Some r"
  shows "redacted_result r"
  using assms redacted_passes [OF assms(1) _ redacted_http_fields [OF redacted_sanitize_dict]] redacted_sanitize_dict
  by (auto simp: from_http_result_def Let_def redacted_result_def dict_or_none_def opt_dict_def)

lemma redacted_from_search:
  assumes "passes_through SEARCH_DATA_FIELDS s" "from_search_docs s d dur = Some r"
  shows "redacted_result r"
  using assms redacted_passes [OF assms(1) _ redacted_search_fields [OF redacted_sanitize_dict]] redacted_sanitize_dict
  by (auto simp: from_search_docs_def Let_def redacted_result_def opt_dict_def)

lemma redacted_of_any: "redacted_value v \<Longrightarrow> redacted_result (result_of_any v su er dur a)"
  using declared_plain
  by (auto simp: result_of_any_def redacted_result_def opt_dict_def Let_def redacted_PDict redacted_entry_def split: pyval.split)

lemma redacted_output: "redacted_value (sanitize_output out)"
  by (cases out) (simp_all only: sanitize_output.simps redacted_sanitized redacted_none)



text \<open>The metadata a tool returns is not redacted, and the envelope says it is.\<close>

definition demo_secret_metadata :: tool_output where
  "demo_secret_metadata = ValueOut (PDict [(''success'', PBool True), (''metadata'', PDict [(''token'', PStr ''abc'')])])"

lemma metadata_unredacted:
  "map_option (\<lambda>r. (dget (as_dict (dget (as_audit_dict r) ''metadata'')) ''token'', dget (as_audit_dict r) ''sanitized''))
     (normalize_tool_result Some Some demo_secret_metadata True None None None) = Some (PStr ''abc'', PBool True)"
  by code_simp

text \<open>
  The result of a tool that reaches the event stream as a message is recorded as a success, and a write as a
  confirmed one, whatever the message says.
\<close>

definition refused_post :: end_args where
  "refused_post = \<lparr>en_name = ''http_post'', en_call_id = ''c1'',
     en_result = MessageOut ''ToolMessage'' [(''content'', PStr (''{'' @ json_str ''success'' @ '': false}''))],
     en_duration_ms = None, en_success = True, en_error = None, en_sanitized_args = None, en_retry_count = None,
     en_timeout_seconds = None, en_idempotency_key = None, en_error_type = None, en_attempt = None,
     en_max_attempts = None, en_idempotency_reused = False\<rparr>"

lemma refused_post_confirmed:
  "map_option (\<lambda>p. (dget p ''success'', map_option (map_option (\<lambda>s. dget s ''side_effect_status''))
       (build_tool_side_effect_payload (\<lambda>_. True)
          (PDict [(''category'', PStr ''http''), (''risk_level'', PStr ''high'')]) (PDict p) None None None None)))
     (build_tool_end_payload Some Some refused_post) = Some (PBool True, Some (Some (PStr ''confirmed'')))"
  by code_simp

end
