(* ===== verification/HttpTools.thy ===== *)
theory HttpTools
  imports ToolResult
begin

text \<open>
  The HTTP client of the scenario's tools (\<^verbatim>\<open>copilot_agent/tools/http_tools.py\<close>) and the paths it may call
  (\<^verbatim>\<open>scenario/http_paths.py, tools/whitelist.py\<close>). The requests an operation sends are part of its result.
  The server's answer to a request is the parameter \<open>send\<close>, \<open>None\<close> for a transport error; a compiled
  pattern is the predicate of \<^verbatim>\<open>pattern.match\<close>.
\<close>

section \<open>Paths\<close>

definition before_query :: "string \<Rightarrow> string" where
  "before_query path = until_char (CHR ''?'') path"

record http_path_policy =
  hp_get_actuator_paths :: "string list"
  hp_get_patterns :: "(string \<Rightarrow> bool) list"
  hp_post_exact_paths :: "string list"

definition empty_path_policy :: http_path_policy where
  "empty_path_policy = \<lparr>hp_get_actuator_paths = [], hp_get_patterns = [], hp_post_exact_paths = []\<rparr>"

definition named_paths :: "string list \<Rightarrow> string list" where
  "named_paths paths = map before_query (filter (\<lambda>p. strip p \<noteq> []) paths)"

text \<open>\<open>re.compile\<close> is \<open>compile\<close>, \<open>None\<close> for its exception.\<close>

definition path_policy_of_resources ::
    "(string \<Rightarrow> (string \<Rightarrow> bool) option) \<Rightarrow> scenario_resources \<Rightarrow> http_path_policy option" where
  "path_policy_of_resources compile r =
     map_option (\<lambda>patterns.
       \<lparr>hp_get_actuator_paths = named_paths (sr_http_get_actuator_paths r), hp_get_patterns = patterns,
        hp_post_exact_paths = named_paths (sr_http_post_paths r)\<rparr>)
       (those (map compile (filter (\<lambda>t. t \<noteq> []) (map strip (sr_http_get_patterns r)))))"

definition dangerous_path :: "(string \<Rightarrow> bool) \<Rightarrow> string \<Rightarrow> bool option" where
  "dangerous_path ok path =
     (if contains path ''..'' \<or> starts_with path ''//'' then Some True
      else map_option (\<lambda>u. su_scheme u \<noteq> []) (urlsplit ok path))"

text \<open>The answer of a validation: an exception, an error message, or no objection.\<close>

datatype path_verdict = PathRaised | PathError string | PathOk

definition checked_path :: "(string \<Rightarrow> bool) \<Rightarrow> string \<Rightarrow> (string \<Rightarrow> path_verdict) \<Rightarrow> path_verdict" where
  "checked_path ok path k =
     (if \<not> starts_with path ''/'' then PathError ''path must start with /''
      else case dangerous_path ok path of
        None \<Rightarrow> PathRaised
      | Some d \<Rightarrow> if d then PathError ''invalid path'' else k (before_query path))"

definition validate_get :: "(string \<Rightarrow> bool) \<Rightarrow> http_path_policy \<Rightarrow> string \<Rightarrow> path_verdict" where
  "validate_get ok p path = checked_path ok path (\<lambda>base.
     if base \<in> set (hp_get_actuator_paths p) then PathOk
     else if starts_with base ''/actuator/'' \<and> base \<notin> set (hp_get_actuator_paths p)
       then PathError (''only configured actuator paths are allowed ('' @
              (let allowed = join '', '' (hp_get_actuator_paths p)
               in if allowed \<noteq> [] then allowed else ''/actuator/health'') @ '')'')
     else if \<not> starts_with base ''/api/v1/'' \<and> \<not> starts_with base ''/actuator/''
       then PathError ''GET only allows configured /api/v1/* or actuator paths''
     else if list_ex (\<lambda>matches. matches base) (hp_get_patterns p) then PathOk
     else PathError ''GET path not on scenario allowlist'')"

definition validate_post :: "(string \<Rightarrow> bool) \<Rightarrow> http_path_policy \<Rightarrow> string \<Rightarrow> path_verdict" where
  "validate_post ok p path = checked_path ok path (\<lambda>base.
     if base \<in> set (hp_post_exact_paths p) then PathOk else PathError ''POST path not on scenario allowlist'')"

text \<open>\<open>get_http_path_policy()\<close>: the policy bound last, or the empty one.\<close>

definition get_http_path_policy :: "http_path_policy option \<Rightarrow> http_path_policy" where
  "get_http_path_policy active = (case active of Some p \<Rightarrow> p | None \<Rightarrow> empty_path_policy)"

section \<open>The client\<close>

record http_client =
  hc_base :: string
  hc_dangerous_paths :: "string list"
  hc_session_cookie_name :: string
  hc_path_policy :: "http_path_policy option"

text \<open>What the client finds outside: the test of \<^verbatim>\<open>urlsplit\<close>, the bound policy and the bound cookie name.\<close>

record http_env =
  hx_netloc_ok :: "string \<Rightarrow> bool"
  hx_active_policy :: "http_path_policy option"
  hx_session_cookie_name :: string

definition rstrip_slash :: "string \<Rightarrow> string" where
  "rstrip_slash s = rev (dropWhile (\<lambda>c. c = CHR ''/'') (rev s))"

definition new_http_client :: "string \<Rightarrow> string list \<Rightarrow> string \<Rightarrow> http_path_policy option \<Rightarrow> http_client" where
  "new_http_client base_url dangerous_paths session_cookie_name path_policy =
     \<lparr>hc_base = rstrip_slash base_url, hc_dangerous_paths = named_paths dangerous_paths,
      hc_session_cookie_name = strip session_cookie_name, hc_path_policy = path_policy\<rparr>"

record http_request =
  rq_method :: string
  rq_path :: string
  rq_json :: dict
  rq_headers :: "(string \<times> string) list"

record http_response =
  rs_is_success :: bool
  rs_status_code :: int
  rs_content_type :: string
  rs_text :: string
  rs_json :: "pyval option"
  rs_set_cookie :: "string list"

definition merge_cookie :: "string option \<Rightarrow> string option \<Rightarrow> string option" where
  "merge_cookie stored override =
     (case override of Some c \<Rightarrow> if c \<noteq> [] \<and> strip c \<noteq> [] then Some (strip c) else stored | None \<Rightarrow> stored)"

definition cookie_entry :: "string option \<Rightarrow> (string \<times> string) list" where
  "cookie_entry cookie = (case cookie of Some c \<Rightarrow> if c \<noteq> [] then [(''Cookie'', c)] else [] | None \<Rightarrow> [])"

definition headers_get :: "string option \<Rightarrow> (string \<times> string) list" where
  "headers_get cookie = (''Accept'', ''application/json'') # cookie_entry cookie"

definition headers_post :: "string option \<Rightarrow> (string \<times> string) list" where
  "headers_post cookie =
     (''Accept'', ''application/json'') # (''Content-Type'', ''application/json'') # cookie_entry cookie"

definition response_payload :: "http_response \<Rightarrow> dict" where
  "response_payload r =
     (let parsed = (if contains (lower (rs_content_type r)) ''application/json''
                    then (case rs_json r of Some v \<Rightarrow> v | None \<Rightarrow> PStr (rs_text r))
                    else PStr (take 8000 (rs_text r)))
      in [(''ok'', PBool (rs_is_success r)), (''status_code'', PInt (rs_status_code r)), (''body'', parsed)])"

text \<open>\<open>s.split(c)\<close>\<close>

fun split_on :: "char \<Rightarrow> string \<Rightarrow> string list" where
  "split_on c [] = [[]]"
| "split_on c (x # s) = (if x = c then [] # split_on c s
     else (case split_on c s of p # ps \<Rightarrow> (x # p) # ps | [] \<Rightarrow> [[x]]))"

definition redact_cookie_part :: "string \<Rightarrow> string \<Rightarrow> string" where
  "redact_cookie_part name part =
     (let p = strip part; pl = lower p in
      if name \<noteq> [] \<and> starts_with pl (lower name @ ''='') then upper name @ ''=***; ...''
      else if name \<noteq> [] \<and> contains pl (lower name @ ''='') then upper name @ ''=***; ...''
      else if contains pl ''wmsessionid='' then ''WMSESSIONID=***; ...''
      else ''(other Set-Cookie omitted)'')"

definition redact_set_cookie :: "string \<Rightarrow> string \<Rightarrow> string \<Rightarrow> string" where
  "redact_set_cookie session_cookie_name raw cookie_name =
     join ''; '' (map (redact_cookie_part (strip (or_text cookie_name session_cookie_name))) (split_on (CHR '','') raw))"

text \<open>\<open>s.find(needle)\<close>, \<open>None\<close> for -1.\<close>

fun find_text :: "string \<Rightarrow> string \<Rightarrow> nat option" where
  "find_text [] needle = (if needle = [] then Some 0 else None)"
| "find_text (c # s) needle = (if starts_with (c # s) needle then Some 0 else map_option Suc (find_text s needle))"

definition session_pair :: "string \<Rightarrow> string \<Rightarrow> string option" where
  "session_pair name hdr =
     (case find_text (lower hdr) (lower name @ ''='') of
        None \<Rightarrow> None
      | Some idx \<Rightarrow> (let pair = strip (until_char (CHR '';'') (drop idx hdr)) in if pair \<noteq> [] then Some pair else None))"

fun first_some :: "('a \<Rightarrow> 'b option) \<Rightarrow> 'a list \<Rightarrow> 'b option" where
  "first_some f [] = None"
| "first_some f (x # xs) = (case f x of Some y \<Rightarrow> Some y | None \<Rightarrow> first_some f xs)"

definition extract_session_cookie :: "string \<Rightarrow> string list \<Rightarrow> string \<Rightarrow> string option" where
  "extract_session_cookie session_cookie_name headers cookie_name =
     first_some (session_pair (strip (or_text (or_text cookie_name session_cookie_name) ''WMSESSIONID''))) headers"

definition refused :: "string \<Rightarrow> dict" where
  "refused error = [(''ok'', PBool False), (''error'', PStr error)]"

definition client_policy :: "http_env \<Rightarrow> http_client \<Rightarrow> http_path_policy" where
  "client_policy x c = (case hc_path_policy c of Some p \<Rightarrow> p | None \<Rightarrow> get_http_path_policy (hx_active_policy x))"

text \<open>The result of an operation (\<open>None\<close>: an exception) and the requests it sent.\<close>

type_synonym http_outcome = "dict option \<times> http_request list"

definition client_get ::
    "http_env \<Rightarrow> (http_request \<Rightarrow> http_response option) \<Rightarrow> http_client \<Rightarrow> string \<Rightarrow> string option \<Rightarrow> string option \<Rightarrow>
     http_outcome" where
  "client_get x send c path cookie_header stored_cookie =
     (case validate_get (hx_netloc_ok x) (client_policy x c) path of
        PathRaised \<Rightarrow> (None, [])
      | PathError e \<Rightarrow> (Some (refused e), [])
      | PathOk \<Rightarrow>
          (let rq = \<lparr>rq_method = ''GET'', rq_path = path, rq_json = [],
                     rq_headers = headers_get (merge_cookie stored_cookie cookie_header)\<rparr>
           in (map_option response_payload (send rq), [rq])))"

definition login_fields :: "http_env \<Rightarrow> http_client \<Rightarrow> string \<Rightarrow> http_response \<Rightarrow> dict" where
  "login_fields x c base r =
     (if base = ''/api/v1/auth/login'' \<and> rs_is_success r \<and> rs_set_cookie r \<noteq> []
      then [(''set_cookie_redacted'', PStr (redact_set_cookie (hx_session_cookie_name x) (join '', '' (rs_set_cookie r))
               (or_text (hc_session_cookie_name c) (hx_session_cookie_name x)))),
            (''_raw_set_cookie_for_store_only'', PList (map PStr (rs_set_cookie r)))]
      else [])"

definition post_request :: "string \<Rightarrow> dict \<Rightarrow> string option \<Rightarrow> string option \<Rightarrow> string option \<Rightarrow> http_request" where
  "post_request path json_body cookie_header stored_cookie idempotency_key =
     \<lparr>rq_method = ''POST'', rq_path = path, rq_json = json_body,
      rq_headers = headers_post (merge_cookie stored_cookie cookie_header)
        @ (case idempotency_key of Some k \<Rightarrow> if k \<noteq> [] then [(''Idempotency-Key'', k)] else [] | None \<Rightarrow> [])\<rparr>"

definition client_post ::
    "http_env \<Rightarrow> (http_request \<Rightarrow> http_response option) \<Rightarrow> http_client \<Rightarrow> string \<Rightarrow> dict \<Rightarrow> string option \<Rightarrow>
     string option \<Rightarrow> string option \<Rightarrow> bool \<Rightarrow> bool \<Rightarrow> http_outcome" where
  "client_post x send c path json_body cookie_header stored_cookie idempotency_key allow_job_post confirmed =
     (case validate_post (hx_netloc_ok x) (client_policy x c) path of
        PathRaised \<Rightarrow> (None, [])
      | PathError e \<Rightarrow> (Some (refused e), [])
      | PathOk \<Rightarrow>
          (let base = before_query path in
           if base \<in> set (hc_dangerous_paths c) \<and> \<not> allow_job_post
           then (Some (refused (''POST '' @ base @ '' disabled (set COPILOT_ALLOW_JOB_POST=true and '' @
                   ''confirm_dangerous on chat request).'')), [])
           else if base \<in> set (hc_dangerous_paths c) \<and> \<not> confirmed
           then (Some (refused ''Dangerous POST requires confirm_dangerous=true on the chat API request.''), [])
           else
             (let rq = post_request path json_body cookie_header stored_cookie idempotency_key
              in (map_option (\<lambda>r. response_payload r @ login_fields x c base r) (send rq), [rq]))))"

section \<open>What the client sends\<close>

lemma no_scheme: "starts_with path ''/'' \<Longrightarrow> urlsplit ok path = Some u \<Longrightarrow> su_scheme u = []"
proof (cases path)
  case (Cons c s)
  assume "starts_with path ''/''"
  then have c: "c = CHR ''/''" using Cons by simp
  have "until_char (CHR '':'') (clean_url path) = [] \<or> \<not> is_alpha (hd (until_char (CHR '':'') (clean_url path)))"
    by (simp add: Cons c clean_url_def until_char_def is_alpha_def)
  moreover assume "urlsplit ok path = Some u"
  ultimately show ?thesis
    by (auto simp: urlsplit_def split_scheme_def Let_def split: if_splits prod.splits)
qed simp

definition post_permitted :: "http_env \<Rightarrow> http_client \<Rightarrow> string \<Rightarrow> bool \<Rightarrow> bool \<Rightarrow> bool" where
  "post_permitted x c path allow_job_post confirmed \<longleftrightarrow>
     starts_with path ''/'' \<and> \<not> starts_with path ''//'' \<and> \<not> contains path ''..''
     \<and> before_query path \<in> set (hp_post_exact_paths (client_policy x c))
     \<and> (if before_query path \<in> set (hc_dangerous_paths c) then allow_job_post \<and> confirmed else True)"

lemma validate_post_ok:
  "validate_post ok p path = PathOk \<Longrightarrow> starts_with path ''/'' \<and> \<not> starts_with path ''//'' \<and> \<not> contains path ''..''
     \<and> before_query path \<in> set (hp_post_exact_paths p)"
  by (auto simp: validate_post_def checked_path_def dangerous_path_def split: if_splits option.splits)

lemma client_post_sends:
  "snd (client_post x send c path body h stored key allow confirmed) \<noteq> [] \<Longrightarrow>
     post_permitted x c path allow confirmed
     \<and> client_post x send c path body h stored key allow confirmed =
         (map_option (\<lambda>r. response_payload r @ login_fields x c (before_query path) r)
            (send (post_request path body h stored key)), [post_request path body h stored key])"
  using validate_post_ok [of "hx_netloc_ok x" "client_policy x c" path]
  by (auto simp: client_post_def post_permitted_def Let_def split: path_verdict.splits if_splits)

end
