(* ===== verification/ToolHandlers.thy ===== *)
theory ToolHandlers
  imports HttpTools ToolSpecs StoreProps
begin

text \<open>
  The handlers of the HTTP tools (\<^verbatim>\<open>copilot_agent/agent/tool_handlers.py\<close>): the cookie of the conversation, the
  audit of a refused or stored credential, the reuse of a write that has succeeded before, and the request.

  The state is the credential manager, the event store behind the memory manager and the requests sent so
  far. The readings of the clock are arguments; spans of the tracer have no effect here.
\<close>

record handler_state =
  hs_manager :: credential_manager
  hs_store :: store
  hs_requests :: "http_request list"

record handler_env =
  he_http :: http_env
  he_client :: http_client
  he_send :: "http_request \<Rightarrow> http_response option"
  he_http_data :: "dict \<Rightarrow> dict option"
  he_sha256 :: "string \<Rightarrow> string"
  he_uuid :: string
  he_allow_job_post :: bool

definition ctx_thread :: "dict \<Rightarrow> string" where
  "ctx_thread ctx = py_str (dget_or ctx ''conversation_id'' (PStr []))"

definition ctx_run :: "dict \<Rightarrow> string" where
  "ctx_run ctx = str_or (dget ctx ''run_id'')"

text \<open>\<^verbatim>\<open>MemoryManager.append_event\<close>\<close>

definition append_memory :: "string \<Rightarrow> string \<Rightarrow> string \<Rightarrow> dict \<Rightarrow> handler_state \<Rightarrow> handler_state" where
  "append_memory thread_id run_id event_type payload st =
     (if run_id \<noteq> [] then st\<lparr>hs_store := snd (append_event (hs_store st) thread_id run_id event_type payload)\<rparr> else st)"

definition credential_policy_args :: "string \<Rightarrow> string \<Rightarrow> dict \<Rightarrow> policy_args" where
  "credential_policy_args tool_name reason payload =
     \<lparr>pa_scope = ''credential'', pa_source = ''credential_binding'', pa_action = ''credential_scope_check'',
      pa_decision = ''deny'', pa_reason = or_text reason ''credential_denied'', pa_subject = tool_name,
      pa_resource = str_or (dget payload ''binding_id''),
      pa_risk_level = (if tool_name = ''http_post'' then ''high'' else ''medium''), pa_requires_approval = False,
      pa_related_call_id = None, pa_related_event_id = None, pa_policy_trace_id = None,
      pa_metadata = [(''required_scopes'', PList (as_list (dget payload ''required_scopes''))),
                     (''binding_id'', dget payload ''binding_id'')]\<rparr>"

text \<open>\<open>None\<close> in place of the state: an exception of the payload builder.\<close>

definition emit_credential_audit ::
    "handler_env \<Rightarrow> string \<Rightarrow> string \<Rightarrow> string \<Rightarrow> string list \<Rightarrow> string \<Rightarrow> string \<Rightarrow> string \<Rightarrow> handler_state \<Rightarrow>
     handler_state option" where
  "emit_credential_audit env thread_id run_id action required tool_name reason user_id st =
     (if thread_id = [] \<or> run_id = [] then Some st
      else
        (let payload = build_credential_audit_payload action (cm_binding (hs_manager st)) tool_name required reason user_id;
             st = append_memory thread_id run_id ''credential_binding_audit'' payload st
         in if action = ''credential_read_denied'' then
              map_option (\<lambda>p. append_memory thread_id run_id ''policy_decision_recorded'' p st)
                (build_policy_decision_payload (he_sha256 env) (hx_netloc_ok (he_http env)) (he_uuid env)
                   (credential_policy_args tool_name reason payload))
            else Some st))"

definition read_cookie :: "rat \<Rightarrow> string \<Rightarrow> string list \<Rightarrow> handler_state \<Rightarrow> string option \<times> handler_state" where
  "read_cookie now thread_id required st =
     (if thread_id = [] then (None, st)
      else case get_cookie now thread_id required (hs_manager st) of (c, m) \<Rightarrow> (c, st\<lparr>hs_manager := m\<rparr>))"

definition audit_refusal :: "handler_env \<Rightarrow> string \<Rightarrow> string \<Rightarrow> string \<Rightarrow> string \<Rightarrow> handler_state \<Rightarrow> handler_state option" where
  "audit_refusal env thread_id run_id tool_name scope st =
     (if thread_id \<noteq> [] \<and> \<not> authorize_scopes [scope] (hs_manager st)
      then emit_credential_audit env thread_id run_id ''credential_read_denied'' [scope] tool_name
             ''credential_scope_denied'' (get_user_id (hs_store st) thread_id) st
      else Some st)"

text \<open>What a handler answers: an exception or the dictionary for the model; and the state it leaves.\<close>

type_synonym handled = "dict option \<times> handler_state"

definition answer :: "handler_env \<Rightarrow> dict \<Rightarrow> int \<Rightarrow> dict option" where
  "answer env raw duration_ms = map_option to_llm_dict (from_http_result (he_http_data env) raw (Some duration_ms) None)"

definition http_get :: "handler_env \<Rightarrow> dict \<Rightarrow> rat \<Rightarrow> int \<Rightarrow> string \<Rightarrow> string option \<Rightarrow> handler_state \<Rightarrow> handled" where
  "http_get env ctx now duration_ms path cookie_header st =
     (case read_cookie now (ctx_thread ctx) [''http:read''] st of
        (stored, st) \<Rightarrow>
          (case audit_refusal env (ctx_thread ctx) (ctx_run ctx) ''http_get'' ''http:read'' st of
             None \<Rightarrow> (None, st)
           | Some st \<Rightarrow>
               (case client_get (he_http env) (he_send env) (he_client env) path cookie_header stored of
                  (out, reqs) \<Rightarrow>
                    (case out of None \<Rightarrow> None | Some raw \<Rightarrow> answer env raw duration_ms,
                     st\<lparr>hs_requests := hs_requests st @ reqs\<rparr>))))"

section \<open>Writes\<close>

definition reused_result :: "event_row \<Rightarrow> dict" where
  "reused_result e =
     (let result = as_dict (dget (payload_of e) ''result'');
          data = dget result ''data'';
          metadata = as_dict (dget result ''metadata'');
          reused = [(''ok'', PBool True), (''success'', PBool True),
            (''metadata'', PDict (dset ''reused_from_event_id'' (PInt (ev_id e))
               (dset ''idempotency_reused'' (PBool True) metadata)))]
      in case data of
           PDict d \<Rightarrow> dupdate reused d
         | PNone \<Rightarrow> reused
         | v \<Rightarrow> dset ''body'' v reused)"

definition reuse_successful_post :: "string \<Rightarrow> string \<Rightarrow> string option \<Rightarrow> handler_state \<Rightarrow> dict option" where
  "reuse_successful_post thread_id run_id idempotency_key st =
     (let key = strip (case idempotency_key of Some k \<Rightarrow> k | None \<Rightarrow> []) in
      if thread_id = [] \<or> run_id = [] \<or> key = [] then None
      else map_option reused_result
             (find_successful_tool_end_by_idempotency (hs_store st) run_id ''http_post'' key))"

text \<open>The session cookie of a login is stored for the conversation.\<close>

definition store_login :: "handler_env \<Rightarrow> string \<Rightarrow> string \<Rightarrow> rat \<Rightarrow> dict \<Rightarrow> handler_state \<Rightarrow> handler_state option" where
  "store_login env thread_id run_id now raw st =
     (let headers = as_list (dget raw ''_raw_set_cookie_for_store_only'') in
      if headers = [] \<or> thread_id = [] then Some st
      else case extract_session_cookie (hx_session_cookie_name (he_http env)) (map py_str headers)
             (hc_session_cookie_name (he_client env)) of
             None \<Rightarrow> Some st
           | Some pair \<Rightarrow>
               (let user_id = get_user_id (hs_store st) thread_id;
                    st = st\<lparr>hs_manager := set_cookie now thread_id user_id pair (hs_manager st)\<rparr>
                in emit_credential_audit env thread_id run_id ''credential_set'' [] [] ''login_set_cookie'' user_id st))"

definition send_post ::
    "handler_env \<Rightarrow> dict \<Rightarrow> rat \<Rightarrow> int \<Rightarrow> string \<Rightarrow> pyval \<Rightarrow> string option \<Rightarrow> string option \<Rightarrow> string option \<Rightarrow>
     handler_state \<Rightarrow> handled" where
  "send_post env ctx now duration_ms path json_body cookie_header idempotency_key stored st =
     (case client_post (he_http env) (he_send env) (he_client env) path (as_dict json_body) cookie_header stored
             idempotency_key (truthy (dget_or ctx ''allow_job_post'' (PBool (he_allow_job_post env))))
             (truthy (dget_or ctx ''confirm_dangerous'' (PBool False))) of
        (out, reqs) \<Rightarrow>
          (let st = st\<lparr>hs_requests := hs_requests st @ reqs\<rparr> in
           case out of
             None \<Rightarrow> (None, st)
           | Some raw \<Rightarrow>
               (case store_login env (ctx_thread ctx) (ctx_run ctx) now raw st of
                  None \<Rightarrow> (None, st)
                | Some st \<Rightarrow> (answer env (ddel ''_raw_set_cookie_for_store_only'' raw) duration_ms, st))))"

definition http_post ::
    "handler_env \<Rightarrow> dict \<Rightarrow> rat \<Rightarrow> int \<Rightarrow> string \<Rightarrow> pyval \<Rightarrow> string option \<Rightarrow> string option \<Rightarrow> handler_state \<Rightarrow>
     handled" where
  "http_post env ctx now duration_ms path json_body cookie_header idempotency_key st =
     (case reuse_successful_post (ctx_thread ctx) (ctx_run ctx) idempotency_key st of
        Some reused \<Rightarrow> (answer env reused duration_ms, st)
      | None \<Rightarrow>
          (case read_cookie now (ctx_thread ctx) [''http:write''] st of
             (stored, st) \<Rightarrow>
               (case audit_refusal env (ctx_thread ctx) (ctx_run ctx) ''http_post'' ''http:write'' st of
                  None \<Rightarrow> (None, st)
                | Some st \<Rightarrow>
                    send_post env ctx now duration_ms path json_body cookie_header idempotency_key stored st)))"

section \<open>A write is sent when it may be, and once\<close>

lemma requests_frame [simp]:
  "hs_requests (append_memory t r ty p st) = hs_requests st"
  "emit_credential_audit env t r a req n why u st = Some st' \<Longrightarrow> hs_requests st' = hs_requests st"
  "hs_requests (snd (read_cookie now t req st)) = hs_requests st"
  by (auto simp: append_memory_def emit_credential_audit_def read_cookie_def Let_def split: if_splits prod.split)

lemma requests_refusal: "audit_refusal env t r n sc st = Some st' \<Longrightarrow> hs_requests st' = hs_requests st"
  by (auto simp: audit_refusal_def split: if_splits)

lemma requests_login: "store_login env t r now raw st = Some st' \<Longrightarrow> hs_requests st' = hs_requests st"
  by (auto simp: store_login_def Let_def split: if_splits option.splits)

definition ctx_permits :: "handler_env \<Rightarrow> dict \<Rightarrow> string \<Rightarrow> bool" where
  "ctx_permits env ctx path \<longleftrightarrow>
     post_permitted (he_http env) (he_client env) path
       (truthy (dget_or ctx ''allow_job_post'' (PBool (he_allow_job_post env))))
       (truthy (dget_or ctx ''confirm_dangerous'' (PBool False)))"

definition scoped_cookie :: "handler_state \<Rightarrow> string option \<Rightarrow> bool" where
  "scoped_cookie st stored \<longleftrightarrow> authorize_scopes [''http:write''] (hs_manager st) \<or> stored = None"

lemma send_post_requests:
  "\<exists>reqs. hs_requests (snd (send_post env ctx now dur path body h key stored st)) = hs_requests st @ reqs
     \<and> (reqs = [] \<or> ctx_permits env ctx path \<and> reqs = [post_request path (as_dict body) h stored key])"
proof -
  define a b where "a = truthy (dget_or ctx ''allow_job_post'' (PBool (he_allow_job_post env)))"
    and "b = truthy (dget_or ctx ''confirm_dangerous'' (PBool False))"
  obtain out reqs where c: "client_post (he_http env) (he_send env) (he_client env) path (as_dict body) h stored key a b
      = (out, reqs)" by (rule prod.exhaust)
  have "hs_requests (snd (send_post env ctx now dur path body h key stored st)) = hs_requests st @ reqs"
    by (simp add: send_post_def c a_def [symmetric] b_def [symmetric] Let_def requests_login split: option.split)
  moreover have "reqs = [] \<or> ctx_permits env ctx path \<and> reqs = [post_request path (as_dict body) h stored key]"
    using client_post_sends [of "he_http env" "he_send env" "he_client env" path "as_dict body" h stored key a b, unfolded c]
    by (cases "reqs = []") (simp_all add: ctx_permits_def a_def [symmetric] b_def [symmetric])
  ultimately show ?thesis by blast
qed

text \<open>
  C9. The handler of a write sends at most one request, and none at all unless the path is on the scenario's
  list and, for a dangerous path, the deployment allows it and the user has confirmed. When the run has a
  successful write under the key, nothing is sent, the state stays as it was and the answer is made from the
  recorded result. A cookie goes out only from the caller or under the granted write scope.
\<close>

theorem write_sent_once:
  assumes "http_post env ctx now duration_ms path json_body cookie_header idempotency_key st = (out, st')"
  shows "\<exists>reqs. hs_requests st' = hs_requests st @ reqs
    \<and> (if reuse_successful_post (ctx_thread ctx) (ctx_run ctx) idempotency_key st \<noteq> None
       then reqs = [] \<and> st' = st
       else reqs = [] \<or> (ctx_permits env ctx path \<and>
         (\<exists>stored. reqs = [post_request path (as_dict json_body) cookie_header stored idempotency_key]
            \<and> scoped_cookie st stored)))"
proof (cases "reuse_successful_post (ctx_thread ctx) (ctx_run ctx) idempotency_key st")
  case (Some reused)
  then show ?thesis using assms by (simp add: http_post_def)
next
  case None
  obtain stored st1 where r: "read_cookie now (ctx_thread ctx) [''http:write''] st = (stored, st1)" by (rule prod.exhaust)
  have q1: "hs_requests st1 = hs_requests st" using requests_frame(3) [of now _ _ st] r by (metis snd_conv)
  have scope: "scoped_cookie st stored"
    using r by (auto simp: scoped_cookie_def read_cookie_def get_cookie_def split: if_splits)
  show ?thesis
  proof (cases "audit_refusal env (ctx_thread ctx) (ctx_run ctx) ''http_post'' ''http:write'' st1")
    case None': None
    then show ?thesis using assms None r q1 by (simp add: http_post_def)
  next
    case (Some st2)
    have "st' = snd (send_post env ctx now duration_ms path json_body cookie_header idempotency_key stored st2)"
      using assms None r Some by (simp add: http_post_def)
    then obtain reqs where q: "hs_requests st' = hs_requests st2 @ reqs"
      and s: "reqs = [] \<or> ctx_permits env ctx path
        \<and> reqs = [post_request path (as_dict json_body) cookie_header stored idempotency_key]"
      using send_post_requests by blast
    have "\<exists>stored. reqs = [post_request path (as_dict json_body) cookie_header stored idempotency_key]
        \<and> scoped_cookie st stored" if "reqs \<noteq> []"
      using s scope that by (intro exI [of _ stored]) blast
    then show ?thesis
      using q s None requests_refusal [OF Some] q1 by (intro exI [of _ reqs]) auto
  qed
qed

text \<open>The hypothesis can be met, with a recorded success: the second write of a run under a key.\<close>

definition demo_handlers :: handler_env where
  "demo_handlers = \<lparr>he_http = \<lparr>hx_netloc_ok = (\<lambda>_. True), hx_active_policy = None, hx_session_cookie_name = []\<rparr>,
     he_client = \<lparr>hc_base = ''http://api'', hc_dangerous_paths = [''/api/v1/jobs''], hc_session_cookie_name = [],
       hc_path_policy = Some \<lparr>hp_get_actuator_paths = [], hp_get_patterns = [], hp_post_exact_paths = [''/api/v1/jobs'']\<rparr>\<rparr>,
     he_send = (\<lambda>_. Some \<lparr>rs_is_success = True, rs_status_code = 200, rs_content_type = ''application/json'',
       rs_text = ''7'', rs_json = Some (PInt 7), rs_set_cookie = []\<rparr>),
     he_http_data = Some, he_sha256 = (\<lambda>s. s), he_uuid = ''u1'', he_allow_job_post = True\<rparr>"

definition demo_post_ctx :: dict where
  "demo_post_ctx = [(''conversation_id'', PStr ''t1''), (''run_id'', PStr ''r1''), (''confirm_dangerous'', PBool True)]"

definition demo_resources :: scenario_resources where
  "demo_resources = \<lparr>sr_credential_binding = [], sr_credential_cookie_name = [], sr_credential_provider = [],
     sr_credential_scopes = [], sr_http_get_actuator_paths = [], sr_http_get_patterns = [], sr_http_post_paths = []\<rparr>"

definition demo_handler_state :: handler_state where
  "demo_handler_state = \<lparr>hs_manager = manager_of_resources demo_resources 60,
     hs_store = empty_store int (\<lambda>_. ''id''), hs_requests = []\<rparr>"

definition demo_success :: dict where
  "demo_success = [(''name'', PStr ''http_post''), (''call_id'', PStr ''c1''), (''idempotency_key'', PStr ''k''),
     (''success'', PBool True), (''result'', PDict [(''data'', PDict [(''status_code'', PInt 200)]), (''metadata'', PDict [])])]"

definition demo_second_state :: handler_state where
  "demo_second_state = append_memory ''t1'' ''r1'' ''tool_end'' demo_success
     (snd (http_post demo_handlers demo_post_ctx 1 5 ''/api/v1/jobs'' (PDict []) None (Some ''k'') demo_handler_state))"

lemma demo_first_write: "map rq_path (hs_requests demo_second_state) = [''/api/v1/jobs'']"
  by code_simp

lemma demo_success_found: "reuse_successful_post ''t1'' ''r1'' (Some ''k'') demo_second_state \<noteq> None"
proof -
  have "\<not> Option.is_none (reuse_successful_post ''t1'' ''r1'' (Some ''k'') demo_second_state)" by code_simp
  then show ?thesis by (simp add: Option.is_none_def)
qed

theorem write_sent_once_witness:
  "map rq_path (hs_requests (snd (http_post demo_handlers demo_post_ctx 2 5 ''/api/v1/jobs'' (PDict []) None (Some ''k'')
     demo_second_state))) = [''/api/v1/jobs'']"
proof -
  obtain out st' where p: "http_post demo_handlers demo_post_ctx 2 5 ''/api/v1/jobs'' (PDict []) None (Some ''k'')
      demo_second_state = (out, st')" by (rule prod.exhaust)
  have "ctx_thread demo_post_ctx = ''t1''" "ctx_run demo_post_ctx = ''r1''"
    by (simp_all add: ctx_thread_def ctx_run_def demo_post_ctx_def)
  then have "st' = demo_second_state" using write_sent_once [OF p] demo_success_found by simp
  then show ?thesis using p demo_first_write by simp
qed

text \<open>
  The answer made from a recorded write does not say so in its metadata, where the event of the call looks for
  it: the ledger records a second confirmed write.
\<close>

definition demo_reused_end :: end_args where
  "demo_reused_end = \<lparr>en_name = ''http_post'', en_call_id = ''c2'',
     en_result = (case answer demo_handlers (reused_result \<lparr>ev_id = 3, ev_thread_id = ''t1'', ev_run_id = ''r1'',
          ev_type = ''tool_end'', ev_payload = PDict demo_success, ev_created_at = 0, ev_sequence = Some 3\<rparr>) 5 of
        Some d \<Rightarrow> ValueOut (PDict d) | None \<Rightarrow> ObjectOut []),
     en_duration_ms = None, en_success = True, en_error = None, en_sanitized_args = None, en_retry_count = None,
     en_timeout_seconds = None, en_idempotency_key = Some ''k'', en_error_type = None, en_attempt = None,
     en_max_attempts = None, en_idempotency_reused = False\<rparr>"

lemma reuse_flag_lost:
  "map_option (\<lambda>p. (dget p ''idempotency_reused'', map_option (map_option (\<lambda>s. dget s ''side_effect_status''))
       (build_tool_side_effect_payload (\<lambda>_. True)
          (PDict [(''category'', PStr ''http''), (''risk_level'', PStr ''high'')]) (PDict p) None None None None)))
     (build_tool_end_payload Some Some demo_reused_end) = Some (PBool False, Some (Some (PStr ''confirmed'')))"
  by code_simp

end
