(* ===== verification/Messages.thy ===== *)
theory Messages
  imports ToolResult Planning
begin

text \<open>
  Reading the messages of a chat and the events of the graph library
  (\<^verbatim>\<open>copilot_agent/agent/message_utils.py\<close>), and the final answer (\<^verbatim>\<open>agent/final_answer.py\<close>,
  \<^verbatim>\<open>contracts/final_answer.py\<close>).

  An event is a dictionary that may hold objects: a plain JSON value, a dictionary or list with objects in
  it, or an object with its class and its attributes. The text of an object that is no message is its
  attribute \<open>__str__\<close>.
\<close>

section \<open>Objects\<close>

datatype pyobj =
    OVal pyval
  | OMap "(string \<times> pyobj) list"
  | OSeq "pyobj list"
  | OObj string "(string \<times> pyobj) list"

type_synonym odict = "(string \<times> pyobj) list"

definition o_none :: pyobj where
  "o_none = OVal PNone"

definition assoc_or :: "odict \<Rightarrow> string \<Rightarrow> pyobj \<Rightarrow> pyobj" where
  "assoc_or d k v = (case map_of d k of Some x \<Rightarrow> x | None \<Rightarrow> v)"

fun o_truthy :: "pyobj \<Rightarrow> bool" where
  "o_truthy (OVal v) = truthy v"
| "o_truthy (OMap d) = (d \<noteq> [])"
| "o_truthy (OSeq xs) = (xs \<noteq> [])"
| "o_truthy (OObj c a) = True"

fun o_is_dict :: "pyobj \<Rightarrow> bool" where
  "o_is_dict (OVal v) = is_dict v"
| "o_is_dict (OMap d) = True"
| "o_is_dict x = False"

text \<open>\<open>x.get(k, default)\<close> of a dictionary; the default for anything else.\<close>

fun o_get :: "pyobj \<Rightarrow> string \<Rightarrow> pyobj \<Rightarrow> pyobj" where
  "o_get (OMap d) k v = assoc_or d k v"
| "o_get (OVal (PDict d)) k v = (if dhas d k then OVal (dget d k) else v)"
| "o_get x k v = v"

text \<open>\<open>getattr(x, name, default)\<close>\<close>

fun o_attr :: "pyobj \<Rightarrow> string \<Rightarrow> pyobj \<Rightarrow> pyobj" where
  "o_attr (OObj c a) k v = assoc_or a k v"
| "o_attr x k v = v"

text \<open>The elements of a list, \<open>None\<close> for anything else.\<close>

fun o_list :: "pyobj \<Rightarrow> pyobj list option" where
  "o_list (OSeq xs) = Some xs"
| "o_list (OVal (PList xs)) = Some (map OVal xs)"
| "o_list x = None"

definition o_items :: "pyobj \<Rightarrow> pyobj list" where
  "o_items x = (case o_list x of Some xs \<Rightarrow> xs | None \<Rightarrow> [])"

fun o_repr :: "pyobj \<Rightarrow> string" where
  "o_repr (OVal v) = py_repr v"
| "o_repr (OMap d) = ''{'' @ join '', '' (map (\<lambda>kv. str_repr (fst kv) @ '': '' @ o_repr (snd kv)) d) @ ''}''"
| "o_repr (OSeq xs) = ''['' @ join '', '' (map o_repr xs) @ '']''"
| "o_repr (OObj c a) = (case assoc_or a ''__str__'' o_none of OVal (PStr s) \<Rightarrow> s | _ \<Rightarrow> c)"

fun o_str :: "pyobj \<Rightarrow> string" where
  "o_str (OVal v) = py_str v"
| "o_str x = o_repr x"

text \<open>A value without objects: an object is replaced by its text.\<close>

fun o_plain :: "pyobj \<Rightarrow> pyval" where
  "o_plain (OVal v) = v"
| "o_plain (OMap d) = PDict (map (\<lambda>kv. (fst kv, o_plain (snd kv))) d)"
| "o_plain (OSeq xs) = PList (map o_plain xs)"
| "o_plain (OObj c a) = PStr (o_repr (OObj c a))"

definition AI_CLASSES :: "string list" where
  "AI_CLASSES = [''AIMessage'', ''AIMessageChunk'']"

definition MESSAGE_CLASSES :: "string list" where
  "MESSAGE_CLASSES = AI_CLASSES @ [''ToolMessage'', ''HumanMessage'', ''SystemMessage'', ''FunctionMessage'', ''ChatMessage'']"

fun is_message :: "pyobj \<Rightarrow> bool" where
  "is_message (OObj c a) = (c \<in> set MESSAGE_CLASSES)"
| "is_message x = False"

fun is_ai_message :: "pyobj \<Rightarrow> bool" where
  "is_ai_message (OObj c a) = (c \<in> set AI_CLASSES)"
| "is_ai_message x = False"

text \<open>The output of a tool as the audit reads it.\<close>

fun tool_output_of :: "pyobj \<Rightarrow> tool_output" where
  "tool_output_of (OObj c a) =
     (if c \<in> set MESSAGE_CLASSES then MessageOut c (map (\<lambda>kv. (fst kv, o_plain (snd kv))) a)
      else ObjectOut (o_repr (OObj c a)))"
| "tool_output_of x = ValueOut (o_plain x)"

section \<open>Text and reasoning of a message\<close>

definition content_text :: "pyobj \<Rightarrow> string" where
  "content_text content =
     (case content of
        OVal (PStr s) \<Rightarrow> s
      | _ \<Rightarrow> concat (map (\<lambda>part. if o_is_dict part \<and> o_get part ''type'' o_none = OVal (PStr ''text'')
                              then o_str (o_get part ''text'' (OVal (PStr []))) else []) (o_items content)))"

definition extract_text_from_chunk :: "pyobj \<Rightarrow> string" where
  "extract_text_from_chunk chunk = content_text (o_attr chunk ''content'' (OVal (PStr [])))"

definition text_at :: "(string \<times> string) list \<Rightarrow> string \<Rightarrow> string" where
  "text_at ts k = (case map_of ts k of Some s \<Rightarrow> s | None \<Rightarrow> [])"

text \<open>A plain value holds no message, so that there is no text in it.\<close>

fun extract_text_from_chat_output :: "pyobj \<Rightarrow> string" where
  "extract_text_from_chat_output (OVal v) = []"
| "extract_text_from_chat_output (OMap d) =
     (let ts = map (\<lambda>kv. (fst kv, extract_text_from_chat_output (snd kv))) d
      in if text_at ts ''message'' \<noteq> [] then text_at ts ''message'' else text_at ts ''generations'')"
| "extract_text_from_chat_output (OSeq xs) = concat (map extract_text_from_chat_output xs)"
| "extract_text_from_chat_output (OObj c a) =
     (let ts = map (\<lambda>kv. (fst kv, extract_text_from_chat_output (snd kv))) a;
          own = content_text (assoc_or a ''content'' (OVal (PStr [])))
      in if c \<in> set MESSAGE_CLASSES then own
         else if text_at ts ''message'' \<noteq> [] then text_at ts ''message'' else own)"

definition reasoning_in :: "pyobj \<Rightarrow> string option" where
  "reasoning_in kwargs =
     (let v = o_get kwargs ''reasoning_content'' o_none
      in if o_is_dict kwargs \<and> o_truthy v then Some (o_str v) else None)"

definition extract_reasoning_content :: "pyobj \<Rightarrow> string" where
  "extract_reasoning_content message =
     (case reasoning_in (o_attr message ''additional_kwargs'' o_none) of
        Some s \<Rightarrow> s
      | None \<Rightarrow> (case reasoning_in (o_attr message ''response_metadata'' o_none) of Some s \<Rightarrow> s | None \<Rightarrow> []))"

fun extract_reasoning_content_from_chat_output :: "pyobj \<Rightarrow> string" where
  "extract_reasoning_content_from_chat_output (OVal v) = []"
| "extract_reasoning_content_from_chat_output (OMap d) =
     (let ts = map (\<lambda>kv. (fst kv, extract_reasoning_content_from_chat_output (snd kv))) d
      in if text_at ts ''message'' \<noteq> [] then text_at ts ''message'' else text_at ts ''generations'')"
| "extract_reasoning_content_from_chat_output (OSeq xs) = concat (map extract_reasoning_content_from_chat_output xs)"
| "extract_reasoning_content_from_chat_output (OObj c a) =
     (let ts = map (\<lambda>kv. (fst kv, extract_reasoning_content_from_chat_output (snd kv))) a
      in if c \<in> set MESSAGE_CLASSES then extract_reasoning_content (OObj c a) else text_at ts ''message'')"

section \<open>Events of the graph\<close>

text \<open>\<open>event.get("data") or {}\<close>\<close>

definition event_data :: "odict \<Rightarrow> pyobj" where
  "event_data event = (let d = assoc_or event ''data'' o_none in if o_truthy d then d else OMap [])"

definition event_text :: "odict \<Rightarrow> string \<Rightarrow> string" where
  "event_text event k = o_str (assoc_or event k (OVal (PStr [])))"

definition extract_blocked_message_text :: "odict \<Rightarrow> string" where
  "extract_blocked_message_text event =
     (if event_text event ''event'' \<noteq> ''on_chain_end'' \<or> event_text event ''name'' \<noteq> ''safety_gate'' then []
      else
        (let output = o_get (event_data event) ''output'' (OMap []);
             msgs = o_items (o_get output ''messages'' o_none)
         in if msgs = [] then []
            else if is_ai_message (last msgs) \<and> \<not> o_truthy (o_attr (last msgs) ''tool_calls'' (OSeq []))
            then (let c = o_attr (last msgs) ''content'' (OVal (PStr [])) in if o_truthy c then o_str c else [])
            else []))"

fun first_id :: "pyobj \<Rightarrow> string list \<Rightarrow> string" where
  "first_id x [] = []"
| "first_id x (k # ks) = (let v = o_get x k o_none in if o_truthy v then o_str v else first_id x ks)"

text \<open>An empty text stands for no id; a value that is present and true has a text.\<close>

definition extract_call_id :: "odict \<Rightarrow> string" where
  "extract_call_id event =
     (let data = event_data event;
          keys = [''id'', ''tool_call_id''];
          nested = first_id (o_get data ''input'' o_none) keys;
          output = first_id (o_get data ''output'' o_none) keys
      in if \<not> o_is_dict data then []
         else if nested \<noteq> [] then nested else if output \<noteq> [] then output else first_id data keys)"

definition INTERRUPT_REASON :: dict where
  "INTERRUPT_REASON = [(''required'', PBool True), (''reason'', PStr ''dangerous_tool'')]"

definition extract_interrupt_payload :: "odict \<Rightarrow> dict option" where
  "extract_interrupt_payload event =
     (let chunk = o_get (event_data event) ''chunk'' o_none;
          interrupts = o_get chunk ''__interrupt__'' o_none;
          first = (case o_list interrupts of Some (x # xs) \<Rightarrow> x | _ \<Rightarrow> interrupts);
          value = o_attr first ''value'' o_none
      in if event_text event ''event'' \<noteq> ''on_chain_stream'' then None
         else if \<not> o_is_dict chunk \<or> o_get chunk ''__interrupt__'' (OObj ''absent'' []) = OObj ''absent'' [] then None
         else if \<not> o_truthy interrupts then Some INTERRUPT_REASON
         else if o_is_dict value then Some (as_dict (o_plain value))
         else Some (INTERRUPT_REASON @ [(''message'', PStr (o_str value))]))"

section \<open>The turn of a conversation\<close>

definition is_user :: "dict \<Rightarrow> bool" where
  "is_user m \<longleftrightarrow> lower (py_str (dget_or m ''role'' (PStr []))) = ''user''"

definition last_user_content :: "dict list \<Rightarrow> string" where
  "last_user_content messages =
     (case find_last is_user messages of Some m \<Rightarrow> py_str (dget_or m ''content'' (PStr [])) | None \<Rightarrow> [])"

definition current_turn_messages :: "dict list \<Rightarrow> dict list" where
  "current_turn_messages messages =
     (if messages = [] then []
      else case find_last is_user messages of Some m \<Rightarrow> [m] | None \<Rightarrow> [last messages])"

fun to_lc_messages :: "dict list \<Rightarrow> lc_message list" where
  "to_lc_messages [] = []"
| "to_lc_messages (m # ms) =
     (let role = lower (py_str (dget_or m ''role'' (PStr []))); content = py_str (dget_or m ''content'' (PStr []))
      in (if role = ''user'' then HumanMessage content
          else if role = ''assistant'' then AIMessage (PStr content) []
          else if role = ''system'' then SystemMessage content
          else HumanMessage content) # to_lc_messages ms)"

text \<open>The calls that the approval requests of a run name: the id last asked for under a tool's name.\<close>

definition named_call :: "pyval \<Rightarrow> (string \<times> string) list" where
  "named_call call =
     (let d = as_dict call in
      if is_dict call \<and> truthy (dget d ''name'') \<and> truthy (dget d ''id'')
      then [(py_str (dget d ''name''), py_str (dget d ''id''))] else [])"

definition requested_calls :: "dict \<Rightarrow> (string \<times> string) list" where
  "requested_calls payload = concat (map named_call (as_list (dget payload ''tool_calls'')))"

definition approval_tool_call_ids :: "(string \<times> dict) list \<Rightarrow> (string \<times> string) list" where
  "approval_tool_call_ids rlog =
     fold (\<lambda>(name, i) out. AList.update name i out)
       (concat (map (\<lambda>(ty, payload). if ty = ''approval_required'' then requested_calls payload else []) rlog)) []"

end
