(* ===== verification/FinalAnswer.thy ===== *)
theory FinalAnswer
  imports Messages
begin

text \<open>
  The final answer of a run (\<^verbatim>\<open>copilot_agent/agent/final_answer.py\<close>, \<^verbatim>\<open>contracts/final_answer.py\<close>): the text
  with the citations and the tools found in the messages of the checkpoint. \<^verbatim>\<open>json.loads\<close> is the parameter
  \<open>loads\<close>, the validation of a citation \<open>citation_of\<close> (\<open>None\<close>: it raised).
\<close>

record citation =
  ci_source_file :: string
  ci_heading_path :: "string option"
  ci_start_line :: int
  ci_chunk_id :: string
  ci_authority :: "int option"

definition plain_citation :: "string \<Rightarrow> citation" where
  "plain_citation source = \<lparr>ci_source_file = source, ci_heading_path = None, ci_start_line = 0, ci_chunk_id = [],
     ci_authority = None\<rparr>"

definition citation_dict :: "citation \<Rightarrow> dict" where
  "citation_dict c = [(''source_file'', PStr (ci_source_file c)), (''heading_path'', opt_str (ci_heading_path c)),
     (''start_line'', PInt (ci_start_line c)), (''chunk_id'', PStr (ci_chunk_id c)),
     (''authority'', opt_int (ci_authority c))]"

definition citation_key :: "citation \<Rightarrow> string" where
  "citation_key c = or_text (ci_chunk_id c) (ci_source_file c)"

record final_answer =
  fa_answer :: string
  fa_answer_format :: string
  fa_citations :: "citation list"
  fa_route_kind :: "string option"
  fa_tools_used :: "string list"
  fa_tool_evidence :: "dict list"
  fa_evidence_count :: int
  fa_source_count :: int
  fa_citation_required :: bool
  fa_citation_status :: string
  fa_safety_status :: string
  fa_output_guard_action :: string
  fa_contract_warnings :: "string list"
  fa_metadata :: dict

definition final_answer_dict :: "final_answer \<Rightarrow> dict" where
  "final_answer_dict f =
     [(''contract_version'', PInt 2), (''answer'', PStr (fa_answer f)), (''answer_format'', PStr (fa_answer_format f)),
      (''citations'', PList (map (PDict \<circ> citation_dict) (fa_citations f))),
      (''route_kind'', opt_str (fa_route_kind f)), (''tools_used'', strs (fa_tools_used f)),
      (''tool_evidence'', PList (map PDict (fa_tool_evidence f))), (''evidence_count'', PInt (fa_evidence_count f)),
      (''source_count'', PInt (fa_source_count f)), (''citation_required'', PBool (fa_citation_required f)),
      (''citation_status'', PStr (fa_citation_status f)), (''safety_status'', PStr (fa_safety_status f)),
      (''output_guard_action'', PStr (fa_output_guard_action f)),
      (''contract_warnings'', strs (fa_contract_warnings f)), (''metadata'', PDict (fa_metadata f))]"

section \<open>Citations and evidence of a tool message\<close>

definition payload_data :: "dict \<Rightarrow> dict" where
  "payload_data payload = (if is_dict (dget payload ''data'') then as_dict (dget payload ''data'') else payload)"

fun collect_citations :: "(dict \<Rightarrow> citation option) \<Rightarrow> string list \<Rightarrow> pyval list \<Rightarrow> citation list" where
  "collect_citations citation_of seen [] = []"
| "collect_citations citation_of seen (entry # es) =
     (let d = as_dict entry;
          source = strip (str_or (dget d ''source_file''));
          key = or_text (strip (str_or (dget d ''chunk_id''))) source
      in if \<not> is_dict entry \<or> key = [] \<or> key \<in> set seen then collect_citations citation_of seen es
         else (case citation_of d of
                 Some c \<Rightarrow> [c]
               | None \<Rightarrow> if source \<noteq> [] then [plain_citation source] else [])
              @ collect_citations citation_of (key # seen) es)"

definition citations_from_tool_message ::
    "(string \<Rightarrow> pyval option) \<Rightarrow> (dict \<Rightarrow> citation option) \<Rightarrow> pyval \<Rightarrow> citation list" where
  "citations_from_tool_message loads citation_of content =
     (let payload = parse_tool_payload loads content;
          metadata = as_dict (dget payload ''metadata'')
      in collect_citations citation_of []
           (as_list (py_or (dget (payload_data payload) ''citations'') (dget metadata ''citations''))))"

definition source_count :: "citation list \<Rightarrow> int" where
  "source_count cs = int (length (remdups (filter (\<lambda>s. s \<noteq> []) (map ci_source_file cs))))"

definition EVIDENCE_KEYS :: "string list" where
  "EVIDENCE_KEYS = [''call_id'', ''status_code'', ''path'', ''method'', ''policy_trace_id'']"

definition tool_evidence_from_message ::
    "(string \<Rightarrow> pyval option) \<Rightarrow> (dict \<Rightarrow> citation option) \<Rightarrow> string \<Rightarrow> string \<Rightarrow> pyval \<Rightarrow> dict" where
  "tool_evidence_from_message loads citation_of name tool_call_id content =
     (let payload = parse_tool_payload loads content;
          metadata = as_dict (dget payload ''metadata'');
          citations = citations_from_tool_message loads citation_of content
      in [(''tool'', PStr name), (''tool_call_id'', PStr tool_call_id),
          (''success'', PBool (truthy (dget_or payload ''success'' (PBool True)))),
          (''source_count'', PInt (source_count citations)), (''citation_count'', PInt (int (length citations))),
          (''metadata'', PDict (map (\<lambda>k. (k, dget metadata k)) (filter (dhas metadata) EVIDENCE_KEYS))),
          (''data_keys'', strs (sort (map fst (payload_data payload))))])"

section \<open>The answer\<close>

record answer_parts =
  ap_citations :: "citation list"
  ap_tools :: "string list"
  ap_evidence :: "dict list"

fun add_citations :: "citation list \<Rightarrow> citation list \<Rightarrow> citation list" where
  "add_citations cs [] = cs"
| "add_citations cs (c # new) =
     add_citations (if citation_key c \<in> set (map citation_key cs) then cs else cs @ [c]) new"

definition add_message ::
    "(string \<Rightarrow> pyval option) \<Rightarrow> (dict \<Rightarrow> citation option) \<Rightarrow> lc_message \<Rightarrow> answer_parts \<Rightarrow> answer_parts" where
  "add_message loads citation_of m p =
     (case m of
        ToolMessage tool content call_id \<Rightarrow>
          (let name = strip tool;
               p = (if name \<noteq> [] \<and> name \<notin> set (ap_tools p)
                    then p\<lparr>ap_tools := ap_tools p @ [name],
                           ap_evidence := ap_evidence p @ [tool_evidence_from_message loads citation_of name call_id content]\<rparr>
                    else p)
           in if name = ''search_docs''
              then p\<lparr>ap_citations := add_citations (ap_citations p) (citations_from_tool_message loads citation_of content)\<rparr>
              else p)
      | _ \<Rightarrow> p)"

definition answer_parts_of ::
    "(string \<Rightarrow> pyval option) \<Rightarrow> (dict \<Rightarrow> citation option) \<Rightarrow> lc_message list \<Rightarrow> answer_parts" where
  "answer_parts_of loads citation_of messages =
     fold (add_message loads citation_of) messages \<lparr>ap_citations = [], ap_tools = [], ap_evidence = []\<rparr>"

definition citation_status :: "bool \<Rightarrow> int \<Rightarrow> string" where
  "citation_status required evidence_count =
     (if \<not> required then ''not_required'' else if evidence_count > 0 then ''satisfied'' else ''missing'')"

text \<open>The warnings given in the metadata; \<open>None\<close> when they are not a list of texts.\<close>

fun text_of :: "pyval \<Rightarrow> string option" where
  "text_of (PStr s) = Some s"
| "text_of v = None"

definition given_warnings :: "dict \<Rightarrow> string list option" where
  "given_warnings metadata =
     (case py_iter (py_or (dget metadata ''contract_warnings'') (PList [])) of
        None \<Rightarrow> None
      | Some xs \<Rightarrow> those (map text_of xs))"

definition build_final_answer ::
    "(string \<Rightarrow> pyval option) \<Rightarrow> (dict \<Rightarrow> citation option) \<Rightarrow> string \<Rightarrow> lc_message list \<Rightarrow> string option \<Rightarrow> dict \<Rightarrow>
     final_answer option" where
  "build_final_answer loads citation_of answer messages route_kind metadata =
     (let p = answer_parts_of loads citation_of messages;
          citations = ap_citations p;
          required = truthy (dget_or metadata ''citation_required''
            (PBool (route_kind = Some ''knowledge'' \<or> route_kind = Some ''troubleshooting'')));
          count = int (length citations);
          status = citation_status required count;
          merged = dsetdefault ''tool_evidence_count'' (PInt (int (length (ap_evidence p))))
            (dsetdefault ''citation_status'' (PStr status)
              (dsetdefault ''citation_required'' (PBool required)
                (dsetdefault ''source_count'' (PInt (source_count citations))
                  (dsetdefault ''evidence_count'' (PInt count) metadata))))
      in map_option (\<lambda>ws.
           \<lparr>fa_answer = strip answer, fa_answer_format = or_text (str_or (dget merged ''answer_format'')) ''text'',
            fa_citations = citations, fa_route_kind = route_kind, fa_tools_used = ap_tools p,
            fa_tool_evidence = ap_evidence p, fa_evidence_count = count, fa_source_count = source_count citations,
            fa_citation_required = required, fa_citation_status = status,
            fa_safety_status = or_text (str_or (dget merged ''safety_status'')) ''unknown'',
            fa_output_guard_action = or_text (str_or (dget merged ''output_guard_action'')) ''unknown'',
            fa_contract_warnings = ws
              @ (if status = ''missing'' then [''citation_required_but_missing''] else [])
              @ (if strip answer = [] then [''empty_answer''] else []),
            fa_metadata = merged\<rparr>) (given_warnings metadata))"

fun message_answer :: "lc_message \<Rightarrow> string" where
  "message_answer (AIMessage (PStr content) calls) = strip content"
| "message_answer m = []"

definition extract_final_answer_text :: "lc_message list \<Rightarrow> string" where
  "extract_final_answer_text messages =
     (case find (\<lambda>m. message_answer m \<noteq> []) (rev messages) of Some m \<Rightarrow> message_answer m | None \<Rightarrow> [])"

section \<open>What an answer accounts for\<close>

lemma add_citations_keys:
  "distinct (map citation_key cs) \<Longrightarrow> distinct (map citation_key (add_citations cs new))
     \<and> set (map citation_key (add_citations cs new)) = set (map citation_key (cs @ new))
     \<and> set (add_citations cs new) \<subseteq> set (cs @ new)"
proof (induction new arbitrary: cs)
  case (Cons c new)
  show ?case
  proof (cases "citation_key c \<in> set (map citation_key cs)")
    case True
    then show ?thesis using Cons.IH [OF Cons.prems] by auto
  next
    case False
    then have "distinct (map citation_key (cs @ [c]))" using Cons.prems by simp
    then show ?thesis using Cons.IH [of "cs @ [c]"] False by auto
  qed
qed simp

definition cited :: "(string \<Rightarrow> pyval option) \<Rightarrow> (dict \<Rightarrow> citation option) \<Rightarrow> lc_message \<Rightarrow> citation list" where
  "cited loads citation_of m =
     (case m of
        ToolMessage tool content _ \<Rightarrow>
          (if strip tool = ''search_docs'' then citations_from_tool_message loads citation_of content else [])
      | _ \<Rightarrow> [])"

definition parts_ok :: "(string \<Rightarrow> pyval option) \<Rightarrow> (dict \<Rightarrow> citation option) \<Rightarrow> lc_message list \<Rightarrow> answer_parts \<Rightarrow> bool" where
  "parts_ok loads citation_of messages p \<longleftrightarrow>
     distinct (map citation_key (ap_citations p))
     \<and> set (map citation_key (ap_citations p)) = citation_key ` (\<Union>m \<in> set messages. set (cited loads citation_of m))
     \<and> set (ap_citations p) \<subseteq> (\<Union>m \<in> set messages. set (cited loads citation_of m))
     \<and> distinct (ap_tools p) \<and> set (ap_tools p) = set (message_tool_names messages)
     \<and> map (\<lambda>e. dget e ''tool'') (ap_evidence p) = map PStr (ap_tools p)"

lemma evidence_tool: "dget (tool_evidence_from_message loads citation_of name call_id content) ''tool'' = PStr name"
  by (simp add: tool_evidence_from_message_def Let_def)

lemma tool_names_snoc:
  "message_tool_names (ms @ [m]) = message_tool_names ms @
     (case m of ToolMessage tool _ _ \<Rightarrow> if strip tool = [] then [] else [strip tool] | _ \<Rightarrow> [])"
  by (simp add: message_tool_names_def split: lc_message.split)

lemma parts_ok_add:
  assumes "parts_ok loads citation_of ms p" shows "parts_ok loads citation_of (ms @ [m]) (add_message loads citation_of m p)"
proof (cases m)
  case (ToolMessage tool content call_id)
  note keys = add_citations_keys [of "ap_citations p" "citations_from_tool_message loads citation_of content"]
  show ?thesis
    using assms keys
    by (auto simp: parts_ok_def add_message_def ToolMessage Let_def tool_names_snoc cited_def evidence_tool image_Un)
qed (use assms in \<open>auto simp: parts_ok_def add_message_def tool_names_snoc cited_def\<close>)

lemma parts_ok_all: "parts_ok loads citation_of messages (answer_parts_of loads citation_of messages)"
proof (induction messages rule: rev_induct)
  case Nil
  show ?case by (simp add: parts_ok_def answer_parts_of_def message_tool_names_def)
next
  case (snoc m ms)
  then show ?case using parts_ok_add [of loads citation_of ms _ m] by (simp add: answer_parts_of_def)
qed

text \<open>
  The final answer accounts for the messages: it cites every source that a document search returned,
  once, and nothing else; it names every tool that answered, once, each with one piece of evidence; and when
  citations are required and there is none it says so.
\<close>

theorem final_answer_accounts:
  assumes "build_final_answer loads citation_of answer messages route_kind metadata = Some f"
  shows "distinct (map citation_key (fa_citations f))
    \<and> citation_key ` set (fa_citations f) = citation_key ` (\<Union>m \<in> set messages. set (cited loads citation_of m))
    \<and> set (fa_citations f) \<subseteq> (\<Union>m \<in> set messages. set (cited loads citation_of m))
    \<and> distinct (fa_tools_used f) \<and> set (fa_tools_used f) = set (message_tool_names messages)
    \<and> map (\<lambda>e. dget e ''tool'') (fa_tool_evidence f) = map PStr (fa_tools_used f)
    \<and> fa_evidence_count f = int (length (fa_citations f))
    \<and> (fa_citation_status f = ''missing'' \<longleftrightarrow> fa_citation_required f \<and> fa_citations f = [])
    \<and> (if fa_citation_status f = ''missing'' then ''citation_required_but_missing'' \<in> set (fa_contract_warnings f)
       else True)"
proof -
  let ?p = "answer_parts_of loads citation_of messages"
  have f: "fa_citations f = ap_citations ?p" "fa_tools_used f = ap_tools ?p" "fa_tool_evidence f = ap_evidence ?p"
    "fa_evidence_count f = int (length (ap_citations ?p))"
    "fa_citation_status f = citation_status (fa_citation_required f) (int (length (ap_citations ?p)))"
    "fa_citation_status f = ''missing'' \<Longrightarrow> ''citation_required_but_missing'' \<in> set (fa_contract_warnings f)"
    using assms by (auto simp: build_final_answer_def Let_def)
  have p: "parts_ok loads citation_of messages ?p" by (rule parts_ok_all)
  have "fa_citation_status f = ''missing'' \<longleftrightarrow> fa_citation_required f \<and> fa_citations f = []"
    by (simp add: f(1,5) citation_status_def)
  then show ?thesis using p f(6) by (simp add: f(1-4) parts_ok_def)
qed

definition demo_search_message :: lc_message where
  "demo_search_message = ToolMessage ''search_docs'' (PDict [(''data'', PDict [(''citations'', PList
     [PDict [(''source_file'', PStr ''a.md'')], PDict [(''source_file'', PStr ''a.md'')], PDict [(''source_file'', PStr ''b.md'')]])])])
     ''c1''"

theorem final_answer_accounts_witness:
  "\<exists>f :: final_answer. map ci_source_file (fa_citations f) = [''a.md'', ''b.md''] \<and> fa_citation_status f = ''satisfied''
     \<and> fa_evidence_count f = int (length (fa_citations f)) \<and> set (fa_tools_used f) = {''search_docs''}"
proof -
  let ?f = "build_final_answer (\<lambda>_. None) (\<lambda>d. None) ''done'' [demo_search_message] (Some ''knowledge'') []"
  have "map_option (\<lambda>f. (map ci_source_file (fa_citations f), fa_citation_status f)) ?f =
      Some ([''a.md'', ''b.md''], ''satisfied'')"
    by code_simp
  then obtain f where f: "?f = Some f" and c: "map ci_source_file (fa_citations f) = [''a.md'', ''b.md'']"
      "fa_citation_status f = ''satisfied''" by auto
  have "set (message_tool_names [demo_search_message]) = {''search_docs''}" by code_simp
  with final_answer_accounts [OF f] show ?thesis using c by (intro exI [of _ f]) (simp only: simp_thms)
qed

end
