(* ===== verification/EventMapper.thy ===== *)
theory EventMapper
  imports FinalAnswer ToolSpecs StoreProps
begin

text \<open>
  From the events of the graph to the events of a run (\<^verbatim>\<open>copilot_agent/agent/stream/event_mapper.py\<close>): text,
  reasoning and token counts of the language model, start and end of every tool call with the policy decision
  and the ledger entry that go with it, and at the end the output guard and the final answer.

  The generator is a function of the list of graph events; its state is \<open>mapper\<close>. The readings of
  \<^verbatim>\<open>time.perf_counter()\<close> and the UUIDs are streams; what the memory manager and the checkpoint reader answer
  are arguments. The arithmetic of the costs and the search of the guard's patterns are parameters. Spans
  of the tracer have no effect on the events.
\<close>

section \<open>State\<close>

record mapper_env =
  mx_thread_id :: string
  mx_run_id :: "string option"
  mx_trace_id :: string
  mx_observability_provider :: string
  mx_external_trace_url :: pyval
  mx_guard_enabled :: bool
  mx_guard_block :: bool
  mx_require_citations :: bool
  mx_provider :: string
  mx_model :: string
  mx_registry :: tool_registry
  mx_http_data :: "dict \<Rightarrow> dict option"
  mx_search_data :: "dict \<Rightarrow> dict option"
  mx_sha256 :: "string \<Rightarrow> string"
  mx_netloc_ok :: "string \<Rightarrow> bool"
  mx_uuid :: "nat \<Rightarrow> string"
  mx_clock :: "nat \<Rightarrow> rat"
  mx_cost :: "string \<times> string \<Rightarrow> int \<Rightarrow> int \<Rightarrow> string"
  mx_cost_sum :: "string option \<Rightarrow> string \<Rightarrow> string"
  mx_cost_round :: "string \<Rightarrow> string"
  mx_patterns :: "(string \<times> (string \<Rightarrow> bool)) list"
  mx_loads :: "string \<Rightarrow> pyval option"
  mx_citation :: "dict \<Rightarrow> citation option"

record llm_usage =
  lu_rounds :: int
  lu_prompt :: int
  lu_completion :: int
  lu_total :: int
  lu_cost :: "string option"

record mapper =
  mp_started_at :: "(string \<times> rat) list"
  mp_start_names :: "(string \<times> string) list"
  mp_start_meta :: "(string \<times> audit_metadata) list"
  mp_start_payloads :: "(string \<times> dict) list"
  mp_end_emitted :: "string list"
  mp_usage :: llm_usage
  mp_pending :: "(string \<times> string) list"
  mp_approved :: "string list"
  mp_traces :: "(string \<times> string) list"
  mp_output :: string
  mp_reasoning :: string
  mp_generation_started :: "(string \<times> rat) list"
  mp_generation_outputs :: "(string \<times> string) list"
  mp_generation_tools :: "(string \<times> string list) list"
  mp_readings :: nat
  mp_uuids :: nat

datatype flow = Next | Interrupted dict | Failed

type_synonym mapped = "mapper \<times> runtime_event list \<times> flow"

definition mapper_event :: "mapper_env \<Rightarrow> string \<Rightarrow> dict \<Rightarrow> string option \<Rightarrow> runtime_event" where
  "mapper_event x kind payload tool_call_id =
     from_payload kind payload (Some (mx_thread_id x)) (mx_run_id x) (Some (mx_trace_id x)) tool_call_id"

definition read_clock :: "mapper_env \<Rightarrow> mapper \<Rightarrow> rat \<times> mapper" where
  "read_clock x st = (mx_clock x (mp_readings st), st\<lparr>mp_readings := Suc (mp_readings st)\<rparr>)"

text \<open>\<open>int((time.perf_counter() - started) * 1000)\<close>, for a start that is there and not zero.\<close>

definition ms_between :: "rat \<Rightarrow> rat \<Rightarrow> int" where
  "ms_between started now = (let d = (now - started) * 1000 in if d \<ge> 0 then \<lfloor>d\<rfloor> else - \<lfloor>- d\<rfloor>)"

definition duration_since :: "mapper_env \<Rightarrow> rat option \<Rightarrow> mapper \<Rightarrow> int option \<times> mapper" where
  "duration_since x started st =
     (case started of
        None \<Rightarrow> (None, st)
      | Some t \<Rightarrow> if t = 0 then (None, st)
                  else (case read_clock x st of (now, st) \<Rightarrow> (Some (ms_between t now), st)))"

section \<open>Reading a graph event\<close>

definition event_run_key :: "odict \<Rightarrow> string" where
  "event_run_key event =
     (let a = assoc_or event ''run_id'' o_none; b = assoc_or event ''run_name'' o_none
      in if o_truthy a then o_str a else if o_truthy b then o_str b else [])"

definition event_parent_run_key :: "odict \<Rightarrow> string" where
  "event_parent_run_key event =
     (case o_list (assoc_or event ''parent_ids'' o_none) of
        Some (x # xs) \<Rightarrow> o_str (last (x # xs))
      | _ \<Rightarrow> [])"

text \<open>The three counts; inner \<open>None\<close>: there are none, outer \<open>None\<close>: one of them is no number.\<close>

definition int_of_obj :: "pyobj \<Rightarrow> int option" where
  "int_of_obj v = (if \<not> o_truthy v then Some 0 else case v of OVal w \<Rightarrow> py_int w | _ \<Rightarrow> None)"

definition o_or :: "pyobj \<Rightarrow> pyobj \<Rightarrow> pyobj" where
  "o_or a b = (if o_truthy a then a else b)"

definition extract_token_usage :: "pyobj \<Rightarrow> (int \<times> int \<times> int) option option" where
  "extract_token_usage output =
     (let meta = o_attr output ''response_metadata'' o_none;
          usage = o_or (o_get meta ''token_usage'' o_none) (o_or (o_get meta ''usage'' o_none)
            (o_or (o_attr output ''usage_metadata'' o_none) (OMap [])))
      in if \<not> o_is_dict usage then Some None
         else case (int_of_obj (o_or (o_get usage ''prompt_tokens'' o_none) (o_get usage ''input_tokens'' o_none)),
                    int_of_obj (o_or (o_get usage ''completion_tokens'' o_none) (o_get usage ''output_tokens'' o_none))) of
           (Some prompt, Some completion) \<Rightarrow>
             (case int_of_obj (o_or (o_get usage ''total_tokens'' o_none) (OVal (PInt (prompt + completion)))) of
                None \<Rightarrow> None
              | Some n \<Rightarrow> Some (if prompt = 0 \<and> completion = 0 \<and> n = 0 then None
                                else Some (prompt, completion, n)))
         | _ \<Rightarrow> None)"

definition finish_in :: "pyobj \<Rightarrow> string option" where
  "finish_in meta =
     (let v = o_or (o_get meta ''finish_reason'' o_none) (o_get meta ''stop_reason'' o_none)
      in if o_is_dict meta \<and> o_truthy v then Some (o_str v) else None)"

definition extract_finish_reason :: "pyobj \<Rightarrow> string option" where
  "extract_finish_reason output =
     (case finish_in (o_attr output ''response_metadata'' o_none) of
        Some s \<Rightarrow> Some s
      | None \<Rightarrow>
          (let info = o_attr output ''generation_info'' o_none; v = o_get info ''finish_reason'' o_none
           in if o_is_dict info \<and> o_truthy v then Some (o_str v) else None))"

definition price_key :: "string \<Rightarrow> string \<Rightarrow> string" where
  "price_key provider model =
     (let p = lower (strip provider); m = lower (strip model) in
      if contains p ''deepseek'' \<or> starts_with m ''deepseek'' then
        (if contains m ''chat'' then ''deepseek-chat'' else if contains m ''reasoner'' then ''deepseek-reasoner'' else m)
      else m)"

definition PRICE_PER_MILLION_TOKENS :: "(string \<times> string \<times> string) list" where
  "PRICE_PER_MILLION_TOKENS =
     [(''gpt-4o-mini'', ''0.15'', ''0.60''), (''gpt-4o'', ''2.50'', ''10.00''),
      (''deepseek-chat'', ''0.27'', ''1.10''), (''deepseek-reasoner'', ''0.55'', ''2.19'')]"

definition estimate_llm_cost :: "mapper_env \<Rightarrow> int \<Rightarrow> int \<Rightarrow> string option" where
  "estimate_llm_cost x prompt completion =
     map_option (\<lambda>price. mx_cost x price prompt completion)
       (map_of PRICE_PER_MILLION_TOKENS (price_key (mx_provider x) (mx_model x)))"

definition add_usage :: "mapper_env \<Rightarrow> (int \<times> int \<times> int) option \<Rightarrow> string option \<Rightarrow> llm_usage \<Rightarrow> llm_usage" where
  "add_usage x tokens cost u =
     (let (p, c, t) = (case tokens of Some n \<Rightarrow> n | None \<Rightarrow> (0, 0, 0))
      in \<lparr>lu_rounds = lu_rounds u + 1, lu_prompt = lu_prompt u + p, lu_completion = lu_completion u + c,
          lu_total = lu_total u + t,
          lu_cost = (case cost of Some k \<Rightarrow> Some (mx_cost_sum x (lu_cost u) k) | None \<Rightarrow> lu_cost u)\<rparr>)"

definition usage_dict :: "mapper_env \<Rightarrow> llm_usage \<Rightarrow> dict" where
  "usage_dict x u =
     [(''llm_rounds'', PInt (lu_rounds u)), (''prompt_tokens'', PInt (lu_prompt u)),
      (''completion_tokens'', PInt (lu_completion u)), (''total_tokens'', PInt (lu_total u)),
      (''estimated_cost'', opt_float (map_option (mx_cost_round x) (lu_cost u)))]"

section \<open>The language model\<close>

definition token_events :: "mapper_env \<Rightarrow> string \<Rightarrow> runtime_event list" where
  "token_events x text =
     (if mx_guard_enabled x then [] else [mapper_event x ''token'' [(''text'', PStr text)] None])"

definition on_chat_model_start :: "mapper_env \<Rightarrow> odict \<Rightarrow> mapper \<Rightarrow> mapped" where
  "on_chat_model_start x event st =
     (if event_run_key event = [] then (st, [], Next)
      else (case read_clock x st of (now, st) \<Rightarrow>
        (st\<lparr>mp_generation_started := AList.update (event_run_key event) now (mp_generation_started st)\<rparr>, [], Next)))"

definition on_chat_model_stream :: "mapper_env \<Rightarrow> odict \<Rightarrow> mapper \<Rightarrow> mapped" where
  "on_chat_model_stream x event st =
     (let key = event_run_key event;
          chunk = o_get (event_data event) ''chunk'' o_none;
          reasoning = extract_reasoning_content chunk;
          text = extract_text_from_chunk chunk;
          st = (if reasoning \<noteq> [] then st\<lparr>mp_reasoning := mp_reasoning st @ reasoning\<rparr> else st);
          st = (if text \<noteq> [] \<and> key \<noteq> []
                then st\<lparr>mp_generation_outputs := AList.update key
                       (text_at (mp_generation_outputs st) key @ text) (mp_generation_outputs st)\<rparr> else st);
          st = st\<lparr>mp_output := mp_output st @ text\<rparr>
      in (st,
          (if reasoning \<noteq> []
           then [mapper_event x ''assistant_state'' [(''reasoning_content_delta'', PStr reasoning)] None] else [])
          @ (if text \<noteq> [] then token_events x text else []), Next))"

definition generation_payload ::
    "mapper_env \<Rightarrow> int \<Rightarrow> int option \<Rightarrow> (int \<times> int \<times> int) option \<Rightarrow> string option \<Rightarrow> string option \<Rightarrow> string list \<Rightarrow>
     dict" where
  "generation_payload x rnd latency tokens cost finish_reason tools =
     (let (p, c, t) = (case tokens of Some n \<Rightarrow> n | None \<Rightarrow> (0, 0, 0)) in
      [(''trace_id'', PStr (mx_trace_id x)), (''provider'', PStr (mx_provider x)), (''model'', PStr (mx_model x)),
       (''round_index'', PInt rnd), (''latency_ms'', opt_int latency), (''prompt_tokens'', PInt p),
       (''completion_tokens'', PInt c), (''total_tokens'', PInt t), (''estimated_cost'', opt_float cost),
       (''finish_reason'', opt_str finish_reason), (''tool_call_count'', PInt (int (length tools))),
       (''tool_names'', strs tools), (''observability_provider'', PStr (mx_observability_provider x)),
       (''external_trace_url'', mx_external_trace_url x)])"

text \<open>The generation's record, when there is something to record: it takes the generation's entries along.\<close>

definition generation_ended ::
    "mapper_env \<Rightarrow> string \<Rightarrow> pyobj \<Rightarrow> (int \<times> int \<times> int) option \<Rightarrow> string option \<Rightarrow> int \<Rightarrow> mapper \<Rightarrow>
     mapper \<times> runtime_event list" where
  "generation_ended x key output tokens cost rnd st =
     (if tokens = None \<and> key = [] then (st, [])
      else
        (let started = (if key = [] then None else map_of (mp_generation_started st) key);
             tools = (if key = [] then []
                      else case map_of (mp_generation_tools st) key of Some ts \<Rightarrow> sort (remdups ts) | None \<Rightarrow> []);
             st = (if key = [] then st
                   else st\<lparr>mp_generation_started := AList.delete key (mp_generation_started st),
                          mp_generation_outputs := AList.delete key (mp_generation_outputs st),
                          mp_generation_tools := AList.delete key (mp_generation_tools st)\<rparr>)
         in case (case started of
                    None \<Rightarrow> (None, st)
                  | Some t \<Rightarrow> (case read_clock x st of (now, st) \<Rightarrow> (Some (ms_between t now), st))) of
              (latency, st) \<Rightarrow>
                (st, [mapper_event x ''llm_generation''
                        (generation_payload x rnd latency tokens cost (extract_finish_reason output) tools) None])))"

definition on_chat_model_end :: "mapper_env \<Rightarrow> odict \<Rightarrow> mapper \<Rightarrow> mapped" where
  "on_chat_model_end x event st =
     (let key = event_run_key event;
          output = o_get (event_data event) ''output'' o_none
      in case extract_token_usage output of
           None \<Rightarrow> (st, [], Failed)
         | Some tokens \<Rightarrow>
             (let rnd = lu_rounds (mp_usage st) + 1;
                  (p, c) = (case tokens of Some (p, c, t) \<Rightarrow> (p, c) | None \<Rightarrow> (0, 0));
                  cost = estimate_llm_cost x p c;
                  st = st\<lparr>mp_usage := add_usage x tokens cost (mp_usage st)\<rparr>
              in case generation_ended x key output tokens cost rnd st of
                   (st, generation) \<Rightarrow>
                     (let reasoning = extract_reasoning_content_from_chat_output output;
                          fresh = (reasoning \<noteq> [] \<and> reasoning \<noteq> mp_reasoning st);
                          text = extract_text_from_chat_output output;
                          unseen = (text \<noteq> [] \<and> \<not> contains (mp_output st) text);
                          st = (if fresh then st\<lparr>mp_reasoning := reasoning\<rparr> else st);
                          st = (if unseen then st\<lparr>mp_output := mp_output st @ text\<rparr> else st)
                      in (st, generation
                            @ (if fresh
                               then [mapper_event x ''assistant_state'' [(''reasoning_content'', PStr reasoning)] None]
                               else [])
                            @ (if unseen then token_events x text else []), Next))))"

section \<open>Interrupts and refusals\<close>

definition on_interrupt :: "mapper_env \<Rightarrow> dict \<Rightarrow> mapper \<Rightarrow> mapped" where
  "on_interrupt x payload st =
     (st\<lparr>mp_pending := fold (\<lambda>(name, i) p. AList.update name i p) (requested_calls payload) (mp_pending st)\<rparr>,
      [mapper_event x ''approval_required'' payload None], Interrupted payload)"

definition on_blocked :: "mapper_env \<Rightarrow> string \<Rightarrow> mapper \<Rightarrow> mapped" where
  "on_blocked x text st =
     (if contains (lower text) ''gated'' \<and> contains text ''confirm_dangerous=true'' then
        (let payload = INTERRUPT_REASON @ [(''message'', PStr text)]
         in (st, [mapper_event x ''approval_required'' payload None], Interrupted payload))
      else (st\<lparr>mp_output := mp_output st @ text\<rparr>, token_events x text, Next))"

section \<open>Tool calls\<close>

definition idempotency_key_for :: "tool_spec \<Rightarrow> dict \<Rightarrow> string option" where
  "idempotency_key_for spec args =
     (case ts_idempotency_key_field spec of
        None \<Rightarrow> None
      | Some field \<Rightarrow>
          (let value = dget args field; text = strip (py_str value)
           in if field = [] \<or> value = PNone \<or> text = [] then None else Some text))"

definition tool_audit_metadata :: "tool_spec option \<Rightarrow> dict \<Rightarrow> audit_metadata" where
  "tool_audit_metadata spec args =
     (case spec of
        None \<Rightarrow> no_metadata
      | Some spec \<Rightarrow>
          \<lparr>am_category = ts_category spec, am_risk_level = ts_risk_level spec,
           am_requires_approval = requires_approval_for spec args, am_timeout_seconds = Some (ts_timeout_seconds spec),
           am_max_retries = Some (ts_max_retries spec), am_retry_count = Some 0, am_attempt = Some 1,
           am_max_attempts = Some (max 1 (ts_max_retries spec + 1)),
           am_idempotency_key = idempotency_key_for spec args\<rparr>)"

definition start_policy_args :: "string \<Rightarrow> dict \<Rightarrow> audit_metadata \<Rightarrow> string \<Rightarrow> string option \<Rightarrow> policy_args" where
  "start_policy_args name args m call_id trace =
     \<lparr>pa_scope = ''tool'', pa_source = ''tool_execution_policy'', pa_action = ''tool_call'', pa_decision = ''allow'',
      pa_reason = ''tool_execution_started'', pa_subject = name, pa_resource = str_or (dget args ''path''),
      pa_risk_level = am_risk_level m, pa_requires_approval = am_requires_approval m,
      pa_related_call_id = (if call_id \<noteq> [] then Some call_id else None), pa_related_event_id = None,
      pa_policy_trace_id = trace,
      pa_metadata = [(''category'', PStr (am_category m)),
        (''idempotency_key_present'', PBool (key_present (am_idempotency_key m)))]\<rparr>"

text \<open>The tracker and the set of the generation's tools learn of the start of a call.\<close>

definition track_start :: "mapper_env \<Rightarrow> odict \<Rightarrow> string \<Rightarrow> string \<Rightarrow> mapper \<Rightarrow> mapper" where
  "track_start x event name call_id st =
     (let parent = event_parent_run_key event;
          st = (if parent = [] then st
                else st\<lparr>mp_generation_tools := AList.update parent
                       ((case map_of (mp_generation_tools st) parent of Some ts \<Rightarrow> ts | None \<Rightarrow> []) @ [name])
                       (mp_generation_tools st)\<rparr>)
      in if call_id = [] then st
         else (case read_clock x st of (now, st) \<Rightarrow>
                st\<lparr>mp_started_at := AList.update call_id now (mp_started_at st),
                   mp_start_names := AList.update call_id name (mp_start_names st)\<rparr>))"

definition map_tool_start :: "mapper_env \<Rightarrow> odict \<Rightarrow> mapper \<Rightarrow> mapped" where
  "map_tool_start x event st =
     (let name = event_text event ''name'';
          pending = text_at (mp_pending st) name;
          call_id = or_text pending (extract_call_id event);
          st = track_start x event name call_id st;
          arguments = o_plain (o_get (event_data event) ''input'' (OMap []));
          args = as_dict arguments;
          m = tool_audit_metadata (get_spec (mx_registry x) name) args;
          start_payload = build_tool_start_payload name call_id m arguments;
          st = (if call_id = [] then st
                else st\<lparr>mp_start_meta := AList.update call_id m (mp_start_meta st),
                       mp_start_payloads := AList.update call_id start_payload (mp_start_payloads st)\<rparr>);
          st' = st\<lparr>mp_uuids := Suc (mp_uuids st)\<rparr>
      in case build_policy_decision_payload (mx_sha256 x) (mx_netloc_ok x) (mx_uuid x (mp_uuids st))
                (start_policy_args name args m call_id (map_of (mp_traces st) call_id)) of
           None \<Rightarrow> (st', [], Failed)
         | Some policy \<Rightarrow>
             (let trace = str_or (dget policy ''policy_trace_id'');
                  st' = (if call_id \<noteq> [] \<and> trace \<noteq> []
                         then st'\<lparr>mp_traces := AList.update call_id trace (mp_traces st')\<rparr> else st')
              in (st', [mapper_event x ''policy_decision_recorded'' policy (Some call_id),
                        mapper_event x ''tool_start'' start_payload None], Next)))"

text \<open>\<open>_resolve_tool_call_id\<close>: a started call of that name that has not ended, or the only started one.\<close>

definition unresolved :: "string \<Rightarrow> string list \<Rightarrow> (string \<times> string) option \<Rightarrow> string" where
  "unresolved call_id started open_call =
     (case open_call of Some (cid, n) \<Rightarrow> cid | None \<Rightarrow> (case started of [cid] \<Rightarrow> cid | _ \<Rightarrow> call_id))"

definition resolve_tool_call_id :: "odict \<Rightarrow> string \<Rightarrow> mapper \<Rightarrow> string" where
  "resolve_tool_call_id event name st =
     (let call_id = extract_call_id event;
          started = map fst (mp_started_at st)
      in if call_id \<noteq> [] \<and> call_id \<in> set started then call_id
         else case map_of (mp_pending st) name of
           Some p \<Rightarrow>
             (if p \<in> set started then p
              else unresolved call_id started (find (\<lambda>(cid, n). n = name \<and> cid \<notin> set (mp_end_emitted st)) (mp_start_names st)))
         | None \<Rightarrow> unresolved call_id started
             (find (\<lambda>(cid, n). n = name \<and> cid \<notin> set (mp_end_emitted st)) (mp_start_names st)))"

text \<open>What the tracker knows of a call, taken out of it.\<close>

definition pop_call :: "string \<Rightarrow> mapper \<Rightarrow> rat option \<times> audit_metadata \<times> dict \<times> mapper" where
  "pop_call call_id st =
     (map_of (mp_started_at st) call_id,
      case map_of (mp_start_meta st) call_id of Some m \<Rightarrow> m | None \<Rightarrow> no_metadata,
      case map_of (mp_start_payloads st) call_id of Some p \<Rightarrow> p | None \<Rightarrow> [],
      st\<lparr>mp_started_at := AList.delete call_id (mp_started_at st),
         mp_start_meta := AList.delete call_id (mp_start_meta st),
         mp_start_payloads := AList.delete call_id (mp_start_payloads st)\<rparr>)"

definition end_args_of :: "string \<Rightarrow> string \<Rightarrow> tool_output \<Rightarrow> int option \<Rightarrow> audit_metadata \<Rightarrow> end_args" where
  "end_args_of name call_id out duration m =
     \<lparr>en_name = name, en_call_id = call_id, en_result = out, en_duration_ms = duration, en_success = True,
      en_error = None, en_sanitized_args = None, en_retry_count = am_retry_count m,
      en_timeout_seconds = am_timeout_seconds m, en_idempotency_key = am_idempotency_key m, en_error_type = None,
      en_attempt = am_attempt m, en_max_attempts = am_max_attempts m, en_idempotency_reused = False\<rparr>"

text \<open>The end of a call, and its ledger entry when it was the audited write.\<close>

definition end_events :: "mapper_env \<Rightarrow> string list \<Rightarrow> (string \<times> string) list \<Rightarrow> dict \<Rightarrow> end_args \<Rightarrow> runtime_event list \<times> flow" where
  "end_events x approved traces start_payload a =
     (case build_tool_end_payload (mx_http_data x) (mx_search_data x) a of
        None \<Rightarrow> ([], Failed)
      | Some end_payload \<Rightarrow>
          (let ended = mapper_event x ''tool_end'' end_payload (Some (en_call_id a))
           in case build_tool_side_effect_payload (mx_netloc_ok x) (PDict start_payload) (PDict end_payload) None
                (if en_call_id a \<in> set approved then Some ''approved'' else None) None (map_of traces (en_call_id a)) of
                None \<Rightarrow> ([ended], Failed)
              | Some None \<Rightarrow> ([ended], Next)
              | Some (Some ledger) \<Rightarrow>
                  ([ended, mapper_event x ''tool_side_effect_recorded'' ledger (Some (en_call_id a))], Next)))"

definition already_ended :: "string \<Rightarrow> mapper \<Rightarrow> bool" where
  "already_ended call_id st \<longleftrightarrow> call_id \<noteq> [] \<and> call_id \<in> set (mp_end_emitted st)"

definition mark_ended :: "string \<Rightarrow> mapper \<Rightarrow> mapper" where
  "mark_ended call_id st = (if call_id = [] then st else st\<lparr>mp_end_emitted := mp_end_emitted st @ [call_id]\<rparr>)"

text \<open>An end without a call id has no entries in the tracker.\<close>

definition take_call :: "string \<Rightarrow> mapper \<Rightarrow> rat option \<times> audit_metadata \<times> dict \<times> mapper" where
  "take_call call_id st = (if call_id = [] then (None, no_metadata, [], st) else pop_call call_id st)"

definition forget_name :: "string \<Rightarrow> mapper \<Rightarrow> mapper" where
  "forget_name call_id st =
     (if call_id = [] then st else st\<lparr>mp_start_names := AList.delete call_id (mp_start_names st)\<rparr>)"

definition map_tool_end :: "mapper_env \<Rightarrow> odict \<Rightarrow> mapper \<Rightarrow> mapped" where
  "map_tool_end x event st =
     (let name = event_text event ''name'';
          call_id = resolve_tool_call_id event name st
      in if already_ended call_id st then (st, [], Next)
         else case take_call call_id st of
           (started, m, start_payload, st) \<Rightarrow>
             (let st = mark_ended call_id (forget_name call_id st)
              in case duration_since x started st of
                   (duration, st) \<Rightarrow>
                     (case end_events x (mp_approved st) (mp_traces st) start_payload
                         (end_args_of name call_id (tool_output_of (o_get (event_data event) ''output'' (OMap []))) duration m) of
                        (evs, fl) \<Rightarrow> (st, evs, fl))))"

section \<open>Failed tool calls\<close>

definition attr_int :: "pyobj \<Rightarrow> string \<Rightarrow> int option" where
  "attr_int e name = (case o_attr e name o_none of OVal (PInt i) \<Rightarrow> Some i | _ \<Rightarrow> None)"

text \<open>\<open>getattr(e, name, None) or default\<close>\<close>

definition attr_or :: "pyobj \<Rightarrow> string \<Rightarrow> int option \<Rightarrow> int option" where
  "attr_or e name v = (case attr_int e name of Some i \<Rightarrow> if i \<noteq> 0 then Some i else v | None \<Rightarrow> v)"

definition retry_count_from_error :: "pyobj \<Rightarrow> audit_metadata \<Rightarrow> int option" where
  "retry_count_from_error e m =
     (case attr_int e ''attempt'' of Some i \<Rightarrow> Some (max 0 (i - 1)) | None \<Rightarrow> am_retry_count m)"

definition error_text :: "pyobj \<Rightarrow> string" where
  "error_text e = (if o_truthy e then o_str e else ''tool execution failed'')"

definition tool_error_result :: "pyobj \<Rightarrow> dict" where
  "tool_error_result e =
     (let metadata = filter (\<lambda>(k, v). v \<noteq> PNone) (map (\<lambda>k. (k, o_plain (o_attr e k o_none)))
            [''tool_name'', ''attempt'', ''max_attempts'', ''timeout_seconds''])
      in if metadata = [] then []
         else [(''success'', PBool False), (''error'', PStr (error_text e)), (''metadata'', PDict metadata)])"

fun error_type_of :: "pyobj \<Rightarrow> string" where
  "error_type_of (OObj c a) = c"
| "error_type_of (OVal PNone) = ''ToolExecutionError''"
| "error_type_of (OVal (PStr s)) = ''str''"
| "error_type_of (OVal (PBool b)) = ''bool''"
| "error_type_of (OVal (PInt i)) = ''int''"
| "error_type_of (OVal (PFloat f)) = ''float''"
| "error_type_of (OVal (PList xs)) = ''list''"
| "error_type_of (OVal (PDict d)) = ''dict''"
| "error_type_of (OSeq xs) = ''list''"
| "error_type_of (OMap d) = ''dict''"

definition on_tool_error :: "mapper_env \<Rightarrow> odict \<Rightarrow> mapper \<Rightarrow> mapped" where
  "on_tool_error x event st =
     (let name = event_text event ''name'';
          call_id = resolve_tool_call_id event name st
      in if already_ended call_id st then (st, [], Next)
         else
           (let unnamed = (call_id \<noteq> [] \<and> name = []);
                name = (if unnamed then text_at (mp_start_names st) call_id else name);
                st = (if unnamed then forget_name call_id st else st);
                e = o_get (event_data event) ''error'' o_none
            in case take_call call_id st of
                 (started, m, start_payload, st) \<Rightarrow>
                   (case duration_since x started st of
                      (duration, st) \<Rightarrow>
                        (let st = mark_ended call_id st
                         in case end_events x (mp_approved st) (mp_traces st) start_payload
                             ((end_args_of name call_id (ValueOut (PDict (tool_error_result e))) duration m)
                               \<lparr>en_success := False, en_error := Some (error_text e), en_error_type := Some (error_type_of e),
                                en_retry_count := retry_count_from_error e m,
                                en_attempt := attr_or e ''attempt'' (am_attempt m),
                                en_max_attempts := attr_or e ''max_attempts'' (am_max_attempts m)\<rparr>) of
                              (evs, fl) \<Rightarrow> (st, evs, fl)))))"

section \<open>One event, and all of them\<close>

definition map_event :: "mapper_env \<Rightarrow> odict \<Rightarrow> mapper \<Rightarrow> mapped" where
  "map_event x event st =
     (let kind = event_text event ''event'' in
      case extract_interrupt_payload event of
        Some payload \<Rightarrow> on_interrupt x payload st
      | None \<Rightarrow>
          (if kind = ''on_chat_model_start'' then on_chat_model_start x event st
           else if kind = ''on_chat_model_stream'' then on_chat_model_stream x event st
           else if kind = ''on_chat_model_end'' then on_chat_model_end x event st
           else if extract_blocked_message_text event \<noteq> []
             then on_blocked x (extract_blocked_message_text event) st
           else if kind = ''on_tool_start'' then map_tool_start x event st
           else if kind = ''on_tool_end'' then map_tool_end x event st
           else if kind = ''on_tool_error'' then on_tool_error x event st
           else (st, [], Next)))"

fun map_events :: "mapper_env \<Rightarrow> odict list \<Rightarrow> mapper \<Rightarrow> mapped" where
  "map_events x [] st = (st, [], Next)"
| "map_events x (event # es) st =
     (case map_event x event st of
        (st, evs, Next) \<Rightarrow> (case map_events x es st of (st, evs', fl) \<Rightarrow> (st, evs @ evs', fl))
      | r \<Rightarrow> r)"

section \<open>The end of the stream\<close>

text \<open>The events of the run as the memory manager returns them: kind and payload.\<close>

type_synonym run_events_view = "(string \<times> dict) list"

definition MISSING_RESULT :: string where
  "MISSING_RESULT = ''tool execution did not produce a result event before graph completed''"

definition end_missing :: "mapper_env \<Rightarrow> string list \<Rightarrow> dict \<Rightarrow> mapper \<Rightarrow> mapped" where
  "end_missing x ended payload st =
     (let call_id = str_or (dget payload ''call_id'') in
      if call_id = [] \<or> call_id \<in> set ended \<or> call_id \<in> set (mp_end_emitted st) then (st, [], Next)
      else
        (let name = str_or (py_or (dget payload ''name'') (PStr (text_at (mp_start_names st) call_id)))
         in case pop_call call_id st of
              (started, m, start_payload, st) \<Rightarrow>
                (case duration_since x started st of
                   (duration, st) \<Rightarrow>
                     (case end_events x (mp_approved st) (mp_traces st) start_payload
                          ((end_args_of name call_id (ValueOut (PDict [])) duration m)
                            \<lparr>en_success := False, en_error := Some MISSING_RESULT\<rparr>) of
                        (evs, fl) \<Rightarrow>
                          (mark_ended call_id (forget_name call_id st), evs, fl)))))"

fun end_all_missing :: "mapper_env \<Rightarrow> string list \<Rightarrow> dict list \<Rightarrow> mapper \<Rightarrow> mapped" where
  "end_all_missing x ended [] st = (st, [], Next)"
| "end_all_missing x ended (payload # ps) st =
     (case end_missing x ended payload st of
        (st, evs, Next) \<Rightarrow> (case end_all_missing x ended ps st of (st, evs', fl) \<Rightarrow> (st, evs @ evs', fl))
      | (st, evs, fl) \<Rightarrow> (st, [], fl))"

definition payloads_of :: "string \<Rightarrow> run_events_view \<Rightarrow> dict list" where
  "payloads_of kind rlog = map snd (filter (\<lambda>e. fst e = kind) rlog)"

definition has_run :: "mapper_env \<Rightarrow> bool" where
  "has_run x = (case mx_run_id x of Some r \<Rightarrow> r \<noteq> [] | None \<Rightarrow> False)"

text \<open>\<open>_missing_tool_end_events\<close>: the list is built before its first element is handed on.\<close>

definition missing_end_events :: "mapper_env \<Rightarrow> run_events_view \<Rightarrow> mapper \<Rightarrow> mapped" where
  "missing_end_events x rlog st =
     (let starts = payloads_of ''tool_start'' rlog; ends = payloads_of ''tool_end'' rlog in
      if \<not> has_run x \<or> length ends \<ge> length starts then (st, [], Next)
      else case end_all_missing x (map (\<lambda>p. str_or (dget p ''call_id'')) ends) starts st of
             (st, evs, fl) \<Rightarrow> (st, if fl = Next then evs else [], fl))"

text \<open>What the store makes of an event: a second \<open>tool_end\<close> of a call is not stored.\<close>

definition stored :: "run_events_view \<Rightarrow> runtime_event \<Rightarrow> run_events_view" where
  "stored rlog ev =
     (let payload = to_store_payload ev; call_id = strip (str_or (dget payload ''call_id'')) in
      if re_kind ev = ''tool_end'' \<and> call_id \<noteq> []
         \<and> list_ex (\<lambda>p. str_or (dget p ''call_id'') = call_id) (payloads_of ''tool_end'' rlog)
      then rlog else rlog @ [(re_kind ev, payload)])"

definition completed_payload ::
    "mapper_env \<Rightarrow> llm_usage \<Rightarrow> run_events_view \<Rightarrow> string \<Rightarrow> int \<Rightarrow> bool \<Rightarrow> dict" where
  "completed_payload x u rlog checkpoint_thread message_count has_interrupt =
     [(''checkpoint_thread_id'', PStr checkpoint_thread), (''message_count'', PInt message_count),
      (''has_interrupt'', PBool has_interrupt)] @ usage_dict x u
     @ [(''trace_id'', PStr (mx_trace_id x)), (''observability_provider'', PStr (mx_observability_provider x)),
        (''external_trace_url'', mx_external_trace_url x),
        (''tool_count'', PInt (int (length (payloads_of ''tool_start'' rlog)))),
        (''failed_tool_count'', PInt (int (length (filter (\<lambda>p. dget p ''success'' = PBool False) (payloads_of ''tool_end'' rlog))))),
        (''retrieval_count'', PInt (int (length (payloads_of ''retrieval_completed'' rlog))))]"

definition sync_failed :: "mapper_env \<Rightarrow> string \<Rightarrow> string \<Rightarrow> runtime_event" where
  "sync_failed x error phase =
     mapper_event x ''checkpoint_sync_failed'' [(''error'', PStr error), (''phase'', PStr phase)] None"

subsection \<open>The output guard\<close>

definition detect_sensitive_output :: "mapper_env \<Rightarrow> string \<Rightarrow> string list" where
  "detect_sensitive_output x text =
     map fst (filter (\<lambda>p. snd p text) (mx_patterns x))
     @ (if audit_payload_has_secret (PStr text) then [''audit_secret_pattern''] else [])"

definition DEGRADED_OUTPUT :: string where
  "DEGRADED_OUTPUT = ''I cannot return that answer because it appears to contain sensitive information. '' @
     ''Please narrow the request or use an authorized retrieval path.''"

definition guard_payload_of :: "bool \<Rightarrow> string \<Rightarrow> string list \<Rightarrow> string \<Rightarrow> string \<Rightarrow> dict" where
  "guard_payload_of safe action findings text output =
     [(''guard'', PStr ''private_rag_output_v1''), (''safe'', PBool safe), (''action'', PStr action),
      (''finding_count'', PInt (int (length findings))), (''findings'', strs findings),
      (''original_chars'', PInt (int (length text))), (''emitted_chars'', PInt (int (length output)))]"

definition apply_output_guard :: "mapper_env \<Rightarrow> string \<Rightarrow> string \<times> dict" where
  "apply_output_guard x text =
     (if \<not> mx_guard_enabled x then (text, guard_payload_of True ''disabled'' [] text text)
      else
        (let findings = detect_sensitive_output x text; safe = (findings = []) in
         if safe \<or> \<not> mx_guard_block x
         then (text, guard_payload_of safe (if safe then ''allow'' else ''audit_only'') findings text text)
         else (DEGRADED_OUTPUT, guard_payload_of safe ''degrade'' findings text DEGRADED_OUTPUT)))"

definition guard_events :: "mapper_env \<Rightarrow> nat \<Rightarrow> string \<Rightarrow> dict \<Rightarrow> runtime_event list \<times> flow" where
  "guard_events x uuid output payload =
     (if \<not> mx_guard_enabled x then ([], Next)
      else
        (let checked = mapper_event x ''output_guard_checked'' payload None;
             token = (if output \<noteq> [] then [mapper_event x ''token'' [(''text'', PStr output)] None] else [])
         in case build_output_guard_policy_decision_payload (mx_sha256 x) (mx_netloc_ok x) (mx_uuid x uuid) payload
                   None None of
              None \<Rightarrow> ([checked], Failed)
            | Some None \<Rightarrow> (checked # token, Next)
            | Some (Some policy) \<Rightarrow> ([checked, mapper_event x ''policy_decision_recorded'' policy None] @ token, Next)))"

subsection \<open>The last events\<close>

text \<open>What the checkpoint reader answers, when there is one: an error, or the snapshot and the values.\<close>

record checkpoint_answers =
  ca_snapshot :: "string + string \<times> int \<times> bool"
  ca_values :: "string + lc_message list \<times> dict"

definition checkpoint_events ::
    "mapper_env \<Rightarrow> checkpoint_answers option \<Rightarrow> llm_usage \<Rightarrow> run_events_view \<Rightarrow> runtime_event list \<times> flow" where
  "checkpoint_events x reader u rlog =
     (case reader of
        None \<Rightarrow> ([], Next)
      | Some r \<Rightarrow>
          (if \<not> has_run x then ([], Next)
           else case ca_snapshot r of
             Inl e \<Rightarrow> ([sync_failed x e ''run_completed_meta''], Failed)
           | Inr (thread, messages, interrupted) \<Rightarrow>
               ([mapper_event x ''run_completed_meta'' (completed_payload x u rlog thread messages interrupted) None], Next)))"

definition answer_metadata :: "mapper_env \<Rightarrow> dict \<Rightarrow> dict" where
  "answer_metadata x guard_payload =
     [(''safety_status'', PStr (if truthy (dget guard_payload ''safe'') then ''safe'' else ''blocked'')),
      (''output_guard_action'', dget guard_payload ''action''), (''output_guard'', PDict guard_payload),
      (''citation_required'', PBool (mx_require_citations x)), (''trace_id'', PStr (mx_trace_id x)),
      (''run_id'', opt_str (mx_run_id x))]"

definition done_events ::
    "mapper_env \<Rightarrow> checkpoint_answers option \<Rightarrow> string \<Rightarrow> string \<Rightarrow> dict \<Rightarrow> runtime_event list \<times> flow" where
  "done_events x reader reasoning output guard_payload =
     (let message = (''content'', PStr output)
            # (if reasoning \<noteq> [] then [(''reasoning_content'', PStr reasoning)] else []);
          payload = [(''assistant_message'', PDict message)]
      in case reader of
           None \<Rightarrow> ([mapper_event x ''done'' payload None], Next)
         | Some r \<Rightarrow>
             (case ca_values r of
                Inl e \<Rightarrow> ([sync_failed x e ''final_answer''], Failed)
              | Inr (messages, tool_route) \<Rightarrow>
                  (let kind = str_or (dget tool_route ''kind'')
                   in case build_final_answer (mx_loads x) (mx_citation x) output messages
                        (if kind \<noteq> [] then Some kind else None) (answer_metadata x guard_payload) of
                        None \<Rightarrow> ([], Failed)
                      | Some f \<Rightarrow>
                          ([mapper_event x ''done'' (payload @ [(''final_answer'', PDict (final_answer_dict f))]) None], Next))))"

text \<open>One part of the generator after the other, while none of them fails.\<close>

definition and_next :: "runtime_event list \<times> flow \<Rightarrow> (runtime_event list \<times> flow) \<Rightarrow> runtime_event list \<times> flow" where
  "and_next a b = (if snd a = Next then (fst a @ fst b, snd b) else a)"

definition map_finish ::
    "mapper_env \<Rightarrow> checkpoint_answers option \<Rightarrow> run_events_view \<Rightarrow> mapper \<Rightarrow> runtime_event list \<times> flow" where
  "map_finish x reader rlog st =
     (case missing_end_events x rlog st of
        (st, missing, fl) \<Rightarrow>
          (case apply_output_guard x (mp_output st) of
             (output, guard_payload) \<Rightarrow>
               and_next (missing, fl)
                 (and_next (checkpoint_events x reader (mp_usage st) (fold (\<lambda>ev rlog. stored rlog ev) missing rlog))
                   (and_next (guard_events x (mp_uuids st) output guard_payload)
                     (done_events x reader (mp_reasoning st) output guard_payload)))))"

definition policy_trace_by_call_id :: "mapper_env \<Rightarrow> run_events_view \<Rightarrow> (string \<times> string) list" where
  "policy_trace_by_call_id x rlog =
     (if \<not> has_run x then []
      else fold (\<lambda>p out. (let c = str_or (dget p ''related_call_id''); t = str_or (dget p ''policy_trace_id'')
                          in if c \<noteq> [] \<and> t \<noteq> [] then AList.update c t out else out))
             (payloads_of ''policy_decision_recorded'' rlog) [])"

definition new_mapper :: "mapper_env \<Rightarrow> run_events_view \<Rightarrow> mapper" where
  "new_mapper x rlog =
     (let pending = approval_tool_call_ids rlog
      in \<lparr>mp_started_at = [], mp_start_names = [], mp_start_meta = [], mp_start_payloads = [], mp_end_emitted = [],
          mp_usage = \<lparr>lu_rounds = 0, lu_prompt = 0, lu_completion = 0, lu_total = 0, lu_cost = None\<rparr>,
          mp_pending = pending, mp_approved = map snd pending, mp_traces = policy_trace_by_call_id x rlog,
          mp_output = [], mp_reasoning = [], mp_generation_started = [], mp_generation_outputs = [],
          mp_generation_tools = [], mp_readings = 0, mp_uuids = 0\<rparr>)"

text \<open>The whole stream: the log of the run before it and at its end, and the events of the graph.\<close>

definition map_stream ::
    "mapper_env \<Rightarrow> checkpoint_answers option \<Rightarrow> run_events_view \<Rightarrow> run_events_view \<Rightarrow> odict list \<Rightarrow>
     runtime_event list \<times> flow" where
  "map_stream x reader log_before log_after graph_events =
     (case map_events x graph_events (new_mapper x log_before) of
        (st, evs, fl) \<Rightarrow> and_next (evs, fl) (map_finish x reader log_after st))"

end
