(* ===== verification/EventMapperProps.thy ===== *)
theory EventMapperProps
  imports EventMapper
begin

text \<open>
  What the events of a mapped stream show: no text before the output guard, one end per tool call, a policy
  decision before every start, and payloads of the declared shapes.
\<close>

section \<open>Kinds\<close>

lemma event_kind [simp]: "re_kind (mapper_event x k p c) = k"
  by (simp add: mapper_event_def from_payload_def Let_def)

lemma event_payload: "\<not> dhas p ''schema_version'' \<Longrightarrow> k \<noteq> ''token'' \<Longrightarrow> re_data (mapper_event x k p c) = p"
  by (simp add: mapper_event_def from_payload_def Let_def)

lemma token_content: "re_content (mapper_event x ''token'' [(''text'', PStr s)] c) = Some s"
  by (simp add: mapper_event_def from_payload_def Let_def)

definition STEP_KINDS :: "string set" where
  "STEP_KINDS = {''approval_required'', ''assistant_state'', ''llm_generation'', ''policy_decision_recorded'',
     ''tool_start'', ''tool_end'', ''tool_side_effect_recorded''}"

definition step_kind :: "mapper_env \<Rightarrow> runtime_event \<Rightarrow> bool" where
  "step_kind x ev \<longleftrightarrow> re_kind ev \<in> STEP_KINDS \<or> (re_kind ev = ''token'' \<and> \<not> mx_guard_enabled x)"

lemma token_kinds: "list_all (step_kind x) (token_events x text)"
  by (simp add: token_events_def step_kind_def)

lemma step_kindI: "k \<in> STEP_KINDS \<Longrightarrow> step_kind x (mapper_event x k p c)"
  by (simp add: step_kind_def)

lemmas step_kinds = step_kindI [where k = "''approval_required''"] step_kindI [where k = "''assistant_state''"]
  step_kindI [where k = "''llm_generation''"] step_kindI [where k = "''policy_decision_recorded''"]
  step_kindI [where k = "''tool_start''"] step_kindI [where k = "''tool_end''"]
  step_kindI [where k = "''tool_side_effect_recorded''"]

lemma step_kinds_all [simp]:
  "step_kind x (mapper_event x ''approval_required'' p c)" "step_kind x (mapper_event x ''assistant_state'' p c)"
  "step_kind x (mapper_event x ''llm_generation'' p c)" "step_kind x (mapper_event x ''policy_decision_recorded'' p c)"
  "step_kind x (mapper_event x ''tool_start'' p c)" "step_kind x (mapper_event x ''tool_end'' p c)"
  "step_kind x (mapper_event x ''tool_side_effect_recorded'' p c)"
  by (rule step_kindI, simp add: STEP_KINDS_def)+

lemma end_events_kinds: "list_all (step_kind x) (fst (end_events x ap tr sp a))"
  by (simp add: end_events_def Let_def split: option.split)

lemma generation_kinds: "list_all (step_kind x) (snd (generation_ended x key output tokens cost rnd st))"
  by (simp add: generation_ended_def Let_def split: option.split prod.split)

abbreviation events_of :: "mapped \<Rightarrow> runtime_event list" where
  "events_of r \<equiv> fst (snd r)"

lemma chat_kinds:
  "list_all (step_kind x) (events_of (on_chat_model_start x e st))"
  "list_all (step_kind x) (events_of (on_chat_model_stream x e st))"
  "list_all (step_kind x) (events_of (on_interrupt x p st))"
  "list_all (step_kind x) (events_of (on_blocked x t st))"
  using token_kinds
  by (simp_all add: on_chat_model_start_def on_chat_model_stream_def on_interrupt_def on_blocked_def Let_def split: prod.split)

text \<open>The end of a generation in two parts: what its record does, and the text and reasoning it adds.\<close>

lemma chat_end_cases:
  obtains "on_chat_model_end x e st = (st, [], Failed)"
  | tokens cost rnd st0 st1 generation where
      "st0 = st\<lparr>mp_usage := add_usage x tokens cost (mp_usage st)\<rparr>"
      "generation_ended x (event_run_key e) (o_get (event_data e) ''output'' o_none) tokens cost rnd st0 = (st1, generation)"
      "on_chat_model_end x e st =
        (let output = o_get (event_data e) ''output'' o_none;
             reasoning = extract_reasoning_content_from_chat_output output;
             fresh = (reasoning \<noteq> [] \<and> reasoning \<noteq> mp_reasoning st1);
             text = extract_text_from_chat_output output;
             unseen = (text \<noteq> [] \<and> \<not> contains (mp_output st1) text);
             st2 = (if fresh then st1\<lparr>mp_reasoning := reasoning\<rparr> else st1)
         in (if unseen then st2\<lparr>mp_output := mp_output st2 @ text\<rparr> else st2,
             generation
             @ (if fresh then [mapper_event x ''assistant_state'' [(''reasoning_content'', PStr reasoning)] None] else [])
             @ (if unseen then token_events x text else []), Next))"
proof (cases "extract_token_usage (o_get (event_data e) ''output'' o_none)")
  case None
  then show ?thesis using that(1) by (simp add: on_chat_model_end_def Let_def)
next
  case (Some tokens)
  define pc where "pc = (case tokens of Some (p, c, t) \<Rightarrow> (p, c) | None \<Rightarrow> (0, 0))"
  define cost where "cost = estimate_llm_cost x (fst pc) (snd pc)"
  define st0 where "st0 = st\<lparr>mp_usage := add_usage x tokens cost (mp_usage st)\<rparr>"
  obtain st1 generation where g: "generation_ended x (event_run_key e) (o_get (event_data e) ''output'' o_none) tokens cost
      (lu_rounds (mp_usage st) + 1) st0 = (st1, generation)" by (metis prod.exhaust)
  show ?thesis
    by (rule that(2) [OF st0_def g])
      (simp add: on_chat_model_end_def Some Let_def pc_def [symmetric] cost_def [symmetric] st0_def [symmetric] g
        case_prod_beta)
qed

lemma chat_end_kinds: "list_all (step_kind x) (events_of (on_chat_model_end x e st))"
proof (cases rule: chat_end_cases [of x e st])
  case (2 tokens cost rnd st0 st1 generation)
  have "list_all (step_kind x) generation"
    using generation_kinds [of x "event_run_key e" "o_get (event_data e) ''output'' o_none" tokens cost rnd st0] 2(2) by simp
  then show ?thesis using token_kinds by (simp add: 2(3) Let_def)
qed simp

lemma tool_kinds:
  "list_all (step_kind x) (events_of (map_tool_start x e st))"
  "list_all (step_kind x) (events_of (map_tool_end x e st))"
  "list_all (step_kind x) (events_of (on_tool_error x e st))"
  "list_all (step_kind x) (events_of (end_missing x ended p st))"
  using end_events_kinds
  by (simp_all add: map_tool_start_def map_tool_end_def on_tool_error_def end_missing_def Let_def
      split: option.split prod.split)

lemma map_event_kinds: "list_all (step_kind x) (events_of (map_event x e st))"
  by (simp add: map_event_def Let_def chat_kinds chat_end_kinds tool_kinds split: option.split)

lemma map_events_kinds: "list_all (step_kind x) (events_of (map_events x es st))"
proof (induction es arbitrary: st)
  case (Cons e es)
  obtain st1 evs fl where s: "map_event x e st = (st1, evs, fl)" by (metis prod.exhaust)
  then have "list_all (step_kind x) evs" using map_event_kinds [of x e st] by simp
  then show ?case using s Cons.IH [of st1] by (cases fl) (auto split: prod.split)
qed simp

section \<open>The output guard\<close>

lemma fst_and_next: "fst (and_next a b) = fst a @ (if snd a = Next then fst b else [])"
  by (simp add: and_next_def)

lemma end_missing_output: "mp_output (fst (end_missing x ended p st)) = mp_output st"
  by (simp add: end_missing_def pop_call_def duration_since_def read_clock_def mark_ended_def forget_name_def Let_def
      split: option.split prod.split)

lemma end_all_missing_output: "mp_output (fst (end_all_missing x ended ps st)) = mp_output st"
proof (induction ps arbitrary: st)
  case (Cons p ps)
  obtain st1 evs fl where s: "end_missing x ended p st = (st1, evs, fl)" by (metis prod.exhaust)
  then have "mp_output st1 = mp_output st" using end_missing_output [of x ended p st] by simp
  then show ?case using s Cons.IH [of st1] by (cases fl) (auto split: prod.split)
qed simp

lemma missing_output: "mp_output (fst (missing_end_events x rlog st)) = mp_output st"
  using end_all_missing_output by (simp add: missing_end_events_def Let_def split: prod.split) (metis fst_conv)

lemma end_all_missing_kinds: "list_all (step_kind x) (events_of (end_all_missing x ended ps st))"
proof (induction ps arbitrary: st)
  case (Cons p ps)
  obtain st1 evs fl where s: "end_missing x ended p st = (st1, evs, fl)" by (metis prod.exhaust)
  then have "list_all (step_kind x) evs" using tool_kinds(4) [of x ended p st] by simp
  then show ?case using s Cons.IH [of st1] by (cases fl) (auto split: prod.split)
qed simp

lemma missing_kinds: "list_all (step_kind x) (events_of (missing_end_events x rlog st))"
  using end_all_missing_kinds by (simp add: missing_end_events_def Let_def split: prod.split) (metis fst_conv snd_conv)

text \<open>An event that shows no other text than the given one.\<close>

definition shows_only :: "string \<Rightarrow> runtime_event \<Rightarrow> bool" where
  "shows_only out ev \<longleftrightarrow>
     (if re_kind ev = ''token'' then re_content ev = Some out
      else if re_kind ev = ''done'' then dget (as_dict (dget (re_data ev) ''assistant_message'')) ''content'' = PStr out
      else True)"

abbreviation tokens_of :: "runtime_event list \<Rightarrow> runtime_event list" where
  "tokens_of evs \<equiv> filter (\<lambda>ev. re_kind ev = ''token'') evs"

lemma step_kind_silent:
  "mx_guard_enabled x \<Longrightarrow> list_all (step_kind x) evs \<Longrightarrow> list_all (shows_only out) evs \<and> tokens_of evs = []"
  by (induction evs) (auto simp: step_kind_def STEP_KINDS_def shows_only_def)

lemma checkpoint_silent:
  "list_all (shows_only out) (fst (checkpoint_events x reader u rlog)) \<and> tokens_of (fst (checkpoint_events x reader u rlog)) = []"
  by (simp add: checkpoint_events_def sync_failed_def shows_only_def split: option.split sum.split prod.split)

lemma shows_other: "k \<noteq> ''token'' \<Longrightarrow> k \<noteq> ''done'' \<Longrightarrow> shows_only out (mapper_event x k p c)"
  by (simp add: shows_only_def)

lemma shows_token: "shows_only out (mapper_event x ''token'' [(''text'', PStr out)] c)"
  by (simp add: shows_only_def token_content)

lemma shows_done:
  "\<not> dhas p ''schema_version'' \<Longrightarrow>
   shows_only out (mapper_event x ''done'' ((''assistant_message'', PDict ((''content'', PStr out) # m)) # p) c)"
  by (simp add: shows_only_def event_payload)

lemma done_shows:
  "list_all (shows_only out) (fst (done_events x reader reasoning out g)) \<and> tokens_of (fst (done_events x reader reasoning out g)) = []"
  by (simp add: done_events_def sync_failed_def Let_def shows_other shows_done split: option.split sum.split prod.split)

lemma guard_shows:
  "list_all (shows_only out) (fst (guard_events x n out g)) \<and> length (tokens_of (fst (guard_events x n out g))) \<le> 1"
  by (simp add: guard_events_def Let_def shows_other shows_token split: option.split)

lemma guard_verdict:
  assumes "mx_guard_enabled x" and "out = fst (apply_output_guard x text)"
  shows "if mx_guard_block x then detect_sensitive_output x out = [] \<or> out = DEGRADED_OUTPUT else out = text"
  using assms by (simp add: apply_output_guard_def Let_def)


section \<open>Tool calls\<close>

definition ends_call :: "string \<Rightarrow> runtime_event \<Rightarrow> bool" where
  "ends_call c ev \<longleftrightarrow> re_kind ev = ''tool_end'' \<and> re_tool_call_id ev = Some c"

abbreviation ends_of :: "string \<Rightarrow> runtime_event list \<Rightarrow> runtime_event list" where
  "ends_of c evs \<equiv> filter (ends_call c) evs"

text \<open>
  A step ends a call at most once, only one that had not ended before, and remembers it; and a call it
  remembers as ended has its event, unless the step failed.
\<close>

definition ends_ok :: "mapper \<Rightarrow> mapper \<Rightarrow> runtime_event list \<Rightarrow> flow \<Rightarrow> bool" where
  "ends_ok st st' evs fl \<longleftrightarrow> set (mp_end_emitted st) \<subseteq> set (mp_end_emitted st')
     \<and> (\<forall>c. c = [] \<or> ends_of c evs = []
          \<or> (length (ends_of c evs) = 1 \<and> c \<notin> set (mp_end_emitted st) \<and> c \<in> set (mp_end_emitted st')))
     \<and> (fl = Next \<longrightarrow> (\<forall>c \<in> set (mp_end_emitted st'). c \<in> set (mp_end_emitted st) \<or> ends_of c evs \<noteq> []))"

abbreviation step_ends :: "mapper \<Rightarrow> mapped \<Rightarrow> bool" where
  "step_ends st r \<equiv> ends_ok st (fst r) (events_of r) (snd (snd r))"

lemma ends_ok_seq: "ends_ok st st1 evs Next \<Longrightarrow> ends_ok st1 st2 evs' fl \<Longrightarrow> ends_ok st st2 (evs @ evs') fl"
proof -
  assume a: "ends_ok st st1 evs Next" and b: "ends_ok st1 st2 evs' fl"
  have "c = [] \<or> ends_of c (evs @ evs') = []
      \<or> (length (ends_of c (evs @ evs')) = 1 \<and> c \<notin> set (mp_end_emitted st) \<and> c \<in> set (mp_end_emitted st2))" for c
    using a b by (cases "ends_of c evs = []"; cases "ends_of c evs' = []") (auto simp: ends_ok_def)
  moreover have "c \<in> set (mp_end_emitted st) \<or> ends_of c (evs @ evs') \<noteq> []" if "fl = Next" "c \<in> set (mp_end_emitted st2)" for c
    using a b that by (cases "ends_of c evs = []"; cases "ends_of c evs' = []") (auto simp: ends_ok_def)
  ultimately show ?thesis using a b by (auto simp: ends_ok_def)
qed

lemma ends_ok_quiet:
  "mp_end_emitted st' = mp_end_emitted st \<Longrightarrow> list_all (\<lambda>ev. re_kind ev \<noteq> ''tool_end'') evs \<Longrightarrow> ends_ok st st' evs fl"
  by (auto simp: ends_ok_def ends_call_def filter_empty_conv list_all_iff)

lemma end_events_end:
  assumes "end_events x ap tr sp a = (evs, fl)"
  shows "evs = [] \<and> fl = Failed \<or> (\<exists>ev rest. evs = ev # rest \<and> ends_call (en_call_id a) ev \<and> (\<forall>c. ends_of c rest = []))"
proof (cases "build_tool_end_payload (mx_http_data x) (mx_search_data x) a")
  case None
  then show ?thesis using assms by (simp add: end_events_def)
next
  case (Some p)
  have other: "\<not> ends_call c (mapper_event x ''tool_side_effect_recorded'' p i)" for c p i by (simp add: ends_call_def)
  have "dget p ''call_id'' = PStr (en_call_id a)"
    using Some by (auto simp: build_tool_end_payload_def tool_end_fields_def Let_def dump_without_none_def)
  then have "ends_call (en_call_id a) (mapper_event x ''tool_end'' p (Some (en_call_id a)))"
    by (simp add: ends_call_def mapper_event_def from_payload_def Let_def opt_str_def)
  moreover have "\<exists>rest. evs = mapper_event x ''tool_end'' p (Some (en_call_id a)) # rest \<and> (\<forall>c. ends_of c rest = [])"
    using assms other by (auto simp: end_events_def Some Let_def split: option.splits)
  ultimately show ?thesis by blast
qed

lemma ends_call_unique: "ends_call c ev \<Longrightarrow> ends_call d ev \<Longrightarrow> c = d"
  by (simp add: ends_call_def)

lemma ends_ok_end_events:
  assumes "end_events x ap tr sp a = (evs, fl)" and "\<not> already_ended (en_call_id a) st"
    and "mp_end_emitted st' = mp_end_emitted (mark_ended (en_call_id a) st)"
  shows "ends_ok st st' evs fl"
proof -
  consider "evs = []" "fl = Failed" | ev rest where "evs = ev # rest" "ends_call (en_call_id a) ev" "\<And>c. ends_of c rest = []"
    using end_events_end [OF assms(1)] by blast
  then show ?thesis
  proof cases
    case 1
    then show ?thesis using assms(3) by (auto simp: ends_ok_def mark_ended_def)
  next
    case 2
    have "ends_of c evs = (if c = en_call_id a then [ev] else [])" for c
    proof (cases "ends_call c ev")
      case True
      then have "c = en_call_id a" using 2(2) by (rule ends_call_unique)
      then show ?thesis using True by (simp add: 2(1,3))
    next
      case False
      then have "c \<noteq> en_call_id a" using 2(2) by blast
      then show ?thesis using False by (simp add: 2(1,3))
    qed
    then show ?thesis using assms(2,3) by (auto simp: ends_ok_def already_ended_def mark_ended_def)
  qed
qed

lemma emitted_frame [simp]:
  "mp_end_emitted (snd (duration_since x s st)) = mp_end_emitted st"
  "mp_end_emitted (snd (read_clock x st)) = mp_end_emitted st"
  "mp_end_emitted (track_start x e name c st) = mp_end_emitted st"
  "mp_end_emitted (snd (snd (snd (take_call c st)))) = mp_end_emitted st"
  "mp_end_emitted (snd (snd (snd (pop_call c st)))) = mp_end_emitted st"
  by (auto simp: duration_since_def read_clock_def track_start_def take_call_def pop_call_def Let_def
      split: option.split prod.split)

lemma mark_ended_cong: "mp_end_emitted a = mp_end_emitted b \<Longrightarrow> mp_end_emitted (mark_ended c a) = mp_end_emitted (mark_ended c b)"
  by (simp add: mark_ended_def)

lemma ends_ok_tool_end: "step_ends st (map_tool_end x e st)"
proof (cases "already_ended (resolve_tool_call_id e (event_text e ''name'') st) st")
  case True
  then show ?thesis by (simp add: map_tool_end_def Let_def ends_ok_quiet)
next
  case False
  define c where "c = resolve_tool_call_id e (event_text e ''name'') st"
  obtain started m sp st1 where t: "take_call c st = (started, m, sp, st1)" by (metis prod.exhaust)
  define st2 where "st2 = mark_ended c (forget_name c st1)"
  obtain d st3 where d: "duration_since x started st2 = (d, st3)" by (metis prod.exhaust)
  define a where "a = end_args_of (event_text e ''name'') c (tool_output_of (o_get (event_data e) ''output'' (OMap []))) d m"
  obtain evs fl where v: "end_events x (mp_approved st3) (mp_traces st3) sp a = (evs, fl)" by (metis prod.exhaust)
  have r: "map_tool_end x e st = (st3, evs, fl)"
    using False t d v
    by (simp add: map_tool_end_def Let_def c_def [symmetric] st2_def [symmetric] a_def [symmetric])
  have "mp_end_emitted st1 = mp_end_emitted st" using emitted_frame(4) [of c st] t by simp
  moreover have "mp_end_emitted st3 = mp_end_emitted st2" using emitted_frame(1) [of x started st2] d by simp
  ultimately have "mp_end_emitted st3 = mp_end_emitted (mark_ended c st)"
    by (simp add: st2_def mark_ended_def forget_name_def)
  moreover have "en_call_id a = c" by (simp add: a_def end_args_of_def)
  ultimately show ?thesis using ends_ok_end_events [OF v] False by (simp add: r c_def)
qed

lemma ends_ok_tool_error: "step_ends st (on_tool_error x e st)"
proof (cases "already_ended (resolve_tool_call_id e (event_text e ''name'') st) st")
  case True
  then show ?thesis by (simp add: on_tool_error_def Let_def ends_ok_quiet)
next
  case False
  define c where "c = resolve_tool_call_id e (event_text e ''name'') st"
  define unnamed where "unnamed \<longleftrightarrow> c \<noteq> [] \<and> event_text e ''name'' = []"
  define name where "name = (if unnamed then text_at (mp_start_names st) c else event_text e ''name'')"
  define st0 where "st0 = (if unnamed then forget_name c st else st)"
  define err where "err = o_get (event_data e) ''error'' o_none"
  obtain started m sp st1 where t: "take_call c st0 = (started, m, sp, st1)" by (metis prod.exhaust)
  obtain d st2 where d: "duration_since x started st1 = (d, st2)" by (metis prod.exhaust)
  define st3 where "st3 = mark_ended c st2"
  define a where "a = (end_args_of name c (ValueOut (PDict (tool_error_result err))) d m)
     \<lparr>en_success := False, en_error := Some (error_text err), en_error_type := Some (error_type_of err),
      en_retry_count := retry_count_from_error err m, en_attempt := attr_or err ''attempt'' (am_attempt m),
      en_max_attempts := attr_or err ''max_attempts'' (am_max_attempts m)\<rparr>"
  obtain evs fl where v: "end_events x (mp_approved st3) (mp_traces st3) sp a = (evs, fl)" by (metis prod.exhaust)
  have r: "on_tool_error x e st = (st3, evs, fl)"
    using False t d v
    by (simp only: on_tool_error_def Let_def c_def [symmetric] unnamed_def [symmetric] name_def [symmetric] st0_def [symmetric]
        err_def [symmetric] st3_def [symmetric] a_def [symmetric] if_False prod.case)
  have "mp_end_emitted st0 = mp_end_emitted st" by (simp add: st0_def forget_name_def)
  moreover have "mp_end_emitted st1 = mp_end_emitted st0" using emitted_frame(4) [of c st0] t by simp
  moreover have "mp_end_emitted st2 = mp_end_emitted st1" using emitted_frame(1) [of x started st1] d by simp
  ultimately have "mp_end_emitted st3 = mp_end_emitted (mark_ended c st)" by (simp add: st3_def mark_ended_def)
  moreover have "en_call_id a = c" by (simp add: a_def end_args_of_def)
  ultimately show ?thesis using ends_ok_end_events [OF v] False by (simp add: r c_def)
qed

lemma ends_ok_end_missing: "step_ends st (end_missing x ended p st)"
proof (cases "str_or (dget p ''call_id'') = [] \<or> str_or (dget p ''call_id'') \<in> set ended
    \<or> str_or (dget p ''call_id'') \<in> set (mp_end_emitted st)")
  case True
  then show ?thesis by (simp add: end_missing_def Let_def ends_ok_quiet)
next
  case False
  define c where "c = str_or (dget p ''call_id'')"
  obtain started m sp st1 where t: "pop_call c st = (started, m, sp, st1)" by (metis prod.exhaust)
  obtain d st2 where d: "duration_since x started st1 = (d, st2)" by (metis prod.exhaust)
  define a where "a = (end_args_of (str_or (py_or (dget p ''name'') (PStr (text_at (mp_start_names st) c)))) c
      (ValueOut (PDict [])) d m)\<lparr>en_success := False, en_error := Some MISSING_RESULT\<rparr>"
  obtain evs fl where v: "end_events x (mp_approved st2) (mp_traces st2) sp a = (evs, fl)" by (metis prod.exhaust)
  have r: "end_missing x ended p st = (mark_ended c (forget_name c st2), evs, fl)"
    using False t d v
    by (simp only: end_missing_def Let_def c_def [symmetric] a_def [symmetric] if_False prod.case)
  have "mp_end_emitted st1 = mp_end_emitted st" using emitted_frame(5) [of c st] t by simp
  moreover have "mp_end_emitted st2 = mp_end_emitted st1" using emitted_frame(1) [of x started st1] d by simp
  ultimately have "mp_end_emitted (mark_ended c (forget_name c st2)) = mp_end_emitted (mark_ended c st)"
    by (simp add: mark_ended_def forget_name_def)
  moreover have "en_call_id a = c" by (simp add: a_def end_args_of_def)
  moreover have "\<not> already_ended c st" using False by (simp add: already_ended_def c_def)
  ultimately show ?thesis using ends_ok_end_events [OF v] by (simp add: r)
qed

definition open_kind :: "runtime_event \<Rightarrow> bool" where
  "open_kind ev \<longleftrightarrow> re_kind ev \<noteq> ''tool_end''"

lemma open_kind_event [simp]: "open_kind (mapper_event x k p c) \<longleftrightarrow> k \<noteq> ''tool_end''"
  by (simp add: open_kind_def)

lemma open_tokens: "list_all open_kind (token_events x text)"
  by (simp add: token_events_def)

lemma ends_ok_open: "mp_end_emitted st' = mp_end_emitted st \<Longrightarrow> list_all open_kind evs \<Longrightarrow> ends_ok st st' evs fl"
  by (rule ends_ok_quiet) (auto simp: open_kind_def list_all_iff)

lemma open_generation:
  "list_all open_kind (snd (generation_ended x key output tokens cost rnd st))"
  "mp_end_emitted (fst (generation_ended x key output tokens cost rnd st)) = mp_end_emitted st"
  by (simp_all add: generation_ended_def read_clock_def Let_def split: option.split prod.split)

lemma ends_ok_chat:
  "step_ends st (on_chat_model_start x e st)"
  "step_ends st (on_chat_model_stream x e st)"
  "step_ends st (on_interrupt x p st)"
  "step_ends st (on_blocked x t st)"
  using open_tokens
  by (simp_all add: ends_ok_open on_chat_model_start_def on_chat_model_stream_def on_interrupt_def on_blocked_def
      read_clock_def Let_def split: prod.split)

lemma ends_ok_chat_end: "step_ends st (on_chat_model_end x e st)"
proof (cases rule: chat_end_cases [of x e st])
  case 1
  then show ?thesis by (simp add: ends_ok_open)
next
  case (2 tokens cost rnd st0 st1 generation)
  have "list_all open_kind generation" "mp_end_emitted st1 = mp_end_emitted st"
    using open_generation [of x "event_run_key e" "o_get (event_data e) ''output'' o_none" tokens cost rnd st0] 2(1,2)
    by simp_all
  then show ?thesis using open_tokens by (simp add: ends_ok_open 2(3) Let_def)
qed

lemma ends_ok_tool_start: "step_ends st (map_tool_start x e st)"
  by (rule ends_ok_open) (simp_all add: map_tool_start_def Let_def split: option.split)

lemma ends_ok_event: "step_ends st (map_event x e st)"
  by (simp add: map_event_def Let_def ends_ok_chat ends_ok_chat_end ends_ok_tool_start ends_ok_tool_end
      ends_ok_tool_error ends_ok_open split: option.split)

lemma ends_ok_events: "step_ends st (map_events x es st)"
proof (induction es arbitrary: st)
  case (Cons e es)
  obtain st1 evs fl where s: "map_event x e st = (st1, evs, fl)" by (metis prod.exhaust)
  have e: "ends_ok st st1 evs fl" using ends_ok_event [of st x e] s by simp
  obtain st2 evs' fl' where m: "map_events x es st1 = (st2, evs', fl')" by (metis prod.exhaust)
  have "ends_ok st1 st2 evs' fl'" using Cons.IH [of st1] m by simp
  then show ?case using e ends_ok_seq [of st st1 evs st2 evs' fl'] s m by (cases fl) simp_all
qed (simp add: ends_ok_open)

lemma ends_ok_sub: "ends_ok st st' evs fl \<Longrightarrow> fl \<noteq> Next \<Longrightarrow> ends_ok st st' [] fl"
  by (simp add: ends_ok_def)

lemma ends_ok_all_missing: "step_ends st (end_all_missing x ended ps st)"
proof (induction ps arbitrary: st)
  case (Cons p ps)
  obtain st1 evs fl where s: "end_missing x ended p st = (st1, evs, fl)" by (metis prod.exhaust)
  have e: "ends_ok st st1 evs fl" using ends_ok_end_missing [of st x ended p] s by simp
  obtain st2 evs' fl' where m: "end_all_missing x ended ps st1 = (st2, evs', fl')" by (metis prod.exhaust)
  have "ends_ok st1 st2 evs' fl'" using Cons.IH [of st1] m by simp
  then show ?case using e ends_ok_seq [of st st1 evs st2 evs' fl'] ends_ok_sub [OF e] s m by (cases fl) simp_all
qed (simp add: ends_ok_open)

lemma ends_ok_missing: "step_ends st (missing_end_events x rlog st)"
proof -
  obtain st1 evs fl where m: "end_all_missing x (map (\<lambda>p. str_or (dget p ''call_id'')) (payloads_of ''tool_end'' rlog))
      (payloads_of ''tool_start'' rlog) st = (st1, evs, fl)" by (metis prod.exhaust)
  have "ends_ok st st1 evs fl" using ends_ok_all_missing m by (metis fst_conv snd_conv)
  then show ?thesis
    using ends_ok_sub [of st st1 evs fl] m by (cases "fl = Next") (simp_all add: missing_end_events_def Let_def ends_ok_open)
qed

text \<open>Before every start of a tool call there is the decision that allows it.\<close>

definition allows_start :: "runtime_event \<Rightarrow> runtime_event \<Rightarrow> bool" where
  "allows_start p s \<longleftrightarrow> re_kind p = ''policy_decision_recorded'' \<and> dget (re_data p) ''decision'' = PStr ''allow''
     \<and> dget (re_data p) ''subject'' = dget (re_data s) ''name''
     \<and> str_or (dget (re_data p) ''related_call_id'') = str_or (dget (re_data s) ''call_id'')"

fun announced_after :: "runtime_event option \<Rightarrow> runtime_event list \<Rightarrow> bool" where
  "announced_after prev [] = True"
| "announced_after prev (e # evs) =
     ((if re_kind e = ''tool_start'' then (case prev of Some p \<Rightarrow> allows_start p e | None \<Rightarrow> False) else True)
      \<and> announced_after (Some e) evs)"

abbreviation announced :: "runtime_event list \<Rightarrow> bool" where
  "announced \<equiv> announced_after None"

lemma announced_any: "announced evs \<Longrightarrow> announced_after p evs"
  by (cases evs) (auto split: if_splits)

lemma announced_append: "announced_after p xs \<Longrightarrow> announced ys \<Longrightarrow> announced_after p (xs @ ys)"
  by (induction xs arbitrary: p) (auto intro: announced_any)

lemma announced_quiet: "list_all (\<lambda>ev. re_kind ev \<noteq> ''tool_start'') evs \<Longrightarrow> announced_after p evs"
  by (induction evs arbitrary: p) auto

lemma announced_concat: "announced xs \<Longrightarrow> announced ys \<Longrightarrow> announced (xs @ ys)"
  by (rule announced_append)

lemma start_data: "re_data (mapper_event x ''tool_start'' (build_tool_start_payload n c m a) i) = build_tool_start_payload n c m a"
  by (rule event_payload) (auto simp: dhas_iff_keys build_tool_start_payload_def Let_def dump_without_none_def)

lemma start_fields:
  "dget (build_tool_start_payload n c m a) ''name'' = PStr n"
  "dget (build_tool_start_payload n c m a) ''call_id'' = PStr c"
  by (simp_all add: build_tool_start_payload_def Let_def dump_without_none_def)

lemma policy_fields:
  assumes "build_policy_decision_payload sha ok fresh a = Some p"
  shows "dget p ''subject'' = PStr (pa_subject a)" "dget p ''related_call_id'' = opt_str (pa_related_call_id a)"
    "dget p ''decision'' = PStr (if pa_decision a \<in> set POLICY_DECISIONS then pa_decision a else ''deny'')"
    "\<not> dhas p ''schema_version''"
proof -
  obtain r where r: "safe_resource ok (pa_resource a) = Some r"
    using assms by (cases "safe_resource ok (pa_resource a)") (simp_all add: build_policy_decision_payload_def Let_def)
  note p = assms [unfolded build_policy_decision_payload_def Let_def r option.case option.inject, symmetric]
  show "dget p ''subject'' = PStr (pa_subject a)" by (simp add: p)
  show "dget p ''related_call_id'' = opt_str (pa_related_call_id a)" by (simp add: p)
  show "dget p ''decision'' = PStr (if pa_decision a \<in> set POLICY_DECISIONS then pa_decision a else ''deny'')"
    by (simp add: p)
  show "\<not> dhas p ''schema_version''" by (simp add: p)
qed

lemma announced_tool_start: "announced (events_of (map_tool_start x e st))"
proof -
  have "allows_start (mapper_event x ''policy_decision_recorded'' p (Some c))
      (mapper_event x ''tool_start'' (build_tool_start_payload n c m a) None)"
    if "build_policy_decision_payload sha ok fresh (start_policy_args n args m c tr) = Some p" for sha ok fresh n args m c tr p a
  proof -
    note f = policy_fields [OF that]
    have "re_data (mapper_event x ''policy_decision_recorded'' p (Some c)) = p" by (rule event_payload) (simp_all add: f)
    then show ?thesis
      by (simp add: allows_start_def start_data start_fields f start_policy_args_def POLICY_DECISIONS_def opt_str_def)
  qed
  then show ?thesis by (simp add: map_tool_start_def Let_def split: option.split)
qed

definition unstarted :: "runtime_event \<Rightarrow> bool" where
  "unstarted ev \<longleftrightarrow> re_kind ev \<noteq> ''tool_start''"

lemma unstarted_event [simp]: "unstarted (mapper_event x k p c) \<longleftrightarrow> k \<noteq> ''tool_start''"
  by (simp add: unstarted_def)

lemma announced_unstarted: "list_all unstarted evs \<Longrightarrow> announced evs"
  by (rule announced_quiet) (auto simp: unstarted_def list_all_iff)

lemma unstarted_parts:
  "list_all unstarted (token_events x text)" "list_all unstarted (fst (end_events x ap tr sp a))"
  "list_all unstarted (snd (generation_ended x key output tokens cost rnd st))"
  by (simp_all add: token_events_def end_events_def generation_ended_def Let_def split: option.split prod.split)

lemma unstarted_chat:
  "list_all unstarted (events_of (on_chat_model_start x e st))"
  "list_all unstarted (events_of (on_chat_model_stream x e st))"
  "list_all unstarted (events_of (on_interrupt x p st))"
  "list_all unstarted (events_of (on_blocked x t st))"
  using unstarted_parts(1)
  by (simp_all add: on_chat_model_start_def on_chat_model_stream_def on_interrupt_def on_blocked_def Let_def split: prod.split)

lemma unstarted_chat_end: "list_all unstarted (events_of (on_chat_model_end x e st))"
proof (cases rule: chat_end_cases [of x e st])
  case (2 tokens cost rnd st0 st1 generation)
  have "list_all unstarted generation"
    using unstarted_parts(3) [of x "event_run_key e" "o_get (event_data e) ''output'' o_none" tokens cost rnd st0] 2(2) by simp
  then show ?thesis using unstarted_parts(1) by (simp add: 2(3) Let_def)
qed simp

lemma unstarted_tools:
  "list_all unstarted (events_of (map_tool_end x e st))" "list_all unstarted (events_of (on_tool_error x e st))"
  "list_all unstarted (events_of (end_missing x ended p st))"
  using unstarted_parts(2)
  by (simp_all add: map_tool_end_def on_tool_error_def end_missing_def Let_def split: option.split prod.split)

lemma announced_event: "announced (events_of (map_event x e st))"
  by (simp add: map_event_def Let_def announced_tool_start announced_unstarted unstarted_chat unstarted_chat_end
      unstarted_tools split: option.split)

lemma announced_events: "announced (events_of (map_events x es st))"
proof (induction es arbitrary: st)
  case (Cons e es)
  obtain st1 evs fl where s: "map_event x e st = (st1, evs, fl)" by (metis prod.exhaust)
  have e: "announced evs" using announced_event [of x e st] s by simp
  obtain st2 evs' fl' where m: "map_events x es st1 = (st2, evs', fl')" by (metis prod.exhaust)
  have "announced evs'" using Cons.IH [of st1] m by simp
  then show ?case using announced_append [OF e] e s m by (cases fl) simp_all
qed simp

lemma unstarted_all_missing: "list_all unstarted (events_of (end_all_missing x ended ps st))"
proof (induction ps arbitrary: st)
  case (Cons p ps)
  obtain st1 evs fl where s: "end_missing x ended p st = (st1, evs, fl)" by (metis prod.exhaust)
  then have "list_all unstarted evs" using unstarted_tools(3) [of x ended p st] by simp
  then show ?case using s Cons.IH [of st1] by (cases fl) (auto split: prod.split)
qed simp

lemma unstarted_finish:
  "list_all unstarted (events_of (missing_end_events x rlog st))"
  "list_all unstarted (fst (checkpoint_events x reader u rlog))"
  "list_all unstarted (fst (guard_events x n out g))"
  "list_all unstarted (fst (done_events x reader reasoning out g))"
proof -
  show "list_all unstarted (events_of (missing_end_events x rlog st))"
    using unstarted_all_missing by (simp add: missing_end_events_def Let_def split: prod.split) (metis fst_conv snd_conv)
qed (simp_all add: checkpoint_events_def guard_events_def done_events_def sync_failed_def Let_def
    split: option.split sum.split prod.split)

lemma answered_missing:
  assumes "end_all_missing x ended ps st = (st', evs, Next)" and "p \<in> set ps" and "str_or (dget p ''call_id'') = c"
    and "c \<noteq> []" and "c \<notin> set ended"
  shows "c \<in> set (mp_end_emitted st')"
  using assms(1,2)
proof (induction ps arbitrary: st evs)
  case (Cons q ps)
  obtain st1 evs1 fl where s: "end_missing x ended q st = (st1, evs1, fl)" by (metis prod.exhaust)
  obtain st2 evs2 fl2 where m: "end_all_missing x ended ps st1 = (st2, evs2, fl2)" by (metis prod.exhaust)
  have n: "fl = Next" "fl2 = Next" "st2 = st'" using Cons.prems(1) s m by (auto split: flow.splits)
  show ?case
  proof (cases "p \<in> set ps")
    case True
    then show ?thesis using Cons.IH m n by blast
  next
    case False
    then have "c \<in> set (mp_end_emitted st1)"
      using s Cons.prems(2) assms(3-5) n(1)
      by (auto simp: end_missing_def mark_ended_def Let_def split: prod.splits if_splits)
    moreover have "set (mp_end_emitted st1) \<subseteq> set (mp_end_emitted st')"
      using ends_ok_all_missing [of st1 x ended ps] m n(3) by (simp add: ends_ok_def)
    ultimately show ?thesis by blast
  qed
qed simp

lemma answered_stream:
  assumes "map_events x es (new_mapper x log0) = (st, evs1, Next)"
    and "missing_end_events x log1 st = (st2, evs2, Next)"
    and "has_run x" "length (payloads_of ''tool_end'' log1) < length (payloads_of ''tool_start'' log1)"
    and "p \<in> set (payloads_of ''tool_start'' log1)" "str_or (dget p ''call_id'') = c" "c \<noteq> []"
    and "c \<notin> set (map (\<lambda>p. str_or (dget p ''call_id'')) (payloads_of ''tool_end'' log1))"
  shows "ends_of c (evs1 @ evs2) \<noteq> []"
proof -
  have "c \<in> set (mp_end_emitted st2)"
    using assms(2-4) answered_missing [OF _ assms(5-8), of x st] by (auto simp: missing_end_events_def Let_def split: prod.splits if_splits)
  moreover have "ends_ok st st2 evs2 Next" using ends_ok_missing [of st x log1] assms(2) by simp
  moreover have "ends_ok (new_mapper x log0) st evs1 Next" using ends_ok_events [of "new_mapper x log0" x es] assms(1) by simp
  ultimately have "ends_ok (new_mapper x log0) st2 (evs1 @ evs2) Next" "c \<in> set (mp_end_emitted st2)"
    using ends_ok_seq by blast+
  then show ?thesis by (auto simp: ends_ok_def new_mapper_def Let_def)
qed

definition unended :: "runtime_event \<Rightarrow> bool" where
  "unended ev \<longleftrightarrow> re_kind ev \<noteq> ''tool_end''"

lemma unended_event [simp]: "unended (mapper_event x k p c) \<longleftrightarrow> k \<noteq> ''tool_end''"
  by (simp add: unended_def)

lemma unended_finish:
  "list_all unended (fst (checkpoint_events x reader u rlog))" "list_all unended (fst (guard_events x n out g))"
  "list_all unended (fst (done_events x reader reasoning out g))"
  by (simp_all add: checkpoint_events_def guard_events_def done_events_def sync_failed_def Let_def
      split: option.split sum.split prod.split)

lemma unended_ends: "list_all unended evs \<Longrightarrow> ends_of c evs = []"
  by (auto simp: unended_def ends_call_def filter_empty_conv list_all_iff)


section \<open>Examples\<close>

definition demo_mapper :: mapper_env where
  "demo_mapper = \<lparr>mx_thread_id = ''t1'', mx_run_id = Some ''r1'', mx_trace_id = ''tr'', mx_observability_provider = ''none'',
     mx_external_trace_url = PNone, mx_guard_enabled = True, mx_guard_block = True, mx_require_citations = False,
     mx_provider = ''openai'', mx_model = ''gpt-4o'', mx_registry = empty_registry, mx_http_data = Some,
     mx_search_data = Some, mx_sha256 = (\<lambda>s. s), mx_netloc_ok = (\<lambda>_. True), mx_uuid = (\<lambda>_. ''u''),
     mx_clock = (\<lambda>_. 0), mx_cost = (\<lambda>_ _ _. ''0.0''), mx_cost_sum = (\<lambda>_ c. c), mx_cost_round = (\<lambda>c. c),
     mx_patterns = [], mx_loads = (\<lambda>_. None), mx_citation = (\<lambda>_. None)\<rparr>"

definition demo_chunk :: odict where
  "demo_chunk = [(''event'', OVal (PStr ''on_chat_model_stream'')), (''run_id'', OVal (PStr ''g1'')),
     (''data'', OMap [(''chunk'', OObj ''AIMessageChunk'' [(''content'', OVal (PStr ''Set-Cookie: a'')),
       (''additional_kwargs'', OVal (PDict [(''reasoning_content'', PStr ''Set-Cookie: b'')]))])])]"

definition demo_tool :: "string \<Rightarrow> pyobj \<Rightarrow> odict" where
  "demo_tool kind output = [(''event'', OVal (PStr kind)), (''name'', OVal (PStr ''search_docs'')),
     (''data'', OMap [(''input'', OVal (PDict [(''id'', PStr ''c1''), (''query'', PStr ''q'')])), (''output'', output)])]"


text \<open>The guard looks at the text only: the reasoning goes out as it comes, in its own event.\<close>

lemma reasoning_unguarded:
  "list_ex (\<lambda>ev. re_kind ev = ''assistant_state''
     \<and> dget (re_data ev) ''reasoning_content_delta'' = PStr ''Set-Cookie: b'')
     (events_of (map_events demo_mapper [demo_chunk] (new_mapper demo_mapper [])))"
  by code_simp

text \<open>A call that ends twice in the graph's events.\<close>

definition demo_tool_graph :: "odict list" where
  "demo_tool_graph = [demo_tool ''on_tool_start'' o_none, demo_tool ''on_tool_end'' (OObj ''ToolMessage'' []),
     demo_tool ''on_tool_end'' (OObj ''ToolMessage'' [])]"

definition demo_tool_evs :: "runtime_event list" where
  "demo_tool_evs = fst (map_stream (demo_mapper\<lparr>mx_guard_enabled := False\<rparr>) None [] [] demo_tool_graph)"

lemma demo_tool_run:
  "case map_stream (demo_mapper\<lparr>mx_guard_enabled := False\<rparr>) None [] [] demo_tool_graph of (evs, fl) \<Rightarrow> fl = Next
     \<and> map re_kind evs = [''policy_decision_recorded'', ''tool_start'', ''tool_end'', ''done'']"
  by code_simp


text \<open>
  The ends are counted, not matched: with as many ends as starts in the log nothing is done for a call
  without an end, even when one of the ends is another call's.
\<close>

lemma ends_only_counted:
  "missing_end_events x
     [(''tool_start'', [(''call_id'', PStr ''a'')]), (''tool_start'', [(''call_id'', PStr ''b'')]),
      (''tool_end'', [(''call_id'', PStr ''a'')]), (''tool_end'', [(''call_id'', PStr ''c'')])] st = (st, [], Next)"
  by (simp add: missing_end_events_def payloads_of_def)

end
