(* ===== verification/MemoryItems.thy ===== *)
theory MemoryItems
  imports StoreClaims Complex_Main
begin

text \<open>
  The long-term memory of \<^verbatim>\<open>copilot_agent/memory\<close>: its items (\<^verbatim>\<open>schema.py\<close>), their table in the file of the
  event store (\<^verbatim>\<open>item_store.py, item_store_queries.py, item_store_rows.py\<close>) and the score of the eviction
  (\<^verbatim>\<open>eviction_policy.py\<close>).

  The table is the list of its rows. A float is a rational number: the code compares floats, and where it
  computes one (the score) the result here is exact, rounded to six digits like there. What the library
  computes of a text or a number (\<^verbatim>\<open>sha256\<close>, the text of a time and of a float, powers of two, the embedding)
  is a parameter.
\<close>

section \<open>Items\<close>

datatype memory_scope = USER | SESSION | GLOBAL

datatype memory_type = FACT | PREFERENCE | BEHAVIOR | TASK_SUMMARY

fun scope_value :: "memory_scope \<Rightarrow> string" where
  "scope_value USER = ''user''"
| "scope_value SESSION = ''session''"
| "scope_value GLOBAL = ''global''"

fun type_value :: "memory_type \<Rightarrow> string" where
  "type_value FACT = ''fact''"
| "type_value PREFERENCE = ''preference''"
| "type_value BEHAVIOR = ''behavior''"
| "type_value TASK_SUMMARY = ''task_summary''"

record memory_item =
  mi_id :: string
  mi_user_id :: string
  mi_thread_id :: "string option"
  mi_scope :: memory_scope
  mi_memory_type :: memory_type
  mi_content :: string
  mi_content_hash :: string
  mi_importance :: rat
  mi_confidence :: rat
  mi_version :: int
  mi_supersedes_id :: "string option"
  mi_is_deprecated :: bool
  mi_expires_at :: "time option"
  mi_access_count :: int
  mi_last_accessed_at :: "time option"
  mi_created_at :: time
  mi_updated_at :: time
  mi_source_run_id :: "string option"
  mi_pending_confirmation :: bool
  mi_history :: "dict list"
  mi_embedding :: "rat list option"

record memory_state =
  ms_store :: store
  ms_items :: "memory_item list"

record memory_env =
  me_sha16 :: "string \<Rightarrow> string"
  me_iso :: "time \<Rightarrow> string"
  me_float :: "rat \<Rightarrow> string"
  me_decay :: "rat \<Rightarrow> rat"
  me_embed :: "string \<Rightarrow> rat list option"

definition memory_now :: "memory_state \<Rightarrow> time \<times> memory_state" where
  "memory_now st = (case utc_now_iso (ms_store st) of (now, s) \<Rightarrow> (now, st\<lparr>ms_store := s\<rparr>))"

definition content_hash :: "memory_env \<Rightarrow> string \<Rightarrow> string" where
  "content_hash x content = me_sha16 x (lower (strip (join '' '' (words content))))"

definition DELETED_MEMORY_CONTENT :: string where
  "DELETED_MEMORY_CONTENT = ''[deleted memory item]''"

section \<open>Rows\<close>

definition text_or_none :: "string option \<Rightarrow> string option" where
  "text_or_none t = (case t of Some s \<Rightarrow> if s = [] then None else Some s | None \<Rightarrow> None)"

text \<open>An empty text column and an empty embedding are read as \<open>None\<close>.\<close>

definition row_to_memory_item :: "memory_item \<Rightarrow> memory_item" where
  "row_to_memory_item r =
     r\<lparr>mi_thread_id := text_or_none (mi_thread_id r), mi_supersedes_id := text_or_none (mi_supersedes_id r),
       mi_source_run_id := text_or_none (mi_source_run_id r)\<rparr>"

definition encode_embedding :: "memory_item \<Rightarrow> rat list option" where
  "encode_embedding i = (case mi_embedding i of Some v \<Rightarrow> if v = [] then None else Some v | None \<Rightarrow> None)"

definition insert_item :: "memory_item \<Rightarrow> memory_state \<Rightarrow> (pyerr + memory_item) \<times> memory_state" where
  "insert_item i st =
     (if mi_id i \<in> mi_id ` set (ms_items st) then (Inl IntegrityError, st)
      else (Inr i, st\<lparr>ms_items := ms_items st @ [i\<lparr>mi_embedding := encode_embedding i\<rparr>]\<rparr>))"

text \<open>The columns an update writes.\<close>

definition overwrite :: "memory_item \<Rightarrow> memory_item \<Rightarrow> memory_item" where
  "overwrite i r =
     r\<lparr>mi_content := mi_content i, mi_content_hash := mi_content_hash i, mi_importance := mi_importance i,
       mi_confidence := mi_confidence i, mi_embedding := encode_embedding i, mi_version := mi_version i,
       mi_supersedes_id := mi_supersedes_id i, mi_is_deprecated := mi_is_deprecated i,
       mi_expires_at := mi_expires_at i, mi_access_count := mi_access_count i,
       mi_last_accessed_at := mi_last_accessed_at i, mi_updated_at := mi_updated_at i,
       mi_pending_confirmation := mi_pending_confirmation i, mi_history := mi_history i\<rparr>"

definition update_item :: "memory_item \<Rightarrow> memory_state \<Rightarrow> memory_state" where
  "update_item i st = st\<lparr>ms_items := update_where (\<lambda>r. mi_id r = mi_id i) (overwrite i) (ms_items st)\<rparr>"

definition get_item :: "memory_state \<Rightarrow> string \<Rightarrow> memory_item option" where
  "get_item st item_id = map_option row_to_memory_item (find (\<lambda>r. mi_id r = item_id) (ms_items st))"

section \<open>Queries\<close>

definition in_scopes :: "memory_scope list option \<Rightarrow> memory_item \<Rightarrow> bool" where
  "in_scopes scopes r \<longleftrightarrow> (case scopes of Some ss \<Rightarrow> ss = [] \<or> mi_scope r \<in> set ss | None \<Rightarrow> True)"

definition in_thread :: "string option \<Rightarrow> memory_item \<Rightarrow> bool" where
  "in_thread thread_id r \<longleftrightarrow>
     (case thread_id of Some t \<Rightarrow> mi_scope r = USER \<or> mi_thread_id r = Some t | None \<Rightarrow> True)"

definition by_recency :: "memory_item list \<Rightarrow> memory_item list" where
  "by_recency = sort_key (\<lambda>r. - mi_updated_at r)"

definition unexpired :: "time \<Rightarrow> memory_item \<Rightarrow> bool" where
  "unexpired now i \<longleftrightarrow> (case mi_expires_at i of Some t \<Rightarrow> now < t | None \<Rightarrow> True)"

definition list_active ::
    "string \<Rightarrow> string option \<Rightarrow> memory_scope list option \<Rightarrow> bool \<Rightarrow> memory_state \<Rightarrow> memory_item list \<times> memory_state" where
  "list_active user_id thread_id scopes include_pending st =
     (let rows = by_recency (filter (\<lambda>r. mi_user_id r = user_id \<and> \<not> mi_is_deprecated r
            \<and> (include_pending \<or> \<not> mi_pending_confirmation r) \<and> in_scopes scopes r \<and> in_thread thread_id r) (ms_items st));
          (now, st) = memory_now st
      in (filter (unexpired now) (map row_to_memory_item rows), st))"

definition has_status :: "string \<Rightarrow> memory_item \<Rightarrow> bool option" where
  "has_status status r =
     (if status = ''active'' then Some (\<not> mi_is_deprecated r \<and> \<not> mi_pending_confirmation r)
      else if status = ''pending'' then Some (\<not> mi_is_deprecated r \<and> mi_pending_confirmation r)
      else if status = ''deprecated'' then Some (mi_is_deprecated r)
      else if status = ''all'' then Some True else None)"

definition select_items ::
    "string \<Rightarrow> string option \<Rightarrow> (memory_item \<Rightarrow> bool) \<Rightarrow> memory_scope list option \<Rightarrow> int \<Rightarrow> memory_item list \<Rightarrow> memory_item list" where
  "select_items user_id thread_id ok scopes max_rows rows =
     map row_to_memory_item (sql_limit (Some (max 1 max_rows)) (by_recency
       (filter (\<lambda>r. mi_user_id r = user_id \<and> ok r \<and> in_scopes scopes r \<and> in_thread thread_id r) rows)))"

definition list_items ::
    "string \<Rightarrow> string option \<Rightarrow> string \<Rightarrow> memory_scope list option \<Rightarrow> int \<Rightarrow> memory_state \<Rightarrow>
     (pyerr + memory_item list) \<times> memory_state" where
  "list_items user_id thread_id status scopes max_rows st =
     (if status \<notin> {''active'', ''pending'', ''deprecated'', ''all''} then (Inl (ValueError (''unsupported memory item status: '' @ status)), st)
      else
        (let items = select_items user_id thread_id (\<lambda>r. has_status status r = Some True) scopes max_rows (ms_items st)
         in if status \<in> {''active'', ''pending''}
            then (case memory_now st of (now, st) \<Rightarrow> (Inr (filter (unexpired now) items), st))
            else (Inr items, st)))"

definition count_active :: "string \<Rightarrow> memory_state \<Rightarrow> int" where
  "count_active user_id st =
     int (length (filter (\<lambda>r. mi_user_id r = user_id \<and> \<not> mi_is_deprecated r) (ms_items st)))"

section \<open>Changing an item\<close>

definition deprecate :: "string \<Rightarrow> dict option \<Rightarrow> memory_state \<Rightarrow> memory_state" where
  "deprecate item_id history_entry st =
     (case get_item st item_id of
        None \<Rightarrow> st
      | Some row \<Rightarrow>
          (let history = mi_history row @ (case history_entry of Some h \<Rightarrow> if h = [] then [] else [h] | None \<Rightarrow> []);
               (now, st) = memory_now st
           in update_item (row\<lparr>mi_is_deprecated := True, mi_updated_at := now, mi_history := history\<rparr>) st))"

definition delete_with_tombstone ::
    "memory_env \<Rightarrow> string \<Rightarrow> dict option \<Rightarrow> memory_state \<Rightarrow> memory_item option \<times> memory_state" where
  "delete_with_tombstone x item_id history_entry st =
     (case get_item st item_id of
        None \<Rightarrow> (None, st)
      | Some row \<Rightarrow>
          (let history = mi_history row @ (case history_entry of Some h \<Rightarrow> if h = [] then [] else [h] | None \<Rightarrow> []);
               (now, st) = memory_now st;
               updated = row\<lparr>mi_content := DELETED_MEMORY_CONTENT, mi_content_hash := content_hash x DELETED_MEMORY_CONTENT,
                 mi_importance := 0, mi_confidence := 0, mi_is_deprecated := True, mi_pending_confirmation := False,
                 mi_updated_at := now, mi_history := history, mi_embedding := None\<rparr>
           in (Some updated, update_item updated st)))"

definition confirm_item :: "string \<Rightarrow> memory_state \<Rightarrow> memory_item option \<times> memory_state" where
  "confirm_item item_id st =
     (case get_item st item_id of
        None \<Rightarrow> (None, st)
      | Some row \<Rightarrow>
          (let (now, st) = memory_now st;
               updated = row\<lparr>mi_confidence := max (mi_confidence row) (85 / 100), mi_is_deprecated := False,
                 mi_pending_confirmation := False, mi_updated_at := now\<rparr>
           in (Some updated, update_item updated st)))"

definition delete_expired :: "memory_state \<Rightarrow> int \<times> memory_state" where
  "delete_expired st =
     (let (now, st) = memory_now st;
          expired = (\<lambda>r. case mi_expires_at r of Some t \<Rightarrow> t \<le> now | None \<Rightarrow> False)
      in (int (length (filter expired (ms_items st))),
          st\<lparr>ms_items := filter (\<lambda>r. \<not> expired r) (ms_items st)\<rparr>))"

definition touch_access :: "string list \<Rightarrow> memory_state \<Rightarrow> memory_state" where
  "touch_access item_ids st =
     (if item_ids = [] then st
      else case memory_now st of (now, st) \<Rightarrow>
        st\<lparr>ms_items := update_where (\<lambda>r. mi_id r \<in> set item_ids)
             (\<lambda>r. r\<lparr>mi_access_count := mi_access_count r + 1, mi_last_accessed_at := Some now, mi_updated_at := now\<rparr>)
             (ms_items st)\<rparr>)"

definition new_item_id :: "memory_state \<Rightarrow> string \<times> memory_state" where
  "new_item_id st =
     (case uuid4 (ms_store st) of
        (u, s) \<Rightarrow> (''mem_'' @ take 12 (filter (\<lambda>c. c \<noteq> CHR ''-'') u), st\<lparr>ms_store := s\<rparr>))"

section \<open>Eviction\<close>

definition clamp_unit :: "rat \<Rightarrow> rat" where
  "clamp_unit v = max 0 (min 1 v)"

definition DAY :: time where
  "DAY = 86400 * 1000000"

definition age_score :: "memory_env \<Rightarrow> time option \<Rightarrow> time \<Rightarrow> rat \<Rightarrow> rat" where
  "age_score x value current half_life_days =
     (case value of
        None \<Rightarrow> 0
      | Some t \<Rightarrow> me_decay x (max 0 (rat_of_int (current - t) / rat_of_int DAY) / half_life_days))"

definition ttl_penalty :: "time option \<Rightarrow> time \<Rightarrow> rat" where
  "ttl_penalty value current =
     (case value of
        None \<Rightarrow> 0
      | Some t \<Rightarrow>
          (let days_left = rat_of_int (t - current) / rat_of_int DAY
           in if days_left \<le> 0 then 45 / 100 else if days_left \<le> 1 then 25 / 100
              else if days_left \<le> 7 then 12 / 100 else 0))"

fun type_score :: "memory_type \<Rightarrow> rat" where
  "type_score PREFERENCE = 18 / 100"
| "type_score BEHAVIOR = 12 / 100"
| "type_score TASK_SUMMARY = 8 / 100"
| "type_score FACT = 0"

definition round_digits :: "nat \<Rightarrow> rat \<Rightarrow> rat" where
  "round_digits n v = rat_of_int (round (v * 10 ^ n)) / 10 ^ n"

definition memory_eviction_score :: "memory_env \<Rightarrow> memory_item \<Rightarrow> time \<Rightarrow> rat" where
  "memory_eviction_score x i current =
     round_digits 6
       (42 / 100 * clamp_unit (mi_importance i) + 24 / 100 * clamp_unit (mi_confidence i)
        + 14 / 100 * min 1 (rat_of_int (mi_access_count i) / 8)
        + 8 / 100 * age_score x (mi_last_accessed_at i) current 45
        + 7 / 100 * age_score x (Some (mi_updated_at i)) current 30
        + type_score (mi_memory_type i) - ttl_penalty (mi_expires_at i) current
        - (if mi_pending_confirmation i then 3 / 10 else 0))"

text \<open>Each score reads the clock.\<close>

fun score_items :: "memory_env \<Rightarrow> memory_item list \<Rightarrow> memory_state \<Rightarrow> (rat \<times> memory_item) list \<times> memory_state" where
  "score_items x [] st = ([], st)"
| "score_items x (i # is) st =
     (case memory_now st of
        (now, st) \<Rightarrow> (case score_items x is st of
          (scored, st) \<Rightarrow> ((memory_eviction_score x i now, i) # scored, st)))"

definition evicted_entry :: "memory_env \<Rightarrow> time \<Rightarrow> rat \<Rightarrow> dict" where
  "evicted_entry x now score =
     [(''action'', PStr ''evicted''), (''at'', PStr (me_iso x now)), (''reason'', PStr ''capacity_limit_v2''),
      (''eviction_score'', PFloat (me_float x (round_digits 4 score)))]"

fun evict_items :: "memory_env \<Rightarrow> (rat \<times> memory_item) list \<Rightarrow> memory_state \<Rightarrow> memory_state" where
  "evict_items x [] st = st"
| "evict_items x ((score, i) # rest) st =
     (case memory_now st of
        (now, st) \<Rightarrow> evict_items x rest (deprecate (mi_id i) (Some (evicted_entry x now score)) st))"

definition kept_items :: "string \<Rightarrow> memory_state \<Rightarrow> memory_item list" where
  "kept_items user_id st =
     filter (\<lambda>i. \<not> mi_is_deprecated i) (select_items user_id None (\<lambda>_. True) None 10000 (ms_items st))"

definition evict_lowest_score ::
    "memory_env \<Rightarrow> string \<Rightarrow> int \<Rightarrow> rat \<Rightarrow> memory_state \<Rightarrow> string list \<times> memory_state" where
  "evict_lowest_score x user_id keep_count protected_importance st =
     (let items = kept_items user_id st in
      if int (length items) \<le> keep_count then ([], st)
      else case score_items x (filter (\<lambda>i. mi_importance i < protected_importance) items) st of
        (scored, st) \<Rightarrow>
          (let victims = take (nat (int (length items) - keep_count))
                 (sort_key (\<lambda>(score, i). (score, mi_updated_at i)) scored)
           in (map (\<lambda>(score, i). mi_id i) victims, evict_items x victims st)))"

end
