(* ===== verification/MemoryWriter.thy ===== *)
theory MemoryWriter
  imports MemoryItems Sanitize
begin

text \<open>
  What becomes long-term memory at the end of a run: the candidates (\<^verbatim>\<open>copilot_agent/memory/rule_extract.py,
  llm_extractor.py\<close>), the write gate (\<^verbatim>\<open>conversion_policy.py\<close>) and the writer (\<^verbatim>\<open>item_writer.py\<close>).

  The items a language model proposes and the match of the preference patterns are parameters. A text here
  has code points below 256, so the Chinese markers and tokens of the code, which cannot occur in it, are
  left out of the tables below.
\<close>

section \<open>Policy and candidates\<close>

record memory_policy =
  mo_long_term_enabled :: bool
  mo_importance_min :: rat
  mo_max_items_per_user :: int
  mo_protected_importance :: rat
  mo_dedup_threshold :: rat
  mo_conflict_threshold :: rat
  mo_llm_extract_enabled :: bool
  mo_llm_confirm_threshold :: rat
  mo_write_gate_enabled :: bool
  mo_write_min_confidence :: rat
  mo_write_require_reusable :: bool
  mo_contradiction_pending_enabled :: bool
  mo_contradiction_pending_threshold :: rat

definition default_memory_policy :: memory_policy where
  "default_memory_policy =
     \<lparr>mo_long_term_enabled = True, mo_importance_min = 5 / 10, mo_max_items_per_user = 200,
      mo_protected_importance = 9 / 10, mo_dedup_threshold = 25 / 100, mo_conflict_threshold = 3 / 10,
      mo_llm_extract_enabled = True, mo_llm_confirm_threshold = 7 / 10, mo_write_gate_enabled = True,
      mo_write_min_confidence = 7 / 10, mo_write_require_reusable = True,
      mo_contradiction_pending_enabled = True, mo_contradiction_pending_threshold = 3 / 10\<rparr>"

text \<open>
  A candidate: the keys every producer writes, and the rest (\<open>reusable\<close>, \<open>source_kind\<close>,
  \<open>source_event_ids\<close>, \<open>extractor\<close>).
\<close>

record candidate =
  cd_scope :: memory_scope
  cd_memory_type :: memory_type
  cd_content :: string
  cd_importance :: rat
  cd_confidence :: rat
  cd_source_run_id :: string
  cd_ttl_days :: "int option"
  cd_extra :: dict
  cd_pending_confirmation :: bool

definition candidate_dict :: "memory_env \<Rightarrow> candidate \<Rightarrow> dict" where
  "candidate_dict x c =
     [(''scope'', PStr (scope_value (cd_scope c))), (''memory_type'', PStr (type_value (cd_memory_type c))),
      (''content'', PStr (cd_content c)), (''importance'', PFloat (me_float x (cd_importance c))),
      (''confidence'', PFloat (me_float x (cd_confidence c))), (''source_run_id'', PStr (cd_source_run_id c)),
      (''ttl_days'', opt_int (cd_ttl_days c))] @ cd_extra c
     @ [(''pending_confirmation'', PBool (cd_pending_confirmation c))]"

section \<open>Numbers as text\<close>

text \<open>\<open>float(text)\<close> without the infinities and \<open>nan\<close>.\<close>

definition parse_digits_or_none :: "string \<Rightarrow> int option" where
  "parse_digits_or_none s = (if s = [] then Some 0 else parse_nat s)"

definition parse_mantissa :: "string \<Rightarrow> rat option" where
  "parse_mantissa s =
     (let a = takeWhile (\<lambda>c. c \<noteq> CHR ''.'') s; b = tl (dropWhile (\<lambda>c. c \<noteq> CHR ''.'') s)
      in if a = [] \<and> b = [] then None
         else case (parse_digits_or_none a, parse_digits_or_none b) of
           (Some i, Some f) \<Rightarrow> Some (rat_of_int i + rat_of_int f / 10 ^ length (filter is_digit b))
         | _ \<Rightarrow> None)"

definition signed :: "('a \<Rightarrow> 'a) \<Rightarrow> (string \<Rightarrow> 'a option) \<Rightarrow> string \<Rightarrow> 'a option" where
  "signed neg f s = (case s of
       [] \<Rightarrow> f []
     | c # t \<Rightarrow> if c = CHR ''-'' then map_option neg (f t) else if c = CHR ''+'' then f t else f (c # t))"

definition parse_unsigned :: "string \<Rightarrow> rat option" where
  "parse_unsigned s =
     (let m = takeWhile (\<lambda>c. lower_char c \<noteq> CHR ''e'') s; e = dropWhile (\<lambda>c. lower_char c \<noteq> CHR ''e'') s
      in case (parse_mantissa m, if e = [] then Some 0 else signed uminus parse_nat (tl e)) of
           (Some r, Some k) \<Rightarrow> Some (if k \<ge> 0 then r * 10 ^ nat k else r / 10 ^ nat (- k))
         | _ \<Rightarrow> None)"

definition parse_float :: "string \<Rightarrow> rat option" where
  "parse_float s = signed uminus parse_unsigned (strip s)"

text \<open>\<open>max(0.0, min(1.0, float(value)))\<close>: a \<open>nan\<close> is not below 1, so it counts as 1.\<close>

definition clamp_text :: "string \<Rightarrow> rat \<Rightarrow> rat" where
  "clamp_text s default_value =
     (let t = lower (strip s) in
      if t \<in> {''nan'', ''+nan'', ''-nan'', ''inf'', ''+inf'', ''infinity'', ''+infinity''} then 1
      else if t \<in> {''-inf'', ''-infinity''} then 0
      else case parse_float s of Some r \<Rightarrow> clamp_unit r | None \<Rightarrow> default_value)"

fun clamp_float :: "pyval \<Rightarrow> rat \<Rightarrow> rat" where
  "clamp_float (PInt i) d = clamp_unit (rat_of_int i)"
| "clamp_float (PBool b) d = (if b then 1 else 0)"
| "clamp_float (PFloat t) d = clamp_text t d"
| "clamp_float (PStr t) d = clamp_text t d"
| "clamp_float v d = d"

section \<open>Candidates of a run\<close>

definition normalized_content :: "candidate \<Rightarrow> string" where
  "normalized_content c = lower (join '' '' (words (cd_content c)))"

fun parse_memory_type :: "string \<Rightarrow> memory_type" where
  "parse_memory_type s =
     (if s = ''preference'' then PREFERENCE else if s = ''behavior'' then BEHAVIOR
      else if s \<in> {''task'', ''task_summary''} then TASK_SUMMARY else FACT)"

definition parse_scope :: "string \<Rightarrow> memory_scope" where
  "parse_scope s = (if s = ''user'' then USER else SESSION)"

text \<open>A seed of the summary of the run. The producers write \<open>ttl_days\<close> as an int or \<open>None\<close>.\<close>

definition seed_extra :: "dict \<Rightarrow> dict option" where
  "seed_extra s =
     map_option (\<lambda>ids. [(''reusable'', PBool (truthy (dget_or s ''reusable'' (PBool True)))),
         (''source_kind'', PStr (str_or (dget s ''source_kind''))), (''source_event_ids'', PList ids)])
       (py_iter (py_or (dget s ''source_event_ids'') (PList [])))"

definition seed_ttl :: "pyval \<Rightarrow> int option" where
  "seed_ttl v = (case v of PInt i \<Rightarrow> Some i | _ \<Rightarrow> None)"

definition seed_candidate :: "string \<Rightarrow> dict \<Rightarrow> candidate option" where
  "seed_candidate run_id s =
     map_option (\<lambda>extra.
       \<lparr>cd_scope = parse_scope (lower (strip (str_or (dget s ''scope'')))),
        cd_memory_type = parse_memory_type (lower (strip (str_or (py_or (dget s ''memory_type'') (PStr ''fact''))))),
        cd_content = take 400 (strip (str_or (dget s ''content''))),
        cd_importance = clamp_float (dget s ''importance'') (65 / 100),
        cd_confidence = clamp_float (dget s ''confidence'') (78 / 100),
        cd_source_run_id = run_id, cd_ttl_days = seed_ttl (dget s ''ttl_days''), cd_extra = extra,
        cd_pending_confirmation = False\<rparr>) (seed_extra s)"

definition usable_seed :: "pyval \<Rightarrow> bool" where
  "usable_seed v \<longleftrightarrow> is_dict v \<and> strip (str_or (dget (as_dict v) ''content'')) \<noteq> []"

definition seed_candidates :: "pyval list \<Rightarrow> string \<Rightarrow> candidate list option" where
  "seed_candidates seeds run_id =
     those (map (\<lambda>v. seed_candidate run_id (as_dict v)) (filter usable_seed (take 8 seeds)))"

definition rule_candidate :: "memory_scope \<Rightarrow> memory_type \<Rightarrow> string \<Rightarrow> rat \<Rightarrow> rat \<Rightarrow> string \<Rightarrow> int option \<Rightarrow> candidate" where
  "rule_candidate scope mtype content importance confidence run_id ttl_days =
     \<lparr>cd_scope = scope, cd_memory_type = mtype, cd_content = content, cd_importance = importance,
      cd_confidence = confidence, cd_source_run_id = run_id, cd_ttl_days = ttl_days, cd_extra = [],
      cd_pending_confirmation = False\<rparr>"

definition goal_candidates :: "candidate list \<Rightarrow> string \<Rightarrow> string \<Rightarrow> string \<Rightarrow> candidate list" where
  "goal_candidates seeded goal_text outcome run_id =
     (if goal_text = [] \<or> (\<exists>c \<in> set seeded. cd_memory_type c = TASK_SUMMARY) then []
      else [rule_candidate SESSION TASK_SUMMARY (take 400 goal_text)
              (if outcome = ''completed'' then 75 / 100 else 55 / 100)
              (if outcome = ''completed'' then 9 / 10 else 7 / 10) run_id None])"

definition output_candidates :: "candidate list \<Rightarrow> string list \<Rightarrow> string \<Rightarrow> candidate list" where
  "output_candidates seeded key_outputs run_id =
     (if seeded \<noteq> [] then []
      else map (\<lambda>text. rule_candidate SESSION FACT (take 300 text) (6 / 10) (75 / 100) run_id (Some 30))
             (filter (\<lambda>text. 20 \<le> length text) (map strip (take 2 key_outputs))))"

definition preference_candidates :: "(string \<Rightarrow> string option) \<Rightarrow> string \<Rightarrow> string \<Rightarrow> candidate list" where
  "preference_candidates preference_in goal_text run_id =
     (case preference_in goal_text of
        None \<Rightarrow> []
      | Some phrase \<Rightarrow> [rule_candidate USER PREFERENCE (take 200 (strip phrase)) (85 / 100) (8 / 10) run_id None])"

fun dedupe_candidates :: "string list \<Rightarrow> candidate list \<Rightarrow> candidate list" where
  "dedupe_candidates seen [] = []"
| "dedupe_candidates seen (c # cs) =
     (if normalized_content c = [] \<or> normalized_content c \<in> set seen then dedupe_candidates seen cs
      else c # dedupe_candidates (normalized_content c # seen) cs)"

definition extract_memory_candidates ::
    "(string \<Rightarrow> string option) \<Rightarrow> string \<Rightarrow> string list \<Rightarrow> string \<Rightarrow> string \<Rightarrow> pyval list \<Rightarrow> candidate list option" where
  "extract_memory_candidates preference_in goal key_outputs outcome run_id seeds =
     (let goal_text = strip goal in
      map_option (\<lambda>seeded. dedupe_candidates []
          (seeded @ goal_candidates seeded goal_text outcome run_id @ output_candidates seeded key_outputs run_id
           @ preference_candidates preference_in goal_text run_id))
        (seed_candidates seeds run_id))"

subsection \<open>Proposals of the language model\<close>

definition llm_candidate :: "string \<Rightarrow> pyval \<Rightarrow> candidate option" where
  "llm_candidate run_id v =
     (let d = as_dict v;
          content = strip (py_str (dget_or d ''content'' (PStr [])));
          mtype = parse_memory_type (lower (strip (py_str (dget_or d ''type'' (PStr ''fact'')))))
      in if \<not> is_dict v \<or> content = [] then None
         else Some
           \<lparr>cd_scope = parse_scope (lower (strip (py_str (dget_or d ''scope'' (PStr ''session''))))),
            cd_memory_type = mtype, cd_content = take 400 content,
            cd_importance = clamp_float (dget d ''importance'') (6 / 10),
            cd_confidence = clamp_float (dget d ''confidence'') (75 / 100), cd_source_run_id = run_id,
            cd_ttl_days = (if mtype = FACT then Some 30 else None), cd_extra = [(''extractor'', PStr ''llm'')],
            cd_pending_confirmation = False\<rparr>)"

definition merge_candidates :: "candidate list \<Rightarrow> candidate list \<Rightarrow> candidate list" where
  "merge_candidates rule_cs llm_cs =
     llm_cs @ map (\<lambda>c. c\<lparr>cd_extra := dset ''extractor'' (PStr ''rule'') (cd_extra c)\<rparr>)
       (dedupe_candidates (map normalized_content llm_cs) rule_cs)"

definition apply_pending_flags :: "memory_policy \<Rightarrow> candidate list \<Rightarrow> candidate list" where
  "apply_pending_flags p = map (\<lambda>c. c\<lparr>cd_pending_confirmation := cd_confidence c < mo_llm_confirm_threshold p\<rparr>)"

text \<open>\<open>proposals\<close> is the parsed answer of the model; \<open>None\<close> when there is no key or the call raised.\<close>

definition extract_memories_for_run ::
    "memory_policy \<Rightarrow> (string \<Rightarrow> string option) \<Rightarrow> pyval list option \<Rightarrow> string \<Rightarrow> string list \<Rightarrow> string \<Rightarrow> string \<Rightarrow>
     pyval list \<Rightarrow> candidate list option" where
  "extract_memories_for_run p preference_in proposals goal key_outputs outcome run_id seeds =
     map_option (\<lambda>rule_cs.
       apply_pending_flags p
         (case if mo_llm_extract_enabled p then proposals else None of
            None \<Rightarrow> rule_cs
          | Some items \<Rightarrow>
              (let llm_cs = List.map_filter (llm_candidate run_id) items
               in if llm_cs = [] then rule_cs else merge_candidates rule_cs llm_cs)))
       (extract_memory_candidates preference_in goal key_outputs outcome run_id seeds)"

section \<open>The write gate\<close>

definition REUSABLE_MARKERS :: "string list" where
  "REUSABLE_MARKERS = [''default'', ''always'', ''prefer'', ''redis'', ''stream'', ''endpoint'', ''api'', ''runbook'']"

definition cd_reusable :: "candidate \<Rightarrow> bool" where
  "cd_reusable c = truthy (dget (cd_extra c) ''reusable'')"

definition is_reusable_candidate :: "candidate \<Rightarrow> string \<Rightarrow> bool" where
  "is_reusable_candidate c outcome \<longleftrightarrow>
     cd_reusable c \<or> cd_memory_type c \<in> {PREFERENCE, BEHAVIOR}
     \<or> (cd_memory_type c = TASK_SUMMARY \<and> outcome = ''completed'')
     \<or> list_ex (\<lambda>marker. contains (lower (cd_content c)) marker) REUSABLE_MARKERS"

definition stable_enough :: "memory_policy \<Rightarrow> string \<Rightarrow> candidate \<Rightarrow> bool" where
  "stable_enough p outcome c \<longleftrightarrow>
     outcome = ''completed''
     \<or> (cd_memory_type c \<in> {PREFERENCE, BEHAVIOR}
        \<and> max (mo_write_min_confidence p) (mo_llm_confirm_threshold p) \<le> cd_confidence c)
     \<or> (cd_memory_type c = FACT \<and> cd_reusable c \<and> str_or (dget (cd_extra c) ''source_kind'') = ''policy_decision'')"

definition conversion_skip_reason :: "memory_env \<Rightarrow> memory_policy \<Rightarrow> string \<Rightarrow> candidate \<Rightarrow> string" where
  "conversion_skip_reason x p outcome c =
     (if \<not> mo_write_gate_enabled p then []
      else if strip (cd_content c) = [] then ''empty_content''
      else if audit_payload_has_secret (PDict (candidate_dict x c)) then ''sensitive_payload''
      else if cd_importance c < mo_importance_min p then ''below_importance_threshold''
      else if \<not> stable_enough p outcome c then ''unstable_outcome''
      else if cd_confidence c < mo_write_min_confidence p then ''low_confidence''
      else if mo_write_require_reusable p \<and> \<not> is_reusable_candidate c outcome then ''non_reusable''
      else [])"

section \<open>Similarity and contradiction\<close>

definition word_char :: "char \<Rightarrow> bool" where
  "word_char c = (let n = (of_char c :: nat) in
     (48 \<le> n \<and> n \<le> 57) \<or> (65 \<le> n \<and> n \<le> 90) \<or> (97 \<le> n \<and> n \<le> 122) \<or> n = 95)"

text \<open>The maximal runs of \<open>[a-zA-Z0-9_]\<close>.\<close>

fun word_runs :: "string \<Rightarrow> string \<Rightarrow> string list" where
  "word_runs cur [] = (if cur = [] then [] else [rev cur])"
| "word_runs cur (c # s) =
     (if word_char c then word_runs (c # cur) s
      else if cur = [] then word_runs [] s else rev cur # word_runs [] s)"

definition memory_tokenize :: "string \<Rightarrow> string list" where
  "memory_tokenize text = remdups (map lower (filter (\<lambda>w. 3 \<le> length w) (word_runs [] text)))"

definition similarity :: "string \<Rightarrow> string \<Rightarrow> rat" where
  "similarity a b =
     (let ta = memory_tokenize a; tb = memory_tokenize b
      in if ta = [] \<or> tb = [] then 0
         else rat_of_nat (length (filter (\<lambda>t. t \<in> set tb) ta)) / rat_of_nat (length (remdups (ta @ tb))))"

definition NEGATION_MARKERS :: "string list" where
  "NEGATION_MARKERS = [''not'', ''never'', ''avoid'', ''disable'', ''without'']"

definition has_negation :: "string \<Rightarrow> bool" where
  "has_negation text \<longleftrightarrow> list_ex (contains (lower text)) NEGATION_MARKERS"

definition POLARITY_PAIRS :: "(string list \<times> string list) list" where
  "POLARITY_PAIRS = [([''short'', ''terse''], [''long'', ''detailed'']),
     ([''allow'', ''enable''], [''deny'', ''disable''])]"

definition opposed :: "string list \<Rightarrow> string list \<Rightarrow> string list \<times> string list \<Rightarrow> bool" where
  "opposed old new p \<longleftrightarrow>
     (let meets = (\<lambda>ts us. list_ex (\<lambda>t. t \<in> set us) ts)
      in (meets old (fst p) \<and> meets new (snd p)) \<or> (meets old (snd p) \<and> meets new (fst p)))"

definition contradiction_pending_reason :: "memory_policy \<Rightarrow> memory_item \<Rightarrow> string \<Rightarrow> rat \<Rightarrow> string" where
  "contradiction_pending_reason p old content sim =
     (if \<not> mo_contradiction_pending_enabled p \<or> sim < mo_contradiction_pending_threshold p then []
      else if (mi_memory_type old \<in> {PREFERENCE, FACT} \<and> has_negation (mi_content old) \<noteq> has_negation content)
         \<or> list_ex (opposed (memory_tokenize (mi_content old)) (memory_tokenize content)) POLARITY_PAIRS
      then ''contradiction_pending'' else [])"

section \<open>Writing a candidate\<close>

record write_result =
  wr_action :: string
  wr_item :: "memory_item option"
  wr_superseded_id :: "string option"
  wr_reason :: string
  wr_pending_reason :: string

definition skip_result :: "string \<Rightarrow> write_result" where
  "skip_result reason =
     \<lparr>wr_action = ''skip'', wr_item = None, wr_superseded_id = None, wr_reason = reason, wr_pending_reason = []\<rparr>"

definition expires_at_iso :: "int option \<Rightarrow> memory_state \<Rightarrow> time option \<times> memory_state" where
  "expires_at_iso ttl_days st =
     (case ttl_days of
        None \<Rightarrow> (None, st)
      | Some n \<Rightarrow> if n \<le> 0 then (None, st) else (case memory_now st of (now, st) \<Rightarrow> (Some (now + n * DAY), st)))"

text \<open>A new item for a candidate; \<open>old\<close> is the item it replaces or contradicts.\<close>

definition item_of ::
    "memory_env \<Rightarrow> string \<Rightarrow> string \<Rightarrow> candidate \<Rightarrow> time \<Rightarrow> memory_item option \<Rightarrow> bool \<Rightarrow> dict list \<Rightarrow> memory_state \<Rightarrow>
     memory_item \<times> memory_state" where
  "item_of x user_id thread_id c now old pending history st =
     (let content = strip (cd_content c);
          embedding = me_embed x content;
          (new_id, st) = new_item_id st;
          (expires_at, st) = expires_at_iso (cd_ttl_days c) st
      in (\<lparr>mi_id = new_id, mi_user_id = user_id,
           mi_thread_id = (if cd_scope c = SESSION then Some thread_id else None), mi_scope = cd_scope c,
           mi_memory_type = cd_memory_type c, mi_content = content, mi_content_hash = content_hash x content,
           mi_importance = cd_importance c, mi_confidence = cd_confidence c,
           mi_version = (case old of Some o' \<Rightarrow> mi_version o' + 1 | None \<Rightarrow> 1),
           mi_supersedes_id = map_option mi_id old, mi_is_deprecated = False, mi_expires_at = expires_at,
           mi_access_count = 0, mi_last_accessed_at = None, mi_created_at = now, mi_updated_at = now,
           mi_source_run_id = text_or_none (Some (cd_source_run_id c)), mi_pending_confirmation = pending,
           mi_history = history,
           mi_embedding = (case embedding of
               Some v \<Rightarrow> if v = [] then Option.bind old mi_embedding else Some v
             | None \<Rightarrow> Option.bind old mi_embedding)\<rparr>, st))"

definition store_new ::
    "string \<Rightarrow> memory_item option \<Rightarrow> string \<Rightarrow> memory_item \<times> memory_state \<Rightarrow> (pyerr + write_result) \<times> memory_state" where
  "store_new action old reason new =
     (case new of (item, st) \<Rightarrow>
        (case insert_item item st of
           (Inl e, st) \<Rightarrow> (Inl e, st)
         | (Inr item, st) \<Rightarrow>
             (Inr \<lparr>wr_action = action, wr_item = Some item, wr_superseded_id = map_option mi_id old,
                   wr_reason = reason, wr_pending_reason = reason\<rparr>, st)))"

definition pending_entry :: "memory_env \<Rightarrow> string \<Rightarrow> time \<Rightarrow> string \<Rightarrow> rat \<Rightarrow> dict" where
  "pending_entry x reason now content sim =
     [(''action'', PStr reason), (''at'', PStr (me_iso x now)),
      (''candidate_content_hash'', PStr (content_hash x content)), (''similarity'', PFloat (me_float x (round_digits 4 sim)))]"

definition version_entry :: "memory_env \<Rightarrow> memory_item \<Rightarrow> dict" where
  "version_entry x old =
     [(''version'', PInt (mi_version old)), (''content_hash'', PStr (mi_content_hash old)),
      (''updated_at'', PStr (me_iso x (mi_updated_at old))), (''action'', PStr ''superseded'')]"

definition superseded_entry :: "memory_env \<Rightarrow> time \<Rightarrow> string \<Rightarrow> dict" where
  "superseded_entry x now content =
     [(''action'', PStr ''superseded''), (''at'', PStr (me_iso x now)), (''by_content_hash'', PStr (content_hash x content))]"

definition replace_item ::
    "memory_env \<Rightarrow> memory_policy \<Rightarrow> string \<Rightarrow> string \<Rightarrow> candidate \<Rightarrow> time \<Rightarrow> memory_item \<Rightarrow> memory_state \<Rightarrow>
     (pyerr + write_result) \<times> memory_state" where
  "replace_item x p user_id thread_id c now old st =
     (let content = strip (cd_content c);
          sim = similarity (mi_content old) content;
          reason = contradiction_pending_reason p old content sim
      in if reason \<noteq> []
         then store_new ''pending'' (Some old) reason
           (item_of x user_id thread_id c now (Some old) True (mi_history old @ [pending_entry x reason now content sim]) st)
         else store_new ''supersede'' (Some old) []
           (item_of x user_id thread_id c now (Some old) (cd_pending_confirmation c) (mi_history old @ [version_entry x old])
             (deprecate (mi_id old) (Some (superseded_entry x now content)) st)))"

definition similar_items :: "memory_policy \<Rightarrow> candidate \<Rightarrow> memory_item list \<Rightarrow> memory_item list" where
  "similar_items p c existing =
     filter (\<lambda>i. mi_memory_type i = cd_memory_type c
       \<and> mo_dedup_threshold p \<le> similarity (mi_content i) (strip (cd_content c))) existing"

definition upsert_candidate ::
    "memory_env \<Rightarrow> memory_policy \<Rightarrow> string \<Rightarrow> string \<Rightarrow> candidate \<Rightarrow> memory_state \<Rightarrow> (pyerr + write_result) \<times> memory_state" where
  "upsert_candidate x p user_id thread_id c st =
     (let content = strip (cd_content c) in
      if content = [] then (Inr (skip_result ''empty_content''), st)
      else if cd_importance c < mo_importance_min p then (Inr (skip_result ''below_importance_threshold''), st)
      else case list_active user_id (Some thread_id) None False st of
        (existing, st) \<Rightarrow>
          (case find (\<lambda>i. mi_content_hash i = content_hash x content) existing of
             Some same \<Rightarrow> (Inr \<lparr>wr_action = ''dedup_skip'', wr_item = Some same, wr_superseded_id = None,
                 wr_reason = ''identical_content'', wr_pending_reason = []\<rparr>, st)
           | None \<Rightarrow>
               (case memory_now st of (now, st) \<Rightarrow>
                  (case similar_items p c existing of
                     old # _ \<Rightarrow>
                       (if mo_conflict_threshold p \<le> similarity (mi_content old) content
                        then replace_item x p user_id thread_id c now old st
                        else store_new ''insert'' None []
                          (item_of x user_id thread_id c now None (cd_pending_confirmation c) [] st))
                   | [] \<Rightarrow> store_new ''insert'' None []
                       (item_of x user_id thread_id c now None (cd_pending_confirmation c) [] st)))))"

section \<open>The end of a run\<close>

fun write_candidates ::
    "memory_env \<Rightarrow> memory_policy \<Rightarrow> string \<Rightarrow> string \<Rightarrow> string \<Rightarrow> candidate list \<Rightarrow> memory_state \<Rightarrow>
     (pyerr + write_result list) \<times> memory_state" where
  "write_candidates x p user_id thread_id outcome [] st = (Inr [], st)"
| "write_candidates x p user_id thread_id outcome (c # cs) st =
     (let reason = conversion_skip_reason x p outcome c in
      case (if reason \<noteq> [] then (Inr (skip_result reason), st) else upsert_candidate x p user_id thread_id c st) of
        (Inl e, st) \<Rightarrow> (Inl e, st)
      | (Inr r, st) \<Rightarrow>
          (case write_candidates x p user_id thread_id outcome cs st of
             (Inl e, st) \<Rightarrow> (Inl e, st)
           | (Inr rs, st) \<Rightarrow> (Inr (r # rs), st)))"

definition persist_run_memories ::
    "memory_env \<Rightarrow> memory_policy \<Rightarrow> (string \<Rightarrow> string option) \<Rightarrow> pyval list option \<Rightarrow> string \<Rightarrow> string \<Rightarrow> string \<Rightarrow>
     string list \<Rightarrow> string \<Rightarrow> string \<Rightarrow> pyval list \<Rightarrow> memory_state \<Rightarrow> (pyerr + write_result list) \<times> memory_state" where
  "persist_run_memories x p preference_in proposals user_id thread_id goal key_outputs outcome run_id seeds st =
     (if \<not> mo_long_term_enabled p then (Inr [], st)
      else case delete_expired st of (n, st) \<Rightarrow>
        (case extract_memories_for_run p preference_in proposals goal key_outputs outcome run_id seeds of
           None \<Rightarrow> (Inl TypeError, st)
         | Some cs \<Rightarrow>
             (case write_candidates x p user_id thread_id outcome cs st of
                (Inl e, st) \<Rightarrow> (Inl e, st)
              | (Inr results, st) \<Rightarrow>
                  (Inr results,
                   if mo_max_items_per_user p > 0
                   then snd (evict_lowest_score x user_id (mo_max_items_per_user p) (mo_protected_importance p) st)
                   else st))))"

end
