(* ===== verification/MemoryGovernance.thy ===== *)
theory MemoryGovernance
  imports MemoryItems
begin

text \<open>
  What a user does to the long-term memory (\<^verbatim>\<open>copilot_agent/memory/manager.py\<close>): listing, confirming, rejecting
  and deleting items, with the events that record it, and the read model of those events
  (\<^verbatim>\<open>runtime/memory_governance.py\<close>). The manager has an item table and an event store.
\<close>

section \<open>Events of governance\<close>

definition opt_iso :: "memory_env \<Rightarrow> time option \<Rightarrow> pyval" where
  "opt_iso x t = (case t of Some u \<Rightarrow> PStr (me_iso x u) | None \<Rightarrow> PNone)"

text \<open>\<open>model_dump(mode="json", exclude={"embedding"})\<close>\<close>

definition memory_item_dict :: "memory_env \<Rightarrow> memory_item \<Rightarrow> dict" where
  "memory_item_dict x i =
     [(''id'', PStr (mi_id i)), (''user_id'', PStr (mi_user_id i)), (''thread_id'', opt_str (mi_thread_id i)),
      (''scope'', PStr (scope_value (mi_scope i))), (''memory_type'', PStr (type_value (mi_memory_type i))),
      (''content'', PStr (mi_content i)), (''content_hash'', PStr (mi_content_hash i)),
      (''importance'', PFloat (me_float x (mi_importance i))), (''confidence'', PFloat (me_float x (mi_confidence i))),
      (''version'', PInt (mi_version i)), (''supersedes_id'', opt_str (mi_supersedes_id i)),
      (''is_deprecated'', PBool (mi_is_deprecated i)), (''expires_at'', opt_iso x (mi_expires_at i)),
      (''access_count'', PInt (mi_access_count i)), (''last_accessed_at'', opt_iso x (mi_last_accessed_at i)),
      (''created_at'', PStr (me_iso x (mi_created_at i))), (''updated_at'', PStr (me_iso x (mi_updated_at i))),
      (''source_run_id'', opt_str (mi_source_run_id i)), (''pending_confirmation'', PBool (mi_pending_confirmation i)),
      (''history'', PList (map PDict (mi_history i)))]"

definition sanitize_memory_item :: "memory_env \<Rightarrow> memory_item \<Rightarrow> dict" where
  "sanitize_memory_item x i =
     (let payload = memory_item_dict x i in
      if mi_is_deprecated i \<and> mi_content i = DELETED_MEMORY_CONTENT
      then ddel ''content'' payload @ [(''content_redacted'', PBool True), (''tombstone'', PBool True)]
      else payload)"

record governance_args =
  gv_action :: string
  gv_reason :: string
  gv_actor :: string
  gv_content_redacted :: bool
  gv_embedding_removed :: bool

definition memory_governance_payload :: "memory_env \<Rightarrow> memory_item \<Rightarrow> governance_args \<Rightarrow> time \<Rightarrow> dict" where
  "memory_governance_payload x i a at_time =
     (let gone = (gv_action a = ''deleted'')
      in [(''item_id'', PStr (mi_id i)), (''user_id'', PStr (mi_user_id i)), (''thread_id'', opt_str (mi_thread_id i)),
          (''scope'', PStr (scope_value (mi_scope i))), (''memory_type'', PStr (type_value (mi_memory_type i))),
          (''source_run_id'', opt_str (mi_source_run_id i)), (''action'', PStr (gv_action a)),
          (''reason'', PStr (gv_reason a)), (''actor'', PStr (gv_actor a)), (''at'', PStr (me_iso x at_time)),
          (''deleted_at'', if gone then PStr (me_iso x at_time) else PNone),
          (''deleted_by'', if gone then PStr (gv_actor a) else PNone),
          (''content_redacted'', PBool (gv_content_redacted a)), (''embedding_removed'', PBool (gv_embedding_removed a))])"

definition delete_proof_payload :: "memory_env \<Rightarrow> memory_item \<Rightarrow> string \<Rightarrow> string \<Rightarrow> time \<Rightarrow> int \<Rightarrow> dict" where
  "delete_proof_payload x i reason actor deleted_at delete_event_id =
     [(''item_id'', PStr (mi_id i)), (''user_id'', PStr (mi_user_id i)), (''thread_id'', opt_str (mi_thread_id i)),
      (''scope'', PStr (scope_value (mi_scope i))), (''memory_type'', PStr (type_value (mi_memory_type i))),
      (''source_run_id'', opt_str (mi_source_run_id i)), (''deleted_at'', PStr (me_iso x deleted_at)),
      (''reason'', PStr reason), (''deleted_by'', PStr actor), (''content_redacted'', PBool True),
      (''embedding_removed'', PBool True), (''delete_event_id'', PInt delete_event_id)]"

text \<open>The thread whose log gets the event: an item that belongs to no thread has the log of its user.\<close>

definition governance_thread :: "memory_item \<Rightarrow> string" where
  "governance_thread i = (case mi_thread_id i of Some t \<Rightarrow> if t = [] then mi_user_id i else t | None \<Rightarrow> mi_user_id i)"

text \<open>
  The run the event is written under: one of its own, completed from the start, or the last run of the
  thread while a run is active.
\<close>

definition governance_run_name :: "string \<Rightarrow> string" where
  "governance_run_name thread_id = ''memory-governance-'' @ thread_id"

definition governance_run_id :: "string \<Rightarrow> store \<Rightarrow> (pyerr + string) \<times> store" where
  "governance_run_id thread_id s =
     (let run_id = governance_run_name thread_id in
      if get_run s run_id \<noteq> None then (Inr run_id, s)
      else case create_run s thread_id (Some run_id) RUN_STATUS_COMPLETED None None of
        (Inr row, s) \<Rightarrow> (Inr run_id, s)
      | (Inl (ActiveRunExistsError t r), s) \<Rightarrow>
          (case last_row (list_runs s thread_id) of
             Some row \<Rightarrow> (Inr (if rn_id row = [] then run_id else rn_id row), s)
           | None \<Rightarrow> (Inl (ActiveRunExistsError t r), s))
      | (Inl e, s) \<Rightarrow> (Inl e, s))"

definition append_governance :: "memory_item \<Rightarrow> string \<Rightarrow> dict \<Rightarrow> memory_state \<Rightarrow> (pyerr + event_row) \<times> memory_state" where
  "append_governance i event_type payload st =
     (let thread_id = governance_thread i in
      case governance_run_id thread_id (ms_store st) of
        (Inl e, s) \<Rightarrow> (Inl e, st\<lparr>ms_store := s\<rparr>)
      | (Inr run_id, s) \<Rightarrow>
          (case append_event s thread_id run_id event_type payload of (e, s) \<Rightarrow> (Inr e, st\<lparr>ms_store := s\<rparr>)))"

definition record_governance ::
    "memory_env \<Rightarrow> string \<Rightarrow> memory_item \<Rightarrow> governance_args \<Rightarrow> time option \<Rightarrow> memory_state \<Rightarrow>
     (pyerr + event_row) \<times> memory_state" where
  "record_governance x event_type i a at_time st =
     (case (case at_time of Some t \<Rightarrow> (t, st) | None \<Rightarrow> memory_now st) of
        (event_at, st) \<Rightarrow> append_governance i event_type (memory_governance_payload x i a event_at) st)"

section \<open>Operations of the manager\<close>

definition owner :: "memory_state \<Rightarrow> string \<Rightarrow> string" where
  "owner st thread_id = get_user_id (ms_store st) thread_id"

definition owned :: "memory_state \<Rightarrow> string option \<Rightarrow> memory_item option \<Rightarrow> bool" where
  "owned st thread_id i = (case thread_id of
       None \<Rightarrow> True
     | Some t \<Rightarrow> (case i of Some i \<Rightarrow> mi_user_id i = owner st t | None \<Rightarrow> False))"

type_synonym item_answer = "(pyerr + dict option) \<times> memory_state"

definition answer_with :: "memory_env \<Rightarrow> memory_item \<Rightarrow> (pyerr + event_row) \<times> memory_state \<Rightarrow> item_answer" where
  "answer_with x i r = (case r of
       (Inl e, st) \<Rightarrow> (Inl e, st)
     | (Inr e, st) \<Rightarrow> (Inr (Some (memory_item_dict x i)), st))"

definition confirm_memory_item :: "memory_env \<Rightarrow> string \<Rightarrow> string option \<Rightarrow> memory_state \<Rightarrow> item_answer" where
  "confirm_memory_item x item_id thread_id st =
     (if \<not> owned st thread_id (get_item st item_id) then (Inr None, st)
      else case confirm_item item_id st of
        (None, st) \<Rightarrow> (Inr None, st)
      | (Some confirmed, st) \<Rightarrow> answer_with x confirmed
          (record_governance x ''memory_item_confirmed'' confirmed
             \<lparr>gv_action = ''confirmed'', gv_reason = ''confirmed'', gv_actor = ''user'', gv_content_redacted = False,
              gv_embedding_removed = False\<rparr> None st))"

definition rejected_entry :: "memory_env \<Rightarrow> string \<Rightarrow> time \<Rightarrow> dict" where
  "rejected_entry x reason now = [(''action'', PStr ''rejected''), (''reason'', PStr reason), (''at'', PStr (me_iso x now))]"

definition reject_memory_item :: "memory_env \<Rightarrow> string \<Rightarrow> string option \<Rightarrow> string \<Rightarrow> memory_state \<Rightarrow> item_answer" where
  "reject_memory_item x item_id thread_id reason st =
     (if get_item st item_id = None \<or> \<not> owned st thread_id (get_item st item_id) then (Inr None, st)
      else case memory_now st of (now, st) \<Rightarrow>
        (let st = deprecate item_id (Some (rejected_entry x reason now)) st in
         case get_item st item_id of
           None \<Rightarrow> (Inr None, st)
         | Some rejected \<Rightarrow> answer_with x rejected
             (record_governance x ''memory_item_rejected'' rejected
                \<lparr>gv_action = ''rejected'', gv_reason = reason, gv_actor = ''user'', gv_content_redacted = False,
                 gv_embedding_removed = False\<rparr> None st)))"

definition deleted_entry :: "memory_env \<Rightarrow> string \<Rightarrow> string \<Rightarrow> time \<Rightarrow> dict" where
  "deleted_entry x reason actor now =
     [(''action'', PStr ''deleted''), (''reason'', PStr reason), (''at'', PStr (me_iso x now)), (''actor'', PStr actor),
      (''content_redacted'', PBool True), (''embedding_removed'', PBool True)]"

definition delete_memory_item :: "memory_env \<Rightarrow> string \<Rightarrow> string \<Rightarrow> string \<Rightarrow> string \<Rightarrow> memory_state \<Rightarrow> item_answer" where
  "delete_memory_item x item_id thread_id reason actor st =
     (if \<not> owned st (Some thread_id) (get_item st item_id) then (Inr None, st)
      else case memory_now st of (deleted_at, st) \<Rightarrow>
        (case delete_with_tombstone x item_id (Some (deleted_entry x reason actor deleted_at)) st of
           (None, st) \<Rightarrow> (Inr None, st)
         | (Some deleted, st) \<Rightarrow>
             (case record_governance x ''memory_item_deleted'' deleted
                 \<lparr>gv_action = ''deleted'', gv_reason = reason, gv_actor = actor, gv_content_redacted = True,
                  gv_embedding_removed = True\<rparr> (Some deleted_at) st of
                (Inl e, st) \<Rightarrow> (Inl e, st)
              | (Inr event, st) \<Rightarrow> answer_with x deleted
                  (append_governance deleted ''memory_item_delete_proof''
                     (delete_proof_payload x deleted reason actor deleted_at (ev_id event)) st))))"

definition latest_memory_delete_proof :: "string \<Rightarrow> string \<Rightarrow> memory_state \<Rightarrow> dict option" where
  "latest_memory_delete_proof thread_id item_id st =
     map_option payload_of (find_last (\<lambda>e. ev_type e = ''memory_item_delete_proof''
         \<and> str_or (dget (payload_of e) ''item_id'') = item_id
         \<and> str_or (dget (payload_of e) ''user_id'') = owner st thread_id)
       (list_events (ms_store st) thread_id None None None))"

fun scope_of_value :: "string \<Rightarrow> memory_scope option" where
  "scope_of_value s =
     (if s = ''user'' then Some USER else if s = ''session'' then Some SESSION else if s = ''global'' then Some GLOBAL
      else None)"

definition list_memory_items ::
    "memory_env \<Rightarrow> string \<Rightarrow> string \<Rightarrow> string option \<Rightarrow> int \<Rightarrow> memory_state \<Rightarrow> (pyerr + dict list) \<times> memory_state" where
  "list_memory_items x thread_id status scope max_rows st =
     (let scope = text_or_none scope in
      if (case scope of Some s \<Rightarrow> scope_of_value s = None | None \<Rightarrow> False) then (Inl (ValueError (the scope)), st)
      else case list_items (owner st thread_id) (Some thread_id) status
          (map_option (\<lambda>s. [the (scope_of_value s)]) scope) max_rows st of
        (Inl e, st) \<Rightarrow> (Inl e, st)
      | (Inr items, st) \<Rightarrow> (Inr (map (sanitize_memory_item x) items), st))"

section \<open>The read model\<close>

definition MEMORY_GOVERNANCE_EVENTS :: "string list" where
  "MEMORY_GOVERNANCE_EVENTS =
     [''memory_item_confirmed'', ''memory_item_rejected'', ''memory_item_deleted'', ''memory_item_delete_proof'']"

definition BLOCKED_GOVERNANCE_KEYS :: "string list" where
  "BLOCKED_GOVERNANCE_KEYS = [''content'', ''raw_prompt'', ''prompt'', ''request_body'', ''response_body'',
     ''raw_response'', ''secret'', ''cookie'', ''embedding'', ''embedding_json'']"

definition sanitize_governance_payload :: "dict \<Rightarrow> dict" where
  "sanitize_governance_payload payload = filter (\<lambda>(k, v). lower k \<notin> set BLOCKED_GOVERNANCE_KEYS) payload"

definition governance_item :: "memory_env \<Rightarrow> event_row \<Rightarrow> dict" where
  "governance_item x e =
     [(''event_id'', PInt (ev_id e)), (''event_type'', PStr (ev_type e)), (''created_at'', PStr (me_iso x (ev_created_at e))),
      (''payload'', PDict (sanitize_governance_payload (payload_of e)))]"

record governance_model =
  gm_events :: "dict list"
  gm_summary :: dict
  gm_latest_delete_proof :: "dict option"

definition governance_count :: "event_row list \<Rightarrow> string \<Rightarrow> pyval" where
  "governance_count evs kind = PInt (int (length (filter (\<lambda>e. ev_type e = kind) evs)))"

definition build_memory_governance_read_model :: "memory_env \<Rightarrow> event_row list \<Rightarrow> governance_model" where
  "build_memory_governance_read_model x evs =
     (let kept = filter (\<lambda>e. ev_type e \<in> set MEMORY_GOVERNANCE_EVENTS) evs in
      \<lparr>gm_events = map (governance_item x) kept,
       gm_summary = [(''total'', PInt (int (length kept))), (''confirmed'', governance_count kept ''memory_item_confirmed''),
         (''rejected'', governance_count kept ''memory_item_rejected''), (''deleted'', governance_count kept ''memory_item_deleted''),
         (''delete_proof'', governance_count kept ''memory_item_delete_proof'')],
       gm_latest_delete_proof = map_option (\<lambda>e. sanitize_governance_payload (payload_of e))
         (find_last (\<lambda>e. ev_type e = ''memory_item_delete_proof'') kept)\<rparr>)"

end
