(* ===== verification/MemoryTable.thy ===== *)
theory MemoryTable
  imports MemoryWriter MemoryGovernance
begin

text \<open>
  The long-term memory as an abstract table with six transitions, and the proof that every operation of the
  store, the writer and the manager is a sequence of them, next to a sequence of transactions of the event
  store. A transition is labelled with the user whose rows it may change, the ids that were confirmed and
  the ids that may still be given out.
\<close>

section \<open>Transitions of the table\<close>

definition dep_row :: "time \<Rightarrow> dict list \<Rightarrow> memory_item \<Rightarrow> memory_item" where
  "dep_row now h r =
     overwrite ((row_to_memory_item r)\<lparr>mi_is_deprecated := True, mi_updated_at := now, mi_history := mi_history r @ h\<rparr>) r"

definition tomb_row :: "memory_env \<Rightarrow> time \<Rightarrow> dict list \<Rightarrow> memory_item \<Rightarrow> memory_item" where
  "tomb_row x now h r =
     overwrite ((row_to_memory_item r)\<lparr>mi_content := DELETED_MEMORY_CONTENT,
       mi_content_hash := content_hash x DELETED_MEMORY_CONTENT, mi_importance := 0, mi_confidence := 0,
       mi_is_deprecated := True, mi_pending_confirmation := False, mi_updated_at := now,
       mi_history := mi_history r @ h, mi_embedding := None\<rparr>) r"

definition confirm_row :: "time \<Rightarrow> memory_item \<Rightarrow> memory_item" where
  "confirm_row now r =
     overwrite ((row_to_memory_item r)\<lparr>mi_confidence := max (mi_confidence r) (85 / 100), mi_is_deprecated := False,
       mi_pending_confirmation := False, mi_updated_at := now\<rparr>) r"

definition touch_row :: "time \<Rightarrow> memory_item \<Rightarrow> memory_item" where
  "touch_row now r =
     r\<lparr>mi_access_count := mi_access_count r + 1, mi_last_accessed_at := Some now, mi_updated_at := now\<rparr>"

definition expired_at :: "time \<Rightarrow> memory_item \<Rightarrow> bool" where
  "expired_at now r \<longleftrightarrow> (case mi_expires_at r of Some t \<Rightarrow> t \<le> now | None \<Rightarrow> False)"

definition rows_of_user :: "string \<Rightarrow> string \<Rightarrow> memory_item list \<Rightarrow> bool" where
  "rows_of_user u i t \<longleftrightarrow> (\<forall>r \<in> set t. mi_id r = i \<longrightarrow> mi_user_id r = u)"

text \<open>The ids the source has left to give out, and the readings left of the clock.\<close>

definition fresh_ids :: "store \<Rightarrow> string set" where
  "fresh_ids s = {''mem_'' @ take 12 (filter (\<lambda>c. c \<noteq> CHR ''-'') (uuids s n)) | n. uuid_pos s \<le> n}"

definition future :: "store \<Rightarrow> time set" where
  "future s = {clock s n | n. ticks s \<le> n}"

inductive table_step ::
    "memory_env \<Rightarrow> string \<Rightarrow> string set \<Rightarrow> store \<Rightarrow> memory_item list \<Rightarrow> memory_item list \<Rightarrow> bool"
  for x u cs s where
  deprecated: "rows_of_user u i t \<Longrightarrow> table_step x u cs s t (update_where (\<lambda>r. mi_id r = i) (dep_row now h) t)"
| erased: "rows_of_user u i t \<Longrightarrow> table_step x u cs s t (update_where (\<lambda>r. mi_id r = i) (tomb_row x now h) t)"
| confirmed: "rows_of_user u i t \<Longrightarrow> i \<in> cs \<Longrightarrow>
    table_step x u cs s t (update_where (\<lambda>r. mi_id r = i) (confirm_row now) t)"
| touched: "\<forall>i \<in> set is. rows_of_user u i t \<Longrightarrow>
    table_step x u cs s t (update_where (\<lambda>r. mi_id r \<in> set is) (touch_row now) t)"
| expired: "now \<in> future s \<Longrightarrow> table_step x u cs s t (filter (\<lambda>r. \<not> expired_at now r) t)"
| inserted: "mi_user_id i = u \<Longrightarrow> mi_id i \<in> fresh_ids s \<Longrightarrow> mi_id i \<notin> mi_id ` set t \<Longrightarrow> table_step x u cs s t (t @ [i])"

lemma row_keeps [simp]:
  "mi_id (dep_row now h r) = mi_id r" "mi_id (tomb_row x now h r) = mi_id r" "mi_id (confirm_row now r) = mi_id r"
  "mi_id (touch_row now r) = mi_id r"
  "mi_user_id (dep_row now h r) = mi_user_id r" "mi_user_id (tomb_row x now h r) = mi_user_id r"
  "mi_user_id (confirm_row now r) = mi_user_id r" "mi_user_id (touch_row now r) = mi_user_id r"
  by (simp_all add: dep_row_def tomb_row_def confirm_row_def touch_row_def overwrite_def row_to_memory_item_def)

abbreviation distinct_ids :: "memory_item list \<Rightarrow> bool" where
  "distinct_ids t \<equiv> distinct (map mi_id t)"

lemma table_step_distinct: "table_step x u cs s t t' \<Longrightarrow> distinct_ids t \<Longrightarrow> distinct_ids t'"
  by (induction rule: table_step.induct) (auto simp: map_update_where distinct_map_filter)

lemma table_steps_distinct: "(table_step x u cs s)\<^sup>*\<^sup>* t t' \<Longrightarrow> distinct_ids t \<Longrightarrow> distinct_ids t'"
  by (induction rule: rtranclp_induct) (auto dest: table_step_distinct)

lemma table_step_mono:
  assumes "table_step x u cs s t t'" and "cs \<subseteq> cs'" and "fresh_ids s \<subseteq> fresh_ids s'" and "future s \<subseteq> future s'"
  shows "table_step x u cs' s' t t'"
  using assms(1)
  by (cases rule: table_step.cases) (use assms(2-4) in \<open>auto intro: table_step.intros\<close>)

lemma table_steps_mono:
  "(table_step x u cs s)\<^sup>*\<^sup>* t t' \<Longrightarrow> cs \<subseteq> cs' \<Longrightarrow> fresh_ids s \<subseteq> fresh_ids s' \<Longrightarrow> future s \<subseteq> future s' \<Longrightarrow>
   (table_step x u cs' s')\<^sup>*\<^sup>* t t'"
  by (induction rule: rtranclp_induct) (auto intro: rtranclp.rtrancl_into_rtrancl table_step_mono)

section \<open>Steps of the memory\<close>

definition ids_kept :: "store \<Rightarrow> store \<Rightarrow> bool" where
  "ids_kept s s' \<longleftrightarrow>
     uuids s' = uuids s \<and> uuid_pos s \<le> uuid_pos s' \<and> clock s' = clock s \<and> ticks s \<le> ticks s'"

lemma ids_kept_same: "uuids s' = uuids s \<Longrightarrow> uuid_pos s' = uuid_pos s \<Longrightarrow> clock s' = clock s \<Longrightarrow> ticks s \<le> ticks s' \<Longrightarrow> ids_kept s s'"
  by (simp add: ids_kept_def)

lemma create_txn_ids:
  "uuids (snd (create_run_txn s now tid rid st k h)) = uuids s"
  "uuid_pos (snd (create_run_txn s now tid rid st k h)) = uuid_pos s"
  "clock (snd (create_run_txn s now tid rid st k h)) = clock s" "ticks (snd (create_run_txn s now tid rid st k h)) = ticks s"
  by (simp_all add: create_run_txn_def create_run_thread_def insert_run_def Let_def split: option.split)

lemma create_ids: "ids_kept s (snd (create_run s tid rid st k h))"
proof (cases "validate_run_status st")
  case (Inr v)
  obtain r s1 where e: "(case rid of Some r \<Rightarrow> if r = [] then uuid4 s else (r, s) | None \<Rightarrow> uuid4 s) = (r, s1)" by fastforce
  then have "ids_kept s s1" by (auto simp: uuid4_def ids_kept_def split: option.splits if_splits)
  then show ?thesis
    by (simp add: create_run_def Inr e Let_def utc_now_iso_def ids_kept_def create_txn_ids)
qed (simp add: create_run_def ids_kept_def)

lemma status_ids: "ids_kept s (snd (update_run_status s rid st err cpl))"
  by (rule ids_kept_same) (simp_all add: update_run_status_def utc_now_iso_def Let_def split: sum.split option.split)

lemma store_step_ids: "store_step s s' \<Longrightarrow> ids_kept s s'"
proof (induction rule: store_step.induct)
  case (ensure s tid title uid)
  show ?case
    by (rule ids_kept_same) (simp_all add: ensure_thread_def utc_now_iso_def Let_def split: option.split)
next
  case (complete s rid err)
  show ?case using status_ids by (simp add: complete_run_def Let_def)
next
  case (fail_all s err ex)
  show ?case
    by (rule ids_kept_same) (simp_all add: fail_non_terminal_runs_def utc_now_iso_def Let_def)
next
  case (end_idle s ttl lim)
  show ?case
    by (rule ids_kept_same)
      (simp_all add: end_idle_threads_older_than_def end_idle_threads_before_def utc_iso_before_def utc_now_iso_def Let_def)
next
  case (archive_ended s ttl lim)
  show ?case
    by (rule ids_kept_same)
      (simp_all add: archive_ended_threads_older_than_def archive_ended_threads_before_def utc_iso_before_def utc_now_iso_def Let_def)
next
  case (insert s tid rid ty p)
  show ?case by (rule ids_kept_same) (simp_all add: append_insert_def notify_def utc_now_iso_def Let_def)
next
  case (recovered s rid reason)
  show ?case by (rule ids_kept_same) (simp_all add: mark_run_recovered_def utc_now_iso_def Let_def)
next
  case (list_idle s ttl lim)
  show ?case
    by (rule ids_kept_same) (simp_all add: list_idle_active_threads_older_than_def utc_iso_before_def utc_now_iso_def)
next
  case (create s tid rid st key hash)
  show ?case by (rule create_ids)
next
  case (update s rid st err cpl)
  show ?case by (rule status_ids)
qed (simp_all add: ids_kept_def touch_thread_def end_thread_def archive_thread_def uuid4_def
  subscribe_def unsubscribe_def utc_now_iso_def Let_def)

lemma store_steps_ids: "store_step\<^sup>*\<^sup>* s s' \<Longrightarrow> ids_kept s s'"
  by (induction rule: rtranclp_induct) (auto simp: ids_kept_def dest: store_step_ids [unfolded ids_kept_def])

lemma fresh_ids_mono: "store_step\<^sup>*\<^sup>* s s' \<Longrightarrow> fresh_ids s' \<subseteq> fresh_ids s"
  using store_steps_ids [of s s'] by (fastforce simp: fresh_ids_def ids_kept_def)

lemma future_mono: "store_step\<^sup>*\<^sup>* s s' \<Longrightarrow> future s' \<subseteq> future s"
  using store_steps_ids [of s s'] by (fastforce simp: future_def ids_kept_def)

definition memory_steps :: "memory_env \<Rightarrow> string \<Rightarrow> string set \<Rightarrow> memory_state \<Rightarrow> memory_state \<Rightarrow> bool" where
  "memory_steps x u cs st st' \<longleftrightarrow>
     store_step\<^sup>*\<^sup>* (ms_store st) (ms_store st')
     \<and> (table_step x u cs (ms_store st))\<^sup>*\<^sup>* (ms_items st) (ms_items st')"

lemma memory_steps_refl [simp, intro]: "memory_steps x u cs st st"
  by (simp add: memory_steps_def)

lemma memory_steps_trans:
  assumes "memory_steps x u cs a b" and "memory_steps x u cs b c"
  shows "memory_steps x u cs a c"
  using assms table_steps_mono [of x u cs "ms_store b" "ms_items b" "ms_items c" cs "ms_store a"]
    fresh_ids_mono [of "ms_store a" "ms_store b"] future_mono [of "ms_store a" "ms_store b"]
  by (auto simp: memory_steps_def intro: rtranclp_trans)

lemma memory_steps_mono: "memory_steps x u cs a b \<Longrightarrow> cs \<subseteq> cs' \<Longrightarrow> memory_steps x u cs' a b"
  by (auto simp: memory_steps_def intro: table_steps_mono)

lemma memory_steps_distinct: "memory_steps x u cs a b \<Longrightarrow> distinct_ids (ms_items a) \<Longrightarrow> distinct_ids (ms_items b)"
  by (auto simp: memory_steps_def dest: table_steps_distinct)

lemma memory_steps_store:
  "store_step\<^sup>*\<^sup>* (ms_store a) (ms_store b) \<Longrightarrow> ms_items b = ms_items a \<Longrightarrow> memory_steps x u cs a b"
  by (simp add: memory_steps_def)

lemma memory_steps_table:
  "table_step x u cs (ms_store a) (ms_items a) (ms_items b) \<Longrightarrow> ms_store b = ms_store a \<Longrightarrow>
   memory_steps x u cs a b"
  by (simp add: memory_steps_def r_into_rtranclp)

subsection \<open>Clock and ids\<close>

lemma tick_step: "store_step s (s\<lparr>ticks := Suc (ticks s)\<rparr>)"
proof -
  have "snd (list_idle_active_threads_older_than s 0 0) = s\<lparr>ticks := Suc (ticks s)\<rparr>"
    by (simp add: list_idle_active_threads_older_than_def utc_iso_before_def utc_now_iso_def)
  then show ?thesis by (metis store_step.list_idle)
qed

lemma memory_now_eq: "memory_now st = (clock (ms_store st) (ticks (ms_store st)),
    st\<lparr>ms_store := (ms_store st)\<lparr>ticks := Suc (ticks (ms_store st))\<rparr>\<rparr>)"
  by (simp add: memory_now_def utc_now_iso_def)

lemma memory_now_items: "ms_items (snd (memory_now st)) = ms_items st"
  by (simp add: memory_now_eq)

lemma memory_now_steps: "memory_now st = (now, st') \<Longrightarrow> memory_steps x u cs st st' \<and> ms_items st' = ms_items st"
  using tick_step [of "ms_store st"] by (auto simp: memory_now_eq intro!: memory_steps_store)

lemma memory_now_future: "memory_now st = (now, st') \<Longrightarrow> now \<in> future (ms_store st)"
  by (auto simp: memory_now_eq future_def)

lemma new_item_id_steps:
  assumes "new_item_id st = (i, st')"
  shows "memory_steps x u cs st st'" "ms_items st' = ms_items st" "i \<in> fresh_ids (ms_store st)"
proof -
  have "store_step (ms_store st) (ms_store st')"
    using assms store_step.uuid [of "ms_store st"] by (auto simp: new_item_id_def uuid4_def)
  moreover show "ms_items st' = ms_items st" "i \<in> fresh_ids (ms_store st)"
    using assms by (auto simp: new_item_id_def uuid4_def fresh_ids_def)
  ultimately show "memory_steps x u cs st st'" by (auto intro: memory_steps_store)
qed

subsection \<open>Operations of the item store\<close>

lemma update_item_eq:
  assumes "distinct_ids (ms_items st)" and "find (\<lambda>r. mi_id r = i) (ms_items st) = Some r0"
    and "mi_id (g (row_to_memory_item r0)) = i" and "ms_items st' = ms_items st"
  shows "ms_items (update_item (g (row_to_memory_item r0)) st') =
    update_where (\<lambda>r. mi_id r = i) (\<lambda>r. overwrite (g (row_to_memory_item r)) r) (ms_items st')"
proof -
  have r0: "r0 \<in> set (ms_items st)" "mi_id r0 = i" using find_SomeD [OF assms(2)] by auto
  have same: "r = r0" if "r \<in> set (ms_items st)" "mi_id r = i" for r
    using assms(1) that r0 by (metis distinct_map inj_onD)
  show ?thesis
    by (simp add: update_item_def update_where_def assms(3,4)) (use same in blast)
qed

lemma absent_update: "find (\<lambda>r. mi_id r = i) t = None \<Longrightarrow> update_where (\<lambda>r. mi_id r = i) f t = t"
  by (auto simp: update_where_def find_None_iff intro!: map_idI)

lemma deprecate_eq:
  assumes "distinct_ids (ms_items st)"
  shows "\<exists>now h'. ms_items (deprecate i h st) = update_where (\<lambda>r. mi_id r = i) (dep_row now h') (ms_items st)"
    and "store_step\<^sup>*\<^sup>* (ms_store st) (ms_store (deprecate i h st))"
proof -
  define h' where "h' = (case h of Some h \<Rightarrow> if h = [] then [] else [h] | None \<Rightarrow> [])"
  obtain now st1 where n: "memory_now st = (now, st1)" by (metis prod.exhaust)
  have st1: "ms_items st1 = ms_items st" "store_step\<^sup>*\<^sup>* (ms_store st) (ms_store st1)"
    using memory_now_steps [OF n] by (auto simp: memory_steps_def)
  let ?g = "\<lambda>row. row\<lparr>mi_is_deprecated := True, mi_updated_at := now, mi_history := mi_history row @ h'\<rparr>"
  have g: "overwrite (?g (row_to_memory_item r)) r = dep_row now h' r" for r
    by (simp add: dep_row_def row_to_memory_item_def)
  show "\<exists>now h'. ms_items (deprecate i h st) = update_where (\<lambda>r. mi_id r = i) (dep_row now h') (ms_items st)"
  proof (cases "find (\<lambda>r. mi_id r = i) (ms_items st)")
    case None
    then show ?thesis by (simp add: deprecate_def get_item_def absent_update)
  next
    case (Some r0)
    have "mi_id (?g (row_to_memory_item r0)) = i" using find_SomeD [OF Some] by (simp add: row_to_memory_item_def)
    from update_item_eq [OF assms Some, where g = ?g, OF this st1(1)]
    show ?thesis by (auto simp: deprecate_def get_item_def Some n h'_def [symmetric] g st1(1) intro!: exI)
  qed
  show "store_step\<^sup>*\<^sup>* (ms_store st) (ms_store (deprecate i h st))"
    using st1(2) by (simp add: deprecate_def n update_item_def split: option.split)
qed

lemma deprecate_steps:
  assumes "distinct_ids (ms_items st)" and "rows_of_user u i (ms_items st)"
  shows "memory_steps x u cs st (deprecate i h st)"
proof -
  obtain now h' where "ms_items (deprecate i h st) = update_where (\<lambda>r. mi_id r = i) (dep_row now h') (ms_items st)"
    using deprecate_eq(1) [OF assms(1)] by blast
  then show ?thesis
    using deprecate_eq(2) [OF assms(1)] table_step.deprecated [OF assms(2)] by (simp add: memory_steps_def r_into_rtranclp)
qed

lemma tombstone_steps:
  assumes "distinct_ids (ms_items st)" and "rows_of_user u i (ms_items st)"
    and "delete_with_tombstone x i (Some h) st = (d, st')"
  shows "memory_steps x u cs st st'"
proof (cases "find (\<lambda>r. mi_id r = i) (ms_items st)")
  case None
  then show ?thesis using assms(3) by (simp add: delete_with_tombstone_def get_item_def)
next
  case (Some r0)
  define h' where "h' = (if h = [] then [] else [h])"
  obtain now st1 where n: "memory_now st = (now, st1)" by (metis prod.exhaust)
  have st1: "ms_items st1 = ms_items st" "store_step\<^sup>*\<^sup>* (ms_store st) (ms_store st1)"
    using memory_now_steps [OF n] by (auto simp: memory_steps_def)
  let ?g = "\<lambda>row. row\<lparr>mi_content := DELETED_MEMORY_CONTENT, mi_content_hash := content_hash x DELETED_MEMORY_CONTENT,
       mi_importance := 0, mi_confidence := 0, mi_is_deprecated := True, mi_pending_confirmation := False,
       mi_updated_at := now, mi_history := mi_history row @ h', mi_embedding := None\<rparr>"
  have g: "overwrite (?g (row_to_memory_item r)) r = tomb_row x now h' r" for r
    by (simp add: tomb_row_def row_to_memory_item_def)
  have i: "mi_id (?g (row_to_memory_item r0)) = i" using find_SomeD [OF Some] by (simp add: row_to_memory_item_def)
  have st': "st' = update_item (?g (row_to_memory_item r0)) st1"
    using assms(3) by (auto simp: delete_with_tombstone_def get_item_def Some n h'_def Let_def)
  have "ms_items st' = update_where (\<lambda>r. mi_id r = i) (tomb_row x now h') (ms_items st)"
    using update_item_eq [OF assms(1) Some, where g = ?g, OF i st1(1)] by (simp only: st' g st1(1))
  moreover have "ms_store st' = ms_store st1" by (simp add: st' update_item_def)
  ultimately show ?thesis
    using st1(2) table_step.erased [OF assms(2)] by (simp add: memory_steps_def r_into_rtranclp)
qed

lemma confirm_steps:
  assumes "distinct_ids (ms_items st)" and "rows_of_user u i (ms_items st)" and "confirm_item i st = (d, st')" and "i \<in> cs"
  shows "memory_steps x u cs st st'"
proof (cases "find (\<lambda>r. mi_id r = i) (ms_items st)")
  case None
  then show ?thesis using assms(3) by (simp add: confirm_item_def get_item_def)
next
  case (Some r0)
  obtain now st1 where n: "memory_now st = (now, st1)" by (metis prod.exhaust)
  have st1: "ms_items st1 = ms_items st" "store_step\<^sup>*\<^sup>* (ms_store st) (ms_store st1)"
    using memory_now_steps [OF n] by (auto simp: memory_steps_def)
  let ?g = "\<lambda>row. row\<lparr>mi_confidence := max (mi_confidence row) (85 / 100), mi_is_deprecated := False,
       mi_pending_confirmation := False, mi_updated_at := now\<rparr>"
  have g: "overwrite (?g (row_to_memory_item r)) r = confirm_row now r" for r
    by (simp add: confirm_row_def row_to_memory_item_def)
  have i: "mi_id (?g (row_to_memory_item r0)) = i" using find_SomeD [OF Some] by (simp add: row_to_memory_item_def)
  have st': "st' = update_item (?g (row_to_memory_item r0)) st1"
    using assms(3) by (auto simp: confirm_item_def get_item_def Some n Let_def)
  have "ms_items st' = update_where (\<lambda>r. mi_id r = i) (confirm_row now) (ms_items st)"
    using update_item_eq [OF assms(1) Some, where g = ?g, OF i st1(1)] by (simp only: st' g st1(1))
  moreover have "ms_store st' = ms_store st1" by (simp add: st' update_item_def)
  ultimately show ?thesis
    using st1(2) table_step.confirmed [OF assms(2,4)] by (simp add: memory_steps_def r_into_rtranclp)
qed

lemma expired_steps:
  assumes "delete_expired st = (n, st')"
  shows "memory_steps x u cs st st'"
proof -
  obtain now st1 where m: "memory_now st = (now, st1)" by (metis prod.exhaust)
  have "ms_items st' = filter (\<lambda>r. \<not> expired_at now r) (ms_items st)" "ms_store st' = ms_store st1"
    using assms memory_now_items [of st] m by (auto simp: delete_expired_def expired_at_def)
  then show ?thesis
    using memory_now_steps [OF m, of x u cs] memory_now_future [OF m]
    by (simp add: memory_steps_def r_into_rtranclp table_step.expired)
qed

lemma touch_steps:
  assumes "\<forall>i \<in> set is. rows_of_user u i (ms_items st)"
  shows "memory_steps x u cs st (touch_access is st)"
proof (cases "is = []")
  case False
  obtain now st1 where m: "memory_now st = (now, st1)" by (metis prod.exhaust)
  have st1: "ms_items st1 = ms_items st" using memory_now_steps [OF m] by blast
  have "ms_items (touch_access is st) = update_where (\<lambda>r. mi_id r \<in> set is) (touch_row now) (ms_items st)"
    using False by (simp add: touch_access_def m st1 touch_row_def [abs_def])
  then show ?thesis
    using memory_now_steps [OF m, of x u cs] table_step.touched [OF assms] False
    by (simp add: memory_steps_def r_into_rtranclp touch_access_def m)
qed (simp add: touch_access_def)

lemma insert_steps:
  assumes "insert_item i st = (r, st')" and "mi_user_id i = u" and "mi_id i \<in> fresh_ids s0"
  shows "store_step\<^sup>*\<^sup>* (ms_store st) (ms_store st')" and "(table_step x u cs s0)\<^sup>*\<^sup>* (ms_items st) (ms_items st')"
  using assms table_step.inserted [of "i\<lparr>mi_embedding := encode_embedding i\<rparr>" u s0 "ms_items st" x cs]
  by (auto simp: insert_item_def split: if_splits)

subsection \<open>The writer\<close>

lemma expires_steps: "expires_at_iso ttl st = (e, st') \<Longrightarrow> memory_steps x u cs st st' \<and> ms_items st' = ms_items st"
  by (auto simp: expires_at_iso_def split: option.splits if_splits prod.splits dest: memory_now_steps)

lemma item_of_steps:
  assumes "item_of x user t c now old pend h st = (i, st')"
  shows "memory_steps x u cs st st'" "ms_items st' = ms_items st" "mi_user_id i = user"
    "mi_id i \<in> fresh_ids (ms_store st)"
proof -
  obtain n st1 where n: "new_item_id st = (n, st1)" by (metis prod.exhaust)
  obtain e st2 where e: "expires_at_iso (cd_ttl_days c) st1 = (e, st2)" by (metis prod.exhaust)
  have r: "st' = st2" "mi_user_id i = user" "mi_id i = n"
    using assms by (auto simp: item_of_def Let_def n e)
  show "mi_user_id i = user" "mi_id i \<in> fresh_ids (ms_store st)" using r new_item_id_steps [OF n] by simp_all
  show "ms_items st' = ms_items st" using r new_item_id_steps [OF n] expires_steps [OF e] by simp
  show "memory_steps x u cs st st'"
    using memory_steps_trans [OF new_item_id_steps(1) [OF n] conjunct1 [OF expires_steps [OF e]]] r(1) by simp
qed

lemma store_new_steps:
  assumes "store_new action old reason (item_of x u t c now o' pend h st) = (r, st')"
  shows "memory_steps x u cs st st'"
proof -
  obtain i st1 where i: "item_of x u t c now o' pend h st = (i, st1)" by (metis prod.exhaust)
  obtain r1 st2 where r1: "insert_item i st1 = (r1, st2)" by (metis prod.exhaust)
  have "st' = st2" using assms by (auto simp: store_new_def i r1 split: sum.splits)
  then show ?thesis
    using item_of_steps [OF i] insert_steps(1) [OF r1] insert_steps(2) [OF r1, of u "ms_store st" x cs]
    by (auto simp: memory_steps_def intro: rtranclp_trans)
qed

lemma listed_rows:
  assumes "list_active u t sc ip st = (is, st')"
  shows "memory_steps x v cs st st'" "ms_items st' = ms_items st"
    "\<forall>i \<in> set is. \<exists>r \<in> set (ms_items st). i = row_to_memory_item r \<and> mi_user_id r = u \<and> \<not> mi_is_deprecated r
       \<and> (ip \<or> \<not> mi_pending_confirmation r) \<and> in_scopes sc r \<and> in_thread t r"
proof -
  obtain now st1 where n: "memory_now st = (now, st1)" by (metis prod.exhaust)
  have "st' = st1" using assms by (auto simp: list_active_def Let_def n)
  then show "memory_steps x v cs st st'" "ms_items st' = ms_items st" using memory_now_steps [OF n] by auto
  show "\<forall>i \<in> set is. \<exists>r \<in> set (ms_items st). i = row_to_memory_item r \<and> mi_user_id r = u \<and> \<not> mi_is_deprecated r
       \<and> (ip \<or> \<not> mi_pending_confirmation r) \<and> in_scopes sc r \<and> in_thread t r"
    using assms by (auto simp: list_active_def Let_def n by_recency_def)
qed

lemma row_of_member: "distinct_ids t \<Longrightarrow> r \<in> set t \<Longrightarrow> rows_of_user (mi_user_id r) (mi_id r) t"
  unfolding rows_of_user_def by (metis distinct_map inj_onD)

lemma row_to_memory_item_id [simp]: "mi_id (row_to_memory_item r) = mi_id r" "mi_user_id (row_to_memory_item r) = mi_user_id r"
  by (simp_all add: row_to_memory_item_def)

lemma replace_steps:
  assumes "replace_item x p u t c now old st = (r, st')" and "distinct_ids (ms_items st)"
    and "rows_of_user u (mi_id old) (ms_items st)"
  shows "memory_steps x u cs st st'"
proof (cases "contradiction_pending_reason p old (strip (cd_content c)) (similarity (mi_content old) (strip (cd_content c))) = []")
  case True
  let ?st1 = "deprecate (mi_id old) (Some (superseded_entry x now (strip (cd_content c)))) st"
  have "memory_steps x u cs ?st1 st'"
    using assms(1) True by (intro store_new_steps) (simp add: replace_item_def Let_def)
  then show ?thesis using memory_steps_trans deprecate_steps [OF assms(2,3)] by blast
next
  case False
  then show ?thesis using assms(1) by (intro store_new_steps) (simp add: replace_item_def Let_def)
qed

lemma upsert_steps:
  assumes "upsert_candidate x p u t c st = (r, st')" and "distinct_ids (ms_items st)"
  shows "memory_steps x u cs st st'"
proof (cases "strip (cd_content c) = [] \<or> cd_importance c < mo_importance_min p")
  case True
  then show ?thesis using assms(1) by (auto simp: upsert_candidate_def Let_def split: if_splits)
next
  case False
  obtain existing st1 where l: "list_active u (Some t) None False st = (existing, st1)" by (metis prod.exhaust)
  obtain now st2 where n: "memory_now st1 = (now, st2)" by (metis prod.exhaust)
  note st1 = listed_rows [OF l] note st2 = memory_now_steps [OF n]
  have old: "rows_of_user u (mi_id old) (ms_items st2)" if "old \<in> set existing" for old
    using st1(2,3) st2 that row_of_member [OF assms(2)] by fastforce
  have d: "distinct_ids (ms_items st2)" using st1(2) st2 assms(2) by auto
  let ?same = "find (\<lambda>i. mi_content_hash i = content_hash x (strip (cd_content c))) existing"
  have "st' = st1 \<or> memory_steps x u cs st2 st'"
  proof (cases "?same = None")
    case True
    let ?ins = "store_new ''insert'' None [] (item_of x u t c now None (cd_pending_confirmation c) [] st2)"
    consider "(r, st') = ?ins"
      | old where "old \<in> set existing" "(r, st') = replace_item x p u t c now old st2"
    proof (cases "similar_items p c existing")
      case Nil
      then show ?thesis using assms(1) False True that(1) by (simp add: upsert_candidate_def Let_def l n)
    next
      case (Cons old rest)
      then have "old \<in> set existing" using filter_is_subset unfolding similar_items_def by (metis list.set_intros(1) subsetD)
      then show ?thesis using assms(1) False True that Cons by (simp add: upsert_candidate_def Let_def l n split: if_splits)
    qed
    then show ?thesis
    proof cases
      case 1
      then show ?thesis using store_new_steps [OF 1 [symmetric]] by simp
    next
      case 2
      then show ?thesis using replace_steps [OF 2(2) [symmetric] d old [OF 2(1)]] by simp
    qed
  qed (use assms(1) False in \<open>auto simp: upsert_candidate_def Let_def l\<close>)
  then show ?thesis
    using st1(1) [of x u cs] st2 memory_steps_trans by metis
qed

lemma write_steps:
  "write_candidates x p u t outcome cs st = (r, st') \<Longrightarrow> distinct_ids (ms_items st) \<Longrightarrow> memory_steps x u ids st st'"
proof (induction cs arbitrary: r st st')
  case (Cons c cs)
  let ?up = "if conversion_skip_reason x p outcome c \<noteq> [] then (Inr (skip_result (conversion_skip_reason x p outcome c)), st)
     else upsert_candidate x p u t c st"
  obtain a st1 where a: "?up = (a, st1)" by (metis prod.exhaust)
  have s1: "memory_steps x u ids st st1"
    using a upsert_steps [OF _ Cons.prems(2)] by (auto split: if_splits)
  show ?case
  proof (cases a)
    case (Inl e)
    then show ?thesis using Cons.prems(1) a s1 by (simp add: Let_def)
  next
    case (Inr w)
    obtain b st2 where b: "write_candidates x p u t outcome cs st1 = (b, st2)" by (metis prod.exhaust)
    have "st' = st2" using Cons.prems(1) a Inr b by (auto simp: Let_def split: sum.splits)
    then show ?thesis
      using memory_steps_trans [OF s1] Cons.IH [OF b] memory_steps_distinct [OF s1 Cons.prems(2)] by simp
  qed
qed auto

lemma score_items_steps:
  "score_items x is st = (scored, st') \<Longrightarrow>
   memory_steps y u cs st st' \<and> ms_items st' = ms_items st \<and> map snd scored = is"
proof (induction "is" arbitrary: st scored st')
  case (Cons i "is")
  obtain now st1 where n: "memory_now st = (now, st1)" by (metis prod.exhaust)
  obtain sc st2 where s: "score_items x is st1 = (sc, st2)" by (metis prod.exhaust)
  show ?case
    using Cons.prems Cons.IH [OF s] memory_now_steps [OF n, of y u cs] memory_steps_trans [of y u cs st st1 st2]
    by (auto simp: n s)
qed auto

lemma evict_items_steps:
  "distinct_ids (ms_items st) \<Longrightarrow> \<forall>v \<in> set vs. rows_of_user u (mi_id (snd v)) (ms_items st) \<Longrightarrow>
   memory_steps x u cs st (evict_items y vs st)"
proof (induction vs arbitrary: st)
  case (Cons v vs)
  obtain score i where v: "v = (score, i)" by (metis prod.exhaust)
  obtain now st1 where n: "memory_now st = (now, st1)" by (metis prod.exhaust)
  note st1 = memory_now_steps [OF n]
  let ?st2 = "deprecate (mi_id i) (Some (evicted_entry y now score)) st1"
  have d1: "distinct_ids (ms_items st1)" using Cons.prems(1) st1 by simp
  have s2: "memory_steps x u cs st1 ?st2" using deprecate_steps [OF d1] Cons.prems(2) v st1 by simp
  have "rows_of_user u k (ms_items ?st2)" if "rows_of_user u k (ms_items st1)" for k
    using deprecate_eq(1) [OF d1, of "mi_id i" "Some (evicted_entry y now score)"] that
    by (auto simp: rows_of_user_def set_update_where)
  then have "memory_steps x u cs ?st2 (evict_items y vs ?st2)"
    using Cons.IH [of ?st2] memory_steps_distinct [OF s2 d1] Cons.prems(2) st1 by simp
  then show ?case
    using memory_steps_trans [OF conjunct1 [OF st1]] memory_steps_trans [OF s2] by (simp add: v n)
qed simp

lemma kept_rows:
  "i \<in> set (kept_items u st) \<Longrightarrow> \<exists>r \<in> set (ms_items st). i = row_to_memory_item r \<and> mi_user_id r = u \<and> \<not> mi_is_deprecated r"
  by (auto simp: kept_items_def select_items_def by_recency_def row_to_memory_item_def dest!: set_sql_limit)

lemma evict_steps:
  assumes "evict_lowest_score x u keep prot st = (removed, st')" and "distinct_ids (ms_items st)"
  shows "memory_steps x u cs st st'"
proof (cases "int (length (kept_items u st)) \<le> keep")
  case True
  then show ?thesis using assms(1) by (auto simp: evict_lowest_score_def Let_def)
next
  case False
  obtain scored st1 where s: "score_items x (filter (\<lambda>i. mi_importance i < prot) (kept_items u st)) st = (scored, st1)"
    by (metis prod.exhaust)
  have st1: "memory_steps x u cs st st1" "ms_items st1 = ms_items st"
    and items: "map snd scored = filter (\<lambda>i. mi_importance i < prot) (kept_items u st)"
    using score_items_steps [OF s] by auto
  let ?vs = "take (nat (int (length (kept_items u st)) - keep)) (sort_key (\<lambda>(score, i). (score, mi_updated_at i)) scored)"
  have "\<exists>r \<in> set (ms_items st). snd v = row_to_memory_item r \<and> mi_user_id r = u" if "v \<in> set ?vs" for v
  proof -
    have "v \<in> set scored" using that set_take_subset by fastforce
    then have "snd v \<in> set (map snd scored)" by simp
    then have "snd v \<in> set (kept_items u st)" unfolding items by simp
    then show ?thesis using kept_rows by blast
  qed
  then have "\<forall>v \<in> set ?vs. rows_of_user u (mi_id (snd v)) (ms_items st1)"
    using row_of_member [OF assms(2)] st1(2) by fastforce
  then have "memory_steps x u cs st1 (evict_items x ?vs st1)" using evict_items_steps [of st1 ?vs] assms(2) st1(2) by simp
  moreover have "st' = evict_items x ?vs st1" using assms(1) False by (simp add: evict_lowest_score_def Let_def s)
  ultimately show ?thesis using memory_steps_trans [OF st1(1)] by simp
qed

lemma persist_steps:
  assumes "persist_run_memories x p pr props u t goal outs outcome run seeds st = (r, st')" and "distinct_ids (ms_items st)"
  shows "memory_steps x u cs st st'"
proof (cases "mo_long_term_enabled p")
  case True
  obtain n st1 where e: "delete_expired st = (n, st1)" by (metis prod.exhaust)
  note s1 = expired_steps [OF e, of x u cs]
  have d1: "distinct_ids (ms_items st1)" using memory_steps_distinct [OF s1 assms(2)] .
  show ?thesis
  proof (cases "extract_memories_for_run p pr props goal outs outcome run seeds")
    case None
    then show ?thesis using assms(1) True s1 by (simp add: persist_run_memories_def e)
  next
    case (Some cands)
    obtain b st2 where b: "write_candidates x p u t outcome cands st1 = (b, st2)" by (metis prod.exhaust)
    note s2 = memory_steps_trans [OF s1 write_steps [OF b d1]]
    have d2: "distinct_ids (ms_items st2)" using memory_steps_distinct [OF s2 assms(2)] .
    obtain rem st3 where v: "evict_lowest_score x u (mo_max_items_per_user p) (mo_protected_importance p) st2 = (rem, st3)"
      by (metis prod.exhaust)
    have "st' = st2 \<or> st' = st3" using assms(1) True by (auto simp: persist_run_memories_def e Some b v split: sum.splits if_splits)
    then show ?thesis using s2 memory_steps_trans [OF s2 evict_steps [OF v d2]] by auto
  qed
qed (use assms(1) in \<open>simp add: persist_run_memories_def\<close>)

subsection \<open>The manager\<close>

lemma governance_run_steps: "governance_run_id t s = (r, s') \<Longrightarrow> store_step\<^sup>*\<^sup>* s s'"
proof -
  assume a: "governance_run_id t s = (r, s')"
  obtain c s1 where c: "create_run s t (Some (governance_run_name t)) RUN_STATUS_COMPLETED None None = (c, s1)"
    by (metis prod.exhaust)
  have "store_step s s1" by (metis c snd_conv store_step.create)
  moreover have "s' = s \<or> s' = s1"
    using a c by (cases "get_run s (governance_run_name t)"; cases c)
      (auto simp: governance_run_id_def Let_def split: pyerr.splits option.splits)
  ultimately show ?thesis by auto
qed

lemma append_event_steps: "append_event s t r ty pl = (e, s') \<Longrightarrow> store_step\<^sup>*\<^sup>* s s'"
  using store_step.insert [of s t r ty pl] by (auto simp: append_event_def split: option.splits)

lemma append_governance_steps:
  assumes "append_governance i ty pl st = (r, st')"
  shows "memory_steps x u cs st st'" "ms_items st' = ms_items st"
proof -
  obtain a s1 where g: "governance_run_id (governance_thread i) (ms_store st) = (a, s1)" by (metis prod.exhaust)
  have "ms_items st' = ms_items st \<and> store_step\<^sup>*\<^sup>* (ms_store st) (ms_store st')"
    using assms governance_run_steps [OF g]
    by (auto simp: append_governance_def Let_def g split: sum.splits prod.splits dest: append_event_steps intro: rtranclp_trans)
  then show "memory_steps x u cs st st'" "ms_items st' = ms_items st" by (auto intro: memory_steps_store)
qed

lemma record_governance_steps:
  assumes "record_governance x ty i a at_time st = (r, st')"
  shows "memory_steps y u cs st st'" "ms_items st' = ms_items st"
proof -
  obtain now st1 where n: "(case at_time of Some t \<Rightarrow> (t, st) | None \<Rightarrow> memory_now st) = (now, st1)" by (metis prod.exhaust)
  have st1: "memory_steps y u cs st st1" "ms_items st1 = ms_items st"
    using n memory_now_steps by (auto split: option.splits)
  have "append_governance i ty (memory_governance_payload x i a now) st1 = (r, st')"
    using assms by (simp add: record_governance_def n)
  note g = append_governance_steps [OF this]
  show "memory_steps y u cs st st'" using memory_steps_trans [OF st1(1) g(1)] .
  show "ms_items st' = ms_items st" using g(2) st1(2) by simp
qed

lemma answer_with_state: "snd (answer_with x i r) = snd r"
  by (auto simp: answer_with_def split: sum.splits prod.splits)

lemma owned_rows:
  assumes "owned st (Some t) (get_item st i)" and "distinct_ids (ms_items st)"
  shows "rows_of_user (owner st t) i (ms_items st)"
proof -
  obtain r where r: "find (\<lambda>r. mi_id r = i) (ms_items st) = Some r" and u: "mi_user_id r = owner st t"
    using assms(1) by (auto simp: owned_def get_item_def row_to_memory_item_def split: option.splits)
  show ?thesis using row_of_member [OF assms(2), of r] find_SomeD [OF r] u by simp
qed

lemma confirm_memory_steps:
  assumes "confirm_memory_item x i (Some t) st = (r, st')" and "distinct_ids (ms_items st)"
  shows "memory_steps x (owner st t) {i} st st'"
proof (cases "owned st (Some t) (get_item st i)")
  case True
  obtain d st1 where c: "confirm_item i st = (d, st1)" by (metis prod.exhaust)
  note s1 = confirm_steps [OF assms(2) owned_rows [OF True assms(2)] c, of "{i}" x]
  show ?thesis
  proof (cases d)
    case None
    then show ?thesis using assms(1) True s1 by (simp add: confirm_memory_item_def c)
  next
    case (Some row)
    let ?rec = "record_governance x ''memory_item_confirmed'' row \<lparr>gv_action = ''confirmed'', gv_reason = ''confirmed'',
      gv_actor = ''user'', gv_content_redacted = False, gv_embedding_removed = False\<rparr> None st1"
    have "snd ?rec = st'" using assms(1) True Some answer_with_state [of x row ?rec] by (simp add: confirm_memory_item_def c)
    then obtain a where "?rec = (a, st')" by (metis prod.collapse)
    then show ?thesis using memory_steps_trans [OF s1] record_governance_steps(1) by simp
  qed
qed (use assms(1) in \<open>simp add: confirm_memory_item_def\<close>)

lemma reject_memory_steps:
  assumes "reject_memory_item x i (Some t) reason st = (r, st')" and "distinct_ids (ms_items st)"
  shows "memory_steps x (owner st t) {} st st'"
proof (cases "owned st (Some t) (get_item st i) \<and> get_item st i \<noteq> None")
  case True
  obtain now st1 where n: "memory_now st = (now, st1)" by (metis prod.exhaust)
  note s0 = memory_now_steps [OF n, of x "owner st t" "{}"]
  let ?st2 = "deprecate i (Some (rejected_entry x reason now)) st1"
  have "memory_steps x (owner st t) {} st1 ?st2"
    by (rule deprecate_steps) (use s0 assms(2) owned_rows [OF conjunct1 [OF True] assms(2)] in simp_all)
  then have s2: "memory_steps x (owner st t) {} st ?st2" using memory_steps_trans s0 by blast
  show ?thesis
  proof (cases "get_item ?st2 i")
    case None
    then show ?thesis using assms(1) True s2 by (simp add: reject_memory_item_def n Let_def)
  next
    case (Some row)
    let ?rec = "record_governance x ''memory_item_rejected'' row \<lparr>gv_action = ''rejected'', gv_reason = reason,
      gv_actor = ''user'', gv_content_redacted = False, gv_embedding_removed = False\<rparr> None ?st2"
    have "snd ?rec = st'" using assms(1) True Some answer_with_state [of x row ?rec] by (simp add: reject_memory_item_def n Let_def)
    then obtain a where "?rec = (a, st')" by (metis prod.collapse)
    then show ?thesis using memory_steps_trans [OF s2] record_governance_steps(1) by simp
  qed
qed (use assms(1) in \<open>auto simp: reject_memory_item_def split: if_splits\<close>)

lemma delete_memory_steps:
  assumes "delete_memory_item x i t reason actor st = (r, st')" and "distinct_ids (ms_items st)"
  shows "memory_steps x (owner st t) {} st st'"
proof (cases "owned st (Some t) (get_item st i)")
  case True
  obtain now st1 where n: "memory_now st = (now, st1)" by (metis prod.exhaust)
  note s0 = memory_now_steps [OF n, of x "owner st t" "{}"]
  obtain d st2 where t: "delete_with_tombstone x i (Some (deleted_entry x reason actor now)) st1 = (d, st2)" by (metis prod.exhaust)
  have "memory_steps x (owner st t) {} st1 st2"
    by (rule tombstone_steps [OF _ _ t]) (use s0 assms(2) owned_rows [OF True assms(2)] in simp_all)
  then have s2: "memory_steps x (owner st t) {} st st2" using memory_steps_trans s0 by blast
  show ?thesis
  proof (cases d)
    case None
    then show ?thesis using assms(1) True s2 by (simp add: delete_memory_item_def n t)
  next
    case (Some row)
    obtain a st3 where rec: "record_governance x ''memory_item_deleted'' row \<lparr>gv_action = ''deleted'', gv_reason = reason,
      gv_actor = actor, gv_content_redacted = True, gv_embedding_removed = True\<rparr> (Some now) st2 = (a, st3)" by (metis prod.exhaust)
    note s3 = memory_steps_trans [OF s2 record_governance_steps(1) [OF rec]]
    show ?thesis
    proof (cases a)
      case (Inl e)
      then show ?thesis using assms(1) True Some s3 by (simp add: delete_memory_item_def n t rec)
    next
      case (Inr ev)
      let ?app = "append_governance row ''memory_item_delete_proof'' (delete_proof_payload x row reason actor now (ev_id ev)) st3"
      have "snd ?app = st'" using assms(1) True Some Inr answer_with_state [of x row ?app] by (simp add: delete_memory_item_def n t rec)
      then obtain b where "?app = (b, st')" by (metis prod.collapse)
      then show ?thesis using memory_steps_trans [OF s3] append_governance_steps(1) by simp
    qed
  qed
qed (use assms(1) in \<open>simp add: delete_memory_item_def\<close>)

section \<open>Executions\<close>

text \<open>
  What happens to the memory: the end of a run, a decision of a user about an item, a recall (which counts the
  accesses to the items it uses), and any transaction of the event store.
\<close>

inductive memory_step ::
    "memory_env \<Rightarrow> memory_policy \<Rightarrow> string \<Rightarrow> string set \<Rightarrow> memory_state \<Rightarrow> memory_state \<Rightarrow> bool" for x p where
  persist: "persist_run_memories x p pr props u t goal outs outcome run seeds st = (r, st') \<Longrightarrow> memory_step x p u {} st st'"
| confirm: "confirm_memory_item x i (Some t) st = (r, st') \<Longrightarrow> memory_step x p (owner st t) {i} st st'"
| reject: "reject_memory_item x i (Some t) reason st = (r, st') \<Longrightarrow> memory_step x p (owner st t) {} st st'"
| delete: "delete_memory_item x i t reason actor st = (r, st') \<Longrightarrow> memory_step x p (owner st t) {} st st'"
| recall: "list_active u (Some t) None ip st = (is, st1) \<Longrightarrow> set used \<subseteq> mi_id ` set is \<Longrightarrow>
    memory_step x p u {} st (touch_access used st1)"
| other: "store_step (ms_store st) s \<Longrightarrow> memory_step x p u {} st (st\<lparr>ms_store := s\<rparr>)"

inductive memory_run :: "memory_env \<Rightarrow> memory_policy \<Rightarrow> string set \<Rightarrow> memory_state \<Rightarrow> memory_state \<Rightarrow> bool" for x p where
  start: "memory_run x p {} st st"
| step: "memory_run x p cs st st1 \<Longrightarrow> memory_step x p u c st1 st2 \<Longrightarrow> memory_run x p (cs \<union> c) st st2"

lemma memory_step_steps:
  assumes "memory_step x p u cs st st'" and "distinct_ids (ms_items st)"
  shows "memory_steps x u cs st st'"
  using assms(1)
proof cases
  case (recall t ip "is" st1 used)
  note l = listed_rows [OF recall(3)]
  have "rows_of_user u i (ms_items st1)" if "i \<in> set used" for i
  proof -
    from \<open>i \<in> set used\<close> obtain j where "j \<in> set is" "mi_id j = i" using recall(4) by auto
    then obtain r where "r \<in> set (ms_items st)" "mi_id r = i" "mi_user_id r = u" using l(3) by fastforce
    then show ?thesis using row_of_member [OF assms(2)] l(2) by metis
  qed
  then have "memory_steps x u cs st1 (touch_access used st1)" by (intro touch_steps) blast
  then show ?thesis using memory_steps_trans [OF l(1)] recall(2) by blast
next
  case (other s)
  then show ?thesis by (auto intro: memory_steps_store)
qed (use assms(2) in \<open>auto intro: persist_steps confirm_memory_steps reject_memory_steps delete_memory_steps\<close>)

section \<open>A small memory\<close>

definition demo_memory_env :: memory_env where
  "demo_memory_env =
     \<lparr>me_sha16 = (\<lambda>s. s), me_iso = int_str, me_float = (\<lambda>v. int_str \<lfloor>v * 10000\<rfloor>), me_decay = (\<lambda>v. 1 / (1 + v)),
      me_embed = (\<lambda>_. None)\<rparr>"

definition demo_item :: "string \<Rightarrow> string \<Rightarrow> memory_scope \<Rightarrow> string option \<Rightarrow> string \<Rightarrow> memory_item" where
  "demo_item i u sc t text_value =
     \<lparr>mi_id = i, mi_user_id = u, mi_thread_id = t, mi_scope = sc, mi_memory_type = FACT, mi_content = text_value,
      mi_content_hash = text_value, mi_importance = 6 / 10, mi_confidence = 3 / 4, mi_version = 1, mi_supersedes_id = None,
      mi_is_deprecated = False, mi_expires_at = None, mi_access_count = 0, mi_last_accessed_at = None, mi_created_at = 0,
      mi_updated_at = 0, mi_source_run_id = None, mi_pending_confirmation = False, mi_history = [], mi_embedding = Some [1]\<rparr>"

text \<open>A thread \<open>t\<close> that nobody has claimed belongs to the user \<open>t\<close>.\<close>

definition demo_memory :: memory_state where
  "demo_memory = \<lparr>ms_store = demo_empty,
     ms_items = [demo_item ''a'' ''t'' SESSION (Some ''t'') ''the port is 80'', demo_item ''b'' ''v'' USER None ''mine'',
       demo_item ''c'' ''t'' USER None ''two words'']\<rparr>"

end
