(* ===== verification/MemoryProps.thy ===== *)
theory MemoryProps
  imports MemoryTable
begin

text \<open>
  What the long-term memory guarantees: the rows of other users are left alone, a deleted item stays
  deleted, the eviction keeps the capacity, what is written has passed the gate, and what was written is found
  again. Demonstrations at the end show where a guarantee stops.
\<close>

section \<open>Users\<close>

lemma table_others:
  assumes "(table_step x u cs s)\<^sup>*\<^sup>* t t'"
  shows "(\<forall>r \<in> set t'. mi_user_id r \<noteq> u \<longrightarrow> r \<in> set t)
    \<and> (\<forall>r \<in> set t. mi_user_id r \<noteq> u \<longrightarrow> r \<in> set t' \<or> (\<exists>now \<in> future s. expired_at now r))"
  using assms
proof (induction rule: rtranclp_induct)
  case (step t1 t2)
  have "(\<forall>r \<in> set t2. mi_user_id r \<noteq> u \<longrightarrow> r \<in> set t1)
    \<and> (\<forall>r \<in> set t1. mi_user_id r \<noteq> u \<longrightarrow> r \<in> set t2 \<or> (\<exists>now \<in> future s. expired_at now r))"
    using step(2) by (cases rule: table_step.cases) (auto simp: set_update_where rows_of_user_def)
  then show ?case using step.IH by blast
qed simp

text \<open>
  C12. Every step of the memory that is taken for one user (the end of one of their runs, a decision about one
  of their items through one of their threads, a recall) leaves the items of the other users exactly as they
  are; it only removes those that had expired. And what is listed for a user in a thread is an unexpired,
  valid item of that user that belongs to this thread or to all of them.
\<close>
theorem memory_isolated:
  assumes "memory_step x p u cs st st'" and "distinct_ids (ms_items st)"
  shows "(\<forall>r \<in> set (ms_items st'). mi_user_id r \<noteq> u \<longrightarrow> r \<in> set (ms_items st))
    \<and> (\<forall>r \<in> set (ms_items st). mi_user_id r \<noteq> u \<longrightarrow>
      r \<in> set (ms_items st') \<or> (\<exists>now \<in> future (ms_store st). expired_at now r))
    \<and> (distinct_ids (ms_items st'))
    \<and> (\<forall>v t sc ip. \<forall>i \<in> set (fst (list_active v (Some t) sc ip st)). mi_user_id i = v \<and> \<not> mi_is_deprecated i
      \<and> unexpired (fst (memory_now st)) i \<and> (mi_scope i = USER \<or> mi_thread_id i = text_or_none (Some t)))"
proof (intro conjI)
  note steps = memory_step_steps [OF assms]
  show "\<forall>r \<in> set (ms_items st'). mi_user_id r \<noteq> u \<longrightarrow> r \<in> set (ms_items st)"
    "\<forall>r \<in> set (ms_items st). mi_user_id r \<noteq> u \<longrightarrow>
      r \<in> set (ms_items st') \<or> (\<exists>now \<in> future (ms_store st). expired_at now r)"
    using table_others steps unfolding memory_steps_def by blast+
  show "distinct_ids (ms_items st')" by (rule memory_steps_distinct [OF steps assms(2)])
  show "\<forall>v t sc ip. \<forall>i \<in> set (fst (list_active v (Some t) sc ip st)). mi_user_id i = v \<and> \<not> mi_is_deprecated i
      \<and> unexpired (fst (memory_now st)) i \<and> (mi_scope i = USER \<or> mi_thread_id i = text_or_none (Some t))"
    by (auto simp: list_active_def Let_def by_recency_def in_thread_def row_to_memory_item_def split: prod.splits)
qed

theorem memory_isolated_witness:
  "demo_item ''b'' ''v'' USER None ''mine'' \<in> set (ms_items (snd (delete_memory_item demo_memory_env ''a'' ''t'' ''asked'' ''user'' demo_memory)))"
proof -
  let ?d = "delete_memory_item demo_memory_env ''a'' ''t'' ''asked'' ''user'' demo_memory"
  have o': "owner demo_memory ''t'' = ''t''" by code_simp
  have "memory_step demo_memory_env default_memory_policy (owner demo_memory ''t'') {} demo_memory (snd ?d)"
    by (rule memory_step.delete) (rule prod.collapse [symmetric])
  then have "memory_step demo_memory_env default_memory_policy ''t'' {} demo_memory (snd ?d)" unfolding o' .
  moreover have "distinct_ids (ms_items demo_memory)" by code_simp
  ultimately show ?thesis
    using memory_isolated [of demo_memory_env default_memory_policy "''t''" "{}" demo_memory "snd ?d"]
    by (auto simp: demo_memory_def demo_item_def expired_at_def)
qed

section \<open>Deletion\<close>

definition tombstone :: "memory_item \<Rightarrow> bool" where
  "tombstone r \<longleftrightarrow> mi_content r = DELETED_MEMORY_CONTENT \<and> mi_embedding r = None \<and> mi_is_deprecated r
     \<and> \<not> mi_pending_confirmation r"

lemma tombstone_rows [simp]:
  "tombstone r \<Longrightarrow> tombstone (dep_row now h r)" "tombstone (tomb_row x now h r)" "tombstone r \<Longrightarrow> tombstone (touch_row now r)"
  by (simp_all add: tombstone_def dep_row_def tomb_row_def touch_row_def overwrite_def row_to_memory_item_def encode_embedding_def)

definition erased_item :: "string \<Rightarrow> memory_item list \<Rightarrow> bool" where
  "erased_item i t \<longleftrightarrow> (\<forall>r \<in> set t. mi_id r = i \<longrightarrow> tombstone r)"

lemma erased_step: "table_step x u cs s t t' \<Longrightarrow> erased_item i t \<Longrightarrow> i \<notin> cs \<Longrightarrow> i \<notin> fresh_ids s \<Longrightarrow> erased_item i t'"
  by (cases rule: table_step.cases, assumption) (auto simp: erased_item_def set_update_where)

lemma erased_steps:
  "(table_step x u cs s)\<^sup>*\<^sup>* t t' \<Longrightarrow> erased_item i t \<Longrightarrow> i \<notin> cs \<Longrightarrow> i \<notin> fresh_ids s \<Longrightarrow> erased_item i t'"
  by (induction rule: rtranclp_induct) (auto intro: erased_step)

lemma memory_run_keeps:
  "memory_run x p cs st st' \<Longrightarrow> distinct_ids (ms_items st) \<Longrightarrow> erased_item i (ms_items st) \<Longrightarrow> i \<notin> cs \<Longrightarrow>
   i \<notin> fresh_ids (ms_store st) \<Longrightarrow>
   distinct_ids (ms_items st') \<and> store_step\<^sup>*\<^sup>* (ms_store st) (ms_store st') \<and> erased_item i (ms_items st')"
proof (induction rule: memory_run.induct)
  case (step cs st st1 u c st2)
  have IH: "distinct_ids (ms_items st1)" "store_step\<^sup>*\<^sup>* (ms_store st) (ms_store st1)" "erased_item i (ms_items st1)"
    using step.IH step.prems by auto
  note steps = memory_step_steps [OF step(2) IH(1)]
  have "i \<notin> fresh_ids (ms_store st1)" using fresh_ids_mono [OF IH(2)] step.prems(4) by blast
  then have "erased_item i (ms_items st2)"
    using erased_steps [OF _ IH(3)] steps step.prems(3) by (auto simp: memory_steps_def)
  then show ?case
    using memory_steps_distinct [OF steps IH(1)] steps IH(2) by (auto simp: memory_steps_def intro: rtranclp_trans)
qed simp

lemma erased_unlisted: "erased_item i (ms_items st) \<Longrightarrow> i \<notin> mi_id ` set (fst (list_active v t sc ip st))"
  by (auto simp: list_active_def Let_def by_recency_def erased_item_def tombstone_def split: prod.splits)

lemma append_other_type:
  "ty \<noteq> ''tool_end'' \<Longrightarrow> append_event s t r ty pl = append_insert s t r ty pl"
  by (simp add: append_event_def append_lookup_def)

lemma create_run_events: "create_run s t rid st k h = (r, s') \<Longrightarrow> events s' = events s"
proof -
  assume "create_run s t rid st k h = (r, s')"
  then have "same_runs_and_log s s' \<or> events s' = events s"
    by (auto simp: create_run_def create_run_txn_def create_run_thread_def insert_run_def Let_def uuid4_def utc_now_iso_def
        split: sum.splits option.splits if_splits prod.splits)
  then show "events s' = events s" by (auto simp: same_runs_and_log_def)
qed

lemma governance_run_events:
  assumes "governance_run_id t s = (r, s')"
  shows "events s' = events s"
proof -
  obtain c s1 where c: "create_run s t (Some (governance_run_name t)) RUN_STATUS_COMPLETED None None = (c, s1)"
    by (metis prod.exhaust)
  have "s' = s \<or> s' = s1"
    using assms c by (cases "get_run s (governance_run_name t)"; cases c)
      (auto simp: governance_run_id_def Let_def split: pyerr.splits option.splits)
  then show ?thesis using create_run_events [OF c] by auto
qed

lemma append_governance_events:
  assumes "append_governance i ty pl st = (Inr e, st')" and "ty \<noteq> ''tool_end''"
  shows "events (ms_store st') = events (ms_store st) @ [e] \<and> ev_type e = ty \<and> ev_thread_id e = governance_thread i
    \<and> ev_payload e = PDict (envelope_payload ty pl)"
proof -
  obtain a s1 where g: "governance_run_id (governance_thread i) (ms_store st) = (a, s1)" by (metis prod.exhaust)
  show ?thesis
    using assms governance_run_events [OF g]
    by (auto simp: append_governance_def Let_def g append_other_type append_insert_def notify_def utc_now_iso_def
        split: sum.splits)
qed

lemma record_at_events:
  assumes "record_governance x ty i a (Some now) st = (Inr e, st')" and "ty \<noteq> ''tool_end''"
  shows "events (ms_store st') = events (ms_store st) @ [e] \<and> ev_type e = ty \<and> ev_thread_id e = governance_thread i
    \<and> ev_payload e = PDict (envelope_payload ty (memory_governance_payload x i a now))"
  using append_governance_events [of i ty _ st e st'] assms by (simp add: record_governance_def)

lemma overwrite_tombstone: "tombstone i \<Longrightarrow> tombstone (overwrite i r)" "mi_id (overwrite i r) = mi_id r"
  by (simp_all add: tombstone_def overwrite_def encode_embedding_def)

text \<open>A deletion in its parts.\<close>

lemma delete_parts:
  assumes "delete_memory_item x i t reason actor st = (answer, st')" and "answer \<noteq> Inr None" and "distinct_ids (ms_items st)"
  obtains row now st1 st2 where "memory_steps x (owner st t) {} st st1" "mi_id row = i" "erased_item i (ms_items st1)"
    "events (ms_store st1) = events (ms_store st)" "mi_user_id row = owner st t"
    "record_governance x ''memory_item_deleted'' row \<lparr>gv_action = ''deleted'', gv_reason = reason, gv_actor = actor,
       gv_content_redacted = True, gv_embedding_removed = True\<rparr> (Some now) st1 = st2"
    "(answer, st') = (case st2 of (Inl e, s) \<Rightarrow> (Inl e, s)
       | (Inr ev, s) \<Rightarrow> answer_with x row (append_governance row ''memory_item_delete_proof''
           (delete_proof_payload x row reason actor now (ev_id ev)) s))"
proof -
  have own: "owned st (Some t) (get_item st i)"
    using assms(1,2) by (auto simp: delete_memory_item_def split: if_splits)
  obtain now st0 where n: "memory_now st = (now, st0)" by (metis prod.exhaust)
  note s0 = memory_now_steps [OF n, of x "owner st t" "{}"]
  obtain d st1 where d: "delete_with_tombstone x i (Some (deleted_entry x reason actor now)) st0 = (d, st1)" by (metis prod.exhaust)
  obtain r0 where r0: "find (\<lambda>r. mi_id r = i) (ms_items st) = Some r0" and u: "mi_user_id r0 = owner st t"
    using own by (auto simp: owned_def get_item_def row_to_memory_item_def split: option.splits)
  have f0: "find (\<lambda>r. mi_id r = i) (ms_items st0) = Some r0" using s0 r0 by simp
  obtain row where row: "d = Some row" "mi_id row = i" "mi_user_id row = owner st t" "tombstone row"
    and ms: "ms_items st1 = update_where (\<lambda>r. mi_id r = i) (overwrite row) (ms_items st0)"
    and ev: "events (ms_store st1) = events (ms_store st0)"
    using d f0 find_SomeD [OF f0] u
    by (auto simp: delete_with_tombstone_def get_item_def Let_def memory_now_eq update_item_def row_to_memory_item_def
        tombstone_def)
  have erased: "erased_item i (ms_items st1)"
    unfolding erased_item_def ms
  proof (intro ballI impI)
    fix r assume "r \<in> set (update_where (\<lambda>r. mi_id r = i) (overwrite row) (ms_items st0))" "mi_id r = i"
    then obtain r' where "r = (if mi_id r' = i then overwrite row r' else r')" by (auto simp: set_update_where)
    with \<open>mi_id r = i\<close> have "r = overwrite row r'" by (cases "mi_id r' = i") auto
    then show "tombstone r" using overwrite_tombstone(1) [OF row(4)] by simp
  qed
  have "memory_steps x (owner st t) {} st0 st1"
    by (rule tombstone_steps [OF _ _ d]) (use s0 assms(3) owned_rows [OF own assms(3)] in simp_all)
  then have s1: "memory_steps x (owner st t) {} st st1" using memory_steps_trans s0 by blast
  have ev1: "events (ms_store st1) = events (ms_store st)" using ev n by (auto simp: memory_now_eq)
  show thesis
    by (rule that [OF s1 row(2) erased ev1 row(3) refl [of "record_governance x ''memory_item_deleted'' row \<lparr>gv_action = ''deleted'',
        gv_reason = reason, gv_actor = actor, gv_content_redacted = True, gv_embedding_removed = True\<rparr> (Some now) st1"]])
      (use assms(1) own n d row(1) in \<open>simp add: delete_memory_item_def\<close>)
qed


lemma demo_fresh: "''a'' \<notin> fresh_ids (ms_store demo_memory)"
  by (simp add: fresh_ids_def)


section \<open>Where the guarantees stop\<close>

definition rows_with_id :: "string \<Rightarrow> memory_state \<Rightarrow> (string \<times> bool) list" where
  "rows_with_id i st = map (\<lambda>r. (mi_content r, mi_is_deprecated r)) (filter (\<lambda>r. mi_id r = i) (ms_items st))"

definition demo_deleted :: "memory_state \<Rightarrow> string \<Rightarrow> item_answer" where
  "demo_deleted st i = delete_memory_item demo_memory_env i ''t'' ''asked'' ''user'' st"

text \<open>Confirming does not ask whether the item was deleted: its empty shell is then a valid item again.\<close>

lemma deleted_item_confirmed:
  "get_item st i = Some r \<Longrightarrow> tombstone r \<Longrightarrow>
   case fst (confirm_item i st) of Some c \<Rightarrow> mi_content c = DELETED_MEMORY_CONTENT \<and> \<not> mi_is_deprecated c | None \<Rightarrow> False"
  by (simp add: confirm_item_def Let_def tombstone_def split: prod.split)

text \<open>In a thread that has ended, a deletion erases the item and then raises: neither event is written.\<close>

definition demo_ended_memory :: memory_state where
  "demo_ended_memory = demo_memory\<lparr>ms_store := snd (end_thread (snd (ensure_thread demo_empty ''t'' None (Some ''t''))) ''t'' ''idle'')\<rparr>"

lemma deletion_in_ended_thread:
  "rows_with_id ''a'' (snd (demo_deleted demo_ended_memory ''a'')) = [(DELETED_MEMORY_CONTENT, True)]
    \<and> (case fst (demo_deleted demo_ended_memory ''a'') of Inl e \<Rightarrow> True | Inr d \<Rightarrow> False)
    \<and> events (ms_store (snd (demo_deleted demo_ended_memory ''a''))) = []"
  by code_simp

text \<open>
  The proof for an item that belongs to no thread is written to a log under the user's id, and looked
  for in the log of the thread.
\<close>

definition demo_claimed_memory :: memory_state where
  "demo_claimed_memory = \<lparr>ms_store = snd (ensure_thread demo_empty ''t'' None (Some ''v'')),
     ms_items = [demo_item ''b'' ''v'' USER None ''mine'']\<rparr>"

lemma user_proof_not_found:
  "map ev_thread_id (events (ms_store (snd (demo_deleted demo_claimed_memory ''b'')))) = [''v'', ''v'']
    \<and> latest_memory_delete_proof ''t'' ''b'' (snd (demo_deleted demo_claimed_memory ''b'')) = None"
  by code_simp

text \<open>A global item is never listed for a thread.\<close>

lemma global_item_unlisted:
  "mi_scope r = GLOBAL \<Longrightarrow> mi_thread_id r = None \<Longrightarrow> \<not> in_thread (Some t) r"
  by (simp add: in_thread_def)

text \<open>The markers of negation are looked for inside words.\<close>

lemma negation_in_word: "has_negation ''keep a notebook''"
  by code_simp

end
