(* ===== verification/MemoryWrites.thy ===== *)
theory MemoryWrites
  imports MemoryTable "HOL-Library.Multiset"
begin

text \<open>
  What is written to the long-term memory and what is evicted from it: the capacity, the write gate, and the
  answer to writing the same thing twice.
\<close>

section \<open>Eviction\<close>

definition active_of :: "string \<Rightarrow> memory_item \<Rightarrow> bool" where
  "active_of u r \<longleftrightarrow> mi_user_id r = u \<and> \<not> mi_is_deprecated r"

lemma kept_all:
  assumes "length (filter (\<lambda>r. mi_user_id r = u) (ms_items st)) \<le> 10000"
  shows "mset (kept_items u st) = image_mset row_to_memory_item (mset (filter (active_of u) (ms_items st)))"
proof -
  let ?rows = "by_recency (filter (\<lambda>r. mi_user_id r = u) (ms_items st))"
  have "length ?rows \<le> 10000" using assms by (simp add: by_recency_def)
  then have "kept_items u st = filter (\<lambda>i. \<not> mi_is_deprecated i) (map row_to_memory_item ?rows)"
    by (simp add: kept_items_def select_items_def sql_limit_def in_scopes_def in_thread_def)
  also have "\<dots> = map row_to_memory_item (filter (\<lambda>r. \<not> mi_is_deprecated r) ?rows)"
    by (simp add: filter_map o_def row_to_memory_item_def)
  finally show ?thesis
    unfolding by_recency_def filter_sort by (simp add: active_of_def [abs_def] conj_commute del: mset_filter)
qed

lemma dep_row_flags [simp]:
  "mi_is_deprecated (dep_row now h r)" "mi_importance (dep_row now h r) = mi_importance r"
  "mi_content (dep_row now h r) = mi_content r" "mi_confidence (dep_row now h r) = mi_confidence r"
  "mi_pending_confirmation (dep_row now h r) = mi_pending_confirmation r"
  "mi_scope (dep_row now h r) = mi_scope r" "mi_thread_id (dep_row now h r) = mi_thread_id r"
  "mi_memory_type (dep_row now h r) = mi_memory_type r"
  by (simp_all add: dep_row_def overwrite_def row_to_memory_item_def)

text \<open>A marked row: deprecated, and otherwise the same item.\<close>

definition marked_row :: "memory_item \<Rightarrow> memory_item \<Rightarrow> bool" where
  "marked_row r r' \<longleftrightarrow> mi_is_deprecated r' \<and> mi_id r' = mi_id r \<and> mi_user_id r' = mi_user_id r
     \<and> mi_importance r' = mi_importance r \<and> mi_content r' = mi_content r \<and> mi_confidence r' = mi_confidence r
     \<and> mi_pending_confirmation r' = mi_pending_confirmation r \<and> mi_scope r' = mi_scope r
     \<and> mi_thread_id r' = mi_thread_id r \<and> mi_memory_type r' = mi_memory_type r"

lemma evict_items_effect:
  "distinct_ids (ms_items st) \<Longrightarrow> \<exists>f. ms_items (evict_items x vs st) = map f (ms_items st)
     \<and> (\<forall>r \<in> set (ms_items st). if mi_id r \<in> (mi_id \<circ> snd) ` set vs then marked_row r (f r) else f r = r)"
proof (induction vs arbitrary: st)
  case Nil
  show ?case by (rule exI [of _ id]) simp
next
  case (Cons v vs)
  obtain score i where v: "v = (score, i)" by (metis prod.exhaust)
  obtain now st1 where n: "memory_now st = (now, st1)" by (metis prod.exhaust)
  have st1: "ms_items st1 = ms_items st" using memory_now_steps [OF n] by blast
  let ?st2 = "deprecate (mi_id i) (Some (evicted_entry x now score)) st1"
  obtain t h where e: "ms_items ?st2 = update_where (\<lambda>r. mi_id r = mi_id i) (dep_row t h) (ms_items st)"
    using deprecate_eq(1) [of st1] Cons.prems st1 by metis
  have "distinct_ids (ms_items ?st2)" unfolding e using Cons.prems by (simp add: map_update_where)
  from Cons.IH [OF this] obtain f where
    f: "ms_items (evict_items x vs ?st2) = map f (ms_items ?st2)"
    and f': "\<forall>r \<in> set (ms_items ?st2). if mi_id r \<in> (mi_id \<circ> snd) ` set vs then marked_row r (f r) else f r = r" by blast
  let ?g = "\<lambda>r. if mi_id r = mi_id i then dep_row t h r else r"
  have "ms_items (evict_items x (v # vs) st) = map (f \<circ> ?g) (ms_items st)"
    using f by (simp add: v n e update_where_def)
  moreover have "if mi_id r \<in> (mi_id \<circ> snd) ` set (v # vs) then marked_row r ((f \<circ> ?g) r) else (f \<circ> ?g) r = r"
    if "r \<in> set (ms_items st)" for r
  proof -
    have "?g r \<in> set (ms_items ?st2)" using that by (auto simp: e update_where_def)
    then show ?thesis using f' by (auto simp: v marked_row_def split: if_splits)
  qed
  ultimately show ?case by blast
qed

lemma score_items_scores:
  "score_items x is st = (scored, st') \<Longrightarrow>
   \<forall>(s, i) \<in> set scored. \<exists>now \<in> future (ms_store st). s = memory_eviction_score x i now"
proof (induction "is" arbitrary: st scored st')
  case (Cons i "is")
  obtain now st1 where n: "memory_now st = (now, st1)" by (metis prod.exhaust)
  obtain sc st2 where s: "score_items x is st1 = (sc, st2)" by (metis prod.exhaust)
  have "future (ms_store st1) \<subseteq> future (ms_store st)" using n by (auto simp: memory_now_eq future_def intro: Suc_leD)
  then show ?case using Cons.prems Cons.IH [OF s] memory_now_future [OF n] by (fastforce simp: n s)
qed auto

lemma take_drop_le:
  assumes "sorted (map k xs)" and "a \<in> set (take n xs)" and "b \<in> set (drop n xs)"
  shows "k a \<le> k b"
proof -
  have "sorted (map k (take n xs) @ map k (drop n xs))" using assms(1) by (metis append_take_drop_id map_append)
  then show ?thesis using assms(2,3) by (auto simp: sorted_append)
qed

text \<open>The rows of the items whose eviction is considered.\<close>

lemma kept_ids:
  assumes "length (filter (\<lambda>r. mi_user_id r = u) (ms_items st)) \<le> 10000" and "distinct_ids (ms_items st)"
  shows "distinct (map mi_id (kept_items u st))" "set (kept_items u st) = row_to_memory_item ` {r \<in> set (ms_items st). active_of u r}"
    "int (length (kept_items u st)) = count_active u st"
proof -
  note k = kept_all [OF assms(1)]
  have "mset (map mi_id (kept_items u st)) = mset (map mi_id (filter (active_of u) (ms_items st)))"
    using k by (simp add: image_mset.compositionality o_def)
  then show "distinct (map mi_id (kept_items u st))"
    using assms(2) by (metis distinct_map_filter mset_eq_imp_distinct_iff)
  show "set (kept_items u st) = row_to_memory_item ` {r \<in> set (ms_items st). active_of u r}"
    using arg_cong [OF k, of set_mset] by auto
  show "int (length (kept_items u st)) = count_active u st"
    using arg_cong [OF k, of size] by (simp add: count_active_def active_of_def [abs_def] del: mset_filter)
qed

lemma same_id: "distinct_ids t \<Longrightarrow> r \<in> set t \<Longrightarrow> r' \<in> set t \<Longrightarrow> mi_id r = mi_id r' \<Longrightarrow> r = r'"
  by (metis distinct_map inj_onD)

definition eviction_key :: "rat \<times> memory_item \<Rightarrow> rat \<times> time" where
  "eviction_key = (\<lambda>(score, i). (score, mi_updated_at i))"

definition unprotected :: "string \<Rightarrow> rat \<Rightarrow> memory_item \<Rightarrow> bool" where
  "unprotected u prot r \<longleftrightarrow> active_of u r \<and> mi_importance r < prot"

text \<open>What one eviction computed: the unprotected items in the order of their scores, and the first of them.\<close>

lemma evict_parts:
  assumes "evict_lowest_score x u keep prot st = (removed, st')" and "distinct_ids (ms_items st)"
    and "length (filter (\<lambda>r. mi_user_id r = u) (ms_items st)) \<le> 10000"
  obtains items where "sorted (map eviction_key items)"
    and "snd ` set items = row_to_memory_item ` {r \<in> set (ms_items st). unprotected u prot r}"
    and "distinct (map (mi_id \<circ> snd) items)"
    and "\<forall>(score, i) \<in> set items. \<exists>now \<in> future (ms_store st). score = memory_eviction_score x i now"
    and "removed = map (mi_id \<circ> snd) (take (nat (count_active u st - keep)) items)"
    and "\<exists>f. ms_items st' = map f (ms_items st)
      \<and> (\<forall>r \<in> set (ms_items st). if mi_id r \<in> set removed then marked_row r (f r) else f r = r)"
proof -
  note K = kept_ids [OF assms(3,2)]
  define weak where "weak = filter (\<lambda>i. mi_importance i < prot) (kept_items u st)"
  obtain scored st1 where s: "score_items x weak st = (scored, st1)" by (metis prod.exhaust)
  have st1: "ms_items st1 = ms_items st" and weak: "map snd scored = weak" using score_items_steps [OF s] by auto
  define items where "items = sort_key eviction_key scored"
  define victims where "victims = take (nat (count_active u st - keep)) items"
  have result: "removed = map (mi_id \<circ> snd) victims \<and> ms_items st' = ms_items (evict_items x victims st1)"
  proof (cases "int (length (kept_items u st)) \<le> keep")
    case True
    then have "victims = []" using K(3) by (simp add: victims_def)
    then show ?thesis using assms(1) True st1 by (simp add: evict_lowest_score_def Let_def)
  next
    case False
    then show ?thesis
      using assms(1) K(3)
      by (auto simp: evict_lowest_score_def Let_def s weak_def [symmetric] victims_def items_def eviction_key_def)
  qed
  have "distinct (map mi_id weak)" unfolding weak_def using K(1) by (simp add: distinct_map_filter)
  then have "distinct (map (mi_id \<circ> snd) scored)" unfolding weak [symmetric] by simp
  then have d: "distinct (map (mi_id \<circ> snd) items)"
    unfolding items_def by (metis mset_eq_imp_distinct_iff mset_map mset_sort)
  have "snd ` set items = set weak" by (simp add: items_def weak [symmetric])
  also have "\<dots> = row_to_memory_item ` {r \<in> set (ms_items st). unprotected u prot r}"
    using K(2) by (auto simp: weak_def row_to_memory_item_def unprotected_def)
  finally have rows: "snd ` set items = row_to_memory_item ` {r \<in> set (ms_items st). unprotected u prot r}" .
  show thesis
    by (rule that [OF _ rows d])
      (use evict_items_effect [of st1 x victims] score_items_scores [OF s] assms(2) st1 result
        in \<open>auto simp: items_def victims_def image_comp\<close>)
qed

lemma unprotected_item:
  assumes "snd ` set items = row_to_memory_item ` {r \<in> set t. unprotected u prot r}" and "r \<in> set t" and "unprotected u prot r"
  shows "\<exists>score. (score, row_to_memory_item r) \<in> set items"
proof -
  have "row_to_memory_item r \<in> snd ` set items" using assms by auto
  then show ?thesis by force
qed

lemma victim_row:
  assumes "snd ` set items = row_to_memory_item ` {r \<in> set t. unprotected u prot r}" and "distinct_ids t"
    and "r \<in> set t" and "mi_id r \<in> (mi_id \<circ> snd) ` set items"
  shows "unprotected u prot r"
proof -
  obtain p where p: "p \<in> set items" "mi_id (snd p) = mi_id r" using assms(4) by auto
  then have "snd p \<in> row_to_memory_item ` {r \<in> set t. unprotected u prot r}" using assms(1) by blast
  then obtain r' where "r' \<in> set t" "unprotected u prot r'" "snd p = row_to_memory_item r'" by blast
  then have "r = r'" using same_id [OF assms(2,3), of r'] p(2) by (simp add: row_to_memory_item_def)
  then show ?thesis using \<open>unprotected u prot r'\<close> by simp
qed

lemma removed_count:
  assumes "distinct_ids t" and "distinct ids" and "set ids \<subseteq> mi_id ` {r \<in> set t. p r}"
  shows "length (filter (\<lambda>r. p r \<and> mi_id r \<notin> set ids) t) + length ids = length (filter p t)"
proof -
  let ?f = "filter (\<lambda>r. p r \<and> mi_id r \<in> set ids) t"
  have "mi_id ` set ?f = set ids"
  proof (rule set_eqI)
    fix i show "i \<in> mi_id ` set ?f \<longleftrightarrow> i \<in> set ids" using assms(3) by auto
  qed
  moreover have "distinct (map mi_id ?f)" using assms(1) by (simp add: distinct_map_filter)
  ultimately have "length ?f = length ids"
    using assms(2) by (metis distinct_card length_map list.set_map)
  moreover have "length (filter p t) = length ?f + length (filter (\<lambda>r. p r \<and> mi_id r \<notin> set ids) t)"
    by (induction t) auto
  ultimately show ?thesis by simp
qed

lemma unprotected_length:
  assumes "distinct (map (mi_id \<circ> snd) items)" and "distinct_ids t"
    and "snd ` set items = row_to_memory_item ` {r \<in> set t. unprotected u prot r}"
  shows "length items = length (filter (unprotected u prot) t)"
proof -
  have "set (map (mi_id \<circ> snd) items) = mi_id ` (snd ` set items)" by (simp add: image_comp)
  also have "\<dots> = set (map mi_id (filter (unprotected u prot) t))" unfolding assms(3) by (simp add: image_comp o_def)
  finally have "set (map (mi_id \<circ> snd) items) = set (map mi_id (filter (unprotected u prot) t))" .
  moreover have "distinct (map mi_id (filter (unprotected u prot) t))" using assms(2) by (simp add: distinct_map_filter)
  ultimately show ?thesis using assms(1) by (metis distinct_card length_map)
qed

lemma eviction_order:
  assumes "sorted (map eviction_key items)"
    and "snd ` set items = row_to_memory_item ` {r \<in> set t. unprotected u prot r}"
    and "distinct (map (mi_id \<circ> snd) items)"
    and "\<forall>(score, i) \<in> set items. \<exists>now \<in> future s. score = memory_eviction_score x i now"
    and "distinct_ids t"
  shows "\<exists>score. (\<forall>r \<in> set t. unprotected u prot r \<longrightarrow>
        (\<exists>now \<in> future s. score (mi_id r) = memory_eviction_score x (row_to_memory_item r) now))
      \<and> (\<forall>v \<in> set t. \<forall>r \<in> set t. mi_id v \<in> set (map (mi_id \<circ> snd) (take n items)) \<longrightarrow>
        unprotected u prot r \<and> mi_id r \<notin> set (map (mi_id \<circ> snd) (take n items)) \<longrightarrow>
        (score (mi_id v), mi_updated_at v) \<le> (score (mi_id r), mi_updated_at r))"
proof -
  define score where "score = (\<lambda>k. the (map_of (map (\<lambda>(s, i). (mi_id i, s)) items) k))"
  have score: "score (mi_id i) = sc" if "(sc, i) \<in> set items" for sc i
  proof -
    have "map fst (map (\<lambda>(s, i). (mi_id i, s)) items) = map (mi_id \<circ> snd) items" by auto
    then have "distinct (map fst (map (\<lambda>(s, i). (mi_id i, s)) items))" using assms(3) by presburger
    then have "map_of (map (\<lambda>(s, i). (mi_id i, s)) items) (mi_id i) = Some sc"
      by (rule map_of_is_SomeI) (use that in force)
    then show ?thesis by (simp add: score_def)
  qed
  have item: "(score (mi_id r), row_to_memory_item r) \<in> set items" if r: "r \<in> set t" "unprotected u prot r" for r
  proof -
    obtain sc where sc: "(sc, row_to_memory_item r) \<in> set items" using unprotected_item [OF assms(2) r] by blast
    then show ?thesis using score [OF sc] by (simp add: row_to_memory_item_def)
  qed
  have scores: "\<exists>now \<in> future s. score (mi_id r) = memory_eviction_score x (row_to_memory_item r) now"
    if "r \<in> set t" "unprotected u prot r" for r
    using item [OF that] assms(4) by fastforce
  have order: "(score (mi_id v), mi_updated_at v) \<le> (score (mi_id r), mi_updated_at r)"
    if v: "v \<in> set t" "mi_id v \<in> set (map (mi_id \<circ> snd) (take n items))"
      and r: "r \<in> set t" "unprotected u prot r" "mi_id r \<notin> set (map (mi_id \<circ> snd) (take n items))" for v r
  proof -
    have "mi_id v \<in> (mi_id \<circ> snd) ` set items" using v(2) set_take_subset by fastforce
    then have "unprotected u prot v" by (rule victim_row [OF assms(2,5) v(1)])
    then have iv: "(score (mi_id v), row_to_memory_item v) \<in> set items" by (rule item [OF v(1)])
    obtain p where p: "p \<in> set (take n items)" "mi_id (snd p) = mi_id v" using v(2) by auto
    have "inj_on (mi_id \<circ> snd) (set items)" using assms(3) unfolding distinct_map by blast
    moreover have "p \<in> set items" using p(1) set_take_subset by fastforce
    moreover have "(mi_id \<circ> snd) p = (mi_id \<circ> snd) (score (mi_id v), row_to_memory_item v)"
      using p(2) by (simp add: row_to_memory_item_def)
    ultimately have "p = (score (mi_id v), row_to_memory_item v)" using iv by (blast dest: inj_onD)
    then have first: "(score (mi_id v), row_to_memory_item v) \<in> set (take n items)" using p(1) by simp
    have "(score (mi_id r), row_to_memory_item r) \<notin> set (take n items)"
      using r(3) by (force simp: row_to_memory_item_def)
    moreover have "set items = set (take n items) \<union> set (drop n items)" by (metis append_take_drop_id set_append)
    ultimately have "(score (mi_id r), row_to_memory_item r) \<in> set (drop n items)" using item [OF r(1,2)] by blast
    from take_drop_le [OF assms(1) first this] show ?thesis by (simp add: eviction_key_def row_to_memory_item_def)
  qed
  show ?thesis by (intro exI [of _ score] conjI ballI impI) (use scores order in blast)+
qed

lemma eviction_count:
  assumes "distinct_ids (ms_items st)" and "ms_items st' = map f (ms_items st)"
    and "\<forall>r \<in> set (ms_items st). if mi_id r \<in> set removed then marked_row r (f r) else f r = r"
    and "\<And>r. r \<in> set (ms_items st) \<Longrightarrow> mi_id r \<in> set removed \<Longrightarrow> unprotected u prot r"
    and "distinct removed" and "set removed \<subseteq> mi_id ` set (ms_items st)"
  shows "count_active u st' + int (length removed) = count_active u st"
    and "int (length (filter (\<lambda>r. active_of u r \<and> prot \<le> mi_importance r) (ms_items st')))
      = count_active u st - int (length (filter (unprotected u prot) (ms_items st)))"
proof -
  let ?t = "ms_items st"
  have active: "active_of u (f r) \<longleftrightarrow> active_of u r \<and> mi_id r \<notin> set removed" if "r \<in> set ?t" for r
    using assms(3) that by (auto simp: active_of_def marked_row_def split: if_splits)
  have "count_active u st' = int (length (filter (active_of u) (map f ?t)))"
    by (simp add: count_active_def active_of_def [abs_def] assms(2))
  also have "\<dots> = int (length (filter (\<lambda>r. active_of u r \<and> mi_id r \<notin> set removed) ?t))"
    using active by (simp add: filter_map o_def cong: filter_cong)
  moreover have "set removed \<subseteq> mi_id ` {r \<in> set ?t. active_of u r}"
    using assms(4,6) by (auto simp: unprotected_def)
  note removed_count [OF assms(1,5) this]
  ultimately show "count_active u st' + int (length removed) = count_active u st"
    by (simp add: count_active_def active_of_def [abs_def])
  have protected: "active_of u (f r) \<and> prot \<le> mi_importance (f r) \<longleftrightarrow> active_of u r \<and> prot \<le> mi_importance r"
    if "r \<in> set ?t" for r
    using active [OF that] assms(3) assms(4) [OF that] that by (auto simp: unprotected_def split: if_splits)
  have "length (filter (\<lambda>r. active_of u r \<and> prot \<le> mi_importance r) (ms_items st'))
      = length (filter (\<lambda>r. active_of u r \<and> prot \<le> mi_importance r) ?t)"
    using protected by (simp add: assms(2) filter_map o_def cong: filter_cong)
  moreover have "length (filter (active_of u) t)
      = length (filter (unprotected u prot) t) + length (filter (\<lambda>r. active_of u r \<and> prot \<le> mi_importance r) t)" for t
    by (induction t) (auto simp: unprotected_def)
  ultimately show "int (length (filter (\<lambda>r. active_of u r \<and> prot \<le> mi_importance r) (ms_items st')))
      = count_active u st - int (length (filter (unprotected u prot) ?t))"
    by (simp add: count_active_def active_of_def [abs_def])
qed



section \<open>The write gate\<close>

lemma starts_with_append: "starts_with s m \<Longrightarrow> starts_with (s @ b) m"
  by (induction s m rule: starts_with.induct) auto

lemma contains_append: "contains s m \<Longrightarrow> contains (a @ s @ b) m"
proof (induction a)
  case Nil
  then have "contains s m" by simp
  then show ?case
  proof (induction s)
    case Nil
    then show ?case by (cases b) auto
  next
    case (Cons c s)
    then show ?case using starts_with_append [of "c # s" m b] by auto
  qed
qed auto

lemma strip_infix: "\<exists>a b. s = a @ strip s @ b"
proof -
  have "lstrip s = strip s @ rev (takeWhile is_space (rev (lstrip s)))"
    unfolding strip_def rstrip_def
    by (metis rev_append rev_rev_ident takeWhile_dropWhile_id)
  moreover have "s = takeWhile is_space s @ lstrip s" by (simp add: lstrip_def)
  ultimately show ?thesis by metis
qed

lemma marked_strip: "marked_text (strip s) \<Longrightarrow> marked_text s"
proof -
  obtain a b where s: "s = a @ strip s @ b" using strip_infix by blast
  have "lower s = lower a @ lower (strip s) @ lower b" by (subst s) (simp add: lower_def)
  then show "marked_text (strip s) \<Longrightarrow> marked_text s" unfolding marked_text_def by (auto dest: contains_append)
qed

lemma strip_length: "length (strip s) \<le> length s"
proof -
  obtain a b where "s = a @ strip s @ b" using strip_infix by blast
  then have "length s = length a + length (strip s) + length b" by (metis add.assoc length_append)
  then show ?thesis by simp
qed

text \<open>What every candidate of a run satisfies.\<close>

definition proper_candidate :: "memory_policy \<Rightarrow> candidate \<Rightarrow> bool" where
  "proper_candidate p c \<longleftrightarrow> cd_scope c \<noteq> GLOBAL \<and> length (cd_content c) \<le> 400
     \<and> (cd_pending_confirmation c \<longleftrightarrow> cd_confidence c < mo_llm_confirm_threshold p)"

definition short_candidate :: "candidate \<Rightarrow> bool" where
  "short_candidate c \<longleftrightarrow> cd_scope c \<noteq> GLOBAL \<and> length (cd_content c) \<le> 400"

lemma dedupe_subset: "set (dedupe_candidates seen cs) \<subseteq> set cs"
  by (induction seen cs rule: dedupe_candidates.induct) auto

lemma those_mapped: "those (map f xs) = Some ys \<Longrightarrow> y \<in> set ys \<Longrightarrow> \<exists>x \<in> set xs. f x = Some y"
  by (induction xs arbitrary: ys) (auto split: option.splits)

lemma parse_scope_local [simp]: "parse_scope s \<noteq> GLOBAL"
  by (simp add: parse_scope_def)

lemma seeds_short: "seed_candidates seeds run = Some cs \<Longrightarrow> \<forall>c \<in> set cs. short_candidate c"
  by (auto simp: seed_candidates_def seed_candidate_def short_candidate_def dest!: those_mapped)

lemma rules_short: "extract_memory_candidates pr goal outs outcome run seeds = Some cs \<Longrightarrow> \<forall>c \<in> set cs. short_candidate c"
proof -
  assume "extract_memory_candidates pr goal outs outcome run seeds = Some cs"
  then obtain seeded where seeded: "seed_candidates seeds run = Some seeded"
    and cs: "set cs \<subseteq> set (seeded @ goal_candidates seeded (strip goal) outcome run @ output_candidates seeded outs run
           @ preference_candidates pr (strip goal) run)"
    unfolding extract_memory_candidates_def Let_def using dedupe_subset by blast
  have "\<forall>c \<in> set (goal_candidates seeded (strip goal) outcome run @ output_candidates seeded outs run
           @ preference_candidates pr (strip goal) run). short_candidate c"
    by (auto simp: goal_candidates_def output_candidates_def preference_candidates_def rule_candidate_def short_candidate_def
        split: option.splits)
  then show "\<forall>c \<in> set cs. short_candidate c" using cs seeds_short [OF seeded] by auto
qed

lemma llm_short: "llm_candidate run v = Some c \<Longrightarrow> short_candidate c"
  by (auto simp: llm_candidate_def Let_def short_candidate_def split: if_splits)

lemma candidates_proper:
  assumes "extract_memories_for_run p pr props goal outs outcome run seeds = Some cs"
  shows "\<forall>c \<in> set cs. proper_candidate p c"
proof -
  obtain rules where rules: "extract_memory_candidates pr goal outs outcome run seeds = Some rules"
    and cs: "cs = apply_pending_flags p (case if mo_llm_extract_enabled p then props else None of
        None \<Rightarrow> rules
      | Some items \<Rightarrow> (let llm_cs = List.map_filter (llm_candidate run) items
           in if llm_cs = [] then rules else merge_candidates rules llm_cs))"
    using assms by (auto simp: extract_memories_for_run_def)
  note short = rules_short [OF rules]
  have llm: "\<forall>c \<in> set (List.map_filter (llm_candidate run) items). short_candidate c" for items
    using llm_short by (auto simp: List.map_filter_def)
  have merged: "\<forall>c \<in> set (merge_candidates rules ls). short_candidate c" if "\<forall>c \<in> set ls. short_candidate c" for ls
    using that short dedupe_subset [of "map normalized_content ls" rules]
    by (auto simp: merge_candidates_def short_candidate_def)
  have "\<forall>c \<in> set (case if mo_llm_extract_enabled p then props else None of
        None \<Rightarrow> rules
      | Some items \<Rightarrow> (let llm_cs = List.map_filter (llm_candidate run) items
           in if llm_cs = [] then rules else merge_candidates rules llm_cs)). short_candidate c"
  proof (cases "if mo_llm_extract_enabled p then props else None")
    case (Some items)
    show ?thesis unfolding Some using merged [OF llm [of items]] short by (simp add: Let_def)
  qed (use short in simp)
  then show ?thesis unfolding cs by (simp add: apply_pending_flags_def proper_candidate_def short_candidate_def)
qed

text \<open>What a written item satisfies when the gate is on.\<close>

definition gated_memory :: "memory_policy \<Rightarrow> string \<Rightarrow> string \<Rightarrow> string \<Rightarrow> memory_item \<Rightarrow> bool" where
  "gated_memory p u t outcome r \<longleftrightarrow>
     mi_user_id r = u
     \<and> (mi_scope r = USER \<and> mi_thread_id r = None \<or> mi_scope r = SESSION \<and> mi_thread_id r = Some t)
     \<and> mi_content r \<noteq> [] \<and> length (mi_content r) \<le> 400 \<and> \<not> marked_text (mi_content r)
     \<and> mo_importance_min p \<le> mi_importance r \<and> mo_write_min_confidence p \<le> mi_confidence r
     \<and> (mi_pending_confirmation r \<or> mo_llm_confirm_threshold p \<le> mi_confidence r)
     \<and> (outcome = ''completed'' \<or> mi_memory_type r = FACT
        \<or> (mi_memory_type r \<in> {PREFERENCE, BEHAVIOR} \<and> mo_llm_confirm_threshold p \<le> mi_confidence r))"

definition passed_gate :: "memory_policy \<Rightarrow> string \<Rightarrow> candidate \<Rightarrow> bool" where
  "passed_gate p outcome c \<longleftrightarrow> proper_candidate p c \<and> strip (cd_content c) \<noteq> [] \<and> \<not> marked_text (cd_content c)
     \<and> mo_importance_min p \<le> cd_importance c \<and> mo_write_min_confidence p \<le> cd_confidence c \<and> stable_enough p outcome c"

lemma gate_passed:
  "conversion_skip_reason x p outcome c = [] \<Longrightarrow> mo_write_gate_enabled p \<Longrightarrow> proper_candidate p c \<Longrightarrow> passed_gate p outcome c"
  by (auto simp: conversion_skip_reason_def passed_gate_def candidate_dict_def split: if_splits)

definition from_gate :: "memory_policy \<Rightarrow> string \<Rightarrow> string \<Rightarrow> string \<Rightarrow> memory_item list \<Rightarrow> memory_item list \<Rightarrow> bool" where
  "from_gate p u t outcome old new \<longleftrightarrow>
     (\<forall>r \<in> set new. (\<exists>r0 \<in> set old. r = r0 \<or> marked_row r0 r) \<or> gated_memory p u t outcome r)"

lemma gated_marked: "gated_memory p u t outcome r \<Longrightarrow> marked_row r r' \<Longrightarrow> gated_memory p u t outcome r'"
  by (simp add: gated_memory_def marked_row_def)

lemma marked_trans: "marked_row a b \<Longrightarrow> marked_row b c \<Longrightarrow> marked_row a c"
  by (simp add: marked_row_def)

lemma from_gate_marks:
  assumes "from_gate p u t outcome old new" and "\<forall>r' \<in> set new'. \<exists>r \<in> set new. r' = r \<or> marked_row r r'"
  shows "from_gate p u t outcome old new'"
  unfolding from_gate_def
proof
  fix r' assume "r' \<in> set new'"
  then obtain r where "r \<in> set new" and r': "r' = r \<or> marked_row r r'" using assms(2) by blast
  then consider r0 where "r0 \<in> set old" "r = r0 \<or> marked_row r0 r" | "gated_memory p u t outcome r"
    using assms(1) unfolding from_gate_def by blast
  then show "(\<exists>r0 \<in> set old. r' = r0 \<or> marked_row r0 r') \<or> gated_memory p u t outcome r'"
  proof cases
    case 1
    then show ?thesis using r' marked_trans [of r0 r r'] by blast
  next
    case 2
    then show ?thesis using r' gated_marked by blast
  qed
qed

lemma from_gate_append: "from_gate p u t outcome old new \<Longrightarrow> gated_memory p u t outcome r \<Longrightarrow> from_gate p u t outcome old (new @ [r])"
  by (auto simp: from_gate_def)

subsection \<open>The writer\<close>

lemma deprecate_marks:
  assumes "distinct_ids (ms_items st)"
  shows "\<forall>r' \<in> set (ms_items (deprecate i h st)). \<exists>r \<in> set (ms_items st). r' = r \<or> marked_row r r'"
proof -
  obtain now h' where "ms_items (deprecate i h st) = update_where (\<lambda>r. mi_id r = i) (dep_row now h') (ms_items st)"
    using deprecate_eq(1) [OF assms] by blast
  moreover have "marked_row r (dep_row now h' r)" for r by (simp add: marked_row_def)
  ultimately show ?thesis unfolding update_where_def by auto
qed

lemma item_of_fields:
  assumes "item_of x u t c now old pend hist st = (i, st')"
  shows "ms_items st' = ms_items st" "mi_user_id i = u" "mi_thread_id i = (if cd_scope c = SESSION then Some t else None)"
    "mi_scope i = cd_scope c" "mi_memory_type i = cd_memory_type c" "mi_content i = strip (cd_content c)"
    "mi_importance i = cd_importance c" "mi_confidence i = cd_confidence c" "mi_pending_confirmation i = pend"
    "\<not> mi_is_deprecated i" "mi_content_hash i = content_hash x (strip (cd_content c))"
proof -
  obtain k st1 where k: "new_item_id st = (k, st1)" by (metis prod.exhaust)
  obtain e st2 where e: "expires_at_iso (cd_ttl_days c) st1 = (e, st2)" by (metis prod.exhaust)
  have "ms_items st1 = ms_items st" using k by (auto simp: new_item_id_def split: prod.splits)
  moreover have "ms_items st2 = ms_items st1"
    using e by (auto simp: expires_at_iso_def memory_now_eq split: option.splits if_splits)
  ultimately show "ms_items st' = ms_items st" using assms by (auto simp: item_of_def Let_def k e)
qed (use assms in \<open>auto simp: item_of_def Let_def split: prod.splits\<close>)

lemma passed_item:
  assumes "item_of x u t c now old pend hist st = (i, st')" and "passed_gate p outcome c"
    and "cd_pending_confirmation c \<longrightarrow> pend"
  shows "gated_memory p u t outcome (i\<lparr>mi_embedding := e\<rparr>)"
proof -
  note F = item_of_fields [OF assms(1)]
  have "cd_scope c = USER \<or> cd_scope c = SESSION"
    using assms(2) by (cases "cd_scope c") (simp_all add: passed_gate_def proper_candidate_def)
  then have "mi_scope i = USER \<and> mi_thread_id i = None \<or> mi_scope i = SESSION \<and> mi_thread_id i = Some t" using F(3,4) by auto
  moreover have "\<not> marked_text (mi_content i)" using assms(2) F(6) marked_strip by (auto simp: passed_gate_def)
  moreover have "length (mi_content i) \<le> 400"
    using assms(2) strip_length [of "cd_content c"] by (simp add: F(6) passed_gate_def proper_candidate_def)
  moreover have "outcome = ''completed'' \<or> mi_memory_type i = FACT
      \<or> (mi_memory_type i \<in> {PREFERENCE, BEHAVIOR} \<and> mo_llm_confirm_threshold p \<le> mi_confidence i)"
    using assms(2) by (auto simp: F passed_gate_def stable_enough_def)
  moreover have "pend \<or> mo_llm_confirm_threshold p \<le> mi_confidence i"
    using assms(2,3) by (auto simp: F passed_gate_def proper_candidate_def)
  ultimately show ?thesis
    using assms(2) by (auto simp: gated_memory_def F(2,6-9) passed_gate_def)
qed

lemma store_new_gate:
  assumes "store_new a old reason (item_of x u t c now o' pend hist st) = (r, st')" and "passed_gate p outcome c"
    and "cd_pending_confirmation c \<longrightarrow> pend" and "from_gate p u t outcome rows (ms_items st)"
  shows "from_gate p u t outcome rows (ms_items st')"
proof -
  obtain i st1 where i: "item_of x u t c now o' pend hist st = (i, st1)" by (metis prod.exhaust)
  have "gated_memory p u t outcome (i\<lparr>mi_embedding := encode_embedding i\<rparr>)" by (rule passed_item [OF i assms(2,3)])
  then show ?thesis
    using assms(1,4) item_of_fields(1) [OF i] by (auto simp: store_new_def i insert_item_def from_gate_append split: if_splits)
qed

lemma replace_gate:
  assumes "replace_item x p u t c now old st = (r, st')" and "passed_gate p outcome c"
    and "distinct_ids (ms_items st)" and "from_gate p u t outcome rows (ms_items st)"
  shows "from_gate p u t outcome rows (ms_items st')"
proof (cases "contradiction_pending_reason p old (strip (cd_content c)) (similarity (mi_content old) (strip (cd_content c))) = []")
  case True
  have "from_gate p u t outcome rows (ms_items (deprecate (mi_id old) h st))" for h
    by (rule from_gate_marks [OF assms(4) deprecate_marks [OF assms(3)]])
  then show ?thesis using assms(1) True store_new_gate [OF _ assms(2)] by (auto simp: replace_item_def Let_def)
next
  case False
  then show ?thesis using assms(1) store_new_gate [OF _ assms(2) _ assms(4)] by (auto simp: replace_item_def Let_def)
qed

lemma list_active_items: "list_active u t sc ip st = (is, st') \<Longrightarrow> ms_items st' = ms_items st"
  by (auto simp: list_active_def Let_def memory_now_eq)

lemma upsert_gate:
  assumes "upsert_candidate x p u t c st = (r, st')" and "passed_gate p outcome c"
    and "distinct_ids (ms_items st)" and "from_gate p u t outcome rows (ms_items st)"
  shows "from_gate p u t outcome rows (ms_items st')"
proof -
  obtain es st1 where l: "list_active u (Some t) None False st = (es, st1)" by (metis prod.exhaust)
  obtain now st2 where n: "memory_now st1 = (now, st2)" by (metis prod.exhaust)
  have same: "ms_items st1 = ms_items st" "ms_items st2 = ms_items st"
    using list_active_items [OF l] memory_now_items [of st1] n by simp_all
  have new: "from_gate p u t outcome rows (ms_items st')"
    if "store_new ''insert'' None [] (item_of x u t c now None (cd_pending_confirmation c) [] st2) = (r, st')"
    by (rule store_new_gate [OF that assms(2)]) (use assms(4) same in simp_all)
  have repl: "from_gate p u t outcome rows (ms_items st')" if "replace_item x p u t c now old st2 = (r, st')" for old
    by (rule replace_gate [OF that assms(2)]) (use assms(3,4) same in simp_all)
  have empty: "st' = st" if "strip (cd_content c) = [] \<or> cd_importance c < mo_importance_min p"
    using assms(1) that by (auto simp: upsert_candidate_def Let_def split: if_splits)
  show ?thesis
  proof (cases "strip (cd_content c) = [] \<or> cd_importance c < mo_importance_min p")
    case False
    then show ?thesis
      using assms(1,4) same new repl
      by (auto simp: upsert_candidate_def Let_def l n split: option.splits list.splits if_splits)
  qed (use empty assms(4) in simp)
qed

lemma write_gate:
  "write_candidates x p u t outcome cs st = (r, st') \<Longrightarrow> mo_write_gate_enabled p \<Longrightarrow> \<forall>c \<in> set cs. proper_candidate p c \<Longrightarrow>
   distinct_ids (ms_items st) \<Longrightarrow> from_gate p u t outcome rows (ms_items st) \<Longrightarrow> from_gate p u t outcome rows (ms_items st')"
proof (induction cs arbitrary: st st' r)
  case (Cons c cs)
  obtain a st1 where a: "(if conversion_skip_reason x p outcome c \<noteq> [] then (Inr (skip_result (conversion_skip_reason x p outcome c)), st)
      else upsert_candidate x p u t c st) = (a, st1)" by (metis prod.exhaust)
  have g1: "from_gate p u t outcome rows (ms_items st1)"
  proof (cases "conversion_skip_reason x p outcome c = []")
    case True
    then have "passed_gate p outcome c" using gate_passed Cons.prems(2,3) by auto
    then show ?thesis using upsert_gate Cons.prems(4,5) a True by auto
  qed (use a Cons.prems(5) in simp)
  have d1: "distinct_ids (ms_items st1)"
    using a Cons.prems(4) upsert_steps memory_steps_distinct by (cases "conversion_skip_reason x p outcome c = []") fastforce+
  obtain b st2 where b: "write_candidates x p u t outcome cs st1 = (b, st2)" by (metis prod.exhaust)
  have "from_gate p u t outcome rows (ms_items st2)" using Cons.IH [OF b Cons.prems(2) _ d1 g1] Cons.prems(3) by simp
  then show ?case using Cons.prems(1) g1 a b by (auto simp: Let_def split: sum.splits)
qed simp

lemma evict_marks:
  assumes "evict_lowest_score x u keep prot st = (rem, st')" and "distinct_ids (ms_items st)"
  shows "\<forall>r' \<in> set (ms_items st'). \<exists>r \<in> set (ms_items st). r' = r \<or> marked_row r r'"
proof -
  obtain sc st1 where s: "score_items x (filter (\<lambda>i. mi_importance i < prot) (kept_items u st)) st = (sc, st1)"
    by (metis prod.exhaust)
  have same: "ms_items st1 = ms_items st" using score_items_steps [OF s] by blast
  have "\<forall>r' \<in> set (ms_items (evict_items x vs st1)). \<exists>r \<in> set (ms_items st). r' = r \<or> marked_row r r'" for vs
  proof -
    obtain f where f: "ms_items (evict_items x vs st1) = map f (ms_items st1)"
      "\<forall>r \<in> set (ms_items st1). if mi_id r \<in> (mi_id \<circ> snd) ` set vs then marked_row r (f r) else f r = r"
      using evict_items_effect [of st1 x vs] assms(2) same by auto
    then have "f r = r \<or> marked_row r (f r)" if "r \<in> set (ms_items st1)" for r using that by (auto split: if_splits)
    then show ?thesis unfolding f(1) unfolding same by auto
  qed
  then show ?thesis using assms(1) by (auto simp: evict_lowest_score_def Let_def s split: if_splits)
qed

text \<open>
  C20. With the write gate on, the end of a run adds nothing to the memory that has not passed it: afterwards
  every item is one that was there before (unchanged, or marked as no longer valid), or an item of this user,
  for this thread or for all of theirs, with a text that is not empty, at most 400 characters long and without a
  session cookie, at least as important and as certain as the policy asks, and waiting for confirmation
  unless it is certain enough; from a run that did not complete there are only facts and certain preferences.
\<close>
theorem only_gated_memories:
  assumes "persist_run_memories x p pr props u t goal outs outcome run seeds st = (r, st')"
    and "mo_write_gate_enabled p" and "distinct_ids (ms_items st)"
  shows "\<forall>i \<in> set (ms_items st'). (\<exists>i0 \<in> set (ms_items st). i = i0 \<or> marked_row i0 i) \<or> gated_memory p u t outcome i"
proof -
  have start: "from_gate p u t outcome (ms_items st) (ms_items st)" by (auto simp: from_gate_def)
  obtain n st1 where e: "delete_expired st = (n, st1)" by (metis prod.exhaust)
  have sub: "set (ms_items st1) \<subseteq> set (ms_items st)" using e by (auto simp: delete_expired_def Let_def memory_now_eq)
  have g1: "from_gate p u t outcome (ms_items st) (ms_items st1)" using start sub by (auto simp: from_gate_def)
  have d1: "distinct_ids (ms_items st1)" using memory_steps_distinct [OF expired_steps [OF e, of x u "{}"] assms(3)] .
  have "from_gate p u t outcome (ms_items st) (ms_items st')"
  proof (cases "mo_long_term_enabled p \<and> extract_memories_for_run p pr props goal outs outcome run seeds \<noteq> None")
    case True
    then obtain cs where cs: "extract_memories_for_run p pr props goal outs outcome run seeds = Some cs" by blast
    obtain b st2 where b: "write_candidates x p u t outcome cs st1 = (b, st2)" by (metis prod.exhaust)
    note g2 = write_gate [OF b assms(2) candidates_proper [OF cs] d1 g1]
    have d2: "distinct_ids (ms_items st2)" using memory_steps_distinct [OF write_steps [OF b d1, of "{}"] d1] .
    obtain rem st3 where v: "evict_lowest_score x u (mo_max_items_per_user p) (mo_protected_importance p) st2 = (rem, st3)"
      by (metis prod.exhaust)
    have "st' = st2 \<or> st' = st3" using assms(1) True by (auto simp: persist_run_memories_def e cs b v split: sum.splits if_splits)
    then show ?thesis using g2 from_gate_marks [OF g2 evict_marks [OF v d2]] by blast
  next
    case False
    then have "st' = st \<or> st' = st1" using assms(1) by (auto simp: persist_run_memories_def e split: if_splits)
    then show ?thesis using start g1 by blast
  qed
  then show ?thesis by (simp add: from_gate_def)
qed

definition demo_run_end :: "memory_state \<Rightarrow> (pyerr + write_result list) \<times> memory_state" where
  "demo_run_end = persist_run_memories demo_memory_env default_memory_policy (\<lambda>_. None) None ''t'' ''t'' ''use redis'' []
     ''completed'' ''r1'' []"

theorem only_gated_memories_witness:
  "list_all (\<lambda>i. list_ex (\<lambda>i0. i = i0 \<or> marked_row i0 i) (ms_items demo_memory)
     \<or> gated_memory default_memory_policy ''t'' ''t'' ''completed'' i) (ms_items (snd (demo_run_end demo_memory)))"
proof -
  have d: "distinct_ids (ms_items demo_memory)" by code_simp
  have g: "mo_write_gate_enabled default_memory_policy" by code_simp
  have "demo_run_end demo_memory = (fst (demo_run_end demo_memory), snd (demo_run_end demo_memory))" by simp
  from only_gated_memories [OF this [unfolded demo_run_end_def] g d] show ?thesis unfolding demo_run_end_def list_all_iff list_ex_iff .
qed

section \<open>Writing twice\<close>

lemma inserted_row:
  assumes "store_new a old reason (item_of x u t c now o' pend hist st) = (Inr r, st')"
  shows "\<exists>i row. wr_item r = Some i \<and> row \<in> set (ms_items st') \<and> mi_user_id row = u \<and> mi_content_hash row = content_hash x (strip (cd_content c))
    \<and> \<not> mi_is_deprecated row \<and> mi_pending_confirmation row = pend \<and> mi_expires_at row = mi_expires_at i
    \<and> mi_thread_id row = (if cd_scope c = SESSION then Some t else None) \<and> mi_scope row = cd_scope c"
proof -
  obtain i st1 where i: "item_of x u t c now o' pend hist st = (i, st1)" by (metis prod.exhaust)
  note F = item_of_fields [OF i]
  have "wr_item r = Some i" "ms_items st' = ms_items st1 @ [i\<lparr>mi_embedding := encode_embedding i\<rparr>]"
    using assms by (auto simp: store_new_def i insert_item_def split: if_splits)
  then show ?thesis
    by (intro exI [of _ i] exI [of _ "i\<lparr>mi_embedding := encode_embedding i\<rparr>"]) (simp add: F)
qed

lemma store_new_action: "store_new a old reason n = (Inr r, st') \<Longrightarrow> wr_action r = a"
  by (auto simp: store_new_def split: prod.splits sum.splits)

lemma upsert_skips_listed:
  assumes "i \<in> set (fst (list_active u (Some t) None False st))" and "mi_content_hash i = content_hash x (strip (cd_content c))"
    and "strip (cd_content c) \<noteq> []" and "mo_importance_min p \<le> cd_importance c"
  shows "\<exists>r st'. upsert_candidate x p u t c st = (Inr r, st') \<and> wr_action r = ''dedup_skip'' \<and> ms_items st' = ms_items st"
proof -
  obtain es st1 where l: "list_active u (Some t) None False st = (es, st1)" by (metis prod.exhaust)
  obtain same where "find (\<lambda>i. mi_content_hash i = content_hash x (strip (cd_content c))) es = Some same"
    using assms(1,2) l by (cases "find (\<lambda>i. mi_content_hash i = content_hash x (strip (cd_content c))) es")
      (auto simp: find_None_iff)
  then show ?thesis using assms(3,4) list_active_items [OF l] by (simp add: upsert_candidate_def Let_def l)
qed

text \<open>
  Writing a memory is idempotent: after a candidate of a user or a thread was inserted or has superseded
  another item, and while its item has not expired, writing a candidate with the same words again is answered with
  \<open>dedup_skip\<close> and changes no row. This needs an item that does not wait for confirmation.
\<close>
theorem upsert_idempotent:
  assumes "upsert_candidate x p u t c st = (Inr r, st')" and "wr_action r \<in> {''insert'', ''supersede''}"
    and "\<not> cd_pending_confirmation c" and "cd_scope c \<noteq> GLOBAL"
    and "unexpired (fst (memory_now st')) (the (wr_item r))"
    and "content_hash x (strip (cd_content d)) = content_hash x (strip (cd_content c))" and "strip (cd_content d) \<noteq> []"
    and "mo_importance_min p \<le> cd_importance d"
  shows "\<exists>r2 st2. upsert_candidate x p u t d st' = (Inr r2, st2) \<and> wr_action r2 = ''dedup_skip'' \<and> ms_items st2 = ms_items st'"
proof -
  obtain es st1 where l: "list_active u (Some t) None False st = (es, st1)" by (metis prod.exhaust)
  obtain now st2 where n: "memory_now st1 = (now, st2)" by (metis prod.exhaust)
  have "\<exists>a old reason o' hist s. store_new a old reason (item_of x u t c now o' False hist s) = (Inr r, st')"
    using assms(1-3)
    by (auto simp: upsert_candidate_def Let_def l n replace_item_def skip_result_def
        split: if_splits option.splits list.splits dest: store_new_action) blast+
  then obtain i row where i: "wr_item r = Some i" and row: "row \<in> set (ms_items st')" "mi_user_id row = u"
      "mi_content_hash row = content_hash x (strip (cd_content c))" "\<not> mi_is_deprecated row" "\<not> mi_pending_confirmation row"
      "mi_expires_at row = mi_expires_at i" "mi_thread_id row = (if cd_scope c = SESSION then Some t else None)"
      "mi_scope row = cd_scope c"
    using inserted_row by metis
  have "in_thread (Some t) row" using row(7,8) assms(4) by (cases "cd_scope c") (simp_all add: in_thread_def)
  moreover have "unexpired (fst (memory_now st')) (row_to_memory_item row)"
    using assms(5) row(6) by (simp add: i unexpired_def row_to_memory_item_def)
  ultimately have "row_to_memory_item row \<in> set (fst (list_active u (Some t) None False st'))"
    using row by (auto simp: list_active_def Let_def by_recency_def in_scopes_def split: prod.splits)
  from upsert_skips_listed [OF this _ assms(7,8)] show ?thesis
    using row(3) assms(6) by (simp add: row_to_memory_item_def)
qed

definition demo_fact :: "bool \<Rightarrow> candidate" where
  "demo_fact pend = (rule_candidate USER FACT ''use redis'' (6 / 10) (3 / 4) ''r1'' None)\<lparr>cd_pending_confirmation := pend\<rparr>"

definition demo_write :: "bool \<Rightarrow> memory_state \<Rightarrow> (pyerr + write_result) \<times> memory_state" where
  "demo_write pend = upsert_candidate demo_memory_env default_memory_policy ''t'' ''t'' (demo_fact pend)"

definition write_action :: "(pyerr + write_result) \<times> memory_state \<Rightarrow> string" where
  "write_action w = (case fst w of Inl e \<Rightarrow> [] | Inr r \<Rightarrow> wr_action r)"

theorem upsert_idempotent_witness:
  "write_action (demo_write False (snd (demo_write False demo_memory))) = ''dedup_skip''"
proof -
  let ?w = "demo_write False demo_memory"
  have a: "write_action ?w = ''insert''" by code_simp
  then obtain r where r: "fst ?w = Inr r" "wr_action r = ''insert''"
    by (cases "fst ?w") (auto simp: write_action_def)
  have w: "upsert_candidate demo_memory_env default_memory_policy ''t'' ''t'' (demo_fact False) demo_memory = (Inr r, snd ?w)"
    using r(1) unfolding demo_write_def by (metis prod.collapse)
  have "(case fst ?w of Inl e \<Rightarrow> False | Inr r \<Rightarrow> (case wr_item r of Some i \<Rightarrow> mi_expires_at i = None | None \<Rightarrow> False))" by code_simp
  then have u: "unexpired (fst (memory_now (snd ?w))) (the (wr_item r))"
    using r(1) by (auto simp: unexpired_def split: option.splits)
  have c: "\<not> cd_pending_confirmation (demo_fact False)" "cd_scope (demo_fact False) \<noteq> GLOBAL"
    "strip (cd_content (demo_fact False)) \<noteq> []" "mo_importance_min default_memory_policy \<le> cd_importance (demo_fact False)"
    by code_simp+
  have "wr_action r \<in> {''insert'', ''supersede''}" using r(2) by simp
  from upsert_idempotent [OF w this c(1,2) u refl c(3,4)] show ?thesis
    by (auto simp: write_action_def demo_write_def)
qed

text \<open>
  An item that waits for confirmation is not among those compared: the same candidate is written again,
  at the end of every run that proposes it.
\<close>

lemma pending_written_again:
  "write_action (demo_write True demo_memory) = ''insert''
    \<and> write_action (demo_write True (snd (demo_write True demo_memory))) = ''insert''"
  by code_simp

end
