(* ===== verification/Retrieval.thy ===== *)
theory Retrieval
  imports PyValue Complex_Main
begin

text \<open>
  Retrieval of document chunks under a policy (\<^verbatim>\<open>copilot_agent/rag\<close>): the chunks (\<^verbatim>\<open>schema.py\<close>), the request and
  its result (\<^verbatim>\<open>contracts/retrieval.py, rag/request_context.py\<close>), the policy (\<^verbatim>\<open>policy_filter.py\<close>), the sparse
  scores (\<^verbatim>\<open>tokenize.py, keyword.py, bm25.py\<close>), their fusion (\<^verbatim>\<open>fusion.py\<close>), the router of queries
  (\<^verbatim>\<open>query_rewrite.py, query_router.py\<close>) and the store (\<^verbatim>\<open>retriever.py\<close>).

  Scores are exact rationals where the code has floats. The logarithm, \<^verbatim>\<open>sha256\<close>, regular expressions, the
  cross-encoder and the two ways to ask a vector index are parameters. Texts have code points below 256, so
  they have no Chinese tokens and match none of the patterns for open questions, which are Chinese.
\<close>

section \<open>Chunks\<close>

record doc_chunk =
  dc_source :: string
  dc_start_line :: int
  dc_text :: string
  dc_section_title :: string
  dc_heading_path :: string
  dc_doc_type :: string
  dc_api_endpoint :: "(string \<times> string) option"
  dc_tenant_id :: string
  dc_doc_id :: string
  dc_acl :: "string list"
  dc_classification :: string
  dc_pii_level :: string
  dc_authority :: int
  dc_page_number :: "int option"

type_synonym chunk_key = "string \<times> int"

definition dc_key :: "doc_chunk \<Rightarrow> chunk_key" where
  "dc_key c = (dc_source c, dc_start_line c)"

definition dc_chunk_id :: "(string \<Rightarrow> string) \<Rightarrow> doc_chunk \<Rightarrow> string" where
  "dc_chunk_id sha16 c = dc_source c @ '':'' @ int_str (dc_start_line c) @ '':'' @ sha16 (dc_text c)"

section \<open>Policy\<close>

record retrieval_request =
  rq_tenant_id :: string
  rq_user_id :: string
  rq_query :: string
  rq_purpose :: string
  rq_max_classification :: string
  rq_allowed_scopes :: "string list"
  rq_allow_high_pii :: bool

record retrieval_decision =
  rd_allowed :: bool
  rd_reason :: string
  rd_tenant_id :: string
  rd_doc_id :: string
  rd_chunk_id :: string
  rd_classification :: string
  rd_pii_level :: string
  rd_acl :: "string list"

definition CLASSIFICATION_ORDER :: "(string \<times> int) list" where
  "CLASSIFICATION_ORDER = [(''public'', 0), (''internal'', 1), (''confidential'', 2), (''secret'', 3)]"

definition classification_level :: "int \<Rightarrow> string \<Rightarrow> int" where
  "classification_level unknown_level v = (case map_of CLASSIFICATION_ORDER v of Some n \<Rightarrow> n | None \<Rightarrow> unknown_level)"

definition classification_allowed :: "string \<Rightarrow> string \<Rightarrow> bool" where
  "classification_allowed v max_classification \<longleftrightarrow>
     classification_level 99 v \<le> classification_level (- 1) max_classification"

definition request_scopes :: "retrieval_request \<Rightarrow> string list" where
  "request_scopes q = rq_allowed_scopes q
     @ (if rq_user_id q \<noteq> [] then [''user:'' @ rq_user_id q] else [])
     @ (if rq_tenant_id q \<noteq> [] then [''tenant:'' @ rq_tenant_id q] else [])"

definition refusal_reason :: "retrieval_request \<Rightarrow> doc_chunk \<Rightarrow> string option" where
  "refusal_reason q c =
     (if dc_tenant_id c \<noteq> rq_tenant_id q then Some ''tenant_mismatch''
      else if \<not> classification_allowed (dc_classification c) (rq_max_classification q) then Some ''classification_exceeds_request''
      else if dc_pii_level c = ''high'' \<and> \<not> rq_allow_high_pii q then Some ''high_pii_blocked''
      else if dc_acl c \<noteq> [] \<and> \<not> list_ex (\<lambda>s. s \<in> set (request_scopes q)) (dc_acl c) then Some ''acl_denied''
      else None)"

definition policy_evaluate :: "(string \<Rightarrow> string) \<Rightarrow> doc_chunk \<Rightarrow> retrieval_request \<Rightarrow> retrieval_decision" where
  "policy_evaluate sha16 c q =
     \<lparr>rd_allowed = (refusal_reason q c = None),
      rd_reason = (case refusal_reason q c of None \<Rightarrow> ''allowed'' | Some r \<Rightarrow> r),
      rd_tenant_id = dc_tenant_id c, rd_doc_id = dc_doc_id c, rd_chunk_id = dc_chunk_id sha16 c,
      rd_classification = dc_classification c, rd_pii_level = dc_pii_level c, rd_acl = dc_acl c\<rparr>"

fun pre_filter_with_decisions ::
    "(string \<Rightarrow> string) \<Rightarrow> doc_chunk list \<Rightarrow> retrieval_request \<Rightarrow> doc_chunk list \<times> retrieval_decision list" where
  "pre_filter_with_decisions sha16 [] q = ([], [])"
| "pre_filter_with_decisions sha16 (c # cs) q =
     (let d = policy_evaluate sha16 c q; (allowed, ds) = pre_filter_with_decisions sha16 cs q
      in (if rd_allowed d then c # allowed else allowed, d # ds))"

record retrieval_result =
  rr_request :: retrieval_request
  rr_allowed_chunks :: "doc_chunk list"
  rr_blocked_count :: int
  rr_retrieved_chunk_ids :: "string list"
  rr_allowed_chunk_ids :: "string list"
  rr_blocked_chunk_ids :: "string list"
  rr_prefilter_blocked_chunk_ids :: "string list"
  rr_prefilter_blocked_count :: int
  rr_policy_decisions :: "retrieval_decision list"

definition post_filter :: "(string \<Rightarrow> string) \<Rightarrow> doc_chunk list \<Rightarrow> retrieval_request \<Rightarrow> retrieval_result" where
  "post_filter sha16 cs q =
     (let decided = map (\<lambda>c. (c, policy_evaluate sha16 c q)) cs;
          allowed = map fst (filter (\<lambda>(c, d). rd_allowed d) decided);
          blocked = map (\<lambda>(c, d). dc_chunk_id sha16 c) (filter (\<lambda>(c, d). \<not> rd_allowed d) decided)
      in \<lparr>rr_request = q, rr_allowed_chunks = allowed, rr_blocked_count = int (length blocked),
          rr_retrieved_chunk_ids = map (dc_chunk_id sha16) cs, rr_allowed_chunk_ids = map (dc_chunk_id sha16) allowed,
          rr_blocked_chunk_ids = blocked, rr_prefilter_blocked_chunk_ids = [], rr_prefilter_blocked_count = 0,
          rr_policy_decisions = map snd decided\<rparr>)"

section \<open>Sparse scores\<close>

definition token_char :: "char \<Rightarrow> bool" where
  "token_char c = (let n = (of_char c :: nat) in
     (48 \<le> n \<and> n \<le> 57) \<or> (65 \<le> n \<and> n \<le> 90) \<or> (97 \<le> n \<and> n \<le> 122) \<or> c \<in> set ''_./:-'')"

fun token_runs :: "string \<Rightarrow> string \<Rightarrow> string list" where
  "token_runs cur [] = (if cur = [] then [] else [rev cur])"
| "token_runs cur (c # s) =
     (if token_char c then token_runs (c # cur) s
      else if cur = [] then token_runs [] s else rev cur # token_runs [] s)"

definition extract_ascii_tokens :: "string \<Rightarrow> string list" where
  "extract_ascii_tokens text = map lower (filter (\<lambda>t. 2 \<le> length t) (token_runs [] text))"

definition rag_tokenize :: "string \<Rightarrow> string list" where
  "rag_tokenize text = extract_ascii_tokens text"

definition rag_token_set :: "string \<Rightarrow> string list" where
  "rag_token_set text = remdups (rag_tokenize text)"

text \<open>\<open>s.count(t)\<close>: occurrences that do not overlap; the first argument counts the characters to skip.\<close>

fun occurrences :: "nat \<Rightarrow> string \<Rightarrow> string \<Rightarrow> nat" where
  "occurrences n t [] = 0"
| "occurrences (Suc n) t (c # s) = occurrences n t s"
| "occurrences 0 t (c # s) =
     (if starts_with (c # s) t then Suc (occurrences (length t - 1) t s) else occurrences 0 t s)"

definition score_chunk :: "doc_chunk \<Rightarrow> string list \<Rightarrow> nat" where
  "score_chunk c qt =
     (let low = lower (dc_text c);
          score = sum_list (map (\<lambda>t. occurrences 0 t low * (if 4 < length t then 3 else 1)) qt)
      in if score = 0 then length (filter (\<lambda>t. contains low t \<or> contains (dc_text c) t) qt) else score)"

text \<open>\<open>xs[:k]\<close>\<close>

definition head_slice :: "int \<Rightarrow> 'a list \<Rightarrow> 'a list" where
  "head_slice k xs = (if 0 \<le> k then take (nat k) xs else take (length xs - nat (- k)) xs)"

definition keyword_search :: "doc_chunk list \<Rightarrow> string \<Rightarrow> int \<Rightarrow> doc_chunk list" where
  "keyword_search chunks query top_k =
     (let qt = rag_token_set query;
          scored = filter (\<lambda>(s, c). 0 < s) (map (\<lambda>c. (score_chunk c qt, c)) chunks)
      in if qt = [] then []
         else map snd (head_slice top_k (sort_key (\<lambda>(s, c). (- int s, dc_source c, dc_start_line c)) scored)))"

type_synonym scores = "(chunk_key \<times> rat) list"

definition normalized :: "scores \<Rightarrow> scores" where
  "normalized raw =
     (if raw = [] then []
      else (let top = Max (set (map snd raw)); by = (if top = 0 then 1 else top) in map (\<lambda>(k, v). (k, v / by)) raw))"

fun score_all :: "(doc_chunk \<Rightarrow> rat) \<Rightarrow> doc_chunk list \<Rightarrow> scores \<Rightarrow> scores" where
  "score_all f [] raw = raw"
| "score_all f (c # cs) raw = score_all f cs (if 0 < f c then AList.update (dc_key c) (f c) raw else raw)"

definition keyword_scores :: "doc_chunk list \<Rightarrow> string \<Rightarrow> scores" where
  "keyword_scores chunks query =
     (let qt = rag_token_set query
      in if qt = [] then [] else normalized (score_all (\<lambda>c. rat_of_nat (score_chunk c qt)) chunks []))"

definition document_frequency :: "doc_chunk list \<Rightarrow> string \<Rightarrow> nat" where
  "document_frequency chunks t = length (filter (\<lambda>c. t \<in> set (rag_tokenize (dc_text c))) chunks)"

definition mean_length :: "doc_chunk list \<Rightarrow> rat" where
  "mean_length chunks =
     (if chunks = [] then 1
      else rat_of_nat (sum_list (map (\<lambda>c. length (rag_tokenize (dc_text c))) chunks)) / rat_of_nat (length chunks))"

definition bm25_term :: "(rat \<Rightarrow> rat) \<Rightarrow> doc_chunk list \<Rightarrow> string list \<Rightarrow> string \<Rightarrow> rat" where
  "bm25_term ln_of chunks tokens term =
     (let tf = rat_of_nat (count_list tokens term); df = rat_of_nat (document_frequency chunks term);
          n = rat_of_nat (length chunks); dl = rat_of_nat (length tokens)
      in if tf = 0 then 0
         else ln_of (1 + (n - df + 1 / 2) / (df + 1 / 2)) * (tf * (5 / 2))
                / (tf + 3 / 2 * (1 / 4 + 3 / 4 * dl / mean_length chunks)))"

definition bm25_scores :: "(rat \<Rightarrow> rat) \<Rightarrow> doc_chunk list \<Rightarrow> string \<Rightarrow> scores" where
  "bm25_scores ln_of chunks query =
     (let q_terms = rag_tokenize query
      in if q_terms = [] \<or> chunks = [] then []
         else normalized (score_all (\<lambda>c. sum_list (map (bm25_term ln_of chunks (rag_tokenize (dc_text c))) q_terms)) chunks []))"

section \<open>Fusion\<close>

definition DOC_TYPE_BOOST :: "(string \<times> rat) list" where
  "DOC_TYPE_BOOST = [(''api_contract'', 112 / 100), (''requirements'', 110 / 100), (''deploy'', 108 / 100),
     (''tech_selection'', 108 / 100), (''runbook'', 106 / 100), (''security'', 106 / 100), (''operations'', 105 / 100),
     (''algorithm'', 105 / 100), (''overview'', 1), (''doc'', 1)]"

definition ordered_scores :: "scores \<Rightarrow> scores" where
  "ordered_scores = sort_key (\<lambda>(k, v). (- v, k))"

definition rank_from_scores :: "scores \<Rightarrow> (chunk_key \<times> nat) list" where
  "rank_from_scores sc = map (\<lambda>(n, k, v). (k, n + 1)) (enumerate 0 (ordered_scores sc))"

definition get_or :: "'v \<Rightarrow> 'k \<Rightarrow> ('k \<times> 'v) list \<Rightarrow> 'v" where
  "get_or d k xs = (case map_of xs k of Some v \<Rightarrow> v | None \<Rightarrow> d)"

fun fuse_ranking :: "int \<Rightarrow> rat \<Rightarrow> (chunk_key \<times> nat) list \<Rightarrow> scores \<Rightarrow> scores" where
  "fuse_ranking k weight [] fused = fused"
| "fuse_ranking k weight ((key, rank) # rest) fused =
     fuse_ranking k weight rest
       (AList.update key (get_or 0 key fused + weight * (1 / (rat_of_int k + rat_of_nat rank))) fused)"

definition rrf_fuse :: "(chunk_key \<times> nat) list list \<Rightarrow> rat list \<Rightarrow> int \<Rightarrow> scores" where
  "rrf_fuse rankings weights k = fold (\<lambda>(r, w). fuse_ranking k w r) (zip rankings weights) []"

definition chunk_of :: "doc_chunk list \<Rightarrow> chunk_key \<Rightarrow> doc_chunk option" where
  "chunk_of chunks k = find_last (\<lambda>c. dc_key c = k) chunks"

definition apply_doc_type_boost :: "doc_chunk list \<Rightarrow> (string \<times> rat) list \<Rightarrow> bool \<Rightarrow> scores \<Rightarrow> scores" where
  "apply_doc_type_boost chunks hints enabled sc =
     (if \<not> enabled then sc
      else map (\<lambda>(k, v). (k, case chunk_of chunks k of
          None \<Rightarrow> v
        | Some c \<Rightarrow> v * get_or 1 (dc_doc_type c) DOC_TYPE_BOOST * get_or 1 (dc_doc_type c) hints)) sc)"

definition authority_of :: "doc_chunk \<Rightarrow> int" where
  "authority_of c = (if dc_authority c = 0 then 50 else dc_authority c)"

definition apply_authority_boost :: "doc_chunk list \<Rightarrow> bool \<Rightarrow> scores \<Rightarrow> scores" where
  "apply_authority_boost chunks enabled sc =
     (if \<not> enabled then sc
      else map (\<lambda>(k, v). (k, case chunk_of chunks k of
          None \<Rightarrow> v
        | Some c \<Rightarrow> v * (1 + rat_of_int (authority_of c - 50) * (2 / 1000)))) sc)"

definition dedup_key :: "doc_chunk \<Rightarrow> string \<times> string" where
  "dedup_key c = (dc_source c,
     if dc_heading_path c \<noteq> [] then dc_heading_path c
     else if dc_section_title c \<noteq> [] then dc_section_title c else int_str (dc_start_line c))"

text \<open>\<open>max(xs, key=f)\<close>: the first of the greatest.\<close>

fun first_max :: "('a \<Rightarrow> int) \<Rightarrow> 'a \<Rightarrow> 'a list \<Rightarrow> 'a" where
  "first_max f best [] = best"
| "first_max f best (x # xs) = first_max f (if f best < f x then x else best) xs"

fun dedup_groups :: "doc_chunk list \<Rightarrow> doc_chunk list list" where
  "dedup_groups [] = []"
| "dedup_groups (c # cs) =
     (c # filter (\<lambda>d. dedup_key d = dedup_key c) cs) # dedup_groups (filter (\<lambda>d. dedup_key d \<noteq> dedup_key c) cs)"

definition dedup_chunks :: "doc_chunk list \<Rightarrow> doc_chunk list" where
  "dedup_chunks chunks = map (\<lambda>g. first_max authority_of (hd g) (tl g)) (dedup_groups chunks)"

end
