(* ===== verification/RetrievalProps.thy ===== *)
theory RetrievalProps
  imports RagStore
begin

text \<open>
  What retrieval guarantees: a request sees only chunks it may read, its answer does not depend on the others,
  and the text for the model keeps its budget. Demonstrations show where a guarantee stops.
\<close>

section \<open>Policy\<close>

text \<open>Who may read a chunk.\<close>

definition may_read :: "retrieval_request \<Rightarrow> doc_chunk \<Rightarrow> bool" where
  "may_read q c \<longleftrightarrow>
     dc_tenant_id c = rq_tenant_id q
     \<and> (\<exists>a b. map_of CLASSIFICATION_ORDER (dc_classification c) = Some a
          \<and> map_of CLASSIFICATION_ORDER (rq_max_classification q) = Some b \<and> a \<le> b)
     \<and> (dc_pii_level c = ''high'' \<longrightarrow> rq_allow_high_pii q)
     \<and> (dc_acl c = [] \<or> (\<exists>scope \<in> set (dc_acl c). scope \<in> set (rq_allowed_scopes q)
          \<or> (rq_user_id q \<noteq> [] \<and> scope = ''user:'' @ rq_user_id q)
          \<or> (rq_tenant_id q \<noteq> [] \<and> scope = ''tenant:'' @ rq_tenant_id q)))"

lemma levels: "map_of CLASSIFICATION_ORDER v = Some n \<Longrightarrow> 0 \<le> n \<and> n \<le> 3"
  by (auto simp: CLASSIFICATION_ORDER_def split: if_splits)

lemma classification_allowed_iff:
  "classification_allowed v m \<longleftrightarrow>
   (\<exists>a b. map_of CLASSIFICATION_ORDER v = Some a \<and> map_of CLASSIFICATION_ORDER m = Some b \<and> a \<le> b)"
  using levels [of v] levels [of m]
  by (auto simp: classification_allowed_def classification_level_def split: option.splits)

lemma scopes_iff:
  "list_ex (\<lambda>s. s \<in> set (request_scopes q)) acl \<longleftrightarrow> (\<exists>scope \<in> set acl. scope \<in> set (rq_allowed_scopes q)
     \<or> (rq_user_id q \<noteq> [] \<and> scope = ''user:'' @ rq_user_id q) \<or> (rq_tenant_id q \<noteq> [] \<and> scope = ''tenant:'' @ rq_tenant_id q))"
  by (auto simp: request_scopes_def list_ex_iff)

lemma refusal_iff: "refusal_reason q c = None \<longleftrightarrow> may_read q c"
  unfolding refusal_reason_def may_read_def classification_allowed_iff scopes_iff by auto

lemma rd_allowed_iff [simp]: "rd_allowed (policy_evaluate h c q) \<longleftrightarrow> may_read q c"
  by (simp add: policy_evaluate_def refusal_iff)

lemma pre_filter_parts: "pre_filter_with_decisions h cs q = (filter (may_read q) cs, map (\<lambda>c. policy_evaluate h c q) cs)"
  by (induction cs) (simp_all add: Let_def)

lemma post_filter_allowed:
  "rr_allowed_chunks (post_filter h cs q) = filter (may_read q) cs"
  "rr_policy_decisions (post_filter h cs q) = map (\<lambda>c. policy_evaluate h c q) cs"
  "rr_blocked_count (post_filter h cs q) = int (length (filter (\<lambda>c. \<not> may_read q c) cs))"
  "rr_blocked_chunk_ids (post_filter h cs q) = map (dc_chunk_id h) (filter (\<lambda>c. \<not> may_read q c) cs)"
  by (simp_all add: post_filter_def Let_def filter_map o_def case_prod_unfold)

section \<open>Search\<close>

lemma chunk_of_member: "chunk_of cs k = Some c \<Longrightarrow> c \<in> set cs"
  by (auto simp: chunk_of_def find_last_def dest: find_SomeD)

lemma head_slice_set: "set (head_slice k xs) \<subseteq> set xs"
  by (auto simp: head_slice_def dest: in_set_takeD)

lemma collect_set: "set (collect_chunks cs n ks out) \<subseteq> set cs \<union> set out"
proof (induction cs n ks out rule: collect_chunks.induct)
  case (2 cs n k ks out)
  have "set (case chunk_of cs k of None \<Rightarrow> out | Some c \<Rightarrow> out @ [c]) \<subseteq> set cs \<union> set out"
    using chunk_of_member by (auto split: option.splits)
  then show ?case using 2 by (simp add: Let_def) blast
qed simp

lemma first_max_member: "first_max f b xs \<in> insert b (set xs)"
  by (induction f b xs rule: first_max.induct) (auto split: if_splits)

lemma dedup_groups_set: "g \<in> set (dedup_groups cs) \<Longrightarrow> g \<noteq> [] \<and> set g \<subseteq> set cs"
  by (induction cs rule: dedup_groups.induct) fastforce+

lemma dedup_set: "set (dedup_chunks cs) \<subseteq> set cs"
proof
  fix c assume "c \<in> set (dedup_chunks cs)"
  then obtain g where g: "g \<in> set (dedup_groups cs)" "c = first_max authority_of (hd g) (tl g)"
    by (auto simp: dedup_chunks_def)
  have "c \<in> set g" using first_max_member [of authority_of "hd g" "tl g"] dedup_groups_set [OF g(1)] g(2) by (cases g) auto
  then show "c \<in> set cs" using dedup_groups_set [OF g(1)] by blast
qed

lemma rerank_set: "set (rerank_chunks e s q cs k) \<subseteq> set cs"
  by (auto simp: rerank_chunks_def Let_def split: option.splits if_splits dest!: in_set_takeD dest: set_zip_rightD)

lemma keyword_search_set: "set (keyword_search cs q k) \<subseteq> set cs"
  using head_slice_set by (fastforce simp: keyword_search_def Let_def split: if_splits)

lemma finalize_set: "set (finalize_chunks e s cs k q) \<subseteq> set cs"
proof -
  define c where "c = (if rs_dedup_results s then dedup_chunks cs else cs)"
  have "finalize_chunks e s cs k q = (if rs_rerank_enabled s \<and> strip q \<noteq> [] then rerank_chunks e s q c k else head_slice k c)"
    by (simp add: finalize_chunks_def Let_def c_def)
  moreover have "set c \<subseteq> set cs" using dedup_set [of cs] by (simp add: c_def)
  ultimately show ?thesis using rerank_set [of e s q c k] head_slice_set [of k c] by (auto split: if_splits)
qed

lemma search_set: "set (se_chunks (search_detailed e s st q k)) \<subseteq> set (sr_chunks st)"
proof -
  have "set (finalize_chunks e s (keyword_search (sr_chunks st) q' n) k q'') \<subseteq> set (sr_chunks st)" for n q' q''
    using finalize_set keyword_search_set by blast
  moreover have "set (finalize_chunks e s (collect_chunks (sr_chunks st) n ks []) k q'') \<subseteq> set (sr_chunks st)" for n ks q''
    using finalize_set [of e s "collect_chunks (sr_chunks st) n ks []" k q''] collect_set [of "sr_chunks st" n ks "[]"] by auto
  ultimately show ?thesis using head_slice_set [of k "sr_chunks st"] by (simp add: search_detailed_def Let_def)
qed

lemma slice_length: "0 \<le> k \<Longrightarrow> int (length (head_slice k xs)) \<le> k"
  by (simp add: head_slice_def)

lemma take_nat_length: "0 \<le> k \<Longrightarrow> int (length (take (nat k) xs)) \<le> k"
  by simp

lemma rerank_length: "0 \<le> k \<Longrightarrow> int (length (rerank_chunks e s q cs k)) \<le> k"
  by (simp add: rerank_chunks_def Let_def take_nat_length del: length_take split: option.split)

lemma finalize_length: "0 \<le> k \<Longrightarrow> int (length (finalize_chunks e s cs k q)) \<le> k"
  by (simp add: finalize_chunks_def Let_def slice_length rerank_length)

lemma search_length: "0 \<le> k \<Longrightarrow> int (length (se_chunks (search_detailed e s st q k))) \<le> k"
  by (simp add: search_detailed_def Let_def finalize_length slice_length)

text \<open>The store a request is answered from.\<close>

definition scoped_store :: "rag_env \<Rightarrow> rag_store \<Rightarrow> retrieval_request \<Rightarrow> rag_store" where
  "scoped_store e st q =
     (let readable = filter (may_read q) (sr_chunks st) in
      if length readable = length (sr_chunks st) then st
      else \<lparr>sr_chunks = readable, sr_backend = sr_backend st, sr_allowlist = Some (map (dc_chunk_id (re_hash16 e)) readable),
            sr_tenant = Some (rq_tenant_id q)\<rparr>)"

lemma all_kept: "length (filter p xs) = length xs \<Longrightarrow> filter p xs = xs"
  using length_filter_less [of _ xs p] by (metis filter_True less_irrefl)

lemma scoped_chunks: "sr_chunks (scoped_store e st q) = filter (may_read q) (sr_chunks st)"
  by (simp add: scoped_store_def Let_def all_kept)

lemma policy_search_eq:
  "policy_aware_search e s st q k =
    (let d = search_detailed e s (scoped_store e st q) (rq_query q) k;
         blocked = filter (\<lambda>c. \<not> may_read q c) (sr_chunks st);
         r = post_filter (re_hash16 e) (se_chunks d) q
     in (\<lparr>se_chunks = se_chunks d, se_route = se_route d, se_search_query = se_search_query d\<rparr>,
         r\<lparr>rr_prefilter_blocked_chunk_ids := map (dc_chunk_id (re_hash16 e)) blocked,
           rr_prefilter_blocked_count := int (length blocked), rr_blocked_count := int (length blocked),
           rr_policy_decisions := map (\<lambda>c. policy_evaluate (re_hash16 e) c q) (blocked @ se_chunks d)\<rparr>))"
proof -
  have "set (se_chunks (search_detailed e s (scoped_store e st q) (rq_query q) k)) \<subseteq> {c. may_read q c}"
    using search_set [of e s "scoped_store e st q" "rq_query q" k] by (auto simp: scoped_chunks)
  then have all: "filter (may_read q) (se_chunks (search_detailed e s (scoped_store e st q) (rq_query q) k))
      = se_chunks (search_detailed e s (scoped_store e st q) (rq_query q) k)"
    and none: "filter (\<lambda>c. \<not> may_read q c) (se_chunks (search_detailed e s (scoped_store e st q) (rq_query q) k)) = []"
    by (auto simp: filter_id_conv filter_empty_conv)
  have id: "rd_chunk_id (policy_evaluate h c q) = dc_chunk_id h c" for h c by (simp add: policy_evaluate_def)
  have scoped: "(if length (filter (may_read q) (sr_chunks st)) = length (sr_chunks st) then search_detailed e s st (rq_query q) k
      else search_detailed e s \<lparr>sr_chunks = filter (may_read q) (sr_chunks st), sr_backend = sr_backend st,
        sr_allowlist = Some (map (dc_chunk_id (re_hash16 e)) (filter (may_read q) (sr_chunks st))),
        sr_tenant = Some (rq_tenant_id q)\<rparr> (rq_query q) k)
      = search_detailed e s (scoped_store e st q) (rq_query q) k"
    by (simp add: scoped_store_def Let_def)
  have blocked: "filter (\<lambda>d. \<not> rd_allowed d) (map (\<lambda>c. policy_evaluate (re_hash16 e) c q) cs)
      = map (\<lambda>c. policy_evaluate (re_hash16 e) c q) (filter (\<lambda>c. \<not> may_read q c) cs)" for cs
    by (simp add: filter_map o_def)
  show ?thesis
    unfolding policy_aware_search_def pre_filter_parts Let_def prod.case scoped blocked
    by (simp add: post_filter_allowed all none o_def id)
qed

text \<open>
  C10. A request is answered with chunks of the store it may read and no others, at most as many as it asked for:
  the chunk is of its tenant, of a known classification not above the request's, without high personal data
  unless allowed, and open to one of its scopes. The second filter finds nothing left to block, and the
  result accounts for exactly the chunks of the store the request may not read.
\<close>
theorem retrieval_policy_respected:
  assumes "policy_aware_search e s st q k = (r, result)"
  shows "(\<forall>c \<in> set (se_chunks r). c \<in> set (sr_chunks st) \<and> may_read q c)
    \<and> (0 \<le> k \<longrightarrow> int (length (se_chunks r)) \<le> k)
    \<and> rr_allowed_chunks result = se_chunks r \<and> rr_blocked_chunk_ids result = []
    \<and> rr_prefilter_blocked_chunk_ids result = map (dc_chunk_id (re_hash16 e)) (filter (\<lambda>c. \<not> may_read q c) (sr_chunks st))
    \<and> rr_blocked_count result = int (length (filter (\<lambda>c. \<not> may_read q c) (sr_chunks st)))
    \<and> map rd_chunk_id (filter (\<lambda>d. \<not> rd_allowed d) (rr_policy_decisions result)) = rr_prefilter_blocked_chunk_ids result"
proof -
  let ?d = "search_detailed e s (scoped_store e st q) (rq_query q) k"
  have sub: "set (se_chunks ?d) \<subseteq> {c \<in> set (sr_chunks st). may_read q c}"
    using search_set [of e s "scoped_store e st q" "rq_query q" k] by (auto simp: scoped_chunks)
  then have f: "filter (may_read q) (se_chunks ?d) = se_chunks ?d" "filter (\<lambda>c. \<not> may_read q c) (se_chunks ?d) = []"
    by (auto simp: filter_id_conv filter_empty_conv)
  have id: "rd_chunk_id (policy_evaluate h c q) = dc_chunk_id h c" for h c by (simp add: policy_evaluate_def)
  have r: "se_chunks r = se_chunks ?d" using assms by (simp add: policy_search_eq Let_def) (metis search_result.select_convs(1))
  have result: "rr_allowed_chunks result = se_chunks ?d" "rr_blocked_chunk_ids result = []"
    "rr_prefilter_blocked_chunk_ids result = map (dc_chunk_id (re_hash16 e)) (filter (\<lambda>c. \<not> may_read q c) (sr_chunks st))"
    "rr_blocked_count result = int (length (filter (\<lambda>c. \<not> may_read q c) (sr_chunks st)))"
    "rr_policy_decisions result = map (\<lambda>c. policy_evaluate (re_hash16 e) c q)
       (filter (\<lambda>c. \<not> may_read q c) (sr_chunks st) @ se_chunks ?d)"
    using assms f by (auto simp: policy_search_eq Let_def post_filter_allowed)
  show ?thesis
    using sub search_length [of k e s "scoped_store e st q" "rq_query q"]
    by (auto simp: r result filter_map o_def id f(2))
qed

lemma search_without_vectors:
  assumes "sr_chunks a = sr_chunks b" and "sr_backend a = none" and "sr_backend b = none"
    and "vb_retriever none = None" and "vb_collection none = None"
  shows "search_detailed e s a q k = search_detailed e s b q k"
proof -
  have v: "vector_enabled a = vector_enabled b" "vector_scores a = vector_scores b"
    using assms by (simp_all add: vector_enabled_def vector_scores_def fun_eq_iff)
  show ?thesis unfolding search_detailed_def query_route_def assms(1) v by (rule refl)
qed

text \<open>
  C19. Retrieval over the sparse scores does not leak: the chunks a request is answered with, their order, the route
  and the query that was searched are the same for two stores that have the same chunks the request may
  read, whatever else they hold. (The frequencies of terms and the mean length are those of the readable chunks.)
\<close>
theorem retrieval_noninterference:
  assumes "filter (may_read q) (sr_chunks a) = filter (may_read q) (sr_chunks b)"
    and "sr_backend a = none" and "sr_backend b = none" and "vb_retriever none = None" and "vb_collection none = None"
  shows "fst (policy_aware_search e s a q k) = fst (policy_aware_search e s b q k)"
proof -
  have "sr_backend (scoped_store e a q) = none" "sr_backend (scoped_store e b q) = none"
    using assms(2,3) by (simp_all add: scoped_store_def Let_def)
  then have "search_detailed e s (scoped_store e a q) (rq_query q) k = search_detailed e s (scoped_store e b q) (rq_query q) k"
    using search_without_vectors [OF _ _ _ assms(4,5)] assms(1) by (simp add: scoped_chunks)
  then show ?thesis by (simp add: policy_search_eq Let_def)
qed

section \<open>The text for the model\<close>

lemma select_within_total:
  "used \<le> m \<Longrightarrow> used + sum_list (map estimate_chunk_prompt_chars (select_within m used cs)) \<le> m"
proof (induction m used cs rule: select_within.induct)
  case (2 m used c cs)
  then show ?case by (cases "m < used + estimate_chunk_prompt_chars c") auto
qed simp

lemma select_within_set: "set (select_within m used cs) \<subseteq> set cs"
  by (induction m used cs rule: select_within.induct) auto

lemma select_set: "set (select_chunks_for_budget cs m) \<subseteq> set cs"
proof (cases "dedup_chunks cs")
  case (Cons c ds)
  then have "set (select_chunks_for_budget cs m) \<subseteq> set (c # ds)"
    using select_within_set [of m "estimate_chunk_prompt_chars c" ds] by (auto simp: select_chunks_for_budget_def)
  then show ?thesis using dedup_set [of cs] Cons by auto
qed (simp add: select_chunks_for_budget_def)

lemma select_total:
  "length (select_chunks_for_budget cs m) \<le> 1
   \<or> sum_list (map estimate_chunk_prompt_chars (select_chunks_for_budget cs m)) \<le> m"
  using select_within_total
  by (auto simp: select_chunks_for_budget_def not_less split: list.split)

lemma blocks_prefix: "\<exists>n. prompt_blocks m u cs = take n (map (\<lambda>c. chunk_header c @ dc_text c) cs)"
proof (induction m u cs rule: prompt_blocks.induct)
  case (2 m u c cs)
  then obtain n where n: "\<not> m < u + int (length (chunk_header c @ dc_text c)) \<Longrightarrow>
    prompt_blocks m (u + int (length (chunk_header c @ dc_text c))) cs = take n (map (\<lambda>c. chunk_header c @ dc_text c) cs)" by blast
  show ?case
  proof (cases "m < u + int (length (chunk_header c @ dc_text c))")
    case True
    then show ?thesis by (intro exI [of _ 0]) simp
  next
    case False
    then show ?thesis using n [OF False] by (intro exI [of _ "Suc n"]) simp
  qed
qed simp

lemma join_length: "xs \<noteq> [] \<Longrightarrow> length (join sep xs) + length sep = sum_list (map (\<lambda>x. length x + length sep) xs)"
  by (induction sep xs rule: join.induct) auto

lemma sum_take: "sum_list (map f (take n xs)) \<le> sum_list (map f xs)" for f :: "'a \<Rightarrow> nat"
  by (metis append_take_drop_id le_add1 map_append sum_list_append)

lemma estimate_sum:
  "int (sum_list (map (\<lambda>x. length x + 2) (map (\<lambda>c. chunk_header c @ dc_text c) cs)))
   = sum_list (map estimate_chunk_prompt_chars cs)"
  by (induction cs) (simp_all add: estimate_chunk_prompt_chars_def)

lemma format_length: "0 \<le> m \<Longrightarrow> int (length (format_chunks_for_prompt cs m)) \<le> m"
proof -
  assume m: "0 \<le> m"
  let ?sel = "select_chunks_for_budget cs m" and ?b = "\<lambda>c. chunk_header c @ dc_text c"
  obtain n where n: "prompt_blocks m 0 ?sel = take n (map ?b ?sel)" using blocks_prefix by blast
  show ?thesis
  proof (cases "prompt_blocks m 0 ?sel = []")
    case True
    then show ?thesis using m by (simp add: format_chunks_for_prompt_def)
  next
    case False
    consider c where "?sel = [c]" | "sum_list (map estimate_chunk_prompt_chars ?sel) \<le> m" "?sel \<noteq> []"
      using select_total [of cs m] False by (cases ?sel) (auto simp: Suc_le_eq)
    then show ?thesis
    proof cases
      case 1
      then show ?thesis using m by (simp add: format_chunks_for_prompt_def Let_def)
    next
      case 2
      have "length (join (newline @ newline) (prompt_blocks m 0 ?sel)) + 2
          = sum_list (map (\<lambda>x. length x + 2) (prompt_blocks m 0 ?sel))"
        using join_length [OF False, of "newline @ newline"] by (simp add: newline_def)
      also have "\<dots> \<le> sum_list (map (\<lambda>x. length x + 2) (map ?b ?sel))" unfolding n by (rule sum_take)
      also have "int \<dots> = sum_list (map estimate_chunk_prompt_chars ?sel)"
        by (rule estimate_sum)
      finally show ?thesis using 2(1) by (simp add: format_chunks_for_prompt_def)
    qed
  qed
qed

lemma rstrip_visible:
  assumes "h \<noteq> []" and "\<not> is_space (last h)"
  shows "rstrip (h @ x) = h @ rstrip x"
proof -
  have "dropWhile is_space (rev h) = rev h" using assms by (cases "rev h") (auto simp: hd_rev [symmetric])
  then show ?thesis by (simp add: rstrip_def dropWhile_append dropWhile_eq_Nil_conv)
qed

lemma lstrip_visible: "h \<noteq> [] \<Longrightarrow> \<not> is_space (hd h) \<Longrightarrow> lstrip (h @ x) = h @ x"
  by (cases h) (simp_all add: lstrip_def)

lemma header_strip: "strip (UNTRUSTED_RAG_CONTEXT_HEADER @ x) = UNTRUSTED_RAG_CONTEXT_HEADER @ rstrip x"
proof -
  have h: "UNTRUSTED_RAG_CONTEXT_HEADER \<noteq> []" "\<not> is_space (last UNTRUSTED_RAG_CONTEXT_HEADER)"
      "\<not> is_space (hd UNTRUSTED_RAG_CONTEXT_HEADER)" by code_simp+
  have "lstrip (UNTRUSTED_RAG_CONTEXT_HEADER @ x) = UNTRUSTED_RAG_CONTEXT_HEADER @ x"
    by (rule lstrip_visible [OF h(1,3)])
  then show ?thesis unfolding strip_def using rstrip_visible [OF h(1,2)] by simp
qed

lemma strip_le: "length (strip s) \<le> length s"
  using length_dropWhile_le [of is_space "rev (lstrip s)"] length_dropWhile_le [of is_space s]
  unfolding strip_def rstrip_def lstrip_def by simp


section \<open>A small store\<close>

definition demo_doc :: "string \<Rightarrow> int \<Rightarrow> string \<Rightarrow> string \<Rightarrow> doc_chunk" where
  "demo_doc src line tenant text_value =
     \<lparr>dc_source = src, dc_start_line = line, dc_text = text_value, dc_section_title = [], dc_heading_path = [],
      dc_doc_type = ''doc'', dc_api_endpoint = None, dc_tenant_id = tenant, dc_doc_id = src, dc_acl = [],
      dc_classification = ''internal'', dc_pii_level = ''none'', dc_authority = 50, dc_page_number = None\<rparr>"

definition demo_rag_env :: rag_env where
  "demo_rag_env = \<lparr>re_match = (\<lambda>p t. contains t p), re_ln = (\<lambda>v. v), re_hash16 = (\<lambda>t. take 4 t), re_predict = None\<rparr>"

definition demo_rag_settings :: rag_settings where
  "demo_rag_settings =
     \<lparr>rs_query_rewrite_enabled = False, rs_query_route_enabled = True, rs_keyword_weight = 1 / 2, rs_bm25_weight = 1,
      rs_vector_weight = 1, rs_fusion_candidate_multiplier = 3, rs_rerank_enabled = False, rs_rerank_candidates = 10,
      rs_rerank_max_chars = 100, rs_use_bm25 = True, rs_use_rrf = True, rs_rrf_k = 60, rs_doc_type_boost_enabled = True,
      rs_authority_boost_enabled = True, rs_dedup_results = True, rs_rewrite_rules = [], rs_doc_type_hints = []\<rparr>"

definition demo_request :: retrieval_request where
  "demo_request = \<lparr>rq_tenant_id = ''a'', rq_user_id = ''u'', rq_query = ''redis port'', rq_purpose = ''agent_context'',
     rq_max_classification = ''internal'', rq_allowed_scopes = [], rq_allow_high_pii = False\<rparr>"

definition no_vectors :: vector_backend where
  "no_vectors = \<lparr>vb_retriever = None, vb_collection = None\<rparr>"

definition demo_rag_store :: "doc_chunk list \<Rightarrow> vector_backend \<Rightarrow> rag_store" where
  "demo_rag_store cs vb = \<lparr>sr_chunks = cs, sr_backend = vb, sr_allowlist = None, sr_tenant = None\<rparr>"

definition demo_readable :: "doc_chunk list" where
  "demo_readable = [demo_doc ''x.md'' 1 ''a'' ''the redis port is 6379'', demo_doc ''y.md'' 1 ''a'' ''nothing'']"

definition demo_foreign :: doc_chunk where
  "demo_foreign = demo_doc ''z.md'' 1 ''b'' ''redis redis port''"

theorem retrieval_policy_respected_witness:
  "map dc_source (se_chunks (fst (policy_aware_search demo_rag_env demo_rag_settings
       (demo_rag_store (demo_readable @ [demo_foreign]) no_vectors) demo_request 6))) = [''x.md'']
    \<and> list_all (may_read demo_request) (se_chunks (fst (policy_aware_search demo_rag_env demo_rag_settings
       (demo_rag_store (demo_readable @ [demo_foreign]) no_vectors) demo_request 6)))"
proof -
  let ?r = "policy_aware_search demo_rag_env demo_rag_settings (demo_rag_store (demo_readable @ [demo_foreign]) no_vectors) demo_request 6"
  have "map dc_source (se_chunks (fst ?r)) = [''x.md'']" by code_simp
  then show ?thesis using retrieval_policy_respected [OF prod.collapse [of ?r, symmetric]] by (simp add: list_all_iff)
qed

theorem retrieval_noninterference_witness:
  "fst (policy_aware_search demo_rag_env demo_rag_settings (demo_rag_store (demo_readable @ [demo_foreign]) no_vectors) demo_request 6)
   = fst (policy_aware_search demo_rag_env demo_rag_settings (demo_rag_store demo_readable no_vectors) demo_request 6)"
proof -
  have "\<not> may_read demo_request demo_foreign" by (simp add: may_read_def demo_request_def demo_foreign_def demo_doc_def)
  then have "filter (may_read demo_request) (sr_chunks (demo_rag_store (demo_readable @ [demo_foreign]) no_vectors))
      = filter (may_read demo_request) (sr_chunks (demo_rag_store demo_readable no_vectors))"
    by (simp add: demo_rag_store_def)
  then show ?thesis
    by (rule retrieval_noninterference [where none = no_vectors]) (simp_all add: demo_rag_store_def no_vectors_def)
qed


text \<open>
  With a vector index the answer does depend on what the request may not read: the index cuts its list of hits
  before the allowlist is applied, so hits of other documents can leave no room for readable ones.
\<close>

definition demo_index :: "nat \<Rightarrow> vector_backend" where
  "demo_index n =
     (let hit = (\<lambda>src v. \<lparr>vh_chunk_id = src @ '':1:noth'', vh_tenant_id = ''a'', vh_source = src, vh_start_line = 1, vh_value = v\<rparr>)
      in \<lparr>vb_retriever = Some (\<lambda>q. Some (take n [hit ''w.md'' 1, hit ''y.md'' (9 / 10)])), vb_collection = None\<rparr>)"

lemma hits_crowded_out:
  "map fst (vector_scores (demo_rag_store demo_readable (demo_index 2)) ''port'') = [(''y.md'', 1)]
    \<and> vector_scores (demo_rag_store demo_readable (demo_index 1)) ''port'' = []"
  by code_simp

text \<open>
  A chunk longer than the whole budget is selected and named as a source, but it is not in the text; if it is the
  only one, the context does not count as truncated.
\<close>

lemma oversized_chunk_named:
  "(let g = build_guarded_context (take 4) [demo_doc ''x.md'' 1 ''a'' (replicate 400 CHR ''x'')] 400 True True
    in gc_source_files g = [''x.md''] \<and> \<not> gc_truncated g \<and> gc_markdown g = UNTRUSTED_RAG_CONTEXT_HEADER)"
  by code_simp

end
