(* ===== verification/ContextPack.thy ===== *)
theory ContextPack
  imports PyValue Complex_Main
begin

text \<open>
  Keeping the messages of a thread within their budget: the messages of one call
  (\<^verbatim>\<open>copilot_agent/context/packing.py\<close>), the checkpoint of the thread (\<^verbatim>\<open>context/checkpoint_pack.py\<close>) and the
  summary of its older part (\<^verbatim>\<open>memory/checkpoint_compactor.py\<close>, the sections of \<^verbatim>\<open>memory/schema.py\<close>).

  The graph library keeps the messages of a thread. What its reducer does with an update is a parameter: it
  gets the messages it has, the ids to remove and the new messages. Strings have code points below 256, so the
  Chinese markers of a decision or a failure cannot occur in them.
\<close>

section \<open>Messages\<close>

datatype msg_class = HumanMsg | AIMsg | ToolMsg | SystemMsg | OtherMsg string

record chat_msg =
  cm_class :: msg_class
  cm_content :: pyval
  cm_tool_calls :: "dict list"
  cm_tool_call_id :: string
  cm_name :: string
  cm_id :: "string option"

definition COMPACTION_PREFIX :: string where
  "COMPACTION_PREFIX = ''[CheckpointCompaction]''"

definition line_break :: string where
  "line_break = [CHR 0x0A]"

definition msg_text :: "chat_msg \<Rightarrow> string" where
  "msg_text m = str_or (cm_content m)"

definition message_content_chars :: "chat_msg \<Rightarrow> int" where
  "message_content_chars m = int (length (msg_text m))"

definition total_message_chars :: "chat_msg list \<Rightarrow> int" where
  "total_message_chars ms = sum_list (map message_content_chars ms)"

definition system_message :: "string \<Rightarrow> chat_msg" where
  "system_message t =
     \<lparr>cm_class = SystemMsg, cm_content = PStr t, cm_tool_calls = [], cm_tool_call_id = [], cm_name = [], cm_id = None\<rparr>"

text \<open>A copy without its id, with the fields its class keeps.\<close>

definition clone_message :: "chat_msg \<Rightarrow> chat_msg" where
  "clone_message m =
     \<lparr>cm_class = cm_class m, cm_content = cm_content m,
      cm_tool_calls = (if cm_class m = AIMsg then cm_tool_calls m else []),
      cm_tool_call_id = (if cm_class m = ToolMsg then cm_tool_call_id m else []),
      cm_name = (if cm_class m = ToolMsg then cm_name m else []), cm_id = None\<rparr>"

definition is_human :: "chat_msg \<Rightarrow> bool" where
  "is_human m \<longleftrightarrow> cm_class m = HumanMsg"

definition is_compaction_summary :: "chat_msg \<Rightarrow> bool" where
  "is_compaction_summary m \<longleftrightarrow> cm_class m = SystemMsg \<and> starts_with (msg_text m) COMPACTION_PREFIX"

section \<open>The messages of a call\<close>

definition msg_kind :: "chat_msg \<Rightarrow> string" where
  "msg_kind m =
     (if is_human m then ''user'' else if cm_class m \<noteq> SystemMsg then ''other''
      else if starts_with (msg_text m) ''[PreRetrievedDocs]'' then ''rag''
      else if starts_with (msg_text m) ''[EpisodicMemory]'' \<or> starts_with (msg_text m) ''[LongTermMemory]'' then ''memory''
      else if starts_with (msg_text m) ''Tool routing plan for this user turn'' then ''router''
      else ''system'')"

definition ellipsis_text :: "int \<Rightarrow> string \<Rightarrow> string" where
  "ellipsis_text n s = rstrip (take (nat (n - 3)) s) @ ''...''"

definition truncate_system :: "int \<Rightarrow> chat_msg \<Rightarrow> chat_msg" where
  "truncate_system max_chars m =
     (if message_content_chars m \<le> max_chars then m
      else if max_chars \<le> 3 then system_message (take (nat max_chars) (msg_text m))
      else system_message (ellipsis_text max_chars (msg_text m)))"

record pack_state =
  pk_messages :: "chat_msg list"
  pk_used :: int
  pk_steps :: "string list"

text \<open>Only the first message of the kind is considered.\<close>

fun trim_first :: "string \<Rightarrow> int \<Rightarrow> chat_msg list \<Rightarrow> (chat_msg list \<times> int) option" where
  "trim_first kind target [] = None"
| "trim_first kind target (m # ms) =
     (if msg_kind m \<noteq> kind \<or> cm_class m \<noteq> SystemMsg
      then map_option (\<lambda>(r, d). (m # r, d)) (trim_first kind target ms)
      else if message_content_chars m \<le> target then None
      else Some (truncate_system target m # ms, message_content_chars (truncate_system target m) - message_content_chars m))"

definition trim_kind :: "string \<Rightarrow> int \<Rightarrow> pack_state \<Rightarrow> pack_state option" where
  "trim_kind kind target p =
     map_option (\<lambda>(ms, d). \<lparr>pk_messages = ms, pk_used = pk_used p + d, pk_steps = pk_steps p @ [''truncated_'' @ kind]\<rparr>)
       (trim_first kind target (pk_messages p))"

fun drop_first :: "string \<Rightarrow> chat_msg list \<Rightarrow> (chat_msg list \<times> int) option" where
  "drop_first kind [] = None"
| "drop_first kind (m # ms) =
     (if msg_kind m \<noteq> kind then map_option (\<lambda>(r, d). (m # r, d)) (drop_first kind ms)
      else Some (ms, message_content_chars m))"

text \<open>The last message of the kind is dropped.\<close>

definition drop_kind :: "string \<Rightarrow> pack_state \<Rightarrow> pack_state option" where
  "drop_kind kind p =
     map_option (\<lambda>(ms, d). \<lparr>pk_messages = rev ms, pk_used = pk_used p - d, pk_steps = pk_steps p @ [''dropped_'' @ kind]\<rparr>)
       (drop_first kind (rev (pk_messages p)))"

fun run_steps :: "int \<Rightarrow> (pack_state \<Rightarrow> pack_state option) list \<Rightarrow> pack_state \<Rightarrow> pack_state" where
  "run_steps max_chars [] p = p"
| "run_steps max_chars (f # fs) p =
     (case f p of
        None \<Rightarrow> run_steps max_chars fs p
      | Some p' \<Rightarrow> if pk_used p' \<le> max_chars then p' else run_steps max_chars fs p')"

text \<open>The loop over the four steps ends after one pass in any case.\<close>

definition pack_graph_messages :: "bool \<Rightarrow> int \<Rightarrow> chat_msg list \<Rightarrow> pack_state" where
  "pack_graph_messages enabled max_chars messages =
     (let p = \<lparr>pk_messages = messages, pk_used = total_message_chars messages, pk_steps = []\<rparr>
      in if \<not> enabled \<or> max_chars \<le> 0 \<or> pk_used p \<le> max_chars then p
         else run_steps max_chars
           [trim_kind ''memory'' (max 200 (max_chars div 8)), trim_kind ''rag'' (max 400 (max_chars div 4)),
            drop_kind ''memory'', drop_kind ''rag''] p)"

section \<open>The summary of old messages\<close>

record compact_policy =
  cp_enabled :: bool
  cp_message_threshold :: int
  cp_keep_recent_turns :: int
  cp_summary_max_chars :: int

fun human_indices :: "nat \<Rightarrow> chat_msg list \<Rightarrow> nat list" where
  "human_indices n [] = []"
| "human_indices n (m # ms) = (if is_human m then n # human_indices (Suc n) ms else human_indices (Suc n) ms)"

definition split_messages :: "int \<Rightarrow> chat_msg list \<Rightarrow> chat_msg list \<times> chat_msg list" where
  "split_messages keep_turns ms =
     (let user = human_indices 0 ms
      in if int (length user) \<le> keep_turns then ([], ms)
         else (let i = user ! (length user - nat keep_turns) in (take i ms, drop i ms)))"

definition summary_text :: "pyval \<Rightarrow> string" where
  "summary_text c =
     (case c of
        PStr s \<Rightarrow> s
      | PList xs \<Rightarrow> join '' '' (List.map_filter (\<lambda>x.
            if is_dict x then (if dget (as_dict x) ''type'' = PStr ''text''
              then Some (py_str (dget_or (as_dict x) ''text'' (PStr []))) else None)
            else (case x of PStr s \<Rightarrow> Some s | _ \<Rightarrow> None)) xs)
      | _ \<Rightarrow> str_or c)"

definition has_any :: "string list \<Rightarrow> string \<Rightarrow> bool" where
  "has_any markers s \<longleftrightarrow> list_ex (contains s) markers"

definition looks_decision :: "string \<Rightarrow> bool" where
  "looks_decision s = has_any [''decide'', ''decision'', ''implemented'', ''completed'', ''fixed'', ''use ''] s"

definition looks_stale_or_failed :: "string \<Rightarrow> bool" where
  "looks_stale_or_failed s = has_any [''error'', ''failed'', ''cancelled'', ''rejected'', ''obsolete'', ''deprecated''] s"

datatype section_key = TaskContext | DecisionsMade | ImportantFacts | ToolResults | OpenQuestions | DoNotCarryForward

definition summary_bucket :: "msg_class \<Rightarrow> string \<Rightarrow> section_key" where
  "summary_bucket c text =
     (if looks_stale_or_failed (lower text) then DoNotCarryForward
      else case c of
        ToolMsg \<Rightarrow> ToolResults
      | HumanMsg \<Rightarrow> if CHR ''?'' \<in> set text then OpenQuestions else TaskContext
      | AIMsg \<Rightarrow> if looks_decision (lower text) then DecisionsMade else ImportantFacts
      | _ \<Rightarrow> ImportantFacts)"

fun message_role :: "msg_class \<Rightarrow> string" where
  "message_role HumanMsg = ''user''"
| "message_role AIMsg = ''assistant''"
| "message_role SystemMsg = ''system''"
| "message_role ToolMsg = ''tool''"
| "message_role (OtherMsg c) = lower c"

definition cut_summary :: "int \<Rightarrow> string \<Rightarrow> string" where
  "cut_summary n s = (if int (length s) \<le> n then s else ellipsis_text n s)"

definition is_memory_injection :: "string \<Rightarrow> bool" where
  "is_memory_injection s \<longleftrightarrow> list_ex (starts_with s) [''[MemoryContext]'', ''[EpisodicMemory]'', ''[LongTermMemory]'']"

record summary_section =
  sc_items :: "string list"
  sc_dropped_count :: int

type_synonym summary_model = "section_key \<Rightarrow> summary_section"

definition add_to_summary :: "int \<Rightarrow> chat_msg \<Rightarrow> summary_model \<Rightarrow> summary_model" where
  "add_to_summary per_section m b =
     (let text = strip (summary_text (cm_content m)) in
      if text = [] \<or> is_memory_injection text then b
      else (let key = summary_bucket (cm_class m) text;
                item = message_role (cm_class m) @ '': '' @ cut_summary 240 (join '' '' (words text))
            in b(key := if per_section \<le> int (length (sc_items (b key)))
                 then (b key)\<lparr>sc_dropped_count := sc_dropped_count (b key) + 1\<rparr>
                 else (b key)\<lparr>sc_items := sc_items (b key) @ [item]\<rparr>)))"

definition SECTIONS :: "(section_key \<times> string) list" where
  "SECTIONS = [(TaskContext, ''Task Context''), (DecisionsMade, ''Decisions Made''), (ImportantFacts, ''Important Facts''),
     (ToolResults, ''Tool Results''), (OpenQuestions, ''Open Questions''), (DoNotCarryForward, ''Do Not Carry Forward'')]"

definition build_summary_model :: "int \<Rightarrow> chat_msg list \<Rightarrow> summary_model" where
  "build_summary_model keep_turns ms =
     (let b = fold (add_to_summary (max 1 keep_turns)) ms (\<lambda>_. \<lparr>sc_items = [], sc_dropped_count = 0\<rparr>)
      in if list_all (\<lambda>(k, t). sc_items (b k) = []) SECTIONS
         then b(ImportantFacts := (b ImportantFacts)\<lparr>sc_items := [''No prior conversational content.'']\<rparr>) else b)"

definition section_lines :: "summary_model \<Rightarrow> section_key \<times> string \<Rightarrow> string list" where
  "section_lines b kt =
     (snd kt @ '':'') # (if sc_items (b (fst kt)) = [] then [''- none'']
        else map (\<lambda>i. ''- '' @ i) (sc_items (b (fst kt))))"

definition render_summary :: "int \<Rightarrow> summary_model \<Rightarrow> string" where
  "render_summary max_chars b =
     (let value = join line_break (''Earlier conversation summary (structured):'' # concat (map (section_lines b) SECTIONS))
      in if max_chars \<le> 0 then [] else cut_summary max_chars value)"

definition summary_message :: "int \<Rightarrow> int \<Rightarrow> chat_msg list \<Rightarrow> chat_msg" where
  "summary_message keep_turns max_chars ms =
     system_message (COMPACTION_PREFIX @ line_break @ render_summary max_chars (build_summary_model keep_turns ms))"

section \<open>The checkpoint\<close>

record checkpoint_state =
  ck_messages :: "chat_msg list"
  ck_interrupted :: bool

type_synonym reducer = "chat_msg list \<Rightarrow> string list \<Rightarrow> chat_msg list \<Rightarrow> chat_msg list"

definition remove_messages :: "chat_msg list \<Rightarrow> string list" where
  "remove_messages ms = List.map_filter (\<lambda>m. case cm_id m of Some i \<Rightarrow> if i = [] then None else Some i | None \<Rightarrow> None) ms"

definition update_messages :: "reducer \<Rightarrow> chat_msg list \<Rightarrow> checkpoint_state \<Rightarrow> checkpoint_state" where
  "update_messages reduce new st =
     st\<lparr>ck_messages := reduce (ck_messages st) (remove_messages (ck_messages st)) new\<rparr>"

definition compact_if_needed :: "reducer \<Rightarrow> compact_policy \<Rightarrow> checkpoint_state \<Rightarrow> string \<times> checkpoint_state" where
  "compact_if_needed reduce p st =
     (let ms = ck_messages st; keep_turns = max 1 (cp_keep_recent_turns p); (old, recent) = split_messages keep_turns ms
      in if \<not> cp_enabled p then (''disabled'', st)
         else if ck_interrupted st then (''has_interrupt'', st)
         else if int (length ms) \<le> cp_message_threshold p then (''below_threshold'', st)
         else if old = [] then (''nothing_to_compact'', st)
         else (''compacted'', update_messages reduce
                 (summary_message (cp_keep_recent_turns p) (cp_summary_max_chars p) old # recent) st))"

fun drop_oldest :: "chat_msg list \<Rightarrow> (string \<times> chat_msg list) option" where
  "drop_oldest [] = None"
| "drop_oldest (m # ms) =
     (if is_human m \<or> is_compaction_summary m then map_option (\<lambda>(n, r). (n, m # r)) (drop_oldest ms)
      else Some (case cm_class m of AIMsg \<Rightarrow> ''aimessage'' | ToolMsg \<Rightarrow> ''toolmessage'' | SystemMsg \<Rightarrow> ''systemmessage''
             | HumanMsg \<Rightarrow> ''humanmessage'' | OtherMsg c \<Rightarrow> lower c, ms))"

definition shortened :: "chat_msg \<Rightarrow> chat_msg" where
  "shortened m =
     (let content = msg_text m; target = max 80 (int (length content) div 2);
          m' = clone_message m\<lparr>cm_content := PStr (ellipsis_text target content)\<rparr>
      in case cm_class m of OtherMsg c \<Rightarrow> m | _ \<Rightarrow> m')"

fun truncate_oldest :: "chat_msg list \<Rightarrow> chat_msg list option" where
  "truncate_oldest [] = None"
| "truncate_oldest (m # ms) =
     (if is_human m \<or> is_compaction_summary m \<or> message_content_chars m \<le> 120
      then map_option (Cons m) (truncate_oldest ms) else Some (shortened m # ms))"

function drop_loop :: "int \<Rightarrow> chat_msg list \<Rightarrow> string list \<Rightarrow> chat_msg list \<times> string list" where
  "drop_loop budget ms steps =
     (if total_message_chars ms \<le> budget \<or> length ms \<le> 1 then (ms, steps)
      else case drop_oldest ms of
        None \<Rightarrow> (ms, steps)
      | Some (n, r) \<Rightarrow> drop_loop budget r (steps @ [''dropped_'' @ n]))"
  by pat_completeness auto

lemma drop_oldest_length: "drop_oldest ms = Some (n, r) \<Longrightarrow> length r < length ms"
  by (induction ms arbitrary: n r) (auto split: if_splits)

termination drop_loop
  by (relation "measure (\<lambda>(b, ms, s). length ms)") (auto dest: drop_oldest_length)

declare drop_loop.simps [simp del]

text \<open>The loop that shortens messages; it may not return.\<close>

partial_function (option) truncate_loop :: "int \<Rightarrow> chat_msg list \<Rightarrow> string list \<Rightarrow> (chat_msg list \<times> string list) option" where
  "truncate_loop budget ms steps =
     (if total_message_chars ms \<le> budget then Some (ms, steps)
      else case truncate_oldest ms of
        None \<Rightarrow> Some (ms, steps)
      | Some r \<Rightarrow> truncate_loop budget r (steps @ [''truncated_old_message'']))"

record pack_result =
  pr_compacted :: bool
  pr_reason :: string
  pr_persisted :: bool
  pr_message_count :: int
  pr_chars :: int
  pr_steps :: "string list"

definition unpacked :: "string \<Rightarrow> chat_msg list \<Rightarrow> pack_result" where
  "unpacked reason ms =
     \<lparr>pr_compacted = False, pr_reason = reason, pr_persisted = False, pr_message_count = int (length ms),
      pr_chars = total_message_chars ms, pr_steps = []\<rparr>"

text \<open>The older turns become a summary; with \<open>persist\<close> the checkpoint changes, without it only the working list.\<close>

definition summarize_prefix ::
    "reducer \<Rightarrow> compact_policy \<Rightarrow> bool \<Rightarrow> int \<Rightarrow> chat_msg list \<Rightarrow> string list \<Rightarrow> checkpoint_state \<Rightarrow>
     chat_msg list \<times> string list \<times> checkpoint_state" where
  "summarize_prefix reduce p persist target ms steps st =
     (let (old, recent) = split_messages (max 1 (cp_keep_recent_turns p)) ms;
          updated = summary_message 6 (cp_summary_max_chars p) old # map clone_message recent;
          st' = (if persist then update_messages reduce updated st else st)
      in if old = [] \<or> total_message_chars ms \<le> target then (ms, steps, st)
         else (if persist then ck_messages st' else updated, steps @ [''summarized_prefix''], st'))"

definition trim_checkpoint ::
    "reducer \<Rightarrow> bool \<Rightarrow> int \<Rightarrow> chat_msg list \<Rightarrow> string list \<Rightarrow> checkpoint_state \<Rightarrow> (pack_result \<times> checkpoint_state) option" where
  "trim_checkpoint reduce persist budget ms steps st =
     (let (dropped, steps1) = drop_loop budget (map clone_message ms) steps
      in map_option (\<lambda>(working, steps2).
           let changed = (steps2 \<noteq> steps);
               st = (if changed \<and> persist then update_messages reduce working st else st);
               final = (if persist then ck_messages st else if changed then working else ms)
           in (\<lparr>pr_compacted = (steps2 \<noteq> []), pr_reason = (if steps2 \<noteq> [] then ''char_budget'' else ''nothing_to_trim''),
                pr_persisted = (persist \<and> steps2 \<noteq> []), pr_message_count = int (length final),
                pr_chars = total_message_chars final, pr_steps = steps2\<rparr>, st))
         (truncate_loop budget dropped steps1))"

definition pack_checkpoint_for_budget ::
    "reducer \<Rightarrow> bool \<Rightarrow> compact_policy \<Rightarrow> bool \<Rightarrow> int \<Rightarrow> int \<Rightarrow> checkpoint_state \<Rightarrow> (pack_result \<times> checkpoint_state) option" where
  "pack_checkpoint_for_budget reduce enabled p persist max_total new_turn st =
     (let ms = ck_messages st in
      if \<not> enabled \<or> max_total \<le> 0 then Some (unpacked ''disabled'' ms, st)
      else if total_message_chars ms + new_turn \<le> max_total then Some (unpacked ''within_budget'' ms, st)
      else
        (let compact = (persist \<and> cp_enabled p \<and> cp_message_threshold p < int (length ms));
             (reason, st1) = (if compact then compact_if_needed reduce p st else ([], st));
             steps1 = (if reason = ''compacted'' then [''checkpoint_compactor''] else []);
             ms1 = ck_messages st1
         in if reason = ''compacted'' \<and> total_message_chars ms1 + new_turn \<le> max_total
            then Some (\<lparr>pr_compacted = True, pr_reason = ''compactor'', pr_persisted = True,
                   pr_message_count = int (length ms1), pr_chars = total_message_chars ms1, pr_steps = steps1\<rparr>, st1)
            else (case summarize_prefix reduce p persist (max 0 (max_total - new_turn)) ms1 steps1 st1 of
                (ms2, steps2, st2) \<Rightarrow> trim_checkpoint reduce persist (max_total - new_turn) ms2 steps2 st2)))"

end
