(* ===== verification/ContextProps.thy ===== *)
theory ContextProps
  imports ContextPack "HOL-Library.Sublist" "HOL-Library.Multiset"
begin

text \<open>
  What packing keeps and what it gives up: it returns, recent messages of the user survive, and a thread that is
  still too long has nothing left to shorten. Demonstrations show where a guarantee stops.
\<close>

section \<open>The loops over a checkpoint\<close>

definition humans :: "chat_msg list \<Rightarrow> pyval list" where
  "humans ms = map cm_content (filter is_human ms)"

definition plain_msg :: "chat_msg \<Rightarrow> bool" where
  "plain_msg m \<longleftrightarrow> cm_class m \<in> {HumanMsg, AIMsg, ToolMsg, SystemMsg}"

definition fixed_msg :: "chat_msg \<Rightarrow> bool" where
  "fixed_msg m \<longleftrightarrow> is_human m \<or> is_compaction_summary m"

lemma humans_simps [simp]:
  "humans [] = []" "humans (m # ms) = (if is_human m then cm_content m # humans ms else humans ms)"
  "humans (xs @ ys) = humans xs @ humans ys"
  by (simp_all add: humans_def)

lemma clone_facts [simp]:
  "is_human (clone_message m) = is_human m" "cm_content (clone_message m) = cm_content m" "cm_class (clone_message m) = cm_class m"
  "message_content_chars (clone_message m) = message_content_chars m" "msg_text (clone_message m) = msg_text m"
  "plain_msg (clone_message m) = plain_msg m"
  by (simp_all add: clone_message_def is_human_def message_content_chars_def msg_text_def plain_msg_def)

lemma clones [simp]:
  "humans (map clone_message ms) = humans ms" "total_message_chars (map clone_message ms) = total_message_chars ms"
  by (induction ms) (simp_all add: total_message_chars_def)

lemma drop_oldest_parts:
  "drop_oldest ms = Some (n, r) \<Longrightarrow> humans r = humans ms \<and> set r \<subseteq> set ms"
  by (induction ms arbitrary: n r) (auto split: if_splits)

lemma drop_oldest_none: "drop_oldest ms = None \<longleftrightarrow> list_all fixed_msg ms"
  by (induction ms) (auto simp: fixed_msg_def)

lemma drop_loop_parts:
  "drop_loop b ms steps = (ms', steps') \<Longrightarrow>
   (total_message_chars ms' \<le> b \<or> length ms' \<le> 1 \<or> list_all fixed_msg ms') \<and> humans ms' = humans ms \<and> set ms' \<subseteq> set ms
   \<and> (\<exists>new. steps' = steps @ new \<and> (new = [] \<longrightarrow> ms' = ms))"
proof (induction b ms steps arbitrary: ms' steps' rule: drop_loop.induct)
  case (1 b ms steps)
  show ?case
  proof (cases "total_message_chars ms \<le> b \<or> length ms \<le> 1")
    case True
    then show ?thesis using "1.prems" by (auto simp: drop_loop.simps [of b ms])
  next
    case False
    show ?thesis
    proof (cases "drop_oldest ms")
      case None
      have "list_all fixed_msg ms" using None drop_oldest_none by blast
      moreover have "ms' = ms" "steps' = steps" using "1.prems" False None by (auto simp: drop_loop.simps [of b ms])
      ultimately show ?thesis by simp
    next
      case (Some p)
      obtain n r where p: "p = (n, r)" by (metis prod.exhaust)
      have "drop_loop b r (steps @ [''dropped_'' @ n]) = (ms', steps')"
        using "1.prems" False Some p by (simp add: drop_loop.simps [of b ms])
      from "1.IH" [OF False Some p [symmetric] this] drop_oldest_parts [OF Some [unfolded p]] show ?thesis by auto
    qed
  qed
qed

lemma ellipsis_length: "3 \<le> n \<Longrightarrow> int (length (ellipsis_text n s)) \<le> n"
proof -
  assume "3 \<le> n"
  have "length (rstrip t) \<le> length t" for t :: string
    using length_dropWhile_le [of is_space "rev t"] by (simp add: rstrip_def)
  from this [of "take (nat (n - 3)) s"] have "length (rstrip (take (nat (n - 3)) s)) \<le> nat (n - 3)" by simp
  then show ?thesis using \<open>3 \<le> n\<close> unfolding ellipsis_text_def by simp
qed

lemma py_or_str: "str_or (PStr s) = s"
  by (simp add: str_or_def py_or_def)

lemma shortened_facts:
  assumes "plain_msg m" and "\<not> is_human m" and "120 < message_content_chars m"
  shows "message_content_chars (shortened m) < message_content_chars m" "cm_class (shortened m) = cm_class m"
proof -
  have c: "cm_class m \<in> {AIMsg, ToolMsg, SystemMsg}" using assms(1,2) by (auto simp: plain_msg_def is_human_def)
  define target where "target = max 80 (message_content_chars m div 2)"
  have s: "shortened m = clone_message m\<lparr>cm_content := PStr (ellipsis_text target (msg_text m))\<rparr>"
    using c by (auto simp: shortened_def Let_def target_def message_content_chars_def)
  then have "message_content_chars (shortened m) = int (length (ellipsis_text target (msg_text m)))"
    by (simp add: message_content_chars_def msg_text_def py_or_str)
  also have "\<dots> \<le> target" by (rule ellipsis_length) (simp add: target_def)
  also have "target < message_content_chars m" using assms(3) by (simp add: target_def)
  finally show "message_content_chars (shortened m) < message_content_chars m" .
  show "cm_class (shortened m) = cm_class m" by (simp add: s)
qed

lemma truncate_oldest_parts:
  "truncate_oldest ms = Some r \<Longrightarrow> list_all plain_msg ms \<Longrightarrow>
   total_message_chars r < total_message_chars ms \<and> humans r = humans ms \<and> length r = length ms \<and> list_all plain_msg r
   \<and> \<not> list_all fixed_msg ms"
proof (induction ms arbitrary: r)
  case (Cons m ms)
  show ?case
  proof (cases "fixed_msg m \<or> message_content_chars m \<le> 120")
    case True
    then obtain r' where r': "truncate_oldest ms = Some r'" "r = m # r'" using Cons.prems(1) by (auto simp: fixed_msg_def)
    then show ?thesis using Cons.IH [OF r'(1)] Cons.prems(2) by (simp add: total_message_chars_def)
  next
    case False
    then have "r = shortened m # ms" "\<not> is_human m" using Cons.prems(1) by (auto simp: fixed_msg_def)
    moreover note shortened_facts [of m]
    ultimately show ?thesis
      using False Cons.prems(2) by (simp add: total_message_chars_def plain_msg_def is_human_def)
  qed
qed simp

lemma truncate_none: "truncate_oldest ms = None \<longleftrightarrow> list_all (\<lambda>m. fixed_msg m \<or> message_content_chars m \<le> 120) ms"
  by (induction ms) (auto simp: fixed_msg_def)

lemma total_nonneg: "0 \<le> total_message_chars ms"
  by (induction ms) (simp_all add: total_message_chars_def message_content_chars_def)

lemma truncate_loop_parts:
  "list_all plain_msg ms \<Longrightarrow>
   \<exists>ms' new. truncate_loop b ms steps = Some (ms', steps @ new) \<and> humans ms' = humans ms \<and> length ms' = length ms
     \<and> list_all plain_msg ms' \<and> (new = [] \<longrightarrow> ms' = ms) \<and> (list_all fixed_msg ms \<longrightarrow> ms' = ms)
     \<and> (total_message_chars ms' \<le> b \<or> list_all (\<lambda>m. fixed_msg m \<or> message_content_chars m \<le> 120) ms')"
proof (induction "nat (total_message_chars ms)" arbitrary: ms steps rule: less_induct)
  case less
  show ?case
  proof (cases "total_message_chars ms \<le> b \<or> truncate_oldest ms = None")
    case True
    then have "truncate_loop b ms steps = Some (ms, steps)" by (auto simp: truncate_loop.simps)
    then show ?thesis using True truncate_none less.prems by (intro exI [of _ ms] exI [of _ "[]"]) auto
  next
    case False
    then obtain r where r: "truncate_oldest ms = Some r" by auto
    note parts = truncate_oldest_parts [OF r less.prems]
    have "nat (total_message_chars r) < nat (total_message_chars ms)" using parts total_nonneg [of r] by simp
    from less.hyps [OF this] parts obtain ms' new where
      "truncate_loop b r (steps @ [''truncated_old_message'']) = Some (ms', (steps @ [''truncated_old_message'']) @ new)"
      "humans ms' = humans r" "length ms' = length r" "list_all plain_msg ms'"
      "total_message_chars ms' \<le> b \<or> list_all (\<lambda>m. fixed_msg m \<or> message_content_chars m \<le> 120) ms'" by blast
    then show ?thesis using False r parts
      by (intro exI [of _ ms'] exI [of _ "''truncated_old_message'' # new"]) (simp add: truncate_loop.simps [of b ms])
  qed
qed

section \<open>The summary of old turns\<close>

lemma human_index_count:
  "j < length (human_indices n ms) \<Longrightarrow> n \<le> human_indices n ms ! j
   \<and> length (filter is_human (drop (human_indices n ms ! j - n) ms)) = length (human_indices n ms) - j"
proof (induction ms arbitrary: n j)
  case (Cons m ms)
  have len: "length (human_indices k ms) = length (filter is_human ms)" for k by (induction ms arbitrary: k) auto
  show ?case
  proof (cases "is_human m \<and> j = 0")
    case True
    then show ?thesis by (simp add: len)
  next
    case False
    define j' where "j' = (if is_human m then j - 1 else j)"
    have hi: "human_indices n (m # ms) ! j = human_indices (Suc n) ms ! j'" using False by (auto simp: j'_def nth_Cons')
    have "j' < length (human_indices (Suc n) ms)" using Cons.prems False by (auto simp: j'_def split: if_splits)
    from Cons.IH [OF this] have IH: "Suc n \<le> human_indices (Suc n) ms ! j'"
      "length (filter is_human (drop (human_indices (Suc n) ms ! j' - Suc n) ms)) = length (human_indices (Suc n) ms) - j'" by auto
    have "human_indices (Suc n) ms ! j' - n = Suc (human_indices (Suc n) ms ! j' - Suc n)" using IH(1) by simp
    then show ?thesis using IH hi False Cons.prems by (auto simp: j'_def)
  qed
qed simp

definition keeps_recent :: "int \<Rightarrow> chat_msg list \<Rightarrow> chat_msg list \<Rightarrow> bool" where
  "keeps_recent k a b \<longleftrightarrow> suffix (humans b) (humans a) \<and> min k (int (length (humans a))) \<le> int (length (humans b))"

lemma keeps_recent_refl: "humans a = humans b \<Longrightarrow> keeps_recent k a b"
  by (simp add: keeps_recent_def)

lemma keeps_recent_trans: "keeps_recent k a b \<Longrightarrow> keeps_recent k b c \<Longrightarrow> keeps_recent k a c"
  by (auto simp: keeps_recent_def intro: suffix_order.trans)

lemma split_keeps:
  assumes "split_messages k ms = (old, recent)" and "1 \<le> k"
  shows "keeps_recent k ms recent" "set recent \<subseteq> set ms" "old = [] \<longrightarrow> recent = ms"
proof -
  let ?u = "human_indices 0 ms"
  define i where "i = ?u ! (length ?u - nat k)"
  have "keeps_recent k ms recent \<and> set recent \<subseteq> set ms \<and> (old = [] \<longrightarrow> recent = ms)"
  proof (cases "int (length ?u) \<le> k")
    case True
    then show ?thesis using assms(1) by (simp add: split_messages_def Let_def keeps_recent_refl)
  next
    case False
    then have r: "old = take i ms" "recent = drop i ms" using assms(1) by (simp_all add: split_messages_def Let_def i_def)
    have "length ?u - nat k < length ?u" using False assms(2) by linarith
    from human_index_count [OF this] have "length (filter is_human (drop i ms)) = nat k" using False by (simp add: i_def)
    then have "int (length (humans recent)) = k" using assms(2) by (simp add: humans_def r)
    moreover have "humans ms = humans old @ humans recent" by (simp add: r flip: humans_simps(3))
    ultimately show ?thesis using r by (auto simp: keeps_recent_def suffix_def dest: in_set_dropD)
  qed
  then show "keeps_recent k ms recent" "set recent \<subseteq> set ms" "old = [] \<longrightarrow> recent = ms" by auto
qed

lemma summary_message_facts:
  "\<not> is_human (summary_message a b old)" "plain_msg (summary_message a b old)" "is_compaction_summary (summary_message a b old)"
proof -
  have "starts_with (a @ b) a" for a b :: string by (induction a) auto
  then show "\<not> is_human (summary_message a b old)" "plain_msg (summary_message a b old)" "is_compaction_summary (summary_message a b old)"
    by (simp_all add: summary_message_def system_message_def is_human_def plain_msg_def is_compaction_summary_def msg_text_def py_or_str)
qed

section \<open>The checkpoint\<close>

text \<open>
  What the graph library documents of an update that removes every message and adds new ones: the new ones are
  there, with ids, and those of the user are in their order.
\<close>

definition without_id :: "chat_msg \<Rightarrow> chat_msg" where
  "without_id m = m\<lparr>cm_id := None\<rparr>"

definition replaces :: "reducer \<Rightarrow> bool" where
  "replaces reduce \<longleftrightarrow> (\<forall>old new.
     mset (map without_id (reduce old (remove_messages old) new)) = mset (map without_id new)
     \<and> humans (reduce old (remove_messages old) new) = humans new)"

lemma without_id_facts [simp]:
  "message_content_chars (without_id m) = message_content_chars m" "plain_msg (without_id m) = plain_msg m"
  "fixed_msg (without_id m) = fixed_msg m"
  by (simp_all add: without_id_def message_content_chars_def msg_text_def plain_msg_def fixed_msg_def is_human_def
      is_compaction_summary_def)

lemma same_ids:
  assumes "mset (map without_id a) = mset (map without_id b)"
  shows "total_message_chars a = total_message_chars b" "length a = length b"
    "(\<And>m. p (without_id m) = p m) \<Longrightarrow> list_all p a = list_all p b"
proof -
  have "map message_content_chars ms = map message_content_chars (map without_id ms)" for ms by simp
  then have t: "total_message_chars ms = sum_mset (image_mset message_content_chars (mset (map without_id ms)))" for ms
    unfolding total_message_chars_def by (metis mset_map sum_mset_sum_list)
  show "total_message_chars a = total_message_chars b" unfolding t assms ..
  show "length a = length b" using arg_cong [OF assms, of size] by simp
  assume p: "\<And>m. p (without_id m) = p m"
  have l: "list_all p ms = Ball (set_mset (mset (map without_id ms))) p" for ms using p by (auto simp: list_all_iff)
  show "list_all p a = list_all p b" unfolding l assms ..
qed

lemma update_facts:
  assumes "replaces reduce"
  shows "humans (ck_messages (update_messages reduce new st)) = humans new"
    "total_message_chars (ck_messages (update_messages reduce new st)) = total_message_chars new"
    "length (ck_messages (update_messages reduce new st)) = length new"
    "list_all plain_msg (ck_messages (update_messages reduce new st)) = list_all plain_msg new"
    "list_all fixed_msg (ck_messages (update_messages reduce new st)) = list_all fixed_msg new"
    "list_all (\<lambda>m. fixed_msg m \<or> message_content_chars m \<le> 120) (ck_messages (update_messages reduce new st))
      = list_all (\<lambda>m. fixed_msg m \<or> message_content_chars m \<le> 120) new"
proof -
  have m: "mset (map without_id (ck_messages (update_messages reduce new st))) = mset (map without_id new)"
    and "humans (ck_messages (update_messages reduce new st)) = humans new"
    using assms by (simp_all add: replaces_def update_messages_def)
  then show "humans (ck_messages (update_messages reduce new st)) = humans new" by blast
  show "total_message_chars (ck_messages (update_messages reduce new st)) = total_message_chars new"
    "length (ck_messages (update_messages reduce new st)) = length new"
    "list_all plain_msg (ck_messages (update_messages reduce new st)) = list_all plain_msg new"
    "list_all fixed_msg (ck_messages (update_messages reduce new st)) = list_all fixed_msg new"
    "list_all (\<lambda>m. fixed_msg m \<or> message_content_chars m \<le> 120) (ck_messages (update_messages reduce new st))
      = list_all (\<lambda>m. fixed_msg m \<or> message_content_chars m \<le> 120) new"
    using same_ids [OF m] by simp_all
qed

lemma compact_keeps:
  assumes "compact_if_needed reduce p st = (reason, st')" and "replaces reduce" and "list_all plain_msg (ck_messages st)"
  shows "keeps_recent (max 1 (cp_keep_recent_turns p)) (ck_messages st) (ck_messages st')" "list_all plain_msg (ck_messages st')"
proof -
  obtain old recent where s: "split_messages (max 1 (cp_keep_recent_turns p)) (ck_messages st) = (old, recent)" by (metis prod.exhaust)
  note parts = split_keeps [OF s]
  let ?new = "summary_message (cp_keep_recent_turns p) (cp_summary_max_chars p) old # recent"
  have "st' = st \<or> st' = update_messages reduce ?new st"
    using assms(1) by (auto simp: compact_if_needed_def Let_def s split: if_splits)
  moreover have "keeps_recent (max 1 (cp_keep_recent_turns p)) (ck_messages st) (ck_messages (update_messages reduce ?new st))"
    using parts(1) update_facts(1) [OF assms(2)] by (simp add: keeps_recent_def summary_message_facts)
  moreover have "list_all plain_msg (ck_messages (update_messages reduce ?new st))"
    using parts(2) assms(3) update_facts(4) [OF assms(2)] by (auto simp: summary_message_facts list_all_iff)
  ultimately show "keeps_recent (max 1 (cp_keep_recent_turns p)) (ck_messages st) (ck_messages st')" "list_all plain_msg (ck_messages st')"
    using assms(3) keeps_recent_refl by auto
qed

text \<open>What is left of a thread that is still too long.\<close>

definition exhausted :: "chat_msg list \<Rightarrow> bool" where
  "exhausted ms \<longleftrightarrow> list_all fixed_msg ms \<or> (length ms \<le> 1 \<and> list_all (\<lambda>m. fixed_msg m \<or> message_content_chars m \<le> 120) ms)"

lemma trim_parts:
  assumes "list_all plain_msg ms"
  shows "\<exists>working steps2. (case drop_loop b (map clone_message ms) steps of (d, s1) \<Rightarrow> truncate_loop b d s1) = Some (working, steps2)
    \<and> humans working = humans ms \<and> list_all plain_msg working
    \<and> (total_message_chars working \<le> b \<or> exhausted working) \<and> (steps2 = steps \<longrightarrow> working = map clone_message ms)"
proof -
  obtain d s1 where d: "drop_loop b (map clone_message ms) steps = (d, s1)" by (metis prod.exhaust)
  note D = drop_loop_parts [OF d]
  have "list_all plain_msg d" using D assms by (force simp: list_all_iff plain_msg_def)
  from truncate_loop_parts [OF this, of b s1] obtain w new where
    w: "truncate_loop b d s1 = Some (w, s1 @ new)" "humans w = humans d" "length w = length d" "list_all plain_msg w"
      "new = [] \<longrightarrow> w = d" "list_all fixed_msg d \<longrightarrow> w = d"
      "total_message_chars w \<le> b \<or> list_all (\<lambda>m. fixed_msg m \<or> message_content_chars m \<le> 120) w" by blast
  have "total_message_chars w \<le> b \<or> exhausted w"
  proof (cases "total_message_chars d \<le> b")
    case True
    then have "truncate_loop b d s1 = Some (d, s1)" by (simp add: truncate_loop.simps)
    then show ?thesis using True w(1) by simp
  next
    case False
    then show ?thesis using D w(3,6,7) by (auto simp: exhausted_def)
  qed
  then show ?thesis using d w D by auto
qed

lemma summarize_parts:
  assumes "summarize_prefix reduce p persist target ms steps st = (ms2, steps2, st2)" and "replaces reduce"
    and "list_all plain_msg ms" and "persist \<longrightarrow> ms = ck_messages st"
  shows "keeps_recent (max 1 (cp_keep_recent_turns p)) ms ms2" "list_all plain_msg ms2"
    "persist \<longrightarrow> ms2 = ck_messages st2" "\<not> persist \<longrightarrow> st2 = st"
proof -
  obtain old recent where s: "split_messages (max 1 (cp_keep_recent_turns p)) ms = (old, recent)" by (metis prod.exhaust)
  note parts = split_keeps [OF s]
  let ?new = "summary_message 6 (cp_summary_max_chars p) old # map clone_message recent"
  have new: "humans ?new = humans recent" "list_all plain_msg ?new"
    using parts(2) assms(3) by (auto simp: summary_message_facts list_all_iff)
  have "ms2 = ms \<and> st2 = st \<or> (if persist then ms2 = ck_messages (update_messages reduce ?new st) \<and> st2 = update_messages reduce ?new st
      else ms2 = ?new \<and> st2 = st)"
    using assms(1) by (auto simp: summarize_prefix_def Let_def s split: if_splits)
  moreover have "keeps_recent (max 1 (cp_keep_recent_turns p)) ms x" if "humans x = humans recent" for x
    using parts(1) that by (simp add: keeps_recent_def)
  ultimately show "keeps_recent (max 1 (cp_keep_recent_turns p)) ms ms2" "list_all plain_msg ms2"
    "persist \<longrightarrow> ms2 = ck_messages st2" "\<not> persist \<longrightarrow> st2 = st"
    using assms(3,4) new update_facts(1,4) [OF assms(2)] keeps_recent_refl by (auto split: if_splits)
qed

definition human_message :: "string \<Rightarrow> chat_msg" where
  "human_message t = system_message t\<lparr>cm_class := HumanMsg\<rparr>"

lemma pack_checkpoint_parts:
  assumes "replaces reduce" and "list_all plain_msg (ck_messages st)"
  shows "\<exists>r st'. pack_checkpoint_for_budget reduce enabled p persist max_total new_turn st = Some (r, st')
    \<and> (if persist
       then keeps_recent (max 1 (cp_keep_recent_turns p)) (ck_messages st) (ck_messages st')
         \<and> pr_chars r = total_message_chars (ck_messages st')
         \<and> (if enabled \<and> 0 < max_total then pr_chars r + new_turn \<le> max_total \<or> exhausted (ck_messages st') else st' = st)
       else st' = st)"
proof (cases "enabled \<and> 0 < max_total \<and> max_total < total_message_chars (ck_messages st) + new_turn")
  case False
  then show ?thesis by (auto simp: pack_checkpoint_for_budget_def unpacked_def Let_def keeps_recent_refl)
next
  case True
  define compact where "compact = (persist \<and> cp_enabled p \<and> cp_message_threshold p < int (length (ck_messages st)))"
  obtain reason st1 where c: "(if compact then compact_if_needed reduce p st else ([], st)) = (reason, st1)" by (metis prod.exhaust)
  let ?keep = "max 1 (cp_keep_recent_turns p)"
  have k1: "keeps_recent ?keep (ck_messages st) (ck_messages st1)" "list_all plain_msg (ck_messages st1)" "\<not> persist \<longrightarrow> st1 = st"
    using c compact_keeps [OF _ assms] assms(2) keeps_recent_refl by (auto simp: compact_def split: if_splits)
  define steps1 where "steps1 = (if reason = ''compacted'' then [''checkpoint_compactor''] else [])"
  have unfolded: "pack_checkpoint_for_budget reduce enabled p persist max_total new_turn st =
      (if reason = ''compacted'' \<and> total_message_chars (ck_messages st1) + new_turn \<le> max_total
       then Some (\<lparr>pr_compacted = True, pr_reason = ''compactor'', pr_persisted = True,
              pr_message_count = int (length (ck_messages st1)), pr_chars = total_message_chars (ck_messages st1), pr_steps = steps1\<rparr>, st1)
       else case summarize_prefix reduce p persist (max 0 (max_total - new_turn)) (ck_messages st1) steps1 st1 of
           (ms2, steps2, st2) \<Rightarrow> trim_checkpoint reduce persist (max_total - new_turn) ms2 steps2 st2)"
    using True c by (simp add: pack_checkpoint_for_budget_def Let_def compact_def [symmetric] steps1_def)
  show ?thesis
  proof (cases "reason = ''compacted'' \<and> total_message_chars (ck_messages st1) + new_turn \<le> max_total")
    case fits: True
    then have persist using c by (auto simp: compact_def split: if_splits)
    with fits True k1 show ?thesis unfolding unfolded by simp
  next
    case over: False
    obtain ms2 steps2 st2 where s: "summarize_prefix reduce p persist (max 0 (max_total - new_turn)) (ck_messages st1) steps1 st1 = (ms2, steps2, st2)"
      by (metis prod.exhaust)
    note S = summarize_parts [OF s assms(1) k1(2)]
    have "list_all plain_msg ms2" using S(2) by simp
    from trim_parts [OF this, of "max_total - new_turn" steps2] obtain d s1 w s2 where
      d: "drop_loop (max_total - new_turn) (map clone_message ms2) steps2 = (d, s1)" "truncate_loop (max_total - new_turn) d s1 = Some (w, s2)"
      and w: "humans w = humans ms2" "total_message_chars w \<le> max_total - new_turn \<or> exhausted w" "s2 = steps2 \<longrightarrow> w = map clone_message ms2"
      by (auto split: prod.splits)
    define st3 where "st3 = (if s2 \<noteq> steps2 \<and> persist then update_messages reduce w st2 else st2)"
    define final where "final = (if persist then ck_messages st3 else if s2 \<noteq> steps2 then w else ms2)"
    have res: "trim_checkpoint reduce persist (max_total - new_turn) ms2 steps2 st2 =
        Some (\<lparr>pr_compacted = (s2 \<noteq> []), pr_reason = (if s2 \<noteq> [] then ''char_budget'' else ''nothing_to_trim''),
          pr_persisted = (persist \<and> s2 \<noteq> []), pr_message_count = int (length final),
          pr_chars = total_message_chars final, pr_steps = s2\<rparr>, st3)"
      by (simp add: trim_checkpoint_def d Let_def st3_def final_def)
    have fixed: "list_all fixed_msg (map clone_message ms) = list_all fixed_msg ms"
      "list_all (\<lambda>m. fixed_msg m \<or> message_content_chars m \<le> 120) (map clone_message ms)
        = list_all (\<lambda>m. fixed_msg m \<or> message_content_chars m \<le> 120) ms" for ms
      by (simp_all add: list_all_iff fixed_msg_def is_compaction_summary_def)
    have p: "humans (ck_messages st3) = humans ms2" "total_message_chars (ck_messages st3) + new_turn \<le> max_total \<or> exhausted (ck_messages st3)"
      if persist
    proof (atomize (full), cases "s2 = steps2")
      case True
      then show "humans (ck_messages st3) = humans ms2 \<and>
        (total_message_chars (ck_messages st3) + new_turn \<le> max_total \<or> exhausted (ck_messages st3))"
        using w(2,3) S(3) that fixed by (simp add: st3_def exhausted_def) arith
    next
      case False
      then have "st3 = update_messages reduce w st2" using that by (simp add: st3_def)
      then show "humans (ck_messages st3) = humans ms2 \<and>
        (total_message_chars (ck_messages st3) + new_turn \<le> max_total \<or> exhausted (ck_messages st3))"
        using w(1,2) update_facts [OF assms(1), of w st2] by (simp add: exhausted_def) arith
    qed
    have "keeps_recent ?keep (ck_messages st) (ck_messages st3)" if persist
      using keeps_recent_trans [OF keeps_recent_trans [OF k1(1) S(1)] keeps_recent_refl] p(1) [OF that] by simp
    moreover have "st3 = st" if "\<not> persist" using that k1(3) S(4) by (simp add: st3_def)
    ultimately show ?thesis
      unfolding unfolded if_not_P [OF over] s using True p by (auto simp: res final_def)
  qed
qed



section \<open>The messages of one call\<close>

definition droppable :: "chat_msg \<Rightarrow> bool" where
  "droppable m \<longleftrightarrow> msg_kind m \<in> {''memory'', ''rag''}"

definition kind_count :: "string \<Rightarrow> chat_msg list \<Rightarrow> nat" where
  "kind_count k ms = length (filter (\<lambda>m. msg_kind m = k) ms)"

lemma starts_with_iff: "starts_with s p \<longleftrightarrow> (\<exists>t. s = p @ t)"
  by (induction s p rule: starts_with.induct) auto

lemma rstrip_prefix:
  assumes "p \<noteq> []" and "\<not> is_space (last p)"
  shows "\<exists>t'. rstrip (p @ t) = p @ t'"
proof -
  have "dropWhile is_space (rev p) = rev p" using assms by (cases p rule: rev_cases) auto
  then have "rstrip (p @ t) = p @ rev (dropWhile is_space (rev t))"
    by (auto simp: rstrip_def dropWhile_append dropWhile_eq_Nil_conv)
  then show ?thesis by blast
qed

lemma ellipsis_prefix:
  assumes "starts_with s p" and "p \<noteq> []" and "\<not> is_space (last p)" and "int (length p) + 3 \<le> n"
  shows "starts_with (ellipsis_text n s) p"
proof -
  obtain t where "s = p @ t" using assms(1) starts_with_iff by auto
  moreover have "length p \<le> nat (n - 3)" using assms(4) by simp
  ultimately have "take (nat (n - 3)) s = p @ take (nat (n - 3) - length p) t" by simp
  then obtain t' where "rstrip (take (nat (n - 3)) s) = p @ t'" using rstrip_prefix [OF assms(2,3)] by metis
  then show ?thesis by (simp add: ellipsis_text_def starts_with_iff)
qed

lemma truncate_system_facts:
  assumes "cm_class m = SystemMsg" and "droppable m" and "200 \<le> n" and "n < message_content_chars m"
  shows "msg_kind (truncate_system n m) = msg_kind m" "message_content_chars (truncate_system n m) \<le> n"
proof -
  have t: "truncate_system n m = system_message (ellipsis_text n (msg_text m))" using assms by (simp add: truncate_system_def)
  then show "message_content_chars (truncate_system n m) \<le> n"
    using ellipsis_length [of n] assms(3) by (simp add: message_content_chars_def msg_text_def system_message_def py_or_str)
  have k: "starts_with (ellipsis_text n (msg_text m)) p" if "starts_with (msg_text m) p" "p \<noteq> []" "\<not> is_space (last p)" "length p \<le> 20" for p
    using ellipsis_prefix [OF that(1-3)] that(4) assms(3) by simp
  have sp: "\<not> is_space (CHR '']'')" by (simp add: is_space_def)
  have kind: "msg_kind (system_message x) =
      (if starts_with x ''[PreRetrievedDocs]'' then ''rag'' else if starts_with x ''[EpisodicMemory]'' \<or> starts_with x ''[LongTermMemory]'' then ''memory''
       else if starts_with x ''Tool routing plan for this user turn'' then ''router'' else ''system'')" for x
    by (simp add: msg_kind_def is_human_def system_message_def msg_text_def py_or_str)
  have rag: "\<not> starts_with x ''[PreRetrievedDocs]''" if "starts_with x ''[EpisodicMemory]'' \<or> starts_with x ''[LongTermMemory]''" for x
    using that by (auto simp: starts_with_iff)
  consider "starts_with (msg_text m) ''[PreRetrievedDocs]''" | "starts_with (msg_text m) ''[EpisodicMemory]''" | "starts_with (msg_text m) ''[LongTermMemory]''"
    using assms(1,2) by (auto simp: droppable_def msg_kind_def is_human_def split: if_splits)
  then show "msg_kind (truncate_system n m) = msg_kind m"
  proof cases
    case 1
    then show ?thesis using k [OF 1] assms(1) sp by (simp add: t kind) (simp add: msg_kind_def is_human_def)
  next
    case 2
    then show ?thesis using k [OF 2] assms(1) sp rag by (simp add: t kind) (simp add: msg_kind_def is_human_def)
  next
    case 3
    then show ?thesis using k [OF 3] assms(1) sp rag by (simp add: t kind) (simp add: msg_kind_def is_human_def)
  qed
qed

text \<open>What a step promises of the messages it gets and the ones it returns.\<close>

definition step_ok :: "chat_msg list \<Rightarrow> chat_msg list \<Rightarrow> bool" where
  "step_ok a b \<longleftrightarrow> filter (Not \<circ> droppable) b = filter (Not \<circ> droppable) a \<and> total_message_chars b \<le> total_message_chars a
     \<and> kind_count ''memory'' b \<le> kind_count ''memory'' a \<and> kind_count ''rag'' b \<le> kind_count ''rag'' a"

lemma trim_first_parts:
  "trim_first kind target ms = Some (r, d) \<Longrightarrow> kind \<in> {''memory'', ''rag''} \<Longrightarrow> 200 \<le> target \<Longrightarrow>
   step_ok ms r \<and> total_message_chars r = total_message_chars ms + d"
proof (induction ms arbitrary: r)
  case (Cons m ms)
  show ?case
  proof (cases "msg_kind m \<noteq> kind \<or> cm_class m \<noteq> SystemMsg")
    case True
    then obtain r' where "trim_first kind target ms = Some (r', d)" "r = m # r'" using Cons.prems(1) by auto
    then show ?thesis using Cons.IH [of r'] Cons.prems(2,3) by (simp add: step_ok_def total_message_chars_def kind_count_def)
  next
    case False
    then have c: "cm_class m = SystemMsg" "droppable m" "target < message_content_chars m" "r = truncate_system target m # ms"
      "d = message_content_chars (truncate_system target m) - message_content_chars m"
      using Cons.prems(1,2) by (auto simp: droppable_def split: if_splits)
    note facts = truncate_system_facts [OF c(1,2) Cons.prems(3) c(3)]
    then show ?thesis using c by (simp add: step_ok_def total_message_chars_def kind_count_def droppable_def)
  qed
qed simp

lemma drop_first_parts:
  "drop_first kind ms = Some (r, d) \<Longrightarrow> kind \<in> {''memory'', ''rag''} \<Longrightarrow>
   step_ok ms r \<and> total_message_chars ms = total_message_chars r + d \<and> kind_count kind r < kind_count kind ms"
proof (induction ms arbitrary: r)
  case (Cons m ms)
  have pos: "0 \<le> message_content_chars m" by (simp add: message_content_chars_def)
  show ?case
  proof (cases "msg_kind m = kind")
    case True
    then have "r = ms" "d = message_content_chars m" "droppable m" using Cons.prems by (auto simp: droppable_def)
    then show ?thesis using True pos by (simp add: step_ok_def total_message_chars_def kind_count_def)
  next
    case False
    then obtain r' where "drop_first kind ms = Some (r', d)" "r = m # r'" using Cons.prems(1) by auto
    then show ?thesis using Cons.IH [of r'] Cons.prems(2) False by (simp add: step_ok_def total_message_chars_def kind_count_def)
  qed
qed simp

lemma drop_first_none: "drop_first kind ms = None \<Longrightarrow> kind_count kind ms = 0"
  by (induction ms) (auto simp: kind_count_def split: if_splits)

lemma step_ok_refl: "step_ok a a"
  by (simp add: step_ok_def)

lemma step_ok_trans: "step_ok a b \<Longrightarrow> step_ok b c \<Longrightarrow> step_ok a c"
  by (auto simp: step_ok_def)

lemma rev_facts:
  "total_message_chars (rev ms) = total_message_chars ms" "kind_count k (rev ms) = kind_count k ms"
  "filter q (rev ms) = rev (filter q ms)"
  by (simp_all add: total_message_chars_def kind_count_def flip: rev_map rev_filter)

definition good_step :: "(pack_state \<Rightarrow> pack_state option) \<Rightarrow> bool" where
  "good_step f \<longleftrightarrow> (\<forall>p p'. f p = Some p' \<longrightarrow> pk_used p = total_message_chars (pk_messages p) \<longrightarrow>
     step_ok (pk_messages p) (pk_messages p') \<and> pk_used p' = total_message_chars (pk_messages p'))"

lemma good_steps:
  assumes "kind \<in> {''memory'', ''rag''}"
  shows "200 \<le> target \<Longrightarrow> good_step (trim_kind kind target)" "good_step (drop_kind kind)"
proof -
  show "good_step (trim_kind kind target)" if "200 \<le> target"
    using trim_first_parts [OF _ assms that] by (auto simp: good_step_def trim_kind_def)
  have "step_ok ms (rev r) \<and> total_message_chars (rev r) = total_message_chars ms - d" if "drop_first kind (rev ms) = Some (r, d)" for ms r d
    using drop_first_parts [OF that assms] by (auto simp: step_ok_def rev_facts rev_swap)
  then show "good_step (drop_kind kind)" by (auto simp: good_step_def drop_kind_def)
qed

lemma drop_kind_removes:
  assumes "kind \<in> {''memory'', ''rag''}"
  shows "drop_kind kind p = None \<Longrightarrow> kind_count kind (pk_messages p) = 0"
    "drop_kind kind p = Some p' \<Longrightarrow> kind_count kind (pk_messages p') < kind_count kind (pk_messages p)"
  using drop_first_none [of kind "rev (pk_messages p)"] drop_first_parts [OF _ assms, of "rev (pk_messages p)"]
  by (auto simp: drop_kind_def rev_facts)

lemma run_steps_ok:
  "list_all good_step fs \<Longrightarrow> pk_used p = total_message_chars (pk_messages p) \<Longrightarrow>
   step_ok (pk_messages p) (pk_messages (run_steps n fs p)) \<and> pk_used (run_steps n fs p) = total_message_chars (pk_messages (run_steps n fs p))"
proof (induction fs arbitrary: p)
  case (Cons f fs)
  show ?case
  proof (cases "f p")
    case (Some p')
    then have "step_ok (pk_messages p) (pk_messages p')" "pk_used p' = total_message_chars (pk_messages p')"
      using Cons.prems by (auto simp: good_step_def)
    then show ?thesis using Cons.IH [of p'] Cons.prems(1) Some step_ok_trans by (auto simp del: run_steps.simps simp: run_steps.simps(2))
  qed (use Cons in simp)
qed (simp add: step_ok_refl)

lemma run_steps_drops:
  assumes "kind \<in> {''memory'', ''rag''}"
  shows "list_all good_step fs \<Longrightarrow> pk_used p = total_message_chars (pk_messages p) \<Longrightarrow> drop_kind kind \<in> set fs \<Longrightarrow>
    n < pk_used (run_steps n fs p) \<Longrightarrow> kind_count kind (pk_messages (run_steps n fs p)) \<le> kind_count kind (pk_messages p) - 1"
proof (induction fs arbitrary: p)
  case (Cons f fs)
  have mono: "kind_count kind (pk_messages (run_steps n fs q)) \<le> kind_count kind (pk_messages q)"
    if "pk_used q = total_message_chars (pk_messages q)" for q
    using run_steps_ok [of fs q n] Cons.prems(1) that assms by (auto simp: step_ok_def)
  show ?case
  proof (cases "f p")
    case None
    then have "kind_count kind (pk_messages p) = 0 \<or> drop_kind kind \<in> set fs" using Cons.prems(3) drop_kind_removes(1) [OF assms] by auto
    then show ?thesis using None Cons.IH [of p] Cons.prems mono [of p] by auto
  next
    case (Some p')
    then have p': "step_ok (pk_messages p) (pk_messages p')" "pk_used p' = total_message_chars (pk_messages p')"
      using Cons.prems(1,2) by (auto simp: good_step_def)
    have r: "run_steps n (f # fs) p = run_steps n fs p'" using Some Cons.prems(4) by (auto split: if_splits)
    have le: "kind_count kind (pk_messages p') \<le> kind_count kind (pk_messages p)" using p'(1) assms by (auto simp: step_ok_def)
    show ?thesis
    proof (cases "f = drop_kind kind")
      case True
      then show ?thesis using drop_kind_removes(2) [OF assms] Some mono [OF p'(2)] unfolding r by fastforce
    next
      case False
      then have "drop_kind kind \<in> set fs" using Cons.prems(3) by auto
      then show ?thesis using Cons.IH [OF _ p'(2)] Cons.prems(1,4) le unfolding r by simp
    qed
  qed
qed simp

text \<open>
  C28. Packing the messages of a call leaves every message but the retrieved documents and memories as it is, in
  order, and accounts for the characters left, which never grow. It changes nothing within the budget; and when
  the result is over the budget, the last message of the memories and of the documents, if any, is gone.
\<close>
theorem graph_messages_packed:
  "let r = pack_graph_messages enabled n ms in
   filter (Not \<circ> droppable) (pk_messages r) = filter (Not \<circ> droppable) ms \<and> pk_used r = total_message_chars (pk_messages r)
   \<and> pk_used r \<le> total_message_chars ms \<and> (pk_messages r = ms \<or> enabled \<and> 0 < n \<and> n < total_message_chars ms)
   \<and> (\<not> enabled \<or> n \<le> 0 \<or> pk_used r \<le> n
      \<or> kind_count ''memory'' (pk_messages r) \<le> kind_count ''memory'' ms - 1 \<and> kind_count ''rag'' (pk_messages r) \<le> kind_count ''rag'' ms - 1)"
proof -
  let ?p = "\<lparr>pk_messages = ms, pk_used = total_message_chars ms, pk_steps = []\<rparr>"
  define fs where "fs = [trim_kind ''memory'' (max 200 (n div 8)), trim_kind ''rag'' (max 400 (n div 4)), drop_kind ''memory'', drop_kind ''rag'']"
  have good: "list_all good_step fs" by (simp add: fs_def good_steps)
  have drops: "drop_kind ''memory'' \<in> set fs" "drop_kind ''rag'' \<in> set fs" by (simp_all add: fs_def)
  show ?thesis
  proof (cases "\<not> enabled \<or> n \<le> 0 \<or> total_message_chars ms \<le> n")
    case True
    then show ?thesis by (auto simp: pack_graph_messages_def Let_def)
  next
    case False
    then have r: "pack_graph_messages enabled n ms = run_steps n fs ?p" by (simp add: pack_graph_messages_def Let_def fs_def)
    define res where "res = run_steps n fs ?p"
    have ok: "step_ok ms (pk_messages res)" "pk_used res = total_message_chars (pk_messages res)"
      using run_steps_ok [OF good, of ?p n] by (simp_all add: res_def)
    have "pk_used res \<le> n \<or> kind_count ''memory'' (pk_messages res) \<le> kind_count ''memory'' ms - 1
        \<and> kind_count ''rag'' (pk_messages res) \<le> kind_count ''rag'' ms - 1"
      using run_steps_drops [of "''memory''" fs ?p n] run_steps_drops [of "''rag''" fs ?p n] good drops
      by (fastforce simp: res_def)
    with ok False show ?thesis unfolding Let_def r res_def [symmetric] by (auto simp: step_ok_def)
  qed
qed

section \<open>Where the guarantees stop\<close>

text \<open>Two memories of 150 characters fit a budget of 200 only one at a time; one is dropped, and the other stays.\<close>

lemma one_pass_leaves_memory:
  "let m = system_message (''[LongTermMemory]'' @ replicate 134 CHR ''m''); r = pack_graph_messages True 200 [m, m, m] in
   pk_used r = 300 \<and> map msg_kind (pk_messages r) = [''memory'', ''memory''] \<and> pk_steps r = [''dropped_memory'']"
  by code_simp

theorem graph_messages_packed_witness:
  "let m = system_message (''[LongTermMemory]'' @ replicate 134 CHR ''m''); r = pack_graph_messages True 200 [m, m, m] in
   kind_count ''memory'' (pk_messages r) \<le> 2 \<and> pk_used r = total_message_chars (pk_messages r)"
proof -
  define m where "m = system_message (''[LongTermMemory]'' @ replicate 134 CHR ''m'')"
  define r where "r = pack_graph_messages True 200 [m, m, m]"
  have used: "pk_used r = 300" and three: "kind_count ''memory'' [m, m, m] = 3" unfolding r_def m_def by code_simp+
  have "kind_count ''memory'' (pk_messages r) \<le> 2 \<and> pk_used r = total_message_chars (pk_messages r)"
    using graph_messages_packed [of True 200 "[m, m, m]"] used three unfolding Let_def r_def [symmetric] by simp
  then show ?thesis unfolding Let_def r_def m_def .
qed

text \<open>An answer of a tool outlives the request of the assistant that called for it.\<close>

lemma tool_answer_orphaned:
  "let call = (system_message (replicate 30 CHR ''c''))\<lparr>cm_class := AIMsg, cm_tool_calls := [[(''id'', PStr ''t1'')]]\<rparr>;
       answer = (system_message (replicate 30 CHR ''a''))\<lparr>cm_class := ToolMsg, cm_tool_call_id := ''t1''\<rparr>
   in drop_loop 40 [human_message ''q'', call, answer] [] = ([human_message ''q'', answer], [''dropped_aimessage''])"
  by (simp add: drop_loop.simps Let_def human_message_def system_message_def is_human_def is_compaction_summary_def
      total_message_chars_def message_content_chars_def msg_text_def py_or_str COMPACTION_PREFIX_def)

text \<open>A long message of a class the code does not know is replaced by itself, for ever.\<close>

lemma unknown_message_loops:
  "truncate_loop 10 [(system_message (replicate 121 CHR ''x''))\<lparr>cm_class := OtherMsg ''chat''\<rparr>] steps = None"
proof -
  have step: "truncate_oldest [m] = Some [m]" if "m = (system_message (replicate 121 CHR ''x''))\<lparr>cm_class := OtherMsg ''chat''\<rparr>" for m
    using that by (simp add: is_human_def is_compaction_summary_def message_content_chars_def msg_text_def system_message_def
        py_or_str shortened_def Let_def)
  have big: "total_message_chars [m] = 121" if "m = (system_message (replicate 121 CHR ''x''))\<lparr>cm_class := OtherMsg ''chat''\<rparr>" for m
    using that by (simp add: total_message_chars_def message_content_chars_def msg_text_def system_message_def py_or_str)
  have "b = 10 \<longrightarrow> ms \<noteq> [(system_message (replicate 121 CHR ''x''))\<lparr>cm_class := OtherMsg ''chat''\<rparr>]"
    if "truncate_loop b ms s = Some y" for b ms s y
    by (rule truncate_loop.raw_induct [OF _ that])
      (use step [OF refl] big [OF refl] in \<open>auto simp del: truncate_oldest.simps; blast\<close>)
  then show ?thesis by fastforce
qed

end
