(* ===== verification/ContextGate.thy ===== *)
theory ContextGate
  imports RagStore Planning MemoryWriter
begin

text \<open>
  Whether a turn gets documents before the model is asked, and which: the gate
  (\<^verbatim>\<open>copilot_agent/context/retrieval_gate.py\<close>), the retrieval it may start (\<^verbatim>\<open>context/preretrieval.py\<close>), the record
  of what a turn was given (\<^verbatim>\<open>context/preretrieval_dedupe.py\<close>) and where the next turn finds it
  (\<^verbatim>\<open>context/manager.py\<close>).

  The patterns of the gate are regular expressions, each known by a label as in \<open>rag_env\<close>. A cache is a
  dictionary; the empty one stands for none. Its producers write lists where lists are read.
\<close>

section \<open>Queries\<close>

text \<open>\<open>re.sub(r"\s+", " ", text)\<close>\<close>

fun collapse_spaces :: "bool \<Rightarrow> string \<Rightarrow> string" where
  "collapse_spaces after_space [] = []"
| "collapse_spaces after_space (c # s) =
     (if is_space c then (if after_space then collapse_spaces True s else CHR '' '' # collapse_spaces True s)
      else c # collapse_spaces False s)"

text \<open>What the pattern \<open>\w\<close> matches below code point 256.\<close>

definition word_letter :: "char \<Rightarrow> bool" where
  "word_letter c = (let n = (of_char c :: nat) in
     word_char c \<or> n \<in> {170, 178, 179, 181, 185, 186, 188, 189, 190} \<or> (192 \<le> n \<and> n \<noteq> 215 \<and> n \<noteq> 247))"

definition normalize_query :: "string \<Rightarrow> string" where
  "normalize_query query = filter (\<lambda>c. word_letter c \<or> is_space c) (collapse_spaces False (lower (strip query)))"

definition overlap_ratio :: "string list \<Rightarrow> string list \<Rightarrow> rat" where
  "overlap_ratio a b =
     (let ta = remdups a; tb = remdups b in
      if ta = [] \<or> tb = [] then 0
      else rat_of_nat (length (filter (\<lambda>t. t \<in> set tb) ta)) / rat_of_nat (length (remdups (a @ b))))"

definition token_similarity :: "string \<Rightarrow> string \<Rightarrow> rat" where
  "token_similarity x y =
     (let a = normalize_query x; b = normalize_query y
      in if a = [] \<or> b = [] then 0 else overlap_ratio (words a) (words b))"

definition queries_equivalent :: "string \<Rightarrow> string \<Rightarrow> bool" where
  "queries_equivalent x y =
     (let a = normalize_query x; b = normalize_query y
      in if a = [] \<or> b = [] then False
         else if a = b \<or> contains b a \<or> contains a b then True
         else 3 / 4 \<le> overlap_ratio (words a) (words b))"

section \<open>What a turn was given\<close>

definition policy_hash_parts :: "retrieval_request \<Rightarrow> string list" where
  "policy_hash_parts q =
     [rq_tenant_id q, rq_user_id q, rq_max_classification q, if rq_allow_high_pii q then ''high_pii'' else ''no_high_pii'',
      join '','' (sort (rq_allowed_scopes q))]"

definition build_policy_context_hash :: "rag_env \<Rightarrow> retrieval_request \<Rightarrow> string" where
  "build_policy_context_hash e q = re_hash16 e (join ''|'' (policy_hash_parts q))"

definition chunk_keys :: "doc_chunk list \<Rightarrow> chunk_key list" where
  "chunk_keys hits = remdups (map dc_key hits)"

definition key_text :: "chunk_key \<Rightarrow> string" where
  "key_text k = fst k @ '':'' @ int_str (snd k)"

text \<open>The keys are written in the order of a set; here in the order of the hits.\<close>

definition build_preretrieval_cache ::
    "rag_env \<Rightarrow> string \<Rightarrow> doc_chunk list \<Rightarrow> retrieval_request option \<Rightarrow> string \<Rightarrow> string \<Rightarrow> string \<Rightarrow> dict" where
  "build_preretrieval_cache e query hits request policy_context_hash policy_trace_id mode =
     [(''query'', PStr query), (''query_hash'', PStr (re_hash16 e query)),
      (''chunk_keys'', strs (map key_text (chunk_keys hits))),
      (''allowed_chunk_ids'', strs (map (dc_chunk_id (re_hash16 e)) hits)),
      (''sources'', strs (sort (remdups (map dc_source hits))))]
     @ (case request of None \<Rightarrow> [] | Some q \<Rightarrow>
          [(''tenant_id'', PStr (rq_tenant_id q)), (''user_id'', PStr (rq_user_id q)),
           (''max_classification'', PStr (rq_max_classification q)), (''allowed_scopes'', strs (sort (rq_allowed_scopes q))),
           (''allow_high_pii'', PBool (rq_allow_high_pii q))])
     @ (if policy_context_hash = [] then [] else [(''policy_context_hash'', PStr policy_context_hash)])
     @ (if policy_trace_id = [] then [] else [(''policy_trace_id'', PStr policy_trace_id)])
     @ (if mode = [] then [] else [(''retrieval_mode'', PStr mode)])"

text \<open>\<open>text.rsplit(":", 1)\<close>\<close>

definition rsplit_colon :: "string \<Rightarrow> (string \<times> string) option" where
  "rsplit_colon s =
     (let r = rev s; line = takeWhile (\<lambda>c. c \<noteq> CHR '':'') r
      in if CHR '':'' \<in> set s then Some (rev (drop (Suc (length line)) r), rev line) else None)"

definition parse_key :: "string \<Rightarrow> chunk_key option" where
  "parse_key s =
     (case rsplit_colon s of
        None \<Rightarrow> None
      | Some (source, line) \<Rightarrow> map_option (\<lambda>n. (source, n)) (parse_int line))"

definition parse_cache_keys :: "dict \<Rightarrow> chunk_key list" where
  "parse_cache_keys cache = remdups (List.map_filter (\<lambda>v. parse_key (py_str v)) (as_list (dget cache ''chunk_keys'')))"

definition filter_new_chunks :: "chunk_key list \<Rightarrow> doc_chunk list \<Rightarrow> doc_chunk list" where
  "filter_new_chunks existing hits = filter (\<lambda>c. dc_key c \<notin> set existing) hits"

record dedupe_meta =
  dm_enabled :: bool
  dm_deduped_count :: int
  dm_skipped_all_duplicate :: bool
  dm_same_query :: bool

definition apply_preretrieval_dedupe ::
    "bool \<Rightarrow> string \<Rightarrow> doc_chunk list \<Rightarrow> dict \<Rightarrow> doc_chunk list \<times> dedupe_meta" where
  "apply_preretrieval_dedupe enabled query hits cache =
     (let meta = \<lparr>dm_enabled = enabled, dm_deduped_count = 0, dm_skipped_all_duplicate = False, dm_same_query = False\<rparr>;
          same = queries_equivalent query (str_or (dget cache ''query''));
          existing = parse_cache_keys cache;
          filtered = filter_new_chunks existing hits
      in if \<not> enabled \<or> cache = [] then (hits, meta)
         else if \<not> same then (hits, meta)
         else if existing = [] then (hits, meta\<lparr>dm_same_query := True\<rparr>)
         else (filtered, meta\<lparr>dm_same_query := True, dm_deduped_count := int (length hits) - int (length filtered),
                 dm_skipped_all_duplicate := hits \<noteq> [] \<and> filtered = []\<rparr>))"

section \<open>Where the next turn finds it\<close>

definition is_preretrieval_event :: "event_row \<Rightarrow> bool" where
  "is_preretrieval_event r \<longleftrightarrow>
     ev_type r = ''retrieval_completed'' \<and> str_or (dget (payload_of r) ''retrieval_mode'') = ''preretrieval''
     \<and> as_list (dget (payload_of r) ''allowed_chunk_ids'') \<noteq> []"

definition cache_of_payload :: "dict \<Rightarrow> dict" where
  "cache_of_payload p =
     (let text = (\<lambda>k. PStr (str_or (dget p k)))
      in [(''query'', text ''query''), (''query_hash'', text ''query_hash''),
          (''allowed_chunk_ids'', strs (map py_str (as_list (dget p ''allowed_chunk_ids'')))),
          (''sources'', strs (filter (\<lambda>s. s \<noteq> []) (map (\<lambda>i. str_or (dget (as_dict i) ''source_file''))
             (filter is_dict (as_list (dget p ''sources'')))))),
          (''tenant_id'', text ''tenant_id''), (''user_id'', text ''user_id''),
          (''max_classification'', text ''max_classification''),
          (''allowed_scopes'', strs (map py_str (as_list (dget p ''allowed_scopes'')))),
          (''allow_high_pii'', PBool (truthy (dget p ''allow_high_pii''))),
          (''policy_context_hash'', text ''policy_context_hash''), (''policy_trace_id'', text ''policy_trace_id''),
          (''retrieval_mode'', PStr ''preretrieval'')])"

definition latest_preretrieval_cache :: "store \<Rightarrow> string \<Rightarrow> dict" where
  "latest_preretrieval_cache s thread_id =
     (if thread_id = [] then []
      else case find is_preretrieval_event (rev (list_events s thread_id None None (Some 100))) of
        None \<Rightarrow> [] | Some r \<Rightarrow> cache_of_payload (payload_of r))"

section \<open>The gate\<close>

text \<open>\<open>_as_float(value, default=0.0) >= bound\<close> for a positive bound.\<close>

definition text_at_least :: "string \<Rightarrow> rat \<Rightarrow> bool" where
  "text_at_least t bound \<longleftrightarrow>
     lower (strip t) \<in> {''inf'', ''+inf'', ''infinity'', ''+infinity''}
     \<or> (case parse_float t of Some r \<Rightarrow> bound \<le> r | None \<Rightarrow> False)"

fun at_least :: "pyval \<Rightarrow> rat \<Rightarrow> bool" where
  "at_least (PInt i) bound = (bound \<le> rat_of_int i)"
| "at_least (PBool b) bound = (bound \<le> (if b then 1 else 0))"
| "at_least (PFloat t) bound = text_at_least t bound"
| "at_least (PStr t) bound = text_at_least t bound"
| "at_least v bound = False"

definition memory_has_high_confidence_answer :: "dict \<Rightarrow> bool" where
  "memory_has_high_confidence_answer memory =
     (let episodic = as_dict (dget memory ''episodic''); recalled = as_list (dget episodic ''recalled_long_term'');
          preview = str_or (dget episodic ''inject_preview'')
      in list_ex (\<lambda>v. is_dict v
             \<and> str_or (dget (as_dict v) ''memory_type'') \<in> {''fact'', ''task_summary'', ''behavior'', ''preference''}
             \<and> at_least (dget (as_dict v) ''confidence'') (85 / 100) \<and> at_least (dget (as_dict v) ''score'') (35 / 100)) recalled
         \<or> (strip preview \<noteq> [] \<and> 40 \<le> length preview \<and> recalled \<noteq> []))"

definition cache_policy_compatible :: "rag_env \<Rightarrow> dict \<Rightarrow> retrieval_request \<Rightarrow> bool" where
  "cache_policy_compatible e cache q =
     (let cached = str_or (dget cache ''policy_context_hash'') in
      if cache = [] then False
      else if cached \<noteq> [] then cached = build_policy_context_hash e q
      else str_or (dget cache ''tenant_id'') = rq_tenant_id q \<and> str_or (dget cache ''user_id'') = rq_user_id q
        \<and> str_or (dget cache ''max_classification'') = rq_max_classification q
        \<and> sort (map py_str (as_list (dget cache ''allowed_scopes''))) = sort (rq_allowed_scopes q))"

definition cache_similarity :: "rag_env \<Rightarrow> string \<Rightarrow> dict \<Rightarrow> rat" where
  "cache_similarity e query cache =
     (let cached_query = str_or (dget cache ''query'') in
      if cache = [] \<or> cached_query = [] then 0
      else if re_hash16 e query = str_or (dget cache ''query_hash'') then 1
      else if queries_equivalent query cached_query then 1
      else token_similarity query cached_query)"

definition cache_has_allowed_chunks :: "dict \<Rightarrow> bool" where
  "cache_has_allowed_chunks cache \<longleftrightarrow>
     as_list (dget cache ''allowed_chunk_ids'') \<noteq> [] \<or> as_list (dget cache ''chunk_keys'') \<noteq> []"

datatype gate_action = Retrieve | ReuseCache | SkipRag | RouteToToolApi

record retrieval_gate_decision =
  gd_action :: gate_action
  gd_reason :: string
  gd_confidence :: rat
  gd_cache_reused :: bool
  gd_recommended_next :: string
  gd_policy_context_hash :: string
  gd_similarity :: "rat option"

record context_settings =
  xs_preretrieval_enabled :: bool
  xs_preretrieval_budget_chars :: int
  xs_dedupe_enabled :: bool
  xs_require_citations :: bool
  xs_route_enabled :: bool
  xs_packing_enabled :: bool
  xs_checkpoint_pack_enabled :: bool

definition should_preretrieve :: "context_settings \<Rightarrow> tool_route \<Rightarrow> bool" where
  "should_preretrieve x r \<longleftrightarrow>
     xs_preretrieval_enabled x \<and> ''search_docs'' \<in> set (rt_recommended_tools r)
     \<and> rt_kind r \<notin> {''safety_reject'', ''dangerous_execute''}"

definition is_chitchat_or_formatting :: "rag_env \<Rightarrow> string \<Rightarrow> bool" where
  "is_chitchat_or_formatting e text \<longleftrightarrow>
     re_match e ''chitchat'' (strip text) \<or> (re_match e ''format'' (strip text) \<and> \<not> re_match e ''doc_intent'' (strip text))"

definition decide_retrieval ::
    "rag_env \<Rightarrow> context_settings \<Rightarrow> string \<Rightarrow> tool_route \<Rightarrow> dict \<Rightarrow> retrieval_request \<Rightarrow> dict \<Rightarrow> retrieval_gate_decision" where
  "decide_retrieval e x query r memory q cache =
     (let text = strip query; similarity = cache_similarity e text cache;
          decision = (\<lambda>action reason confidence reused next sim.
            \<lparr>gd_action = action, gd_reason = reason, gd_confidence = confidence, gd_cache_reused = reused,
             gd_recommended_next = next, gd_policy_context_hash = build_policy_context_hash e q, gd_similarity = sim\<rparr>);
          seen = (if 0 < similarity then Some similarity else None)
      in if text = [] then decision SkipRag ''empty_query'' 1 False ''answer_without_rag'' None
         else if re_match e ''live_intent'' text \<or> rt_kind r = ''live_status''
           then decision RouteToToolApi ''live_or_freshness_intent'' (92 / 100) False ''prefer_live_tool_or_api'' None
         else if 3 / 4 \<le> similarity \<and> cache_has_allowed_chunks cache \<and> cache_policy_compatible e cache q
           then decision ReuseCache ''similar_query_cache_reusable'' (9 / 10) True ''reuse_preretrieval_cache'' (Some similarity)
         else if memory_has_high_confidence_answer memory
           then decision SkipRag ''memory_high_confidence_answer'' (86 / 100) False ''answer_from_memory_context'' seen
         else if is_chitchat_or_formatting e text
           then decision SkipRag ''conversation_or_formatting_intent'' (82 / 100) False ''answer_without_rag'' seen
         else if re_match e ''doc_intent'' text
           then decision Retrieve ''documentation_intent'' (9 / 10) False ''policy_aware_retrieval'' seen
         else if should_preretrieve x r
           then decision Retrieve ''route_recommends_search_docs'' (78 / 100) False ''policy_aware_retrieval'' seen
         else decision SkipRag ''route_does_not_need_rag'' (74 / 100) False ''answer_without_preretrieval'' seen)"

section \<open>Retrieval before the turn\<close>

definition preretrieve_budget_chars :: "context_settings \<Rightarrow> int \<Rightarrow> int" where
  "preretrieve_budget_chars x total_budget =
     (if 0 < xs_preretrieval_budget_chars x then min (xs_preretrieval_budget_chars x) total_budget
      else min (total_budget div 2) 4000)"

definition dynamic_search_top_k :: "int \<Rightarrow> int \<Rightarrow> int \<Rightarrow> int" where
  "dynamic_search_top_k budget_chars avg_chunk_chars cap =
     (if avg_chunk_chars \<le> 0 then max 1 (min cap 6) else max 1 (min cap (budget_chars div avg_chunk_chars)))"

definition RAG_PRERETRIEVAL_PREFIX :: string where
  "RAG_PRERETRIEVAL_PREFIX = ''[PreRetrievedDocs]''"

record preretrieved =
  pd_hits :: "doc_chunk list"
  pd_message :: "string option"
  pd_enabled :: bool
  pd_excerpt_chars :: int
  pd_result :: "retrieval_result option"

definition preretrieve_docs ::
    "rag_env \<Rightarrow> rag_settings \<Rightarrow> context_settings \<Rightarrow> rag_store \<Rightarrow> string \<Rightarrow> tool_route \<Rightarrow> int \<Rightarrow> retrieval_request \<Rightarrow> preretrieved" where
  "preretrieve_docs e s x st query r budget_chars q =
     (let rag_budget = preretrieve_budget_chars x budget_chars;
          (found, policy_result) = policy_aware_search e s st q (dynamic_search_top_k rag_budget 1400 6);
          guarded = build_guarded_context (re_hash16 e) (se_chunks found) rag_budget (xs_require_citations x) True;
          excerpts = gc_markdown guarded
      in if strip query = [] \<or> \<not> should_preretrieve x r
         then \<lparr>pd_hits = [], pd_message = None, pd_enabled = False, pd_excerpt_chars = 0, pd_result = None\<rparr>
         else if strip excerpts = []
         then \<lparr>pd_hits = gc_chunks guarded, pd_message = None, pd_enabled = True, pd_excerpt_chars = 0, pd_result = None\<rparr>
         else \<lparr>pd_hits = gc_chunks guarded,
               pd_message = Some (RAG_PRERETRIEVAL_PREFIX @ newline
                 @ ''Pre-retrieved documentation snippets for this turn (prefer over guessing; ''
                 @ ''you may still call search_docs for follow-up):'' @ newline @ newline @ excerpts),
               pd_enabled = True, pd_excerpt_chars = int (length excerpts), pd_result = Some policy_result\<rparr>)"

end
