(* ===== verification/ContextGateProps.thy ===== *)
theory ContextGateProps
  imports ContextGate RetrievalProps
begin

text \<open>
  What the gate guarantees: documents of an earlier turn are reused only under the same policy, and a search of
  the same turn drops exactly the chunks it already has. Demonstrations show where a guarantee stops.
\<close>

section \<open>Numbers and joined texts\<close>

lemma nat_str_digits: "nat_str n \<noteq> [] \<and> (\<forall>c \<in> set (nat_str n). is_digit c)"
proof (induction n rule: nat_str.induct)
  case (1 n)
  have "is_digit (char_of (48 + k))" if "k < 10" for k :: nat
    using that by (simp add: is_digit_def of_char_of)
  then show ?case using 1 by (cases "n < 10") (auto simp: nat_str.simps [of n])
qed

lemma parse_digits_append:
  "\<forall>c \<in> set a. is_digit c \<Longrightarrow> parse_digits acc (a @ b) = parse_digits (fold (\<lambda>c acc. 10 * acc + digit_val c) a acc) b"
  by (induction a arbitrary: acc) simp_all

lemma digits_value: "fold (\<lambda>c acc. 10 * acc + digit_val c) (nat_str n) 0 = int n"
proof (induction n rule: nat_str.induct)
  case (1 n)
  have "digit_val (char_of (48 + k)) = int k" if "k < 10" for k :: nat
    using that by (simp add: digit_val_def of_char_of)
  moreover have "10 * int (n div 10) + int (n mod 10) = int n" by presburger
  ultimately show ?case using 1 by (cases "n < 10") (auto simp: nat_str.simps [of n])
qed

lemma parse_nat_str: "parse_nat (nat_str n) = Some (int n)"
proof -
  obtain c s where s: "nat_str n = c # s" using nat_str_digits [of n] by (cases "nat_str n") auto
  have d: "\<forall>c \<in> set (nat_str n). is_digit c" using nat_str_digits by blast
  have "parse_digits 0 (nat_str n @ []) = Some (int n)" unfolding parse_digits_append [OF d] digits_value by simp
  then show ?thesis using s d by (simp add: parse_nat_def)
qed

lemma digit_facts: "is_digit c \<Longrightarrow> \<not> is_space c \<and> c \<noteq> CHR ''-'' \<and> c \<noteq> CHR ''+'' \<and> c \<noteq> CHR '':''"
  by (auto simp: is_digit_def is_space_def Let_def)

lemma strip_inked: "s \<noteq> [] \<Longrightarrow> \<not> is_space (hd s) \<Longrightarrow> \<not> is_space (last s) \<Longrightarrow> strip s = s"
proof -
  assume a: "s \<noteq> []" "\<not> is_space (hd s)" "\<not> is_space (last s)"
  have d: "dropWhile is_space t = t" if "t \<noteq> []" "\<not> is_space (hd t)" for t using that by (cases t) auto
  show "strip s = s" using a d [of s] d [of "rev s"] by (simp add: strip_def lstrip_def rstrip_def hd_rev)
qed

lemma parse_int_str [simp]: "parse_int (int_str n) = Some n"
proof -
  define s where "s = nat_str (nat \<bar>n\<bar>)"
  have s: "s \<noteq> []" "\<forall>c \<in> set s. is_digit c" "parse_nat s = Some \<bar>n\<bar>"
    using nat_str_digits parse_nat_str by (simp_all add: s_def)
  then have ends: "is_digit (hd s)" "is_digit (last s)" by auto
  have m: "\<not> is_space (CHR ''-'')" by (simp add: is_space_def)
  show ?thesis
  proof (cases "n < 0")
    case True
    then have "int_str n = CHR ''-'' # s" by (simp add: int_str_def s_def)
    moreover have "strip (CHR ''-'' # s) = CHR ''-'' # s" using s(1) ends digit_facts m by (intro strip_inked) auto
    ultimately show ?thesis using True s(3) by (simp add: parse_int_def)
  next
    case False
    then have "int_str n = s" by (simp add: int_str_def s_def)
    moreover have "strip s = s" using s(1) ends digit_facts by (intro strip_inked) auto
    ultimately show ?thesis using False s(1,3) ends digit_facts by (cases s) (auto simp: parse_int_def)
  qed
qed

lemma int_str_no_colon: "CHR '':'' \<notin> set (int_str n)"
  using nat_str_digits digit_facts by (auto simp: int_str_def)

lemma parse_key_text [simp]: "parse_key (key_text k) = Some k"
proof -
  have t: "takeWhile (\<lambda>c. c \<noteq> CHR '':'') (rev (int_str (snd k)) @ CHR '':'' # x) = rev (int_str (snd k))" for x
    using int_str_no_colon [of "snd k"] by (subst takeWhile_append2) auto
  have "rsplit_colon (key_text k) = Some (fst k, int_str (snd k))"
    by (simp add: rsplit_colon_def Let_def key_text_def t)
  then show ?thesis by (simp add: parse_key_def)
qed

lemma cut_at:
  "c \<notin> set a \<Longrightarrow> c \<notin> set b \<Longrightarrow> a @ c # x = b @ c # y \<Longrightarrow> a = b \<and> x = y"
proof (induction a arbitrary: b)
  case Nil
  then show ?case by (cases b) auto
next
  case (Cons h a)
  then show ?case by (cases b) auto
qed

lemma join_inject:
  "\<forall>x \<in> set xs \<union> set ys. c \<notin> set x \<Longrightarrow> xs \<noteq> [] \<Longrightarrow> ys \<noteq> [] \<Longrightarrow> join [c] xs = join [c] ys \<Longrightarrow> xs = ys"
proof (induction xs arbitrary: ys)
  case (Cons x xs)
  obtain y ys' where y: "ys = y # ys'" using Cons.prems(3) by (cases ys) auto
  have free: "c \<notin> set x" "c \<notin> set y" using Cons.prems(1) y by auto
  show ?case
  proof (cases "xs = [] \<or> ys' = []")
    case True
    then show ?thesis using Cons.prems(4) free y by (cases xs; cases ys') (auto dest: arg_cong [where f = set])
  next
    case False
    then have "x @ c # join [c] xs = y @ c # join [c] ys'"
      using Cons.prems(4) y by (cases xs; cases ys') auto
    then have "x = y" "join [c] xs = join [c] ys'" using cut_at [OF free] by auto
    then show ?thesis using Cons.IH [of ys'] Cons.prems(1) False y by auto
  qed
qed simp

lemma set_join: "set (join sep xs) \<subseteq> set sep \<union> \<Union> (set ` set xs)"
  by (induction sep xs rule: join.induct) auto

section \<open>One policy\<close>

text \<open>Fields without the separators of the hash.\<close>

definition plain_request :: "retrieval_request \<Rightarrow> bool" where
  "plain_request q \<longleftrightarrow>
     CHR ''|'' \<notin> set (rq_tenant_id q) \<union> set (rq_user_id q) \<union> set (rq_max_classification q)
     \<and> (\<forall>t \<in> set (rq_allowed_scopes q). t \<noteq> [] \<and> CHR ''|'' \<notin> set t \<and> CHR '','' \<notin> set t)"

lemma scopes_inject:
  assumes "join '','' a = join '','' b" and "\<forall>t \<in> set a \<union> set b. t \<noteq> [] \<and> CHR '','' \<notin> set t"
  shows "a = b"
proof (cases "a = [] \<or> b = []")
  case True
  have "join '','' xs \<noteq> []" if "xs \<noteq> []" "\<forall>t \<in> set xs. t \<noteq> []" for xs
    using that by (cases xs; cases "tl xs") auto
  then show ?thesis using True assms by (metis UnCI join.simps(1))
next
  case False
  then show ?thesis using join_inject [of a b "CHR '',''"] assms by auto
qed

lemma same_policy:
  assumes "join ''|'' (policy_hash_parts q) = join ''|'' (policy_hash_parts r)" and "plain_request q" and "plain_request r"
  shows "may_read q = may_read r"
proof -
  have free: "CHR ''|'' \<notin> set t" if "t \<in> set (policy_hash_parts x)" "plain_request x" for t x
  proof -
    have "CHR ''|'' \<notin> set (join '','' (sort (rq_allowed_scopes x)))"
      using that(2) set_join [of "'',''" "sort (rq_allowed_scopes x)"] by (auto simp: plain_request_def)
    then show ?thesis using that by (auto simp: policy_hash_parts_def plain_request_def split: if_splits)
  qed
  have "policy_hash_parts q = policy_hash_parts r"
    by (rule join_inject [OF _ _ _ assms(1)]) (use free assms(2,3) in \<open>auto simp: policy_hash_parts_def\<close>)
  then have parts: "rq_tenant_id q = rq_tenant_id r" "rq_user_id q = rq_user_id r"
    "rq_max_classification q = rq_max_classification r" "rq_allow_high_pii q = rq_allow_high_pii r"
    "join '','' (sort (rq_allowed_scopes q)) = join '','' (sort (rq_allowed_scopes r))"
    by (auto simp: policy_hash_parts_def split: if_splits)
  have "sort (rq_allowed_scopes q) = sort (rq_allowed_scopes r)"
    using scopes_inject [OF parts(5)] assms(2,3) by (auto simp: plain_request_def)
  then have "set (rq_allowed_scopes q) = set (rq_allowed_scopes r)" by (metis set_sort)
  then show ?thesis using parts by (auto simp: may_read_def fun_eq_iff)
qed

lemma policy_search_readable: "set (se_chunks (fst (policy_aware_search e s st q k))) \<subseteq> {c \<in> set (sr_chunks st). may_read q c}"
  using search_set [of e s "scoped_store e st q" "rq_query q" k]
  by (auto simp: policy_search_eq Let_def post_filter_allowed scoped_chunks)

lemma guarded_subset: "set (gc_chunks (build_guarded_context h cs n cite header)) \<subseteq> set cs"
  using select_set by (auto simp: build_guarded_context_def Let_def)

lemma preretrieved_readable:
  "set (pd_hits (preretrieve_docs e s x st query r n q)) \<subseteq> {c \<in> set (sr_chunks st). may_read q c}"
proof -
  let ?k = "dynamic_search_top_k (preretrieve_budget_chars x n) 1400 6"
  have "set (pd_hits (preretrieve_docs e s x st query r n q)) \<subseteq> set (se_chunks (fst (policy_aware_search e s st q ?k)))"
  proof -
    obtain f p where f: "policy_aware_search e s st q ?k = (f, p)" by (metis prod.exhaust)
    have "pd_hits (preretrieve_docs e s x st query r n q) \<in>
        {[], gc_chunks (build_guarded_context (re_hash16 e) (se_chunks f) (preretrieve_budget_chars x n) (xs_require_citations x) True)}"
      by (simp add: preretrieve_docs_def Let_def f)
    then show ?thesis using guarded_subset f by fastforce
  qed
  then show ?thesis using policy_search_readable by blast
qed


section \<open>One turn\<close>

text \<open>
  C39. A search with the query of the turn gives what the turn has not been given: the keys written down are read
  back as they were, whatever the names of the sources, and exactly the chunks with one of them are dropped,
  the others kept in order. Another query, or no record, drops nothing.
\<close>
theorem preretrieval_dedupe_exact:
  assumes "cache = build_preretrieval_cache e query\<^sub>0 given q h trace mode"
    and "apply_preretrieval_dedupe enabled query hits cache = (kept, meta)"
  shows "set (parse_cache_keys cache) = dc_key ` set given
    \<and> kept = (if enabled \<and> queries_equivalent query query\<^sub>0 then filter (\<lambda>c. dc_key c \<notin> dc_key ` set given) hits else hits)
    \<and> dm_deduped_count meta = int (length hits) - int (length kept)
    \<and> dm_same_query meta = (enabled \<and> queries_equivalent query query\<^sub>0)"
proof -
  have c: "cache \<noteq> []" "str_or (dget cache ''query'') = query\<^sub>0"
    "as_list (dget cache ''chunk_keys'') = map PStr (map key_text (chunk_keys given))"
    by (simp_all add: assms(1) build_preretrieval_cache_def dget_def dget_or_def strs_def str_or_def py_or_def)
  have "List.map_filter (\<lambda>v. parse_key (py_str v)) (map PStr (map key_text ks)) = ks" for ks
    by (induction ks) (simp_all add: List.map_filter_def)
  then have keys: "parse_cache_keys cache = chunk_keys given" by (simp add: parse_cache_keys_def c(3) chunk_keys_def)
  have none: "chunk_keys given = [] \<longleftrightarrow> given = []" by (simp add: chunk_keys_def)
  show ?thesis
    using assms(2) c(1,2) keys none
    by (auto simp: apply_preretrieval_dedupe_def Let_def filter_new_chunks_def chunk_keys_def split: if_splits)
qed

section \<open>A turn and the next\<close>

definition demo_context :: context_settings where
  "demo_context = \<lparr>xs_preretrieval_enabled = True, xs_preretrieval_budget_chars = 0, xs_dedupe_enabled = True,
     xs_require_citations = True, xs_route_enabled = True, xs_packing_enabled = True, xs_checkpoint_pack_enabled = True\<rparr>"

definition docs_route :: tool_route where
  "docs_route = \<lparr>rt_kind = ''knowledge'', rt_recommended_tools = [''search_docs''], rt_forbidden_tools = [],
     rt_suggested_paths = [], rt_rationale = []\<rparr>"

text \<open>The digest of this environment is the text itself.\<close>

definition open_env :: rag_env where
  "open_env = demo_rag_env\<lparr>re_hash16 := (\<lambda>t. t)\<rparr>"

definition demo_docs :: preretrieved where
  "demo_docs = preretrieve_docs open_env demo_rag_settings demo_context
     (demo_rag_store (demo_readable @ [demo_foreign]) no_vectors) ''redis port'' docs_route 2000 demo_request"

definition demo_cache :: "retrieval_request \<Rightarrow> dict" where
  "demo_cache q = build_preretrieval_cache demo_rag_env ''redis port'' demo_readable (Some q)
     (build_policy_context_hash demo_rag_env q) [] ''preretrieval''"

lemma demo_docs_hits: "pd_hits demo_docs = [demo_doc ''x.md'' 1 ''a'' ''the redis port is 6379'']"
  by code_simp

theorem preretrieval_dedupe_exact_witness:
  "fst (apply_preretrieval_dedupe True ''Redis port?'' (demo_readable @ [demo_foreign]) (demo_cache demo_request)) = [demo_foreign]"
proof -
  have eq: "queries_equivalent ''Redis port?'' ''redis port''" by code_simp
  have keys: "dc_key demo_foreign \<notin> dc_key ` set demo_readable" "\<forall>c \<in> set demo_readable. dc_key c \<in> dc_key ` set demo_readable"
    by (auto simp: demo_foreign_def demo_readable_def demo_doc_def dc_key_def)
  show ?thesis
    using preretrieval_dedupe_exact [OF demo_cache_def prod.collapse [symmetric], of demo_request True "''Redis port?''" "demo_readable @ [demo_foreign]"]
      eq keys by (simp add: filter_empty_conv)
qed

definition later_request :: retrieval_request where
  "later_request = demo_request\<lparr>rq_query := ''Redis port?'', rq_purpose := ''preretrieval_context''\<rparr>"


section \<open>Where the guarantees stop\<close>

text \<open>The separator inside a field: two tenants have one digest, whatever the digest is.\<close>

definition tenant_ab :: retrieval_request where
  "tenant_ab = demo_request\<lparr>rq_tenant_id := ''a|b'', rq_user_id := ''c''\<rparr>"

definition tenant_a :: retrieval_request where
  "tenant_a = demo_request\<lparr>rq_tenant_id := ''a'', rq_user_id := ''b|c''\<rparr>"

lemma policy_hash_ambiguous:
  "build_policy_context_hash e tenant_ab = build_policy_context_hash e tenant_a
   \<and> gd_action (decide_retrieval open_env demo_context ''redis port'' docs_route [] tenant_ab
        (build_preretrieval_cache open_env ''redis port'' demo_readable (Some tenant_a) (build_policy_context_hash open_env tenant_a) [] [])) = ReuseCache"
proof
  show "build_policy_context_hash e tenant_ab = build_policy_context_hash e tenant_a"
    by (simp add: build_policy_context_hash_def policy_hash_parts_def tenant_ab_def tenant_a_def demo_request_def)
  show "gd_action (decide_retrieval open_env demo_context ''redis port'' docs_route [] tenant_ab
      (build_preretrieval_cache open_env ''redis port'' demo_readable (Some tenant_a) (build_policy_context_hash open_env tenant_a) [] [])) = ReuseCache"
    by code_simp
qed

text \<open>The gate can decide to retrieve for a route that the retrieval then refuses.\<close>

lemma documentation_intent_unserved:
  "gd_action (decide_retrieval demo_rag_env demo_context ''doc_intent'' (docs_route\<lparr>rt_recommended_tools := []\<rparr>) [] demo_request []) = Retrieve
   \<and> preretrieve_docs demo_rag_env s demo_context st ''doc_intent'' (docs_route\<lparr>rt_recommended_tools := []\<rparr>) n q
     = \<lparr>pd_hits = [], pd_message = None, pd_enabled = False, pd_excerpt_chars = 0, pd_result = None\<rparr>"
proof
  show "gd_action (decide_retrieval demo_rag_env demo_context ''doc_intent'' (docs_route\<lparr>rt_recommended_tools := []\<rparr>) [] demo_request []) = Retrieve"
    by code_simp
  have "\<not> should_preretrieve demo_context (docs_route\<lparr>rt_recommended_tools := []\<rparr>)" by (simp add: should_preretrieve_def)
  then show "preretrieve_docs demo_rag_env s demo_context st ''doc_intent'' (docs_route\<lparr>rt_recommended_tools := []\<rparr>) n q
     = \<lparr>pd_hits = [], pd_message = None, pd_enabled = False, pd_excerpt_chars = 0, pd_result = None\<rparr>"
    by (simp add: preretrieve_docs_def Let_def split: prod.splits)
qed

text \<open>
  The record that counts as the latest is the one with the highest number within its run: a retrieval of a
  later run that came earlier in that run is not found.
\<close>

definition retrieval_row :: "int \<Rightarrow> string \<Rightarrow> int \<Rightarrow> string \<Rightarrow> event_row" where
  "retrieval_row i run n query =
     \<lparr>ev_id = i, ev_thread_id = ''t'', ev_run_id = run, ev_type = ''retrieval_completed'',
      ev_payload = PDict [(''query'', PStr query), (''retrieval_mode'', PStr ''preretrieval''), (''allowed_chunk_ids'', strs [''c''])],
      ev_created_at = i, ev_sequence = Some n\<rparr>"

lemma latest_cache_of_an_older_run:
  assumes "events s = [retrieval_row 1 ''r1'' 6 ''first'', retrieval_row 2 ''r2'' 5 ''second'']"
  shows "dget (latest_preretrieval_cache s ''t'') ''query'' = PStr ''first''"
proof -
  have "list_events s ''t'' None None (Some 100) = [retrieval_row 2 ''r2'' 5 ''second'', retrieval_row 1 ''r1'' 6 ''first'']"
    using assms by (simp add: list_events_def list_events_query_def select_events_def sql_limit_def row_order_def retrieval_row_def)
  then show ?thesis
    by (simp add: latest_preretrieval_cache_def is_preretrieval_event_def retrieval_row_def payload_of_def strs_def
        str_or_def py_or_def dget_def dget_or_def cache_of_payload_def Let_def)
qed

end
