(* ===== verification/Routing.thy ===== *)
theory Routing
  imports Planning Complex_Main
begin

text \<open>
  From a question to a route: the engine that evaluates the rules of a scenario
  (\<^verbatim>\<open>copilot_agent/scenario/router/engine.py, schema.py\<close>), the refinement of a default route by a language model
  (\<^verbatim>\<open>scenario/router/llm_fallback.py\<close>) and the choice of skills for it (\<^verbatim>\<open>skills/selection.py\<close>).

  A regular expression is a parameter that tells whether it is found in a text; the search for a UUID gives
  the text found. An expression may name a predicate, whose expression may name others: the evaluation has
  a number of calls it may nest, and \<open>None\<close> stands for the \<^verbatim>\<open>RecursionError\<close> of one that goes deeper.
\<close>

section \<open>Rules\<close>

datatype match_expr = MatchExpr
  (mx_match: "string option") (mx_any: "match_expr list") (mx_all: "match_expr list") (mx_not: "match_expr option")
  (mx_predicate: "string option") (mx_has_uuid: "bool option") (mx_confirm_dangerous: "bool option")
  (mx_allow_job_post: "bool option")

record dynamic_path_rule =
  dp_if_any :: "string list"
  dp_paths :: "string list"

record suggested_paths_config =
  sp_static :: "string list"
  sp_prepend_if_uuid :: "string list"
  sp_prepend :: "dynamic_path_rule list"
  sp_dynamic :: "dynamic_path_rule list"

record recommended_tools_config =
  rc_default :: "string list"
  rc_overrides :: "(string list \<times> string list) list"

record router_rule =
  ru_id :: string
  ru_kind :: string
  ru_when :: "match_expr option"
  ru_recommended_tools :: "string list"
  ru_recommended :: "recommended_tools_config option"
  ru_forbidden_tools :: "string list"
  ru_suggested_paths :: "string list"
  ru_paths :: "suggested_paths_config option"
  ru_rationale :: string

record router_rules_config =
  rr_dangerous_job_path :: string
  rr_predicates :: "(string \<times> match_expr) list"
  rr_empty_query :: "tool_route option"
  rr_defaults :: tool_route
  rr_rules :: "router_rule list"

record eval_context =
  ec_text :: string
  ec_uuid :: "string option"
  ec_confirm_dangerous :: bool
  ec_allow_job_post :: bool
  ec_dangerous_job_path :: string

record route_decision =
  dn_route :: tool_route
  dn_matched_rule_id :: "string option"
  dn_used_defaults :: bool

record router_env =
  ro_search :: "string \<Rightarrow> string \<Rightarrow> bool"
  ro_uuid :: "string \<Rightarrow> string option"

section \<open>Matching\<close>

text \<open>Both stop at the first item that decides.\<close>

fun all_of :: "bool option list \<Rightarrow> bool option" where
  "all_of [] = Some True"
| "all_of (None # bs) = None"
| "all_of (Some b # bs) = (if b then all_of bs else Some False)"

fun any_of :: "bool option list \<Rightarrow> bool option" where
  "any_of [] = Some False"
| "any_of (None # bs) = None"
| "any_of (Some b # bs) = (if b then Some True else any_of bs)"

fun eval_expr :: "router_env \<Rightarrow> eval_context \<Rightarrow> (string \<times> match_expr) list \<Rightarrow> nat \<Rightarrow> match_expr \<Rightarrow> bool option" where
  "eval_expr v ctx preds 0 x = None"
| "eval_expr v ctx preds (Suc n) x =
     (if mx_confirm_dangerous x \<noteq> None then Some (ec_confirm_dangerous ctx = the (mx_confirm_dangerous x))
      else if mx_allow_job_post x \<noteq> None then Some (ec_allow_job_post ctx = the (mx_allow_job_post x))
      else if mx_has_uuid x \<noteq> None then Some ((ec_uuid ctx \<noteq> None) = the (mx_has_uuid x))
      else if mx_predicate x \<notin> {None, Some []} then
        (case map_of preds (the (mx_predicate x)) of None \<Rightarrow> Some False | Some nested \<Rightarrow> eval_expr v ctx preds n nested)
      else if mx_match x \<notin> {None, Some []} then Some (ro_search v (the (mx_match x)) (ec_text ctx))
      else if mx_not x \<noteq> None then map_option Not (eval_expr v ctx preds n (the (mx_not x)))
      else if mx_all x \<noteq> [] then all_of (map (eval_expr v ctx preds n) (mx_all x))
      else if mx_any x \<noteq> [] then any_of (map (eval_expr v ctx preds n) (mx_any x))
      else Some True)"

section \<open>Tools and paths of a rule\<close>

definition contains_any :: "router_env \<Rightarrow> string \<Rightarrow> string list \<Rightarrow> bool" where
  "contains_any v text patterns = list_ex (\<lambda>p. ro_search v p text) patterns"

definition resolve_recommended :: "router_env \<Rightarrow> router_rule \<Rightarrow> eval_context \<Rightarrow> string list" where
  "resolve_recommended v ru ctx =
     (case ru_recommended ru of
        None \<Rightarrow> ru_recommended_tools ru
      | Some c \<Rightarrow> (case find (\<lambda>(if_any, tools). contains_any v (ec_text ctx) if_any) (rc_overrides c) of
          Some (if_any, tools) \<Rightarrow> tools | None \<Rightarrow> rc_default c))"

text \<open>\<open>text.replace(old, new)\<close>\<close>

function replace_text :: "string \<Rightarrow> string \<Rightarrow> string \<Rightarrow> string" where
  "replace_text old new_text [] = []"
| "replace_text old new_text (c # s) =
     (if old \<noteq> [] \<and> starts_with (c # s) old then new_text @ replace_text old new_text (drop (length old) (c # s))
      else c # replace_text old new_text s)"
  by pat_completeness auto
termination replace_text
  by (relation "measure (\<lambda>(old, new_text, s). length s)") auto

definition expand_path :: "string \<Rightarrow> eval_context \<Rightarrow> string" where
  "expand_path template ctx =
     (let out = replace_text ''{dangerous_job_path}'' (ec_dangerous_job_path ctx) template
      in case ec_uuid ctx of
        None \<Rightarrow> out | Some u \<Rightarrow> if u = [] then out else replace_text ''{uuid}'' u out)"

definition dynamic_paths :: "router_env \<Rightarrow> eval_context \<Rightarrow> dynamic_path_rule list \<Rightarrow> string list" where
  "dynamic_paths v ctx ds =
     concat (map (\<lambda>d. if contains_any v (ec_text ctx) (dp_if_any d) then map (\<lambda>p. expand_path p ctx) (dp_paths d) else []) ds)"

definition resolve_paths_config :: "router_env \<Rightarrow> suggested_paths_config \<Rightarrow> eval_context \<Rightarrow> string list" where
  "resolve_paths_config v c ctx =
     add_unseen [] (dynamic_paths v ctx (sp_prepend c)
       @ (if ec_uuid ctx \<in> {None, Some []} then [] else map (\<lambda>p. expand_path p ctx) (sp_prepend_if_uuid c))
       @ map (\<lambda>p. expand_path p ctx) (sp_static c) @ dynamic_paths v ctx (sp_dynamic c))"

definition resolve_paths :: "router_env \<Rightarrow> router_rule \<Rightarrow> eval_context \<Rightarrow> string list" where
  "resolve_paths v ru ctx =
     (case ru_paths ru of
        Some c \<Rightarrow> resolve_paths_config v c ctx
      | None \<Rightarrow> map (\<lambda>p. expand_path p ctx) (ru_suggested_paths ru))"

definition materialize :: "router_env \<Rightarrow> router_rule \<Rightarrow> eval_context \<Rightarrow> tool_route" where
  "materialize v ru ctx =
     \<lparr>rt_kind = ru_kind ru, rt_recommended_tools = resolve_recommended v ru ctx,
      rt_forbidden_tools = ru_forbidden_tools ru, rt_suggested_paths = resolve_paths v ru ctx,
      rt_rationale = ru_rationale ru\<rparr>"

section \<open>The engine\<close>

definition eval_when :: "router_env \<Rightarrow> eval_context \<Rightarrow> (string \<times> match_expr) list \<Rightarrow> nat \<Rightarrow> router_rule \<Rightarrow> bool option" where
  "eval_when v ctx preds n ru = (case ru_when ru of None \<Rightarrow> Some True | Some x \<Rightarrow> eval_expr v ctx preds n x)"

fun first_match ::
    "router_env \<Rightarrow> eval_context \<Rightarrow> (string \<times> match_expr) list \<Rightarrow> nat \<Rightarrow> router_rule list \<Rightarrow> router_rule option option" where
  "first_match v ctx preds n [] = Some None"
| "first_match v ctx preds n (ru # rules) =
     (case eval_when v ctx preds n ru of
        None \<Rightarrow> None | Some b \<Rightarrow> if b then Some (Some ru) else first_match v ctx preds n rules)"

definition fallback_route :: "tool_route \<Rightarrow> string \<Rightarrow> tool_route" where
  "fallback_route d rationale = d\<lparr>rt_rationale := if rt_rationale d = [] then rationale else rt_rationale d\<rparr>"

definition eval_context_of :: "router_env \<Rightarrow> router_rules_config \<Rightarrow> string \<Rightarrow> bool \<Rightarrow> bool \<Rightarrow> eval_context" where
  "eval_context_of v c query confirm_dangerous allow_job_post =
     \<lparr>ec_text = strip query, ec_uuid = ro_uuid v (strip query), ec_confirm_dangerous = confirm_dangerous,
      ec_allow_job_post = allow_job_post, ec_dangerous_job_path = rr_dangerous_job_path c\<rparr>"

definition route_detailed ::
    "router_env \<Rightarrow> router_rules_config \<Rightarrow> nat \<Rightarrow> string \<Rightarrow> bool \<Rightarrow> bool \<Rightarrow> route_decision option" where
  "route_detailed v c n query confirm_dangerous allow_job_post =
     (let ctx = eval_context_of v c query confirm_dangerous allow_job_post
      in if ec_text ctx = [] then
           Some \<lparr>dn_route = fallback_route (case rr_empty_query c of Some d \<Rightarrow> d | None \<Rightarrow> rr_defaults c)
                    ''Empty query; default to documentation search if needed.'',
                 dn_matched_rule_id = Some ''empty_query'', dn_used_defaults = False\<rparr>
         else map_option (\<lambda>found. case found of
             Some ru \<Rightarrow> \<lparr>dn_route = materialize v ru ctx, dn_matched_rule_id = Some (ru_id ru), dn_used_defaults = False\<rparr>
           | None \<Rightarrow> \<lparr>dn_route = fallback_route (rr_defaults c) ''Static platform documentation question; use search_docs only.'',
                      dn_matched_rule_id = None, dn_used_defaults = True\<rparr>)
           (first_match v ctx (rr_predicates c) n (rr_rules c)))"

section \<open>Refinement by a language model\<close>

definition forbidden_for_kind :: "string \<Rightarrow> string list" where
  "forbidden_for_kind kind =
     (if kind = ''knowledge'' then [''http_get'', ''http_post'']
      else if kind = ''troubleshooting'' then [''http_post'']
      else if kind = ''live_status'' \<or> kind = ''dangerous_execute'' then []
      else [''search_docs'', ''http_get'', ''http_post''])"

definition texts_or :: "pyval \<Rightarrow> string list \<Rightarrow> string list" where
  "texts_or raw baseline = (if as_list raw \<noteq> [] then filter (\<lambda>t. strip t \<noteq> []) (map py_str (as_list raw)) else baseline)"

definition merge_llm_route :: "tool_route \<Rightarrow> dict \<Rightarrow> tool_route" where
  "merge_llm_route baseline parsed =
     (let kind = py_str (py_or (dget parsed ''kind'') (PStr (rt_kind baseline)));
          rationale = strip (py_str (py_or (dget parsed ''rationale'') (PStr (rt_rationale baseline))))
      in if kind \<notin> set ROUTE_KINDS then baseline
         else \<lparr>rt_kind = kind,
               rt_recommended_tools = texts_or (dget parsed ''recommended_tools'') (rt_recommended_tools baseline),
               rt_forbidden_tools = forbidden_for_kind kind,
               rt_suggested_paths = texts_or (dget parsed ''suggested_paths'') (rt_suggested_paths baseline),
               rt_rationale = (if rationale \<noteq> [] \<and> rationale \<noteq> rt_rationale baseline then rationale else rt_rationale baseline)
                 @ '' [LLM fallback]''\<rparr>)"

text \<open>\<open>text.strip("`")\<close>\<close>

definition strip_ticks :: "string \<Rightarrow> string" where
  "strip_ticks s = rev (dropWhile (\<lambda>c. c = CHR 0x60) (rev (dropWhile (\<lambda>c. c = CHR 0x60) s)))"

definition parse_classifier_json :: "(string \<Rightarrow> pyval option) \<Rightarrow> string \<Rightarrow> dict option" where
  "parse_classifier_json loads text =
     (let cleaned = strip text; inner = strip_ticks cleaned;
          cleaned = (if \<not> starts_with cleaned (replicate 3 CHR 0x60) then cleaned
                     else if starts_with (lower inner) ''json'' then strip (drop 4 inner) else inner)
      in map_option as_dict (loads cleaned))"

text \<open>The answer of the classifier; \<open>None\<close> when the call or the parsing raised.\<close>

definition refine_route_with_llm :: "bool \<Rightarrow> tool_route \<Rightarrow> dict option \<Rightarrow> tool_route" where
  "refine_route_with_llm enabled baseline answer =
     (if \<not> enabled then baseline
      else case answer of
        None \<Rightarrow> baseline
      | Some parsed \<Rightarrow>
          (let refined = merge_llm_route baseline parsed
           in if parsed = [] \<or> (rt_kind refined = rt_kind baseline \<and> rt_recommended_tools refined = rt_recommended_tools baseline)
              then baseline else refined))"

definition resolve_route ::
    "router_env \<Rightarrow> router_rules_config \<Rightarrow> nat \<Rightarrow> bool \<Rightarrow> (tool_route \<Rightarrow> dict option) \<Rightarrow> string \<Rightarrow> bool \<Rightarrow> bool \<Rightarrow> tool_route option" where
  "resolve_route v c n llm_enabled classify goal confirm_dangerous allow_job_post =
     map_option (\<lambda>d. if llm_enabled \<and> dn_used_defaults d
         then refine_route_with_llm llm_enabled (dn_route d) (classify (dn_route d)) else dn_route d)
       (route_detailed v c n goal confirm_dangerous allow_job_post)"

section \<open>Skills\<close>

record skill_spec =
  sk_name :: string
  sk_description :: string
  sk_risk_level :: string
  sk_instructions :: string
  sk_tool_allowlist :: "string list"
  sk_required_capabilities :: "string list"
  sk_keywords :: "string list"
  sk_routes :: "string list"

record selected_skill =
  ss_skill :: skill_spec
  ss_missing_capabilities :: "string list"
  ss_trigger_reasons :: "string list"
  ss_selection_score :: rat
  ss_injected :: bool

definition norm_text :: "string \<Rightarrow> string" where
  "norm_text s = join '' '' (words (lower s))"

definition select_skill :: "string \<Rightarrow> string \<Rightarrow> string list \<Rightarrow> skill_spec \<Rightarrow> selected_skill option" where
  "select_skill goal route_kind enabled_capabilities k =
     (let hits = filter (\<lambda>w. norm_text w \<noteq> [] \<and> contains (norm_text goal) (norm_text w)) (sk_keywords k);
          routed = (route_kind \<noteq> [] \<and> route_kind \<in> set (sk_routes k));
          score = 2 * rat_of_nat (length hits) + (if routed then 3 / 4 else 0);
          missing = filter (\<lambda>c. lower c \<notin> set (map lower enabled_capabilities)) (sk_required_capabilities k)
      in if (hits = [] \<and> \<not> routed) \<or> score < 1 then None
         else Some \<lparr>ss_skill = k, ss_missing_capabilities = missing,
                ss_trigger_reasons = map (\<lambda>w. ''keyword:'' @ w) hits @ (if routed then [''route:'' @ route_kind] else []),
                ss_selection_score = score, ss_injected = (missing = [])\<rparr>)"

definition select_skills :: "skill_spec list \<Rightarrow> string \<Rightarrow> string \<Rightarrow> string list \<Rightarrow> selected_skill list" where
  "select_skills skills goal route_kind enabled_capabilities =
     List.map_filter (select_skill goal route_kind enabled_capabilities) skills"

definition skill_lines :: "selected_skill \<Rightarrow> string list" where
  "skill_lines x =
     (let k = ss_skill x; tools = join '', '' (sk_tool_allowlist k); instructions = strip (sk_instructions k)
      in [''- '' @ sk_name k @ '': '' @ sk_description k]
         @ (if tools = [] then [] else [''  Recommended tools: '' @ tools])
         @ (if instructions = [] then [] else [''  Instructions: '' @ instructions]))"

definition skill_system_message :: "selected_skill list \<Rightarrow> string" where
  "skill_system_message selected =
     (let ls = concat (map skill_lines (filter ss_injected selected))
      in if ls = [] then [] else join [CHR 0x0A] (''[Skills]'' # ls))"

end
