(* ===== verification/RoutingProps.thy ===== *)
theory RoutingProps
  imports Routing
begin

text \<open>
  What routing guarantees: without circular predicates the engine decides every question by the first rule that
  matches, and a language model changes no route a rule gave. Demonstrations show where a guarantee stops.
\<close>

section \<open>Evaluation\<close>

lemma size_parts:
  "y \<in> set (mx_any x) \<Longrightarrow> size y < size x" "y \<in> set (mx_all x) \<Longrightarrow> size y < size x" "mx_not x = Some y \<Longrightarrow> size y < size x"
  by (cases x; auto dest: size_list_estimation' [OF _ order_refl, where f = size] simp: less_Suc_eq_le trans_le_add1 trans_le_add2)+

text \<open>The predicates an expression names have a rank below \<open>k\<close>.\<close>

fun ranked :: "(string \<Rightarrow> nat) \<Rightarrow> nat \<Rightarrow> match_expr \<Rightarrow> bool" where
  "ranked rank k (MatchExpr m an al neg p h c a) =
     ((case p of Some q \<Rightarrow> rank q < k | None \<Rightarrow> True) \<and> list_all (ranked rank k) an \<and> list_all (ranked rank k) al
      \<and> (case neg of Some y \<Rightarrow> ranked rank k y | None \<Rightarrow> True))"

lemma ranked_parts:
  assumes "ranked rank k x"
  shows "y \<in> set (mx_any x) \<Longrightarrow> ranked rank k y" "y \<in> set (mx_all x) \<Longrightarrow> ranked rank k y" "mx_not x = Some y \<Longrightarrow> ranked rank k y"
    "mx_predicate x = Some q \<Longrightarrow> rank q < k"
  using assms by (cases x; auto simp: list_all_iff)+

lemma all_of_total: "\<forall>x \<in> set xs. f x \<noteq> None \<Longrightarrow> all_of (map f xs) \<noteq> None"
  by (induction xs) auto

lemma any_of_total: "\<forall>x \<in> set xs. f x \<noteq> None \<Longrightarrow> any_of (map f xs) \<noteq> None"
  by (induction xs) auto

lemma all_of_mono: "\<forall>x \<in> set xs. \<forall>b. f x = Some b \<longrightarrow> g x = Some b \<Longrightarrow> all_of (map f xs) = Some b \<Longrightarrow> all_of (map g xs) = Some b"
proof (induction xs)
  case (Cons x xs)
  then show ?case by (cases "f x") (auto split: if_splits)
qed simp

lemma any_of_mono: "\<forall>x \<in> set xs. \<forall>b. f x = Some b \<longrightarrow> g x = Some b \<Longrightarrow> any_of (map f xs) = Some b \<Longrightarrow> any_of (map g xs) = Some b"
proof (induction xs)
  case (Cons x xs)
  then show ?case by (cases "f x") (auto split: if_splits)
qed simp

lemma eval_mono: "eval_expr v ctx preds n x = Some b \<Longrightarrow> n \<le> m \<Longrightarrow> eval_expr v ctx preds m x = Some b"
proof (induction n arbitrary: x b m)
  case (Suc n)
  obtain k where m: "m = Suc k" "n \<le> k" using Suc.prems(2) by (cases m) auto
  have step: "\<forall>x \<in> set xs. \<forall>b. eval_expr v ctx preds n x = Some b \<longrightarrow> eval_expr v ctx preds k x = Some b" for xs
    using Suc.IH m(2) by blast
  show ?case
  proof (cases "mx_confirm_dangerous x \<noteq> None \<or> mx_allow_job_post x \<noteq> None \<or> mx_has_uuid x \<noteq> None")
    case True
    then have "eval_expr v ctx preds (Suc n) x = eval_expr v ctx preds (Suc k) x" by (simp only: eval_expr.simps) auto
    then show ?thesis using Suc.prems(1) unfolding m(1) by (simp only:)
  next
    case flags: False
    show ?thesis
    proof (cases "mx_predicate x \<notin> {None, Some []}")
      case True
      then show ?thesis using Suc.prems(1) flags Suc.IH [OF _ m(2)] unfolding m(1) by (auto split: option.splits)
    next
      case pred: False
      show ?thesis
      proof (cases "mx_match x \<notin> {None, Some []}")
        case True
        then have "eval_expr v ctx preds (Suc n) x = eval_expr v ctx preds (Suc k) x" using flags pred by (simp only: eval_expr.simps) auto
        then show ?thesis using Suc.prems(1) unfolding m(1) by (simp only:)
      next
        case unmatched: False
        show ?thesis
        proof (cases "mx_not x")
        case (Some y)
        then have "eval_expr v ctx preds (Suc l) x = map_option Not (eval_expr v ctx preds l y)" for l
          using flags pred unmatched by simp
        then show ?thesis using Suc.prems(1) Suc.IH [OF _ m(2), of y] unfolding m(1) by auto
        next
        case None
        have "eval_expr v ctx preds (Suc l) x =
            (if mx_all x \<noteq> [] then all_of (map (eval_expr v ctx preds l) (mx_all x))
             else if mx_any x \<noteq> [] then any_of (map (eval_expr v ctx preds l) (mx_any x)) else Some True)" for l
          using flags pred unmatched None by simp
        then show ?thesis using Suc.prems(1) all_of_mono [OF step] any_of_mono [OF step] unfolding m(1) by (auto split: if_splits)
        qed
      qed
    qed
  qed
qed simp

lemma if_total: "(c \<Longrightarrow> a \<noteq> None) \<Longrightarrow> (\<not> c \<Longrightarrow> b \<noteq> None) \<Longrightarrow> (if c then a else b) \<noteq> None"
  by simp

lemma eval_total:
  assumes "list_all (\<lambda>(p, x). ranked rank (rank p) x \<and> size x < d) preds"
  shows "ranked rank k x \<Longrightarrow> size x + k * d < n \<Longrightarrow> eval_expr v ctx preds n x \<noteq> None"
proof (induction n arbitrary: x k)
  case (Suc n)
  have parts: "\<forall>y \<in> set (mx_all x). eval_expr v ctx preds n y \<noteq> None" "\<forall>y \<in> set (mx_any x). eval_expr v ctx preds n y \<noteq> None"
    "mx_not x = Some y \<Longrightarrow> eval_expr v ctx preds n y \<noteq> None" for y
  proof -
    have sub: "eval_expr v ctx preds n y \<noteq> None" if "ranked rank k y" "size y < size x" for y
      using Suc.IH [OF that(1)] that(2) Suc.prems(2) by simp
    then show "\<forall>y \<in> set (mx_all x). eval_expr v ctx preds n y \<noteq> None"
      using ranked_parts(2) [OF Suc.prems(1)] size_parts(2) by meson
    show "\<forall>y \<in> set (mx_any x). eval_expr v ctx preds n y \<noteq> None"
      using sub ranked_parts(1) [OF Suc.prems(1)] size_parts(1) by meson
    show "eval_expr v ctx preds n y \<noteq> None" if "mx_not x = Some y" for y
      using sub ranked_parts(3) [OF Suc.prems(1) that] size_parts(3) [OF that] by meson
  qed
  have named: "eval_expr v ctx preds n y \<noteq> None" if "mx_predicate x = Some q" "map_of preds q = Some y" for q y
  proof -
    have y: "ranked rank (rank q) y" "size y < d" using assms map_of_SomeD [OF that(2)] by (auto simp: list_all_iff)
    have "Suc (rank q) \<le> k" using ranked_parts(4) [OF Suc.prems(1) that(1)] by simp
    then have "Suc (rank q) * d \<le> k * d" by (rule mult_le_mono1)
    then have "size y + rank q * d < n" using y(2) Suc.prems(2) by simp
    then show ?thesis using Suc.IH y(1) by blast
  qed
  have all: "all_of (map (eval_expr v ctx preds n) (mx_all x)) \<noteq> None" "any_of (map (eval_expr v ctx preds n) (mx_any x)) \<noteq> None"
    using all_of_total [OF parts(1)] any_of_total [OF parts(2)] by blast+
  show ?case
    unfolding eval_expr.simps by (intro if_total) (use parts(3) named all in \<open>auto simp del: eval_expr.simps split: option.split\<close>)
qed simp

section \<open>Routes\<close>

text \<open>The predicates can be ranked so that each names only lower ones.\<close>

definition acyclic_rules :: "(string \<Rightarrow> nat) \<Rightarrow> nat \<Rightarrow> router_rules_config \<Rightarrow> bool" where
  "acyclic_rules rank k c \<longleftrightarrow>
     list_all (\<lambda>(p, x). ranked rank (rank p) x) (rr_predicates c)
     \<and> list_all (\<lambda>ru. case ru_when ru of None \<Rightarrow> True | Some x \<Rightarrow> ranked rank k x) (rr_rules c)"

text \<open>Calls that may be nested, enough for every expression of the rules.\<close>

definition enough_calls :: "nat \<Rightarrow> router_rules_config \<Rightarrow> nat" where
  "enough_calls k c =
     Suc (sum_list (map (\<lambda>ru. case ru_when ru of None \<Rightarrow> 0 | Some x \<Rightarrow> size x) (rr_rules c))
       + k * Suc (sum_list (map (size \<circ> snd) (rr_predicates c))))"

lemma eval_when_total:
  assumes "acyclic_rules rank k c" and "ru \<in> set (rr_rules c)" and "enough_calls k c \<le> n"
  shows "eval_when v ctx (rr_predicates c) n ru \<noteq> None"
proof (cases "ru_when ru")
  case None
  then show ?thesis by (simp add: eval_when_def)
next
  case (Some x)
  let ?d = "Suc (sum_list (map (size \<circ> snd) (rr_predicates c)))"
  have "size x' < ?d" if "(p, x') \<in> set (rr_predicates c)" for p x'
    using member_le_sum_list [of "size x'" "map (size \<circ> snd) (rr_predicates c)"] that by force
  then have preds: "list_all (\<lambda>(p, x). ranked rank (rank p) x \<and> size x < ?d) (rr_predicates c)"
    using assms(1) by (auto simp: acyclic_rules_def list_all_iff)
  have "size x \<le> sum_list (map (\<lambda>ru. case ru_when ru of None \<Rightarrow> 0 | Some x \<Rightarrow> size x) (rr_rules c))"
    using assms(2) Some by (intro member_le_sum_list) (auto intro: image_eqI [of _ _ ru])
  then have "size x + k * ?d < n" using assms(3) by (simp add: enough_calls_def)
  moreover have "ranked rank k x" using assms(1,2) Some by (force simp: acyclic_rules_def list_all_iff)
  ultimately show ?thesis using eval_total [OF preds] Some by (auto simp: eval_when_def)
qed

lemma eval_when_mono: "eval_when v ctx preds n ru = Some b \<Longrightarrow> n \<le> m \<Longrightarrow> eval_when v ctx preds m ru = Some b"
  using eval_mono [of v ctx preds n _ b m] by (cases "ru_when ru") (simp_all add: eval_when_def)

lemma first_match_find:
  "\<forall>ru \<in> set rules. eval_when v ctx preds n ru \<noteq> None \<Longrightarrow>
   first_match v ctx preds n rules = Some (find (\<lambda>ru. eval_when v ctx preds n ru = Some True) rules)"
  by (induction rules) (auto split: option.splits)

lemma find_cong_on: "\<forall>x \<in> set xs. p x = q x \<Longrightarrow> find p xs = find q xs"
  by (induction xs) auto


text \<open>
  C18. The language model is asked only for a default route: a route that a rule or the empty question gave is
  the answer as it is. A refined route has a known kind, forbids what is forbidden for that kind, allows no
  request for a question of knowledge and no tool at all for a rejected one.
\<close>
theorem llm_refines_defaults_only:
  assumes "route_detailed v c n goal confirm allow = Some d" and "resolve_route v c n llm classify goal confirm allow = Some r"
  shows "r = dn_route d
    \<or> llm \<and> dn_used_defaults d \<and> classify (dn_route d) \<noteq> None \<and> rt_kind r \<in> set ROUTE_KINDS
      \<and> rt_forbidden_tools r = forbidden_for_kind (rt_kind r)
      \<and> (rt_kind r = ''knowledge'' \<longrightarrow> \<not> tool_allowed r ''http_get'' \<and> \<not> tool_allowed r ''http_post'')
      \<and> (rt_kind r = ''safety_reject'' \<longrightarrow> (\<forall>t. \<not> tool_allowed r t))"
proof -
  have r: "r = (if llm \<and> dn_used_defaults d then refine_route_with_llm llm (dn_route d) (classify (dn_route d)) else dn_route d)"
    using assms by (simp add: resolve_route_def)
  have merged: "merge_llm_route b p = b \<or> rt_kind (merge_llm_route b p) \<in> set ROUTE_KINDS
      \<and> rt_forbidden_tools (merge_llm_route b p) = forbidden_for_kind (rt_kind (merge_llm_route b p))" for b p
    by (simp add: merge_llm_route_def Let_def)
  have "r = dn_route d \<or> llm \<and> dn_used_defaults d \<and> (\<exists>p. classify (dn_route d) = Some p \<and> r = merge_llm_route (dn_route d) p)"
    using r by (auto simp: refine_route_with_llm_def Let_def split: option.splits if_splits)
  moreover have "\<not> tool_allowed x t" if "rt_kind x = ''knowledge''" "t = ''http_get'' \<or> t = ''http_post''" for x t
    using that by (auto simp: tool_allowed_def)
  moreover have "\<not> tool_allowed x t" if "rt_kind x = ''safety_reject''" for x t
    using that by (simp add: tool_allowed_def)
  ultimately show ?thesis using merged by fastforce
qed

section \<open>Two small configurations\<close>

definition no_expr :: match_expr where
  "no_expr = MatchExpr None [] [] None None None None None"

definition named :: "string \<Rightarrow> match_expr" where
  "named p = MatchExpr None [] [] None (Some p) None None None"

definition matching :: "string \<Rightarrow> match_expr" where
  "matching p = MatchExpr (Some p) [] [] None None None None None"

definition demo_router_env :: router_env where
  "demo_router_env = \<lparr>ro_search = (\<lambda>p t. contains t p), ro_uuid = (\<lambda>t. None)\<rparr>"

definition docs_default :: tool_route where
  "docs_default = \<lparr>rt_kind = ''knowledge'', rt_recommended_tools = [''search_docs''],
     rt_forbidden_tools = [''http_get'', ''http_post''], rt_suggested_paths = [], rt_rationale = ''docs''\<rparr>"

definition status_rule :: router_rule where
  "status_rule = \<lparr>ru_id = ''status'', ru_kind = ''live_status'', ru_when = Some (named ''live''), ru_recommended_tools = [''http_get''],
     ru_recommended = None, ru_forbidden_tools = [''http_post''], ru_suggested_paths = [''/api/status''], ru_paths = None,
     ru_rationale = []\<rparr>"

definition demo_rules :: "(string \<times> match_expr) list \<Rightarrow> router_rules_config" where
  "demo_rules preds = \<lparr>rr_dangerous_job_path = ''/jobs'', rr_predicates = preds, rr_empty_query = None, rr_defaults = docs_default,
     rr_rules = [status_rule]\<rparr>"


definition live_answer :: dict where
  "live_answer = [(''kind'', PStr ''live_status''), (''recommended_tools'', PList [PStr ''http_get'', PStr ''http_post''])]"

theorem llm_refines_defaults_only_witness:
  "resolve_route demo_router_env (demo_rules []) 9 True (\<lambda>r. Some live_answer) ''hello'' False False
     = Some (merge_llm_route docs_default live_answer)
   \<and> rt_forbidden_tools (merge_llm_route docs_default live_answer) = forbidden_for_kind ''live_status''"
proof -
  have d: "route_detailed demo_router_env (demo_rules []) 9 ''hello'' False False
      = Some \<lparr>dn_route = docs_default, dn_matched_rule_id = None, dn_used_defaults = True\<rparr>"
    by (simp add: route_detailed_def demo_rules_def status_rule_def named_def eval_when_def eval_context_of_def demo_router_env_def
        fallback_route_def docs_default_def strip_def lstrip_def rstrip_def is_space_def numeral_eq_Suc)
  have r: "resolve_route demo_router_env (demo_rules []) 9 True (\<lambda>r. Some live_answer) ''hello'' False False
      = Some (merge_llm_route docs_default live_answer)"
    by (simp add: resolve_route_def d refine_route_with_llm_def live_answer_def Let_def merge_llm_route_def docs_default_def
        dget_def dget_or_def py_or_def ROUTE_KINDS_def)
  have k: "rt_kind (merge_llm_route docs_default live_answer) = ''live_status''"
    by (simp add: live_answer_def merge_llm_route_def docs_default_def Let_def dget_def dget_or_def py_or_def ROUTE_KINDS_def)
  have "merge_llm_route docs_default live_answer \<noteq> docs_default" using k by (auto simp: docs_default_def)
  then show ?thesis using llm_refines_defaults_only [OF d r] r k by simp
qed

section \<open>Where the guarantees stop\<close>

text \<open>A predicate that names itself: every question that is not empty raises.\<close>

lemma circular_predicate_raises:
  assumes "strip query \<noteq> []"
  shows "route_detailed demo_router_env (demo_rules [(''live'', named ''live'')]) n query confirm allow = None"
proof -
  have "eval_expr v ctx [(''live'', named ''live'')] n (named ''live'') = None" for v ctx
    by (induction n) (simp_all add: named_def)
  then show ?thesis
    using assms by (simp add: route_detailed_def demo_rules_def status_rule_def eval_when_def eval_context_of_def)
qed

text \<open>What the default forbids is allowed again when the language model picks another kind.\<close>

lemma model_lifts_forbidden_tools:
  "''http_post'' \<in> set (rt_forbidden_tools docs_default) \<and> tool_allowed (merge_llm_route docs_default live_answer) ''http_post''"
  by (simp add: live_answer_def merge_llm_route_def docs_default_def Let_def dget_def dget_or_def py_or_def ROUTE_KINDS_def
      tool_allowed_def forbidden_for_kind_def texts_or_def strip_def lstrip_def rstrip_def is_space_def)

end
