(* ===== verification/MemoryRecall.thy ===== *)
theory MemoryRecall
  imports MemoryWriter MemoryGovernance
begin

text \<open>
  What a turn remembers: the recall of long-term items (\<^verbatim>\<open>copilot_agent/memory/recall_policy.py, hyde.py\<close>) and of
  earlier runs (\<^verbatim>\<open>episodic_recall.py\<close>), and the text made of both (\<^verbatim>\<open>injection_render.py, context_builder.py,
  context/memory_inject.py\<close>).

  Scores are exact rationals. The exponential, the logarithm, the embedding of a text, the cosine of two
  embeddings, the hypothetical document of a language model and a number as text are parameters.
\<close>

section \<open>Policy\<close>

record recall_policy =
  rp_enabled :: bool
  rp_long_term_enabled :: bool
  rp_hyde_enabled :: bool
  rp_hyde_rule_mode :: bool
  rp_top_k :: int
  rp_min_score :: rat
  rp_inject_min_score :: rat
  rp_use_vector :: bool
  rp_vector_min_score :: rat
  rp_keyword_weight :: rat
  rp_vector_weight :: rat
  rp_time_weight :: rat
  rp_importance_weight :: rat
  rp_confidence_weight :: rat
  rp_access_weight :: rat
  rp_half_life_days :: rat
  rp_access_half_life_days :: rat
  rp_boost :: "memory_type \<Rightarrow> rat"
  rp_episodic_top_k :: int
  rp_conflict_threshold :: rat
  rp_summary_max_chars :: int
  rp_summary_budget_chars :: int
  rp_episodic_budget_chars :: int
  rp_long_term_budget_chars :: int
  rp_max_per_type :: int

record recall_env =
  rv_exp :: "rat \<Rightarrow> rat"
  rv_log1p :: "rat \<Rightarrow> rat"
  rv_embed :: "string \<Rightarrow> rat list option"
  rv_cosine :: "rat list \<Rightarrow> rat list \<Rightarrow> rat"
  rv_llm_hyde :: "string \<Rightarrow> string option"
  rv_fixed2 :: "rat \<Rightarrow> string"

section \<open>Long-term items\<close>

definition HYDE_RULE :: "string \<Rightarrow> string" where
  "HYDE_RULE query = ''Relevant user memory about: '' @ query @ ''. ''
     @ ''May include preferences, recurring tasks, platform usage patterns, and prior troubleshooting goals.''"

text \<open>The parameter gives the text of the model, \<open>None\<close> when there is no key or the call raised.\<close>

definition build_hyde_query :: "recall_env \<Rightarrow> recall_policy \<Rightarrow> string \<Rightarrow> string" where
  "build_hyde_query v p query =
     (let base = strip query in
      if base = [] \<or> \<not> rp_hyde_enabled p then base
      else if rp_hyde_rule_mode p then HYDE_RULE base
      else case rv_llm_hyde v base of
          None \<Rightarrow> HYDE_RULE base
        | Some t \<Rightarrow> if strip t = [] then HYDE_RULE base else take 512 (strip t))"

definition time_decay_factor :: "recall_env \<Rightarrow> time \<Rightarrow> rat \<Rightarrow> memory_state \<Rightarrow> rat \<times> memory_state" where
  "time_decay_factor v updated_at half_life_days st =
     (if half_life_days \<le> 0 then (1, st)
      else case memory_now st of
        (now, st) \<Rightarrow> (rv_exp v (- (693147 / 1000000) * max 0 (rat_of_int (now - updated_at) / rat_of_int DAY) / half_life_days), st))"

definition access_factor :: "recall_env \<Rightarrow> memory_item \<Rightarrow> rat \<Rightarrow> memory_state \<Rightarrow> rat \<times> memory_state" where
  "access_factor v i half_life_days st =
     (let bonus = min (35 / 100) (rv_log1p v (rat_of_int (max 0 (mi_access_count i))) * (8 / 100)) in
      case mi_last_accessed_at i of
        Some t \<Rightarrow> (case time_decay_factor v t half_life_days st of
          (recency, st) \<Rightarrow> (min (135 / 100) (65 / 100 + bonus + 35 / 100 * recency), st))
      | None \<Rightarrow> (if 0 < mi_access_count i then min (115 / 100) (85 / 100 + bonus) else 7 / 10, st))"

definition confidence_factor :: "rat \<Rightarrow> rat" where
  "confidence_factor c = max (1 / 4) (min (115 / 100) c)"

definition memory_type_boost :: "memory_type \<Rightarrow> string \<Rightarrow> recall_policy \<Rightarrow> rat" where
  "memory_type_boost t route_kind p =
     (let base = rp_boost p t in
      if route_kind \<in> {''troubleshooting'', ''live_status''}
      then (case t of TASK_SUMMARY \<Rightarrow> base + 6 / 100 | FACT \<Rightarrow> base + 4 / 100 | _ \<Rightarrow> max 0 (base - 2 / 100))
      else if route_kind = ''knowledge'' \<and> t = FACT then base + 4 / 100
      else if route_kind \<in> {''dangerous_execute'', ''safety_reject''} \<and> t = PREFERENCE then base + 2 / 100
      else base)"

definition wrong_intent :: "memory_type \<Rightarrow> string \<Rightarrow> string list \<Rightarrow> bool" where
  "wrong_intent t route_kind recommended_tools \<longleftrightarrow>
     t = PREFERENCE \<and> (route_kind \<in> {''troubleshooting'', ''live_status''} \<or> ''http_get'' \<in> set recommended_tools)"

definition token_overlap :: "string list \<Rightarrow> string list \<Rightarrow> rat" where
  "token_overlap query doc =
     (if query = [] \<or> doc = [] then 0
      else rat_of_nat (length (filter (\<lambda>t. t \<in> set doc) query)) / rat_of_nat (length query))"

record recalled_item =
  ri_item :: memory_item
  ri_score :: rat
  ri_keyword_score :: rat
  ri_time_factor :: rat
  ri_vector_score :: rat
  ri_type_boost :: rat
  ri_route_kind :: string
  ri_confidence_factor :: rat
  ri_access_factor :: rat

record recall_query =
  rk_tokens :: "string list"
  rk_embedding :: "rat list option"
  rk_route_kind :: string
  rk_recommended_tools :: "string list"

text \<open>What becomes of an item: the reason why it is dropped, or the item with its scores.\<close>

definition recall_item ::
    "recall_env \<Rightarrow> recall_policy \<Rightarrow> recall_query \<Rightarrow> memory_item \<Rightarrow> memory_state \<Rightarrow> (string + recalled_item) \<times> memory_state" where
  "recall_item v p q i st =
     (let keyword_score = token_overlap (rk_tokens q) (memory_tokenize (mi_content i));
          vector_score = (case (rk_embedding q, mi_embedding i) of
              (Some a, Some b) \<Rightarrow> if b = [] then 0 else max 0 (rv_cosine v a b) | _ \<Rightarrow> 0);
          with_vector = (rp_use_vector p \<and> rk_embedding q \<noteq> None);
          type_boost = memory_type_boost (mi_memory_type i) (rk_route_kind q) p
      in if wrong_intent (mi_memory_type i) (rk_route_kind q) (rk_recommended_tools q) \<and> keyword_score < rp_min_score p * (3 / 2)
         then (Inl ''wrong_intent'', st)
         else if keyword_score < rp_min_score p \<and> (\<not> with_vector \<or> vector_score < rp_vector_min_score p)
         then (Inl ''low_score'', st)
         else (case time_decay_factor v (mi_updated_at i) (rp_half_life_days p) st of
           (time_factor, st) \<Rightarrow> (case access_factor v i (rp_access_half_life_days p) st of
             (access, st) \<Rightarrow>
               (let score = rp_keyword_weight p * keyword_score + (if with_vector then rp_vector_weight p * vector_score else 0)
                      + rp_time_weight p * time_factor + rp_importance_weight p * mi_importance i
                      + rp_confidence_weight p * confidence_factor (mi_confidence i) + rp_access_weight p * access + type_boost
                in if score < rp_inject_min_score p then (Inl ''low_score'', st)
                   else (Inr \<lparr>ri_item = i, ri_score = score, ri_keyword_score = keyword_score, ri_time_factor = time_factor,
                           ri_vector_score = vector_score, ri_type_boost = type_boost, ri_route_kind = rk_route_kind q,
                           ri_confidence_factor = confidence_factor (mi_confidence i), ri_access_factor = access\<rparr>, st)))))"

type_synonym dropped_item = "memory_item \<times> string"

fun recall_items ::
    "recall_env \<Rightarrow> recall_policy \<Rightarrow> recall_query \<Rightarrow> memory_item list \<Rightarrow> memory_state \<Rightarrow>
     recalled_item list \<times> dropped_item list \<times> memory_state" where
  "recall_items v p q [] st = ([], [], st)"
| "recall_items v p q (i # is) st =
     (case recall_item v p q i st of
        (r, st) \<Rightarrow> (case recall_items v p q is st of
          (scored, dropped, st) \<Rightarrow>
            (case r of Inl reason \<Rightarrow> (scored, (i, reason) # dropped, st) | Inr x \<Rightarrow> (x # scored, dropped, st))))"

definition recall_long_term_items_with_explain ::
    "recall_env \<Rightarrow> recall_policy \<Rightarrow> string \<Rightarrow> string \<Rightarrow> string \<Rightarrow> bool \<Rightarrow> string \<Rightarrow> string list \<Rightarrow> memory_state \<Rightarrow>
     recalled_item list \<times> dropped_item list \<times> memory_state" where
  "recall_long_term_items_with_explain v p user_id thread_id query record_access route_kind recommended_tools st =
     (if \<not> rp_long_term_enabled p \<or> strip query = [] then ([], [], st)
      else case list_active user_id (Some thread_id) (Some [USER, SESSION]) False st of
        (items, st) \<Rightarrow>
          (let recall_text = strip (build_hyde_query v p query);
               q = \<lparr>rk_tokens = memory_tokenize query,
                    rk_embedding = (if recall_text = [] \<or> \<not> rp_use_vector p then None else rv_embed v recall_text),
                    rk_route_kind = route_kind, rk_recommended_tools = recommended_tools\<rparr>
           in if rk_tokens q = [] \<and> rk_embedding q = None then ([], [], st)
              else case recall_items v p q items st of
                (scored, dropped, st) \<Rightarrow>
                  (let ordered = sort_key (\<lambda>r. - ri_score r) scored; n = nat (max 0 (rp_top_k p)); top = take n ordered
                   in (top, dropped @ map (\<lambda>r. (ri_item r, ''budget_exceeded'')) (drop n ordered),
                       if record_access then touch_access (map (\<lambda>r. mi_id (ri_item r)) top) st else st))))"

section \<open>Earlier runs\<close>

definition keyword_recall_score :: "string \<Rightarrow> dict \<Rightarrow> rat" where
  "keyword_recall_score goal summary =
     (let haystack = py_str (dget_or summary ''goal'' (PStr [])) @ '' ''
            @ join '' '' (map py_str (filter truthy (as_list (dget summary ''key_outputs''))))
      in token_overlap (memory_tokenize goal) (memory_tokenize haystack))"

definition goals_conflict :: "string \<Rightarrow> string \<Rightarrow> rat \<Rightarrow> bool" where
  "goals_conflict current_goal recalled_goal threshold \<longleftrightarrow>
     (let a = memory_tokenize current_goal; b = memory_tokenize recalled_goal
      in a \<noteq> [] \<and> b \<noteq> [] \<and> similarity current_goal recalled_goal < threshold)"

definition cut_text_at :: "int \<Rightarrow> string \<Rightarrow> string" where
  "cut_text_at n s =
     (if int (length s) \<le> n then s
      else rstrip (if n < 3 then take (length s - nat (3 - n)) s else take (nat (n - 3)) s) @ ''...'')"

record recalled_run =
  er_run_id :: string
  er_score :: rat
  er_goal :: string
  er_outcome :: string
  er_snippet :: string
  er_source_event_id :: pyval

definition snippet_from_summary :: "dict \<Rightarrow> string" where
  "snippet_from_summary payload =
     (case as_list (dget payload ''key_outputs'') of
        x # xs \<Rightarrow> cut_text_at 240 (py_str x)
      | [] \<Rightarrow> cut_text_at 240 (strip (py_str (dget_or payload ''goal'' (PStr [])))))"

definition score_run :: "string \<Rightarrow> string option \<Rightarrow> dict \<Rightarrow> recalled_run option" where
  "score_run goal current_run_id item =
     (let run_id = py_str (dget_or item ''run_id'' (PStr []));
          payload = as_dict (dget_or item ''payload'' (PDict []));
          score = keyword_recall_score goal payload
      in if (case current_run_id of Some c \<Rightarrow> c \<noteq> [] \<and> run_id = c | None \<Rightarrow> False) then None
         else if \<not> is_dict (dget_or item ''payload'' (PDict [])) \<or> score \<le> 0 then None
         else Some \<lparr>er_run_id = run_id, er_score = score, er_goal = py_str (dget_or payload ''goal'' (PStr [])),
                er_outcome = py_str (dget_or payload ''outcome'' (PStr [])), er_snippet = snippet_from_summary payload,
                er_source_event_id = dget item ''event_id''\<rparr>)"

fun pick_runs :: "string \<Rightarrow> rat \<Rightarrow> nat \<Rightarrow> recalled_run list \<Rightarrow> recalled_run list \<times> recalled_run list" where
  "pick_runs goal threshold 0 rs = ([], [])"
| "pick_runs goal threshold (Suc n) [] = ([], [])"
| "pick_runs goal threshold (Suc n) (r # rs) =
     (if goals_conflict goal (er_goal r) threshold
      then (case pick_runs goal threshold (Suc n) rs of (a, b) \<Rightarrow> (a, r # b))
      else (case pick_runs goal threshold n rs of (a, b) \<Rightarrow> (r # a, b)))"

definition recall_episodic_runs :: "recall_policy \<Rightarrow> dict list \<Rightarrow> string \<Rightarrow> string option \<Rightarrow> recalled_run list \<times> recalled_run list" where
  "recall_episodic_runs p run_summaries goal current_run_id =
     (if strip goal = [] \<or> rp_episodic_top_k p \<le> 0 then ([], [])
      else pick_runs goal (rp_conflict_threshold p) (nat (rp_episodic_top_k p))
        (sort_key (\<lambda>r. - er_score r) (List.map_filter (score_run goal current_run_id) run_summaries)))"

section \<open>The text for the model\<close>

definition MEMORY_CONTEXT_PREFIX :: string where
  "MEMORY_CONTEXT_PREFIX = ''[MemoryContext]''"

definition nl :: string where
  "nl = [CHR 0x0A]"

text \<open>\<open>xs[:n]\<close>\<close>

definition slice_to :: "int \<Rightarrow> 'a list \<Rightarrow> 'a list" where
  "slice_to n xs = take (if n < 0 then length xs - nat (- n) else nat n) xs"

definition texts_line :: "string \<Rightarrow> dict \<Rightarrow> string \<Rightarrow> string" where
  "texts_line title summary key =
     (let t = join '', '' (map py_str (as_list (dget summary key)))
      in ''- '' @ title @ '': '' @ (if t = [] then ''none'' else t))"

definition thread_summary_lines :: "dict \<Rightarrow> string list" where
  "thread_summary_lines summary =
     (if summary = [] then []
      else [texts_line ''goals'' summary ''recent_goals'', texts_line ''outcomes'' summary ''recent_outcomes'',
            texts_line ''tools'' summary ''tools_used''])"

definition episodic_lesson_line :: "recalled_run \<Rightarrow> string" where
  "episodic_lesson_line r =
     ''- run_id='' @ er_run_id r @ '' goal='' @ er_goal r @ '' outcome='' @ er_outcome r @ '' snippet='' @ er_snippet r"

definition long_term_line :: "recall_env \<Rightarrow> recalled_item \<Rightarrow> string" where
  "long_term_line v r =
     (let i = ri_item r
      in ''- ['' @ type_value (mi_memory_type i) @ ''|'' @ scope_value (mi_scope i) @ ''] '' @ cut_text_at 180 (mi_content i)
         @ '' (score='' @ rv_fixed2 v (round_digits 4 (ri_score r)) @ '')'')"

fun keep_lines :: "int \<Rightarrow> int \<Rightarrow> string list \<Rightarrow> string list" where
  "keep_lines max_chars used [] = []"
| "keep_lines max_chars used (l # ls) =
     (if 0 < max_chars \<and> max_chars < used + (int (length l) + 1) then keep_lines max_chars used ls
      else l # keep_lines max_chars (used + (int (length l) + 1)) ls)"

definition budget_section :: "string \<Rightarrow> string list \<Rightarrow> int \<Rightarrow> string" where
  "budget_section title ls max_chars =
     (let kept = keep_lines max_chars (int (length title) + 1) ls
      in if kept = [] then [] else title @ '':'' @ nl @ join nl kept)"

definition of_types :: "memory_type list \<Rightarrow> recalled_item list \<Rightarrow> recalled_item list" where
  "of_types ts rs = filter (\<lambda>r. mi_memory_type (ri_item r) \<in> set ts) rs"

definition render_memory_context ::
    "recall_env \<Rightarrow> recall_policy \<Rightarrow> dict \<Rightarrow> recalled_run list \<Rightarrow> recalled_item list \<Rightarrow> string" where
  "render_memory_context v p summary earlier items =
     (let ls = (\<lambda>ts. map (long_term_line v) (slice_to (rp_max_per_type p) (of_types ts items)));
          sections =
            [budget_section ''Thread summary'' (thread_summary_lines summary) (rp_summary_budget_chars p),
             budget_section ''Relevant facts'' (ls [FACT]) (rp_long_term_budget_chars p div 2),
             budget_section ''Past run lessons'' (map episodic_lesson_line earlier @ ls [TASK_SUMMARY]) (rp_episodic_budget_chars p),
             budget_section ''User preferences'' (ls [PREFERENCE, BEHAVIOR]) (max 120 (rp_long_term_budget_chars p div 3))]
      in strip (join (nl @ nl) (MEMORY_CONTEXT_PREFIX # filter (\<lambda>t. t \<noteq> []) sections)))"

definition source_run_ids :: "dict \<Rightarrow> recalled_run list \<Rightarrow> string list" where
  "source_run_ids summary earlier =
     rev (remdups (rev (filter (\<lambda>t. t \<noteq> []) (map py_str (as_list (dget summary ''source_run_ids'')) @ map er_run_id earlier))))"

definition source_memory_item_ids :: "recalled_item list \<Rightarrow> string list" where
  "source_memory_item_ids items = rev (remdups (rev (filter (\<lambda>t. t \<noteq> []) (map (\<lambda>r. mi_id (ri_item r)) items))))"

definition memory_rules :: "dict \<Rightarrow> recalled_run list \<Rightarrow> recalled_item list \<Rightarrow> string" where
  "memory_rules summary earlier items =
     ''Rules:'' @ nl @ ''- Use memory only when relevant.'' @ nl
     @ ''- Prefer current user message and retrieved docs on conflict.'' @ nl
     @ ''Sources: source_run_ids='' @ py_str (PList (map PStr (source_run_ids summary earlier)))
     @ ''; memory_item_ids='' @ py_str (PList (map PStr (source_memory_item_ids items)))"

record inject_bundle =
  ib_enabled :: bool
  ib_recalled_runs :: "recalled_run list"
  ib_recalled_long_term :: "recalled_item list"
  ib_dropped_conflicts :: "recalled_run list"
  ib_dropped_long_term :: "dropped_item list"
  ib_inject_preview :: string
  ib_truncated :: bool

definition build_episodic_inject_bundle ::
    "recall_env \<Rightarrow> recall_policy \<Rightarrow> dict \<Rightarrow> recalled_run list \<Rightarrow> recalled_run list \<Rightarrow> dropped_item list \<Rightarrow> recalled_item list \<Rightarrow> inject_bundle" where
  "build_episodic_inject_bundle v p summary earlier conflicts dropped items =
     (let body = render_memory_context v p summary earlier items; footer = memory_rules summary earlier items;
          preview = (if body = [] then footer else strip (body @ nl @ nl @ footer));
          truncated = (rp_summary_max_chars p < int (length preview))
      in if \<not> rp_enabled p
         then \<lparr>ib_enabled = False, ib_recalled_runs = [], ib_recalled_long_term = [], ib_dropped_conflicts = conflicts,
               ib_dropped_long_term = dropped, ib_inject_preview = [], ib_truncated = False\<rparr>
         else \<lparr>ib_enabled = True, ib_recalled_runs = earlier, ib_recalled_long_term = items, ib_dropped_conflicts = conflicts,
               ib_dropped_long_term = dropped,
               ib_inject_preview = (if truncated then cut_text_at (rp_summary_max_chars p) preview else preview),
               ib_truncated = truncated\<rparr>)"

text \<open>The summary of the thread and those of its runs are read from the log, as the arguments \<open>summary\<close> and \<open>run_summaries\<close>.\<close>

definition build_memory_preview ::
    "recall_env \<Rightarrow> recall_policy \<Rightarrow> string \<Rightarrow> string \<Rightarrow> string option \<Rightarrow> bool \<Rightarrow> string \<Rightarrow> string list \<Rightarrow> dict \<Rightarrow> dict list \<Rightarrow>
     memory_state \<Rightarrow> inject_bundle \<times> memory_state" where
  "build_memory_preview v p thread_id goal current_run_id record_access route_kind recommended_tools summary run_summaries st =
     (let (earlier, conflicts) = recall_episodic_runs p run_summaries goal current_run_id;
          (items, dropped, st) =
            (if rp_long_term_enabled p \<and> strip goal \<noteq> []
             then recall_long_term_items_with_explain v p (owner st thread_id) thread_id goal record_access route_kind recommended_tools st
             else ([], [], st))
      in (build_episodic_inject_bundle v p summary earlier conflicts dropped items, st))"

definition memory_context_message :: "inject_bundle \<Rightarrow> string option" where
  "memory_context_message b =
     (let preview = strip (ib_inject_preview b) in if \<not> ib_enabled b \<or> preview = [] then None else Some preview)"

end
