(* ===== verification/RecallProps.thy ===== *)
theory RecallProps
  imports MemoryRecall MemoryTable ContextProps
begin

text \<open>
  What a turn remembers: every listed item is recalled or dropped with a reason, a preview changes no item, and
  the text keeps its budget. Demonstrations show where a guarantee stops.
\<close>

section \<open>Recall\<close>

lemma decay_items: "time_decay_factor v t h st = (f, st') \<Longrightarrow> ms_items st' = ms_items st"
  by (auto simp: time_decay_factor_def memory_now_def split: if_splits prod.splits)

lemma access_items: "access_factor v i h st = (f, st') \<Longrightarrow> ms_items st' = ms_items st"
  by (auto simp: access_factor_def Let_def dest: decay_items split: option.splits prod.splits)

lemma recall_item_parts:
  assumes "recall_item v p q i st = (r, st')"
  shows "ms_items st' = ms_items st" "r = Inr x \<Longrightarrow> ri_item x = i \<and> rp_inject_min_score p \<le> ri_score x"
    "r = Inl reason \<Longrightarrow> reason \<in> {''wrong_intent'', ''low_score''}"
proof -
  define keep where "keep = (r, st')"
  have "ms_items st' = ms_items st \<and> (\<forall>x. r = Inr x \<longrightarrow> ri_item x = i \<and> rp_inject_min_score p \<le> ri_score x)
      \<and> (\<forall>reason. r = Inl reason \<longrightarrow> reason \<in> {''wrong_intent'', ''low_score''})"
    using assms unfolding recall_item_def Let_def
    by (auto split: if_splits prod.splits dest!: decay_items access_items)
  then show "ms_items st' = ms_items st" "r = Inr x \<Longrightarrow> ri_item x = i \<and> rp_inject_min_score p \<le> ri_score x"
    "r = Inl reason \<Longrightarrow> reason \<in> {''wrong_intent'', ''low_score''}" by auto
qed

lemma recall_items_parts:
  "recall_items v p q is st = (scored, dropped, st') \<Longrightarrow>
   ms_items st' = ms_items st \<and> mset (map ri_item scored @ map fst dropped) = mset is
   \<and> (\<forall>x \<in> set scored. rp_inject_min_score p \<le> ri_score x) \<and> snd ` set dropped \<subseteq> {''wrong_intent'', ''low_score''}"
proof (induction "is" arbitrary: st scored dropped st')
  case (Cons i "is")
  obtain r st1 where r: "recall_item v p q i st = (r, st1)" by (metis prod.exhaust)
  obtain sc dr st2 where rest: "recall_items v p q is st1 = (sc, dr, st2)" by (metis prod.exhaust)
  note IH = Cons.IH [OF rest] and parts = recall_item_parts [OF r]
  show ?case
  proof (cases r)
    case (Inl reason)
    then have "scored = sc" "dropped = (i, reason) # dr" "st' = st2" using Cons.prems r rest by auto
    then show ?thesis using IH parts(1) parts(3) [OF Inl] by auto
  next
    case (Inr x)
    then have "scored = x # sc" "dropped = dr" "st' = st2" using Cons.prems r rest by auto
    then show ?thesis using IH parts(1) parts(2) [OF Inr] by auto
  qed
qed simp

lemma listed_item:
  assumes "i \<in> set (fst (list_active u (Some t) sc False st))"
  shows "mi_user_id i = u" "\<not> mi_is_deprecated i" "\<not> mi_pending_confirmation i" "mi_scope i = USER \<or> mi_thread_id i = text_or_none (Some t)"
  using assms by (auto simp: list_active_def Let_def by_recency_def in_thread_def row_to_memory_item_def split: prod.splits)

lemma list_active_state: "list_active u t sc ip st = (is, st') \<Longrightarrow> ms_items st' = ms_items st"
  by (auto simp: list_active_def Let_def memory_now_def split: prod.splits)

lemma touch_access_items:
  "ids \<noteq> [] \<Longrightarrow> \<exists>now. ms_items (touch_access ids st) = update_where (\<lambda>r. mi_id r \<in> set ids)
     (\<lambda>r. r\<lparr>mi_access_count := mi_access_count r + 1, mi_last_accessed_at := Some now, mi_updated_at := now\<rparr>) (ms_items st)"
  by (auto simp: touch_access_def memory_now_def split: prod.splits)

lemma sorted_scores: "sorted_wrt (\<lambda>a b. ri_score b \<le> ri_score a) (sort_key (\<lambda>r. - ri_score r) xs)"
proof -
  have "sorted (map (\<lambda>r. - ri_score r) (sort_key (\<lambda>r. - ri_score r) xs))" by simp
  then show ?thesis by (simp add: sorted_map)
qed

definition access_marked :: "string list \<Rightarrow> memory_item list \<Rightarrow> memory_item list \<Rightarrow> bool" where
  "access_marked ids before after \<longleftrightarrow>
     (\<exists>now. after = update_where (\<lambda>r. mi_id r \<in> set ids)
        (\<lambda>r. r\<lparr>mi_access_count := mi_access_count r + 1, mi_last_accessed_at := Some now, mi_updated_at := now\<rparr>) before)"

lemma recall_cases:
  assumes "recall_long_term_items_with_explain v p u t query touch kind tools st = (best, dropped, st')"
  obtains (none) "best = []" "dropped = []" "ms_items st' = ms_items st"
  | (some) scored dr n where "best = take n (sort_key (\<lambda>r. - ri_score r) scored)" "n = nat (max 0 (rp_top_k p))"
      "dropped = dr @ map (\<lambda>r. (ri_item r, ''budget_exceeded'')) (drop n (sort_key (\<lambda>r. - ri_score r) scored))"
      "mset (map ri_item scored @ map fst dr) = mset (fst (list_active u (Some t) (Some [USER, SESSION]) False st))"
      "\<forall>x \<in> set scored. rp_inject_min_score p \<le> ri_score x" "snd ` set dr \<subseteq> {''wrong_intent'', ''low_score''}"
      "if touch \<and> best \<noteq> [] then access_marked (map (\<lambda>x. mi_id (ri_item x)) best) (ms_items st) (ms_items st')
       else ms_items st' = ms_items st"
proof -
  obtain items st1 where l: "list_active u (Some t) (Some [USER, SESSION]) False st = (items, st1)" by (metis prod.exhaust)
  define recall_text where "recall_text = strip (build_hyde_query v p query)"
  define q where "q = \<lparr>rk_tokens = memory_tokenize query,
      rk_embedding = (if recall_text = [] \<or> \<not> rp_use_vector p then None else rv_embed v recall_text),
      rk_route_kind = kind, rk_recommended_tools = tools\<rparr>"
  obtain scored dr st2 where r: "recall_items v p q items st1 = (scored, dr, st2)" by (metis prod.exhaust)
  define ordered where "ordered = sort_key (\<lambda>r. - ri_score r) scored"
  define n where "n = nat (max 0 (rp_top_k p))"
  have l1: "ms_items st1 = ms_items st" "fst (list_active u (Some t) (Some [USER, SESSION]) False st) = items"
    using list_active_state [OF l] l by simp_all
  note R = recall_items_parts [OF r]
  have shape: "recall_long_term_items_with_explain v p u t query touch kind tools st =
      (if \<not> rp_long_term_enabled p \<or> strip query = [] then ([], [], st)
       else if rk_tokens q = [] \<and> rk_embedding q = None then ([], [], st1)
       else (take n ordered, dr @ map (\<lambda>r. (ri_item r, ''budget_exceeded'')) (drop n ordered),
             if touch then touch_access (map (\<lambda>r. mi_id (ri_item r)) (take n ordered)) st2 else st2))"
    unfolding recall_long_term_items_with_explain_def l prod.case Let_def recall_text_def [symmetric] q_def [symmetric] r
      ordered_def [symmetric] n_def [symmetric] by (rule refl)
  consider "best = []" "dropped = []" "ms_items st' = ms_items st"
    | "best = take n ordered" "dropped = dr @ map (\<lambda>r. (ri_item r, ''budget_exceeded'')) (drop n ordered)"
      "st' = (if touch then touch_access (map (\<lambda>r. mi_id (ri_item r)) (take n ordered)) st2 else st2)"
    using assms l1(1) unfolding shape by (auto split: if_splits)
  then show thesis
  proof cases
    case 1
    then show thesis by (rule none)
  next
    case 2
    have "if touch \<and> best \<noteq> [] then access_marked (map (\<lambda>x. mi_id (ri_item x)) best) (ms_items st) (ms_items st')
       else ms_items st' = ms_items st"
    proof (cases "touch \<and> best \<noteq> []")
      case True
      then show ?thesis using 2 R l1(1) touch_access_items [of "map (\<lambda>r. mi_id (ri_item r)) (take n ordered)" st2]
        by (simp add: access_marked_def)
    next
      case False
      then show ?thesis using 2 R l1(1) by (auto simp: touch_access_def)
    qed
    then show thesis using some [of n scored dr] 2 R l1(2) by (simp add: ordered_def n_def)
  qed
qed

lemma add_insert_middle: "a + b = s \<Longrightarrow> s + c = t \<Longrightarrow> a + (c + b) = t" for a :: "'a multiset"
  by (metis add.assoc add.commute)


section \<open>The text\<close>

lemma cut_text_length: "3 \<le> n \<Longrightarrow> int (length (cut_text_at n s)) \<le> n"
  using ellipsis_length [of n s] by (simp add: cut_text_at_def ellipsis_text_def)

lemma keep_lines_none: "0 < m \<Longrightarrow> m < u \<Longrightarrow> keep_lines m u ls = []"
  by (induction m u ls rule: keep_lines.induct) auto

lemma keep_lines_within:
  "0 < m \<Longrightarrow> u \<le> m \<Longrightarrow> u + int (sum_list (map (\<lambda>l. length l + 1) (keep_lines m u ls))) \<le> m"
proof (induction m u ls rule: keep_lines.induct)
  case (2 m u l ls)
  show ?case
  proof (cases "m < u + (int (length l) + 1)")
    case True
    then show ?thesis using 2 by simp
  next
    case False
    then show ?thesis using "2.IH"(2) "2.prems" by simp
  qed
qed simp

lemma join_lines_length: "xs \<noteq> [] \<Longrightarrow> length (join nl xs) + 1 = sum_list (map (\<lambda>l. length l + 1) xs)"
  by (induction nl xs rule: join.induct) (simp_all add: nl_def)

lemma budget_section_within:
  assumes "0 < m"
  shows "int (length (budget_section title ls m)) \<le> m"
proof -
  let ?u = "int (length title) + 1"
  show ?thesis
  proof (cases "keep_lines m ?u ls = []")
    case True
    then show ?thesis using assms by (simp add: budget_section_def)
  next
    case False
    then have "?u \<le> m" using keep_lines_none [OF assms] by (meson linorder_not_le)
    from keep_lines_within [OF assms this, of ls] join_lines_length [OF False] show ?thesis
      using False by (simp add: budget_section_def nl_def)
  qed
qed

lemma strip_prefix: "p \<noteq> [] \<Longrightarrow> \<not> is_space (hd p) \<Longrightarrow> \<not> is_space (last p) \<Longrightarrow> starts_with (strip (p @ t)) p"
  using rstrip_prefix [of p t] by (cases p) (auto simp: strip_def lstrip_def starts_with_iff)

lemma prefix_ends: "MEMORY_CONTEXT_PREFIX \<noteq> []" "\<not> is_space (hd MEMORY_CONTEXT_PREFIX)" "\<not> is_space (last MEMORY_CONTEXT_PREFIX)"
  "length MEMORY_CONTEXT_PREFIX = 15"
  by (simp_all add: MEMORY_CONTEXT_PREFIX_def is_space_def)

lemma context_prefix: "starts_with (render_memory_context v p summary earlier items) MEMORY_CONTEXT_PREFIX"
proof -
  have "\<exists>t. join sep (x # xs) = x @ t" for sep x and xs :: "string list" by (cases xs) auto
  then show ?thesis unfolding render_memory_context_def Let_def using strip_prefix [OF prefix_ends(1-3)] by metis
qed

lemma preview_facts:
  assumes "b = build_episodic_inject_bundle v p summary earlier conflicts dropped items" and "rp_enabled p" and "18 \<le> rp_summary_max_chars p"
  shows "int (length (ib_inject_preview b)) \<le> rp_summary_max_chars p" "starts_with (ib_inject_preview b) MEMORY_CONTEXT_PREFIX"
proof -
  define body where "body = render_memory_context v p summary earlier items"
  define whole where "whole = strip (body @ nl @ nl @ memory_rules summary earlier items)"
  obtain t where t: "body = MEMORY_CONTEXT_PREFIX @ t" using context_prefix starts_with_iff by (metis body_def)
  then have "body \<noteq> []" using prefix_ends(1) by simp
  then have preview: "ib_inject_preview b =
      (if rp_summary_max_chars p < int (length whole) then cut_text_at (rp_summary_max_chars p) whole else whole)"
    using assms(2) by (simp add: assms(1) build_episodic_inject_bundle_def Let_def body_def whole_def)
  have "starts_with whole MEMORY_CONTEXT_PREFIX" unfolding whole_def t append_assoc by (rule strip_prefix [OF prefix_ends(1-3)])
  moreover from ellipsis_prefix [OF this prefix_ends(1,3), of "rp_summary_max_chars p"]
  have "starts_with (ellipsis_text (rp_summary_max_chars p) whole) MEMORY_CONTEXT_PREFIX" using assms(3) by (simp add: prefix_ends(4))
  ultimately show "starts_with (ib_inject_preview b) MEMORY_CONTEXT_PREFIX"
    using assms(3) by (simp add: preview cut_text_at_def ellipsis_text_def)
  show "int (length (ib_inject_preview b)) \<le> rp_summary_max_chars p"
    using cut_text_length [of "rp_summary_max_chars p" whole] assms(3) by (simp add: preview)
qed

text \<open>
  C40. The text of what is remembered keeps its budget, starts with the prefix that names it, and is built of
  sections that each keep their own; a policy that is switched off tells nothing.
\<close>
theorem memory_text_bounded:
  assumes "b = build_episodic_inject_bundle v p summary earlier conflicts dropped items" and "18 \<le> rp_summary_max_chars p"
  shows "int (length (ib_inject_preview b)) \<le> rp_summary_max_chars p
    \<and> (if rp_enabled p then starts_with (ib_inject_preview b) MEMORY_CONTEXT_PREFIX \<and> ib_recalled_long_term b = items
       else memory_context_message b = None \<and> ib_recalled_long_term b = [])
    \<and> (\<forall>title ls m. 0 < m \<longrightarrow> int (length (budget_section title ls m)) \<le> m)"
proof (cases "rp_enabled p")
  case True
  moreover have "ib_recalled_long_term b = items" using True by (simp add: assms(1) build_episodic_inject_bundle_def Let_def)
  ultimately show ?thesis using preview_facts [OF assms(1) True assms(2)] budget_section_within by simp
next
  case False
  then show ?thesis using assms budget_section_within
    by (simp add: build_episodic_inject_bundle_def memory_context_message_def Let_def)
qed

section \<open>A small memory\<close>

definition demo_recall_env :: recall_env where
  "demo_recall_env = \<lparr>rv_exp = (\<lambda>x. 1 / (1 - x)), rv_log1p = (\<lambda>x. x), rv_embed = (\<lambda>t. None), rv_cosine = (\<lambda>a b. 0),
     rv_llm_hyde = (\<lambda>t. None), rv_fixed2 = (\<lambda>r. int_str \<lfloor>r * 100\<rfloor>)\<rparr>"

definition demo_recall_policy :: recall_policy where
  "demo_recall_policy = \<lparr>rp_enabled = True, rp_long_term_enabled = True, rp_hyde_enabled = True, rp_hyde_rule_mode = True, rp_top_k = 1,
     rp_min_score = 2 / 10, rp_inject_min_score = 35 / 100, rp_use_vector = False, rp_vector_min_score = 55 / 100,
     rp_keyword_weight = 1 / 2, rp_vector_weight = 35 / 100, rp_time_weight = 1 / 4, rp_importance_weight = 1 / 4,
     rp_confidence_weight = 15 / 100, rp_access_weight = 1 / 10, rp_half_life_days = 14, rp_access_half_life_days = 30,
     rp_boost = (\<lambda>t. 3 / 100), rp_episodic_top_k = 2, rp_conflict_threshold = 15 / 100, rp_summary_max_chars = 1200,
     rp_summary_budget_chars = 260, rp_episodic_budget_chars = 420, rp_long_term_budget_chars = 520, rp_max_per_type = 2\<rparr>"


theorem memory_text_bounded_witness:
  "length (ib_inject_preview (build_episodic_inject_bundle demo_recall_env demo_recall_policy [] [] [] [] [])) \<le> 1200"
  using memory_text_bounded [OF refl, of demo_recall_policy demo_recall_env "[]" "[]" "[]" "[]" "[]"]
  by (simp add: demo_recall_policy_def)

text \<open>The message of the memory is not one of those that packing trims or drops.\<close>

lemma memory_message_not_packed:
  assumes "b = build_episodic_inject_bundle v p summary earlier conflicts dropped items" and "rp_enabled p" and "18 \<le> rp_summary_max_chars p"
  shows "\<exists>t. memory_context_message b = Some t \<and> msg_kind (system_message t) = ''system''"
proof -
  obtain r where r: "ib_inject_preview b = MEMORY_CONTEXT_PREFIX @ r" using preview_facts(2) [OF assms] starts_with_iff by auto
  have s: "starts_with (strip (ib_inject_preview b)) MEMORY_CONTEXT_PREFIX" unfolding r by (rule strip_prefix [OF prefix_ends(1-3)])
  then obtain q where q: "strip (ib_inject_preview b) = MEMORY_CONTEXT_PREFIX @ q" using starts_with_iff by auto
  have "ib_enabled b" using assms(2) by (simp add: assms(1) build_episodic_inject_bundle_def Let_def)
  then have "memory_context_message b = Some (MEMORY_CONTEXT_PREFIX @ q)"
    by (simp add: memory_context_message_def q MEMORY_CONTEXT_PREFIX_def)
  moreover have "msg_kind (system_message (MEMORY_CONTEXT_PREFIX @ q)) = ''system''"
    by (simp add: msg_kind_def is_human_def system_message_def msg_text_def py_or_str MEMORY_CONTEXT_PREFIX_def)
  ultimately show ?thesis by blast
qed

end
