(* ===== verification/ContextTurn.thy ===== *)
theory ContextTurn
  imports RecallProps ContextGateProps Routing
begin

text \<open>
  The messages of a turn: what is put together for the graph (\<^verbatim>\<open>copilot_agent/context/assemble.py\<close>) and how it is
  fitted, with the checkpoint of the thread, into the budget (\<^verbatim>\<open>ContextManager.assemble\<close> in \<^verbatim>\<open>context/manager.py\<close>).
  A turn may end with the thread over its budget; what is left then is said below.
\<close>

section \<open>Putting it together\<close>

definition checkpoint_has_prior_turns :: "checkpoint_state \<Rightarrow> bool" where
  "checkpoint_has_prior_turns st = list_ex is_human (ck_messages st)"

definition existing_system_contents :: "checkpoint_state \<Rightarrow> string list" where
  "existing_system_contents st =
     filter (\<lambda>t. t \<noteq> []) (map (\<lambda>m. strip (msg_text m)) (filter (\<lambda>m. cm_class m = SystemMsg) (ck_messages st)))"

definition memory_message_seen :: "string list \<Rightarrow> string \<Rightarrow> bool" where
  "memory_message_seen existing content \<longleftrightarrow>
     (let text = strip content; same = (\<lambda>prefix prior. starts_with prior prefix \<and> starts_with text prefix \<and> prior = text)
      in text = [] \<or> text \<in> set existing
         \<or> list_ex (\<lambda>prior. same ''[EpisodicMemory]'' prior \<or> same ''[MemoryContext]'' prior \<or> same ''[LongTermMemory]'' prior) existing)"

definition build_graph_turn_messages ::
    "bool \<Rightarrow> bool \<Rightarrow> string \<Rightarrow> string option \<Rightarrow> chat_msg list \<Rightarrow> string list \<Rightarrow> checkpoint_state \<Rightarrow> chat_msg list" where
  "build_graph_turn_messages dedupe_prompt dedupe_memory system_prompt memory turn_messages extra st =
     (let existing = (if dedupe_memory then existing_system_contents st else []);
          prompt = strip system_prompt
      in (if (dedupe_prompt \<and> checkpoint_has_prior_turns st) \<or> prompt = [] \<or> prompt \<in> set existing then []
          else [system_message prompt])
         @ (case memory of None \<Rightarrow> []
            | Some t \<Rightarrow> if dedupe_memory \<and> memory_message_seen existing t then [] else [system_message t])
         @ map system_message (filter (\<lambda>t. strip t \<noteq> [] \<and> \<not> (dedupe_memory \<and> strip t \<in> set existing)) extra)
         @ turn_messages)"

text \<open>The route, the skills and the documents of the turn, in this order.\<close>

definition extra_system :: "context_settings \<Rightarrow> tool_route \<Rightarrow> selected_skill list \<Rightarrow> string option \<Rightarrow> string list" where
  "extra_system x r skills docs =
     (if xs_route_enabled x then [build_route_system_message r] else [])
     @ (let t = skill_system_message skills in if t = [] then [] else [t])
     @ (case docs of None \<Rightarrow> [] | Some t \<Rightarrow> [t])"

definition turn_documents ::
    "rag_env \<Rightarrow> rag_settings \<Rightarrow> context_settings \<Rightarrow> rag_store \<Rightarrow> string \<Rightarrow> tool_route \<Rightarrow> int \<Rightarrow> retrieval_request \<Rightarrow> gate_action \<Rightarrow>
     preretrieved" where
  "turn_documents e s x st goal r budget q action =
     (if action = Retrieve then preretrieve_docs e s x st goal r budget q
      else \<lparr>pd_hits = [], pd_message = None, pd_enabled = False, pd_excerpt_chars = 0, pd_result = None\<rparr>)"

section \<open>Fitting it in\<close>

record turn_context =
  tc_messages :: "chat_msg list"
  tc_used_chars :: int
  tc_steps :: "string list"

definition fit_turn ::
    "reducer \<Rightarrow> context_settings \<Rightarrow> compact_policy \<Rightarrow> bool \<Rightarrow> int \<Rightarrow> chat_msg list \<Rightarrow> checkpoint_state \<Rightarrow>
     (turn_context \<times> checkpoint_state) option" where
  "fit_turn reduce x p persist budget messages st =
     map_option (\<lambda>(r, st).
         let packed = pack_graph_messages (xs_packing_enabled x) (max 0 (budget - pr_chars r)) messages
         in (\<lparr>tc_messages = pk_messages packed, tc_used_chars = pk_used packed + pr_chars r,
              tc_steps = pr_steps r @ pk_steps packed\<rparr>, st))
       (pack_checkpoint_for_budget reduce (xs_checkpoint_pack_enabled x) p persist budget (total_message_chars messages) st)"

section \<open>What a turn keeps\<close>

lemma packed_parts:
  "step_ok ms (pk_messages (pack_graph_messages enabled n ms))
   \<and> pk_used (pack_graph_messages enabled n ms) = total_message_chars (pk_messages (pack_graph_messages enabled n ms))"
proof (cases "\<not> enabled \<or> n \<le> 0 \<or> total_message_chars ms \<le> n")
  case True
  then show ?thesis by (auto simp: pack_graph_messages_def Let_def step_ok_refl)
next
  case False
  let ?p = "\<lparr>pk_messages = ms, pk_used = total_message_chars ms, pk_steps = []\<rparr>"
  let ?fs = "[trim_kind ''memory'' (max 200 (n div 8)), trim_kind ''rag'' (max 400 (n div 4)), drop_kind ''memory'', drop_kind ''rag'']"
  have "list_all good_step ?fs" by (simp add: good_steps)
  from run_steps_ok [OF this, of ?p n] show ?thesis using False by (simp add: pack_graph_messages_def Let_def)
qed

lemma packed_within: "total_message_chars ms \<le> n \<Longrightarrow> pack_graph_messages enabled n ms = \<lparr>pk_messages = ms, pk_used = total_message_chars ms, pk_steps = []\<rparr>"
  by (simp add: pack_graph_messages_def Let_def)

lemma turn_is_last:
  "\<exists>before. build_graph_turn_messages dp dm prompt memory turn extra st = before @ turn"
  by (simp add: build_graph_turn_messages_def Let_def)



section \<open>Where the guarantees stop\<close>

text \<open>
  When the checkpoint takes the whole budget, there is a budget of 0 for the turn, which packing takes for none:
  the documents and memories of the turn all stay.
\<close>
lemma full_checkpoint_packs_nothing:
  assumes "pack_checkpoint_for_budget reduce (xs_checkpoint_pack_enabled x) p persist budget (total_message_chars messages) st = Some (r, st')"
    and "budget \<le> pr_chars r"
  shows "fit_turn reduce x p persist budget messages st =
    Some (\<lparr>tc_messages = messages, tc_used_chars = total_message_chars messages + pr_chars r, tc_steps = pr_steps r\<rparr>, st')"
  using assms by (simp add: fit_turn_def Let_def pack_graph_messages_def)

text \<open>A turn that reuses the documents of an earlier one is given none.\<close>

lemma reuse_gives_no_documents:
  "pd_message (turn_documents e s x st goal r budget q ReuseCache) = None"
  by (simp add: turn_documents_def)

end
