(* ===== verification/Spec2Isabelle.thy ===== *)
theory Spec2Isabelle
  imports StoreLog StoreThreads StoreBulk PolicyAudit EngineProps TimelineStore SafetyGate ToolHandlers EventMapperProps MemoryProps
  MemoryWrites RetrievalProps ContextProps ContextGateProps RoutingProps RecallProps ContextTurn
begin

text \<open>
  LearnAgent is a tool-calling agent with a durable run runtime: a client posts messages to a thread, the
  engine runs the agent in a task, every step is an event in an event store, and the read models (timeline,
  ledger of side effects, policy audit) are computed from the events. Before a tool runs, its call passes
  a policy gate that may deny it or ask the user. This development models that runtime, \<^verbatim>\<open>runtime\<close>, the
  contracts and payload builders it stands on, the path of a tool call through the gate, the long-term memory, the
  retrieval of documents under a policy, and what decides the context of a turn: its route, whether it gets
  documents, and the packing of its messages. All paths below are relative to \<^verbatim>\<open>src/copilot_agent\<close>.

  \<^bold>\<open>Theories and code\<close>

  \<^item> \<open>PyValue\<close>: Python values, dictionaries in insertion order, strings, \<^verbatim>\<open>int()\<close>, \<^verbatim>\<open>str()\<close>, \<^verbatim>\<open>json.dumps\<close>; the
    error values (\<open>pyerr\<close>); tables as lists of rows.
  \<^item> \<open>RunState\<close> (\<^verbatim>\<open>runtime/run_state.py\<close>): the statuses, the transition table, its validators, and the table
    as a step relation.
  \<^item> \<open>Contracts\<close> (\<^verbatim>\<open>contracts/envelope.py, base.py, adapters/sse.py, events/registry.py\<close>,
    \<^verbatim>\<open>runtime/event_schema.py\<close>): event envelopes, the registry of payload models, SSE frames.
  \<^item> \<open>EventStore\<close> (\<^verbatim>\<open>runtime/event_store.py\<close>): the three tables and every method, \<open>store\<close> being their content with
    the clock and the source of ids. \<open>StoreInv\<close> has its invariant, \<open>StoreProps\<close> the transactions as a step
    relation, \<open>StoreClaims\<close>, \<open>StoreThreads\<close>, \<open>StoreLog\<close> and \<open>StoreBulk\<close> what holds of runs, threads, logs and bulk
    operations.
  \<^item> \<open>Interfaces\<close>: the contracts as locales. \<open>status_system\<close> and \<open>run_log_system\<close> are provided by the store;
    \<open>status_client\<close>, a system whose steps are sequences of another's, by the engine (\<open>EngineSteps\<close>).
  \<^item> \<open>ExecutionEngine\<close> (\<^verbatim>\<open>runtime/execution_engine.py\<close>): every request and every segment of the two coroutines
    between suspension points. \<open>EngineSteps\<close> has the executions (one rule per request, per resumption of a
    task, per action of other users of the store, and the restart), \<open>EngineInv\<close> and \<open>EngineKeeps\<close> the invariant
    of the engine, \<open>EngineRecovery\<close> the restart, \<open>EngineEvidence\<close> what failed and cancelled runs leave in the
    log, \<open>EngineProps\<close> the guarantees of the engine and the places where it has none.
  \<^item> \<open>Sanitize\<close> (\<^verbatim>\<open>tools/sanitize.py\<close>), \<open>ToolAudit\<close> (\<^verbatim>\<open>tools/audit.py\<close>): redaction, and the ledger entries of
    tools with side effects.
  \<^item> \<open>Projections\<close>: read models over a run's events as a locale; \<open>SideEffects\<close> (\<^verbatim>\<open>runtime/side_effects.py\<close>) and
    \<open>PolicyAudit\<close> (\<^verbatim>\<open>runtime/policy_audit.py\<close>) interpret it.
  \<^item> \<open>Timeline\<close> (\<^verbatim>\<open>runtime/timeline.py\<close>): the projection of a run's events for the user interface.
    \<open>TimelineProps\<close> says what a timeline shows, \<open>TimelineStore\<close> what it shows of the store's events.
  \<^item> \<open>Credentials\<close> (\<^verbatim>\<open>credentials\<close>): the binding of a scenario, the secret store with expiry, the manager.
  \<^item> \<open>ToolSpecs\<close> (\<^verbatim>\<open>tools/registry.py, tools/capability, agent/tool_message_policy.py\<close>): the specifications of
    the tools, the registry and the loop of attempts around a tool's coroutine.
  \<^item> \<open>PolicyGate\<close> (\<^verbatim>\<open>policy/registry.py\<close>): the verdict over the tool calls of a message. \<open>Planning\<close>
    (\<^verbatim>\<open>scenario/router/types.py, agent/tool_route_merge.py, agent/plan_builder.py, contracts/plan.py\<close>): routes and
    plans. \<open>SafetyGate\<close> (\<^verbatim>\<open>agent/nodes.py, agent/graph.py\<close>): the node between the assistant and the tools,
    with the events it writes, and the edges of the graph.
  \<^item> \<open>Schemas\<close> (\<^verbatim>\<open>contracts/events/payloads.py, contracts/tool_data.py\<close>): the payload classes as lists of typed
    fields; \<open>EventShapes\<close>: the payload builders conform to them.
  \<^item> \<open>ToolResult\<close> (\<^verbatim>\<open>contracts/tool_result.py, tools/audit.py\<close>): the envelope of a tool's result and the payloads of
    \<open>tool_start\<close> and \<open>tool_end\<close>. \<open>HttpTools\<close> (\<^verbatim>\<open>scenario/http_paths.py, tools/http_tools.py\<close>): the path policy of a
    scenario and the client. \<open>ToolHandlers\<close> (\<^verbatim>\<open>agent/tool_handlers.py\<close>): both http tools with cookies, audit
    events and the reuse of an earlier write.
  \<^item> \<open>Messages\<close> (\<^verbatim>\<open>agent/message_utils.py\<close>): the objects of the graph's event stream and what is read from them.
    \<open>FinalAnswer\<close> (\<^verbatim>\<open>agent/final_answer.py\<close>): the structured answer with its citations. \<open>EventMapper\<close>
    (\<^verbatim>\<open>agent/stream/event_mapper.py\<close>): the translation of a stream to runtime events; \<open>EventMapperProps\<close>: the
    output guard and the bookkeeping of tool calls.
  \<^item> \<open>MemoryItems\<close> (\<^verbatim>\<open>memory/schema.py, item_store*.py, eviction_policy.py\<close>): the table of long-term memory.
    \<open>MemoryWriter\<close> (\<^verbatim>\<open>memory/rule_extract.py, llm_extractor.py, conversion_policy.py, item_writer.py\<close>): what a run
    writes to it. \<open>MemoryGovernance\<close> (\<^verbatim>\<open>memory/manager.py, runtime/memory_governance.py\<close>): what a user decides
    about it. \<open>MemoryTable\<close>: every operation as steps of an abstract table next to transactions of the event
    store. \<open>MemoryProps\<close>: isolation of users and erasure; \<open>MemoryWrites\<close>: capacity, write gate, writing twice.
  \<^item> \<open>Retrieval\<close> (\<^verbatim>\<open>rag/schema.py, policy_filter.py, keyword.py, bm25.py, fusion.py\<close>): chunks, the policy on them, scores.
    \<open>RagStore\<close> (\<^verbatim>\<open>rag/retriever.py, query_router.py, request_context.py, context_guard.py\<close>): the search and the text
    for the model. \<open>RetrievalProps\<close>: the policy is respected, sparse search does not leak, the budget is kept.
  \<^item> \<open>ContextPack\<close> (\<^verbatim>\<open>context/packing.py, context/checkpoint_pack.py, memory/checkpoint_compactor.py\<close>): the budgets
    of a call and of a thread's checkpoint, the summary of old turns. \<open>ContextProps\<close>: packing returns and keeps
    the recent messages of the user.
  \<^item> \<open>ContextGate\<close> (\<^verbatim>\<open>context/retrieval_gate.py, preretrieval.py, preretrieval_dedupe.py\<close>): whether a turn gets
    documents, and the record the next turn finds. \<open>ContextGateProps\<close>: reuse under one policy, exact removal of
    what was given.
  \<^item> \<open>Routing\<close> (\<^verbatim>\<open>scenario/router/engine.py, llm_fallback.py, skills/selection.py\<close>): rules, routes and skills.
    \<open>RoutingProps\<close>: the first rule that matches decides. The calls that may be nested are a number; \<open>enough_calls\<close>
    bounds the ones needed when no predicate leads back to itself.
  \<^item> \<open>MemoryRecall\<close> (\<^verbatim>\<open>memory/recall_policy.py, episodic_recall.py, injection_render.py\<close>): what a turn remembers, and
    the text of it. \<open>RecallProps\<close>: every listed item is recalled or dropped with a reason; the text keeps its
    budget.
  \<^item> \<open>ContextTurn\<close> (\<^verbatim>\<open>context/assemble.py, manager.py\<close>): the messages of a turn and their fitting, with the
    checkpoint, into the budget of the scenario.
  This theory has the properties that span components.

  \<^bold>\<open>Modelling\<close>

  A transaction of the store is atomic, as are its lock and its SQLite transaction; an exception in it rolls
  the tables back and the definitions return the unchanged tables. Only \<^verbatim>\<open>append_event\<close> uses two locked
  sections, and they are two definitions. The time and the ids come from streams in the state. Code between
  two suspension points of asyncio is atomic; the awaited runner, graph and memory calls are environment
  steps with arbitrary effects on the log and an arbitrary outcome. The network is a function from requests to
  responses, the graph a list of the events of its stream. \<^verbatim>\<open>sha256\<close>, \<^verbatim>\<open>urlsplit\<close>'s check of the host,
  the pydantic payload classes and float sums are parameters; a float that is compared or summed
  (importance, scores) is an exact rational; strings have code points below 256. Loops are structural recursions or
  recursions with a measure; \<open>truncate_loop\<close> is a partial function, and \<open>checkpoint_packed\<close> says when it returns. Fuel
  is the number of pages a client reads (\<open>read_pages\<close>; \<open>run_pages_complete\<close> gives a bound that is enough) and the
  number of calls the router may nest (\<open>eval_expr\<close>; \<open>route_decides\<close> gives the bound).

  \<^bold>\<open>Not modelled\<close>

  The nodes of the graph that call a language model, prompts and LLM clients (\<^verbatim>\<open>agent\<close>, \<^verbatim>\<open>llm\<close>: calls of
  LangGraph and of providers); of retrieval the index, ingestion and embeddings (\<^verbatim>\<open>rag\<close>: files and vector
  collections; the search starts from chunks and the answers of an index); of memory the
  summaries of runs and the vectors of texts (\<^verbatim>\<open>memory/short_term*.py, embedding.py\<close>); the reports and events of
  a turn's context (\<^verbatim>\<open>context/events.py, providers.py\<close>); MCP and
  shell tools (processes and their protocols), scenario files, the web server (FastAPI glue), settings and
  observability exporters (environment and network), the evaluation harness and the scripts. SQL text, indexes
  and connection handling of the store are its tables.
\<close>

section \<open>The engine, its log and its timeline\<close>

text \<open>
  C25. What the timeline of a run reports is in order whenever the engine wrote it. From an empty store, after
  any execution of the engine, the timeline of a run (if its payloads let it be built) never warns of a
  gap in the numbering, of a failure without an error event or of a cancellation without a cancelled event:
  the store numbers the events of a run 1, 2, 3, ... and the engine records the evidence before the status.
\<close>

theorem engine_timeline_consistent:
  assumes "engine_init cfg (empty_store clk ids) = Inr g0" and "engine_step\<^sup>*\<^sup>* g0 g"
    and "get_run (eg_store g) rid = Some run"
    and "project_run cost_sum run (run_events (eg_store g) rid) = Some r" and "w \<in> set (rt_warnings r)"
  shows "dget w ''code'' \<notin> PStr ` {''sequence_gap'', ''failed_without_error_event'', ''cancelled_without_event''}"
proof -
  let ?s = "eg_store g"
  have inv: "store_inv ?s" and ev: "evidenced ?s" by (rule evid_run [OF assms(1,2)])+
  have l: "log_inv ?s" and o: "run_events ?s rid = run_log ?s rid" using inv run_events_eq by (auto simp: store_inv_def)
  have types: "logged (run_log ?s rid) ty \<longleftrightarrow> ty \<in> ev_type ` set (run_log ?s rid)" for ty
    by (force simp: logged_def)
  have "evidence ?s rid (rn_status run)" using ev assms(3) by (simp add: evidenced_def run_status_def)
  then have "dget w ''code'' \<in> PStr ` {''completed_without_done'', ''cancel_requested_not_cancelled''}"
    if "w \<in> set (status_warnings (rn_status run) (run_log ?s rid))"
    using that by (auto simp: status_warnings_def evidence_def types Let_def split: if_splits)
  then show ?thesis
    using timeline_codes [OF l assms(4) [unfolded o] assms(5)]
    by (auto simp: loop_code_def LOOP_CODES_def)
qed

theorem engine_timeline_consistent_witness:
  "\<exists>run r. get_run (eg_store demo_failed) ''r0'' = Some run
    \<and> project_run (\<lambda>_. Some PNone) run (run_events (eg_store demo_failed) ''r0'') = Some r
    \<and> PStr ''failed_without_error_event'' \<notin> (\<lambda>w. dget w ''code'') ` set (rt_warnings r)"
proof -
  let ?evs = "run_events (eg_store demo_failed) ''r0''"
  have n: "list_ex (\<lambda>e. \<not> event_ok e) ?evs = False"
      "(observability_summary (ordered_events ?evs) = None) = False"
      "(cost_summary (\<lambda>_. Some PNone) (ordered_events ?evs) = None) = False"
      "(get_run (eg_store demo_failed) ''r0'' = None) = False"
    by code_simp+
  then obtain run where run: "get_run (eg_store demo_failed) ''r0'' = Some run" by auto
  have "project_events (ordered_events ?evs) empty_timeline \<noteq> None"
    using n(1) by (auto simp: project_events_None ordered_events_def list_ex_iff)
  then obtain r where r: "project_run (\<lambda>_. Some PNone) run ?evs = Some r"
    using n(2,3) by (auto simp: project_run_def Let_def split: option.splits)
  have c: "dget w ''code'' \<noteq> PStr ''failed_without_error_event''" if "w \<in> set (rt_warnings r)" for w
    using engine_timeline_consistent [OF demo_init demo_failed_steps run r that] by auto
  have "PStr ''failed_without_error_event'' \<notin> (\<lambda>w. dget w ''code'') ` set (rt_warnings r)"
  proof (rule notI, erule imageE)
    fix w assume "PStr ''failed_without_error_event'' = dget w ''code''" "w \<in> set (rt_warnings r)"
    then show False using c [of w] by simp
  qed
  then show ?thesis using run r by (intro exI [of _ run] exI [of _ r] conjI)
qed

end
